(* ===== verification/Prelude.thy ===== *)
theory Prelude
  imports Main "HOL-Library.Sublist"
begin

text \<open>
  What every component of the development shares: the replies a request handler of
  \<^verbatim>\<open>apps/api\<close> can give (a value, or one of the NestJS exceptions the services throw), the
  combinators that sequence handlers over the database state, the JavaScript notions the
  services lean on (truthiness of a nullable string, \<^verbatim>\<open>String(n)\<close>, \<^verbatim>\<open>padStart\<close>,
  \<^verbatim>\<open>split\<close>/\<^verbatim>\<open>join\<close>, \<^verbatim>\<open>trim\<close>, \<^verbatim>\<open>toLowerCase\<close>) and the generic lemmas about them.

  Strings are character lists; the model reads them as ASCII text.
\<close>

named_theorems reply_simps \<open>evaluation of replies and of the handler combinators\<close>

section \<open>Replies of a request handler\<close>

text \<open>
  The exceptions of \<^verbatim>\<open>@nestjs/common\<close> the services throw, with their message.  \<^verbatim>\<open>ServerError\<close>
  is any other exception (a Prisma unique-constraint failure nobody catches, a plain
  \<^verbatim>\<open>throw new Error\<close>), which NestJS answers with status 500.
\<close>

datatype http_error =
    BadRequest string
  | Unauthorized string
  | Forbidden string
  | NotFound string
  | Conflict string
  | ServerError string

fun http_status :: "http_error \<Rightarrow> nat" where
  "http_status (BadRequest _) = 400"
| "http_status (Unauthorized _) = 401"
| "http_status (Forbidden _) = 403"
| "http_status (NotFound _) = 404"
| "http_status (Conflict _) = 409"
| "http_status (ServerError _) = 500"

type_synonym 'a reply = "http_error + 'a"

text \<open>
  A handler transforms a state and gives a reply.  The state survives an exception: several
  services write (a failed-login event, the revocation of a token family) before they throw.
\<close>

type_synonym ('s, 'a) handler = "'s \<Rightarrow> 'a reply \<times> 's"

abbreviation ok :: "'a \<Rightarrow> 'a reply" where
  "ok x \<equiv> Inr x"

abbreviation throw :: "http_error \<Rightarrow> 'a reply" where
  "throw e \<equiv> Inl e"

definition succeeds :: "'a reply \<times> 's \<Rightarrow> bool" where
  "succeeds r = (case fst r of Inl _ \<Rightarrow> False | Inr _ \<Rightarrow> True)"

lemma succeeds_simps [simp, reply_simps]:
  "succeeds (Inr x, s) = True"
  "succeeds (Inl e, s) = False"
  by (simp_all add: succeeds_def)

lemma succeeds_iff: "succeeds r \<longleftrightarrow> (\<exists>x. fst r = Inr x)"
  by (cases "fst r") (simp_all add: succeeds_def)

definition and_then :: "('s, 'a) handler \<Rightarrow> ('a \<Rightarrow> ('s, 'b) handler) \<Rightarrow> ('s, 'b) handler" where
  "and_then h k s = (case h s of (Inl e, s') \<Rightarrow> (Inl e, s') | (Inr x, s') \<Rightarrow> k x s')"

lemma and_then_error [simp, reply_simps]: "h s = (Inl e, s') \<Longrightarrow> and_then h k s = (Inl e, s')"
  by (simp add: and_then_def)

lemma and_then_ok [simp, reply_simps]: "h s = (Inr x, s') \<Longrightarrow> and_then h k s = k x s'"
  by (simp add: and_then_def)

lemma and_then_succeedsD:
  assumes "and_then h k s = (Inr y, s2)"
  obtains x s1 where "h s = (Inr x, s1)" "k x s1 = (Inr y, s2)"
  using assms by (auto simp: and_then_def split: prod.splits sum.splits)

text \<open>A projection of the state that each part of a sequence keeps is kept by the sequence.\<close>

lemma and_then_frame:
  assumes "f (snd (h s)) = f s" and "\<And>x s'. f (snd (k x s')) = f s'"
  shows "f (snd (and_then h k s)) = f s"
  using assms by (auto simp: and_then_def split: prod.splits sum.splits)

lemma snd_and_then_return [simp]: "snd (and_then h (\<lambda>x s'. (Inr (f x), s')) s) = snd (h s)"
  by (simp add: and_then_def split: prod.splits sum.splits)

section \<open>Nullable values\<close>

text \<open>\<^verbatim>\<open>if (x)\<close> on a \<^verbatim>\<open>string | null | undefined\<close>: null, undefined and the empty string are falsy.\<close>

fun truthy :: "string option \<Rightarrow> bool" where
  "truthy None = False"
| "truthy (Some t) = (t \<noteq> [])"

lemma truthy_iff: "truthy x \<longleftrightarrow> (\<exists>t. x = Some t \<and> t \<noteq> [])"
  by (cases x) auto

text \<open>\<^verbatim>\<open>x ?? d\<close>\<close>

definition or_else :: "'a option \<Rightarrow> 'a \<Rightarrow> 'a" where
  "or_else x d = (case x of None \<Rightarrow> d | Some y \<Rightarrow> y)"

lemma or_else_simps [simp]:
  "or_else None d = d" "or_else (Some y) d = y"
  by (simp_all add: or_else_def)

section \<open>Strings\<close>

definition digit_char :: "nat \<Rightarrow> char" where
  "digit_char n = char_of (48 + n)"

text \<open>\<^verbatim>\<open>String(n)\<close> of a non-negative integer.\<close>

fun string_of_nat :: "nat \<Rightarrow> string" where
  "string_of_nat n =
     (if n < 10 then [digit_char n] else string_of_nat (n div 10) @ [digit_char (n mod 10)])"

declare string_of_nat.simps [simp del]

text \<open>\<^verbatim>\<open>s.padStart(w, c)\<close>\<close>

definition pad_start :: "nat \<Rightarrow> char \<Rightarrow> string \<Rightarrow> string" where
  "pad_start w c t = replicate (w - length t) c @ t"

definition in_range :: "nat \<Rightarrow> nat \<Rightarrow> char \<Rightarrow> bool" where
  "in_range lo hi c = (lo \<le> of_char c \<and> of_char c \<le> hi)"

definition is_digit :: "char \<Rightarrow> bool" where
  "is_digit c = in_range 48 57 c"

definition is_upper :: "char \<Rightarrow> bool" where
  "is_upper c = in_range 65 90 c"

definition is_lower :: "char \<Rightarrow> bool" where
  "is_lower c = in_range 97 122 c"

definition lower_char :: "char \<Rightarrow> char" where
  "lower_char c = (if is_upper c then char_of (of_char c + 32 :: nat) else c)"

definition to_lower :: "string \<Rightarrow> string" where
  "to_lower = map lower_char"

definition upper_char :: "char \<Rightarrow> char" where
  "upper_char c = (if is_lower c then char_of (of_char c - 32 :: nat) else c)"

definition to_upper :: "string \<Rightarrow> string" where
  "to_upper = map upper_char"

text \<open>The whitespace \<^verbatim>\<open>String.prototype.trim\<close> and \<^verbatim>\<open>\s\<close> strip, in the ASCII range.\<close>

definition is_space :: "char \<Rightarrow> bool" where
  "is_space c = (of_char c \<in> {9, 10, 11, 12, 13, 32 :: nat})"

definition trim :: "string \<Rightarrow> string" where
  "trim t = rev (dropWhile is_space (rev (dropWhile is_space t)))"

text \<open>\<^verbatim>\<open>s.split(c)\<close> with a one-character separator; \<^verbatim>\<open>''.split(c)\<close> is \<^verbatim>\<open>['']\<close>.\<close>

fun split_on :: "char \<Rightarrow> string \<Rightarrow> string list" where
  "split_on c [] = [[]]"
| "split_on c (x # xs) =
     (if x = c then [] # split_on c xs
      else case split_on c xs of [] \<Rightarrow> [[x]] | w # ws \<Rightarrow> (x # w) # ws)"

fun join_with :: "char \<Rightarrow> string list \<Rightarrow> string" where
  "join_with c [] = []"
| "join_with c [w] = w"
| "join_with c (w # v # ws) = w @ c # join_with c (v # ws)"

lemma split_on_not_Nil [simp]: "split_on c t \<noteq> []"
  by (induction t) (auto split: list.splits)

lemma split_on_word [simp]: "c \<notin> set w \<Longrightarrow> split_on c w = [w]"
  by (induction w) auto

lemma split_on_append [simp]: "c \<notin> set w \<Longrightarrow> split_on c (w @ c # rest) = w # split_on c rest"
  by (induction w) auto

lemma split_on_join_with:
  assumes "ws \<noteq> []" and "\<And>w. w \<in> set ws \<Longrightarrow> c \<notin> set w"
  shows "split_on c (join_with c ws) = ws"
  using assms by (induction c ws rule: join_with.induct) auto

lemma join_with_split_on [simp]: "join_with c (split_on c t) = t"
proof (induction t)
  case Nil
  then show ?case by simp
next
  case (Cons x t)
  obtain w ws where "split_on c t = w # ws"
    by (cases "split_on c t") auto
  with Cons show ?case
    by (cases ws) auto
qed

lemma split_on_parts_clean: "w \<in> set (split_on c t) \<Longrightarrow> c \<notin> set w"
  by (induction t arbitrary: w) (auto split: if_splits list.splits)

text \<open>\<^verbatim>\<open>t.startsWith(p)\<close> and \<^verbatim>\<open>t.includes(p)\<close>\<close>

definition starts_with :: "string \<Rightarrow> string \<Rightarrow> bool" where
  "starts_with p t = (take (length p) t = p)"

fun contains_str :: "string \<Rightarrow> string \<Rightarrow> bool" where
  "contains_str p [] = (p = [])"
| "contains_str p (c # cs) = (starts_with p (c # cs) \<or> contains_str p cs)"

lemma starts_with_prefix: "starts_with p t \<longleftrightarrow> prefix p t"
  unfolding starts_with_def prefix_def
  by (metis append_eq_conv_conj append_take_drop_id)

lemma starts_with_append [simp]: "starts_with p (p @ t)"
  by (simp add: starts_with_def)

lemma contains_str_sublist: "contains_str p t \<longleftrightarrow> sublist p t"
  by (induction p t rule: contains_str.induct)
    (auto simp: starts_with_prefix sublist_Cons_right)

section \<open>Sums and bounds over lists\<close>

lemma sum_list_append_map [simp]: "sum_list (map f (xs @ [x])) = sum_list (map f xs) + f x"
  for f :: "'a \<Rightarrow> 'b :: monoid_add"
  by simp

lemma filter_all_False: "(\<And>x. x \<in> set xs \<Longrightarrow> \<not> P x) \<Longrightarrow> filter P xs = []"
  by (induction xs) auto

end
