(* ===== verification/Tables.thy ===== *)
theory Tables
  imports Prelude
begin

text \<open>
  The part of Prisma's client the services use, on tables kept as lists of rows in creation
  order: \<^verbatim>\<open>findUnique\<close>/\<^verbatim>\<open>findFirst\<close> (the first row that matches), \<^verbatim>\<open>count\<close>, \<^verbatim>\<open>updateMany\<close>
  with the number of rows it changed, \<^verbatim>\<open>deleteMany\<close> and \<^verbatim>\<open>create\<close> (which appends).  The lemmas
  say how a lookup or a count sees a table after each of these operations; the locale
  \<^verbatim>\<open>row_history\<close> is the contract of a table whose rows only move forward.
\<close>

named_theorems table_simps \<open>how lookups and counts read an updated table\<close>

section \<open>Operations\<close>

abbreviation find_row :: "('r \<Rightarrow> bool) \<Rightarrow> 'r list \<Rightarrow> 'r option" where
  "find_row P rows \<equiv> List.find P rows"

definition count_rows :: "('r \<Rightarrow> bool) \<Rightarrow> 'r list \<Rightarrow> nat" where
  "count_rows P rows = length (filter P rows)"

definition update_rows :: "('r \<Rightarrow> bool) \<Rightarrow> ('r \<Rightarrow> 'r) \<Rightarrow> 'r list \<Rightarrow> 'r list" where
  "update_rows P f rows = map (\<lambda>r. if P r then f r else r) rows"

definition delete_rows :: "('r \<Rightarrow> bool) \<Rightarrow> 'r list \<Rightarrow> 'r list" where
  "delete_rows P rows = filter (\<lambda>r. \<not> P r) rows"

definition exists_row :: "('r \<Rightarrow> bool) \<Rightarrow> 'r list \<Rightarrow> bool" where
  "exists_row P rows = list_ex P rows"

section \<open>Lookups\<close>

lemma find_row_Some_D: "find_row P rows = Some r \<Longrightarrow> P r \<and> r \<in> set rows"
  by (auto simp: find_Some_iff)

lemma find_row_None_iff: "find_row P rows = None \<longleftrightarrow> (\<forall>r \<in> set rows. \<not> P r)"
  by (auto simp: find_None_iff)

lemma find_row_append [table_simps]:
  "find_row P (rows @ more) =
     (case find_row P rows of None \<Rightarrow> find_row P more | Some r \<Rightarrow> Some r)"
  by (induction rows) auto

lemma find_row_ex: "(\<exists>r. find_row P rows = Some r) \<longleftrightarrow> (\<exists>r \<in> set rows. P r)"
  using find_row_None_iff [of P rows] by (cases "find_row P rows") auto

lemma find_row_update_keep:
  assumes "\<And>r. Q (f r) = Q r"
  shows "find_row Q (update_rows P f rows) =
           map_option (\<lambda>r. if P r then f r else r) (find_row Q rows)"
  using assms by (induction rows) (auto simp: update_rows_def)

lemma find_row_cong:
  assumes "\<And>r. r \<in> set rows \<Longrightarrow> P r = Q r"
  shows "find_row P rows = find_row Q rows"
  using assms by (induction rows) auto

lemma find_row_delete_keep:
  assumes "\<And>r. r \<in> set rows \<Longrightarrow> Q r \<Longrightarrow> \<not> P r"
  shows "find_row Q (delete_rows P rows) = find_row Q rows"
  using assms by (induction rows) (auto simp: delete_rows_def)

text \<open>With a column of distinct values, the row found by that column is the only one.\<close>

lemma find_row_unique:
  assumes "distinct (map key rows)" and "r \<in> set rows" and "key r = k"
  shows "find_row (\<lambda>x. key x = k) rows = Some r"
  using assms by (induction rows) auto

section \<open>Counting, updating, deleting\<close>

text \<open>A unique column.\<close>

definition unique_on :: "('r \<Rightarrow> 'k) \<Rightarrow> 'r list \<Rightarrow> bool" where
  "unique_on key rows = distinct (map key rows)"

lemma count_rows_simps [simp, table_simps]:
  "count_rows P [] = 0"
  "count_rows P (r # rows) = (if P r then 1 else 0) + count_rows P rows"
  "count_rows P (rows @ more) = count_rows P rows + count_rows P more"
  by (simp_all add: count_rows_def)

lemma count_rows_0_iff: "count_rows P rows = 0 \<longleftrightarrow> (\<forall>r \<in> set rows. \<not> P r)"
  by (induction rows) auto

lemma count_rows_pos: "r \<in> set rows \<Longrightarrow> P r \<Longrightarrow> 0 < count_rows P rows"
  using count_rows_0_iff [of P rows] by auto

lemma count_rows_mono:
  "(\<And>r. r \<in> set rows \<Longrightarrow> P r \<Longrightarrow> Q r) \<Longrightarrow> count_rows P rows \<le> count_rows Q rows"
  by (induction rows) (auto simp: trans_le_add2)

lemma count_rows_nothing [simp]: "count_rows (\<lambda>_. False) rows = 0"
  by (induction rows) simp_all

lemma update_rows_simps [simp]:
  "update_rows P f [] = []"
  "update_rows P f (r # rows) = (if P r then f r else r) # update_rows P f rows"
  "update_rows P f (rows @ more) = update_rows P f rows @ update_rows P f more"
  by (simp_all add: update_rows_def)

lemma length_update_rows [simp]: "length (update_rows P f rows) = length rows"
  by (simp add: update_rows_def)

lemma set_update_rows:
  "r \<in> set (update_rows P f rows) \<longleftrightarrow> (\<exists>r0 \<in> set rows. r = (if P r0 then f r0 else r0))"
  by (auto simp: update_rows_def)

lemma ball_update_rows [simp]:
  "(\<forall>r \<in> set (update_rows P f rows). Q r) \<longleftrightarrow>
     (\<forall>r \<in> set rows. if P r then Q (f r) else Q r)"
  by (induction rows) auto

lemma bex_update_rows [simp]:
  "(\<exists>r \<in> set (update_rows P f rows). Q r) \<longleftrightarrow>
     (\<exists>r \<in> set rows. if P r then Q (f r) else Q r)"
  by (induction rows) auto

lemma image_update_rows: "(\<And>r. f (g r) = f r) \<Longrightarrow> f ` set (update_rows P g rows) = f ` set rows"
  by (induction rows) auto

lemma update_rows_none: "(\<And>r. r \<in> set rows \<Longrightarrow> \<not> P r) \<Longrightarrow> update_rows P f rows = rows"
  by (induction rows) auto

text \<open>Rows outside the update's reach are untouched.\<close>

lemma filter_update_rows:
  assumes "\<And>r. r \<in> set rows \<Longrightarrow> P r \<Longrightarrow> \<not> Q r \<and> \<not> Q (f r)"
  shows "filter Q (update_rows P f rows) = filter Q rows"
  using assms by (induction rows) auto

lemma count_rows_update_keep:
  assumes "\<And>r. r \<in> set rows \<Longrightarrow> P r \<Longrightarrow> Q (f r) = Q r"
  shows "count_rows Q (update_rows P f rows) = count_rows Q rows"
  using assms by (induction rows) auto

lemma count_rows_update_clear:
  assumes "\<And>r. P r \<Longrightarrow> \<not> Q (f r)"
  shows "count_rows Q (update_rows P f rows) = count_rows (\<lambda>r. Q r \<and> \<not> P r) rows"
  using assms by (induction rows) auto

text \<open>An update of rows into a count, out of it, and of at most one row.\<close>

lemma count_rows_update_le:
  assumes "\<And>r. r \<in> set rows \<Longrightarrow> P r \<Longrightarrow> Q (f r) \<Longrightarrow> Q r"
  shows "count_rows Q (update_rows P f rows) \<le> count_rows Q rows"
  using assms by (induction rows) (auto simp: le_Suc_eq)

lemma count_rows_update_drop:
  assumes "\<And>r. r \<in> set rows \<Longrightarrow> P r \<Longrightarrow> Q (f r) \<Longrightarrow> Q r"
    and "x \<in> set rows" and "P x" and "Q x" and "\<not> Q (f x)"
  shows "Suc (count_rows Q (update_rows P f rows)) \<le> count_rows Q rows"
  using assms
proof (induction rows)
  case (Cons a rows)
  have le: "count_rows Q (update_rows P f rows) \<le> count_rows Q rows"
    using Cons.prems(1) by (intro count_rows_update_le) simp
  show ?case
  proof (cases "x \<in> set rows")
    case True
    with Cons have "Suc (count_rows Q (update_rows P f rows)) \<le> count_rows Q rows" by simp
    with Cons.prems(1) [of a] show ?thesis by auto
  next
    case False
    with Cons.prems have "x = a" by simp
    with le Cons.prems show ?thesis by simp
  qed
qed simp

lemma count_rows_update_one:
  "count_rows Q (update_rows P f rows) \<le> count_rows Q rows + count_rows P rows"
  by (induction rows) auto

lemma count_rows_unique:
  assumes "unique_on key rows"
  shows "count_rows (\<lambda>r. key r = k) rows \<le> 1"
  using assms
proof (induction rows)
  case (Cons a rows)
  have "count_rows (\<lambda>r. key r = k) rows = 0" if "key a = k"
    unfolding count_rows_0_iff using Cons.prems that by (force simp: unique_on_def image_iff)
  with Cons show ?case by (cases "key a = k") (auto simp: unique_on_def)
qed simp

lemma set_delete_rows [simp]: "r \<in> set (delete_rows P rows) \<longleftrightarrow> r \<in> set rows \<and> \<not> P r"
  by (auto simp: delete_rows_def)

lemma delete_rows_append [simp]:
  "delete_rows P (rows @ more) = delete_rows P rows @ delete_rows P more"
  by (simp add: delete_rows_def)

lemma count_rows_delete [simp]:
  "count_rows Q (delete_rows P rows) = count_rows (\<lambda>r. Q r \<and> \<not> P r) rows"
  by (induction rows) (auto simp: delete_rows_def)

lemma exists_row_iff [simp]: "exists_row P rows \<longleftrightarrow> (\<exists>r \<in> set rows. P r)"
  by (auto simp: exists_row_def list_ex_iff)

lemma exists_row_update_keep:
  assumes "\<And>r. r \<in> set rows \<Longrightarrow> P r \<Longrightarrow> Q (f r) = Q r"
  shows "exists_row Q (update_rows P f rows) = exists_row Q rows"
  using assms by (induction rows) (auto simp: exists_row_def)

section \<open>Columns with a unique constraint\<close>

text \<open>A nullable unique column: only the rows that have a value take part.\<close>

definition unique_opt_on :: "('r \<Rightarrow> 'k option) \<Rightarrow> 'r list \<Rightarrow> bool" where
  "unique_opt_on key rows = distinct (filter (\<lambda>k. k \<noteq> None) (map key rows))"

lemma unique_on_append [simp]:
  "unique_on key (rows @ [r]) \<longleftrightarrow> unique_on key rows \<and> key r \<notin> key ` set rows"
  by (auto simp: unique_on_def)

lemma unique_on_update [simp]:
  assumes "\<And>r. key (f r) = key r"
  shows "unique_on key (update_rows P f rows) = unique_on key rows"
proof -
  have "map key (update_rows P f rows) = map key rows"
    using assms by (simp add: update_rows_def)
  then show ?thesis by (simp add: unique_on_def)
qed

lemma unique_on_delete [intro]: "unique_on key rows \<Longrightarrow> unique_on key (delete_rows P rows)"
  by (auto simp: unique_on_def delete_rows_def distinct_map inj_on_def)

lemma unique_onD:
  "unique_on key rows \<Longrightarrow> r \<in> set rows \<Longrightarrow> r' \<in> set rows \<Longrightarrow> key r = key r' \<Longrightarrow> r = r'"
  by (auto simp: unique_on_def distinct_map inj_on_def)

lemma unique_opt_onD:
  assumes "unique_opt_on key rows" and "r \<in> set rows" and "r' \<in> set rows"
    and "key r = key r'" and "key r \<noteq> None"
  shows "r = r'"
  using assms unfolding unique_opt_on_def
  by (induction rows) (auto simp: image_iff split: if_splits)

lemma unique_opt_on_append [simp]:
  "unique_opt_on key (rows @ [r]) \<longleftrightarrow>
     unique_opt_on key rows \<and> (key r = None \<or> key r \<notin> key ` set rows)"
  by (auto simp: unique_opt_on_def)

section \<open>Tables that only grow and whose rows only move forward\<close>

text \<open>
  Many tables are never deleted from: rows are appended, and an update moves a row along a fixed
  order (a revocation is never undone, a status never leaves a final value).
\<close>

definition rows_advance :: "('r \<Rightarrow> 'r \<Rightarrow> bool) \<Rightarrow> 'r list \<Rightarrow> 'r list \<Rightarrow> bool" where
  "rows_advance R xs ys = list_all2 R xs (take (length xs) ys)"

locale row_history =
  fixes R :: "'r \<Rightarrow> 'r \<Rightarrow> bool"
  assumes later_refl: "R x x"
    and later_trans: "R x y \<Longrightarrow> R y z \<Longrightarrow> R x z"
begin

lemma advance_refl [simp]: "rows_advance R xs xs"
  by (simp add: rows_advance_def list_all2_refl later_refl)

lemma advance_length: "rows_advance R xs ys \<Longrightarrow> length xs \<le> length ys"
  by (auto simp: rows_advance_def dest!: list_all2_lengthD)

lemma advance_iff_nth:
  "rows_advance R xs ys \<longleftrightarrow> length xs \<le> length ys \<and> (\<forall>i < length xs. R (xs ! i) (ys ! i))"
  by (auto simp: rows_advance_def list_all2_conv_all_nth)

lemma advance_trans:
  assumes "rows_advance R xs ys" and "rows_advance R ys zs"
  shows "rows_advance R xs zs"
  using assms unfolding advance_iff_nth
  by (meson later_trans less_le_trans order_trans)

lemma advance_append [simp]: "rows_advance R xs (xs @ ys)"
  by (simp add: advance_iff_nth nth_append later_refl)

lemma advance_append_right: "rows_advance R xs ys \<Longrightarrow> rows_advance R xs (ys @ zs)"
  by (auto simp: advance_iff_nth nth_append)

lemma advance_update:
  "(\<And>r. r \<in> set xs \<Longrightarrow> P r \<Longrightarrow> R r (f r)) \<Longrightarrow> rows_advance R xs (update_rows P f xs)"
  by (auto simp: advance_iff_nth update_rows_def later_refl)

lemma advance_find:
  assumes "rows_advance R xs ys" and "find_row Q xs = Some x"
    and "\<And>x y. R x y \<Longrightarrow> Q y = Q x"
  shows "\<exists>y. find_row Q ys = Some y \<and> R x y"
  using assms(1,2)
proof (induction xs arbitrary: ys)
  case (Cons a xs)
  then obtain b ys' where "ys = b # ys'" "R a b" "rows_advance R xs ys'"
    by (cases ys) (auto simp: rows_advance_def)
  with Cons assms(3) show ?case
    by (auto split: if_splits)
qed simp

lemma advance_member:
  "rows_advance R xs ys \<Longrightarrow> x \<in> set xs \<Longrightarrow> \<exists>y \<in> set ys. R x y"
  unfolding advance_iff_nth by (metis in_set_conv_nth less_le_trans nth_mem)

end

end
