(* ===== verification/Contracts.thy ===== *)
theory Contracts
  imports Tables
begin

text \<open>
  The contracts several components of the program promise, stated once over an arbitrary state
  and an arbitrary set of operations:

  \<^item> \<^verbatim>\<open>invariant_system\<close>: an invariant every operation keeps holds after any run;
  \<^item> \<^verbatim>\<open>single_use\<close>: a credential (an authorization code, a refresh token, a login request, a
    single-use token) is redeemed at most once in any run of the system;
  \<^item> \<^verbatim>\<open>issued_credentials\<close>: a code that can be issued again is redeemed at most once per issue;
  \<^item> \<^verbatim>\<open>idempotent_intake\<close>: a machine-to-machine report carries a source id; delivering it again
    changes nothing;
  \<^item> \<^verbatim>\<open>review_once\<close>: a request that two people must agree on is decided at most once, and never
    by the person who made it.

  Each component that makes such a promise interprets the locale on its own operations.
\<close>

section \<open>Runs of a system\<close>

text \<open>A run applies operations from left to right; its log pairs each operation with its outcome.\<close>

fun run_ops :: "('op \<Rightarrow> 's \<Rightarrow> 'r \<times> 's) \<Rightarrow> 'op list \<Rightarrow> 's \<Rightarrow> 's" where
  "run_ops step [] s = s"
| "run_ops step (a # as) s = run_ops step as (snd (step a s))"

fun run_log :: "('op \<Rightarrow> 's \<Rightarrow> 'r \<times> 's) \<Rightarrow> 'op list \<Rightarrow> 's \<Rightarrow> ('op \<times> 'r) list" where
  "run_log step [] s = []"
| "run_log step (a # as) s = (a, fst (step a s)) # run_log step as (snd (step a s))"

lemma run_ops_append [simp]: "run_ops step (as @ bs) s = run_ops step bs (run_ops step as s)"
  by (induction as arbitrary: s) auto

lemma length_run_log [simp]: "length (run_log step as s) = length as"
  by (induction as arbitrary: s) auto

lemma run_log_append [simp]:
  "run_log step (as @ bs) s = run_log step as s @ run_log step bs (run_ops step as s)"
  by (induction as arbitrary: s) auto

section \<open>Invariants\<close>

locale invariant_system =
  fixes step :: "'op \<Rightarrow> 's \<Rightarrow> 'r \<times> 's" and inv :: "'s \<Rightarrow> bool"
  assumes step_inv: "inv s \<Longrightarrow> inv (snd (step a s))"
begin

lemma run_inv: "inv s \<Longrightarrow> inv (run_ops step as s)"
  by (induction as arbitrary: s) (auto intro: step_inv)

end

section \<open>Single-use credentials\<close>

locale single_use = invariant_system step inv
  for step :: "'op \<Rightarrow> 's \<Rightarrow> 'r \<times> 's" and inv :: "'s \<Rightarrow> bool" +
  fixes cred :: "'op \<Rightarrow> 'k option"
    and granted :: "'r \<Rightarrow> bool"
    and spent :: "'k \<Rightarrow> 's \<Rightarrow> bool"
  assumes grant_spends:
      "inv s \<Longrightarrow> cred a = Some k \<Longrightarrow> granted (fst (step a s)) \<Longrightarrow> spent k (snd (step a s))"
    and spent_refuses:
      "inv s \<Longrightarrow> cred a = Some k \<Longrightarrow> spent k s \<Longrightarrow> \<not> granted (fst (step a s))"
    and spent_stays: "inv s \<Longrightarrow> spent k s \<Longrightarrow> spent k (snd (step a s))"
begin

definition redeems :: "'k \<Rightarrow> 'op \<times> 'r \<Rightarrow> bool" where
  "redeems k e = (cred (fst e) = Some k \<and> granted (snd e))"

lemma spent_run: "inv s \<Longrightarrow> spent k s \<Longrightarrow> spent k (run_ops step as s)"
  by (induction as arbitrary: s) (auto intro: spent_stays step_inv)

lemma spent_never_again:
  "inv s \<Longrightarrow> spent k s \<Longrightarrow> count_rows (redeems k) (run_log step as s) = 0"
  by (induction as arbitrary: s)
    (auto simp: redeems_def spent_refuses intro: spent_stays step_inv)

lemma at_most_once: "inv s \<Longrightarrow> count_rows (redeems k) (run_log step as s) \<le> 1"
proof (induction as arbitrary: s)
  case Nil
  then show ?case by simp
next
  case (Cons a as)
  show ?case
  proof (cases "redeems k (a, fst (step a s))")
    case True
    then have "spent k (snd (step a s))"
      using grant_spends [OF Cons.prems] by (simp add: redeems_def)
    then show ?thesis
      using spent_never_again [OF step_inv [OF Cons.prems]] by simp
  next
    case False
    then show ?thesis
      using Cons.IH [OF step_inv [OF Cons.prems]] by simp
  qed
qed

end

section \<open>Credentials issued again and again\<close>

text \<open>
  A typed-in code may be sent twice with the same six digits.  The promise is then a balance:
  every redemption uses up one issue, so a run redeems a code at most as often as it was issued.
\<close>

locale issued_credentials = invariant_system step inv
  for step :: "'op \<Rightarrow> 's \<Rightarrow> 'r \<times> 's" and inv :: "'s \<Rightarrow> bool" +
  fixes cred :: "'op \<Rightarrow> 'k option"
    and granted :: "'r \<Rightarrow> bool"
    and issues :: "'k \<Rightarrow> 'op \<Rightarrow> bool"
    and stock :: "'k \<Rightarrow> 's \<Rightarrow> nat"
  assumes redeem_uses:
      "inv s \<Longrightarrow> cred a = Some k \<Longrightarrow> granted (fst (step a s)) \<Longrightarrow>
         Suc (stock k (snd (step a s))) \<le> stock k s"
    and issue_adds:
      "inv s \<Longrightarrow> stock k (snd (step a s)) \<le> stock k s + (if issues k a then 1 else 0)"
begin

definition used :: "'k \<Rightarrow> 'op \<times> 'r \<Rightarrow> bool" where
  "used k e = (cred (fst e) = Some k \<and> granted (snd e))"

lemma balance:
  "inv s \<Longrightarrow> count_rows (used k) (run_log step as s) + stock k (run_ops step as s) \<le>
     stock k s + count_rows (issues k) as"
proof (induction as arbitrary: s)
  case (Cons a as)
  have "count_rows (used k) (run_log step as (snd (step a s))) +
          stock k (run_ops step as (snd (step a s))) \<le>
        stock k (snd (step a s)) + count_rows (issues k) as"
    using Cons by (simp add: step_inv)
  moreover have "(if used k (a, fst (step a s)) then 1 else 0) + stock k (snd (step a s)) \<le>
      stock k s + (if issues k a then 1 else 0)"
    using redeem_uses [OF Cons.prems, of a k] issue_adds [OF Cons.prems, of k a]
    by (auto simp: used_def)
  ultimately show ?case by simp
qed simp

end

section \<open>Idempotent intake of reported events\<close>

locale idempotent_intake = invariant_system intake inv
  for intake :: "'a \<Rightarrow> 's \<Rightarrow> 'r \<times> 's" and inv :: "'s \<Rightarrow> bool" +
  fixes source :: "'a \<Rightarrow> 'k option"
    and recorded :: "'k \<Rightarrow> 's \<Rightarrow> bool"
    and accepted :: "'r \<Rightarrow> bool"
  assumes accepted_recorded:
      "inv s \<Longrightarrow> source a = Some k \<Longrightarrow> accepted (fst (intake a s)) \<Longrightarrow> recorded k (snd (intake a s))"
    and recorded_noop: "inv s \<Longrightarrow> source a = Some k \<Longrightarrow> recorded k s \<Longrightarrow> snd (intake a s) = s"
    and recorded_stays: "inv s \<Longrightarrow> recorded k s \<Longrightarrow> recorded k (snd (intake a s))"
begin

lemma recorded_run: "inv s \<Longrightarrow> recorded k s \<Longrightarrow> recorded k (run_ops intake as s)"
  by (induction as arbitrary: s) (auto intro: recorded_stays step_inv)

lemma late_redelivery:
  assumes "inv s" and "source a = Some k" and "accepted (fst (intake a s))" and "source b = Some k"
  shows "snd (intake b (run_ops intake as (snd (intake a s)))) = run_ops intake as (snd (intake a s))"
  using assms by (metis accepted_recorded recorded_noop recorded_run run_inv step_inv)

end

section \<open>Requests reviewed by a second person\<close>

locale review_once = invariant_system step inv
  for step :: "'op \<Rightarrow> 's \<Rightarrow> 'r \<times> 's" and inv :: "'s \<Rightarrow> bool" +
  fixes decides :: "'op \<Rightarrow> ('k \<times> 'p) option"
    and accepted :: "'r \<Rightarrow> bool"
    and resolved :: "'k \<Rightarrow> 's \<Rightarrow> bool"
    and requester :: "'k \<Rightarrow> 's \<Rightarrow> 'p option"
  assumes decision_resolves:
      "inv s \<Longrightarrow> decides a = Some (k, p) \<Longrightarrow> accepted (fst (step a s)) \<Longrightarrow> resolved k (snd (step a s))"
    and resolved_refuses:
      "inv s \<Longrightarrow> decides a = Some (k, p) \<Longrightarrow> resolved k s \<Longrightarrow> \<not> accepted (fst (step a s))"
    and resolved_stays: "inv s \<Longrightarrow> resolved k s \<Longrightarrow> resolved k (snd (step a s))"
    and four_eyes:
      "inv s \<Longrightarrow> decides a = Some (k, p) \<Longrightarrow> accepted (fst (step a s)) \<Longrightarrow> requester k s \<noteq> Some p"
begin

definition decision_on :: "'k \<Rightarrow> 'op \<times> 'r \<Rightarrow> bool" where
  "decision_on k e = (map_option fst (decides (fst e)) = Some k \<and> accepted (snd e))"

lemma decided_is_final:
  "inv s \<Longrightarrow> resolved k s \<Longrightarrow> count_rows (decision_on k) (run_log step as s) = 0"
  by (induction as arbitrary: s)
    (auto simp: decision_on_def resolved_refuses intro: resolved_stays step_inv)

lemma decided_once: "inv s \<Longrightarrow> count_rows (decision_on k) (run_log step as s) \<le> 1"
proof (induction as arbitrary: s)
  case Nil
  then show ?case by simp
next
  case (Cons a as)
  show ?case
  proof (cases "decision_on k (a, fst (step a s))")
    case True
    then have "resolved k (snd (step a s))"
      using decision_resolves [OF Cons.prems] by (auto simp: decision_on_def)
    then show ?thesis
      using decided_is_final [OF step_inv [OF Cons.prems]] by simp
  next
    case False
    then show ?thesis
      using Cons.IH [OF step_inv [OF Cons.prems]] by simp
  qed
qed

end

end
