(* ===== verification/Schema.thy ===== *)
theory Schema
  imports Contracts
begin

text \<open>
  The system of record, \<^verbatim>\<open>apps/api/prisma/schema.prisma\<close>: one datatype per enum, one record per
  model the development covers, and the database \<^verbatim>\<open>db\<close> as one record of tables (lists of rows in
  creation order) with two outboxes for what the services send.  A \<^verbatim>\<open>DateTime\<close> is an integer
  number of milliseconds, a nullable column an option, a \<^verbatim>\<open>Decimal\<close> an integer number of units
  of its last decimal place.  \<^verbatim>\<open>env\<close> holds what a request reads from outside the database: the
  clock, the random values it draws, the configuration, and the third-party functions (hashing,
  JWT, bcrypt, OTP, WebAuthn, the SMS provider), which are parameters of every handler.
\<close>

type_synonym id = string
type_synonym time = int

section \<open>Enums\<close>

datatype verification_level = LEVEL_0 | LEVEL_1 | LEVEL_2 | LEVEL_3

datatype login_request_status = LR_PENDING | LR_APPROVED | LR_DENIED | LR_EXPIRED

datatype login_request_method = QR | DEEP_LINK

datatype device_approval_status = DA_PENDING | DA_APPROVED | DA_DENIED | DA_EXPIRED

datatype device_approval_reason = NEW_DEVICE_REASON | RISKY_ACTION

datatype role =
  USER | FOUNDER | SUPER_ADMIN | DEVELOPER | FINANCE | SUPPORT | CONTENT | PARTNERS | AUDITOR

datatype auth_provider = GOOGLE | APPLE

datatype webauthn_challenge_type = REGISTRATION | AUTHENTICATION

datatype cryndy_status =
    PAYMENT_PENDING | PAYMENT_CONFIRMED | UNDER_REVIEW | CP_VERIFIED | ALLOCATED | LOCKED
  | AVAILABLE | DISTRIBUTED_ON_CHAIN | CP_CANCELLED | REFUNDED

datatype ndybits_risk_flag = RF_NONE | FLAGGED_VELOCITY | FLAGGED_DUPLICATE | FLAGGED_MANUAL_REVIEW

datatype membership_tier = RISE | FLOW | PULSE | VAULT | MODE | LEGACY

datatype billing_cycle = MONTHLY | ANNUAL

datatype membership_status = M_ACTIVE | M_CANCELLED | M_EXPIRED

datatype review_status = RV_PENDING | RV_APPROVED | RV_REJECTED

datatype oauth_client_type = CONFIDENTIAL | PUBLIC | AI_AGENT

datatype security_event_type =
    LOGIN_SUCCESS | LOGIN_FAILED | NEW_DEVICE | PASSWORD_CHANGED | PASSKEY_ADDED
  | PASSKEY_REMOVED | TOTP_ENABLED | TOTP_DISABLED | SMS_2FA_ENABLED | SMS_2FA_DISABLED
  | RECOVERY_CODE_USED | EMAIL_CHANGED | OAUTH_APP_CONNECTED | OAUTH_APP_REVOKED
  | OAUTH_TOKEN_REUSE_DETECTED | DEVICE_REVOKED

datatype support_ticket_status = ST_OPEN | ST_RESOLVED

datatype email_folder = INBOX | SENT | DRAFTS | TRASH

datatype workspace_type = PERSONAL | BUSINESS

datatype workspace_role = OWNER | ADMIN | MEMBER

datatype invite_status = IV_PENDING | IV_ACCEPTED | IV_DECLINED | IV_EXPIRED | IV_REVOKED

datatype notification_channel = IN_APP | EMAIL_CHANNEL | SMS_CHANNEL

datatype notification_category =
  SECURITY | ECONOMY | ACTION_APPROVAL | NDYSPACE | SYSTEM | NDYMAIL | SIGNATURE

datatype risk_tier = RT_LOW | RT_MEDIUM | RT_HIGH | RT_CRITICAL

datatype action_approval_status = AA_PENDING | AA_APPROVED | AA_DENIED | AA_EXPIRED

datatype action_execution_status = AE_REJECTED | AE_PENDING_APPROVAL | AE_EXECUTED | AE_DENIED

datatype bridge_status =
  BR_PENDING | BR_ELIGIBLE | BR_INELIGIBLE | BR_COOLING_OFF | BR_APPROVED | BR_EXECUTED | BR_REJECTED

datatype claim_provenance = SELF_ASSERTED | NDY_VERIFIED | THIRD_PARTY_CREDENTIAL

datatype trust_tier = UNVERIFIED | BASIC | VERIFIED | TRUSTED

datatype ndyqr_type =
  LINK | PASSPORT | NDYSTAYS | NDYCONNECT | NDYQUIZ | NDYVIXIT | NDYXTRA | NDYPAY | LOGIN

datatype signature_status = SG_PENDING | SG_SIGNED | SG_DECLINED | SG_EXPIRED | SG_REVOKED

datatype attestation_status = AT_PENDING | AT_VERIFIED | AT_FAILED

datatype memory_type = PREFERENCE | GOAL

datatype ai_scope =
  EMAIL_SUMMARIZE | EMAIL_DRAFT_REPLY | EMAIL_MODIFY_TEXT | EMAIL_CONTENT_EGRESS

datatype task_priority = TP_LOW | TP_MEDIUM | TP_HIGH

datatype task_status = TS_OPEN | TS_COMPLETED

datatype space_notification_type = SN_MAIL | SN_CALENDAR | SN_TASK | SN_SYSTEM

text \<open>The values of a \<^verbatim>\<open>Json\<close> column.\<close>

datatype json =
    JNull
  | JBool bool
  | JNum int
  | JStr string
  | JList "json list"
  | JObj "(string \<times> json) list"

fun role_name :: "role \<Rightarrow> string" where
  "role_name USER = ''USER''"
| "role_name FOUNDER = ''FOUNDER''"
| "role_name SUPER_ADMIN = ''SUPER_ADMIN''"
| "role_name DEVELOPER = ''DEVELOPER''"
| "role_name FINANCE = ''FINANCE''"
| "role_name SUPPORT = ''SUPPORT''"
| "role_name CONTENT = ''CONTENT''"
| "role_name PARTNERS = ''PARTNERS''"
| "role_name AUDITOR = ''AUDITOR''"

section \<open>Users\<close>

text \<open>The passport card: the profile columns of \<^verbatim>\<open>User\<close>.\<close>

record passport =
  full_name :: "string option"
  photo_url :: "string option"
  bio :: "string option"
  country :: "string option"
  website :: "string option"
  linkedin_url :: "string option"
  instagram_url :: "string option"
  x_url :: "string option"
  business_name :: "string option"
  business_role :: "string option"
  phone :: "string option"
  bio_public :: bool
  country_public :: bool
  website_public :: bool
  socials_public :: bool
  business_public :: bool
  phone_public :: bool

definition empty_passport :: passport where
  "empty_passport =
     \<lparr>full_name = None, photo_url = None, bio = None, country = None, website = None,
      linkedin_url = None, instagram_url = None, x_url = None, business_name = None,
      business_role = None, phone = None, bio_public = True, country_public = True,
      website_public = True, socials_public = True, business_public = True, phone_public = True\<rparr>"

record user =
  u_id :: id
  u_core_id :: string
  u_id_type :: "string option"
  u_ndy_id :: string
  u_email :: string
  u_password_hash :: "string option"
  u_passport :: passport
  u_level :: verification_level
  u_email_verified_at :: "time option"
  u_phone_verified_at :: "time option"
  u_identity_verified_at :: "time option"
  u_email_token :: "string option"
  u_email_token_expires :: "time option"
  u_reset_token :: "string option"
  u_reset_expires :: "time option"
  u_totp_secret :: "string option"
  u_totp_enabled_at :: "time option"
  u_sms_phone :: "string option"
  u_sms_enabled_at :: "time option"
  u_challenge :: "string option"
  u_challenge_expires :: "time option"
  u_role :: role
  u_suspended :: bool
  u_suspended_at :: "time option"
  u_deleted_at :: "time option"
  u_ndyapps_connected :: bool
  u_ndyapps_connected_at :: "time option"
  u_default_workspace :: "id option"
  u_created_at :: time

record backup_code =
  bc_id :: id
  bc_user :: id
  bc_hash :: string
  bc_used_at :: "time option"

record auth_identity =
  ai_id :: id
  ai_user :: id
  ai_provider :: auth_provider
  ai_provider_user :: string
  ai_email :: "string option"
  ai_created_at :: time

record passkey =
  pk_id :: id
  pk_user :: id
  pk_rp :: string
  pk_credential :: string
  pk_public_key :: string
  pk_counter :: nat
  pk_transports :: "string list"
  pk_label :: "string option"
  pk_created_at :: time
  pk_last_used_at :: "time option"

record webauthn_challenge =
  wc_id :: id
  wc_challenge :: string
  wc_user :: "id option"
  wc_type :: webauthn_challenge_type
  wc_rp :: string
  wc_expires :: time

record ext_auth_state =
  es_id :: id
  es_provider :: auth_provider
  es_nonce :: string
  es_link_user :: "id option"
  es_redirect :: string
  es_expires :: time

record login_exchange =
  lx_id :: id
  lx_user :: id
  lx_expires :: time

record login_request =
  lr_id :: id
  lr_token :: string
  lr_method :: login_request_method
  lr_status :: login_request_status
  lr_ip :: "string option"
  lr_device :: "string option"
  lr_browser :: "string option"
  lr_location :: "string option"
  lr_user :: "id option"
  lr_expires :: time
  lr_approved_at :: "time option"
  lr_denied_at :: "time option"
  lr_session_issued_at :: "time option"
  lr_created_at :: time

record device_approval =
  dap_id :: id
  dap_user :: id
  dap_device :: "id option"
  dap_reason :: device_approval_reason
  dap_status :: device_approval_status
  dap_match_code :: string
  dap_context :: "string option"
  dap_expires :: time
  dap_approved_at :: "time option"
  dap_denied_at :: "time option"
  dap_created_at :: time

record device =
  d_id :: id
  d_user :: id
  d_device_id :: string
  d_label :: string
  d_alerts :: bool
  d_first_seen :: time
  d_last_seen :: time
  d_revoked_at :: "time option"

record session =
  s_id :: id
  s_user :: id
  s_token_hash :: string
  s_user_agent :: "string option"
  s_ip :: "string option"
  s_device :: "id option"
  s_created_at :: time
  s_expires :: time
  s_revoked_at :: "time option"

record security_event =
  se_user :: id
  se_type :: security_event_type
  se_ip :: "string option"
  se_user_agent :: "string option"
  se_created_at :: time

section \<open>Administration and OAuth\<close>

record audit_entry =
  al_admin_user :: id
  al_admin_ndy_id :: string
  al_action :: string
  al_target_user :: "id option"
  al_target_ndy_id :: "string option"
  al_previous :: "json option"
  al_new :: "json option"
  al_reason :: "string option"
  al_ip :: "string option"
  al_created_at :: time

record role_request =
  rr_id :: id
  rr_target :: id
  rr_target_ndy_id :: string
  rr_requested :: role
  rr_previous :: role
  rr_requester :: id
  rr_requester_ndy_id :: string
  rr_reason :: "string option"
  rr_status :: review_status
  rr_reviewer :: "id option"
  rr_reviewer_ndy_id :: "string option"
  rr_review_reason :: "string option"
  rr_resolved_at :: "time option"
  rr_created_at :: time

record oauth_client =
  oc_id :: id
  oc_client_id :: string
  oc_secret_hash :: "string option"
  oc_type :: oauth_client_type
  oc_name :: string
  oc_redirects :: "string list"
  oc_scopes :: "string list"
  oc_active :: bool

record auth_code =
  ac_id :: id
  ac_code :: string
  ac_user :: id
  ac_client :: id
  ac_redirect :: string
  ac_scope :: string
  ac_challenge :: "string option"
  ac_method :: "string option"
  ac_expires :: time
  ac_used_at :: "time option"

record oauth_grant =
  og_id :: id
  og_user :: id
  og_client :: id
  og_scope :: string
  og_created_at :: time
  og_revoked_at :: "time option"

record oauth_refresh =
  ot_id :: id
  ot_hash :: string
  ot_user :: id
  ot_client :: id
  ot_scope :: string
  ot_family :: string
  ot_device :: "id option"
  ot_created_at :: time
  ot_expires :: time
  ot_revoked_at :: "time option"

record support_ticket =
  tk_id :: id
  tk_user :: id
  tk_subject :: string
  tk_message :: string
  tk_status :: support_ticket_status
  tk_reply :: "string option"
  tk_replied_at :: "time option"
  tk_created_at :: time

record identity_request =
  ir_id :: id
  ir_user :: id
  ir_note :: "string option"
  ir_status :: review_status
  ir_reviewer :: "id option"
  ir_reviewer_ndy_id :: "string option"
  ir_review_reason :: "string option"
  ir_resolved_at :: "time option"
  ir_created_at :: time

section \<open>Economy\<close>

record cryndy_purchase =
  cp_id :: id
  cp_reference :: string
  cp_user :: id
  cp_paid :: int
  cp_currency :: string
  cp_amount :: int
  cp_bonus :: int
  cp_package :: "string option"
  cp_method :: string
  cp_status :: cryndy_status
  cp_provider_tx :: string
  cp_created_at :: time
  cp_verified_at :: "time option"
  cp_allocated_at :: "time option"

record ledger_entry =
  le_id :: id
  le_user :: id
  le_amount :: int
  le_reason :: string
  le_source :: "string option"
  le_campaign :: "string option"
  le_risk :: ndybits_risk_flag
  le_redeemed_at :: "time option"
  le_created_at :: time

record membership =
  ms_id :: id
  ms_user :: id
  ms_tier :: membership_tier
  ms_cycle :: billing_cycle
  ms_status :: membership_status
  ms_started_at :: time
  ms_period_end :: time
  ms_cancelled_at :: "time option"
  ms_subscription :: "string option"
  ms_customer :: "string option"

record reward_rule =
  rw_event :: string
  rw_label :: string
  rw_amount :: int
  rw_daily :: "nat option"
  rw_enabled :: bool

record economy_event =
  ee_id :: id
  ee_event :: string
  ee_user :: id
  ee_client :: "string option"
  ee_source :: string
  ee_denied :: bool
  ee_deny_reason :: "string option"
  ee_ledger :: "id option"
  ee_created_at :: time

record bridge_request =
  br_id :: id
  br_user :: id
  br_direction :: string
  br_amount :: int
  br_rate :: int
  br_status :: bridge_status
  br_note :: "string option"
  br_cooling :: "time option"
  br_ref :: string
  br_created_at :: time
  br_resolved_at :: "time option"

record conversion_policy =
  pol_direction :: string
  pol_rate :: int
  pol_min :: "int option"
  pol_cap :: "int option"
  pol_reserve :: int
  pol_enabled :: bool

record ecosystem_event =
  ev_id :: id
  ev_type :: string
  ev_user :: id
  ev_client :: "string option"
  ev_payload :: "json option"
  ev_source :: string
  ev_created_at :: time

section \<open>Trust, actions, workspaces\<close>

record passport_claim =
  pc_id :: id
  pc_user :: id
  pc_key :: string
  pc_provenance :: claim_provenance
  pc_issuer :: "string option"
  pc_verified_at :: "time option"
  pc_metadata :: "json option"
  pc_created_at :: time

record trust_profile =
  tp_user :: id
  tp_tier :: trust_tier
  tp_score :: int
  tp_computed_at :: time

record action_definition =
  ad_key :: string
  ad_label :: string
  ad_domain :: string
  ad_tier :: risk_tier
  ad_scopes :: "string list"
  ad_reversible :: bool
  ad_enabled :: bool

record action_approval =
  ap_id :: id
  ap_log :: id
  ap_tier :: risk_tier
  ap_status :: action_approval_status
  ap_strong :: bool
  ap_expires :: time
  ap_resolver :: "id option"
  ap_resolved_at :: "time option"
  ap_created_at :: time

record action_log =
  lg_id :: id
  lg_key :: string
  lg_workspace :: id
  lg_user :: id
  lg_ndy_id :: string
  lg_origin :: json
  lg_params :: json
  lg_status :: action_execution_status
  lg_tier :: risk_tier
  lg_reason :: "string option"
  lg_result :: "json option"
  lg_idem :: string
  lg_created_at :: time

record workspace =
  ws_id :: id
  ws_type :: workspace_type
  ws_name :: string
  ws_owner :: id
  ws_business_id :: "string option"
  ws_created_at :: time

record ws_member =
  wm_id :: id
  wm_workspace :: id
  wm_user :: id
  wm_role :: workspace_role
  wm_department :: "string option"
  wm_created_at :: time

record business_request =
  bq_id :: id
  bq_requester :: id
  bq_requester_ndy_id :: string
  bq_name :: string
  bq_reason :: "string option"
  bq_status :: review_status
  bq_reviewer :: "id option"
  bq_reviewer_ndy_id :: "string option"
  bq_review_reason :: "string option"
  bq_resolved_at :: "time option"
  bq_workspace :: "id option"
  bq_created_at :: time

record ws_invite =
  wi_id :: id
  wi_workspace :: id
  wi_email :: string
  wi_role :: workspace_role
  wi_department :: "string option"
  wi_inviter :: id
  wi_inviter_ndy_id :: string
  wi_status :: invite_status
  wi_token :: string
  wi_expires :: time
  wi_resolved_at :: "time option"
  wi_created_at :: time

record notification =
  nt_id :: id
  nt_user :: id
  nt_workspace :: "id option"
  nt_category :: notification_category
  nt_channel :: notification_channel
  nt_title :: string
  nt_body :: string
  nt_link :: "string option"
  nt_read :: bool
  nt_source :: "string option"
  nt_created_at :: time

section \<open>Signatures, QR codes, memories, documents\<close>

record signature_request =
  sr_id :: id
  sr_title :: string
  sr_hash :: string
  sr_ref :: "string option"
  sr_creator :: id
  sr_creator_ndy_id :: string
  sr_status :: signature_status
  sr_expires :: "time option"
  sr_created_at :: time

record signer_slot =
  sl_id :: id
  sl_request :: id
  sl_user :: "id option"
  sl_email :: "string option"
  sl_token :: string
  sl_signed_at :: "time option"
  sl_declined_at :: "time option"
  sl_expires :: time

record signature_row =
  sig_id :: id
  sig_request :: id
  sig_signer :: id
  sig_ndy_id :: string
  sig_hash :: string
  sig_ip :: "string option"
  sig_user_agent :: "string option"
  sig_consent :: "string option"
  sig_attestation :: "string option"
  sig_key_id :: "string option"
  sig_status :: attestation_status
  sig_attempts :: nat
  sig_last_error :: "string option"
  sig_attested_at :: "time option"
  sig_signed_at :: time

record qr_code =
  qr_id :: id
  qr_slug :: string
  qr_owner :: "id option"
  qr_client :: "string option"
  qr_label :: string
  qr_type :: ndyqr_type
  qr_destination :: string
  qr_campaign :: "string option"
  qr_active :: bool
  qr_expires :: "time option"
  qr_style :: string
  qr_color_from :: "string option"
  qr_color_to :: "string option"
  qr_logo :: "string option"
  qr_created_at :: time

record qr_scan =
  qs_code :: id
  qs_at :: time
  qs_ip :: "string option"
  qs_user_agent :: "string option"
  qs_referer :: "string option"
  qs_location :: "string option"
  qs_device :: "string option"

record user_memory =
  me_id :: id
  me_user :: id
  me_type :: memory_type
  me_content :: string
  me_source :: "string option"
  me_enabled :: bool
  me_created_at :: time

record email =
  em_id :: id
  em_sender :: id
  em_subject :: string
  em_body :: string
  em_created_at :: time

record email_recipient =
  er_id :: id
  er_email :: id
  er_user :: id
  er_folder :: email_folder
  er_read :: bool
  er_starred :: bool
  er_cc :: bool
  er_draft_to :: "string list"
  er_draft_cc :: "string list"
  er_created_at :: time

record email_attachment =
  ea_id :: id
  ea_email :: id
  ea_file :: id

record drive_folder =
  df_id :: id
  df_user :: id
  df_name :: string
  df_created_at :: time

record drive_file =
  dv_id :: id
  dv_user :: id
  dv_folder :: "id option"
  dv_name :: string
  dv_mime :: string
  dv_size :: nat
  dv_url :: string
  dv_created_at :: time

record calendar_event =
  ce_id :: id
  ce_user :: id
  ce_title :: string
  ce_description :: "string option"
  ce_start :: time
  ce_end :: time
  ce_color :: string
  ce_attendees :: "string list"
  ce_created_at :: time

record contact =
  cn_id :: id
  cn_user :: id
  cn_full_name :: string
  cn_email :: "string option"
  cn_phone :: "string option"
  cn_company :: "string option"
  cn_notes :: "string option"
  cn_ndy_id :: "string option"
  cn_created_at :: time

record task =
  ta_id :: id
  ta_user :: id
  ta_title :: string
  ta_description :: "string option"
  ta_priority :: task_priority
  ta_status :: task_status
  ta_due :: "time option"
  ta_completed_at :: "time option"
  ta_created_at :: time

record note_row =
  no_id :: id
  no_user :: id
  no_title :: string
  no_body :: string
  no_created_at :: time
  no_updated_at :: time

record bookmark =
  bm_id :: id
  bm_user :: id
  bm_title :: string
  bm_url :: string
  bm_created_at :: time

record space_notification =
  sn_id :: id
  sn_user :: id
  sn_type :: space_notification_type
  sn_message :: string
  sn_read :: bool
  sn_created_at :: time

record ai_consent =
  cs_id :: id
  cs_user :: id
  cs_client :: string
  cs_scopes :: "ai_scope list"
  cs_granted_at :: time
  cs_revoked_at :: "time option"

section \<open>Messages the services send\<close>

text \<open>
  \<^verbatim>\<open>MailService.send\<close> calls end in an outbox with the template they use; the rendered text is not
  modelled.
\<close>

datatype mail =
    VerificationMail string string
  | AccountExistsMail string
  | PasswordResetMail string string
  | PasswordChangedMail string
  | InviteMail string string string
  | NotificationMail string string string
  | SecurityAlertMail string string
  | SignatureInviteMail string string string
  | TicketReplyMail string string

section \<open>The database\<close>

record db =
  users :: "user list"
  backup_codes :: "backup_code list"
  identities :: "auth_identity list"
  passkeys :: "passkey list"
  challenges :: "webauthn_challenge list"
  auth_states :: "ext_auth_state list"
  exchanges :: "login_exchange list"
  login_requests :: "login_request list"
  device_approvals :: "device_approval list"
  devices :: "device list"
  sessions :: "session list"
  security_events :: "security_event list"
  audit_log :: "audit_entry list"
  role_requests :: "role_request list"
  oauth_clients :: "oauth_client list"
  auth_codes :: "auth_code list"
  oauth_grants :: "oauth_grant list"
  oauth_tokens :: "oauth_refresh list"
  tickets :: "support_ticket list"
  identity_requests :: "identity_request list"
  purchases :: "cryndy_purchase list"
  ledger :: "ledger_entry list"
  memberships :: "membership list"
  stripe_events :: "string list"
  reward_rules :: "reward_rule list"
  economy_log :: "economy_event list"
  bridge_requests :: "bridge_request list"
  policies :: "conversion_policy list"
  ecosystem_events :: "ecosystem_event list"
  claims :: "passport_claim list"
  trust_profiles :: "trust_profile list"
  action_definitions :: "action_definition list"
  action_approvals :: "action_approval list"
  action_logs :: "action_log list"
  workspaces :: "workspace list"
  ws_members :: "ws_member list"
  business_requests :: "business_request list"
  ws_invites :: "ws_invite list"
  notifications :: "notification list"
  signature_requests :: "signature_request list"
  signer_slots :: "signer_slot list"
  signatures :: "signature_row list"
  qr_codes :: "qr_code list"
  qr_scans :: "qr_scan list"
  memories :: "user_memory list"
  emails :: "email list"
  email_recipients :: "email_recipient list"
  email_attachments :: "email_attachment list"
  drive_folders :: "drive_folder list"
  drive_files :: "drive_file list"
  calendar_events :: "calendar_event list"
  contacts :: "contact list"
  tasks :: "task list"
  note_rows :: "note_row list"
  bookmarks :: "bookmark list"
  space_notifications :: "space_notification list"
  ai_consents :: "ai_consent list"
  mail_outbox :: "mail list"

end
