(* ===== verification/Env.thy ===== *)
theory Env
  imports Schema
begin

text \<open>
  What a request sees besides the database.  \<^verbatim>\<open>env\<close> is read-only during one request: \<^verbatim>\<open>now\<close> is
  \<^verbatim>\<open>new Date()\<close> (one reading per request, in milliseconds), \<^verbatim>\<open>new_id\<close> the \<^verbatim>\<open>uuid()\<close> default of a
  table's n-th row created by the request, \<^verbatim>\<open>draw\<close> the n-th value a generator of the source
  (\<^verbatim>\<open>nanoid\<close>, \<^verbatim>\<open>randomBytes\<close>, \<^verbatim>\<open>randomInt\<close>) hands to the request.  The other fields are the
  third-party functions the code calls: node's sha256 digest, bcrypt, the JWT library, the TOTP
  check of otplib, AES-GCM, the SMS provider, WebAuthn, the social providers' token endpoints
  and the geo-IP lookup.  Nothing is assumed of them here; a theorem that needs a property of one
  states it as a hypothesis.
\<close>

datatype table =
    T_User | T_BackupCode | T_AuthIdentity | T_Passkey | T_WebauthnChallenge | T_AuthState
  | T_LoginExchange | T_LoginRequest | T_DeviceApproval | T_Device | T_Session | T_RoleRequest
  | T_OAuthClient | T_AuthCode | T_OAuthGrant | T_OAuthRefresh | T_Ticket | T_IdentityRequest
  | T_Purchase | T_Ledger | T_Membership | T_EconomyEvent | T_BridgeRequest | T_EcosystemEvent
  | T_Claim | T_ActionApproval | T_ActionLog | T_Workspace | T_WsMember | T_BusinessRequest
  | T_Invite | T_Notification | T_SignatureRequest | T_SignerSlot | T_Signature | T_QrCode
  | T_Memory | T_Email | T_EmailRecipient | T_Attachment | T_Folder | T_File | T_CalendarEvent
  | T_Contact | T_Task | T_Note | T_Bookmark | T_SpaceNotification | T_AiConsent

datatype secret =
    CoreIdDraw | RefreshTokenDraw | ResetCodeDraw | EmailCodeDraw | LoginTokenDraw
  | ChallengeTokenDraw | TotpSecretDraw | IvDraw | BackupCodeDraw | MatchCodeDraw | WebauthnDraw
  | NonceDraw | AuthCodeDraw | OAuthRefreshDraw | FamilyDraw | ClientIdDraw | ClientSecretDraw
  | ReferenceDraw | InviteTokenDraw | BusinessIdDraw | SlugDraw | SignerTokenDraw
  | DeletedEmailDraw

text \<open>
  The claims of the two kinds of HS256 access token the server signs with its one secret:
  \<^verbatim>\<open>SessionService.issueSession\<close>'s dashboard token and \<^verbatim>\<open>OAuthTokenService.issueTokenSet\<close>'s
  access token of a connected app.
\<close>

datatype claims =
    DashboardClaims (claims_sub: id) string id
  | OAuthClaims (claims_sub: id) string string string

text \<open>What WebAuthn's and the social providers' verifiers report.\<close>

record webauthn_info =
  wi_credential :: string
  wi_public_key :: string
  wi_counter :: nat
  wi_transports :: "string list"

record social_profile =
  sp_subject :: string
  sp_email :: "string option"
  sp_email_verified :: bool
  sp_name :: "string option"
  sp_nonce :: "string option"

text \<open>The two kinds of Stripe event the webhook acts on, with the metadata it reads.\<close>

datatype stripe_event =
    CheckoutCompleted string "id option" "membership_tier option" "billing_cycle option"
      "string option" "string option"
  | SubscriptionDeleted string string
  | OtherStripeEvent string

record env =
  now :: time
  web_app_url :: string
  web_app_host :: string
  api_url :: string
  new_id :: "table \<Rightarrow> nat \<Rightarrow> id"
  draw :: "secret \<Rightarrow> nat \<Rightarrow> string"
  sha256 :: "string \<Rightarrow> string"
  bcrypt_hash :: "string \<Rightarrow> string"
  bcrypt_compare :: "string \<Rightarrow> string \<Rightarrow> bool"
  sign_jwt :: "claims \<Rightarrow> string"
  verify_jwt :: "string \<Rightarrow> claims option"
  geo_lookup :: "string option \<Rightarrow> string option"
  base64 :: "string \<Rightarrow> string"
  unbase64 :: "string \<Rightarrow> string"
  aes_seal :: "string \<Rightarrow> string \<Rightarrow> string \<Rightarrow> string \<times> string"
  aes_open :: "string \<Rightarrow> string \<Rightarrow> string \<Rightarrow> string \<Rightarrow> string option"
  totp_key :: string
  mail_token_key :: string
  totp_check :: "string \<Rightarrow> string \<Rightarrow> bool"
  sms_start :: "string \<Rightarrow> bool"
  sms_check :: "string \<Rightarrow> string \<Rightarrow> bool"
  webauthn_register :: "string \<Rightarrow> string \<Rightarrow> string \<Rightarrow> string \<Rightarrow> webauthn_info option"
  webauthn_assert :: "string \<Rightarrow> string \<Rightarrow> string \<Rightarrow> string \<Rightarrow> nat \<Rightarrow> string \<Rightarrow> nat option"
  social_configured :: "auth_provider \<Rightarrow> bool"
  social_exchange :: "auth_provider \<Rightarrow> string \<Rightarrow> social_profile option"
  hmac_sha256 :: "string \<Rightarrow> string \<Rightarrow> string"
  sha256_b64url :: "string \<Rightarrow> string"
  sign_id_token :: "(string \<times> json) list \<Rightarrow> string"
  password_grant_clients :: "string list"
  passkey_clients :: "(string \<times> string) list"
  stripe_checkout :: "(id \<Rightarrow> membership_tier \<Rightarrow> billing_cycle \<Rightarrow> nat \<Rightarrow> string option) option"
  stripe_verify :: "string \<Rightarrow> string \<Rightarrow> stripe_event option"
  cryndy_secret :: string
  oidc_key_id :: string
  attest :: "(string \<times> json) list \<Rightarrow> string + string"
  attestation_error :: "string \<Rightarrow> string option"
  stored_file_url :: "string \<Rightarrow> string"
  scan_stored :: bool

section \<open>Durations\<close>

definition seconds :: "int \<Rightarrow> time" where
  "seconds n = n * 1000"

definition minutes :: "int \<Rightarrow> time" where
  "minutes n = n * 60 * 1000"

definition days :: "int \<Rightarrow> time" where
  "days n = n * 24 * 60 * 60 * 1000"

lemma durations_mono [simp]:
  "0 < days n \<longleftrightarrow> 0 < n" "0 < minutes n \<longleftrightarrow> 0 < n" "0 < seconds n \<longleftrightarrow> 0 < n"
  by (simp_all add: days_def minutes_def seconds_def)

section \<open>Users by their unique columns\<close>

definition find_user :: "id \<Rightarrow> db \<Rightarrow> user option" where
  "find_user i s = find_row (\<lambda>u. u_id u = i) (users s)"

abbreviation update_user :: "id \<Rightarrow> (user \<Rightarrow> user) \<Rightarrow> db \<Rightarrow> db" where
  "update_user i f s \<equiv> s\<lparr>users := update_rows (\<lambda>u. u_id u = i) f (users s)\<rparr>"

text \<open>Another user already holds the value in a nullable unique column.\<close>

definition taken_by_other :: "(user \<Rightarrow> string option) \<Rightarrow> string \<Rightarrow> id \<Rightarrow> db \<Rightarrow> bool" where
  "taken_by_other col v i s = exists_row (\<lambda>u. u_id u \<noteq> i \<and> col u = Some v) (users s)"

text \<open>Prisma's P2002, which NestJS turns into a 500 where no code catches it.\<close>

abbreviation unique_violation :: http_error where
  "unique_violation \<equiv> ServerError ''Unique constraint failed''"

text \<open>Prisma's P2003, a reference to a row that is not there.\<close>

definition foreign_key_error :: http_error where
  "foreign_key_error = ServerError ''Foreign key constraint failed''"

text \<open>Prisma's P2025 for an update of a row that is not there.\<close>

abbreviation record_missing :: http_error where
  "record_missing \<equiv> ServerError ''Record to update not found''"

lemma find_user_D: "find_user i s = Some u \<Longrightarrow> u_id u = i \<and> u \<in> set (users s)"
  unfolding find_user_def by (blast dest: find_row_Some_D)

lemma find_user_cong: "users s' = users s \<Longrightarrow> find_user i s' = find_user i s"
  by (simp add: find_user_def)

text \<open>An update by id is seen by the lookup by id, when it leaves the id alone.\<close>

lemma find_user_update:
  assumes "\<And>u. u_id (f u) = u_id u"
  shows "find_user j (update_user i f s) =
           (if j = i then map_option f (find_user j s) else find_user j s)"
proof -
  have "find_user j (update_user i f s) =
          map_option (\<lambda>u. if u_id u = i then f u else u) (find_user j s)"
    unfolding find_user_def by (simp add: find_row_update_keep assms)
  then show ?thesis
    by (cases "find_user j s") (auto dest: find_user_D)
qed

section \<open>The empty database and a concrete environment\<close>

definition empty_db :: db where
  "empty_db =
     \<lparr>users = [], backup_codes = [], identities = [], passkeys = [], challenges = [],
      auth_states = [], exchanges = [], login_requests = [], device_approvals = [], devices = [],
      sessions = [], security_events = [], audit_log = [], role_requests = [],
      oauth_clients = [], auth_codes = [], oauth_grants = [], oauth_tokens = [], tickets = [],
      identity_requests = [], purchases = [], ledger = [], memberships = [], stripe_events = [],
      reward_rules = [], economy_log = [], bridge_requests = [], policies = [],
      ecosystem_events = [], claims = [], trust_profiles = [], action_definitions = [],
      action_approvals = [], action_logs = [], workspaces = [], ws_members = [],
      business_requests = [], ws_invites = [], notifications = [], signature_requests = [],
      signer_slots = [], signatures = [], qr_codes = [], qr_scans = [], memories = [],
      emails = [], email_recipients = [], email_attachments = [], drive_folders = [],
      drive_files = [], calendar_events = [], contacts = [], tasks = [], note_rows = [],
      bookmarks = [], space_notifications = [], ai_consents = [], mail_outbox = []\<rparr>"

text \<open>
  A concrete environment, for evaluating the handlers: ids and draws are numbered words, the
  hash is the identity, every verifier accepts exactly what the matching signer produced.
\<close>

definition demo_env :: "time \<Rightarrow> env" where
  "demo_env t =
     \<lparr>now = t,
      web_app_url = ''https://hub.example'',
      web_app_host = ''hub.example'',
      api_url = ''https://api.example'',
      new_id = (\<lambda>_ n. ''id'' @ string_of_nat n),
      draw = (\<lambda>_ n. ''ABCDE'' @ string_of_nat n),
      sha256 = (\<lambda>x. x),
      bcrypt_hash = (\<lambda>x. x),
      bcrypt_compare = (\<lambda>p h. p = h),
      sign_jwt = (\<lambda>c. claims_sub c),
      verify_jwt = (\<lambda>t. Some (DashboardClaims t t t)),
      geo_lookup = (\<lambda>_. None),
      base64 = (\<lambda>x. x),
      unbase64 = (\<lambda>x. x),
      aes_seal = (\<lambda>k i x. (''tag'', x)),
      aes_open = (\<lambda>k i t x. Some x),
      totp_key = ''k1'',
      mail_token_key = ''k2'',
      totp_check = (\<lambda>k c. k = c),
      sms_start = (\<lambda>_. True),
      sms_check = (\<lambda>p c. p = c),
      webauthn_register = (\<lambda>_ _ c r. if c = r then Some
        \<lparr>wi_credential = r, wi_public_key = r, wi_counter = 0, wi_transports = []\<rparr> else None),
      webauthn_assert = (\<lambda>_ _ c _ n r. if c = r then Some (n + 1) else None),
      social_configured = (\<lambda>_. True),
      social_exchange = (\<lambda>_ c. Some \<lparr>sp_subject = c, sp_email = Some (c @ ''@x.y''),
        sp_email_verified = True, sp_name = None, sp_nonce = Some ''ABCDE0''\<rparr>),
      hmac_sha256 = (\<lambda>k x. k @ x),
      sha256_b64url = (\<lambda>x. x),
      sign_id_token = (\<lambda>cs. concat (map fst cs)),
      password_grant_clients = [''c1''],
      passkey_clients = [(''c1'', ''ndymail'')],
      stripe_checkout = None,
      stripe_verify = (\<lambda>b g. if b = g then Some (OtherStripeEvent b) else None),
      cryndy_secret = ''k3'',
      oidc_key_id = ''kid'',
      attest = (\<lambda>cs. Inr (concat (map fst cs))),
      attestation_error = (\<lambda>_. None),
      stored_file_url = (\<lambda>n. n),
      scan_stored = True\<rparr>"

definition demo_user :: "id \<Rightarrow> string \<Rightarrow> role \<Rightarrow> user" where
  "demo_user i core r =
     \<lparr>u_id = i, u_core_id = core, u_id_type = None, u_ndy_id = ''NDY-MBR-'' @ core,
      u_email = i @ ''@x.y'', u_password_hash = Some ''pw'', u_passport = empty_passport,
      u_level = LEVEL_1, u_email_verified_at = Some 0, u_phone_verified_at = None,
      u_identity_verified_at = None, u_email_token = None, u_email_token_expires = None,
      u_reset_token = None, u_reset_expires = None, u_totp_secret = None,
      u_totp_enabled_at = None, u_sms_phone = None, u_sms_enabled_at = None,
      u_challenge = None, u_challenge_expires = None, u_role = r, u_suspended = False,
      u_suspended_at = None, u_deleted_at = None, u_ndyapps_connected = False,
      u_ndyapps_connected_at = None, u_default_workspace = None, u_created_at = 0\<rparr>"

text \<open>A founder, a super admin and an ordinary member.\<close>

definition demo_db :: db where
  "demo_db = empty_db\<lparr>users := [demo_user ''a1'' ''AAAAA2'' FOUNDER,
     demo_user ''a2'' ''AAAAA3'' SUPER_ADMIN, demo_user ''m1'' ''AAAAA4'' USER]\<rparr>"

end
