(* ===== verification/Notifications.thy ===== *)
theory Notifications
  imports Env
begin

text \<open>
  \<^verbatim>\<open>notifications/notification.service.ts\<close>: the one write path for notifications.  A caller that
  reacts to an event passes the event's id, and the unique column makes a retry return the stored
  row; the e-mail body is escaped before it is put into markup.
\<close>

section \<open>Escaping\<close>

text \<open>\<^verbatim>\<open>str.replace(/c/g, r)\<close> for one character.\<close>

definition replace_char :: "char \<Rightarrow> string \<Rightarrow> string \<Rightarrow> string" where
  "replace_char c r t = concat (map (\<lambda>x. if x = c then r else [x]) t)"

definition escape_html :: "string \<Rightarrow> string" where
  "escape_html t =
     replace_char (CHR 0x22) ''&quot;''
       (replace_char CHR ''>'' ''&gt;''
         (replace_char CHR ''<'' ''&lt;''
           (replace_char CHR ''&'' ''&amp;'' t)))"

definition escape_char :: "char \<Rightarrow> string" where
  "escape_char c =
     (if c = CHR ''&'' then ''&amp;''
      else if c = CHR ''<'' then ''&lt;''
      else if c = CHR ''>'' then ''&gt;''
      else if c = CHR 0x22 then ''&quot;''
      else [c])"

lemma replace_char_simps [simp]:
  "replace_char c r [] = []"
  "replace_char c r (x # xs) = (if x = c then r else [x]) @ replace_char c r xs"
  "replace_char c r (xs @ ys) = replace_char c r xs @ replace_char c r ys"
  by (simp_all add: replace_char_def)

text \<open>Replacing the ampersand first makes the four passes one pass per character.\<close>

lemma escape_html_charwise: "escape_html t = concat (map escape_char t)"
proof (induction t)
  case Nil
  then show ?case by (simp add: escape_html_def)
next
  case (Cons c t)
  then show ?case
    by (cases "c = CHR ''&''"; cases "c = CHR ''<''"; cases "c = CHR ''>''"; cases "c = CHR 0x22")
      (simp_all add: escape_html_def escape_char_def)
qed

text \<open>What a reader of the markup sees.\<close>

fun unescape_html :: "string \<Rightarrow> string" where
  "unescape_html [] = []"
| "unescape_html (c # cs) =
     (if starts_with ''&amp;'' (c # cs) then CHR ''&'' # unescape_html (drop 5 (c # cs))
      else if starts_with ''&lt;'' (c # cs) then CHR ''<'' # unescape_html (drop 4 (c # cs))
      else if starts_with ''&gt;'' (c # cs) then CHR ''>'' # unescape_html (drop 4 (c # cs))
      else if starts_with ''&quot;'' (c # cs) then CHR 0x22 # unescape_html (drop 6 (c # cs))
      else c # unescape_html cs)"

lemma unescape_escape_char:
  "unescape_html (escape_char c @ rest) = c # unescape_html rest"
  by (simp add: escape_char_def starts_with_def)

lemma unescape_escape: "unescape_html (concat (map escape_char t)) = t"
  by (induction t) (simp_all add: unescape_escape_char)

section \<open>Operations\<close>

record notify_params =
  np_user :: id
  np_workspace :: "id option"
  np_category :: notification_category
  np_channel :: notification_channel
  np_title :: string
  np_body :: string
  np_link :: "string option"
  np_source :: "string option"

definition notification_html :: "notify_params \<Rightarrow> string" where
  "notification_html p =
     ''<p>'' @ escape_html (np_body p) @ ''</p>'' @
     (case np_link p of
        None \<Rightarrow> ''''
      | Some l \<Rightarrow> if l = [] then '''' else ''<p><a href='' @ [CHR 0x22] @ escape_html l @ [CHR 0x22] @ ''>View</a></p>'')"

definition deliver :: "notify_params \<Rightarrow> db \<Rightarrow> db" where
  "deliver p s =
     (case np_channel p of
        IN_APP \<Rightarrow> s
      | EMAIL_CHANNEL \<Rightarrow>
          (case find_user (np_user p) s of
             None \<Rightarrow> s
           | Some u \<Rightarrow> s\<lparr>mail_outbox := mail_outbox s @
                          [NotificationMail (u_email u) (np_title p) (notification_html p)]\<rparr>)
      | SMS_CHANNEL \<Rightarrow> s)"

definition find_notification_source :: "string \<Rightarrow> db \<Rightarrow> notification option" where
  "find_notification_source src s = find_row (\<lambda>n. nt_source n = Some src) (notifications s)"

definition new_notification :: "env \<Rightarrow> notify_params \<Rightarrow> notification" where
  "new_notification E p =
     \<lparr>nt_id = new_id E T_Notification 0, nt_user = np_user p, nt_workspace = np_workspace p,
      nt_category = np_category p, nt_channel = np_channel p, nt_title = np_title p,
      nt_body = np_body p, nt_link = np_link p, nt_read = False, nt_source = np_source p,
      nt_created_at = now E\<rparr>"

text \<open>
  \<^verbatim>\<open>notify\<close>: the insert fails on a source id already stored, and the stored row is returned
  without delivering again (an empty source id is falsy, so its clash is not caught).
\<close>

definition notify :: "env \<Rightarrow> notify_params \<Rightarrow> (db, notification) handler" where
  "notify E p s =
     (case (case np_source p of None \<Rightarrow> None | Some src \<Rightarrow> find_notification_source src s) of
        Some old \<Rightarrow> (if truthy (np_source p) then ok old else throw unique_violation, s)
      | None \<Rightarrow>
          if find_user (np_user p) s = None then (throw foreign_key_error, s)
          else let n = new_notification E p
          in (ok n, deliver p (s\<lparr>notifications := notifications s @ [n]\<rparr>)))"

definition recent_limit :: nat where
  "recent_limit = 50"

definition list_notifications :: "id \<Rightarrow> db \<Rightarrow> notification list" where
  "list_notifications i s = take recent_limit (rev (filter (\<lambda>n. nt_user n = i) (notifications s)))"

definition unread_count :: "id \<Rightarrow> db \<Rightarrow> nat" where
  "unread_count i s = count_rows (\<lambda>n. nt_user n = i \<and> \<not> nt_read n) (notifications s)"

definition mark_read :: "id \<Rightarrow> id \<Rightarrow> (db, notification) handler" where
  "mark_read i nid s =
     (case find_row (\<lambda>n. nt_id n = nid) (notifications s) of
        None \<Rightarrow> (throw (NotFound ''No notification with that id.''), s)
      | Some n \<Rightarrow>
          if nt_user n \<noteq> i then (throw (NotFound ''No notification with that id.''), s)
          else (ok (n\<lparr>nt_read := True\<rparr>),
                s\<lparr>notifications := update_rows (\<lambda>n. nt_id n = nid) (\<lambda>n. n\<lparr>nt_read := True\<rparr>)
                    (notifications s)\<rparr>))"

definition mark_all_read :: "id \<Rightarrow> (db, nat) handler" where
  "mark_all_read i s =
     (ok (unread_count i s),
      s\<lparr>notifications := update_rows (\<lambda>n. nt_user n = i \<and> \<not> nt_read n)
          (\<lambda>n. n\<lparr>nt_read := True\<rparr>) (notifications s)\<rparr>)"

section \<open>Facts\<close>

lemma deliver_notifications [simp]: "notifications (deliver p s) = notifications s"
  by (simp add: deliver_def split: notification_channel.splits option.splits)

lemma find_source_deliver [simp]:
  "find_notification_source src (deliver p s) = find_notification_source src s"
  by (simp add: find_notification_source_def)

lemma mark_all_read_unread: "unread_count i (snd (mark_all_read i s)) = 0"
  by (simp add: mark_all_read_def unread_count_def count_rows_0_iff)

text \<open>A report with a source id, as the machine callers make them.\<close>

definition notify_event :: "env \<times> notify_params \<times> string \<Rightarrow> (db, notification) handler" where
  "notify_event a s = (case a of (E, p, src) \<Rightarrow> notify E (p\<lparr>np_source := Some src\<rparr>) s)"

interpretation notification_intake:
  idempotent_intake notify_event "\<lambda>_. True" "\<lambda>(E, p, src). Some src"
    "\<lambda>src s. find_notification_source src s \<noteq> None" "\<lambda>r. r \<noteq> Inl foreign_key_error"
proof (unfold_locales, goal_cases)
  case (1 s a)
  then show ?case by simp
next
  case (2 s a k)
  then show ?case
    by (cases a) (auto simp: notify_event_def notify_def Let_def new_notification_def
        find_notification_source_def find_row_append split: option.splits if_splits)
next
  case (3 s a k)
  then show ?case
    by (cases a) (auto simp: notify_event_def notify_def)
next
  case (4 s k a)
  then show ?case
    by (cases a) (auto simp: notify_event_def notify_def Let_def new_notification_def
        find_notification_source_def find_row_append split: option.splits)
qed

text \<open>
  A notification about an event is delivered once.  After a notification with a source id has
  been posted to an account there is, any later notification with the same source id, whoever sends it and whatever other
  notifications arrived in between, leaves the tables and the outbox exactly as they were.
\<close>

theorem notification_not_repeated:
  assumes "fst (notify_event (E, p, src) s) \<noteq> Inl foreign_key_error"
  shows "snd (notify_event (E', p', src)
      (run_ops notify_event as (snd (notify_event (E, p, src) s)))) =
     run_ops notify_event as (snd (notify_event (E, p, src) s))"
  by (rule notification_intake.late_redelivery [where k = src]) (simp_all add: assms)

text \<open>
  The body of a notification mail cannot carry markup: the four replacements leave no angle
  bracket and no double quote, and a reader who decodes the entities sees exactly the original
  text.
\<close>

theorem escape_html_safe:
  "set (escape_html t) \<inter> {CHR ''<'', CHR ''>'', CHR 0x22} = {} \<and>
   unescape_html (escape_html t) = t"
proof -
  have "x \<notin> {CHR ''<'', CHR ''>'', CHR 0x22}" if "x \<in> set (escape_char c)" for x c
    using that by (auto simp: escape_char_def split: if_splits)
  then show ?thesis
    by (auto simp: escape_html_charwise unescape_escape)
qed

end
