(* ===== verification/NdyId.thy ===== *)
theory NdyId
  imports Env
begin

text \<open>
  \<^verbatim>\<open>common/ndy-id.util.ts\<close>: the public NDY ID.  A class segment and the permanent six-character
  core make \<^verbatim>\<open>NDY-TYPE-CORE\<close>; the pre-migration form \<^verbatim>\<open>NDY-CORE\<close> is still read.  The lemmas
  show that parsing inverts formatting and that the class never hides the core.
\<close>

type_synonym ndy_id_type = string

definition ndy_id_types :: "ndy_id_type list" where
  "ndy_id_types = [''CEO'', ''FND'', ''EXE'', ''PRT'', ''INV'', ''DEV'', ''BIZ'', ''MBR'']"

definition assignable_only_via_override :: "ndy_id_type list" where
  "assignable_only_via_override = [''CEO'', ''EXE'', ''PRT'', ''INV'', ''DEV'']"

definition ndy_id_type_for_role :: "role \<Rightarrow> ndy_id_type" where
  "ndy_id_type_for_role r = (if r = FOUNDER then ''FND'' else ''MBR'')"

definition ndy_id_type_for_user :: "string option \<Rightarrow> role \<Rightarrow> ndy_id_type" where
  "ndy_id_type_for_user override r =
     (case override of
        Some t \<Rightarrow> if t \<noteq> [] then t else ndy_id_type_for_role r
      | None \<Rightarrow> ndy_id_type_for_role r)"

definition is_override_only_ndy_id_type :: "string \<Rightarrow> bool" where
  "is_override_only_ndy_id_type t = (t \<in> set assignable_only_via_override)"

definition format_genesis_core_id :: "int \<Rightarrow> string reply" where
  "format_genesis_core_id n =
     (if n < 1 then throw (ServerError ''Genesis sequence must be a positive integer'')
      else ok (pad_start 6 CHR ''0'' (string_of_nat (nat n))))"

definition format_ndy_id :: "string \<Rightarrow> ndy_id_type \<Rightarrow> string" where
  "format_ndy_id core t = ''NDY-'' @ t @ ''-'' @ core"

text \<open>\<^verbatim>\<open>[A-Z0-9]{6}\<close>\<close>

definition is_core_id :: "string \<Rightarrow> bool" where
  "is_core_id c = (length c = 6 \<and> list_all (\<lambda>x. is_upper x \<or> is_digit x) c)"

text \<open>The two anchored patterns, tried in the code's order.\<close>

definition parse_ndy_id :: "string \<Rightarrow> (ndy_id_type option \<times> string) option" where
  "parse_ndy_id t =
     (if starts_with ''NDY-'' t then
        (let rest = drop 4 t; ty = take 3 rest in
         if ty \<in> set ndy_id_types \<and> starts_with ''-'' (drop 3 rest) \<and> is_core_id (drop 4 rest)
         then Some (Some ty, drop 4 rest)
         else if is_core_id rest then Some (None, rest)
         else None)
      else None)"

lemma ndy_id_types_length: "t \<in> set ndy_id_types \<Longrightarrow> length t = 3"
  by (auto simp: ndy_id_types_def)

lemma parse_format:
  assumes "t \<in> set ndy_id_types" and "is_core_id c"
  shows "parse_ndy_id (format_ndy_id c t) = Some (Some t, c)"
  using assms ndy_id_types_length [OF assms(1)]
  by (simp add: parse_ndy_id_def format_ndy_id_def starts_with_def Let_def)

lemma parse_legacy: "is_core_id c \<Longrightarrow> parse_ndy_id (''NDY-'' @ c) = Some (None, c)"
  by (auto simp: parse_ndy_id_def starts_with_def Let_def is_core_id_def)

lemma starts_with_split: "starts_with p x \<longleftrightarrow> x = p @ drop (length p) x"
  by (metis append_take_drop_id starts_with_append starts_with_def)

lemma ndy_prefix: "starts_with ''NDY-'' x \<Longrightarrow> x = ''NDY-'' @ drop 4 x"
  by (simp add: starts_with_split numeral_eq_Suc)

lemma parse_typed_sound:
  assumes "parse_ndy_id x = Some (Some t, c)"
  shows "x = format_ndy_id c t \<and> t \<in> set ndy_id_types \<and> is_core_id c"
proof -
  from assms have p: "starts_with ''NDY-'' x" "starts_with ''-'' (drop 3 (drop 4 x))"
    and t: "t = take 3 (drop 4 x)" "t \<in> set ndy_id_types"
    and c: "c = drop 4 (drop 4 x)" "is_core_id c"
    by (auto simp: parse_ndy_id_def Let_def split: if_splits)
  have "x = ''NDY-'' @ drop 4 x"
    using p(1) by (rule ndy_prefix)
  moreover have "drop 4 x = t @ drop 3 (drop 4 x)"
    unfolding t(1) by (rule append_take_drop_id [symmetric])
  moreover have "drop 3 (drop 4 x) = ''-'' @ c"
    using p(2) c(1) by (simp add: starts_with_split)
  ultimately show ?thesis
    using t(2) c(2) unfolding format_ndy_id_def by metis
qed

lemma parse_typed_iff:
  "parse_ndy_id x = Some (Some t, c) \<longleftrightarrow>
     t \<in> set ndy_id_types \<and> is_core_id c \<and> x = format_ndy_id c t"
  using parse_typed_sound parse_format by blast

lemma parse_legacy_sound:
  "parse_ndy_id x = Some (None, c) \<Longrightarrow> x = ''NDY-'' @ c \<and> is_core_id c"
  using ndy_prefix [of x] by (auto simp: parse_ndy_id_def Let_def split: if_splits)

lemma format_ndy_id_core:
  "format_ndy_id c t = format_ndy_id c' t \<Longrightarrow> c = c'"
  by (simp add: format_ndy_id_def)

lemma ndy_id_type_for_role_known: "ndy_id_type_for_role r \<in> set ndy_id_types"
  by (simp add: ndy_id_type_for_role_def ndy_id_types_def)

text \<open>The class of a user without an override is always one the parser knows.\<close>

lemma ndy_id_type_for_user_known:
  "override = None \<or> override = Some [] \<Longrightarrow> ndy_id_type_for_user override r \<in> set ndy_id_types"
  by (auto simp: ndy_id_type_for_user_def ndy_id_type_for_role_known)

section \<open>Genesis numbers\<close>

lemma string_of_nat_digits: "list_all is_digit (string_of_nat n)"
proof (induction n rule: string_of_nat.induct)
  case (1 n)
  have d: "is_digit (digit_char k)" if "k < 10" for k
    using that by (simp add: is_digit_def in_range_def digit_char_def)
  show ?case
  proof (cases "n < 10")
    case True
    then show ?thesis by (subst string_of_nat.simps) (simp add: d)
  next
    case False
    then show ?thesis
      using 1 by (subst string_of_nat.simps) (simp add: d)
  qed
qed

lemma string_of_nat_length:
  "0 < k \<Longrightarrow> length (string_of_nat n) \<le> k \<longleftrightarrow> n < 10 ^ k"
proof (induction n arbitrary: k rule: string_of_nat.induct)
  case (1 n)
  show ?case
  proof (cases "n < 10")
    case True
    with \<open>0 < k\<close> have "n < 10 ^ k"
      by (metis Suc_leI less_le_trans one_le_numeral power_increasing power_one_right One_nat_def)
    with True \<open>0 < k\<close> show ?thesis
      by (subst string_of_nat.simps) simp
  next
    case False
    obtain j where k: "k = Suc j" using \<open>0 < k\<close> by (cases k) auto
    show ?thesis
    proof (cases "j = 0")
      case True
      with False k show ?thesis
        using string_of_nat.simps [of "n div 10"] by (subst string_of_nat.simps) auto
    next
      case j: False
      have "length (string_of_nat n) \<le> k \<longleftrightarrow> length (string_of_nat (n div 10)) \<le> j"
        using False k by (subst string_of_nat.simps) simp
      also have "\<dots> \<longleftrightarrow> n div 10 < 10 ^ j"
        using 1 False j by simp
      also have "\<dots> \<longleftrightarrow> n < 10 ^ k"
        using k by (simp add: div_less_iff_less_mult mult.commute)
      finally show ?thesis .
    qed
  qed
qed

text \<open>Six digits suffice exactly up to 999999: from there on the id no longer parses.\<close>

lemma genesis_core_id_ok:
  assumes "1 \<le> n"
  obtains c where "format_genesis_core_id n = Inr c"
    and "is_core_id c \<longleftrightarrow> n < 1000000"
proof -
  let ?t = "string_of_nat (nat n)"
  have len: "length ?t \<le> 6 \<longleftrightarrow> n < 1000000"
    using string_of_nat_length [of 6 "nat n"] assms by auto
  have digits: "list_all is_digit (pad_start 6 CHR ''0'' ?t)"
    using string_of_nat_digits [of "nat n"]
    by (auto simp: pad_start_def list_all_iff is_digit_def in_range_def)
  then have "list_all (\<lambda>x. is_upper x \<or> is_digit x) (pad_start 6 CHR ''0'' ?t)"
    by (auto simp: list_all_iff)
  then have "is_core_id (pad_start 6 CHR ''0'' ?t) \<longleftrightarrow> n < 1000000"
    using len by (auto simp: is_core_id_def pad_start_def)
  then show thesis
    using that assms by (auto simp: format_genesis_core_id_def)
qed

text \<open>The rename a role change makes keeps the core: the new id parses to the old core.\<close>

lemma rename_keeps_core:
  assumes "is_core_id c" and "ndy_id_type_for_user override r \<in> set ndy_id_types"
  shows "parse_ndy_id (format_ndy_id c (ndy_id_type_for_user override r)) =
           Some (Some (ndy_id_type_for_user override r), c)"
  using assms by (rule parse_format [rotated])

end
