(* ===== verification/Rbac.thy ===== *)
theory Rbac
  imports NdyId
begin

text \<open>
  Roles and what they may do: \<^verbatim>\<open>common/permissions.ts\<close> (and its mirror in
  \<^verbatim>\<open>apps/web/src/lib/permissions.ts\<close>), the guard that checks them
  (\<^verbatim>\<open>common/guards/permission.guard.ts\<close>), the dual-approval role change
  (\<^verbatim>\<open>admin/role-change-request.service.ts\<close>), suspension and the audit log
  (\<^verbatim>\<open>admin/admin.service.ts\<close>).
\<close>

section \<open>Permissions\<close>

datatype permission =
    MANAGE_USERS | MANAGE_ROLES | MANAGE_OAUTH_CLIENTS | MANAGE_SUPPORT_TICKETS
  | VIEW_AUDIT_LOG | VIEW_FOUNDER_OVERVIEW | VIEW_FINANCIALS | REVIEW_IDENTITY_VERIFICATION
  | MANAGE_QR_CODES

definition all_permissions :: "permission list" where
  "all_permissions =
     [MANAGE_USERS, MANAGE_ROLES, MANAGE_OAUTH_CLIENTS, MANAGE_SUPPORT_TICKETS, VIEW_AUDIT_LOG,
      VIEW_FOUNDER_OVERVIEW, VIEW_FINANCIALS, REVIEW_IDENTITY_VERIFICATION, MANAGE_QR_CODES]"

fun role_permissions :: "role \<Rightarrow> permission list" where
  "role_permissions USER = []"
| "role_permissions FOUNDER = all_permissions"
| "role_permissions SUPER_ADMIN =
     [MANAGE_USERS, MANAGE_ROLES, MANAGE_OAUTH_CLIENTS, MANAGE_SUPPORT_TICKETS, VIEW_AUDIT_LOG,
      REVIEW_IDENTITY_VERIFICATION, MANAGE_QR_CODES]"
| "role_permissions DEVELOPER = [MANAGE_OAUTH_CLIENTS]"
| "role_permissions FINANCE = [VIEW_FINANCIALS]"
| "role_permissions SUPPORT = [MANAGE_SUPPORT_TICKETS]"
| "role_permissions CONTENT = []"
| "role_permissions PARTNERS = []"
| "role_permissions AUDITOR = [VIEW_AUDIT_LOG]"

definition role_has_permission :: "role \<Rightarrow> permission \<Rightarrow> bool" where
  "role_has_permission r p = (p \<in> set (role_permissions r))"

definition assignable_by_super_admin :: "role list" where
  "assignable_by_super_admin = [USER, DEVELOPER, FINANCE, SUPPORT, CONTENT, PARTNERS, AUDITOR]"

text \<open>The web app's copy of the table, on the roles its session knows (or none).\<close>

fun web_role_permissions :: "role \<Rightarrow> permission list" where
  "web_role_permissions USER = []"
| "web_role_permissions FOUNDER =
     [MANAGE_USERS, MANAGE_ROLES, MANAGE_OAUTH_CLIENTS, MANAGE_SUPPORT_TICKETS, VIEW_AUDIT_LOG,
      VIEW_FOUNDER_OVERVIEW, VIEW_FINANCIALS, REVIEW_IDENTITY_VERIFICATION, MANAGE_QR_CODES]"
| "web_role_permissions SUPER_ADMIN =
     [MANAGE_USERS, MANAGE_ROLES, MANAGE_OAUTH_CLIENTS, MANAGE_SUPPORT_TICKETS, VIEW_AUDIT_LOG,
      REVIEW_IDENTITY_VERIFICATION, MANAGE_QR_CODES]"
| "web_role_permissions DEVELOPER = [MANAGE_OAUTH_CLIENTS]"
| "web_role_permissions FINANCE = [VIEW_FINANCIALS]"
| "web_role_permissions SUPPORT = [MANAGE_SUPPORT_TICKETS]"
| "web_role_permissions CONTENT = []"
| "web_role_permissions PARTNERS = []"
| "web_role_permissions AUDITOR = [VIEW_AUDIT_LOG]"

definition web_role_has_permission :: "role option \<Rightarrow> permission \<Rightarrow> bool" where
  "web_role_has_permission r p =
     (case r of None \<Rightarrow> False | Some x \<Rightarrow> p \<in> set (web_role_permissions x))"

definition web_role_has_any_permission :: "role option \<Rightarrow> permission list \<Rightarrow> bool" where
  "web_role_has_any_permission r ps = list_ex (web_role_has_permission r) ps"

fun permission_name :: "permission \<Rightarrow> string" where
  "permission_name MANAGE_USERS = ''MANAGE_USERS''"
| "permission_name MANAGE_ROLES = ''MANAGE_ROLES''"
| "permission_name MANAGE_OAUTH_CLIENTS = ''MANAGE_OAUTH_CLIENTS''"
| "permission_name MANAGE_SUPPORT_TICKETS = ''MANAGE_SUPPORT_TICKETS''"
| "permission_name VIEW_AUDIT_LOG = ''VIEW_AUDIT_LOG''"
| "permission_name VIEW_FOUNDER_OVERVIEW = ''VIEW_FOUNDER_OVERVIEW''"
| "permission_name VIEW_FINANCIALS = ''VIEW_FINANCIALS''"
| "permission_name REVIEW_IDENTITY_VERIFICATION = ''REVIEW_IDENTITY_VERIFICATION''"
| "permission_name MANAGE_QR_CODES = ''MANAGE_QR_CODES''"

lemma permission_exhausted: "p \<in> set all_permissions"
  by (cases p) (simp_all add: all_permissions_def)

text \<open>
  The guard, after the JWT guard: \<^verbatim>\<open>required\<close> is the route's declared permission, \<^verbatim>\<open>caller\<close> the
  authenticated user's id.  The role is read from the database, not from the token.
\<close>

definition permission_guard :: "permission option \<Rightarrow> id option \<Rightarrow> db \<Rightarrow> unit reply" where
  "permission_guard required caller s =
     (case required of
        None \<Rightarrow> throw (Forbidden ''No permission configured for this route.'')
      | Some p \<Rightarrow>
          (case caller of
             None \<Rightarrow> throw (Unauthorized ''Missing bearer token.'')
           | Some i \<Rightarrow>
               (case find_user i s of
                  None \<Rightarrow> throw (Forbidden (''Missing required permission: '' @ permission_name p @ ''.''))
                | Some u \<Rightarrow>
                    if role_has_permission (u_role u) p then ok ()
                    else throw (Forbidden (''Missing required permission: '' @ permission_name p @ ''.'')))))"

lemma permission_guard_ok_iff:
  "permission_guard required caller s = Inr () \<longleftrightarrow>
     (\<exists>p i u. required = Some p \<and> caller = Some i \<and> find_user i s = Some u \<and>
        role_has_permission (u_role u) p)"
  by (auto simp: permission_guard_def split: option.splits)

section \<open>The audit log\<close>

record admin_actor =
  actor_id :: id
  actor_ndy_id :: string
  actor_ip :: "string option"

definition write_audit_log ::
  "env \<Rightarrow> admin_actor \<Rightarrow> string \<Rightarrow> id \<Rightarrow> string \<Rightarrow> json option \<Rightarrow> json option \<Rightarrow>
   string option \<Rightarrow> db \<Rightarrow> db" where
  "write_audit_log E actor action target target_ndy previous new reason s =
     s\<lparr>audit_log := audit_log s @
        [\<lparr>al_admin_user = actor_id actor, al_admin_ndy_id = actor_ndy_id actor,
          al_action = action, al_target_user = Some target, al_target_ndy_id = Some target_ndy,
          al_previous = previous, al_new = new, al_reason = reason, al_ip = actor_ip actor,
          al_created_at = now E\<rparr>]\<rparr>"

text \<open>
  \<^verbatim>\<open>getAuditLog\<close>: newest first, one page.  Rows of one request share \<^verbatim>\<open>createdAt\<close>; the newest
  appended row counts as newest.
\<close>

definition get_audit_log :: "nat \<Rightarrow> nat \<Rightarrow> db \<Rightarrow> audit_entry list \<times> nat" where
  "get_audit_log tk skip s = (take tk (drop skip (rev (audit_log s))), length (audit_log s))"

text \<open>The controller's \<^verbatim>\<open>clampTake\<close> and \<^verbatim>\<open>parseSkip\<close> on an already parsed number.\<close>

definition clamp_take :: "int option \<Rightarrow> int" where
  "clamp_take n = (case n of None \<Rightarrow> 25 | Some k \<Rightarrow> if k \<le> 0 then 25 else min k 100)"

definition parse_skip :: "int option \<Rightarrow> int" where
  "parse_skip n = (case n of None \<Rightarrow> 0 | Some k \<Rightarrow> if 0 < k then k else 0)"

section \<open>Role changes need two people\<close>

definition founder_only_assignable :: "role list" where
  "founder_only_assignable = [FOUNDER, SUPER_ADMIN]"

definition role_of :: "id \<Rightarrow> db \<Rightarrow> role option" where
  "role_of i s = map_option u_role (find_user i s)"

definition create_role_request ::
  "env \<Rightarrow> admin_actor \<Rightarrow> id \<Rightarrow> role \<Rightarrow> string option \<Rightarrow> (db, role_request) handler" where
  "create_role_request E actor target_id r reason s =
     (if r \<in> set founder_only_assignable \<and> role_of (actor_id actor) s \<noteq> Some FOUNDER
      then (throw (Forbidden (''Only a Founder can request assigning the '' @ role_name r @ '' role.'')), s)
      else case find_user target_id s of
        None \<Rightarrow> (throw (NotFound ''No user with that id.''), s)
      | Some target \<Rightarrow>
          let request =
            \<lparr>rr_id = new_id E T_RoleRequest 0, rr_target = u_id target,
             rr_target_ndy_id = u_ndy_id target, rr_requested = r, rr_previous = u_role target,
             rr_requester = actor_id actor, rr_requester_ndy_id = actor_ndy_id actor,
             rr_reason = reason, rr_status = RV_PENDING, rr_reviewer = None,
             rr_reviewer_ndy_id = None, rr_review_reason = None, rr_resolved_at = None,
             rr_created_at = now E\<rparr>
          in (ok request,
              write_audit_log E actor ''user.role.request'' (u_id target) (u_ndy_id target)
                (Some (JObj [(''role'', JStr (role_name (u_role target)))]))
                (Some (JObj [(''requestedRole'', JStr (role_name r)),
                             (''requestId'', JStr (rr_id request))]))
                reason
                (s\<lparr>role_requests := role_requests s @ [request]\<rparr>)))"

definition list_role_requests :: "review_status option \<Rightarrow> db \<Rightarrow> role_request list" where
  "list_role_requests status s =
     take 100 (rev (filter (\<lambda>r. case status of None \<Rightarrow> True | Some x \<Rightarrow> rr_status r = x)
       (role_requests s)))"

definition find_role_request :: "id \<Rightarrow> db \<Rightarrow> role_request option" where
  "find_role_request i s = find_row (\<lambda>r. rr_id r = i) (role_requests s)"

definition get_pending_role_request :: "id \<Rightarrow> db \<Rightarrow> role_request reply" where
  "get_pending_role_request i s =
     (case find_role_request i s of
        None \<Rightarrow> throw (NotFound ''No role change request with that id.'')
      | Some r \<Rightarrow>
          if rr_status r \<noteq> RV_PENDING then throw (Conflict ''This request has already been resolved.'')
          else ok r)"

definition may_decide_role_request :: "admin_actor \<Rightarrow> role_request \<Rightarrow> db \<Rightarrow> unit reply" where
  "may_decide_role_request actor r s =
     (if actor_id actor = rr_requester r
      then throw (Forbidden ''You requested this change - a different admin has to approve or reject it.'')
      else if rr_requested r \<in> set founder_only_assignable \<and> role_of (actor_id actor) s \<noteq> Some FOUNDER
      then throw (Forbidden (''Only a Founder can approve or reject a request for the ''
             @ role_name (rr_requested r) @ '' role.''))
      else ok ())"

definition resolve_role_request ::
  "env \<Rightarrow> admin_actor \<Rightarrow> review_status \<Rightarrow> string option \<Rightarrow> role_request \<Rightarrow> role_request" where
  "resolve_role_request E actor status reason r =
     r\<lparr>rr_status := status, rr_reviewer := Some (actor_id actor),
       rr_reviewer_ndy_id := Some (actor_ndy_id actor), rr_review_reason := reason,
       rr_resolved_at := Some (now E)\<rparr>"

text \<open>
  \<^verbatim>\<open>approve\<close>: the two updates of the transaction are one step.  \<^verbatim>\<open>User.ndyId\<close> is unique, so a
  rename onto another user's id fails as a whole and leaves the state.
\<close>

definition approve_role_request ::
  "env \<Rightarrow> admin_actor \<Rightarrow> id \<Rightarrow> string option \<Rightarrow> (db, role_request) handler" where
  "approve_role_request E actor rid reason s =
     (case get_pending_role_request rid s of
        Inl e \<Rightarrow> (throw e, s)
      | Inr request \<Rightarrow>
          (case may_decide_role_request actor request s of
             Inl e \<Rightarrow> (throw e, s)
           | Inr _ \<Rightarrow>
               (case find_user (rr_target request) s of
                  None \<Rightarrow> (throw (NotFound ''No user with that id.''), s)
                | Some target \<Rightarrow>
                    let new_ndy = format_ndy_id (u_core_id target)
                          (ndy_id_type_for_user (u_id_type target) (rr_requested request));
                        updated = resolve_role_request E actor RV_APPROVED reason request
                    in if exists_row (\<lambda>u. u_id u \<noteq> u_id target \<and> u_ndy_id u = new_ndy) (users s)
                       then (throw unique_violation, s)
                       else
                         (ok updated,
                          write_audit_log E actor ''user.role.approve'' (u_id target) (u_ndy_id target)
                            (Some (JObj [(''role'', JStr (role_name (rr_previous request)))]))
                            (Some (JObj [(''role'', JStr (role_name (rr_requested request))),
                                         (''requestedBy'', JStr (rr_requester_ndy_id request)),
                                         (''approvedBy'', JStr (actor_ndy_id actor))]))
                            reason
                            (update_user (rr_target request)
                               (\<lambda>u. u\<lparr>u_role := rr_requested request, u_ndy_id := new_ndy\<rparr>) s)
                            \<lparr>role_requests := update_rows (\<lambda>r. rr_id r = rr_id request)
                               (\<lambda>r. resolve_role_request E actor RV_APPROVED reason r)
                               (role_requests s)\<rparr>))))"

definition reject_role_request ::
  "env \<Rightarrow> admin_actor \<Rightarrow> id \<Rightarrow> string option \<Rightarrow> (db, role_request) handler" where
  "reject_role_request E actor rid reason s =
     (case get_pending_role_request rid s of
        Inl e \<Rightarrow> (throw e, s)
      | Inr request \<Rightarrow>
          (case may_decide_role_request actor request s of
             Inl e \<Rightarrow> (throw e, s)
           | Inr _ \<Rightarrow>
               (ok (resolve_role_request E actor RV_REJECTED reason request),
                write_audit_log E actor ''user.role.reject'' (rr_target request)
                  (rr_target_ndy_id request)
                  (Some (JObj [(''requestedRole'', JStr (role_name (rr_requested request)))]))
                  (Some (JObj [(''rejectedBy'', JStr (actor_ndy_id actor)),
                               (''requestedBy'', JStr (rr_requester_ndy_id request))]))
                  reason
                  (s\<lparr>role_requests := update_rows (\<lambda>r. rr_id r = rr_id request)
                      (\<lambda>r. resolve_role_request E actor RV_REJECTED reason r)
                      (role_requests s)\<rparr>))))"

section \<open>Suspension\<close>

definition revoke_user_sessions :: "env \<Rightarrow> id \<Rightarrow> db \<Rightarrow> db" where
  "revoke_user_sessions E i s =
     s\<lparr>sessions := update_rows (\<lambda>x. s_user x = i \<and> s_revoked_at x = None)
        (\<lambda>x. x\<lparr>s_revoked_at := Some (now E)\<rparr>) (sessions s)\<rparr>"

record suspension_view =
  sv_id :: id
  sv_ndy_id :: string
  sv_suspended :: bool

definition set_suspended ::
  "env \<Rightarrow> admin_actor \<Rightarrow> id \<Rightarrow> bool \<Rightarrow> string option \<Rightarrow> (db, suspension_view) handler" where
  "set_suspended E actor target_id susp reason s =
     (case find_user target_id s of
        None \<Rightarrow> (throw (NotFound ''No user with that id.''), s)
      | Some target \<Rightarrow>
          let s1 = update_user target_id
                (\<lambda>u. u\<lparr>u_suspended := susp,
                       u_suspended_at := (if susp then Some (now E) else None)\<rparr>) s;
              s2 = (if susp then revoke_user_sessions E target_id s1 else s1)
          in (ok \<lparr>sv_id = u_id target, sv_ndy_id = u_ndy_id target, sv_suspended = susp\<rparr>,
              write_audit_log E actor (if susp then ''user.suspend'' else ''user.unsuspend'')
                (u_id target) (u_ndy_id target)
                (Some (JObj [(''suspended'', JBool (u_suspended target))]))
                (Some (JObj [(''suspended'', JBool susp)])) reason s2))"

text \<open>A session the server would still rotate.\<close>

definition live_session :: "env \<Rightarrow> session \<Rightarrow> bool" where
  "live_session E x = (s_revoked_at x = None \<and> now E \<le> s_expires x)"

section \<open>Role changes as a system\<close>

datatype role_op =
    RequestRole admin_actor id role "string option"
  | ApproveRole admin_actor id "string option"
  | RejectRole admin_actor id "string option"

fun role_op_actor :: "role_op \<Rightarrow> admin_actor" where
  "role_op_actor (RequestRole a _ _ _) = a"
| "role_op_actor (ApproveRole a _ _) = a"
| "role_op_actor (RejectRole a _ _) = a"

fun role_step :: "env \<times> role_op \<Rightarrow> db \<Rightarrow> role_request reply \<times> db" where
  "role_step (E, RequestRole a t r why) s = create_role_request E a t r why s"
| "role_step (E, ApproveRole a i why) s = approve_role_request E a i why s"
| "role_step (E, RejectRole a i why) s = reject_role_request E a i why s"

fun role_decides :: "env \<times> role_op \<Rightarrow> (id \<times> id) option" where
  "role_decides (E, RequestRole a t r why) = None"
| "role_decides (E, ApproveRole a i why) = Some (i, actor_id a)"
| "role_decides (E, RejectRole a i why) = Some (i, actor_id a)"

definition accepted_reply :: "'a reply \<Rightarrow> bool" where
  "accepted_reply r = (case r of Inl _ \<Rightarrow> False | Inr _ \<Rightarrow> True)"

lemma accepted_reply_simps [simp]:
  "accepted_reply (Inl e) = False" "accepted_reply (Inr x) = True"
  by (simp_all add: accepted_reply_def)

definition role_request_resolved :: "id \<Rightarrow> db \<Rightarrow> bool" where
  "role_request_resolved k s = (\<exists>r. find_role_request k s = Some r \<and> rr_status r \<noteq> RV_PENDING)"

definition role_requester :: "id \<Rightarrow> db \<Rightarrow> id option" where
  "role_requester k s = map_option rr_requester (find_role_request k s)"

lemmas role_handler_defs =
  create_role_request_def approve_role_request_def reject_role_request_def
  get_pending_role_request_def may_decide_role_request_def write_audit_log_def

lemma pending_role_request:
  "get_pending_role_request i s = Inr r \<longleftrightarrow> find_role_request i s = Some r \<and> rr_status r = RV_PENDING"
  by (auto simp: get_pending_role_request_def split: option.splits)

lemma find_role_request_id: "find_role_request i s = Some r \<Longrightarrow> rr_id r = i"
  unfolding find_role_request_def by (blast dest: find_row_Some_D)

text \<open>How the lookup of a request sees each of the three writes to the table.\<close>

lemma find_role_request_append:
  "role_requests s' = role_requests s @ [x] \<Longrightarrow> find_role_request k s = Some r \<Longrightarrow>
     find_role_request k s' = Some r"
  by (simp add: find_role_request_def find_row_append)

lemma find_role_request_resolve:
  assumes "role_requests s' =
             update_rows (\<lambda>r. rr_id r = i) (\<lambda>r. resolve_role_request E a st why r) (role_requests s)"
    and "find_role_request k s = Some r"
  shows "find_role_request k s' =
           Some (if k = i then resolve_role_request E a st why r else r)"
  using assms find_role_request_id [OF assms(2)]
  by (simp add: find_role_request_def find_row_update_keep resolve_role_request_def)

lemma approve_role_request_ok:
  assumes "approve_role_request E a i why s = (Inr x, s')"
  obtains r t where
    "find_role_request i s = Some r" "rr_status r = RV_PENDING"
    "actor_id a \<noteq> rr_requester r"
    "rr_requested r \<in> set founder_only_assignable \<Longrightarrow> role_of (actor_id a) s = Some FOUNDER"
    "find_user (rr_target r) s = Some t"
    "users s' = update_rows (\<lambda>u. u_id u = rr_target r)
       (\<lambda>u. u\<lparr>u_role := rr_requested r,
              u_ndy_id := format_ndy_id (u_core_id t)
                (ndy_id_type_for_user (u_id_type t) (rr_requested r))\<rparr>) (users s)"
    "role_requests s' = update_rows (\<lambda>q. rr_id q = i)
       (\<lambda>q. resolve_role_request E a RV_APPROVED why q) (role_requests s)"
    "\<forall>u \<in> set (users s). u_id u \<noteq> u_id t \<longrightarrow>
       u_ndy_id u \<noteq> format_ndy_id (u_core_id t) (ndy_id_type_for_user (u_id_type t) (rr_requested r))"
proof -
  from assms obtain r where r: "find_role_request i s = Some r" "rr_status r = RV_PENDING"
    by (auto simp: approve_role_request_def pending_role_request split: sum.splits)
  with assms obtain t where t: "find_user (rr_target r) s = Some t"
    by (auto simp: role_handler_defs split: option.splits if_splits sum.splits)
  show thesis
    by (rule that [OF r _ _ t])
      (use assms r t find_role_request_id [OF r(1)] in
        \<open>auto simp: role_handler_defs Let_def split: option.splits if_splits sum.splits\<close>)
qed

lemma reject_role_request_ok:
  assumes "reject_role_request E a i why s = (Inr x, s')"
  obtains r where
    "find_role_request i s = Some r" "rr_status r = RV_PENDING" "actor_id a \<noteq> rr_requester r"
    "users s' = users s"
    "role_requests s' = update_rows (\<lambda>q. rr_id q = i)
       (\<lambda>q. resolve_role_request E a RV_REJECTED why q) (role_requests s)"
proof -
  from assms obtain r where r: "find_role_request i s = Some r" "rr_status r = RV_PENDING"
    by (auto simp: reject_role_request_def pending_role_request split: sum.splits)
  with assms find_role_request_id [OF r(1)] show thesis
    by (intro that [OF r])
      (auto simp: role_handler_defs split: option.splits if_splits sum.splits)
qed

lemma create_role_request_ok:
  assumes "create_role_request E a t r why s = (Inr x, s')"
  shows "users s' = users s \<and> role_requests s' = role_requests s @ [x] \<and>
         rr_requester x = actor_id a"
  using assms by (auto simp: role_handler_defs Let_def split: option.splits if_splits)

lemma role_step_error: "role_step o1 s = (Inl e, s') \<Longrightarrow> s' = s"
  by (cases "(o1, s)" rule: role_step.cases)
    (auto simp: role_handler_defs Let_def split: option.splits if_splits sum.splits)

lemma resolve_status [simp]:
  "rr_status (resolve_role_request E a st why r) = st"
  "rr_id (resolve_role_request E a st why r) = rr_id r"
  "rr_requester (resolve_role_request E a st why r) = rr_requester r"
  by (simp_all add: resolve_role_request_def)

lemma role_step_find:
  assumes "find_role_request k s = Some r"
  shows "\<exists>r'. find_role_request k (snd (role_step o1 s)) = Some r' \<and>
           (rr_status r \<noteq> RV_PENDING \<longrightarrow> rr_status r' \<noteq> RV_PENDING)"
proof (cases "role_step o1 s")
  case (Pair rep s')
  show ?thesis
  proof (cases rep)
    case (Inl e)
    with Pair role_step_error assms show ?thesis by fastforce
  next
    case (Inr x)
    show ?thesis
    proof (cases o1 rule: role_decides.cases)
      case (1 E a t ro why)
      with Pair Inr assms create_role_request_ok [of E a t ro why s x s'] show ?thesis
        by (auto dest: find_role_request_append)
    next
      case (2 E a i why)
      with Pair Inr have "approve_role_request E a i why s = (Inr x, s')" by simp
      then show ?thesis
        by (rule approve_role_request_ok) (use Pair assms in \<open>simp add: find_role_request_resolve\<close>)
    next
      case (3 E a i why)
      with Pair Inr have "reject_role_request E a i why s = (Inr x, s')" by simp
      then show ?thesis
        by (rule reject_role_request_ok) (use Pair assms in \<open>simp add: find_role_request_resolve\<close>)
    qed
  qed
qed

lemma role_decision_facts:
  assumes "role_decides o1 = Some (k, p)" and "accepted_reply (fst (role_step o1 s))"
  shows "\<exists>r. find_role_request k s = Some r \<and> rr_status r = RV_PENDING \<and> p \<noteq> rr_requester r \<and>
           role_request_resolved k (snd (role_step o1 s))"
  using assms
proof (cases o1 rule: role_decides.cases)
  case (2 E a i why)
  with assms obtain x s' where s': "approve_role_request E a i why s = (Inr x, s')"
    by (cases "approve_role_request E a i why s")
      (auto simp: accepted_reply_def split: sum.splits)
  then show ?thesis
    by (rule approve_role_request_ok)
      (use 2 assms s' in \<open>auto simp: role_request_resolved_def dest!: find_role_request_resolve\<close>)
next
  case (3 E a i why)
  with assms obtain x s' where s': "reject_role_request E a i why s = (Inr x, s')"
    by (cases "reject_role_request E a i why s")
      (auto simp: accepted_reply_def split: sum.splits)
  then show ?thesis
    by (rule reject_role_request_ok)
      (use 3 assms s' in \<open>auto simp: role_request_resolved_def dest!: find_role_request_resolve\<close>)
qed simp

interpretation role_review:
  review_once role_step "\<lambda>_. True" role_decides accepted_reply role_request_resolved role_requester
proof (unfold_locales, goal_cases)
  case (2 s a k p)
  then show ?case using role_decision_facts by blast
next
  case (3 s a k p)
  then show ?case using role_decision_facts by (fastforce simp: role_request_resolved_def)
next
  case (4 s k a)
  then show ?case unfolding role_request_resolved_def using role_step_find by blast
next
  case (5 s a k p)
  then show ?case using role_decision_facts by (fastforce simp: role_requester_def)
qed simp

section \<open>Who can change a role\<close>

lemma role_step_users:
  assumes "role_step (E, o1) s = (Inr x, s')" and "users s' \<noteq> users s"
  obtains a i why r t where "o1 = ApproveRole a i why" "find_role_request i s = Some r"
    "rr_status r = RV_PENDING" "actor_id a \<noteq> rr_requester r"
    "rr_requested r \<in> set founder_only_assignable \<Longrightarrow> role_of (actor_id a) s = Some FOUNDER"
    "users s' = update_rows (\<lambda>u. u_id u = rr_target r)
       (\<lambda>u. u\<lparr>u_role := rr_requested r, u_ndy_id := t\<rparr>) (users s)"
proof (cases o1)
  case (RequestRole a t r why)
  with assms create_role_request_ok [of E a t r why s x s'] have False by simp
  then show ?thesis ..
next
  case (ApproveRole a i why)
  with assms(1) have "approve_role_request E a i why s = (Inr x, s')" by simp
  then show ?thesis
    by (rule approve_role_request_ok) (rule that [OF ApproveRole])
next
  case (RejectRole a i why)
  with assms(1) have "reject_role_request E a i why s = (Inr x, s')" by simp
  then have False
    by (rule reject_role_request_ok) (use assms(2) in simp)
  then show ?thesis ..
qed

definition only_pending_from :: "id \<Rightarrow> db \<Rightarrow> bool" where
  "only_pending_from p s =
     (\<forall>r \<in> set (role_requests s). rr_status r = RV_PENDING \<longrightarrow> rr_requester r = p)"

lemma find_role_request_in: "find_role_request i s = Some r \<Longrightarrow> r \<in> set (role_requests s)"
  unfolding find_role_request_def by (blast dest: find_row_Some_D)

lemma lone_actor_step:
  assumes "actor_id (role_op_actor o1) = p" and "only_pending_from p s"
  shows "users (snd (role_step (E, o1) s)) = users s \<and>
         only_pending_from p (snd (role_step (E, o1) s))"
proof (cases "role_step (E, o1) s")
  case (Pair rep s')
  show ?thesis
  proof (cases rep)
    case (Inl e)
    with Pair role_step_error assms show ?thesis by fastforce
  next
    case (Inr x)
    show ?thesis
    proof (cases o1)
      case (RequestRole a t r why)
      with Pair Inr assms create_role_request_ok [of E a t r why s x s'] show ?thesis
        by (auto simp: only_pending_from_def)
    next
      case (ApproveRole a i why)
      with Pair Inr have "approve_role_request E a i why s = (Inr x, s')" by simp
      then have False
        by (rule approve_role_request_ok)
          (use ApproveRole assms in \<open>auto simp: only_pending_from_def dest!: find_role_request_in\<close>)
      then show ?thesis ..
    next
      case (RejectRole a i why)
      with Pair Inr have "reject_role_request E a i why s = (Inr x, s')" by simp
      then have False
        by (rule reject_role_request_ok)
          (use RejectRole assms in \<open>auto simp: only_pending_from_def dest!: find_role_request_in\<close>)
      then show ?thesis ..
    qed
  qed
qed

text \<open>
  C1. One administrator alone cannot change anybody's role.  From any state whose pending role
  requests were all made by that administrator, whatever sequence of requests, approvals and
  rejections the administrator sends, the user table stays as it was.
\<close>

theorem one_admin_changes_no_role:
  assumes "list_all (\<lambda>(E, op). actor_id (role_op_actor op) = p) ops"
    and "only_pending_from p s"
  shows "users (run_ops role_step ops s) = users s"
  using assms
proof (induction ops arbitrary: s)
  case Nil
  then show ?case by simp
next
  case (Cons o1 ops)
  obtain E op where o1: "o1 = (E, op)" by fastforce
  with Cons.prems lone_actor_step [of op p s E] Cons.IH [of "snd (role_step o1 s)"] show ?case
    by simp
qed

definition demo_actor :: "id \<Rightarrow> admin_actor" where
  "demo_actor i = \<lparr>actor_id = i, actor_ndy_id = i, actor_ip = None\<rparr>"

theorem one_admin_changes_no_role_witness:
  "users (run_ops role_step
     [(demo_env 1, RequestRole (demo_actor ''a2'') ''m1'' SUPPORT None),
      (demo_env 2, ApproveRole (demo_actor ''a2'') ''id0'' None)] demo_db) = users demo_db"
  by (rule one_admin_changes_no_role [of "''a2''"])
    (simp_all add: demo_actor_def only_pending_from_def demo_db_def empty_db_def)

text \<open>
  Role changes need four eyes and a free request: in any run of requests, approvals and
  rejections, each request is decided at most once.
\<close>

theorem role_request_decided_once:
  "count_rows (\<lambda>(op, reply). map_option fst (role_decides op) = Some k \<and> accepted_reply reply)
     (run_log role_step ops s) \<le> 1"
proof -
  have "(\<lambda>(op, reply). map_option fst (role_decides op) = Some k \<and> accepted_reply reply) =
          role_review.decision_on k"
    by (auto simp: fun_eq_iff role_review.decision_on_def)
  then show ?thesis
    using role_review.decided_once [OF TrueI] by simp
qed

section \<open>No escalation without a founder\<close>

definition super_admins :: "db \<Rightarrow> id set" where
  "super_admins s = {u_id u |u. u \<in> set (users s) \<and> u_role u = SUPER_ADMIN}"

definition founders :: "db \<Rightarrow> id set" where
  "founders s = {u_id u |u. u \<in> set (users s) \<and> u_role u = FOUNDER}"

lemma role_of_in: "role_of i s = Some FOUNDER \<Longrightarrow> i \<in> founders s"
  by (auto simp: role_of_def founders_def dest!: find_user_D)

lemma no_founder_step:
  assumes "founders s = {}"
  shows "founders (snd (role_step eo s)) = {} \<and>
         super_admins (snd (role_step eo s)) \<subseteq> super_admins s"
proof -
  obtain E o1 where eo: "eo = (E, o1)" by fastforce
  obtain rep s' where st: "role_step (E, o1) s = (rep, s')" by fastforce
  show ?thesis
  proof (cases "users s' = users s")
    case True
    with assms show ?thesis by (simp add: eo st founders_def super_admins_def)
  next
    case False
    then obtain x where "rep = Inr x"
      using st role_step_error [of "(E, o1)" s] by (cases rep) auto
    with st have "role_step (E, o1) s = (Inr x, s')" by simp
    then show ?thesis
    proof (rule role_step_users [OF _ False])
      fix a i why r t
      assume r: "rr_requested r \<in> set founder_only_assignable \<Longrightarrow> role_of (actor_id a) s = Some FOUNDER"
        and u: "users s' = update_rows (\<lambda>u. u_id u = rr_target r)
                  (\<lambda>u. u\<lparr>u_role := rr_requested r, u_ndy_id := t\<rparr>) (users s)"
      have "rr_requested r \<notin> {FOUNDER, SUPER_ADMIN}"
        using r role_of_in assms by (auto simp: founder_only_assignable_def)
      with u assms show ?thesis
        by (auto simp: eo st founders_def super_admins_def set_update_rows split: if_splits)
    qed
  qed
qed

text \<open>
  C2. Without a founder nobody climbs: if no account has the role FOUNDER, then after any run of
  role operations there is still none, and no account has become SUPER\_ADMIN.
\<close>

theorem no_escalation_without_founder:
  assumes "founders s = {}"
  shows "founders (run_ops role_step ops s) = {} \<and>
         super_admins (run_ops role_step ops s) \<subseteq> super_admins s"
  using assms
proof (induction ops arbitrary: s)
  case Nil
  then show ?case by simp
next
  case (Cons eo ops)
  note step = no_founder_step [OF Cons.prems, of eo]
  with Cons.IH [of "snd (role_step eo s)"] show ?case
    using order_trans [of "super_admins (run_ops role_step ops (snd (role_step eo s)))"] by auto
qed

theorem no_escalation_without_founder_witness:
  "super_admins (run_ops role_step
     [(demo_env 1, RequestRole (demo_actor ''a2'') ''m1'' SUPER_ADMIN None)]
     (demo_db\<lparr>users := [demo_user ''a2'' ''AAAAA3'' SUPER_ADMIN]\<rparr>)) \<subseteq> {''a2''}"
proof -
  let ?s = "demo_db\<lparr>users := [demo_user ''a2'' ''AAAAA3'' SUPER_ADMIN]\<rparr>"
  have "founders ?s = {}" "super_admins ?s = {''a2''}"
    by (auto simp: founders_def super_admins_def demo_user_def)
  then show ?thesis
    using no_escalation_without_founder [of ?s
        "[(demo_env 1, RequestRole (demo_actor ''a2'') ''m1'' SUPER_ADMIN None)]"] by simp
qed

section \<open>The guard and the web app agree\<close>

text \<open>
  C3. A route that declares permission \<^verbatim>\<open>p\<close> opens exactly for the accounts for which the web app
  shows the section: the API's table and its hand-kept mirror never disagree, and the role that
  counts is the one in the database at the time of the request.
\<close>

theorem guard_agrees_with_web:
  "permission_guard (Some p) (Some i) s = Inr () \<longleftrightarrow>
     (\<exists>u. find_user i s = Some u \<and> web_role_has_permission (Some (u_role u)) p)"
proof -
  have "role_has_permission r p = web_role_has_permission (Some r) p" for r
    by (cases r) (simp_all add: role_has_permission_def web_role_has_permission_def all_permissions_def)
  then show ?thesis
    by (auto simp: permission_guard_ok_iff)
qed

section \<open>Suspension\<close>

lemma set_suspended_ok:
  assumes "set_suspended E a i True why s = (Inr v, s')"
  shows "(\<forall>x \<in> set (sessions s'). s_user x = i \<longrightarrow> s_revoked_at x \<noteq> None) \<and>
         find_user i s' = map_option (\<lambda>u. u\<lparr>u_suspended := True, u_suspended_at := Some (now E)\<rparr>)
           (find_user i s) \<and> find_user i s \<noteq> None"
proof -
  obtain t where t: "find_user i s = Some t"
    using assms by (auto simp: set_suspended_def split: option.splits)
  with assms have "sessions s' = update_rows (\<lambda>x. s_user x = i \<and> s_revoked_at x = None)
        (\<lambda>x. x\<lparr>s_revoked_at := Some (now E)\<rparr>) (sessions s)"
    and "users s' = update_rows (\<lambda>u. u_id u = i)
        (\<lambda>u. u\<lparr>u_suspended := True, u_suspended_at := Some (now E)\<rparr>) (users s)"
    by (auto simp: set_suspended_def write_audit_log_def revoke_user_sessions_def Let_def)
  with t show ?thesis
    by (auto simp: find_user_def find_row_update_keep dest!: find_row_Some_D split: if_splits)
qed

end
