(* ===== verification/Workspaces.thy ===== *)
theory Workspaces
  imports Notifications Rbac
begin

text \<open>
  Workspaces: \<^verbatim>\<open>workspace/workspace.service.ts\<close> (the personal workspace and the membership
  checks), \<^verbatim>\<open>workspace/guards/workspace.guard.ts\<close>, \<^verbatim>\<open>workspace/workspace-invite.service.ts\<close> and
  \<^verbatim>\<open>workspace/business-workspace.service.ts\<close>.
\<close>

section \<open>Membership\<close>

fun workspace_role_name :: "workspace_role \<Rightarrow> string" where
  "workspace_role_name OWNER = ''OWNER''"
| "workspace_role_name ADMIN = ''ADMIN''"
| "workspace_role_name MEMBER = ''MEMBER''"

fun join_or :: "string list \<Rightarrow> string" where
  "join_or [] = ''''"
| "join_or [x] = x"
| "join_or (x # y # xs) = x @ '' or '' @ join_or (y # xs)"

definition find_workspace :: "id \<Rightarrow> db \<Rightarrow> workspace option" where
  "find_workspace w s = find_row (\<lambda>x. ws_id x = w) (workspaces s)"

definition get_membership :: "id \<Rightarrow> id \<Rightarrow> db \<Rightarrow> ws_member option" where
  "get_membership uid w s = find_row (\<lambda>m. wm_workspace m = w \<and> wm_user m = uid) (ws_members s)"

definition assert_member :: "id \<Rightarrow> id \<Rightarrow> db \<Rightarrow> ws_member reply" where
  "assert_member uid w s =
     (case get_membership uid w s of
        None \<Rightarrow> throw (Forbidden ''You are not a member of this workspace.'')
      | Some m \<Rightarrow> ok m)"

definition assert_role :: "id \<Rightarrow> id \<Rightarrow> workspace_role list \<Rightarrow> db \<Rightarrow> ws_member reply" where
  "assert_role uid w allowed s =
     (case assert_member uid w s of
        Inl e \<Rightarrow> throw e
      | Inr m \<Rightarrow>
          if wm_role m \<notin> set allowed
          then throw (Forbidden (''Requires workspace role '' @ join_or (map workspace_role_name allowed)
                 @ '', you have '' @ workspace_role_name (wm_role m) @ ''.''))
          else ok m)"

definition list_members :: "id \<Rightarrow> db \<Rightarrow> ws_member list" where
  "list_members w s = sort_key wm_created_at (filter (\<lambda>m. wm_workspace m = w) (ws_members s))"

text \<open>The guard of the routes below \<^verbatim>\<open>business-workspaces/:workspaceId\<close>.\<close>

definition workspace_guard ::
  "workspace_role list option \<Rightarrow> id option \<Rightarrow> string option \<Rightarrow> db \<Rightarrow> unit reply" where
  "workspace_guard required caller param s =
     (if or_else required [] = [] then throw (Forbidden ''No workspace role configured for this route.'')
      else case caller of
        None \<Rightarrow> throw (Unauthorized ''Missing bearer token.'')
      | Some uid \<Rightarrow>
          if \<not> truthy param then throw (Forbidden ''No workspaceId in the route.'')
          else case get_membership uid (the param) s of
            None \<Rightarrow> throw (Forbidden (''Requires workspace role ''
                      @ join_or (map workspace_role_name (the required)) @ '' in this workspace.''))
          | Some m \<Rightarrow>
              if wm_role m \<in> set (the required) then ok ()
              else throw (Forbidden (''Requires workspace role ''
                      @ join_or (map workspace_role_name (the required)) @ '' in this workspace.'')))"

section \<open>The personal workspace\<close>

definition is_personal_owner :: "id \<Rightarrow> db \<Rightarrow> ws_member \<Rightarrow> bool" where
  "is_personal_owner uid s m =
     (wm_user m = uid \<and> wm_role m = OWNER \<and>
      (case find_workspace (wm_workspace m) s of None \<Rightarrow> False | Some w \<Rightarrow> ws_type w = PERSONAL))"

definition new_personal_workspace :: "env \<Rightarrow> user \<Rightarrow> workspace" where
  "new_personal_workspace E u =
     \<lparr>ws_id = new_id E T_Workspace 0, ws_type = PERSONAL,
      ws_name = or_else (full_name (u_passport u)) (u_ndy_id u), ws_owner = u_id u,
      ws_business_id = None, ws_created_at = now E\<rparr>"

definition default_workspace_of :: "user \<Rightarrow> db \<Rightarrow> workspace option" where
  "default_workspace_of u s =
     (if truthy (u_default_workspace u) then find_workspace (the (u_default_workspace u)) s else None)"

definition get_or_create_personal_workspace :: "env \<Rightarrow> id \<Rightarrow> (db, workspace) handler" where
  "get_or_create_personal_workspace E uid s =
     (case find_user uid s of
        None \<Rightarrow> (throw (NotFound ''No user with that id.''), s)
      | Some u \<Rightarrow>
          (case default_workspace_of u s of
             Some w \<Rightarrow> (ok w, s)
           | None \<Rightarrow>
               (case find_row (is_personal_owner uid s) (ws_members s) of
                  Some m \<Rightarrow>
                    (ok (the (find_workspace (wm_workspace m) s)),
                     update_user uid (\<lambda>u. u\<lparr>u_default_workspace := Some (wm_workspace m)\<rparr>) s)
                | None \<Rightarrow>
                    let w = new_personal_workspace E u
                    in (ok w,
                        (update_user uid (\<lambda>u. u\<lparr>u_default_workspace := Some (ws_id w)\<rparr>) s)
                        \<lparr>workspaces := workspaces s @ [w],
                          ws_members := ws_members s @
                            [\<lparr>wm_id = new_id E T_WsMember 0, wm_workspace = ws_id w,
                              wm_user = u_id u, wm_role = OWNER, wm_department = None,
                              wm_created_at = now E\<rparr>]\<rparr>))))"

section \<open>Invites\<close>

record workspace_actor =
  wa_id :: id
  wa_ndy_id :: string

definition invite_ttl :: time where
  "invite_ttl = days 7"

definition hash_invite :: "env \<Rightarrow> string \<Rightarrow> string" where
  "hash_invite E t = sha256 E t"

definition invite_url :: "env \<Rightarrow> string \<Rightarrow> string" where
  "invite_url E raw = web_app_url E @ ''/workspace-invites/accept?token='' @ raw"

definition invite_html :: "env \<Rightarrow> workspace_actor \<Rightarrow> workspace \<Rightarrow> workspace_role \<Rightarrow> string \<Rightarrow> string" where
  "invite_html E actor w r url =
     ''<p>'' @ escape_html (wa_ndy_id actor) @ '' invited you to join <strong>''
     @ escape_html (ws_name w) @ ''</strong> on NDY HUB as '' @ escape_html (workspace_role_name r)
     @ ''.</p><p><a href='' @ [CHR 0x22] @ escape_html url @ [CHR 0x22]
     @ ''>Accept the invite</a></p><p>This invite expires in 7 days.</p>''"

definition find_invite :: "string \<Rightarrow> db \<Rightarrow> ws_invite option" where
  "find_invite h s = find_row (\<lambda>i. wi_token i = h) (ws_invites s)"

text \<open>The reply is the row together with the link.\<close>

definition invite_member ::
  "env \<Rightarrow> workspace_actor \<Rightarrow> id \<Rightarrow> string \<Rightarrow> workspace_role \<Rightarrow> string option \<Rightarrow>
   (db, ws_invite \<times> string) handler" where
  "invite_member E actor w email r dept s =
     (case find_workspace w s of
        None \<Rightarrow> (throw (NotFound ''No workspace with that id.''), s)
      | Some ws \<Rightarrow>
          if exists_row (\<lambda>m. wm_workspace m = w \<and>
               (case find_user (wm_user m) s of None \<Rightarrow> False | Some u \<Rightarrow> u_email u = email)) (ws_members s)
          then (throw (Conflict ''This person is already a member of the workspace.''), s)
          else
            let raw = draw E InviteTokenDraw 0;
                iv = \<lparr>wi_id = new_id E T_Invite 0, wi_workspace = w, wi_email = email, wi_role = r,
                       wi_department = dept, wi_inviter = wa_id actor,
                       wi_inviter_ndy_id = wa_ndy_id actor, wi_status = IV_PENDING,
                       wi_token = hash_invite E raw, wi_expires = now E + invite_ttl,
                       wi_resolved_at = None, wi_created_at = now E\<rparr>
            in if find_invite (wi_token iv) s \<noteq> None then (throw unique_violation, s)
               else (ok (iv, invite_url E raw),
                     s\<lparr>ws_invites := ws_invites s @ [iv],
                       mail_outbox := mail_outbox s @
                         [InviteMail email (''You've been invited to join '' @ ws_name ws @ '' on NDY HUB'')
                            (invite_html E actor ws r (invite_url E raw))]\<rparr>))"

abbreviation resolve_invite :: "env \<Rightarrow> id \<Rightarrow> invite_status \<Rightarrow> db \<Rightarrow> db" where
  "resolve_invite E i st s \<equiv>
     s\<lparr>ws_invites := update_rows (\<lambda>x. wi_id x = i)
        (\<lambda>x. x\<lparr>wi_status := st, wi_resolved_at := Some (now E)\<rparr>) (ws_invites s)\<rparr>"

definition accept_notice :: "ws_invite \<Rightarrow> workspace \<Rightarrow> user \<Rightarrow> notify_params" where
  "accept_notice iv w u =
     \<lparr>np_user = wi_inviter iv, np_workspace = Some (wi_workspace iv), np_category = SYSTEM,
      np_channel = IN_APP, np_title = ''Invite accepted'',
      np_body = u_ndy_id u @ '' accepted your invite to '' @ ws_name w @ ''.'', np_link = None,
      np_source = Some (''workspace-invite-accepted:'' @ wi_id iv)\<rparr>"

definition accept_invite :: "env \<Rightarrow> id \<Rightarrow> string \<Rightarrow> (db, ws_member) handler" where
  "accept_invite E uid raw s =
     (case find_invite (hash_invite E raw) s of
        None \<Rightarrow> (throw (NotFound ''Invalid invite token.''), s)
      | Some iv \<Rightarrow>
          if wi_status iv \<noteq> IV_PENDING
          then (throw (Conflict ''This invite has already been resolved.''), s)
          else if wi_expires iv < now E
          then (throw (Conflict ''This invite has expired.''), resolve_invite E (wi_id iv) IV_EXPIRED s)
          else case find_user uid s of
            None \<Rightarrow> (throw (NotFound ''No user with that id.''), s)
          | Some u \<Rightarrow>
              if u_email u \<noteq> wi_email iv
              then (throw (Forbidden ''This invite was sent to a different email address.''), s)
              else if get_membership uid (wi_workspace iv) s \<noteq> None then (throw unique_violation, s)
              else
                let m = \<lparr>wm_id = new_id E T_WsMember 0, wm_workspace = wi_workspace iv, wm_user = uid,
                         wm_role = wi_role iv, wm_department = wi_department iv,
                         wm_created_at = now E\<rparr>;
                    s1 = (resolve_invite E (wi_id iv) IV_ACCEPTED s)
                           \<lparr>ws_members := ws_members s @ [m]\<rparr>
                in case find_workspace (wi_workspace iv) s of
                     None \<Rightarrow> (throw record_missing, s)
                   | Some w \<Rightarrow> and_then (notify E (accept_notice iv w u)) (\<lambda>_ s2. (ok m, s2)) s1)"

record invite_view =
  iv_workspace_name :: string
  iv_email :: string
  iv_role :: workspace_role
  iv_department :: "string option"
  iv_inviter :: string
  iv_status :: invite_status
  iv_expires :: time

definition preview_invite :: "env \<Rightarrow> string \<Rightarrow> db \<Rightarrow> invite_view reply" where
  "preview_invite E raw s =
     (case find_invite (hash_invite E raw) s of
        None \<Rightarrow> throw (NotFound ''Invalid invite token.'')
      | Some iv \<Rightarrow>
          (case find_workspace (wi_workspace iv) s of
             None \<Rightarrow> throw record_missing
           | Some w \<Rightarrow>
               ok \<lparr>iv_workspace_name = ws_name w, iv_email = wi_email iv, iv_role = wi_role iv,
                   iv_department = wi_department iv, iv_inviter = wi_inviter_ndy_id iv,
                   iv_status = wi_status iv, iv_expires = wi_expires iv\<rparr>))"

definition revoke_invite :: "env \<Rightarrow> workspace_actor \<Rightarrow> id \<Rightarrow> (db, ws_invite) handler" where
  "revoke_invite E actor i s =
     (case find_row (\<lambda>x. wi_id x = i) (ws_invites s) of
        None \<Rightarrow> (throw (NotFound ''No invite with that id.''), s)
      | Some iv \<Rightarrow>
          if wi_status iv \<noteq> IV_PENDING
          then (throw (Conflict ''This invite has already been resolved.''), s)
          else (ok (iv\<lparr>wi_status := IV_REVOKED, wi_resolved_at := Some (now E)\<rparr>),
                resolve_invite E i IV_REVOKED s))"

definition list_invites :: "id \<Rightarrow> db \<Rightarrow> ws_invite list" where
  "list_invites w s = take 100 (rev (filter (\<lambda>i. wi_workspace i = w) (ws_invites s)))"

text \<open>The team routes: the guard runs on the route's workspace, then the service.\<close>

definition create_invite_route ::
  "env \<Rightarrow> workspace_actor \<Rightarrow> id \<Rightarrow> string \<Rightarrow> workspace_role \<Rightarrow> string option \<Rightarrow>
   (db, ws_invite \<times> string) handler" where
  "create_invite_route E actor w email r dept s =
     (case workspace_guard (Some [OWNER, ADMIN]) (Some (wa_id actor)) (Some w) s of
        Inl e \<Rightarrow> (throw e, s)
      | Inr _ \<Rightarrow> invite_member E actor w email r dept s)"

definition revoke_invite_route ::
  "env \<Rightarrow> workspace_actor \<Rightarrow> id \<Rightarrow> id \<Rightarrow> (db, ws_invite) handler" where
  "revoke_invite_route E actor w i s =
     (case workspace_guard (Some [OWNER, ADMIN]) (Some (wa_id actor)) (Some w) s of
        Inl e \<Rightarrow> (throw e, s)
      | Inr _ \<Rightarrow> revoke_invite E actor i s)"

section \<open>Business workspaces\<close>

definition create_business_request ::
  "env \<Rightarrow> workspace_actor \<Rightarrow> string \<Rightarrow> string option \<Rightarrow> (db, business_request) handler" where
  "create_business_request E actor name reason s =
     (let t = trim name
      in if t = [] then (throw (Conflict ''Business name is required.''), s)
         else
           let q = \<lparr>bq_id = new_id E T_BusinessRequest 0, bq_requester = wa_id actor,
                    bq_requester_ndy_id = wa_ndy_id actor, bq_name = t, bq_reason = reason,
                    bq_status = RV_PENDING, bq_reviewer = None, bq_reviewer_ndy_id = None,
                    bq_review_reason = None, bq_resolved_at = None, bq_workspace = None,
                    bq_created_at = now E\<rparr>
           in (ok q, s\<lparr>business_requests := business_requests s @ [q]\<rparr>))"

definition list_business_requests :: "review_status option \<Rightarrow> db \<Rightarrow> business_request list" where
  "list_business_requests status s =
     take 100 (rev (filter (\<lambda>q. case status of None \<Rightarrow> True | Some x \<Rightarrow> bq_status q = x)
       (business_requests s)))"

definition find_business_request :: "id \<Rightarrow> db \<Rightarrow> business_request option" where
  "find_business_request k s = find_row (\<lambda>q. bq_id q = k) (business_requests s)"

definition get_pending_business_request :: "id \<Rightarrow> db \<Rightarrow> business_request reply" where
  "get_pending_business_request k s =
     (case find_business_request k s of
        None \<Rightarrow> throw (NotFound ''No business workspace request with that id.'')
      | Some q \<Rightarrow>
          if bq_status q \<noteq> RV_PENDING then throw (Conflict ''This request has already been resolved.'')
          else ok q)"

definition generate_ndy_business_id :: "env \<Rightarrow> nat \<Rightarrow> string" where
  "generate_ndy_business_id E attempt = ''NDY-BIZ-'' @ draw E BusinessIdDraw attempt"

text \<open>
  The retry loop: attempt \<^verbatim>\<open>k\<close> draws a business id; a draw another workspace holds makes the
  insert fail with P2002 and the next attempt runs; after five the loop gives up.
\<close>

function first_free_business_id :: "env \<Rightarrow> nat \<Rightarrow> db \<Rightarrow> string option" where
  "first_free_business_id E attempt s =
     (if 5 \<le> attempt then None
      else let b = generate_ndy_business_id E attempt
           in if exists_row (\<lambda>w. ws_business_id w = Some b) (workspaces s)
              then first_free_business_id E (Suc attempt) s
              else Some b)"
  by pat_completeness auto
termination
  by (relation "measure (\<lambda>(E, attempt, s). 5 - attempt)") auto

declare first_free_business_id.simps [simp del]

definition resolve_business_request ::
  "env \<Rightarrow> workspace_actor \<Rightarrow> review_status \<Rightarrow> string option \<Rightarrow> business_request \<Rightarrow> business_request" where
  "resolve_business_request E actor st reason q =
     q\<lparr>bq_status := st, bq_reviewer := Some (wa_id actor), bq_reviewer_ndy_id := Some (wa_ndy_id actor),
       bq_review_reason := reason, bq_resolved_at := Some (now E)\<rparr>"

definition approve_business_request ::
  "env \<Rightarrow> workspace_actor \<Rightarrow> id \<Rightarrow> string option \<Rightarrow> (db, workspace) handler" where
  "approve_business_request E actor k reason s =
     (case get_pending_business_request k s of
        Inl e \<Rightarrow> (throw e, s)
      | Inr q \<Rightarrow>
          if wa_id actor = bq_requester q
          then (throw (Forbidden ''You requested this workspace - a different admin has to approve it.''), s)
          else case first_free_business_id E 0 s of
            None \<Rightarrow> (throw (Conflict ''Could not allocate a unique business id - try again.''), s)
          | Some b \<Rightarrow>
              let w = \<lparr>ws_id = new_id E T_Workspace 0, ws_type = BUSINESS, ws_name = bq_name q,
                       ws_owner = bq_requester q, ws_business_id = Some b, ws_created_at = now E\<rparr>
              in (ok w,
                  s\<lparr>workspaces := workspaces s @ [w],
                    ws_members := ws_members s @
                      [\<lparr>wm_id = new_id E T_WsMember 0, wm_workspace = ws_id w,
                        wm_user = bq_requester q, wm_role = OWNER, wm_department = None,
                        wm_created_at = now E\<rparr>],
                    business_requests := update_rows (\<lambda>x. bq_id x = bq_id q)
                      (\<lambda>x. (resolve_business_request E actor RV_APPROVED reason x)
                             \<lparr>bq_workspace := Some (ws_id w)\<rparr>) (business_requests s)\<rparr>))"

definition reject_business_request ::
  "env \<Rightarrow> workspace_actor \<Rightarrow> id \<Rightarrow> string option \<Rightarrow> (db, business_request) handler" where
  "reject_business_request E actor k reason s =
     (case get_pending_business_request k s of
        Inl e \<Rightarrow> (throw e, s)
      | Inr q \<Rightarrow>
          (ok (resolve_business_request E actor RV_REJECTED reason q),
           s\<lparr>business_requests := update_rows (\<lambda>x. bq_id x = bq_id q)
               (resolve_business_request E actor RV_REJECTED reason) (business_requests s)\<rparr>))"

section \<open>One personal workspace\<close>

lemma find_user_default:
  "find_user i (update_user uid (\<lambda>u. u\<lparr>u_default_workspace := d\<rparr>) s) =
     (if i = uid then map_option (\<lambda>u. u\<lparr>u_default_workspace := d\<rparr>) (find_user i s) else find_user i s)"
  by (rule find_user_update) simp

lemma update_user_default_again:
  "update_user uid (\<lambda>u. u\<lparr>u_default_workspace := d\<rparr>)
     (update_user uid (\<lambda>u. u\<lparr>u_default_workspace := d\<rparr>) s) =
   update_user uid (\<lambda>u. u\<lparr>u_default_workspace := d\<rparr>) s"
  by (simp add: update_rows_def)

text \<open>
  Asking twice for the personal workspace gives the same one and writes nothing the second
  time, provided the database's row ids are fresh: the signup path and any later caller can never
  create two.
\<close>

theorem personal_workspace_idempotent:
  assumes "get_or_create_personal_workspace E uid s = (Inr w, s')"
    and "find_workspace (new_id E T_Workspace 0) s = None" and "new_id E T_Workspace 0 \<noteq> []"
  shows "get_or_create_personal_workspace E' uid s' = (Inr w, s')"
proof -
  obtain u where u: "find_user uid s = Some u"
    using assms(1) by (auto simp: get_or_create_personal_workspace_def split: option.splits)
  show ?thesis
  proof (cases "default_workspace_of u s")
    case (Some w0)
    with assms(1) u show ?thesis
      by (simp add: get_or_create_personal_workspace_def)
  next
    case None
    show ?thesis
    proof (cases "find_row (is_personal_owner uid s) (ws_members s)")
      case (Some m)
      have w: "w = the (find_workspace (wm_workspace m) s)"
        and s': "s' = update_user uid (\<lambda>u. u\<lparr>u_default_workspace := Some (wm_workspace m)\<rparr>) s"
        using assms(1) u None Some by (auto simp: get_or_create_personal_workspace_def)
      have ws: "find_workspace i s' = find_workspace i s" for i
        by (simp add: s' find_workspace_def)
      then have own: "is_personal_owner uid s' = is_personal_owner uid s"
        by (simp add: fun_eq_iff is_personal_owner_def)
      obtain w0 where w0: "find_workspace (wm_workspace m) s = Some w0"
        using find_row_Some_D [OF Some] by (auto simp: is_personal_owner_def split: option.splits)
      have f: "find_user uid s' = Some (u\<lparr>u_default_workspace := Some (wm_workspace m)\<rparr>)"
        using u by (simp add: s' find_user_default)
      have row: "find_row (is_personal_owner uid s') (ws_members s') = Some m"
        unfolding own using Some by (simp add: s')
      have d: "default_workspace_of (u\<lparr>u_default_workspace := Some (wm_workspace m)\<rparr>) s' =
                 (if wm_workspace m = [] then None else Some w)"
        using w0 w by (simp add: default_workspace_of_def ws)
      have "update_user uid (\<lambda>u. u\<lparr>u_default_workspace := Some (wm_workspace m)\<rparr>) s' = s'"
        unfolding s' by (rule update_user_default_again)
      then show ?thesis
        using f row d w w0 ws
        by (cases "wm_workspace m = []") (auto simp: get_or_create_personal_workspace_def)
    next
      case n: None
      have w: "w = new_personal_workspace E u"
        and s': "users s' = users (update_user uid (\<lambda>u. u\<lparr>u_default_workspace := Some (ws_id w)\<rparr>) s)"
        and ws: "workspaces s' = workspaces s @ [w]"
        using assms(1) u None n by (auto simp: get_or_create_personal_workspace_def Let_def)
      have "find_user uid s' = Some (u\<lparr>u_default_workspace := Some (ws_id w)\<rparr>)"
        using find_user_cong [OF s', of uid] find_user_default [of uid uid] u by simp
      moreover have "find_workspace (ws_id w) s' = Some w"
        using assms(2) by (simp add: find_workspace_def ws find_row_append w new_personal_workspace_def)
      ultimately show ?thesis
        using assms(3) w
        by (simp add: get_or_create_personal_workspace_def default_workspace_of_def new_personal_workspace_def)
    qed
  qed
qed

theorem personal_workspace_idempotent_witness:
  "let r = get_or_create_personal_workspace (demo_env 1) ''m1'' demo_db
   in get_or_create_personal_workspace (demo_env 2) ''m1'' (snd r) = r"
proof -
  let ?r = "get_or_create_personal_workspace (demo_env 1) ''m1'' demo_db"
  let ?w = "new_personal_workspace (demo_env 1) (demo_user ''m1'' ''AAAAA4'' USER)"
  have "fst ?r = Inr ?w" "find_workspace (new_id (demo_env 1) T_Workspace 0) demo_db = None"
    "new_id (demo_env 1) T_Workspace 0 \<noteq> []"
    by code_simp+
  then show ?thesis
    using personal_workspace_idempotent [of "demo_env 1" "''m1''" demo_db ?w "snd ?r" "demo_env 2"]
    by (simp add: prod_eq_iff)
qed

section \<open>Invites are single-use\<close>

definition invite_later :: "ws_invite \<Rightarrow> ws_invite \<Rightarrow> bool" where
  "invite_later x y =
     (wi_id y = wi_id x \<and> wi_token y = wi_token x \<and> wi_workspace y = wi_workspace x \<and>
      wi_role y = wi_role x \<and> wi_email y = wi_email x \<and>
      (wi_status x \<noteq> IV_PENDING \<longrightarrow> wi_status y \<noteq> IV_PENDING))"

interpretation invite_history: row_history invite_later
  by unfold_locales (auto simp: invite_later_def)

datatype team_op =
    SendInvite workspace_actor id string workspace_role "string option"
  | AcceptInvite id string
  | RevokeInvite workspace_actor id id

fun team_step :: "env \<times> team_op \<Rightarrow> db \<Rightarrow> bool \<times> db" where
  "team_step (E, SendInvite a w m r d) s =
     (let p = create_invite_route E a w m r d s in (accepted_reply (fst p), snd p))"
| "team_step (E, AcceptInvite u t) s =
     (let p = accept_invite E u t s in (accepted_reply (fst p), snd p))"
| "team_step (E, RevokeInvite a w i) s =
     (let p = revoke_invite_route E a w i s in (accepted_reply (fst p), snd p))"

fun redeemed_invite :: "env \<times> team_op \<Rightarrow> string option" where
  "redeemed_invite (E, AcceptInvite u t) = Some (hash_invite E t)"
| "redeemed_invite _ = None"

definition invite_spent :: "string \<Rightarrow> db \<Rightarrow> bool" where
  "invite_spent h s = (\<exists>x. find_invite h s = Some x \<and> wi_status x \<noteq> IV_PENDING)"

lemma notify_frame [simp]:
  "ws_invites (snd (notify E p s)) = ws_invites s"
  "ws_members (snd (notify E p s)) = ws_members s"
  "workspaces (snd (notify E p s)) = workspaces s"
  "business_requests (snd (notify E p s)) = business_requests s"
  "users (snd (notify E p s)) = users s"
  by (simp_all add: notify_def Let_def deliver_def split: option.splits notification_channel.splits)

lemma resolve_invite_advance:
  "st \<noteq> IV_PENDING \<Longrightarrow> rows_advance invite_later (ws_invites s) (ws_invites (resolve_invite E i st s))"
  by (simp, rule invite_history.advance_update) (simp add: invite_later_def)

lemma accept_invite_rows:
  "ws_invites (snd (accept_invite E u t s)) = ws_invites s \<or>
   (\<exists>i st. st \<noteq> IV_PENDING \<and>
      ws_invites (snd (accept_invite E u t s)) = ws_invites (resolve_invite E i st s))"
  unfolding accept_invite_def
  by (cases "find_invite (hash_invite E t) s")
    (auto simp: Let_def split: option.splits)

lemma team_step_advance: "rows_advance invite_later (ws_invites s) (ws_invites (snd (team_step eo s)))"
proof (cases eo)
  case (Pair E a)
  show ?thesis
  proof (cases a)
    case (AcceptInvite u t)
    with Pair accept_invite_rows [of E u t s] resolve_invite_advance [where s = s and E = E] show ?thesis
      by (auto simp: Let_def)
  next
    case (SendInvite b w m r d)
    with Pair show ?thesis
      by (auto simp: Let_def create_invite_route_def invite_member_def split: option.splits sum.splits)
  next
    case (RevokeInvite b w i)
    with Pair resolve_invite_advance [where s = s and E = E] show ?thesis
      by (auto simp: Let_def revoke_invite_route_def revoke_invite_def split: option.splits sum.splits)
  qed
qed

lemma accept_invite_ok:
  assumes "accept_invite E u t s = (Inr m, s')"
  obtains x v where "find_invite (hash_invite E t) s = Some x" "wi_status x = IV_PENDING"
    "now E \<le> wi_expires x" "find_user u s = Some v" "u_email v = wi_email x"
    "get_membership u (wi_workspace x) s = None"
    "ws_members s' = ws_members s @ [m]" "wm_user m = u" "wm_workspace m = wi_workspace x"
    "wm_role m = wi_role x"
    "ws_invites s' = ws_invites (resolve_invite E (wi_id x) IV_ACCEPTED s)"
proof -
  obtain x where x: "find_invite (hash_invite E t) s = Some x"
    using assms by (auto simp: accept_invite_def split: option.splits)
  obtain v where v: "find_user u s = Some v"
    using assms x by (auto simp: accept_invite_def split: option.splits if_splits)
  obtain w where w: "find_workspace (wi_workspace x) s = Some w"
    using assms x v by (auto simp: accept_invite_def Let_def split: option.splits if_splits)
  let ?m = "\<lparr>wm_id = new_id E T_WsMember 0, wm_workspace = wi_workspace x, wm_user = u,
             wm_role = wi_role x, wm_department = wi_department x, wm_created_at = now E\<rparr>"
  let ?s1 = "(resolve_invite E (wi_id x) IV_ACCEPTED s)\<lparr>ws_members := ws_members s @ [?m]\<rparr>"
  have g: "wi_status x = IV_PENDING" "now E \<le> wi_expires x" "u_email v = wi_email x"
    "get_membership u (wi_workspace x) s = None"
    and r: "and_then (notify E (accept_notice x w v)) (\<lambda>_ s2. (Inr ?m, s2)) ?s1 = (Inr m, s')"
    using assms x v w by (auto simp: accept_invite_def Let_def split: if_splits)
  then have "s' = snd (notify E (accept_notice x w v) ?s1)" and m: "m = ?m"
    by (auto simp: and_then_def split: prod.splits sum.splits)
  then have "ws_members s' = ws_members s @ [m]"
    "ws_invites s' = ws_invites (resolve_invite E (wi_id x) IV_ACCEPTED s)" by simp_all
  with x v g m show thesis
    by (intro that) simp_all
qed

lemma accept_spends:
  assumes "accept_invite E u t s = (Inr m, s')"
  shows "invite_spent (hash_invite E t) s'"
  using assms
  by (rule accept_invite_ok)
    (auto simp: invite_spent_def find_invite_def find_row_update_keep)

interpretation invite_redemption:
  single_use team_step "\<lambda>_. True" redeemed_invite "\<lambda>b. b" invite_spent
proof (unfold_locales, goal_cases)
  case (2 s a k)
  then show ?case
    by (cases a rule: redeemed_invite.cases)
      (auto simp: Let_def accepted_reply_def dest: accept_spends split: sum.splits,
        metis prod.collapse accept_spends)
next
  case (3 s a k)
  then show ?case
    by (cases a rule: redeemed_invite.cases)
      (auto simp: Let_def invite_spent_def accept_invite_def)
next
  case (4 s k a)
  then obtain x where x: "find_invite k s = Some x" "wi_status x \<noteq> IV_PENDING"
    by (auto simp: invite_spent_def)
  obtain y where "find_invite k (snd (team_step a s)) = Some y" "invite_later x y"
    using invite_history.advance_find [OF team_step_advance [of s a] x(1) [unfolded find_invite_def]]
    by (auto simp: invite_later_def find_invite_def)
  with x show ?case
    by (auto simp: invite_spent_def invite_later_def)
qed simp

text \<open>
  An invite is redeemed at most once, whatever invites, acceptances and revocations happen
  around it.
\<close>

theorem invite_single_use:
  "count_rows (\<lambda>(op, granted). redeemed_invite op = Some h \<and> granted) (run_log team_step ops s) \<le> 1"
proof -
  have "(\<lambda>(op, granted). redeemed_invite op = Some h \<and> granted) = invite_redemption.redeems h"
    by (auto simp: fun_eq_iff invite_redemption.redeems_def)
  then show ?thesis
    using invite_redemption.at_most_once [OF TrueI] by simp
qed

text \<open>
  What accepting an invite does: it succeeds only for a pending invite that has not expired,
  sent to the accepting account's own e-mail address, and it adds exactly one membership, in the
  invite's workspace and with the invite's role.
\<close>

theorem accept_invite_effect:
  assumes "accept_invite E u t s = (Inr m, s')"
  shows "\<exists>x v. find_invite (hash_invite E t) s = Some x \<and> wi_status x = IV_PENDING \<and>
           now E \<le> wi_expires x \<and> find_user u s = Some v \<and> u_email v = wi_email x \<and>
           ws_members s' = ws_members s @ [m] \<and> wm_user m = u \<and>
           wm_workspace m = wi_workspace x \<and> wm_role m = wi_role x \<and>
           (\<exists>y. find_invite (hash_invite E t) s' = Some y \<and> wi_status y = IV_ACCEPTED)"
  using assms
proof (rule accept_invite_ok, intro exI conjI)
  fix x
  assume x: "find_invite (hash_invite E t) s = Some x"
    and s': "ws_invites s' = ws_invites (resolve_invite E (wi_id x) IV_ACCEPTED s)"
  show "find_invite (hash_invite E t) s' =
          Some (x\<lparr>wi_status := IV_ACCEPTED, wi_resolved_at := Some (now E)\<rparr>)"
    using x s' by (simp add: find_invite_def find_row_update_keep)
qed simp_all

definition demo_team :: db where
  "demo_team = demo_db
     \<lparr>workspaces := [\<lparr>ws_id = ''w'', ws_type = BUSINESS, ws_name = ''W'', ws_owner = ''a1'',
        ws_business_id = None, ws_created_at = 0\<rparr>],
      ws_invites := [\<lparr>wi_id = ''i'', wi_workspace = ''w'', wi_email = ''m1@x.y'', wi_role = MEMBER,
        wi_department = None, wi_inviter = ''a1'', wi_inviter_ndy_id = ''n'', wi_status = IV_PENDING,
        wi_token = ''tok'', wi_expires = 9, wi_resolved_at = None, wi_created_at = 0\<rparr>]\<rparr>"

theorem accept_invite_effect_witness:
  "\<exists>y. find_invite (hash_invite (demo_env 5) ''tok'')
     (snd (accept_invite (demo_env 5) ''m1'' ''tok'' demo_team)) = Some y \<and> wi_status y = IV_ACCEPTED"
proof -
  let ?r = "accept_invite (demo_env 5) ''m1'' ''tok'' demo_team"
  have "fst ?r = Inr \<lparr>wm_id = ''id0'', wm_workspace = ''w'', wm_user = ''m1'', wm_role = MEMBER,
      wm_department = None, wm_created_at = 5\<rparr>"
    by code_simp
  then have "?r = (Inr \<lparr>wm_id = ''id0'', wm_workspace = ''w'', wm_user = ''m1'', wm_role = MEMBER,
      wm_department = None, wm_created_at = 5\<rparr>, snd ?r)"
    by (simp add: prod_eq_iff)
  from accept_invite_effect [OF this] show ?thesis by blast
qed

section \<open>Business workspaces are approved by somebody else\<close>

lemma first_free_business_id_Some:
  "first_free_business_id E k s = Some b \<Longrightarrow>
     (\<forall>w \<in> set (workspaces s). ws_business_id w \<noteq> Some b) \<and>
     (\<exists>j. k \<le> j \<and> j < 5 \<and> b = generate_ndy_business_id E j)"
proof (induction E k s rule: first_free_business_id.induct)
  case (1 E k s)
  let ?b = "generate_ndy_business_id E k"
  show ?case
  proof (cases "k < 5 \<and> exists_row (\<lambda>w. ws_business_id w = Some ?b) (workspaces s)")
    case True
    with 1 have "(\<forall>w \<in> set (workspaces s). ws_business_id w \<noteq> Some b) \<and>
        (\<exists>j. Suc k \<le> j \<and> j < 5 \<and> b = generate_ndy_business_id E j)"
      by (subst (asm) first_free_business_id.simps) (simp add: Let_def)
    then show ?thesis using Suc_leD by blast
  next
    case False
    with 1(2) show ?thesis
      by (subst (asm) first_free_business_id.simps) (auto simp: Let_def split: if_splits)
  qed
qed

text \<open>
  A business workspace exists only after somebody other than the requester approved it.  A
  successful approval found the request pending, created one BUSINESS workspace owned by the
  requester with a business id no other workspace holds, made the requester its OWNER and left
  the request resolved, so that a second decision is refused.
\<close>

theorem approve_business_effect:
  assumes "approve_business_request E a k why s = (Inr w, s')"
  shows "\<exists>q. find_business_request k s = Some q \<and> bq_status q = RV_PENDING \<and>
           bq_requester q \<noteq> wa_id a \<and> ws_type w = BUSINESS \<and> ws_owner w = bq_requester q \<and>
           workspaces s' = workspaces s @ [w] \<and>
           (\<forall>x \<in> set (workspaces s). ws_business_id x \<noteq> ws_business_id w) \<and>
           (\<exists>m. ws_members s' = ws_members s @ [m] \<and> wm_user m = bq_requester q \<and>
              wm_workspace m = ws_id w \<and> wm_role m = OWNER) \<and>
           \<not> succeeds (approve_business_request E' a' k why' s') \<and>
           \<not> succeeds (reject_business_request E' a' k why' s')"
proof -
  obtain q where q: "find_business_request k s = Some q" "bq_status q = RV_PENDING"
    using assms by (auto simp: approve_business_request_def get_pending_business_request_def
        split: option.splits sum.splits if_splits)
  have id: "bq_id q = k"
    using q(1) unfolding find_business_request_def by (blast dest: find_row_Some_D)
  obtain b where b: "first_free_business_id E 0 s = Some b" "wa_id a \<noteq> bq_requester q"
    using assms q by (auto simp: approve_business_request_def get_pending_business_request_def
        split: option.splits if_splits)
  have w: "ws_type w = BUSINESS" "ws_owner w = bq_requester q" "ws_business_id w = Some b"
    and s': "workspaces s' = workspaces s @ [w]"
      "\<exists>m. ws_members s' = ws_members s @ [m] \<and> wm_user m = bq_requester q \<and>
         wm_workspace m = ws_id w \<and> wm_role m = OWNER"
      "business_requests s' = update_rows (\<lambda>x. bq_id x = k)
         (\<lambda>x. (resolve_business_request E a RV_APPROVED why x)\<lparr>bq_workspace := Some (ws_id w)\<rparr>)
         (business_requests s)"
    using assms q b id
    by (auto simp: approve_business_request_def get_pending_business_request_def Let_def)
  have "find_business_request k s' =
     Some ((resolve_business_request E a RV_APPROVED why q)\<lparr>bq_workspace := Some (ws_id w)\<rparr>)"
    using q(1) id unfolding find_business_request_def s'(3)
    by (simp add: find_row_update_keep resolve_business_request_def)
  then have "\<not> succeeds (approve_business_request E' a' k why' s')"
    "\<not> succeeds (reject_business_request E' a' k why' s')"
    by (simp_all add: approve_business_request_def reject_business_request_def
        get_pending_business_request_def resolve_business_request_def)
  with q b w s' first_free_business_id_Some [OF b(1)] show ?thesis
    by (intro exI [of _ q]) auto
qed

definition demo_ws_actor :: "id \<Rightarrow> workspace_actor" where
  "demo_ws_actor i = \<lparr>wa_id = i, wa_ndy_id = i\<rparr>"

theorem approve_business_effect_witness:
  "\<not> succeeds (reject_business_request (demo_env 3) (demo_ws_actor ''a1'') ''id0'' None
     (snd (approve_business_request (demo_env 2) (demo_ws_actor ''a1'') ''id0'' None
       (snd (create_business_request (demo_env 1) (demo_ws_actor ''m1'') '' Acme '' None demo_db)))))"
proof -
  let ?s = "snd (create_business_request (demo_env 1) (demo_ws_actor ''m1'') '' Acme '' None demo_db)"
  let ?r = "approve_business_request (demo_env 2) (demo_ws_actor ''a1'') ''id0'' None ?s"
  have "fst ?r = Inr \<lparr>ws_id = ''id0'', ws_type = BUSINESS, ws_name = ''Acme'', ws_owner = ''m1'',
      ws_business_id = Some ''NDY-BIZ-ABCDE0'', ws_created_at = 2\<rparr>"
    by code_simp
  then show ?thesis
    using approve_business_effect [of "demo_env 2" "demo_ws_actor ''a1''" "''id0''" None ?s _ "snd ?r"
        "demo_env 3" "demo_ws_actor ''a1''" None]
    by (metis prod.collapse)
qed

section \<open>Two gaps of the team routes\<close>

text \<open>
  The revoke route checks the caller's role in the workspace of the route and then revokes the
  invite named by its id, whichever workspace that invite belongs to.
\<close>

lemma revoke_route_ignores_workspace:
  assumes "workspace_guard (Some [OWNER, ADMIN]) (Some (wa_id a)) (Some w) s = Inr ()"
    and "find_row (\<lambda>x. wi_id x = i) (ws_invites s) = Some x" and "wi_status x = IV_PENDING"
  shows "succeeds (revoke_invite_route E a w i s)"
  using assms by (simp add: revoke_invite_route_def revoke_invite_def)

text \<open>An ADMIN of a workspace can send an invite for the role OWNER.\<close>

lemma admin_can_invite_owner:
  "succeeds (create_invite_route (demo_env 1) (demo_ws_actor ''m1'') ''w'' ''x@y.z'' OWNER None
     (demo_db\<lparr>workspaces := [\<lparr>ws_id = ''w'', ws_type = BUSINESS, ws_name = ''W'', ws_owner = ''a1'',
                ws_business_id = None, ws_created_at = 0\<rparr>],
              ws_members := [\<lparr>wm_id = ''k'', wm_workspace = ''w'', wm_user = ''m1'', wm_role = ADMIN,
                wm_department = None, wm_created_at = 0\<rparr>]\<rparr>))"
  by code_simp

end
