(* ===== verification/DeviceApproval.thy ===== *)
theory DeviceApproval
  imports Notifications
begin

text \<open>
  \<^verbatim>\<open>auth/device-approval.service.ts\<close>: the approval a trusted device gives to a new one.  A
  request starts PENDING, is approved (with the three-digit match code) or denied by its owner, or
  expires the first time it is looked at after its deadline; each of the three is final.
\<close>

definition approval_ttl :: time where
  "approval_ttl = minutes 5"

fun device_approval_status_name :: "device_approval_status \<Rightarrow> string" where
  "device_approval_status_name DA_PENDING = ''pending''"
| "device_approval_status_name DA_APPROVED = ''approved''"
| "device_approval_status_name DA_DENIED = ''denied''"
| "device_approval_status_name DA_EXPIRED = ''expired''"

text \<open>\<^verbatim>\<open>generateMatchCode\<close>: a number from 100 to 999, drawn by the environment as text.\<close>

definition generate_match_code :: "env \<Rightarrow> string" where
  "generate_match_code E = draw E MatchCodeDraw 0"

definition new_device_approval ::
  "env \<Rightarrow> id \<Rightarrow> id option \<Rightarrow> string option \<Rightarrow> device_approval" where
  "new_device_approval E uid dev ctx =
     \<lparr>dap_id = new_id E T_DeviceApproval 0, dap_user = uid, dap_device = dev,
      dap_reason = NEW_DEVICE_REASON, dap_status = DA_PENDING,
      dap_match_code = generate_match_code E, dap_context = ctx,
      dap_expires = now E + approval_ttl, dap_approved_at = None, dap_denied_at = None,
      dap_created_at = now E\<rparr>"

definition approval_notice :: "device_approval \<Rightarrow> notify_params" where
  "approval_notice r =
     (let prompt = '' - confirm the code shown there matches '' @ dap_match_code r @ '' before approving.''
      in \<lparr>np_user = dap_user r, np_workspace = None, np_category = ACTION_APPROVAL,
          np_channel = IN_APP, np_title = ''Approve this new device?'',
          np_body = (if truthy (dap_context r) then the (dap_context r) @ prompt
                     else ''A new device was used to sign in'' @ prompt),
          np_link = None, np_source = Some (''device-approval:'' @ dap_id r)\<rparr>)"

definition create_for_new_device ::
  "env \<Rightarrow> id \<Rightarrow> id option \<Rightarrow> string option \<Rightarrow> (db, device_approval) handler" where
  "create_for_new_device E uid dev ctx s =
     (let request = new_device_approval E uid dev ctx
      in and_then (notify E (approval_notice request)) (\<lambda>_ s'. (ok request, s'))
           (s\<lparr>device_approvals := device_approvals s @ [request]\<rparr>))"

definition find_device_approval :: "id \<Rightarrow> db \<Rightarrow> device_approval option" where
  "find_device_approval k s = find_row (\<lambda>r. dap_id r = k) (device_approvals s)"

abbreviation update_device_approvals ::
  "(device_approval \<Rightarrow> bool) \<Rightarrow> (device_approval \<Rightarrow> device_approval) \<Rightarrow> db \<Rightarrow> db" where
  "update_device_approvals P f s \<equiv> s\<lparr>device_approvals := update_rows P f (device_approvals s)\<rparr>"

text \<open>The private \<^verbatim>\<open>findActiveOrExpire\<close>: a stale PENDING row is flipped before it is returned.\<close>

definition device_approval_active_or_expire :: "env \<Rightarrow> id \<Rightarrow> (db, device_approval) handler" where
  "device_approval_active_or_expire E k s =
     (case find_device_approval k s of
        None \<Rightarrow> (throw (NotFound ''No approval request with that id.''), s)
      | Some r \<Rightarrow>
          if dap_status r = DA_PENDING \<and> dap_expires r < now E then
            (ok (r\<lparr>dap_status := DA_EXPIRED\<rparr>),
             update_device_approvals (\<lambda>r. dap_id r = k) (\<lambda>r. r\<lparr>dap_status := DA_EXPIRED\<rparr>) s)
          else (ok r, s))"

definition device_approval_status_of :: "env \<Rightarrow> id \<Rightarrow> (db, device_approval) handler" where
  "device_approval_status_of E k = device_approval_active_or_expire E k"

text \<open>The row the handler reads back, \<^verbatim>\<open>findUniqueOrThrow\<close>.\<close>

definition reread_device_approval :: "id \<Rightarrow> (db, device_approval) handler" where
  "reread_device_approval k s =
     (case find_device_approval k s of None \<Rightarrow> (throw record_missing, s) | Some r \<Rightarrow> (ok r, s))"

definition approve_device :: "env \<Rightarrow> id \<Rightarrow> id \<Rightarrow> string \<Rightarrow> (db, device_approval) handler" where
  "approve_device E k uid code =
     and_then (device_approval_active_or_expire E k) (\<lambda>r s.
       if dap_user r \<noteq> uid then (throw (NotFound ''No approval request with that id.''), s)
       else if dap_status r \<noteq> DA_PENDING then
         (throw (BadRequest (''This approval request is already ''
            @ device_approval_status_name (dap_status r) @ ''.'')), s)
       else if code \<noteq> dap_match_code r then
         (throw (Forbidden ''The confirmation code does not match.''), s)
       else if count_rows (\<lambda>r. dap_id r = k \<and> dap_status r = DA_PENDING) (device_approvals s) = 0 then
         (throw (Conflict ''This approval request was already handled.''), s)
       else
         reread_device_approval k
           (update_device_approvals (\<lambda>r. dap_id r = k \<and> dap_status r = DA_PENDING)
              (\<lambda>r. r\<lparr>dap_status := DA_APPROVED, dap_approved_at := Some (now E)\<rparr>) s))"

definition deny_device :: "env \<Rightarrow> id \<Rightarrow> id \<Rightarrow> (db, device_approval) handler" where
  "deny_device E k uid =
     and_then (device_approval_active_or_expire E k) (\<lambda>r s.
       if dap_user r \<noteq> uid then (throw (NotFound ''No approval request with that id.''), s)
       else if dap_status r \<noteq> DA_PENDING then
         (throw (BadRequest (''This approval request is already ''
            @ device_approval_status_name (dap_status r) @ ''.'')), s)
       else
         reread_device_approval k
           (update_device_approvals (\<lambda>r. dap_id r = k \<and> dap_status r = DA_PENDING)
              (\<lambda>r. r\<lparr>dap_status := DA_DENIED, dap_denied_at := Some (now E)\<rparr>) s))"

section \<open>The life of a request\<close>

datatype approval_op =
    NewDeviceSeen id "id option" "string option"
  | PollApproval id
  | ApproveDevice id id string
  | DenyDevice id id

fun approval_step :: "env \<times> approval_op \<Rightarrow> db \<Rightarrow> device_approval reply \<times> db" where
  "approval_step (E, NewDeviceSeen u d c) s = create_for_new_device E u d c s"
| "approval_step (E, PollApproval k) s = device_approval_status_of E k s"
| "approval_step (E, ApproveDevice k u c) s = approve_device E k u c s"
| "approval_step (E, DenyDevice k u) s = deny_device E k u s"

lemma find_approval_update:
  assumes "\<And>r. dap_id (f r) = dap_id r"
  shows "find_device_approval k (update_device_approvals P f s) =
           map_option (\<lambda>r. if P r then f r else r) (find_device_approval k s)"
  unfolding find_device_approval_def by (simp add: find_row_update_keep assms)

lemma find_device_approval_id: "find_device_approval k s = Some r \<Longrightarrow> dap_id r = k"
  unfolding find_device_approval_def by (blast dest: find_row_Some_D)

lemma notify_device_approvals [simp]: "device_approvals (snd (notify E p s)) = device_approvals s"
  by (simp add: notify_def Let_def deliver_def split: option.splits notification_channel.splits)

lemma device_approvals_created:
  "device_approvals (snd (create_for_new_device E u d c s)) =
     device_approvals s @ [new_device_approval E u d c]"
  by (simp add: create_for_new_device_def Let_def)

text \<open>Whatever is asked of it later, a request that left PENDING is never written again.\<close>

lemma approval_final_step:
  assumes r: "find_device_approval k s = Some r" and final: "dap_status r \<noteq> DA_PENDING"
  shows "find_device_approval k (snd (approval_step (E, a) s)) = Some r"
proof (cases a)
  case (NewDeviceSeen u d c)
  with r show ?thesis
    by (simp add: find_device_approval_def device_approvals_created find_row_append)
qed (use r final find_device_approval_id [OF r] in
    \<open>auto simp: device_approval_status_of_def approve_device_def deny_device_def
       device_approval_active_or_expire_def and_then_def reread_device_approval_def
       find_approval_update split: option.splits\<close>)

lemma approval_final_run:
  assumes "find_device_approval k s = Some r" and "dap_status r \<noteq> DA_PENDING"
  shows "find_device_approval k (run_ops approval_step ops s) = Some r"
  using assms
proof (induction ops arbitrary: s)
  case (Cons eo ops)
  then show ?case
    using approval_final_step [of k s r "fst eo" "snd eo"] by simp
qed simp

lemma approve_device_ok:
  assumes "approve_device E k u c s = (Inr r', s')"
  obtains r where "find_device_approval k s = Some r" "dap_user r = u" "dap_status r = DA_PENDING"
    "now E \<le> dap_expires r" "c = dap_match_code r"
    "find_device_approval k s' = Some (r\<lparr>dap_status := DA_APPROVED, dap_approved_at := Some (now E)\<rparr>)"
proof -
  obtain r where r: "find_device_approval k s = Some r"
    using assms by (auto simp: approve_device_def device_approval_active_or_expire_def and_then_def
        split: option.splits)
  show thesis
    by (rule that [OF r])
      (use assms r find_device_approval_id [OF r] in
        \<open>auto simp: approve_device_def device_approval_active_or_expire_def and_then_def
           reread_device_approval_def find_approval_update split: option.splits if_splits\<close>)
qed

text \<open>
  A device approval is answered once and for good.  When \<^verbatim>\<open>approve\<close> succeeds, the request was
  PENDING and in time, it belongs to the caller and the caller named its match code; after that,
  no sequence of polls, approvals, denials and new requests changes the row again.
\<close>

theorem device_approval_once:
  assumes "approve_device E k u c s = (Inr r', s')"
  shows "(\<exists>r. find_device_approval k s = Some r \<and> dap_status r = DA_PENDING \<and>
            now E \<le> dap_expires r \<and> dap_user r = u \<and> dap_match_code r = c) \<and>
         (\<exists>r. find_device_approval k (run_ops approval_step ops s') = Some r \<and>
            dap_status r = DA_APPROVED)"
proof (rule approve_device_ok [OF assms], intro conjI exI)
  fix r
  assume "find_device_approval k s' =
            Some (r\<lparr>dap_status := DA_APPROVED, dap_approved_at := Some (now E)\<rparr>)"
  then show "find_device_approval k (run_ops approval_step ops s') =
               Some (r\<lparr>dap_status := DA_APPROVED, dap_approved_at := Some (now E)\<rparr>)"
    by (rule approval_final_run) simp
qed simp_all

theorem device_approval_once_witness:
  "\<exists>r. find_device_approval ''id0''
     (run_ops approval_step [(demo_env 9, DenyDevice ''id0'' ''m1'')]
       (snd (approve_device (demo_env 5) ''id0'' ''m1'' ''ABCDE0''
         (snd (create_for_new_device (demo_env 1) ''m1'' None None demo_db))))) = Some r \<and>
     dap_status r = DA_APPROVED"
proof -
  let ?s = "snd (create_for_new_device (demo_env 1) ''m1'' None None demo_db)"
  have "fst (approve_device (demo_env 5) ''id0'' ''m1'' ''ABCDE0'' ?s) =
          Inr ((new_device_approval (demo_env 1) ''m1'' None None)
            \<lparr>dap_status := DA_APPROVED, dap_approved_at := Some 5\<rparr>)"
    by code_simp
  then show ?thesis
    using device_approval_once
      [of "demo_env 5" "''id0''" "''m1''" "''ABCDE0''" ?s _
        "snd (approve_device (demo_env 5) ''id0'' ''m1'' ''ABCDE0'' ?s)"]
    by (metis prod.collapse)
qed

end
