(* ===== verification/Sessions.thy ===== *)
theory Sessions
  imports DeviceApproval Rbac
begin

text \<open>
  Sessions and devices: \<^verbatim>\<open>auth/session.service.ts\<close>, \<^verbatim>\<open>auth/device.service.ts\<close>,
  \<^verbatim>\<open>auth/security-event.service.ts\<close>, \<^verbatim>\<open>security/security.service.ts\<close> and the JWT guard of
  \<^verbatim>\<open>auth/guards/jwt-auth.guard.ts\<close>.  A refresh token is stored as its hash; rotating it revokes
  the row before the next pair is issued.
\<close>

section \<open>Security events\<close>

record session_meta =
  sm_user_agent :: "string option"
  sm_ip :: "string option"
  sm_device_id :: "string option"

definition no_meta :: session_meta where
  "no_meta = \<lparr>sm_user_agent = None, sm_ip = None, sm_device_id = None\<rparr>"

definition security_event_row ::
  "env \<Rightarrow> id \<Rightarrow> security_event_type \<Rightarrow> session_meta \<Rightarrow> security_event" where
  "security_event_row E uid t meta =
     \<lparr>se_user = uid, se_type = t, se_ip = sm_ip meta, se_user_agent = sm_user_agent meta,
      se_created_at = now E\<rparr>"

definition record_event :: "env \<Rightarrow> id \<Rightarrow> security_event_type \<Rightarrow> session_meta \<Rightarrow> db \<Rightarrow> db" where
  "record_event E uid t meta s =
     s\<lparr>security_events := security_events s @ [security_event_row E uid t meta]\<rparr>"

definition record_login :: "env \<Rightarrow> id \<Rightarrow> session_meta \<Rightarrow> bool \<Rightarrow> db \<Rightarrow> db" where
  "record_login E uid meta is_new s =
     s\<lparr>security_events := security_events s @
        (if is_new
         then [security_event_row E uid NEW_DEVICE meta, security_event_row E uid LOGIN_SUCCESS meta]
         else [security_event_row E uid LOGIN_SUCCESS meta])\<rparr>"

definition is_new_device :: "id \<Rightarrow> session_meta \<Rightarrow> db \<Rightarrow> bool" where
  "is_new_device uid meta s =
     (truthy (sm_user_agent meta) \<and>
      count_rows (\<lambda>x. s_user x = uid \<and> s_user_agent x = sm_user_agent meta) (sessions s) = 0)"

definition list_security_events :: "id \<Rightarrow> nat \<Rightarrow> db \<Rightarrow> security_event list" where
  "list_security_events uid limit s =
     take limit (rev (filter (\<lambda>e. se_user e = uid) (security_events s)))"

section \<open>Devices\<close>

definition derive_label :: "string option \<Rightarrow> string" where
  "derive_label ua =
     (case ua of
        None \<Rightarrow> ''Unknown device''
      | Some t \<Rightarrow>
          (let has = (\<lambda>w. contains_str w (to_lower t))
           in if t = [] then ''Unknown device''
              else if has ''iphone'' then ''iPhone''
              else if has ''ipad'' then ''iPad''
              else if has ''android'' then ''Android device''
              else if has ''macintosh'' then ''Mac''
              else if has ''windows'' then ''Windows PC''
              else if has ''linux'' then ''Linux device''
              else ''Unknown device''))"

definition find_device :: "id \<Rightarrow> string \<Rightarrow> db \<Rightarrow> device option" where
  "find_device uid dev s = find_row (\<lambda>d. d_user d = uid \<and> d_device_id d = dev) (devices s)"

abbreviation update_devices :: "(device \<Rightarrow> bool) \<Rightarrow> (device \<Rightarrow> device) \<Rightarrow> db \<Rightarrow> db" where
  "update_devices P f s \<equiv> s\<lparr>devices := update_rows P f (devices s)\<rparr>"

definition new_device :: "env \<Rightarrow> id \<Rightarrow> string \<Rightarrow> string option \<Rightarrow> device" where
  "new_device E uid dev ua =
     \<lparr>d_id = new_id E T_Device 0, d_user = uid, d_device_id = dev, d_label = derive_label ua,
      d_alerts = False, d_first_seen = now E, d_last_seen = now E, d_revoked_at = None\<rparr>"

text \<open>The upsert by (user, device id): the row and whether it is a new one.\<close>

definition upsert_device ::
  "env \<Rightarrow> id \<Rightarrow> string \<Rightarrow> string option \<Rightarrow> db \<Rightarrow> device \<times> bool \<times> db" where
  "upsert_device E uid dev ua s =
     (case find_device uid dev s of
        None \<Rightarrow> (new_device E uid dev ua, True,
                 s\<lparr>devices := devices s @ [new_device E uid dev ua]\<rparr>)
      | Some d \<Rightarrow> (d\<lparr>d_last_seen := now E\<rparr>, False,
                   update_devices (\<lambda>d. d_user d = uid \<and> d_device_id d = dev)
                     (\<lambda>d. d\<lparr>d_last_seen := now E\<rparr>) s))"

text \<open>
  \<^verbatim>\<open>resolveDevice\<close>: a failure of the approval request is swallowed, its writes stay.
\<close>

definition resolve_device :: "env \<Rightarrow> id \<Rightarrow> string option \<Rightarrow> string option \<Rightarrow> db \<Rightarrow> id option \<times> db" where
  "resolve_device E uid dev ua s =
     (if \<not> truthy dev then (None, s)
      else
        (let (d, is_new, s1) = upsert_device E uid (the dev) ua s;
             s2 = (if d_revoked_at d \<noteq> None
                   then update_devices (\<lambda>x. d_id x = d_id d) (\<lambda>x. x\<lparr>d_revoked_at := None\<rparr>) s1
                   else s1);
             s3 = (if is_new \<and> d_alerts d
                   then snd (create_for_new_device E uid (Some (d_id d))
                               (Some (''New sign-in from '' @ derive_label ua)) s2)
                   else s2)
         in (Some (d_id d), s3)))"

definition list_devices :: "id \<Rightarrow> db \<Rightarrow> device list" where
  "list_devices uid s =
     rev (sort_key d_last_seen (filter (\<lambda>d. d_user d = uid \<and> d_revoked_at d = None) (devices s)))"

text \<open>The three updates of a revocation, for a set of device rows.\<close>

definition revoke_tagged :: "env \<Rightarrow> (id \<Rightarrow> bool) \<Rightarrow> db \<Rightarrow> db" where
  "revoke_tagged E D s =
     s\<lparr>devices := update_rows (\<lambda>d. D (d_id d)) (\<lambda>d. d\<lparr>d_revoked_at := Some (now E)\<rparr>) (devices s),
       sessions := update_rows
         (\<lambda>x. (case s_device x of None \<Rightarrow> False | Some d \<Rightarrow> D d) \<and> s_revoked_at x = None)
         (\<lambda>x. x\<lparr>s_revoked_at := Some (now E)\<rparr>) (sessions s),
       oauth_tokens := update_rows
         (\<lambda>x. (case ot_device x of None \<Rightarrow> False | Some d \<Rightarrow> D d) \<and> ot_revoked_at x = None)
         (\<lambda>x. x\<lparr>ot_revoked_at := Some (now E)\<rparr>) (oauth_tokens s)\<rparr>"

definition revoke_device :: "env \<Rightarrow> id \<Rightarrow> id \<Rightarrow> (db, unit) handler" where
  "revoke_device E uid did s =
     (case find_row (\<lambda>d. d_id d = did \<and> d_user d = uid \<and> d_revoked_at d = None) (devices s) of
        None \<Rightarrow> (throw (NotFound ''No active device with that id.''), s)
      | Some d \<Rightarrow>
          (ok (), record_event E uid DEVICE_REVOKED no_meta (revoke_tagged E (\<lambda>x. x = d_id d) s)))"

definition revoke_all_devices :: "env \<Rightarrow> id \<Rightarrow> db \<Rightarrow> nat \<times> db" where
  "revoke_all_devices E uid s =
     (let ids = map d_id (filter (\<lambda>d. d_user d = uid \<and> d_revoked_at d = None) (devices s))
      in if ids = [] then (0, s)
         else (length ids,
               record_event E uid DEVICE_REVOKED no_meta (revoke_tagged E (\<lambda>x. x \<in> set ids) s)))"

section \<open>Sessions\<close>

definition refresh_token_ttl :: time where
  "refresh_token_ttl = days 30"

definition access_token_ttl :: string where
  "access_token_ttl = ''15m''"

record issued_session =
  is_access :: string
  is_refresh :: string
  is_expires_in :: string

definition hash_token :: "env \<Rightarrow> string \<Rightarrow> string" where
  "hash_token E t = sha256 E t"

definition find_session :: "string \<Rightarrow> db \<Rightarrow> session option" where
  "find_session h s = find_row (\<lambda>x. s_token_hash x = h) (sessions s)"

abbreviation update_sessions :: "(session \<Rightarrow> bool) \<Rightarrow> (session \<Rightarrow> session) \<Rightarrow> db \<Rightarrow> db" where
  "update_sessions P f s \<equiv> s\<lparr>sessions := update_rows P f (sessions s)\<rparr>"

definition new_session :: "env \<Rightarrow> id \<Rightarrow> session_meta \<Rightarrow> id option \<Rightarrow> session" where
  "new_session E uid meta dev =
     \<lparr>s_id = new_id E T_Session 0, s_user = uid,
      s_token_hash = hash_token E (draw E RefreshTokenDraw 0), s_user_agent = sm_user_agent meta,
      s_ip = sm_ip meta, s_device = dev, s_created_at = now E,
      s_expires = now E + refresh_token_ttl, s_revoked_at = None\<rparr>"

definition issue_session :: "env \<Rightarrow> id \<Rightarrow> string \<Rightarrow> session_meta \<Rightarrow> (db, issued_session) handler" where
  "issue_session E uid ndy meta s =
     (let (dev, s1) = resolve_device E uid (sm_device_id meta) (sm_user_agent meta) s;
          x = new_session E uid meta dev
      in if find_session (s_token_hash x) s1 \<noteq> None then (throw unique_violation, s1)
         else (ok \<lparr>is_access = sign_jwt E (DashboardClaims uid ndy (s_id x)),
                   is_refresh = draw E RefreshTokenDraw 0, is_expires_in = access_token_ttl\<rparr>,
               s1\<lparr>sessions := sessions s1 @ [x]\<rparr>))"

definition rotate_session :: "env \<Rightarrow> string \<Rightarrow> session_meta \<Rightarrow> (db, issued_session) handler" where
  "rotate_session E token meta s =
     (case find_session (hash_token E token) s of
        None \<Rightarrow> (throw (Unauthorized ''Refresh token is invalid or expired.''), s)
      | Some x \<Rightarrow>
          if s_revoked_at x \<noteq> None \<or> s_expires x < now E
          then (throw (Unauthorized ''Refresh token is invalid or expired.''), s)
          else case find_user (s_user x) s of
            None \<Rightarrow> (throw record_missing, s)
          | Some u \<Rightarrow>
              issue_session E (s_user x) (u_ndy_id u) meta
                (update_sessions (\<lambda>y. s_id y = s_id x) (\<lambda>y. y\<lparr>s_revoked_at := Some (now E)\<rparr>) s))"

definition revoke_session :: "env \<Rightarrow> string \<Rightarrow> db \<Rightarrow> db" where
  "revoke_session E token s =
     update_sessions (\<lambda>x. s_token_hash x = hash_token E token \<and> s_revoked_at x = None)
       (\<lambda>x. x\<lparr>s_revoked_at := Some (now E)\<rparr>) s"

section \<open>The security page\<close>

record session_view =
  vw_id :: id
  vw_user_agent :: "string option"
  vw_ip :: "string option"
  vw_created_at :: time
  vw_expires :: time
  vw_current :: bool

definition list_active_sessions :: "env \<Rightarrow> id \<Rightarrow> id \<Rightarrow> db \<Rightarrow> session_view list" where
  "list_active_sessions E uid current s =
     map (\<lambda>x. \<lparr>vw_id = s_id x, vw_user_agent = s_user_agent x, vw_ip = s_ip x,
                vw_created_at = s_created_at x, vw_expires = s_expires x,
                vw_current = (s_id x = current)\<rparr>)
       (rev (sort_key s_created_at
         (filter (\<lambda>x. s_user x = uid \<and> s_revoked_at x = None \<and> now E < s_expires x) (sessions s))))"

definition revoke_session_by_id :: "env \<Rightarrow> id \<Rightarrow> id \<Rightarrow> (db, unit) handler" where
  "revoke_session_by_id E uid sid s =
     (let P = (\<lambda>x. s_id x = sid \<and> s_user x = uid \<and> s_revoked_at x = None)
      in if count_rows P (sessions s) = 0
         then (throw (NotFound ''No active session with that id for this user.''), s)
         else (ok (), update_sessions P (\<lambda>x. x\<lparr>s_revoked_at := Some (now E)\<rparr>) s))"

text \<open>
  \<^verbatim>\<open>revokeAllSessions\<close>: the two promises run side by side and touch sessions alike; the model
  updates the sessions first, which fixes the number it reports.
\<close>

definition revoke_all_sessions :: "env \<Rightarrow> id \<Rightarrow> (db, nat) handler" where
  "revoke_all_sessions E uid s =
     (ok (count_rows (\<lambda>x. s_user x = uid \<and> s_revoked_at x = None) (sessions s)),
      snd (revoke_all_devices E uid (revoke_user_sessions E uid s)))"

section \<open>The JWT guard\<close>

text \<open>\<^verbatim>\<open>readSessionCookie(..) ?? extractBearerToken(..)\<close>\<close>

definition extract_bearer_token :: "string option \<Rightarrow> string option" where
  "extract_bearer_token header =
     (case header of
        None \<Rightarrow> None
      | Some h \<Rightarrow> if starts_with ''Bearer '' h then Some (drop 7 h) else None)"

definition jwt_auth_guard :: "env \<Rightarrow> string option \<Rightarrow> string option \<Rightarrow> claims reply" where
  "jwt_auth_guard E cookie header =
     (let t = (case cookie of Some c \<Rightarrow> Some c | None \<Rightarrow> extract_bearer_token header)
      in if \<not> truthy t then throw (Unauthorized ''Missing bearer token.'')
         else case verify_jwt E (the t) of
           None \<Rightarrow> throw (Unauthorized ''Invalid or expired access token.'')
         | Some c \<Rightarrow> ok c)"

section \<open>Sessions only move forward\<close>

definition session_later :: "session \<Rightarrow> session \<Rightarrow> bool" where
  "session_later x y =
     (s_id y = s_id x \<and> s_user y = s_user x \<and> s_token_hash y = s_token_hash x \<and>
      s_expires y = s_expires x \<and> s_device y = s_device x \<and>
      (s_revoked_at x \<noteq> None \<longrightarrow> s_revoked_at y \<noteq> None))"

interpretation session_history: row_history session_later
  by unfold_locales (auto simp: session_later_def)

definition sessions_advance :: "db \<Rightarrow> db \<Rightarrow> bool" where
  "sessions_advance s s' = rows_advance session_later (sessions s) (sessions s')"

lemma sessions_advance_refl [simp]: "sessions_advance s s"
  by (simp add: sessions_advance_def)

lemma sessions_advance_trans:
  "sessions_advance s1 s2 \<Longrightarrow> sessions_advance s2 s3 \<Longrightarrow> sessions_advance s1 s3"
  unfolding sessions_advance_def by (rule session_history.advance_trans)

lemma sessions_advance_same: "sessions s' = sessions s \<Longrightarrow> sessions_advance s s'"
  by (simp add: sessions_advance_def)

lemma sessions_advance_update [simp]:
  "sessions_advance s (update_sessions P (\<lambda>x. x\<lparr>s_revoked_at := Some t\<rparr>) s)"
  unfolding sessions_advance_def
  by (simp, rule session_history.advance_update) (simp add: session_later_def)

lemma sessions_advance_find:
  assumes "sessions_advance s s'" and "find_session h s = Some x"
  shows "\<exists>y. find_session h s' = Some y \<and> session_later x y"
  using assms unfolding sessions_advance_def find_session_def
  by (rule session_history.advance_find) (simp add: session_later_def)

lemma create_for_new_device_frame [simp]:
  "sessions (snd (create_for_new_device E u d c s)) = sessions s"
  "devices (snd (create_for_new_device E u d c s)) = devices s"
  "oauth_tokens (snd (create_for_new_device E u d c s)) = oauth_tokens s"
  "users (snd (create_for_new_device E u d c s)) = users s"
  by (simp_all add: create_for_new_device_def Let_def notify_def deliver_def
      split: option.splits notification_channel.splits)

lemma resolve_device_frame [simp]:
  "sessions (snd (resolve_device E u d a s)) = sessions s"
  "users (snd (resolve_device E u d a s)) = users s"
  "oauth_tokens (snd (resolve_device E u d a s)) = oauth_tokens s"
  by (simp_all add: resolve_device_def upsert_device_def Let_def split: option.splits prod.splits)

lemma find_session_resolve [simp]:
  "find_session h (snd (resolve_device E u d a s)) = find_session h s"
  by (simp add: find_session_def)

lemma find_user_resolve [simp]:
  "find_user i (snd (resolve_device E u d a s)) = find_user i s"
  by (simp add: find_user_def)

lemma record_event_frame [simp]:
  "sessions (record_event E u t m s) = sessions s"
  "users (record_event E u t m s) = users s"
  "devices (record_event E u t m s) = devices s"
  "oauth_tokens (record_event E u t m s) = oauth_tokens s"
  "device_approvals (record_event E u t m s) = device_approvals s"
  by (simp_all add: record_event_def)

lemma record_login_frame [simp]:
  "sessions (record_login E u m b s) = sessions s"
  "users (record_login E u m b s) = users s"
  "devices (record_login E u m b s) = devices s"
  "oauth_tokens (record_login E u m b s) = oauth_tokens s"
  "device_approvals (record_login E u m b s) = device_approvals s"
  by (simp_all add: record_login_def)

lemma revoke_user_sessions_frame [simp]:
  "users (revoke_user_sessions E u s) = users s"
  "devices (revoke_user_sessions E u s) = devices s"
  "oauth_tokens (revoke_user_sessions E u s) = oauth_tokens s"
  "device_approvals (revoke_user_sessions E u s) = device_approvals s"
  by (simp_all add: revoke_user_sessions_def)

text \<open>\<^verbatim>\<open>issueSession\<close> in one fact: what it returns and the one row it appends.\<close>

lemma issue_session_ok:
  "issue_session E u ndy m s = (Inr tok, s') \<longleftrightarrow>
     (let (dev, s1) = resolve_device E u (sm_device_id m) (sm_user_agent m) s;
          x = new_session E u m dev
      in find_session (s_token_hash x) s = None \<and>
         tok = \<lparr>is_access = sign_jwt E (DashboardClaims u ndy (s_id x)),
                is_refresh = draw E RefreshTokenDraw 0, is_expires_in = access_token_ttl\<rparr> \<and>
         s' = s1\<lparr>sessions := sessions s @ [x]\<rparr>)"
proof -
  obtain dev s1 where r: "resolve_device E u (sm_device_id m) (sm_user_agent m) s = (dev, s1)"
    by fastforce
  then have "sessions s1 = sessions s"
    using resolve_device_frame(1) [of E u "sm_device_id m" "sm_user_agent m" s] by simp
  with r show ?thesis
    by (auto simp: issue_session_def Let_def find_session_def)
qed

lemma issue_session_succeeds:
  "succeeds (issue_session E u n m s) \<longleftrightarrow> find_session (hash_token E (draw E RefreshTokenDraw 0)) s = None"
proof -
  obtain dev s1 where r: "resolve_device E u (sm_device_id m) (sm_user_agent m) s = (dev, s1)"
    by fastforce
  then have "sessions s1 = sessions s"
    using resolve_device_frame(1) [of E u "sm_device_id m" "sm_user_agent m" s] by simp
  with r show ?thesis
    by (auto simp: issue_session_def new_session_def find_session_def Let_def)
qed

lemma issue_session_advance: "sessions_advance s (snd (issue_session E u ndy m s))"
proof -
  obtain dev s1 where r: "resolve_device E u (sm_device_id m) (sm_user_agent m) s = (dev, s1)"
    by fastforce
  then have "sessions s1 = sessions s"
    using resolve_device_frame(1) [of E u "sm_device_id m" "sm_user_agent m" s] by simp
  with r show ?thesis
    by (auto simp: issue_session_def Let_def sessions_advance_def)
qed

lemma issue_session_users [simp]: "users (snd (issue_session E u ndy m s)) = users s"
proof -
  obtain dev s1 where r: "resolve_device E u (sm_device_id m) (sm_user_agent m) s = (dev, s1)"
    by fastforce
  then show ?thesis
    using resolve_device_frame(2) [of E u "sm_device_id m" "sm_user_agent m" s]
    by (auto simp: issue_session_def Let_def)
qed

text \<open>A sign-in writes five tables and no other.\<close>

definition beside_sign_in :: "db \<Rightarrow> db" where
  "beside_sign_in s = s\<lparr>devices := [], sessions := [], device_approvals := [], notifications := [],
     mail_outbox := []\<rparr>"

lemma beside_create_for_new_device:
  "beside_sign_in (snd (create_for_new_device E u d c s)) = beside_sign_in s"
  by (simp add: create_for_new_device_def Let_def notify_def deliver_def beside_sign_in_def
      split: option.splits notification_channel.splits)

lemma beside_resolve_device: "beside_sign_in (snd (resolve_device E u d a s)) = beside_sign_in s"
proof -
  have "beside_sign_in (snd (create_for_new_device E u d c s')) = beside_sign_in s'" for c s' d
    by (rule beside_create_for_new_device)
  moreover have "beside_sign_in (s'\<lparr>devices := x\<rparr>) = beside_sign_in s'" for s' x
    by (simp add: beside_sign_in_def)
  ultimately show ?thesis
    by (simp add: resolve_device_def upsert_device_def Let_def split: option.splits prod.splits)
qed

lemma beside_issue_session: "beside_sign_in (snd (issue_session E u n m s)) = beside_sign_in s"
proof -
  obtain dev s1 where r: "resolve_device E u (sm_device_id m) (sm_user_agent m) s = (dev, s1)"
    by fastforce
  moreover have "beside_sign_in (s'\<lparr>sessions := x\<rparr>) = beside_sign_in s'" for s' x
    by (simp add: beside_sign_in_def)
  ultimately show ?thesis
    using beside_resolve_device [of E u "sm_device_id m" "sm_user_agent m" s]
    by (simp add: issue_session_def Let_def)
qed

lemma beside_tables:
  assumes "beside_sign_in s' = beside_sign_in s"
  shows "login_requests s' = login_requests s" "passkeys s' = passkeys s"
    "challenges s' = challenges s" "exchanges s' = exchanges s" "identities s' = identities s"
    "auth_states s' = auth_states s"
proof -
  have "login_requests (beside_sign_in s') = login_requests (beside_sign_in s)"
    "passkeys (beside_sign_in s') = passkeys (beside_sign_in s)"
    "challenges (beside_sign_in s') = challenges (beside_sign_in s)"
    "exchanges (beside_sign_in s') = exchanges (beside_sign_in s)"
    "identities (beside_sign_in s') = identities (beside_sign_in s)"
    "auth_states (beside_sign_in s') = auth_states (beside_sign_in s)"
    by (simp_all only: assms)
  then show "login_requests s' = login_requests s" "passkeys s' = passkeys s"
    "challenges s' = challenges s" "exchanges s' = exchanges s" "identities s' = identities s"
    "auth_states s' = auth_states s"
    by (simp_all add: beside_sign_in_def)
qed

lemmas issue_session_beside [simp] = beside_tables [OF beside_issue_session]
lemma rotate_session_ok:
  assumes "rotate_session E t m s = (Inr tok, s')"
  obtains x u where "find_session (hash_token E t) s = Some x" "s_revoked_at x = None"
    "now E \<le> s_expires x" "find_user (s_user x) s = Some u"
    "issue_session E (s_user x) (u_ndy_id u) m
       (update_sessions (\<lambda>y. s_id y = s_id x) (\<lambda>y. y\<lparr>s_revoked_at := Some (now E)\<rparr>) s) = (Inr tok, s')"
  using assms by (auto simp: rotate_session_def split: option.splits if_splits)

lemma rotate_session_advance: "sessions_advance s (snd (rotate_session E t m s))"
  by (auto simp: rotate_session_def split: option.splits
      intro: sessions_advance_trans [OF sessions_advance_update issue_session_advance])

lemma revoke_session_advance: "sessions_advance s (revoke_session E t s)"
  by (simp add: revoke_session_def)

lemma revoke_tagged_advance: "sessions_advance s (revoke_tagged E D s)"
  unfolding sessions_advance_def revoke_tagged_def
  by (simp, rule session_history.advance_update) (simp add: session_later_def)

lemma revoke_user_sessions_advance: "sessions_advance s (revoke_user_sessions E u s)"
  by (simp add: revoke_user_sessions_def)

lemma revoke_all_devices_advance: "sessions_advance s (snd (revoke_all_devices E u s))"
  using revoke_tagged_advance
  by (auto simp: revoke_all_devices_def Let_def sessions_advance_def)

section \<open>Refresh tokens are single-use\<close>

datatype session_op =
    IssueSession id string session_meta
  | RotateSession string session_meta
  | LogoutSession string
  | RevokeSessionById id id
  | RevokeAllSessions id
  | RevokeDevice id id
  | SuspendAccount admin_actor id bool "string option"

text \<open>Every operation answers whether it was granted.\<close>

definition answered :: "'a reply \<times> db \<Rightarrow> bool \<times> db" where
  "answered r = (accepted_reply (fst r), snd r)"

lemma answered_simps [simp]:
  "fst (answered r) = accepted_reply (fst r)" "snd (answered r) = snd r"
  by (simp_all add: answered_def)

fun session_step :: "env \<times> session_op \<Rightarrow> db \<Rightarrow> bool \<times> db" where
  "session_step (E, IssueSession u n m) s = answered (issue_session E u n m s)"
| "session_step (E, RotateSession t m) s = answered (rotate_session E t m s)"
| "session_step (E, LogoutSession t) s = (True, revoke_session E t s)"
| "session_step (E, RevokeSessionById u i) s = answered (revoke_session_by_id E u i s)"
| "session_step (E, RevokeAllSessions u) s = answered (revoke_all_sessions E u s)"
| "session_step (E, RevokeDevice u d) s = answered (revoke_device E u d s)"
| "session_step (E, SuspendAccount a u b why) s = answered (set_suspended E a u b why s)"

text \<open>The hash of the refresh token an operation presents.\<close>

fun presented_token :: "env \<times> session_op \<Rightarrow> string option" where
  "presented_token (E, RotateSession t m) = Some (hash_token E t)"
| "presented_token _ = None"

definition token_spent :: "string \<Rightarrow> db \<Rightarrow> bool" where
  "token_spent h s = (\<exists>x. find_session h s = Some x \<and> s_revoked_at x \<noteq> None)"

lemma session_step_advance: "sessions_advance s (snd (session_step eo s))"
proof (cases eo)
  case (Pair E a)
  show ?thesis
  proof (cases a)
    case (SuspendAccount b u susp why)
    have "sessions_advance s (snd (set_suspended E b u susp why s))"
      using revoke_user_sessions_advance [of "update_user u f s" E u for f]
      by (auto simp: set_suspended_def write_audit_log_def Let_def sessions_advance_def
          revoke_user_sessions_def split: option.splits)
    with Pair SuspendAccount show ?thesis by simp
  next
    case (RevokeAllSessions u)
    with Pair show ?thesis
      by (simp add: revoke_all_sessions_def)
        (blast intro: sessions_advance_trans revoke_user_sessions_advance revoke_all_devices_advance)
  next
    case (RevokeDevice u d)
    with Pair show ?thesis
      using revoke_tagged_advance
      by (auto simp: revoke_device_def sessions_advance_def split: option.splits)
  next
    case (RevokeSessionById u i)
    with Pair show ?thesis by (simp add: revoke_session_by_id_def Let_def)
  qed (use Pair in \<open>simp_all add: issue_session_advance rotate_session_advance revoke_session_advance\<close>)
qed

lemma token_spent_advance: "sessions_advance s s' \<Longrightarrow> token_spent h s \<Longrightarrow> token_spent h s'"
  unfolding token_spent_def by (fastforce dest: sessions_advance_find simp: session_later_def)

lemma rotate_spends:
  assumes "rotate_session E t m s = (Inr tok, s')"
  shows "token_spent (hash_token E t) s'"
  using assms
proof (rule rotate_session_ok)
  fix x :: session and u :: user
  let ?s1 = "update_sessions (\<lambda>y. s_id y = s_id x) (\<lambda>y. y\<lparr>s_revoked_at := Some (now E)\<rparr>) s"
  assume x: "find_session (hash_token E t) s = Some x"
    and i: "issue_session E (s_user x) (u_ndy_id u) m ?s1 = (Inr tok, s')"
  have "token_spent (hash_token E t) ?s1"
    using x by (simp add: token_spent_def find_session_def find_row_update_keep)
  with issue_session_advance [of ?s1 E "s_user x" "u_ndy_id u" m] i show ?thesis
    by (auto intro: token_spent_advance)
qed

interpretation refresh_rotation:
  single_use session_step "\<lambda>_. True" presented_token "\<lambda>b. b" token_spent
proof (unfold_locales, goal_cases)
  case (2 s a k)
  then show ?case
    by (cases a rule: presented_token.cases)
      (auto simp: accepted_reply_def dest: rotate_spends split: sum.splits,
        metis prod.collapse rotate_spends)
next
  case (3 s a k)
  then show ?case
    by (cases a rule: presented_token.cases)
      (auto simp: token_spent_def rotate_session_def)
next
  case (4 s k a)
  then show ?case
    using token_spent_advance session_step_advance by blast
qed simp

text \<open>
  C4. A refresh token works once.  In any sequence of logins, rotations, logouts, revocations and
  suspensions, at most one rotation that presents a given token succeeds.
\<close>

theorem refresh_token_single_use:
  "count_rows (\<lambda>(op, granted). presented_token op = Some h \<and> granted)
     (run_log session_step ops s) \<le> 1"
proof -
  have "(\<lambda>(op, granted). presented_token op = Some h \<and> granted) = refresh_rotation.redeems h"
    by (auto simp: fun_eq_iff refresh_rotation.redeems_def)
  then show ?thesis
    using refresh_rotation.at_most_once [OF TrueI] by simp
qed

text \<open>
  C5. Suspending an account ends every session it has at that moment: whatever session operations
  follow, the refresh token of a session that existed is never again exchanged.  Sessions a suspended
  account is given later, and the refresh tokens of connected apps, are not covered: the findings in
  theories Auth and AppTokens show that both exist.
\<close>

theorem suspension_ends_sessions:
  assumes "set_suspended E actor i True why s = (Inr v, s')"
    and "find_session (hash_token E' t) s' = Some x" and "s_user x = i"
  shows "\<not> succeeds (rotate_session E' t m (run_ops session_step ops s'))"
proof -
  have "x \<in> set (sessions s')"
    using assms(2) unfolding find_session_def by (blast dest: find_row_Some_D)
  then have "token_spent (hash_token E' t) s'"
    using set_suspended_ok [OF assms(1)] assms(2,3) by (auto simp: token_spent_def)
  then have "token_spent (hash_token E' t) (run_ops session_step ops s')"
    by (rule refresh_rotation.spent_run [OF TrueI])
  then show ?thesis
    by (auto simp: token_spent_def rotate_session_def)
qed

definition demo_session :: "id \<Rightarrow> id \<Rightarrow> string \<Rightarrow> id option \<Rightarrow> session" where
  "demo_session i u h d =
     \<lparr>s_id = i, s_user = u, s_token_hash = h, s_user_agent = None, s_ip = None, s_device = d,
      s_created_at = 0, s_expires = 10000000, s_revoked_at = None\<rparr>"

theorem suspension_ends_sessions_witness:
  "\<not> succeeds (rotate_session (demo_env 7) ''tok'' no_meta
     (run_ops session_step [(demo_env 6, IssueSession ''m1'' ''NDY-MBR-AAAAA4'' no_meta)]
       (snd (set_suspended (demo_env 5) (demo_actor ''a1'') ''m1'' True None
         (demo_db\<lparr>sessions := [demo_session ''s1'' ''m1'' ''tok'' None]\<rparr>)))))"
proof -
  let ?s = "demo_db\<lparr>sessions := [demo_session ''s1'' ''m1'' ''tok'' None]\<rparr>"
  let ?r = "set_suspended (demo_env 5) (demo_actor ''a1'') ''m1'' True None ?s"
  have "fst ?r = Inr \<lparr>sv_id = ''m1'', sv_ndy_id = ''NDY-MBR-AAAAA4'', sv_suspended = True\<rparr>"
    by code_simp
  moreover have "find_session (hash_token (demo_env 7) ''tok'') (snd ?r) =
      Some (demo_session ''s1'' ''m1'' ''tok'' None\<lparr>s_revoked_at := Some 5\<rparr>)"
    by code_simp
  ultimately show ?thesis
    by (intro suspension_ends_sessions [where s' = "snd ?r" and E = "demo_env 5" and i = "''m1''"
          and x = "demo_session ''s1'' ''m1'' ''tok'' None\<lparr>s_revoked_at := Some 5\<rparr>"])
      (auto simp: prod_eq_iff demo_session_def)
qed

section \<open>Revoking devices\<close>

definition active_devices :: "id \<Rightarrow> db \<Rightarrow> id set" where
  "active_devices uid s =
     set (map d_id (filter (\<lambda>d. d_user d = uid \<and> d_revoked_at d = None) (devices s)))"

definition session_open :: "session \<Rightarrow> bool" where
  "session_open x = (s_revoked_at x = None)"

definition token_open :: "oauth_refresh \<Rightarrow> bool" where
  "token_open x = (ot_revoked_at x = None)"

lemma revoke_tagged_effect:
  "(\<forall>x \<in> set (sessions (revoke_tagged E D s)). \<forall>d. s_device x = Some d \<and> D d \<longrightarrow> \<not> session_open x) \<and>
   (\<forall>x \<in> set (oauth_tokens (revoke_tagged E D s)). \<forall>d. ot_device x = Some d \<and> D d \<longrightarrow> \<not> token_open x) \<and>
   (\<forall>d \<in> set (devices (revoke_tagged E D s)). D (d_id d) \<longrightarrow> d_revoked_at d \<noteq> None)"
  by (auto simp: revoke_tagged_def session_open_def token_open_def split: option.splits)

lemma revoke_tagged_untouched:
  "(\<And>x d. P x \<Longrightarrow> s_device x = Some d \<Longrightarrow> \<not> D d) \<Longrightarrow> (\<And>x t. P (x\<lparr>s_revoked_at := t\<rparr>) = P x) \<Longrightarrow>
     filter P (sessions (revoke_tagged E D s)) = filter P (sessions s)"
  "(\<And>x d. Q x \<Longrightarrow> ot_device x = Some d \<Longrightarrow> \<not> D d) \<Longrightarrow> (\<And>x t. Q (x\<lparr>ot_revoked_at := t\<rparr>) = Q x) \<Longrightarrow>
     filter Q (oauth_tokens (revoke_tagged E D s)) = filter Q (oauth_tokens s)"
  unfolding revoke_tagged_def
  by (auto intro!: filter_update_rows split: option.splits)

text \<open>
  Revoking a device signs it out everywhere.  When \<^verbatim>\<open>revokeDevice\<close> succeeds, the device belongs
  to the caller, no dashboard session and no connected app's refresh token tagged with it is still
  open, and the sessions and tokens of every other device are exactly as before.
\<close>

theorem revoke_device_everywhere:
  assumes "revoke_device E uid did s = (Inr (), s')"
  shows "(\<exists>d \<in> set (devices s). d_id d = did \<and> d_user d = uid) \<and>
         (\<forall>x \<in> set (sessions s'). s_device x = Some did \<longrightarrow> \<not> session_open x) \<and>
         (\<forall>x \<in> set (oauth_tokens s'). ot_device x = Some did \<longrightarrow> \<not> token_open x) \<and>
         filter (\<lambda>x. s_device x \<noteq> Some did) (sessions s') = filter (\<lambda>x. s_device x \<noteq> Some did) (sessions s) \<and>
         filter (\<lambda>x. ot_device x \<noteq> Some did) (oauth_tokens s') =
           filter (\<lambda>x. ot_device x \<noteq> Some did) (oauth_tokens s)"
proof -
  obtain d where d: "d \<in> set (devices s)" "d_id d = did" "d_user d = uid"
    and s': "s' = record_event E uid DEVICE_REVOKED no_meta (revoke_tagged E (\<lambda>x. x = did) s)"
    using assms by (auto simp: revoke_device_def dest: find_row_Some_D split: option.splits)
  show ?thesis
  proof (intro conjI)
    show "\<exists>d \<in> set (devices s). d_id d = did \<and> d_user d = uid"
      using d by blast
    show "\<forall>x \<in> set (sessions s'). s_device x = Some did \<longrightarrow> \<not> session_open x"
      "\<forall>x \<in> set (oauth_tokens s'). ot_device x = Some did \<longrightarrow> \<not> token_open x"
      using revoke_tagged_effect [of E "\<lambda>x. x = did" s] by (simp_all add: s')
    show "filter (\<lambda>x. s_device x \<noteq> Some did) (sessions s') = filter (\<lambda>x. s_device x \<noteq> Some did) (sessions s)"
      "filter (\<lambda>x. ot_device x \<noteq> Some did) (oauth_tokens s') =
         filter (\<lambda>x. ot_device x \<noteq> Some did) (oauth_tokens s)"
      by (auto simp: s' intro!: revoke_tagged_untouched)
  qed
qed

definition demo_device :: "id \<Rightarrow> id \<Rightarrow> device" where
  "demo_device i u =
     \<lparr>d_id = i, d_user = u, d_device_id = i, d_label = ''Mac'', d_alerts = False, d_first_seen = 0,
      d_last_seen = 0, d_revoked_at = None\<rparr>"

theorem revoke_device_everywhere_witness:
  "\<not> session_open (hd (sessions (snd (revoke_device (demo_env 5) ''m1'' ''d1''
      (demo_db\<lparr>devices := [demo_device ''d1'' ''m1''],
        sessions := [demo_session ''s1'' ''m1'' ''tok'' (Some ''d1'')]\<rparr>)))))"
proof -
  let ?r = "revoke_device (demo_env 5) ''m1'' ''d1'' (demo_db\<lparr>devices := [demo_device ''d1'' ''m1''],
        sessions := [demo_session ''s1'' ''m1'' ''tok'' (Some ''d1'')]\<rparr>)"
  have "fst ?r = Inr ()" and hd: "map s_device (sessions (snd ?r)) = [Some ''d1'']"
    by code_simp+
  then have r: "?r = (Inr (), snd ?r)" by (simp add: prod_eq_iff)
  from hd have "hd (sessions (snd ?r)) \<in> set (sessions (snd ?r))" and
    "s_device (hd (sessions (snd ?r))) = Some ''d1''"
    by (cases "sessions (snd ?r)"; simp)+
  then show ?thesis
    using revoke_device_everywhere [OF r] by blast
qed

text \<open>
  ``Sign out all devices'': afterwards the account has no open session and no active device,
  and every connected app's refresh token tagged with one of its devices is dead.  (A refresh
  token that carries no device is not reached.)
\<close>

theorem sign_out_everywhere:
  "filter (\<lambda>x. s_user x = uid \<and> session_open x) (sessions (snd (revoke_all_sessions E uid s))) = [] \<and>
   filter (\<lambda>d. d_user d = uid \<and> d_revoked_at d = None) (devices (snd (revoke_all_sessions E uid s))) = [] \<and>
   filter (\<lambda>x. token_open x \<and> ot_device x \<in> Some ` active_devices uid s)
     (oauth_tokens (snd (revoke_all_sessions E uid s))) = [] \<and>
   filter (\<lambda>x. ot_device x = None) (oauth_tokens (snd (revoke_all_sessions E uid s))) =
     filter (\<lambda>x. ot_device x = None) (oauth_tokens s)"
proof -
  define s1 where "s1 = revoke_user_sessions E uid s"
  let ?t = "snd (revoke_all_devices E uid s1)"
  have closed: "filter (\<lambda>x. s_user x = uid \<and> session_open x) (sessions s1) = []"
    by (auto simp: s1_def revoke_user_sessions_def session_open_def filter_empty_conv set_update_rows
        split: if_splits)
  have "filter (\<lambda>x. s_user x = uid \<and> session_open x) (sessions (revoke_tagged E D s1)) = []" for D
    using closed
    by (auto simp: revoke_tagged_def session_open_def filter_empty_conv set_update_rows split: if_splits)
  then have "filter (\<lambda>x. s_user x = uid \<and> session_open x) (sessions ?t) = []"
    using closed by (simp add: revoke_all_devices_def Let_def)
  moreover have "filter (\<lambda>d. d_user d = uid \<and> d_revoked_at d = None) (devices ?t) = []"
    by (auto simp: revoke_all_devices_def Let_def revoke_tagged_def filter_empty_conv set_update_rows
        split: if_splits)
  moreover have "filter (\<lambda>x. token_open x \<and> ot_device x \<in> Some ` active_devices uid s1) (oauth_tokens ?t) = []"
  proof (cases "active_devices uid s1 = {}")
    case False
    then have "oauth_tokens ?t = oauth_tokens (revoke_tagged E (\<lambda>x. x \<in> active_devices uid s1) s1)"
      by (auto simp: revoke_all_devices_def Let_def active_devices_def filter_empty_conv)
    then show ?thesis
      using revoke_tagged_effect [of E "\<lambda>x. x \<in> active_devices uid s1" s1]
      by (auto simp: filter_empty_conv)
  qed simp
  moreover have "filter (\<lambda>x. ot_device x = None) (oauth_tokens ?t) =
      filter (\<lambda>x. ot_device x = None) (oauth_tokens s1)"
    by (auto simp: revoke_all_devices_def Let_def intro!: revoke_tagged_untouched)
  ultimately show ?thesis
    by (simp add: revoke_all_sessions_def s1_def active_devices_def)
qed

section \<open>New-device alerts are dormant\<close>

definition no_alerts :: "db \<Rightarrow> bool" where
  "no_alerts s = list_all (\<lambda>d. \<not> d_alerts d) (devices s)"

definition quiet :: "db \<Rightarrow> db \<Rightarrow> bool" where
  "quiet s s' = (no_alerts s \<longrightarrow> no_alerts s' \<and> device_approvals s' = device_approvals s)"

lemma no_alerts_update:
  "no_alerts s \<Longrightarrow> (\<And>d. d_alerts (f d) = d_alerts d) \<Longrightarrow> no_alerts (update_devices P f s)"
  by (simp add: no_alerts_def list_all_iff)

lemma resolve_device_quiet: "quiet s (snd (resolve_device E u d a s))"
  by (auto simp: quiet_def resolve_device_def upsert_device_def Let_def new_device_def no_alerts_def
      list_all_iff split: option.splits)

lemma issue_session_quiet: "quiet s (snd (issue_session E u ndy m s))"
proof -
  obtain dev s1 where r: "resolve_device E u (sm_device_id m) (sm_user_agent m) s = (dev, s1)"
    by fastforce
  then show ?thesis
    using resolve_device_quiet [of s E u "sm_device_id m" "sm_user_agent m"]
    by (auto simp: issue_session_def Let_def quiet_def no_alerts_def)
qed

lemma quiet_same:
  "devices s' = devices s \<Longrightarrow> device_approvals s' = device_approvals s \<Longrightarrow> quiet s s'"
  by (simp add: quiet_def no_alerts_def)

lemma quiet_trans: "quiet s1 s2 \<Longrightarrow> quiet s2 s3 \<Longrightarrow> quiet s1 s3"
  by (simp add: quiet_def)

lemma revoke_tagged_quiet: "quiet s (revoke_tagged E D s)"
  by (simp add: quiet_def no_alerts_def revoke_tagged_def list_all_iff)

lemma record_event_quiet: "quiet s s' \<Longrightarrow> quiet s (record_event E u t m s')"
  by (simp add: quiet_def no_alerts_def)

lemma session_step_quiet: "quiet s (snd (session_step eo s))"
proof (cases eo)
  case (Pair E a)
  show ?thesis
  proof (cases a)
    case (RotateSession t m)
    have "quiet s (snd (rotate_session E t m s))"
      by (auto simp: rotate_session_def quiet_same split: option.splits
          intro: quiet_trans [OF quiet_same issue_session_quiet])
    with Pair RotateSession show ?thesis by simp
  next
    case (SuspendAccount b u susp why)
    with Pair show ?thesis
      by (auto simp: set_suspended_def write_audit_log_def Let_def quiet_same
          revoke_user_sessions_def split: option.splits)
  next
    case (RevokeAllSessions u)
    have "quiet s (snd (revoke_all_devices E u (revoke_user_sessions E u s)))"
      unfolding revoke_all_devices_def Let_def
      by (auto simp: quiet_same
          intro!: record_event_quiet quiet_trans [OF quiet_same revoke_tagged_quiet])
    with Pair RevokeAllSessions show ?thesis by (simp add: revoke_all_sessions_def)
  next
    case (RevokeDevice u d)
    with Pair show ?thesis
      by (auto simp: revoke_device_def quiet_same split: option.splits
          intro: record_event_quiet revoke_tagged_quiet)
  next
    case (RevokeSessionById u i)
    with Pair show ?thesis by (simp add: revoke_session_by_id_def Let_def quiet_same)
  qed (use Pair in \<open>simp_all add: issue_session_quiet revoke_session_def quiet_same\<close>)
qed

interpretation dormant_alerts: invariant_system session_step no_alerts
  using session_step_quiet by unfold_locales (auto simp: quiet_def)

text \<open>
  New-device alerting is wired in but dormant: as long as no device has alerts switched on, no
  login, rotation, logout, revocation or suspension switches one on or creates an approval
  request.
\<close>

theorem alerts_stay_dormant:
  assumes "no_alerts s"
  shows "no_alerts (run_ops session_step ops s) \<and>
         device_approvals (run_ops session_step ops s) = device_approvals s"
  using assms
proof (induction ops arbitrary: s)
  case (Cons a ops)
  then show ?case
    using session_step_quiet [of s a] by (simp add: quiet_def)
qed simp

theorem alerts_stay_dormant_witness:
  "device_approvals (run_ops session_step
     [(demo_env 6, IssueSession ''m1'' ''NDY-MBR-AAAAA4'' (no_meta\<lparr>sm_device_id := Some ''d7''\<rparr>))]
     demo_db) = []"
proof -
  have "no_alerts demo_db" "device_approvals demo_db = []"
    by (simp_all add: no_alerts_def demo_db_def empty_db_def)
  then show ?thesis
    using alerts_stay_dormant [of demo_db] by metis
qed

end
