(* ===== verification/Trust.thy ===== *)
theory Trust
  imports Sessions
begin

text \<open>
  \<^verbatim>\<open>trust/trust.service.ts\<close> (the trust tier and the 0..100 score, recomputed from present facts)
  and \<^verbatim>\<open>identity-verification/identity-verification.service.ts\<close> (the manual review that grants
  LEVEL\_3).
\<close>

section \<open>The score\<close>

definition trusted_tier_claim_keys :: "string list" where
  "trusted_tier_claim_keys = [''business_verified'']"

record score_weights =
  w_baseline :: int
  w_email :: int
  w_phone :: int
  w_identity :: int
  w_two_factor :: int
  w_passkey :: int
  w_recovery :: int
  w_known_device :: int
  w_devices_resolved :: int
  w_business :: int
  w_third_party :: int
  w_age :: int
  w_sustained :: int
  w_age_days :: int
  w_sustained_logins :: nat
  w_sustained_days :: int
  w_token_reuse :: int
  w_device_revoked_each :: int
  w_device_revoked_cap :: int
  w_decay_days :: int
  w_min :: int
  w_max :: int

definition score_config :: score_weights where
  "score_config =
     \<lparr>w_baseline = 50, w_email = 6, w_phone = 6, w_identity = 6, w_two_factor = 6, w_passkey = 4,
      w_recovery = 2, w_known_device = 3, w_devices_resolved = 3, w_business = 5,
      w_third_party = 3, w_age = 3, w_sustained = 3, w_age_days = 90, w_sustained_logins = 10,
      w_sustained_days = 60, w_token_reuse = -30, w_device_revoked_each = -3,
      w_device_revoked_cap = -9, w_decay_days = 30, w_min = 0, w_max = 100\<rparr>"

definition trusted_claim :: "id \<Rightarrow> db \<Rightarrow> bool" where
  "trusted_claim uid s = exists_row (\<lambda>c. pc_user c = uid \<and> pc_key c \<in> set trusted_tier_claim_keys \<and>
     pc_provenance c \<noteq> SELF_ASSERTED) (claims s)"

definition compute_tier :: "id \<Rightarrow> verification_level \<Rightarrow> db \<Rightarrow> trust_tier" where
  "compute_tier uid level s =
     (case level of
        LEVEL_0 \<Rightarrow> UNVERIFIED
      | LEVEL_1 \<Rightarrow> UNVERIFIED
      | LEVEL_2 \<Rightarrow> BASIC
      | LEVEL_3 \<Rightarrow> if trusted_claim uid s then TRUSTED else VERIFIED)"

definition count_events :: "id \<Rightarrow> security_event_type \<Rightarrow> (time \<Rightarrow> bool) \<Rightarrow> db \<Rightarrow> nat" where
  "count_events uid t when s =
     count_rows (\<lambda>e. se_user e = uid \<and> se_type e = t \<and> when (se_created_at e)) (security_events s)"

text \<open>The code's additions, one (condition, points) pair per \<^verbatim>\<open>if\<close>, in its order.\<close>

definition score_bonuses :: "env \<Rightarrow> user \<Rightarrow> db \<Rightarrow> (bool \<times> int) list" where
  "score_bonuses E u s =
     (let W = score_config; uid = u_id u;
          span_cutoff = now E - days (w_sustained_days W);
          keys = count_rows (\<lambda>p. pk_user p = uid) (passkeys s);
          codes = count_rows (\<lambda>c. bc_user c = uid \<and> bc_used_at c = None) (backup_codes s);
          devs = count_rows (\<lambda>d. d_user d = uid \<and> d_revoked_at d = None) (devices s);
          unresolved = count_rows (\<lambda>r. dap_user r = uid \<and> dap_approved_at r = None \<and>
                         dap_denied_at r = None) (device_approvals s);
          third = count_rows (\<lambda>c. pc_user c = uid \<and> pc_provenance c = THIRD_PARTY_CREDENTIAL) (claims s);
          logins = count_events uid LOGIN_SUCCESS (\<lambda>_. True) s;
          old_login = 0 < count_events uid LOGIN_SUCCESS (\<lambda>t. t \<le> span_cutoff) s;
          flags = count_events uid OAUTH_TOKEN_REUSE_DETECTED (\<lambda>_. True) s
      in [(u_level u \<noteq> LEVEL_0, w_email W),
          (u_level u = LEVEL_2 \<or> u_level u = LEVEL_3, w_phone W),
          (u_level u = LEVEL_3, w_identity W),
          (u_totp_enabled_at u \<noteq> None \<or> truthy (u_sms_phone u), w_two_factor W),
          (0 < keys, w_passkey W),
          (0 < codes, w_recovery W),
          (0 < devs, w_known_device W),
          (0 < devs \<and> unresolved = 0, w_devices_resolved W),
          (trusted_claim uid s, w_business W),
          (0 < third, w_third_party W),
          (days (w_age_days W) < now E - u_created_at u, w_age W),
          (w_sustained_logins W \<le> logins \<and> old_login \<and> flags = 0, w_sustained W)])"

text \<open>The decaying risk signals: only events inside the window count.\<close>

definition score_penalty :: "env \<Rightarrow> id \<Rightarrow> db \<Rightarrow> int" where
  "score_penalty E uid s =
     (let W = score_config; cutoff = now E - days (w_decay_days W);
          reuse = count_events uid OAUTH_TOKEN_REUSE_DETECTED (\<lambda>t. cutoff \<le> t) s;
          revoked = count_events uid DEVICE_REVOKED (\<lambda>t. cutoff \<le> t) s
      in (if 0 < reuse then w_token_reuse W else 0)
         + (if 0 < revoked then max (w_device_revoked_cap W) (w_device_revoked_each W * int revoked)
            else 0))"

definition add_bonuses :: "(bool \<times> int) list \<Rightarrow> int" where
  "add_bonuses bs = sum_list (map (\<lambda>(b, n). if b then n else 0) bs)"

definition compute_score :: "env \<Rightarrow> user \<Rightarrow> db \<Rightarrow> int" where
  "compute_score E u s =
     (if u_suspended u then w_min score_config
      else max (w_min score_config) (min (w_max score_config)
             (w_baseline score_config + add_bonuses (score_bonuses E u s)
              + score_penalty E (u_id u) s)))"

definition find_trust_profile :: "id \<Rightarrow> db \<Rightarrow> trust_profile option" where
  "find_trust_profile uid s = find_row (\<lambda>p. tp_user p = uid) (trust_profiles s)"

definition get_trust_profile :: "env \<Rightarrow> id \<Rightarrow> db \<Rightarrow> trust_profile" where
  "get_trust_profile E uid s =
     (case find_trust_profile uid s of
        Some p \<Rightarrow> p
      | None \<Rightarrow> \<lparr>tp_user = uid, tp_tier = UNVERIFIED, tp_score = w_baseline score_config,
                 tp_computed_at = now E\<rparr>)"

definition recompute_trust :: "env \<Rightarrow> id \<Rightarrow> (db, trust_profile) handler" where
  "recompute_trust E uid s =
     (case find_user uid s of
        None \<Rightarrow> (throw record_missing, s)
      | Some u \<Rightarrow>
          let p = \<lparr>tp_user = uid, tp_tier = compute_tier uid (u_level u) s,
                   tp_score = compute_score E u s, tp_computed_at = now E\<rparr>
          in (ok p,
              if find_trust_profile uid s = None
              then s\<lparr>trust_profiles := trust_profiles s @ [p]\<rparr>
              else s\<lparr>trust_profiles := update_rows (\<lambda>x. tp_user x = uid)
                  (\<lambda>x. x\<lparr>tp_tier := tp_tier p, tp_score := tp_score p, tp_computed_at := now E\<rparr>)
                  (trust_profiles s)\<rparr>))"

section \<open>Facts about the score\<close>

lemma add_bonuses_bounds:
  "list_all (\<lambda>(b, n). 0 \<le> n) bs \<Longrightarrow> 0 \<le> add_bonuses bs \<and> add_bonuses bs \<le> sum_list (map snd bs)"
  by (induction bs) (auto simp: add_bonuses_def)

lemma score_bonuses_range:
  "0 \<le> add_bonuses (score_bonuses E u s) \<and> add_bonuses (score_bonuses E u s) \<le> 50"
proof -
  have "list_all (\<lambda>(b, n). 0 \<le> n) (score_bonuses E u s)"
    and "sum_list (map snd (score_bonuses E u s)) = 50"
    by (simp_all add: score_bonuses_def score_config_def Let_def)
  then show ?thesis
    using add_bonuses_bounds by metis
qed

lemma score_penalty_range: "-39 \<le> score_penalty E uid s \<and> score_penalty E uid s \<le> 0"
  by (auto simp: score_penalty_def score_config_def Let_def)

text \<open>
  The score of a live account lies between 11 and 100, and the two clamps never cut: the
  bonuses add up to exactly the fifty points above the baseline, and the penalties together cost
  at most thirty-nine.  A suspended account scores 0.
\<close>

theorem trust_score_range:
  "compute_score E u s =
     (if u_suspended u then 0 else 50 + add_bonuses (score_bonuses E u s) + score_penalty E (u_id u) s) \<and>
   compute_score E u s \<in> (if u_suspended u then {0} else {11..100})"
  using score_bonuses_range [of E u s] score_penalty_range [of E "u_id u" s]
  by (auto simp: compute_score_def score_config_def)

definition level_points :: "verification_level \<Rightarrow> int" where
  "level_points l = (case l of LEVEL_0 \<Rightarrow> 0 | LEVEL_1 \<Rightarrow> 6 | LEVEL_2 \<Rightarrow> 12 | LEVEL_3 \<Rightarrow> 18)"

text \<open>Nothing recorded about the account anywhere the score looks.\<close>

definition no_history :: "id \<Rightarrow> db \<Rightarrow> bool" where
  "no_history uid s =
     (list_all (\<lambda>p. pk_user p \<noteq> uid) (passkeys s) \<and> list_all (\<lambda>c. bc_user c \<noteq> uid) (backup_codes s) \<and>
      list_all (\<lambda>d. d_user d \<noteq> uid) (devices s) \<and> list_all (\<lambda>c. pc_user c \<noteq> uid) (claims s) \<and>
      list_all (\<lambda>e. se_user e \<noteq> uid) (security_events s))"

text \<open>
  The baseline is neutral: an account without history, second factor and age scores exactly
  50 plus the points of its verification level, whatever the rest of the database holds.
\<close>

theorem new_account_is_neutral:
  assumes "no_history (u_id u) s" and "\<not> u_suspended u" and "u_totp_enabled_at u = None"
    and "u_sms_phone u = None" and "now E - u_created_at u \<le> days 90"
  shows "compute_score E u s = 50 + level_points (u_level u)"
proof -
  have "count_rows (\<lambda>p. pk_user p = u_id u) (passkeys s) = 0"
    "count_rows (\<lambda>c. bc_user c = u_id u \<and> bc_used_at c = None) (backup_codes s) = 0"
    "count_rows (\<lambda>d. d_user d = u_id u \<and> d_revoked_at d = None) (devices s) = 0"
    "count_rows (\<lambda>c. pc_user c = u_id u \<and> pc_provenance c = THIRD_PARTY_CREDENTIAL) (claims s) = 0"
    "\<And>t f. count_events (u_id u) t f s = 0"
    "\<not> trusted_claim (u_id u) s"
    using assms(1) unfolding count_rows_0_iff count_events_def no_history_def trusted_claim_def
    by (auto simp: list_all_iff)
  with assms(2-5) show ?thesis
    by (cases "u_level u")
      (simp_all add: compute_score_def score_bonuses_def score_penalty_def add_bonuses_def
        score_config_def Let_def level_points_def)
qed

theorem new_account_is_neutral_witness:
  "compute_score (demo_env 5) (demo_user ''m1'' ''AAAAA4'' USER) demo_db = 56"
proof -
  have "no_history ''m1'' demo_db"
    by (simp add: no_history_def demo_db_def empty_db_def)
  then show ?thesis
    using new_account_is_neutral [of "demo_user ''m1'' ''AAAAA4'' USER" demo_db "demo_env 5"]
    by (simp add: demo_user_def demo_env_def days_def level_points_def)
qed

text \<open>
  An approval request nobody answered keeps costing its three points after it expired: the
  count asks for missing answers, not for the status.
\<close>

lemma expired_approval_still_counts:
  "compute_score (demo_env 5) (demo_user ''m1'' ''AAAAA4'' USER)
     (demo_db\<lparr>devices := [demo_device ''d1'' ''m1''],
       device_approvals := [(new_device_approval (demo_env 0) ''m1'' None None)\<lparr>dap_status := DA_EXPIRED\<rparr>]\<rparr>) = 59 \<and>
   compute_score (demo_env 5) (demo_user ''m1'' ''AAAAA4'' USER)
     (demo_db\<lparr>devices := [demo_device ''d1'' ''m1'']\<rparr>) = 62"
  by code_simp

section \<open>Manual identity review\<close>

definition find_identity_request :: "id \<Rightarrow> db \<Rightarrow> identity_request option" where
  "find_identity_request k s = find_row (\<lambda>r. ir_id r = k) (identity_requests s)"

definition create_identity_request ::
  "env \<Rightarrow> id \<Rightarrow> string option \<Rightarrow> (db, identity_request) handler" where
  "create_identity_request E uid note s =
     (if exists_row (\<lambda>r. ir_user r = uid \<and> ir_status r = RV_PENDING) (identity_requests s)
      then (throw (Conflict ''You already have a pending identity verification request.''), s)
      else case find_user uid s of
        None \<Rightarrow> (throw (NotFound ''No user with that id.''), s)
      | Some u \<Rightarrow>
          if u_level u = LEVEL_3 then (throw (Conflict ''Your identity is already verified.''), s)
          else
            let r = \<lparr>ir_id = new_id E T_IdentityRequest 0, ir_user = uid, ir_note = note,
                     ir_status = RV_PENDING, ir_reviewer = None, ir_reviewer_ndy_id = None,
                     ir_review_reason = None, ir_resolved_at = None, ir_created_at = now E\<rparr>
            in (ok r, s\<lparr>identity_requests := identity_requests s @ [r]\<rparr>))"

definition list_my_identity_requests :: "id \<Rightarrow> db \<Rightarrow> identity_request list" where
  "list_my_identity_requests uid s = rev (filter (\<lambda>r. ir_user r = uid) (identity_requests s))"

definition list_identity_requests :: "review_status option \<Rightarrow> db \<Rightarrow> identity_request list" where
  "list_identity_requests status s =
     take 100 (rev (filter (\<lambda>r. case status of None \<Rightarrow> True | Some x \<Rightarrow> ir_status r = x)
       (identity_requests s)))"

definition get_pending_identity_request :: "id \<Rightarrow> db \<Rightarrow> identity_request reply" where
  "get_pending_identity_request k s =
     (case find_identity_request k s of
        None \<Rightarrow> throw (NotFound ''No identity verification request with that id.'')
      | Some r \<Rightarrow>
          if ir_status r \<noteq> RV_PENDING then throw (Conflict ''This request has already been resolved.'')
          else ok r)"

definition resolve_identity_request ::
  "env \<Rightarrow> id \<Rightarrow> string \<Rightarrow> review_status \<Rightarrow> string option \<Rightarrow> identity_request \<Rightarrow> identity_request" where
  "resolve_identity_request E reviewer ndy st reason r =
     r\<lparr>ir_status := st, ir_reviewer := Some reviewer, ir_reviewer_ndy_id := Some ndy,
       ir_review_reason := reason, ir_resolved_at := Some (now E)\<rparr>"

abbreviation identity_notice :: "id \<Rightarrow> string \<Rightarrow> string \<Rightarrow> string \<Rightarrow> notify_params" where
  "identity_notice uid title body src \<equiv>
     \<lparr>np_user = uid, np_workspace = None, np_category = SECURITY, np_channel = EMAIL_CHANNEL,
      np_title = title, np_body = body, np_link = None, np_source = Some src\<rparr>"

definition grant_identity_claim :: "env \<Rightarrow> id \<Rightarrow> db \<Rightarrow> db" where
  "grant_identity_claim E uid s =
     (if exists_row (\<lambda>c. pc_user c = uid \<and> pc_key c = ''identity_document'') (claims s)
      then s\<lparr>claims := update_rows (\<lambda>c. pc_user c = uid \<and> pc_key c = ''identity_document'')
              (\<lambda>c. c\<lparr>pc_provenance := NDY_VERIFIED, pc_verified_at := Some (now E)\<rparr>) (claims s)\<rparr>
      else s\<lparr>claims := claims s @ [\<lparr>pc_id = new_id E T_Claim 0, pc_user = uid,
              pc_key = ''identity_document'', pc_provenance = NDY_VERIFIED, pc_issuer = None,
              pc_verified_at = Some (now E), pc_metadata = None, pc_created_at = now E\<rparr>]\<rparr>)"

text \<open>
  \<^verbatim>\<open>approve\<close>: the transaction, then the trust profile, then the notification; an exception of the
  last two leaves the approval in place.
\<close>

definition approve_identity_request ::
  "env \<Rightarrow> id \<Rightarrow> string \<Rightarrow> id \<Rightarrow> string option \<Rightarrow> (db, identity_request) handler" where
  "approve_identity_request E reviewer ndy k reason s =
     (case get_pending_identity_request k s of
        Inl e \<Rightarrow> (throw e, s)
      | Inr r \<Rightarrow>
          if find_user (ir_user r) s = None then (throw record_missing, s)
          else
            let s1 = grant_identity_claim E (ir_user r)
                  (update_user (ir_user r)
                     (\<lambda>u. u\<lparr>u_identity_verified_at := Some (now E), u_level := LEVEL_3\<rparr>) s);
                s2 = s1\<lparr>identity_requests := update_rows (\<lambda>x. ir_id x = ir_id r)
                  (resolve_identity_request E reviewer ndy RV_APPROVED reason) (identity_requests s1)\<rparr>
            in and_then (recompute_trust E (ir_user r)) (\<lambda>_.
                 and_then (notify E (identity_notice (ir_user r) ''Identity verification approved''
                     ''Your NDY HUB identity verification (LEVEL_3) has been approved.''
                     (''identity-verification-approved:'' @ ir_id r))) (\<lambda>_ s3.
                   (ok (resolve_identity_request E reviewer ndy RV_APPROVED reason r), s3))) s2)"

definition reject_identity_request ::
  "env \<Rightarrow> id \<Rightarrow> string \<Rightarrow> id \<Rightarrow> string option \<Rightarrow> (db, identity_request) handler" where
  "reject_identity_request E reviewer ndy k reason s =
     (case get_pending_identity_request k s of
        Inl e \<Rightarrow> (throw e, s)
      | Inr r \<Rightarrow>
          and_then (notify E (identity_notice (ir_user r) ''Identity verification request rejected''
              (if truthy reason
               then ''Your NDY HUB identity verification request was not approved: '' @ the reason
               else ''Your NDY HUB identity verification request was not approved.'')
              (''identity-verification-rejected:'' @ ir_id r))) (\<lambda>_ s2.
            (ok (resolve_identity_request E reviewer ndy RV_REJECTED reason r), s2))
            (s\<lparr>identity_requests := update_rows (\<lambda>x. ir_id x = ir_id r)
                (resolve_identity_request E reviewer ndy RV_REJECTED reason) (identity_requests s)\<rparr>))"

lemma recompute_trust_ok:
  assumes "recompute_trust E uid s = (Inr p, s')"
  obtains u where "find_user uid s = Some u"
    "p = \<lparr>tp_user = uid, tp_tier = compute_tier uid (u_level u) s, tp_score = compute_score E u s,
          tp_computed_at = now E\<rparr>"
    "find_trust_profile uid s' = Some p" "users s' = users s" "claims s' = claims s"
    "identity_requests s' = identity_requests s"
proof -
  obtain u where u: "find_user uid s = Some u"
    using assms by (auto simp: recompute_trust_def split: option.splits)
  have p: "p = \<lparr>tp_user = uid, tp_tier = compute_tier uid (u_level u) s,
      tp_score = compute_score E u s, tp_computed_at = now E\<rparr>"
    and s': "s' = (if find_trust_profile uid s = None
        then s\<lparr>trust_profiles := trust_profiles s @ [p]\<rparr>
        else s\<lparr>trust_profiles := update_rows (\<lambda>x. tp_user x = uid)
            (\<lambda>x. x\<lparr>tp_tier := tp_tier p, tp_score := tp_score p, tp_computed_at := now E\<rparr>)
            (trust_profiles s)\<rparr>)"
    using assms u by (auto simp: recompute_trust_def Let_def)
  have "find_trust_profile uid s' = Some p"
  proof (cases "find_trust_profile uid s")
    case None
    with s' p show ?thesis by (simp add: find_trust_profile_def find_row_append)
  next
    case (Some x)
    then have "tp_user x = uid"
      unfolding find_trust_profile_def by (blast dest: find_row_Some_D)
    with Some s' p show ?thesis
      by (simp add: find_trust_profile_def find_row_update_keep)
  qed
  with u p s' show thesis by (intro that) auto
qed

lemma trust_notify_frame [simp]:
  "identity_requests (snd (notify E p s)) = identity_requests s"
  "claims (snd (notify E p s)) = claims s"
  "trust_profiles (snd (notify E p s)) = trust_profiles s"
  "users (snd (notify E p s)) = users s"
  by (simp_all add: notify_def Let_def deliver_def split: option.splits notification_channel.splits)

lemma trusted_claim_grant [simp]: "trusted_claim uid (grant_identity_claim E i s) = trusted_claim uid s"
proof -
  have "exists_row Q (update_rows (\<lambda>c. pc_user c = i \<and> pc_key c = ''identity_document'')
          (\<lambda>c. c\<lparr>pc_provenance := NDY_VERIFIED, pc_verified_at := Some (now E)\<rparr>) (claims s)) =
        exists_row Q (claims s)"
    if "Q = (\<lambda>c. pc_user c = uid \<and> pc_key c = ''business_verified'' \<and> pc_provenance c \<noteq> SELF_ASSERTED)" for Q
    by (rule exists_row_update_keep) (auto simp: that)
  then show ?thesis
    by (auto simp: trusted_claim_def grant_identity_claim_def trusted_tier_claim_keys_def
        simp del: exists_row_iff) (auto simp: exists_row_def)
qed

lemma trusted_claim_frame [simp]:
  "trusted_claim uid (s\<lparr>identity_requests := x\<rparr>) = trusted_claim uid s"
  "trusted_claim uid (s\<lparr>users := y\<rparr>) = trusted_claim uid s"
  by (simp_all add: trusted_claim_def)

lemma grant_identity_claim_frame [simp]:
  "users (grant_identity_claim E i s) = users s"
  "identity_requests (grant_identity_claim E i s) = identity_requests s"
  by (simp_all add: grant_identity_claim_def)

lemma approve_identity_ok:
  assumes "approve_identity_request E rv ndy k why s = (Inr r', s')"
  obtains r p s2 s3 where "find_identity_request k s = Some r" "ir_status r = RV_PENDING"
    "recompute_trust E (ir_user r) s2 = (Inr p, s3)"
    "users s2 = users (update_user (ir_user r)
       (\<lambda>u. u\<lparr>u_identity_verified_at := Some (now E), u_level := LEVEL_3\<rparr>) s)"
    "trusted_claim (ir_user r) s2 = trusted_claim (ir_user r) s"
    "identity_requests s2 = update_rows (\<lambda>x. ir_id x = ir_id r)
       (resolve_identity_request E rv ndy RV_APPROVED why) (identity_requests s)"
    "users s' = users s2" "trust_profiles s' = trust_profiles s3"
    "identity_requests s' = identity_requests s2"
proof -
  obtain r where r: "find_identity_request k s = Some r" "ir_status r = RV_PENDING"
    using assms by (auto simp: approve_identity_request_def get_pending_identity_request_def
        split: option.splits sum.splits if_splits)
  define s2 where "s2 = (let s1 = grant_identity_claim E (ir_user r)
        (update_user (ir_user r) (\<lambda>u. u\<lparr>u_identity_verified_at := Some (now E), u_level := LEVEL_3\<rparr>) s)
      in s1\<lparr>identity_requests := update_rows (\<lambda>x. ir_id x = ir_id r)
           (resolve_identity_request E rv ndy RV_APPROVED why) (identity_requests s1)\<rparr>)"
  have run: "and_then (recompute_trust E (ir_user r)) (\<lambda>_.
       and_then (notify E (identity_notice (ir_user r) ''Identity verification approved''
           ''Your NDY HUB identity verification (LEVEL_3) has been approved.''
           (''identity-verification-approved:'' @ ir_id r))) (\<lambda>_ s3.
         (Inr (resolve_identity_request E rv ndy RV_APPROVED why r), s3))) s2 = (Inr r', s')"
    using assms r by (simp add: approve_identity_request_def get_pending_identity_request_def Let_def
        s2_def split: if_splits)
  obtain p s3 where p: "recompute_trust E (ir_user r) s2 = (Inr p, s3)"
    and s': "s' = snd (notify E (identity_notice (ir_user r) ''Identity verification approved''
           ''Your NDY HUB identity verification (LEVEL_3) has been approved.''
           (''identity-verification-approved:'' @ ir_id r)) s3)"
    using run by (auto simp: and_then_def split: prod.splits sum.splits)
  show thesis
    using p by (rule recompute_trust_ok) (rule that [OF r p], simp_all add: s' s2_def Let_def)
qed

text \<open>
  An approved identity review is the whole promotion: the request was pending, the account is
  at LEVEL\_3 with the time of the approval, the stored trust profile has already been recomputed
  to VERIFIED or (with a business claim somebody stood behind) TRUSTED, and the request cannot be
  decided again.
\<close>

theorem identity_approval_effect:
  assumes "approve_identity_request E rv ndy k why s = (Inr r', s')"
  shows "\<exists>r u p. find_identity_request k s = Some r \<and> ir_status r = RV_PENDING \<and>
           find_user (ir_user r) s' = Some u \<and> u_level u = LEVEL_3 \<and>
           u_identity_verified_at u = Some (now E) \<and>
           find_trust_profile (ir_user r) s' = Some p \<and>
           tp_tier p = (if trusted_claim (ir_user r) s then TRUSTED else VERIFIED) \<and>
           \<not> succeeds (approve_identity_request E' rv' ndy' k why' s') \<and>
           \<not> succeeds (reject_identity_request E' rv' ndy' k why' s')"
  using assms
proof (rule approve_identity_ok)
  fix r p s2 s3
  assume r: "find_identity_request k s = Some r" "ir_status r = RV_PENDING"
    and p: "recompute_trust E (ir_user r) s2 = (Inr p, s3)"
    and u2: "users s2 = users (update_user (ir_user r)
       (\<lambda>u. u\<lparr>u_identity_verified_at := Some (now E), u_level := LEVEL_3\<rparr>) s)"
    and tc: "trusted_claim (ir_user r) s2 = trusted_claim (ir_user r) s"
    and q2: "identity_requests s2 = update_rows (\<lambda>x. ir_id x = ir_id r)
       (resolve_identity_request E rv ndy RV_APPROVED why) (identity_requests s)"
    and s': "users s' = users s2" "trust_profiles s' = trust_profiles s3"
      "identity_requests s' = identity_requests s2"
  obtain u where u: "find_user (ir_user r) s2 = Some u"
    and pp: "p = \<lparr>tp_user = ir_user r, tp_tier = compute_tier (ir_user r) (u_level u) s2,
        tp_score = compute_score E u s2, tp_computed_at = now E\<rparr>"
    and prof: "find_trust_profile (ir_user r) s3 = Some p"
    using p by (rule recompute_trust_ok)
  have "find_user (ir_user r) s2 = map_option
      (\<lambda>u. u\<lparr>u_identity_verified_at := Some (now E), u_level := LEVEL_3\<rparr>) (find_user (ir_user r) s)"
    using find_user_cong [OF u2, of "ir_user r"]
      find_user_update [of "\<lambda>u. u\<lparr>u_identity_verified_at := Some (now E), u_level := LEVEL_3\<rparr>"]
    by simp
  with u have lv: "u_level u = LEVEL_3" "u_identity_verified_at u = Some (now E)"
    by auto
  have k: "ir_id r = k"
    using r(1) unfolding find_identity_request_def by (blast dest: find_row_Some_D)
  have "find_identity_request k s' = Some (resolve_identity_request E rv ndy RV_APPROVED why r)"
    using r(1) k unfolding find_identity_request_def s'(3) q2
    by (simp add: find_row_update_keep resolve_identity_request_def)
  then have "\<not> succeeds (approve_identity_request E' rv' ndy' k why' s')"
    "\<not> succeeds (reject_identity_request E' rv' ndy' k why' s')"
    by (simp_all add: approve_identity_request_def reject_identity_request_def
        get_pending_identity_request_def resolve_identity_request_def)
  moreover have "find_user (ir_user r) s' = Some u"
    using u s'(1) by (simp add: find_user_def)
  moreover have "find_trust_profile (ir_user r) s' = Some p"
    using prof s'(2) by (simp add: find_trust_profile_def)
  ultimately show ?thesis
    using r lv pp tc by (intro exI [of _ r] exI [of _ u] exI [of _ p]) (simp add: compute_tier_def)
qed

theorem identity_approval_effect_witness:
  "\<exists>u. find_user ''m1'' (snd (approve_identity_request (demo_env 3) ''a1'' ''n'' ''id0'' None
      (snd (create_identity_request (demo_env 1) ''m1'' None demo_db)))) = Some u \<and> u_level u = LEVEL_3"
proof -
  let ?s = "snd (create_identity_request (demo_env 1) ''m1'' None demo_db)"
  let ?r = "approve_identity_request (demo_env 3) ''a1'' ''n'' ''id0'' None ?s"
  have q: "find_identity_request ''id0'' ?s = Some \<lparr>ir_id = ''id0'', ir_user = ''m1'', ir_note = None,
      ir_status = RV_PENDING, ir_reviewer = None, ir_reviewer_ndy_id = None,
      ir_review_reason = None, ir_resolved_at = None, ir_created_at = 1\<rparr>"
    by code_simp
  have "succeeds ?r"
    by code_simp
  then obtain x where "?r = (Inr x, snd ?r)"
    by (metis prod.collapse succeeds_iff)
  from identity_approval_effect [OF this] q show ?thesis
    by force
qed

end
