(* ===== verification/Identity.thy ===== *)
theory Identity
  imports Workspaces Trust
begin

text \<open>
  \<^verbatim>\<open>identity/identity.service.ts\<close> (accounts and the lookup by NDY ID),
  \<^verbatim>\<open>identity/identity.controller.ts\<close> (the public passport) and
  \<^verbatim>\<open>common/passport-verification.util.ts\<close>.
\<close>

section \<open>Passport fields\<close>

text \<open>
  The optional fields of \<^verbatim>\<open>PassportProfileFields\<close>; \<^verbatim>\<open>None\<close> is \<^verbatim>\<open>undefined\<close>, \<^verbatim>\<open>Some None\<close> an
  explicit \<^verbatim>\<open>null\<close>, which \<^verbatim>\<open>IsOptional\<close> lets through.
\<close>

record profile_fields =
  pf_full_name :: "string option option"
  pf_photo_url :: "string option option"
  pf_bio :: "string option option"
  pf_country :: "string option option"
  pf_website :: "string option option"
  pf_linkedin :: "string option option"
  pf_instagram :: "string option option"
  pf_x :: "string option option"
  pf_business_name :: "string option option"
  pf_business_role :: "string option option"
  pf_phone :: "string option option"
  pf_bio_public :: "bool option option"
  pf_country_public :: "bool option option"
  pf_website_public :: "bool option option"
  pf_socials_public :: "bool option option"
  pf_business_public :: "bool option option"
  pf_phone_public :: "bool option option"

definition no_fields :: profile_fields where
  "no_fields =
     \<lparr>pf_full_name = None, pf_photo_url = None, pf_bio = None, pf_country = None,
      pf_website = None, pf_linkedin = None, pf_instagram = None, pf_x = None,
      pf_business_name = None, pf_business_role = None, pf_phone = None, pf_bio_public = None,
      pf_country_public = None, pf_website_public = None, pf_socials_public = None,
      pf_business_public = None, pf_phone_public = None\<rparr>"

definition keep :: "'a option option \<Rightarrow> 'a option \<Rightarrow> 'a option" where
  "keep new old = (case new of None \<Rightarrow> old | Some v \<Rightarrow> v)"

definition keep_flag :: "bool option option \<Rightarrow> bool \<Rightarrow> bool" where
  "keep_flag new old = (case new of Some (Some b) \<Rightarrow> b | _ \<Rightarrow> old)"

text \<open>Prisma refuses a null in a column that has none.\<close>

definition null_flag :: "profile_fields \<Rightarrow> bool" where
  "null_flag f \<longleftrightarrow> Some None \<in> {pf_bio_public f, pf_country_public f, pf_website_public f, pf_socials_public f,
     pf_business_public f, pf_phone_public f}"

definition validation_error :: http_error where
  "validation_error = ServerError ''PrismaClientValidationError''"

text \<open>An update writes the fields that are present, clears those that are null and leaves the others.\<close>

definition apply_fields :: "profile_fields \<Rightarrow> passport \<Rightarrow> passport" where
  "apply_fields f p =
     \<lparr>full_name = keep (pf_full_name f) (full_name p), photo_url = keep (pf_photo_url f) (photo_url p),
      bio = keep (pf_bio f) (bio p), country = keep (pf_country f) (country p),
      website = keep (pf_website f) (website p), linkedin_url = keep (pf_linkedin f) (linkedin_url p),
      instagram_url = keep (pf_instagram f) (instagram_url p), x_url = keep (pf_x f) (x_url p),
      business_name = keep (pf_business_name f) (business_name p),
      business_role = keep (pf_business_role f) (business_role p), phone = keep (pf_phone f) (phone p),
      bio_public = keep_flag (pf_bio_public f) (bio_public p),
      country_public = keep_flag (pf_country_public f) (country_public p),
      website_public = keep_flag (pf_website_public f) (website_public p),
      socials_public = keep_flag (pf_socials_public f) (socials_public p),
      business_public = keep_flag (pf_business_public f) (business_public p),
      phone_public = keep_flag (pf_phone_public f) (phone_public p)\<rparr>"

section \<open>Accounts\<close>

definition max_ndy_id_attempts :: nat where
  "max_ndy_id_attempts = 5"

definition generate_core_id :: "env \<Rightarrow> nat \<Rightarrow> string" where
  "generate_core_id E attempt = draw E CoreIdDraw attempt"

definition find_by_email :: "string \<Rightarrow> db \<Rightarrow> user option" where
  "find_by_email e s = find_row (\<lambda>u. u_email u = e) (users s)"

definition find_by_id :: "id \<Rightarrow> db \<Rightarrow> user reply" where
  "find_by_id i s =
     (case find_user i s of None \<Rightarrow> throw (NotFound ''No account with that id.'') | Some u \<Rightarrow> ok u)"

definition new_user :: "env \<Rightarrow> string \<Rightarrow> string \<Rightarrow> string option \<Rightarrow> profile_fields \<Rightarrow> user" where
  "new_user E core email pw f =
     \<lparr>u_id = new_id E T_User 0, u_core_id = core, u_id_type = None,
      u_ndy_id = format_ndy_id core (ndy_id_type_for_role USER), u_email = email,
      u_password_hash = pw, u_passport = apply_fields f empty_passport, u_level = LEVEL_0,
      u_email_verified_at = None, u_phone_verified_at = None, u_identity_verified_at = None,
      u_email_token = None, u_email_token_expires = None, u_reset_token = None,
      u_reset_expires = None, u_totp_secret = None, u_totp_enabled_at = None, u_sms_phone = None,
      u_sms_enabled_at = None, u_challenge = None, u_challenge_expires = None, u_role = USER,
      u_suspended = False, u_suspended_at = None, u_deleted_at = None,
      u_ndyapps_connected = False, u_ndyapps_connected_at = None, u_default_workspace = None,
      u_created_at = now E\<rparr>"

text \<open>
  The retry loop.  A clash on the core or the NDY ID retries while attempts are left and is
  rethrown on the last one; any other clash (here the primary key) is rethrown at once.  The
  personal workspace is created with its errors swallowed.
\<close>

function create_user_attempt ::
  "env \<Rightarrow> nat \<Rightarrow> string \<Rightarrow> string option \<Rightarrow> profile_fields \<Rightarrow> (db, user) handler" where
  "create_user_attempt E attempt email pw f s =
     (if max_ndy_id_attempts \<le> attempt
      then (throw (Conflict ''Could not allocate a unique NDY ID, please retry.''), s)
      else
        let u = new_user E (generate_core_id E attempt) email pw f
        in if exists_row (\<lambda>v. u_id v = u_id u \<or> u_email v = u_email u) (users s)
           then (throw unique_violation, s)
           else if exists_row (\<lambda>v. u_core_id v = u_core_id u \<or> u_ndy_id v = u_ndy_id u) (users s)
           then (if attempt < max_ndy_id_attempts - 1
                 then create_user_attempt E (Suc attempt) email pw f s
                 else (throw unique_violation, s))
           else (ok u, snd (get_or_create_personal_workspace E (u_id u) (s\<lparr>users := users s @ [u]\<rparr>))))"
  by pat_completeness auto
termination
  by (relation "measure (\<lambda>(E, attempt, _). max_ndy_id_attempts - attempt)")
    (auto simp: max_ndy_id_attempts_def)

declare create_user_attempt.simps [simp del]

definition create_user ::
  "env \<Rightarrow> string \<Rightarrow> string option \<Rightarrow> profile_fields \<Rightarrow> (db, user) handler" where
  "create_user E email pw f s =
     (if find_by_email email s \<noteq> None
      then (throw (Conflict ''An account with this email already exists.''), s)
      else if null_flag f then (throw validation_error, s)
      else create_user_attempt E 0 email pw f s)"

definition find_by_ndy_id :: "string \<Rightarrow> db \<Rightarrow> user reply" where
  "find_by_ndy_id ndy s =
     (case find_row (\<lambda>u. u_ndy_id u = ndy) (users s) of
        Some u \<Rightarrow> ok u
      | None \<Rightarrow>
          (case parse_ndy_id ndy of
             None \<Rightarrow> throw (NotFound ''No account with that NDY ID.'')
           | Some (t, core) \<Rightarrow>
               (case find_row (\<lambda>u. u_core_id u = core) (users s) of
                  None \<Rightarrow> throw (NotFound ''No account with that NDY ID.'')
                | Some u \<Rightarrow> ok u)))"

definition update_profile :: "id \<Rightarrow> profile_fields \<Rightarrow> (db, user) handler" where
  "update_profile i f s =
     (if null_flag f then (throw validation_error, s)
      else case find_user i s of
        None \<Rightarrow> (throw record_missing, s)
      | Some u \<Rightarrow>
          (ok (u\<lparr>u_passport := apply_fields f (u_passport u)\<rparr>),
           update_user i (\<lambda>u. u\<lparr>u_passport := apply_fields f (u_passport u)\<rparr>) s))"

section \<open>The public passport\<close>

definition is_passport_verified :: "user \<Rightarrow> bool" where
  "is_passport_verified u =
     (u_role u = FOUNDER \<or> u_role u = SUPER_ADMIN \<or> u_level u \<noteq> LEVEL_0)"

fun json_field :: "string \<Rightarrow> json \<Rightarrow> string option" where
  "json_field k (JObj kvs) =
     (case map_of kvs k of Some (JStr t) \<Rightarrow> Some t | _ \<Rightarrow> None)"
| "json_field k _ = None"

record public_passport =
  pp_ndy_id :: string
  pp_full_name :: "string option"
  pp_founding :: "(string \<times> string option \<times> string option) option"
  pp_photo :: "string option"
  pp_level :: verification_level
  pp_verified :: bool
  pp_ndyapps :: bool
  pp_member_since :: time
  pp_bio :: "string option"
  pp_country :: "string option"
  pp_website :: "string option"
  pp_phone :: "string option"
  pp_socials :: "(string option \<times> string option \<times> string option) option"
  pp_business :: "(string option \<times> string option) option"

definition founding_identity :: "user \<Rightarrow> db \<Rightarrow> (string \<times> string option \<times> string option) option" where
  "founding_identity u s =
     (let t = ndy_id_type_for_user (u_id_type u) (u_role u)
      in if is_override_only_ndy_id_type t then
           (let meta = (case find_row (\<lambda>c. pc_user c = u_id u \<and> pc_key c = ''professional_title'') (claims s) of
                  None \<Rightarrow> None | Some c \<Rightarrow> pc_metadata c)
            in Some (t, Option.bind meta (json_field ''title''), Option.bind meta (json_field ''subtitle'')))
         else None)"

definition public_view :: "user \<Rightarrow> db \<Rightarrow> public_passport" where
  "public_view u s =
     (let p = u_passport u;
          has_socials = truthy (linkedin_url p) \<or> truthy (instagram_url p) \<or> truthy (x_url p);
          has_business = truthy (business_name p) \<or> truthy (business_role p)
      in \<lparr>pp_ndy_id = u_ndy_id u, pp_full_name = full_name p, pp_founding = founding_identity u s,
          pp_photo = photo_url p, pp_level = u_level u, pp_verified = is_passport_verified u,
          pp_ndyapps = u_ndyapps_connected u, pp_member_since = u_created_at u,
          pp_bio = (if bio_public p then bio p else None),
          pp_country = (if country_public p then country p else None),
          pp_website = (if website_public p then website p else None),
          pp_phone = (if phone_public p then phone p else None),
          pp_socials = (if socials_public p \<and> has_socials
                        then Some (linkedin_url p, instagram_url p, x_url p) else None),
          pp_business = (if business_public p \<and> has_business
                         then Some (business_name p, business_role p) else None)\<rparr>)"

definition get_public_passport :: "string \<Rightarrow> db \<Rightarrow> public_passport reply" where
  "get_public_passport ndy s =
     (case find_by_ndy_id ndy s of Inl e \<Rightarrow> throw e | Inr u \<Rightarrow> ok (public_view u s))"

section \<open>The retry loop\<close>

lemma create_user_attempt_ok:
  "create_user_attempt E k email pw f s = (Inr u, s') \<Longrightarrow>
     \<exists>j. k \<le> j \<and> j < max_ndy_id_attempts \<and> u = new_user E (generate_core_id E j) email pw f \<and>
       (\<forall>v \<in> set (users s). u_id v \<noteq> u_id u \<and> u_email v \<noteq> email \<and> u_core_id v \<noteq> u_core_id u \<and>
          u_ndy_id v \<noteq> u_ndy_id u) \<and>
       s' = snd (get_or_create_personal_workspace E (u_id u) (s\<lparr>users := users s @ [u]\<rparr>))"
proof (induction E k email pw f s rule: create_user_attempt.induct)
  case (1 E k email pw f s)
  let ?u = "new_user E (generate_core_id E k) email pw f"
  let ?pk = "exists_row (\<lambda>v. u_id v = u_id ?u \<or> u_email v = u_email ?u) (users s)"
  let ?clash = "exists_row (\<lambda>v. u_core_id v = u_core_id ?u \<or> u_ndy_id v = u_ndy_id ?u) (users s)"
  note step = 1(2) [unfolded create_user_attempt.simps [of E k email pw f s] Let_def]
  show ?case
  proof (cases "max_ndy_id_attempts \<le> k \<or> ?pk")
    case True
    with step show ?thesis by (simp split: if_splits)
  next
    case False
    show ?thesis
    proof (cases ?clash)
      case True
      with step False have "create_user_attempt E (Suc k) email pw f s = (Inr u, s')"
        and "k < max_ndy_id_attempts - 1"
        by (simp_all split: if_splits)
      with 1(1) False True obtain j where "Suc k \<le> j" and j: "j < max_ndy_id_attempts \<and>
          u = new_user E (generate_core_id E j) email pw f \<and>
          (\<forall>v \<in> set (users s). u_id v \<noteq> u_id u \<and> u_email v \<noteq> email \<and> u_core_id v \<noteq> u_core_id u \<and>
             u_ndy_id v \<noteq> u_ndy_id u) \<and>
          s' = snd (get_or_create_personal_workspace E (u_id u) (s\<lparr>users := users s @ [u]\<rparr>))"
        by (meson not_le)
      with Suc_leD show ?thesis by blast
    next
      case noclash: False
      with step False have "u = ?u"
        and "s' = snd (get_or_create_personal_workspace E (u_id ?u) (s\<lparr>users := users s @ [?u]\<rparr>))"
        by (auto split: if_splits)
      moreover have "u_email ?u = email"
        by (simp add: new_user_def)
      ultimately show ?thesis
        using False noclash by (intro exI [of _ k]) auto
    qed
  qed
qed

lemma create_user_attempt_error:
  "create_user_attempt E k email pw f s = (Inl e, s') \<Longrightarrow> k < max_ndy_id_attempts \<Longrightarrow>
     s' = s \<and> e = unique_violation"
proof (induction E k email pw f s rule: create_user_attempt.induct)
  case (1 E k email pw f s)
  let ?u = "new_user E (generate_core_id E k) email pw f"
  let ?pk = "exists_row (\<lambda>v. u_id v = u_id ?u \<or> u_email v = u_email ?u) (users s)"
  let ?clash = "exists_row (\<lambda>v. u_core_id v = u_core_id ?u \<or> u_ndy_id v = u_ndy_id ?u) (users s)"
  show ?case
  proof (cases "\<not> ?pk \<and> ?clash \<and> k < max_ndy_id_attempts - 1")
    case True
    with 1(2,3) have "create_user_attempt E (Suc k) email pw f s = (Inl e, s')"
      by (subst (asm) create_user_attempt.simps) (simp add: Let_def)
    with 1(1,3) True show ?thesis by (simp add: less_diff_conv)
  next
    case False
    with 1(2,3) show ?thesis
      by (subst (asm) create_user_attempt.simps) (simp add: Let_def split: if_splits)
  qed
qed

text \<open>The friendly message after the loop is dead: the last attempt rethrows the raw failure.\<close>

lemma allocation_message_unreachable:
  "fst (create_user E email pw f s) \<noteq> Inl (Conflict ''Could not allocate a unique NDY ID, please retry.'')"
proof
  assume a: "fst (create_user E email pw f s) = Inl (Conflict ''Could not allocate a unique NDY ID, please retry.'')"
  then have "find_by_email email s = None"
    by (auto simp: create_user_def validation_error_def split: if_splits)
  with a obtain s' where "create_user_attempt E 0 email pw f s =
      (Inl (Conflict ''Could not allocate a unique NDY ID, please retry.''), s')"
    by (cases "create_user_attempt E 0 email pw f s") (auto simp: create_user_def validation_error_def split: if_splits)
  from create_user_attempt_error [OF this] show False
    by (simp add: max_ndy_id_attempts_def)
qed

section \<open>The displayed id stays in step with the account\<close>

definition identity_columns :: "user \<Rightarrow> id \<times> string \<times> string option \<times> string \<times> string \<times> role" where
  "identity_columns u = (u_id u, u_core_id u, u_id_type u, u_ndy_id u, u_email u, u_role u)"

definition id_in_step :: "user \<Rightarrow> bool" where
  "id_in_step u = (u_ndy_id u = format_ndy_id (u_core_id u) (ndy_id_type_for_user (u_id_type u) (u_role u)))"

definition ids_ok :: "db \<Rightarrow> bool" where
  "ids_ok s = (unique_on u_id (users s) \<and> unique_on u_core_id (users s) \<and>
     unique_on u_ndy_id (users s) \<and> unique_on u_email (users s) \<and> list_all id_in_step (users s))"

text \<open>The invariant reads only the identity columns.\<close>

definition columns_ok :: "(id \<times> string \<times> string option \<times> string \<times> string \<times> role) list \<Rightarrow> bool" where
  "columns_ok cs =
     (unique_on (\<lambda>(i, c, t, n, e, r). i) cs \<and> unique_on (\<lambda>(i, c, t, n, e, r). c) cs \<and>
      unique_on (\<lambda>(i, c, t, n, e, r). n) cs \<and> unique_on (\<lambda>(i, c, t, n, e, r). e) cs \<and>
      list_all (\<lambda>(i, c, t, n, e, r). n = format_ndy_id c (ndy_id_type_for_user t r)) cs)"

lemma ids_ok_columns: "ids_ok s = columns_ok (map identity_columns (users s))"
  by (simp add: ids_ok_def columns_ok_def unique_on_def comp_def identity_columns_def list.pred_map
      id_in_step_def [abs_def])

lemma ids_ok_cong:
  "map identity_columns (users s') = map identity_columns (users s) \<Longrightarrow> ids_ok s' = ids_ok s"
  by (simp add: ids_ok_columns)

lemma personal_workspace_columns:
  "map identity_columns (users (snd (get_or_create_personal_workspace E i s))) =
     map identity_columns (users s)"
  by (auto simp: get_or_create_personal_workspace_def Let_def update_rows_def identity_columns_def
      split: option.splits)


lemma create_user_ids:
  assumes "ids_ok s" shows "ids_ok (snd (create_user E email pw f s))"
proof (cases "create_user_attempt E 0 email pw f s")
  case (Pair r s')
  show ?thesis
  proof (cases r)
    case (Inl e)
    with Pair create_user_attempt_error [of E 0 email pw f s e s'] assms show ?thesis
      by (simp add: create_user_def max_ndy_id_attempts_def)
  next
    case (Inr u)
    with Pair have "create_user_attempt E 0 email pw f s = (Inr u, s')" by simp
    from create_user_attempt_ok [OF this] obtain j where
      u: "u = new_user E (generate_core_id E j) email pw f"
      and new: "\<forall>v \<in> set (users s). u_id v \<noteq> u_id u \<and> u_email v \<noteq> email \<and>
         u_core_id v \<noteq> u_core_id u \<and> u_ndy_id v \<noteq> u_ndy_id u"
      and s': "s' = snd (get_or_create_personal_workspace E (u_id u) (s\<lparr>users := users s @ [u]\<rparr>))"
      by blast
    have "id_in_step u" "u_email u = email"
      by (simp_all add: u new_user_def id_in_step_def ndy_id_type_for_user_def)
    with assms new have "ids_ok (s\<lparr>users := users s @ [u]\<rparr>)"
      by (auto simp: ids_ok_def)
    then have "ids_ok s'"
      using ids_ok_cong [OF personal_workspace_columns] by (simp add: s')
    with assms Pair show ?thesis by (simp add: create_user_def)
  qed
qed

lemma update_profile_ids: "ids_ok (snd (update_profile i f s)) = ids_ok s"
  by (rule ids_ok_cong)
    (auto simp: update_profile_def update_rows_def identity_columns_def split: option.splits)

text \<open>The rename of an approved role change writes one row, keeps its core and clashes with no other id.\<close>

lemma approve_role_ids:
  assumes ok: "ids_ok s" and run: "approve_role_request E b i why s = (Inr x, s')"
  shows "ids_ok s'"
proof -
  obtain r :: role_request and t :: user where t: "find_user (rr_target r) s = Some t"
    and u': "users s' = update_rows (\<lambda>u. u_id u = rr_target r)
       (\<lambda>u. u\<lparr>u_role := rr_requested r,
              u_ndy_id := format_ndy_id (u_core_id t)
                (ndy_id_type_for_user (u_id_type t) (rr_requested r))\<rparr>) (users s)"
    and free: "\<forall>u \<in> set (users s). u_id u \<noteq> u_id t \<longrightarrow>
       u_ndy_id u \<noteq> format_ndy_id (u_core_id t) (ndy_id_type_for_user (u_id_type t) (rr_requested r))"
    using run by (rule approve_role_request_ok) blast
  have id: "u_id t = rr_target r" and mem: "t \<in> set (users s)"
    using find_user_D [OF t] by auto
  have only: "u = t" if "u \<in> set (users s)" "u_id u = rr_target r" for u
    using ok that mem id by (auto simp: ids_ok_def dest: unique_onD)
  define f where "f = (\<lambda>u :: user. u\<lparr>u_role := rr_requested r,
              u_ndy_id := format_ndy_id (u_core_id t)
                (ndy_id_type_for_user (u_id_type t) (rr_requested r))\<rparr>)"
  have u'': "users s' = update_rows (\<lambda>u. u_id u = rr_target r) f (users s)"
    using u' by (simp add: f_def)
  have same: "map u_id (users s') = map u_id (users s)" "map u_core_id (users s') = map u_core_id (users s)"
    "map u_email (users s') = map u_email (users s)"
    by (auto simp: u'' update_rows_def f_def)
  have step: "list_all id_in_step (users s')"
    using ok only by (auto simp: u'' f_def ids_ok_def list_all_iff id_in_step_def)
  have "inj_on u_ndy_id (set (users s'))"
  proof (rule inj_onI)
    fix v w assume v: "v \<in> set (users s')" and w: "w \<in> set (users s')" and eq: "u_ndy_id v = u_ndy_id w"
    obtain v0 w0 where v0: "v0 \<in> set (users s)" "v = (if u_id v0 = rr_target r then f v0 else v0)"
      and w0: "w0 \<in> set (users s)" "w = (if u_id w0 = rr_target r then f w0 else w0)"
      using v w by (auto simp: u'' set_update_rows)
    have "v0 = w0"
      using v0 w0 eq free only id ok
      by (auto simp: f_def ids_ok_def split: if_splits dest: unique_onD)
    then show "v = w" using v0 w0 by simp
  qed
  moreover have "distinct (users s')"
    using same(1) ok by (metis distinct_map ids_ok_def unique_on_def)
  ultimately have "unique_on u_ndy_id (users s')"
    by (simp add: unique_on_def distinct_map)
  with same step ok show ?thesis
    by (simp add: ids_ok_def unique_on_def)
qed

lemma role_step_ids:
  assumes "ids_ok s" shows "ids_ok (snd (role_step (E, a) s))"
proof (cases "role_step (E, a) s")
  case (Pair rep s')
  show ?thesis
  proof (cases rep)
    case (Inl e)
    with Pair role_step_error [of "(E, a)" s] assms show ?thesis by simp
  next
    case (Inr x)
    show ?thesis
    proof (cases a)
      case (RequestRole b t r why)
      with Pair Inr assms create_role_request_ok [of E b t r why s x s'] show ?thesis
        by (simp add: ids_ok_def)
    next
      case (RejectRole b i why)
      with Pair Inr have "reject_role_request E b i why s = (Inr x, s')" by simp
      then show ?thesis
        by (rule reject_role_request_ok) (use assms Pair RejectRole in \<open>simp add: ids_ok_def\<close>)
    next
      case (ApproveRole b i why)
      with Pair Inr have "approve_role_request E b i why s = (Inr x, s')" by simp
      then have "ids_ok s'"
        by (rule approve_role_ids [OF assms])
      with Pair ApproveRole show ?thesis by simp
    qed
  qed
qed

section \<open>Accounts as a system\<close>

datatype identity_op =
    CreateUser string "string option" profile_fields
  | UpdateProfile id profile_fields
  | RoleOp role_op
  | Suspend admin_actor id bool "string option"

fun identity_step :: "env \<times> identity_op \<Rightarrow> db \<Rightarrow> bool \<times> db" where
  "identity_step (E, CreateUser e pw f) s = answered (create_user E e pw f s)"
| "identity_step (E, UpdateProfile i f) s = answered (update_profile i f s)"
| "identity_step (E, RoleOp a) s = answered (role_step (E, a) s)"
| "identity_step (E, Suspend a i b why) s = answered (set_suspended E a i b why s)"

lemma set_suspended_ids: "ids_ok (snd (set_suspended E a i b why s)) = ids_ok s"
  by (rule ids_ok_cong)
    (auto simp: set_suspended_def write_audit_log_def revoke_user_sessions_def Let_def
      update_rows_def identity_columns_def split: option.splits)

interpretation identity_columns_kept: invariant_system identity_step ids_ok
proof
  fix s a
  assume "ids_ok s"
  then show "ids_ok (snd (identity_step a s))"
    by (cases "(a, s)" rule: identity_step.cases)
      (simp_all add: create_user_ids update_profile_ids role_step_ids set_suspended_ids)
qed

text \<open>
  C6. The displayed NDY ID is always the one the account should show.  Starting from an empty
  user table (or any consistent one), after any sequence of signups, profile edits, role changes
  and suspensions: ids, cores, NDY IDs and e-mail addresses are pairwise different, and every
  stored NDY ID is the one rebuilt from the account's permanent core and its current class.
\<close>

theorem ndy_ids_in_step:
  assumes "ids_ok s"
  shows "ids_ok (run_ops identity_step ops s)"
  using assms by (rule identity_columns_kept.run_inv)

theorem ndy_ids_in_step_witness:
  "ids_ok (run_ops identity_step
     [(demo_env 1, CreateUser ''n@x.y'' None no_fields),
      (demo_env 2, RoleOp (RequestRole (demo_actor ''a2'') ''m1'' FOUNDER None)),
      (demo_env 2, RoleOp (RequestRole (demo_actor ''a1'') ''m1'' FOUNDER None))]
     (empty_db\<lparr>users := [demo_user ''m1'' ''AAAAA4'' USER]\<rparr>))"
proof (rule ndy_ids_in_step)
  show "ids_ok (empty_db\<lparr>users := [demo_user ''m1'' ''AAAAA4'' USER]\<rparr>)"
    by (simp add: ids_ok_def unique_on_def id_in_step_def demo_user_def format_ndy_id_def
        ndy_id_type_for_user_def ndy_id_type_for_role_def)
qed

text \<open>No account carries a class the parser does not know.\<close>

definition classes_known :: "db \<Rightarrow> bool" where
  "classes_known s =
     list_all (\<lambda>u. ndy_id_type_for_user (u_id_type u) (u_role u) \<in> set ndy_id_types) (users s)"

text \<open>
  A shared passport link keeps working: for a consistent user table, every id with the
  account's core (under any class, the current one or one it had before a role change, and in
  the old form without a class) finds that very account.
\<close>

theorem every_ndy_id_resolves:
  assumes "ids_ok s" and "classes_known s" and "u \<in> set (users s)" and "is_core_id (u_core_id u)"
    and "ndy = ''NDY-'' @ u_core_id u \<or> (\<exists>t \<in> set ndy_id_types. ndy = format_ndy_id (u_core_id u) t)"
  shows "find_by_ndy_id ndy s = Inr u"
proof -
  have parse: "\<exists>t. parse_ndy_id ndy = Some (t, u_core_id u)"
    using assms(4,5) parse_legacy parse_format by blast
  have core: "find_row (\<lambda>v. u_core_id v = u_core_id u) (users s) = Some u"
    using assms(1,3) by (intro find_row_unique) (auto simp: ids_ok_def unique_on_def)
  show ?thesis
  proof (cases "find_row (\<lambda>v. u_ndy_id v = ndy) (users s)")
    case None
    with parse core show ?thesis by (auto simp: find_by_ndy_id_def)
  next
    case (Some v)
    then have v: "v \<in> set (users s)" "u_ndy_id v = ndy"
      by (auto dest: find_row_Some_D)
    let ?t = "ndy_id_type_for_user (u_id_type v) (u_role v)"
    have vt: "?t \<in> set ndy_id_types" and vn: "ndy = format_ndy_id (u_core_id v) ?t"
      using v assms(1,2) by (auto simp: ids_ok_def classes_known_def list_all_iff id_in_step_def)
    have "u_core_id v = u_core_id u"
      using assms(5)
    proof
      assume "ndy = ''NDY-'' @ u_core_id u"
      then have "?t @ ''-'' @ u_core_id v = u_core_id u"
        using vn by (simp add: format_ndy_id_def)
      then have "CHR ''-'' \<in> set (u_core_id u)"
        by (metis append_Cons in_set_conv_decomp)
      with assms(4) show ?thesis
        by (auto simp: is_core_id_def list_all_iff is_upper_def is_digit_def in_range_def)
    next
      assume "\<exists>t \<in> set ndy_id_types. ndy = format_ndy_id (u_core_id u) t"
      with vn vt show ?thesis
        by (auto simp: format_ndy_id_def dest!: ndy_id_types_length append_eq_append_conv [THEN iffD1, rotated])
    qed
    then have "v = u"
      using assms(1,3) v(1) by (auto simp: ids_ok_def dest: unique_onD)
    with Some show ?thesis by (simp add: find_by_ndy_id_def)
  qed
qed

theorem every_ndy_id_resolves_witness:
  "find_by_ndy_id ''NDY-FND-AAAAA4'' (empty_db\<lparr>users := [demo_user ''m1'' ''AAAAA4'' USER]\<rparr>) =
     Inr (demo_user ''m1'' ''AAAAA4'' USER)"
  by (rule every_ndy_id_resolves)
    (auto simp: ids_ok_def unique_on_def id_in_step_def demo_user_def format_ndy_id_def
      ndy_id_type_for_user_def ndy_id_type_for_role_def classes_known_def ndy_id_types_def
      is_core_id_def is_upper_def is_digit_def in_range_def)

section \<open>What a stranger sees\<close>

text \<open>The owner's private columns, and the passport fields the owner has hidden.\<close>

definition hide_private :: "user \<Rightarrow> user" where
  "hide_private u =
     u\<lparr>u_email := '''', u_password_hash := None, u_email_token := None, u_reset_token := None,
       u_totp_secret := None, u_totp_enabled_at := None, u_sms_phone := None,
       u_sms_enabled_at := None, u_challenge := None, u_suspended := False,
       u_default_workspace := None,
       u_passport := (u_passport u)
         \<lparr>bio := if bio_public (u_passport u) then bio (u_passport u) else None,
           country := if country_public (u_passport u) then country (u_passport u) else None,
           website := if website_public (u_passport u) then website (u_passport u) else None,
           phone := if phone_public (u_passport u) then phone (u_passport u) else None,
           linkedin_url := if socials_public (u_passport u) then linkedin_url (u_passport u) else None,
           instagram_url := if socials_public (u_passport u) then instagram_url (u_passport u) else None,
           x_url := if socials_public (u_passport u) then x_url (u_passport u) else None,
           business_name := if business_public (u_passport u) then business_name (u_passport u) else None,
           business_role := if business_public (u_passport u) then business_role (u_passport u) else None\<rparr>\<rparr>"

text \<open>
  The public passport leaks nothing private: two accounts that agree once e-mail, password,
  pending tokens, second factors and every passport field its owner has hidden are blanked out
  have the same public view.
\<close>

theorem public_passport_noninterference:
  assumes "hide_private u = hide_private v"
  shows "public_view u s = public_view v s"
proof -
  have view: "public_view (hide_private w) s = public_view w s" for w
    by (auto simp: public_view_def hide_private_def founding_identity_def is_passport_verified_def Let_def)
  show ?thesis
    by (metis assms view)
qed

theorem public_passport_noninterference_witness:
  "let u = demo_user ''m1'' ''AAAAA4'' USER;
       p = empty_passport\<lparr>phone := Some ''555'', phone_public := False\<rparr>
   in public_view (u\<lparr>u_passport := p, u_email := ''secret@x''\<rparr>) demo_db =
      public_view (u\<lparr>u_passport := p\<lparr>phone := None\<rparr>\<rparr>) demo_db"
  unfolding Let_def
  by (rule public_passport_noninterference)
    (simp add: hide_private_def demo_user_def empty_passport_def)

end
