(* ===== verification/Codecs.thy ===== *)
theory Codecs
  imports Env "HOL-Library.Word"
begin

unbundle bit_operations_syntax

text \<open>
  The two encoders the second factor rests on: the RFC 4648 base32 of
  \<^verbatim>\<open>common/otplib-node-plugins.ts\<close> (bytes as 8-bit words, the intermediate bit string as a list
  of booleans) and the \<^verbatim>\<open>iv:authTag:ciphertext\<close> envelope of \<^verbatim>\<open>common/totp-crypto.util.ts\<close> and
  \<^verbatim>\<open>common/mail-token-crypto.util.ts\<close>, over AES-GCM and base64 as parameters.
\<close>

section \<open>Base32\<close>

definition base32_alphabet :: string where
  "base32_alphabet = ''ABCDEFGHIJKLMNOPQRSTUVWXYZ234567''"

text \<open>\<^verbatim>\<open>byte.toString(2).padStart(8, '0')\<close> and \<^verbatim>\<open>parseInt(bits, 2)\<close>, most significant bit first.\<close>

definition byte_bits :: "8 word \<Rightarrow> bool list" where
  "byte_bits w = map (bit w) (rev [0..<8])"

definition index_bits :: "nat \<Rightarrow> bool list" where
  "index_bits n = map (bit n) (rev [0..<5])"

definition parse_byte :: "bool list \<Rightarrow> 8 word" where
  "parse_byte bs = horner_sum of_bool 2 (rev bs)"

definition parse_index :: "bool list \<Rightarrow> nat" where
  "parse_index bs = horner_sum of_bool 2 (rev bs)"

definition pad_end :: "nat \<Rightarrow> bool list \<Rightarrow> bool list" where
  "pad_end n bs = bs @ replicate (n - length bs) False"

function encode_bits :: "bool list \<Rightarrow> string" where
  "encode_bits bs =
     (if bs = [] then []
      else base32_alphabet ! parse_index (pad_end 5 (take 5 bs)) # encode_bits (drop 5 bs))"
  by pat_completeness auto
termination
  by (relation "measure length") auto

declare encode_bits.simps [simp del]

definition base32_encode :: "8 word list \<Rightarrow> bool \<Rightarrow> string" where
  "base32_encode bytes padding =
     (let out = encode_bits (concat (map byte_bits bytes))
      in if padding then out @ replicate ((8 - length out mod 8) mod 8) CHR ''='' else out)"

fun char_index :: "char \<Rightarrow> string \<Rightarrow> nat option" where
  "char_index c [] = None"
| "char_index c (x # xs) = (if x = c then Some 0 else map_option Suc (char_index c xs))"

fun decode_bits :: "string \<Rightarrow> bool list reply" where
  "decode_bits [] = ok []"
| "decode_bits (c # cs) =
     (case char_index c base32_alphabet of
        None \<Rightarrow> throw (ServerError (''Invalid base32 character: '' @ [c]))
      | Some i \<Rightarrow> map_sum id (\<lambda>bs. index_bits i @ bs) (decode_bits cs))"

function decode_bytes :: "bool list \<Rightarrow> 8 word list" where
  "decode_bytes bs = (if length bs < 8 then [] else parse_byte (take 8 bs) # decode_bytes (drop 8 bs))"
  by pat_completeness auto
termination
  by (relation "measure length") auto

declare decode_bytes.simps [simp del]

definition strip_padding :: "string \<Rightarrow> string" where
  "strip_padding t = rev (dropWhile (\<lambda>c. c = CHR ''='') (rev t))"

definition base32_decode :: "string \<Rightarrow> 8 word list reply" where
  "base32_decode t = map_sum id decode_bytes (decode_bits (strip_padding (to_upper t)))"

lemma list5: "length xs = 5 \<Longrightarrow> \<exists>a b c d e. xs = [a, b, c, d, e]"
  by (auto simp: numeral_eq_Suc length_Suc_conv)

lemma index_round:
  assumes "length bs = 5"
  shows "parse_index bs < 32 \<and> index_bits (parse_index bs) = bs"
proof -
  have e: "index_bits (parse_index bs) = bs"
    using assms
    by (intro nth_equalityI)
      (auto simp: index_bits_def parse_index_def bit_horner_sum_bit_iff rev_nth rev_map nth_append)
  obtain a b c d e where "bs = [a, b, c, d, e]"
    using list5 [OF assms] by blast
  then have "parse_index bs < 32"
    by (cases a; cases b; cases c; cases d; cases e) (simp_all add: parse_index_def)
  with e show ?thesis by simp
qed

lemma char_index_nth:
  "distinct xs \<Longrightarrow> i < length xs \<Longrightarrow> char_index (xs ! i) xs = Some i"
  by (induction xs arbitrary: i) (auto simp: nth_Cons split: nat.splits)

lemma alphabet_length [simp]: "length base32_alphabet = 32"
  by (simp add: base32_alphabet_def)

lemma alphabet_distinct: "distinct base32_alphabet"
  by (simp add: base32_alphabet_def)

lemma alphabet_upper: "list_all (\<lambda>c. upper_char c = c \<and> c \<noteq> CHR ''='') base32_alphabet"
  by code_simp

lemma char_index_alphabet:
  "i < 32 \<Longrightarrow> char_index (base32_alphabet ! i) base32_alphabet = Some i"
  by (rule char_index_nth [OF alphabet_distinct]) simp

lemma decode_encode_bits:
  "\<exists>k < 5. decode_bits (encode_bits bs) = Inr (bs @ replicate k False)"
proof (induction bs rule: encode_bits.induct)
  case (1 bs)
  show ?case
  proof (cases "bs = []")
    case True
    then show ?thesis by (subst encode_bits.simps) auto
  next
    case False
    with 1 obtain k where k: "k < 5" "decode_bits (encode_bits (drop 5 bs)) = Inr (drop 5 bs @ replicate k False)"
      by blast
    let ?p = "pad_end 5 (take 5 bs)"
    have r: "parse_index ?p < 32" "index_bits (parse_index ?p) = ?p"
      using index_round [of ?p] by (simp_all add: pad_end_def)
    have d: "decode_bits (encode_bits bs) = Inr (?p @ drop 5 bs @ replicate k False)"
      using False k by (subst encode_bits.simps) (simp add: char_index_alphabet r)
    show ?thesis
    proof (cases "length bs \<ge> 5")
      case True
      then have "?p @ drop 5 bs = bs" by (simp add: pad_end_def min_def)
      then have "?p @ drop 5 bs @ replicate k False = bs @ replicate k False"
        by (metis append_assoc)
      with d k show ?thesis by auto
    next
      case short: False
      have "encode_bits (drop 5 bs) = []"
        using short by (subst encode_bits.simps) simp
      with k have "k = 0" by simp
      with d short have "decode_bits (encode_bits bs) = Inr (bs @ replicate (5 - length bs) False)"
        by (simp add: pad_end_def)
      moreover have "5 - length bs < 5" using False by (cases bs) auto
      ultimately show ?thesis by blast
    qed
  qed
qed

lemma byte_bits_length [simp]: "length (byte_bits w) = 8"
  by (simp add: byte_bits_def)

lemma byte_round: "parse_byte (byte_bits w) = w"
proof -
  have "parse_byte (byte_bits w) = take_bit 8 w"
    unfolding parse_byte_def byte_bits_def
    by (simp only: rev_map rev_rev_ident horner_sum_bit_eq_take_bit)
  also have "\<dots> = w"
    by (rule take_bit_word_eq_self) simp
  finally show ?thesis .
qed

lemma decode_bytes_concat:
  "length zs < 8 \<Longrightarrow> decode_bytes (concat (map byte_bits ws) @ zs) = ws"
  by (induction ws) (subst decode_bytes.simps, simp add: byte_round)+

lemma encode_bits_alphabet: "set (encode_bits bs) \<subseteq> set base32_alphabet"
proof (induction bs rule: encode_bits.induct)
  case (1 bs)
  show ?case
  proof (cases "bs = []")
    case False
    have "parse_index (pad_end 5 (take 5 bs)) < 32"
      using index_round by (simp add: pad_end_def)
    then have "base32_alphabet ! parse_index (pad_end 5 (take 5 bs)) \<in> set base32_alphabet"
      by simp
    with 1 False show ?thesis by (subst encode_bits.simps) auto
  qed (subst encode_bits.simps, simp)
qed

lemma encode_bits_clean:
  "to_upper (encode_bits bs @ replicate n CHR ''='') = encode_bits bs @ replicate n CHR ''=''"
  "strip_padding (encode_bits bs @ replicate n CHR ''='') = encode_bits bs"
proof -
  have a: "upper_char c = c \<and> c \<noteq> CHR ''=''" if "c \<in> set (encode_bits bs)" for c
    using that encode_bits_alphabet alphabet_upper by (auto simp: list_all_iff)
  have "upper_char CHR ''='' = CHR ''=''"
    by code_simp
  with a show "to_upper (encode_bits bs @ replicate n CHR ''='') = encode_bits bs @ replicate n CHR ''=''"
    by (simp add: to_upper_def map_idI)
  have "dropWhile (\<lambda>c. c = CHR ''='') (replicate n CHR ''='' @ rev (encode_bits bs)) = rev (encode_bits bs)"
    using a by (induction n; cases "encode_bits bs" rule: rev_cases) auto
  then show "strip_padding (encode_bits bs @ replicate n CHR ''='') = encode_bits bs"
    by (simp add: strip_padding_def)
qed

text \<open>
  C9. The base32 codec loses nothing: decoding an encoded secret, padded or not, gives back
  exactly its bytes.
\<close>

theorem base32_roundtrip: "base32_decode (base32_encode bytes padding) = Inr bytes"
proof -
  let ?bits = "concat (map byte_bits bytes)"
  obtain n where n: "base32_encode bytes padding = encode_bits ?bits @ replicate n CHR ''=''"
    by (cases padding) (auto simp: base32_encode_def Let_def intro: that [of 0])
  obtain k where "k < 5" "decode_bits (encode_bits ?bits) = Inr (?bits @ replicate k False)"
    using decode_encode_bits by blast
  then show ?thesis
    unfolding base32_decode_def n encode_bits_clean
    by (simp add: decode_bytes_concat)
qed

section \<open>The encrypted envelope\<close>

definition derive_key :: "env \<Rightarrow> string \<Rightarrow> string" where
  "derive_key E secret = sha256 E secret"

definition encrypt_secret :: "env \<Rightarrow> string \<Rightarrow> string \<Rightarrow> string" where
  "encrypt_secret E plaintext encryption_key =
     (let key = derive_key E encryption_key;
          iv = draw E IvDraw 0;
          (auth_tag, encrypted) = aes_seal E key iv plaintext
      in base64 E iv @ '':'' @ base64 E auth_tag @ '':'' @ base64 E encrypted)"

definition decrypt_secret :: "env \<Rightarrow> string \<Rightarrow> string \<Rightarrow> string reply" where
  "decrypt_secret E stored encryption_key =
     (case split_on CHR '':'' stored of
        iv # auth_tag # data # _ \<Rightarrow>
          (case aes_open E (derive_key E encryption_key) (unbase64 E iv) (unbase64 E auth_tag)
                  (unbase64 E data) of
             None \<Rightarrow> throw (ServerError ''Unsupported state or unable to authenticate data'')
           | Some plain \<Rightarrow> ok plain)
      | _ \<Rightarrow> throw (ServerError ''The first argument must be of type string''))"

definition encrypt_totp_secret :: "env \<Rightarrow> string \<Rightarrow> string" where
  "encrypt_totp_secret E plaintext = encrypt_secret E plaintext (totp_key E)"

definition decrypt_totp_secret :: "env \<Rightarrow> string \<Rightarrow> string reply" where
  "decrypt_totp_secret E stored = decrypt_secret E stored (totp_key E)"

definition encrypt_mail_token :: "env \<Rightarrow> string \<Rightarrow> string" where
  "encrypt_mail_token E plaintext = encrypt_secret E plaintext (mail_token_key E)"

definition decrypt_mail_token :: "env \<Rightarrow> string \<Rightarrow> string reply" where
  "decrypt_mail_token E stored = decrypt_secret E stored (mail_token_key E)"

text \<open>
  A sealed secret opens again, in any later request with the same key.  The assumptions are
  the documented behaviour of the two primitives: base64 decodes what it encoded and uses no
  colon, and AES-GCM opens what it sealed under the same key and iv.
\<close>

theorem secret_envelope_roundtrip:
  assumes "\<And>x. unbase64 E' (base64 E x) = x" and "\<And>x. CHR '':'' \<notin> set (base64 E x)"
    and "\<And>k iv x. aes_open E' k iv (fst (aes_seal E k iv x)) (snd (aes_seal E k iv x)) = Some x"
    and "sha256 E' = sha256 E"
  shows "decrypt_secret E' (encrypt_secret E plain key) key = Inr plain"
proof -
  obtain t c where s: "aes_seal E (derive_key E key) (draw E IvDraw 0) plain = (t, c)"
    by fastforce
  have "split_on CHR '':'' (encrypt_secret E plain key) =
          [base64 E (draw E IvDraw 0), base64 E t, base64 E c]"
    using assms(2) s by (simp add: encrypt_secret_def Let_def)
  then show ?thesis
    using assms(1,4) assms(3) [of "derive_key E key" "draw E IvDraw 0" plain] s
    by (simp add: decrypt_secret_def derive_key_def)
qed

text \<open>A colon-free encoding, to evaluate the envelope with.\<close>

fun hide_colon :: "string \<Rightarrow> string" where
  "hide_colon [] = []"
| "hide_colon (c # cs) =
     (if c = CHR '':'' then ''zc'' else if c = CHR ''z'' then ''zz'' else [c]) @ hide_colon cs"

fun show_colon :: "string \<Rightarrow> string" where
  "show_colon [] = []"
| "show_colon [c] = [c]"
| "show_colon (c # d # ds) =
     (if c = CHR ''z'' then (if d = CHR ''c'' then CHR '':'' else CHR ''z'') # show_colon ds
      else c # show_colon (d # ds))"

lemma show_hide_colon: "show_colon (hide_colon x) = x"
proof (induction x)
  case (Cons a x)
  then show ?case by (cases "hide_colon x") auto
qed simp

lemma hide_colon_clean: "CHR '':'' \<notin> set (hide_colon x)"
  by (induction x) auto

theorem secret_envelope_roundtrip_witness:
  "let E = (demo_env 2)\<lparr>base64 := hide_colon, unbase64 := show_colon\<rparr>
   in decrypt_secret E (encrypt_secret E ''JBSW:Y'' ''k'') ''k'' = Inr ''JBSW:Y''"
  unfolding Let_def
  by (rule secret_envelope_roundtrip)
    (simp_all add: show_hide_colon hide_colon_clean demo_env_def)

end
