(* ===== verification/TwoFactor.thy ===== *)
theory TwoFactor
  imports Identity Codecs
begin

text \<open>
  The second factor: \<^verbatim>\<open>auth/two-factor.util.ts\<close>, \<^verbatim>\<open>auth/totp.service.ts\<close> (authenticator app,
  backup codes and the challenge of a two-step login) and \<^verbatim>\<open>auth/sms-2fa.service.ts\<close>.
\<close>

datatype two_factor_method = TOTP | SMS

definition enabled_two_factor_methods :: "user \<Rightarrow> two_factor_method list" where
  "enabled_two_factor_methods u =
     (if u_totp_enabled_at u \<noteq> None then [TOTP] else []) @
     (if u_sms_enabled_at u \<noteq> None then [SMS] else [])"

section \<open>Authenticator app\<close>

definition challenge_ttl :: time where
  "challenge_ttl = minutes 5"

definition backup_code_count :: nat where
  "backup_code_count = 8"

definition hash_backup_code :: "env \<Rightarrow> string \<Rightarrow> string" where
  "hash_backup_code E code = sha256 E (to_upper code)"

definition hash_challenge_token :: "env \<Rightarrow> string \<Rightarrow> string" where
  "hash_challenge_token E t = sha256 E t"

text \<open>The otpauth URI is otplib's; the reply carries what it is made of.\<close>

definition begin_totp_setup :: "env \<Rightarrow> id \<Rightarrow> (db, string \<times> string) handler" where
  "begin_totp_setup E uid s =
     (case find_by_id uid s of
        Inl e \<Rightarrow> (throw e, s)
      | Inr u \<Rightarrow>
          if u_totp_enabled_at u \<noteq> None
          then (throw (BadRequest ''Two-factor authentication is already enabled.''), s)
          else
            let secret = draw E TotpSecretDraw 0
            in (ok (secret, u_email u),
                update_user uid (\<lambda>u. u\<lparr>u_totp_secret := Some (encrypt_totp_secret E secret)\<rparr>) s))"

definition verify_totp_code :: "env \<Rightarrow> string \<Rightarrow> string \<Rightarrow> bool reply" where
  "verify_totp_code E encrypted code =
     map_sum id (\<lambda>secret. totp_check E secret code) (decrypt_totp_secret E encrypted)"

definition new_backup_codes :: "env \<Rightarrow> id \<Rightarrow> backup_code list" where
  "new_backup_codes E uid =
     map (\<lambda>n. \<lparr>bc_id = new_id E T_BackupCode n, bc_user = uid,
                bc_hash = hash_backup_code E (draw E BackupCodeDraw n), bc_used_at = None\<rparr>)
       [0..<backup_code_count]"

definition confirm_totp_setup :: "env \<Rightarrow> id \<Rightarrow> string \<Rightarrow> (db, string list) handler" where
  "confirm_totp_setup E uid code s =
     (case find_by_id uid s of
        Inl e \<Rightarrow> (throw e, s)
      | Inr u \<Rightarrow>
          if u_totp_enabled_at u \<noteq> None
          then (throw (BadRequest ''Two-factor authentication is already enabled.''), s)
          else if \<not> truthy (u_totp_secret u)
          then (throw (BadRequest ''Start setup before confirming it.''), s)
          else case verify_totp_code E (the (u_totp_secret u)) code of
            Inl e \<Rightarrow> (throw e, s)
          | Inr valid \<Rightarrow>
              if \<not> valid
              then (throw (Unauthorized ''Incorrect code - check your authenticator app and try again.''), s)
              else
                let rows = backup_codes s @ new_backup_codes E uid
                in if \<not> unique_on bc_hash rows then (throw unique_violation, s)
                   else (ok (map (draw E BackupCodeDraw) [0..<backup_code_count]),
                         record_event E uid TOTP_ENABLED no_meta
                           (update_user uid (\<lambda>u. u\<lparr>u_totp_enabled_at := Some (now E)\<rparr>) s)
                           \<lparr>backup_codes := rows\<rparr>))"

datatype matched_factor = MatchedTotp | MatchedBackup | MatchedSms

definition backup_code_usable :: "env \<Rightarrow> id \<Rightarrow> string \<Rightarrow> backup_code \<Rightarrow> bool" where
  "backup_code_usable E uid code c =
     (bc_user c = uid \<and> bc_hash c = hash_backup_code E code \<and> bc_used_at c = None)"

definition verify_code_or_backup_code ::
  "env \<Rightarrow> id \<Rightarrow> string \<Rightarrow> string \<Rightarrow> (db, matched_factor option) handler" where
  "verify_code_or_backup_code E uid encrypted code s =
     (case verify_totp_code E encrypted code of
        Inl e \<Rightarrow> (throw e, s)
      | Inr True \<Rightarrow> (ok (Some MatchedTotp), s)
      | Inr False \<Rightarrow>
          (ok (if 0 < count_rows (backup_code_usable E uid code) (backup_codes s)
               then Some MatchedBackup else None),
           s\<lparr>backup_codes := update_rows (backup_code_usable E uid code)
               (\<lambda>c. c\<lparr>bc_used_at := Some (now E)\<rparr>) (backup_codes s)\<rparr>))"

definition password_matches :: "env \<Rightarrow> user \<Rightarrow> string \<Rightarrow> bool" where
  "password_matches E u pw = (truthy (u_password_hash u) \<and> bcrypt_compare E pw (the (u_password_hash u)))"

definition disable_totp :: "env \<Rightarrow> id \<Rightarrow> string \<Rightarrow> string \<Rightarrow> (db, unit) handler" where
  "disable_totp E uid pw code s =
     (case find_by_id uid s of
        Inl e \<Rightarrow> (throw e, s)
      | Inr u \<Rightarrow>
          if u_totp_enabled_at u = None \<or> \<not> truthy (u_totp_secret u)
          then (throw (BadRequest ''Two-factor authentication is not enabled.''), s)
          else if \<not> password_matches E u pw
          then (throw (Unauthorized ''Current password is incorrect.''), s)
          else and_then (verify_code_or_backup_code E uid (the (u_totp_secret u)) code) (\<lambda>m s1.
            if m = None then (throw (Unauthorized ''Incorrect code.''), s1)
            else (ok (),
                  record_event E uid TOTP_DISABLED no_meta
                    ((update_user uid (\<lambda>u. u\<lparr>u_totp_secret := None, u_totp_enabled_at := None\<rparr>) s1)
                     \<lparr>backup_codes := delete_rows (\<lambda>c. bc_user c = uid) (backup_codes s1)\<rparr>))) s)"

section \<open>The challenge of a two-step login\<close>

definition issue_challenge :: "env \<Rightarrow> id \<Rightarrow> (db, string) handler" where
  "issue_challenge E uid s =
     (let t = draw E ChallengeTokenDraw 0; h = hash_challenge_token E t
      in if find_user uid s = None then (throw record_missing, s)
         else if taken_by_other u_challenge h uid s then (throw unique_violation, s)
         else (ok t,
               update_user uid (\<lambda>u. u\<lparr>u_challenge := Some h,
                 u_challenge_expires := Some (now E + challenge_ttl)\<rparr>) s))"

definition find_by_challenge :: "string \<Rightarrow> db \<Rightarrow> user option" where
  "find_by_challenge h s = find_row (\<lambda>u. u_challenge u = Some h) (users s)"

definition expired_at :: "env \<Rightarrow> time option \<Rightarrow> bool" where
  "expired_at E t = (case t of None \<Rightarrow> True | Some x \<Rightarrow> x < now E)"

definition challenge_user :: "env \<Rightarrow> string \<Rightarrow> db \<Rightarrow> user reply" where
  "challenge_user E h s =
     (case find_by_challenge h s of
        None \<Rightarrow> throw (Unauthorized ''This login attempt has expired - sign in again.'')
      | Some u \<Rightarrow>
          if expired_at E (u_challenge_expires u)
          then throw (Unauthorized ''This login attempt has expired - sign in again.'') else ok u)"

definition resolve_user_id_for_challenge :: "env \<Rightarrow> string \<Rightarrow> db \<Rightarrow> id reply" where
  "resolve_user_id_for_challenge E token s =
     map_sum id u_id (challenge_user E (hash_challenge_token E token) s)"

definition check_challenge_code :: "env \<Rightarrow> string \<Rightarrow> string \<Rightarrow> bool" where
  "check_challenge_code E ph code = sms_check E ph code"

text \<open>Which factor the code matches: the app or a backup code first, then SMS.\<close>

definition match_factor :: "env \<Rightarrow> user \<Rightarrow> string \<Rightarrow> (db, matched_factor option) handler" where
  "match_factor E u code s =
     and_then
       (\<lambda>s. if u_totp_enabled_at u \<noteq> None \<and> truthy (u_totp_secret u)
             then verify_code_or_backup_code E (u_id u) (the (u_totp_secret u)) code s
             else (ok None, s))
       (\<lambda>m s1.
          if m = None \<and> u_sms_enabled_at u \<noteq> None \<and> truthy (u_sms_phone u) \<and>
             check_challenge_code E (the (u_sms_phone u)) code
          then (ok (Some MatchedSms), s1) else (ok m, s1)) s"

definition verify_challenge ::
  "env \<Rightarrow> string \<Rightarrow> string \<Rightarrow> session_meta \<Rightarrow> (db, issued_session) handler" where
  "verify_challenge E token code meta s =
     (let h = hash_challenge_token E token
      in case challenge_user E h s of
           Inl e \<Rightarrow> (throw e, s)
         | Inr u \<Rightarrow>
             and_then (match_factor E u code) (\<lambda>m s1.
               if m = None then (throw (Unauthorized ''Incorrect code.''), s1)
               else if count_rows (\<lambda>v. u_id v = u_id u \<and> u_challenge v = Some h) (users s1) = 0
               then (throw (Conflict ''This login attempt was already completed.''), s1)
               else
                 let s2 = s1\<lparr>users := update_rows (\<lambda>v. u_id v = u_id u \<and> u_challenge v = Some h)
                        (\<lambda>v. v\<lparr>u_challenge := None, u_challenge_expires := None\<rparr>) (users s1)\<rparr>;
                     s3 = (if m = Some MatchedBackup
                           then record_event E (u_id u) RECOVERY_CODE_USED meta s2 else s2);
                     fresh_device = is_new_device (u_id u) meta s3
                 in and_then (issue_session E (u_id u) (u_ndy_id u) meta) (\<lambda>tok s4.
                      (ok tok, record_login E (u_id u) meta fresh_device s4)) s3) s)"

section \<open>SMS\<close>

definition begin_sms_setup :: "env \<Rightarrow> id \<Rightarrow> string \<Rightarrow> (db, unit) handler" where
  "begin_sms_setup E uid ph s =
     (case find_by_id uid s of
        Inl e \<Rightarrow> (throw e, s)
      | Inr u \<Rightarrow>
          if u_sms_enabled_at u \<noteq> None
          then (throw (BadRequest ''SMS two-factor authentication is already enabled.''), s)
          else if (case find_row (\<lambda>v. u_sms_phone v = Some ph) (users s) of
                     None \<Rightarrow> False | Some v \<Rightarrow> u_id v \<noteq> uid)
          then (throw (Conflict ''This phone number is already used for SMS verification on another account.''), s)
          else if \<not> sms_start E ph
          then (throw (BadRequest ''Could not send a verification code to that number - check it and try again.''), s)
          else (ok (), s))"

definition phone_level :: "verification_level \<Rightarrow> verification_level" where
  "phone_level l = (if l = LEVEL_0 \<or> l = LEVEL_1 then LEVEL_2 else l)"

text \<open>\<^verbatim>\<open>confirmSetup\<close>; the trust recomputation is not awaited, so its failure is not reported.\<close>

definition confirm_sms_setup :: "env \<Rightarrow> id \<Rightarrow> string \<Rightarrow> string \<Rightarrow> (db, unit) handler" where
  "confirm_sms_setup E uid ph code s =
     (case find_by_id uid s of
        Inl e \<Rightarrow> (throw e, s)
      | Inr u \<Rightarrow>
          if u_sms_enabled_at u \<noteq> None
          then (throw (BadRequest ''SMS two-factor authentication is already enabled.''), s)
          else if \<not> sms_check E ph code
          then (throw (Unauthorized ''Incorrect code - check your messages and try again.''), s)
          else if taken_by_other u_sms_phone ph uid s then (throw unique_violation, s)
          else (ok (),
                snd (recompute_trust E uid
                  (record_event E uid SMS_2FA_ENABLED no_meta
                    (update_user uid
                      (\<lambda>v. v\<lparr>u_sms_phone := Some ph, u_sms_enabled_at := Some (now E),
                             u_phone_verified_at := Some (or_else (u_phone_verified_at u) (now E)),
                             u_level := phone_level (u_level u)\<rparr>) s)))))"

definition disable_sms :: "env \<Rightarrow> id \<Rightarrow> string \<Rightarrow> (db, unit) handler" where
  "disable_sms E uid pw s =
     (case find_by_id uid s of
        Inl e \<Rightarrow> (throw e, s)
      | Inr u \<Rightarrow>
          if u_sms_enabled_at u = None
          then (throw (BadRequest ''SMS two-factor authentication is not enabled.''), s)
          else if \<not> password_matches E u pw
          then (throw (Unauthorized ''Current password is incorrect.''), s)
          else (ok (),
                record_event E uid SMS_2FA_DISABLED no_meta
                  (update_user uid (\<lambda>v. v\<lparr>u_sms_phone := None, u_sms_enabled_at := None\<rparr>) s)))"

definition send_challenge_code :: "env \<Rightarrow> id \<Rightarrow> db \<Rightarrow> unit reply" where
  "send_challenge_code E uid s =
     (case find_by_id uid s of
        Inl e \<Rightarrow> throw e
      | Inr u \<Rightarrow>
          if u_sms_enabled_at u = None \<or> \<not> truthy (u_sms_phone u)
          then throw (BadRequest ''SMS two-factor authentication is not enabled on this account.'')
          else (let sent = sms_start E (the (u_sms_phone u)) in ok ()))"

section \<open>What a completed challenge proves\<close>

text \<open>The code is right for one of the factors that are switched on.\<close>

definition factor_shown :: "env \<Rightarrow> user \<Rightarrow> string \<Rightarrow> db \<Rightarrow> bool" where
  "factor_shown E u code s =
     ((u_totp_enabled_at u \<noteq> None \<and> truthy (u_totp_secret u) \<and>
       (verify_totp_code E (the (u_totp_secret u)) code = Inr True \<or>
        exists_row (backup_code_usable E (u_id u) code) (backup_codes s))) \<or>
      (u_sms_enabled_at u \<noteq> None \<and> truthy (u_sms_phone u) \<and> sms_check E (the (u_sms_phone u)) code))"

lemma verify_code_frame [simp]:
  "users (snd (verify_code_or_backup_code E uid c code s)) = users s"
  "sessions (snd (verify_code_or_backup_code E uid c code s)) = sessions s"
  by (simp_all add: verify_code_or_backup_code_def split: sum.splits bool.splits)

lemma verify_code_ok:
  assumes "verify_code_or_backup_code E uid c code s = (Inr (Some m), s1)"
  shows "verify_totp_code E c code = Inr True \<or> exists_row (backup_code_usable E uid code) (backup_codes s)"
  using assms count_rows_0_iff [of "backup_code_usable E uid code" "backup_codes s"]
  by (auto simp: verify_code_or_backup_code_def split: sum.splits bool.splits if_splits)

lemma match_factor_frame [simp]:
  "users (snd (match_factor E u code s)) = users s"
  "sessions (snd (match_factor E u code s)) = sessions s"
  unfolding match_factor_def by (rule and_then_frame; simp)+

lemma match_factor_shown:
  "match_factor E u code s = (Inr (Some m), s1) \<Longrightarrow> factor_shown E u code s"
  unfolding match_factor_def factor_shown_def check_challenge_code_def
  by (elim and_then_succeedsD) (auto dest: verify_code_ok split: if_splits option.splits)

text \<open>A backup code that matched is spent: typed again, in any case of letters, it matches nothing.\<close>

lemma backup_code_single_use:
  assumes "verify_code_or_backup_code E uid c code s = (Inr (Some MatchedBackup), s1)"
    and "sha256 E' = sha256 E" and "to_upper code' = to_upper code"
    and "verify_totp_code E' c' code' \<noteq> Inr True"
  shows "fst (verify_code_or_backup_code E' uid c' code' s1) \<noteq> Inr (Some m)"
proof -
  have "backup_codes s1 = update_rows (backup_code_usable E uid code)
          (\<lambda>c. c\<lparr>bc_used_at := Some (now E)\<rparr>) (backup_codes s)"
    using assms(1) by (auto simp: verify_code_or_backup_code_def split: sum.splits bool.splits)
  then have "count_rows (backup_code_usable E' uid code') (backup_codes s1) = 0"
    using assms(2,3) by (simp add: count_rows_0_iff backup_code_usable_def hash_backup_code_def)
  with assms(4) show ?thesis
    by (auto simp: verify_code_or_backup_code_def split: sum.splits bool.splits)
qed

text \<open>A challenge is answered in four steps; each fact below is about one of them.\<close>

definition clear_challenge :: "id \<Rightarrow> string \<Rightarrow> user list \<Rightarrow> user list" where
  "clear_challenge uid h = update_rows (\<lambda>v. u_id v = uid \<and> u_challenge v = Some h)
     (\<lambda>v. v\<lparr>u_challenge := None, u_challenge_expires := None\<rparr>)"

lemma challenge_user_ok:
  "challenge_user E h s = Inr u \<longleftrightarrow>
     find_by_challenge h s = Some u \<and> \<not> expired_at E (u_challenge_expires u)"
  by (auto simp: challenge_user_def split: option.splits)

lemma verify_challenge_cases:
  obtains (refused) e where "verify_challenge E token code m s = (Inl e, snd (verify_challenge E token code m s))"
      "users (snd (verify_challenge E token code m s)) = users s"
      "sessions (snd (verify_challenge E token code m s)) = sessions s"
    | (accepted) u f s1 s3 where "find_by_challenge (hash_challenge_token E token) s = Some u"
      "\<not> expired_at E (u_challenge_expires u)"
      "match_factor E u code s = (Inr (Some f), s1)"
      "users s3 = clear_challenge (u_id u) (hash_challenge_token E token) (users s)"
      "sessions s3 = sessions s"
      "verify_challenge E token code m s =
         and_then (issue_session E (u_id u) (u_ndy_id u) m)
           (\<lambda>tok s4. (ok tok, record_login E (u_id u) m (is_new_device (u_id u) m s3) s4)) s3"
proof (cases "challenge_user E (hash_challenge_token E token) s")
  case (Inl e)
  then show thesis by (intro refused) (simp_all add: verify_challenge_def)
next
  case (Inr u)
  let ?h = "hash_challenge_token E token"
  obtain r s1 where r: "match_factor E u code s = (r, s1)" by fastforce
  then have s1: "users s1 = users s" "sessions s1 = sessions s"
    using match_factor_frame [of E u code s] by simp_all
  consider e where "r = Inl e" | "r = Inr None" | f where "r = Inr (Some f)"
    by (cases r) auto
  then show thesis
  proof cases
    case 1
    with Inr r s1 show ?thesis by (intro refused) (simp_all add: verify_challenge_def)
  next
    case 2
    with Inr r s1 show ?thesis by (intro refused) (simp_all add: verify_challenge_def)
  next
    case (3 f)
    let ?s2 = "s1\<lparr>users := clear_challenge (u_id u) ?h (users s1)\<rparr>"
    let ?s3 = "if f = MatchedBackup then record_event E (u_id u) RECOVERY_CODE_USED m ?s2 else ?s2"
    from Inr have u: "find_by_challenge ?h s = Some u" "\<not> expired_at E (u_challenge_expires u)"
      by (simp_all add: challenge_user_ok)
    then have "u \<in> set (users s)" "u_challenge u = Some ?h"
      unfolding find_by_challenge_def by (auto dest: find_row_Some_D)
    then have "count_rows (\<lambda>v. u_id v = u_id u \<and> u_challenge v = Some ?h) (users s) \<noteq> 0"
      by (auto simp: count_rows_0_iff)
    with Inr r s1 3 have "verify_challenge E token code m s =
         and_then (issue_session E (u_id u) (u_ndy_id u) m)
           (\<lambda>tok s4. (ok tok, record_login E (u_id u) m (is_new_device (u_id u) m ?s3) s4)) ?s3"
      by (simp add: verify_challenge_def clear_challenge_def Let_def)
    with u r 3 s1 show ?thesis
      by (intro accepted [of u f s1 ?s3]) simp_all
  qed
qed

lemma issue_session_sessions:
  "sessions (snd (issue_session E u ndy m s)) =
     sessions s @ (if succeeds (issue_session E u ndy m s)
       then [new_session E u m (fst (resolve_device E u (sm_device_id m) (sm_user_agent m) s))] else [])"
proof -
  obtain dev s1 where r: "resolve_device E u (sm_device_id m) (sm_user_agent m) s = (dev, s1)"
    by fastforce
  then show ?thesis
    using resolve_device_frame(1) [of E u "sm_device_id m" "sm_user_agent m" s]
    by (auto simp: issue_session_def Let_def)
qed

text \<open>
  C8. No session without the second factor.  If answering a challenge adds a session, the token is
  the pending, unexpired challenge of some account, the code is right for a factor that account
  has switched on (its app, one of its unused backup codes, or SMS), exactly one session is added,
  and it belongs to that account; in every other case no session appears.
\<close>

theorem second_factor_required:
  "sessions (snd (verify_challenge E token code m s)) = sessions s \<or>
   (\<exists>u x. find_by_challenge (hash_challenge_token E token) s = Some u \<and>
      \<not> expired_at E (u_challenge_expires u) \<and> factor_shown E u code s \<and>
      sessions (snd (verify_challenge E token code m s)) = sessions s @ [x] \<and> s_user x = u_id u)"
proof (cases rule: verify_challenge_cases [of E token code m s])
  case (accepted u f s1 s3)
  let ?i = "issue_session E (u_id u) (u_ndy_id u) m s3"
  have "sessions (snd (verify_challenge E token code m s)) = sessions (snd ?i)"
    using accepted(6) by (auto simp: and_then_def split: prod.splits sum.splits)
  then show ?thesis
    using accepted match_factor_shown [OF accepted(3)]
    by (auto simp: issue_session_sessions new_session_def)
qed simp

end
