(* ===== verification/Auth.thy ===== *)
theory Auth
  imports TwoFactor
begin

text \<open>
  \<^verbatim>\<open>auth/auth.service.ts\<close>, without the QR/deep-link part: registration, login, profile, password
  change and reset, e-mail verification.  What the controller adds (the cookie-or-body refresh
  token of \<^verbatim>\<open>auth/auth.controller.ts\<close>) is here too.  At the end, the promise of every typed-in or
  linked code of the module: it is redeemed at most once per issue.
\<close>

definition dev_shortcut_email :: string where
  "dev_shortcut_email = ''dev-test@ndyhub.local''"

definition email_verification_ttl_seconds :: int where
  "email_verification_ttl_seconds = 4 * 60 + 59"

definition password_reset_ttl_seconds :: int where
  "password_reset_ttl_seconds = 4 * 60 + 59"

datatype auth_reply =
    SessionIssued issued_session
  | Requires2fa string "two_factor_method list"
  | VerificationSent string int
  | RequiresEmailVerification string

definition incorrect_credentials :: http_error where
  "incorrect_credentials = Unauthorized ''Incorrect email or password.''"

section \<open>E-mailed codes\<close>

definition send_verification_email :: "string \<Rightarrow> string \<Rightarrow> db \<Rightarrow> db" where
  "send_verification_email email code s =
     s\<lparr>mail_outbox := mail_outbox s @ [VerificationMail email code]\<rparr>"

definition issue_and_send_verification_email :: "env \<Rightarrow> id \<Rightarrow> string \<Rightarrow> (db, unit) handler" where
  "issue_and_send_verification_email E uid email s =
     (let code = draw E EmailCodeDraw 0; h = sha256 E code
      in if find_user uid s = None then (throw record_missing, s)
         else if taken_by_other u_email_token h uid s then (throw unique_violation, s)
         else (ok (),
               send_verification_email email code
                 (update_user uid (\<lambda>u. u\<lparr>u_email_token := Some h,
                    u_email_token_expires := Some (now E + seconds email_verification_ttl_seconds)\<rparr>) s)))"

definition issue_and_send_password_reset_code :: "env \<Rightarrow> id \<Rightarrow> string \<Rightarrow> (db, unit) handler" where
  "issue_and_send_password_reset_code E uid email s =
     (let code = draw E ResetCodeDraw 0; h = sha256 E code
      in if find_user uid s = None then (throw record_missing, s)
         else if taken_by_other u_reset_token h uid s then (throw unique_violation, s)
         else (ok (),
               (update_user uid (\<lambda>u. u\<lparr>u_reset_token := Some h,
                  u_reset_expires := Some (now E + seconds password_reset_ttl_seconds)\<rparr>) s)
               \<lparr>mail_outbox := mail_outbox s @ [PasswordResetMail email code]\<rparr>))"

section \<open>Registration and login\<close>

definition register ::
  "env \<Rightarrow> string \<Rightarrow> string \<Rightarrow> profile_fields \<Rightarrow> session_meta \<Rightarrow> (db, auth_reply) handler" where
  "register E email pw f meta =
     and_then (create_user E email (Some (bcrypt_hash E pw)) f) (\<lambda>u s1.
       if email = dev_shortcut_email
       then and_then (issue_session E (u_id u) (u_ndy_id u) meta)
              (\<lambda>tok s3. (ok (SessionIssued tok), record_login E (u_id u) meta False s3))
              (update_user (u_id u) (\<lambda>v. v\<lparr>u_email_verified_at := Some (now E)\<rparr>) s1)
       else and_then (issue_and_send_verification_email E (u_id u) (u_email u))
              (\<lambda>_ s2. (ok (VerificationSent (u_email u) email_verification_ttl_seconds), s2)) s1)"

text \<open>The first checks of a sign-in with a password, shared by \<^verbatim>\<open>login\<close> and the password grant.\<close>

definition check_password :: "env \<Rightarrow> string \<Rightarrow> string \<Rightarrow> db \<Rightarrow> user reply \<times> id option" where
  "check_password E email pw s =
     (case find_by_email email s of
        None \<Rightarrow> (throw incorrect_credentials, None)
      | Some u \<Rightarrow>
          if \<not> truthy (u_password_hash u) then (throw incorrect_credentials, None)
          else if \<not> bcrypt_compare E pw (the (u_password_hash u))
          then (throw incorrect_credentials, Some (u_id u))
          else if u_suspended u then (throw (Unauthorized ''This account has been suspended.''), None)
          else (ok u, None))"

text \<open>
  \<^verbatim>\<open>login\<close>.  The SMS of a challenge with SMS alone is sent without waiting for it; its failure is
  not reported and it writes nothing.
\<close>

definition login :: "env \<Rightarrow> string \<Rightarrow> string \<Rightarrow> session_meta \<Rightarrow> (db, auth_reply) handler" where
  "login E email pw meta s =
     (case check_password E email pw s of
        (Inl e, Some failed) \<Rightarrow> (throw e, record_event E failed LOGIN_FAILED meta s)
      | (Inl e, None) \<Rightarrow> (throw e, s)
      | (Inr u, _) \<Rightarrow>
          if u_email_verified_at u = None then (ok (RequiresEmailVerification (u_email u)), s)
          else if enabled_two_factor_methods u \<noteq> []
          then and_then (issue_challenge E (u_id u))
                 (\<lambda>t s1. (ok (Requires2fa t (enabled_two_factor_methods u)), s1)) s
          else
            let fresh_device = is_new_device (u_id u) meta s
            in and_then (issue_session E (u_id u) (u_ndy_id u) meta)
                 (\<lambda>tok s1. (ok (SessionIssued tok), record_login E (u_id u) meta fresh_device s1)) s)"

definition validate_credentials_for_password_grant ::
  "env \<Rightarrow> string \<Rightarrow> string \<Rightarrow> db \<Rightarrow> (id \<times> string) reply" where
  "validate_credentials_for_password_grant E email pw s =
     (case fst (check_password E email pw s) of
        Inl e \<Rightarrow> throw e
      | Inr u \<Rightarrow>
          if u_email_verified_at u = None
          then throw (Unauthorized ''Please verify your email before signing in.'')
          else if enabled_two_factor_methods u \<noteq> []
          then throw (Unauthorized ''This account has two-factor authentication enabled - sign in at ndyhub.com to use it.'')
          else ok (u_id u, u_ndy_id u))"

text \<open>The refresh and logout routes: the cookie wins over the body.\<close>

definition presented_refresh :: "string option \<Rightarrow> string option \<Rightarrow> string option" where
  "presented_refresh cookie body = (case cookie of Some c \<Rightarrow> Some c | None \<Rightarrow> body)"

definition refresh ::
  "env \<Rightarrow> string option \<Rightarrow> string option \<Rightarrow> session_meta \<Rightarrow> (db, issued_session) handler" where
  "refresh E cookie body meta s =
     (let t = presented_refresh cookie body
      in if \<not> truthy t then (throw (BadRequest ''Missing refresh token.''), s)
         else rotate_session E (the t) meta s)"

definition logout :: "env \<Rightarrow> string option \<Rightarrow> string option \<Rightarrow> db \<Rightarrow> db" where
  "logout E cookie body s =
     (let t = presented_refresh cookie body
      in if truthy t then revoke_session E (the t) s else s)"

section \<open>The signed-in user's own view\<close>

definition is_passport_complete :: "passport \<Rightarrow> bool" where
  "is_passport_complete p =
     (truthy (full_name p) \<and> truthy (country p) \<and> truthy (photo_url p))"

text \<open>The four bullets between the shown digits are written as asterisks.\<close>

definition mask_phone :: "string option \<Rightarrow> string option" where
  "mask_phone ph =
     (if truthy ph
      then Some (take 3 (the ph) @ ''****'' @ drop (length (the ph) - 2) (the ph)) else None)"

record me_view =
  mv_id :: id
  mv_ndy_id :: string
  mv_email :: string
  mv_passport :: passport
  mv_level :: verification_level
  mv_ndyapps :: bool
  mv_two_factor :: bool
  mv_sms_two_factor :: bool
  mv_sms_phone :: "string option"
  mv_role :: role
  mv_created_at :: time
  mv_complete :: bool
  mv_verified :: bool

definition me_view_of :: "user \<Rightarrow> me_view" where
  "me_view_of u =
     \<lparr>mv_id = u_id u, mv_ndy_id = u_ndy_id u, mv_email = u_email u, mv_passport = u_passport u,
      mv_level = u_level u, mv_ndyapps = u_ndyapps_connected u,
      mv_two_factor = (u_totp_enabled_at u \<noteq> None), mv_sms_two_factor = (u_sms_enabled_at u \<noteq> None),
      mv_sms_phone = mask_phone (u_sms_phone u), mv_role = u_role u, mv_created_at = u_created_at u,
      mv_complete = is_passport_complete (u_passport u), mv_verified = is_passport_verified u\<rparr>"

definition get_me :: "id \<Rightarrow> db \<Rightarrow> me_view reply" where
  "get_me uid s = map_sum id me_view_of (find_by_id uid s)"

text \<open>\<^verbatim>\<open>updateProfile\<close> answers the passport part of the view.\<close>

definition update_own_profile ::
  "id \<Rightarrow> profile_fields \<Rightarrow> (db, string \<times> string \<times> passport \<times> bool \<times> bool) handler" where
  "update_own_profile uid f =
     and_then (update_profile uid f) (\<lambda>u s1.
       (ok (u_ndy_id u, u_email u, u_passport u, is_passport_complete (u_passport u),
            is_passport_verified u), s1))"

text \<open>\<^verbatim>\<open>url\<close> is where the photo storage put the uploaded file.\<close>

definition update_profile_photo :: "id \<Rightarrow> string \<Rightarrow> (db, string) handler" where
  "update_profile_photo uid url s =
     (case find_by_id uid s of
        Inl e \<Rightarrow> (throw e, s)
      | Inr u \<Rightarrow>
          (ok url,
           update_user uid (\<lambda>v. v\<lparr>u_passport := (u_passport v)\<lparr>photo_url := Some url\<rparr>\<rparr>) s))"

section \<open>Passwords\<close>

definition change_password :: "env \<Rightarrow> id \<Rightarrow> string \<Rightarrow> string \<Rightarrow> (db, unit) handler" where
  "change_password E uid current new s =
     (case find_by_id uid s of
        Inl e \<Rightarrow> (throw e, s)
      | Inr u \<Rightarrow>
          if \<not> truthy (u_password_hash u)
          then (throw (BadRequest ''This account has no password set - it was created through NDYAPPS/Google/Apple.''), s)
          else if \<not> bcrypt_compare E current (the (u_password_hash u))
          then (throw (Unauthorized ''Current password is incorrect.''), s)
          else (ok (),
                record_event E uid PASSWORD_CHANGED no_meta
                  (update_user uid (\<lambda>v. v\<lparr>u_password_hash := Some (bcrypt_hash E new)\<rparr>) s)))"

definition forgot_password :: "env \<Rightarrow> string \<Rightarrow> (db, int) handler" where
  "forgot_password E email s =
     (case find_by_email email s of
        None \<Rightarrow> (ok password_reset_ttl_seconds, s)
      | Some u \<Rightarrow>
          if truthy (u_password_hash u) \<and> u_deleted_at u = None
          then and_then (issue_and_send_password_reset_code E (u_id u) (u_email u))
                 (\<lambda>_ s1. (ok password_reset_ttl_seconds, s1)) s
          else (ok password_reset_ttl_seconds, s))"

definition resend_password_reset_code :: "env \<Rightarrow> string \<Rightarrow> (db, int) handler" where
  "resend_password_reset_code E email = forgot_password E email"

definition reset_password :: "env \<Rightarrow> string \<Rightarrow> string \<Rightarrow> string \<Rightarrow> (db, unit) handler" where
  "reset_password E email code new s =
     (let h = sha256 E code
      in case find_by_email email s of
           None \<Rightarrow> (throw (BadRequest ''This code is invalid or has expired.''), s)
         | Some u \<Rightarrow>
             if u_reset_token u \<noteq> Some h \<or> expired_at E (u_reset_expires u)
             then (throw (BadRequest ''This code is invalid or has expired.''), s)
             else if count_rows (\<lambda>v. u_id v = u_id u \<and> u_reset_token v = Some h) (users s) = 0
             then (throw (Conflict ''This code was already used.''), s)
             else (ok (),
                   record_event E (u_id u) PASSWORD_CHANGED no_meta
                     (revoke_user_sessions E (u_id u)
                       (s\<lparr>users := update_rows (\<lambda>v. u_id v = u_id u \<and> u_reset_token v = Some h)
                          (\<lambda>v. v\<lparr>u_password_hash := Some (bcrypt_hash E new), u_reset_token := None,
                                 u_reset_expires := None\<rparr>) (users s)\<rparr>))))"

section \<open>E-mail verification\<close>

definition request_email_verification :: "env \<Rightarrow> id \<Rightarrow> (db, unit) handler" where
  "request_email_verification E uid s =
     (case find_by_id uid s of
        Inl e \<Rightarrow> (throw e, s)
      | Inr u \<Rightarrow>
          if u_email_verified_at u \<noteq> None
          then (throw (BadRequest ''This email address is already verified.''), s)
          else issue_and_send_verification_email E (u_id u) (u_email u) s)"

definition request_email_verification_by_email :: "env \<Rightarrow> string \<Rightarrow> (db, int) handler" where
  "request_email_verification_by_email E email s =
     (case find_by_email email s of
        None \<Rightarrow> (ok email_verification_ttl_seconds, s)
      | Some u \<Rightarrow>
          if u_email_verified_at u = None \<and> u_deleted_at u = None
          then and_then (issue_and_send_verification_email E (u_id u) (u_email u))
                 (\<lambda>_ s1. (ok email_verification_ttl_seconds, s1)) s
          else (ok email_verification_ttl_seconds, s))"

text \<open>\<^verbatim>\<open>verificationLevel: LEVEL_0 ? LEVEL_1 : undefined\<close>, read from the row found first.\<close>

definition confirmed_level :: "user \<Rightarrow> user \<Rightarrow> verification_level" where
  "confirmed_level found row = (if u_level found = LEVEL_0 then LEVEL_1 else u_level row)"

definition confirm_email_verification ::
  "env \<Rightarrow> string \<Rightarrow> string \<Rightarrow> session_meta \<Rightarrow> (db, issued_session) handler" where
  "confirm_email_verification E email code meta s =
     (let h = sha256 E code
      in case find_by_email email s of
           None \<Rightarrow> (throw (BadRequest ''This code is invalid or has expired.''), s)
         | Some u \<Rightarrow>
             if u_email_token u \<noteq> Some h \<or> expired_at E (u_email_token_expires u)
             then (throw (BadRequest ''This code is invalid or has expired.''), s)
             else if count_rows (\<lambda>v. u_id v = u_id u \<and> u_email_token v = Some h) (users s) = 0
             then (throw (Conflict ''This code was already used.''), s)
             else
               and_then (issue_session E (u_id u) (u_ndy_id u) meta)
                 (\<lambda>tok s2. (ok tok, record_login E (u_id u) meta False s2))
                 (s\<lparr>users := update_rows (\<lambda>v. u_id v = u_id u \<and> u_email_token v = Some h)
                    (\<lambda>v. v\<lparr>u_email_verified_at := Some (now E), u_email_token := None,
                           u_email_token_expires := None, u_level := confirmed_level u v\<rparr>)
                    (users s)\<rparr>))"

section \<open>The module as a system\<close>

datatype auth_op =
    Register string string profile_fields session_meta
  | Login string string session_meta
  | UpdateOwnProfile id profile_fields
  | ChangePassword id string string
  | ForgotPassword string
  | ResetPassword string string string
  | ResendVerification id
  | ResendVerificationByEmail string
  | ConfirmEmail string string session_meta
  | BeginTotp id
  | ConfirmTotp id string
  | DisableTotp id string string
  | VerifyChallenge string string session_meta
  | BeginSms id string
  | ConfirmSms id string string
  | DisableSms id string

fun auth_step :: "env \<times> auth_op \<Rightarrow> db \<Rightarrow> bool \<times> db" where
  "auth_step (E, Register e p f m) s = answered (register E e p f m s)"
| "auth_step (E, Login e p m) s = answered (login E e p m s)"
| "auth_step (E, UpdateOwnProfile u f) s = answered (update_own_profile u f s)"
| "auth_step (E, ChangePassword u c n) s = answered (change_password E u c n s)"
| "auth_step (E, ForgotPassword e) s = answered (forgot_password E e s)"
| "auth_step (E, ResetPassword e c n) s = answered (reset_password E e c n s)"
| "auth_step (E, ResendVerification u) s = answered (request_email_verification E u s)"
| "auth_step (E, ResendVerificationByEmail e) s = answered (request_email_verification_by_email E e s)"
| "auth_step (E, ConfirmEmail e c m) s = answered (confirm_email_verification E e c m s)"
| "auth_step (E, BeginTotp u) s = answered (begin_totp_setup E u s)"
| "auth_step (E, ConfirmTotp u c) s = answered (confirm_totp_setup E u c s)"
| "auth_step (E, DisableTotp u p c) s = answered (disable_totp E u p c s)"
| "auth_step (E, VerifyChallenge t c m) s = answered (verify_challenge E t c m s)"
| "auth_step (E, BeginSms u p) s = answered (begin_sms_setup E u p s)"
| "auth_step (E, ConfirmSms u p c) s = answered (confirm_sms_setup E u p c s)"
| "auth_step (E, DisableSms u p) s = answered (disable_sms E u p s)"

text \<open>A code the module hands out, by its hash (and its e-mail address, for a typed-in code).\<close>

datatype code_key = ChallengeKey string | ResetKey string string | EmailKey string string

fun code_live :: "code_key \<Rightarrow> user \<Rightarrow> bool" where
  "code_live (ChallengeKey h) u = (u_challenge u = Some h)"
| "code_live (ResetKey e h) u = (u_email u = e \<and> u_reset_token u = Some h)"
| "code_live (EmailKey e h) u = (u_email u = e \<and> u_email_token u = Some h)"

definition code_stock :: "code_key \<Rightarrow> db \<Rightarrow> nat" where
  "code_stock k s = count_rows (code_live k) (users s)"

text \<open>The code an operation presents, and whether it may put a new issue of a code in store.\<close>

fun code_presented :: "env \<times> auth_op \<Rightarrow> code_key option" where
  "code_presented (E, ResetPassword e c n) = Some (ResetKey e (sha256 E c))"
| "code_presented (E, ConfirmEmail e c m) = Some (EmailKey e (sha256 E c))"
| "code_presented (E, VerifyChallenge t c m) = Some (ChallengeKey (hash_challenge_token E t))"
| "code_presented _ = None"

fun code_issued :: "code_key \<Rightarrow> env \<times> auth_op \<Rightarrow> bool" where
  "code_issued (ChallengeKey h) (E, Login e p m) =
     (h = hash_challenge_token E (draw E ChallengeTokenDraw 0))"
| "code_issued (ResetKey e h) (E, ForgotPassword e') = (e = e' \<and> h = sha256 E (draw E ResetCodeDraw 0))"
| "code_issued (EmailKey e h) (E, Register e' p f m) = (e = e' \<and> h = sha256 E (draw E EmailCodeDraw 0))"
| "code_issued (EmailKey e h) (E, ResendVerification u) = (h = sha256 E (draw E EmailCodeDraw 0))"
| "code_issued (EmailKey e h) (E, ResendVerificationByEmail e') =
     (e = e' \<and> h = sha256 E (draw E EmailCodeDraw 0))"
| "code_issued _ _ = False"

definition ids_distinct :: "db \<Rightarrow> bool" where
  "ids_distinct s = unique_on u_id (users s)"

text \<open>One step of a code's life: ids stay distinct, at most \<open>n\<close> issues are added.\<close>

definition adds :: "(code_key \<Rightarrow> bool) \<Rightarrow> db \<Rightarrow> db \<Rightarrow> bool" where
  "adds I s s' =
     (ids_distinct s \<longrightarrow> ids_distinct s' \<and>
        (\<forall>k. code_stock k s' \<le> code_stock k s + (if I k then 1 else 0)))"

lemma adds_same: "users s' = users s \<Longrightarrow> adds I s s'"
  by (simp add: adds_def ids_distinct_def code_stock_def)

lemma adds_trans: "adds (\<lambda>k. False) s s1 \<Longrightarrow> adds I s1 s2 \<Longrightarrow> adds I s s2"
  unfolding adds_def by (metis (no_types, lifting) add_0_right add_le_mono1 order_trans)

lemma adds_same_after: "adds I s s1 \<Longrightarrow> users s2 = users s1 \<Longrightarrow> adds I s s2"
  by (simp add: adds_def ids_distinct_def code_stock_def)

lemma adds_and_then:
  assumes "users (snd (h s)) = users s" and "\<And>x s1. adds I s1 (snd (k x s1))"
  shows "adds I s (snd (and_then h k s))"
proof (cases "h s")
  case (Pair r s1)
  with assms(1) have "adds (\<lambda>_. False) s s1" "adds I s s1" by (simp_all add: adds_same)
  with Pair assms(2) show ?thesis
    by (cases r) (auto intro: adds_trans)
qed

text \<open>An update that puts no code into a row it did not have.\<close>

lemma adds_update:
  assumes "users s' = update_rows P f (users s)" and "\<And>u. u_id (f u) = u_id u"
    and "\<And>k u. code_live k (f u) \<Longrightarrow> code_live k u"
  shows "adds I s s'"
  using assms
  by (auto simp: adds_def ids_distinct_def code_stock_def intro!: le_SucI count_rows_update_le)

text \<open>An update of one account's row that puts one code into it.\<close>

lemma adds_issue:
  assumes "users s' = update_rows (\<lambda>u. u_id u = i) f (users s)" and "\<And>u. u_id (f u) = u_id u"
    and "\<And>k u. ids_distinct s \<Longrightarrow> u \<in> set (users s) \<Longrightarrow> u_id u = i \<Longrightarrow> code_live k (f u) \<Longrightarrow> \<not> I k \<Longrightarrow> code_live k u"
  shows "adds I s s'"
proof -
  have "count_rows (code_live k) (users s') \<le> count_rows (code_live k) (users s) + (if I k then 1 else 0)"
    if "unique_on u_id (users s)" for k
  proof (cases "I k")
    case True
    have "count_rows (code_live k) (users s') \<le>
        count_rows (code_live k) (users s) + count_rows (\<lambda>u. u_id u = i) (users s)"
      unfolding assms(1) by (rule count_rows_update_one)
    then show ?thesis
      using count_rows_unique [OF that, of i] True by simp
  next
    case False
    with assms(3) that show ?thesis
      unfolding assms(1) by (simp add: count_rows_update_le ids_distinct_def)
  qed
  then show ?thesis
    using assms(1,2) by (simp add: adds_def ids_distinct_def code_stock_def)
qed

lemma find_by_email_D: "find_by_email e s = Some u \<Longrightarrow> u \<in> set (users s) \<and> u_email u = e"
  unfolding find_by_email_def by (blast dest: find_row_Some_D)

lemma ids_distinctD:
  "ids_distinct s \<Longrightarrow> u \<in> set (users s) \<Longrightarrow> v \<in> set (users s) \<Longrightarrow> u_id u = u_id v \<Longrightarrow> u = v"
  unfolding ids_distinct_def by (rule unique_onD)

lemma issue_verification_adds:
  assumes "\<And>v. ids_distinct s \<Longrightarrow> v \<in> set (users s) \<Longrightarrow> u_id v = uid \<Longrightarrow> I (EmailKey (u_email v) (sha256 E (draw E EmailCodeDraw 0)))"
  shows "adds I s (snd (issue_and_send_verification_email E uid email s))"
proof (cases "succeeds (issue_and_send_verification_email E uid email s)")
  case True
  show ?thesis
  proof (rule adds_issue)
    show "users (snd (issue_and_send_verification_email E uid email s)) =
        update_rows (\<lambda>u. u_id u = uid) (\<lambda>u. u\<lparr>u_email_token := Some (sha256 E (draw E EmailCodeDraw 0)),
          u_email_token_expires := Some (now E + seconds email_verification_ttl_seconds)\<rparr>) (users s)"
      using True by (auto simp: issue_and_send_verification_email_def Let_def send_verification_email_def
          split: if_splits)
  next
    fix k and u :: user
    assume "ids_distinct s" "u \<in> set (users s)" "u_id u = uid" "\<not> I k"
      "code_live k (u\<lparr>u_email_token := Some (sha256 E (draw E EmailCodeDraw 0)),
          u_email_token_expires := Some (now E + seconds email_verification_ttl_seconds)\<rparr>)"
    with assms [of u] show "code_live k u" by (cases k) auto
  qed simp
qed (auto simp: issue_and_send_verification_email_def Let_def adds_same split: if_splits)

lemma issue_reset_adds:
  assumes "\<And>v. ids_distinct s \<Longrightarrow> v \<in> set (users s) \<Longrightarrow> u_id v = uid \<Longrightarrow> I (ResetKey (u_email v) (sha256 E (draw E ResetCodeDraw 0)))"
  shows "adds I s (snd (issue_and_send_password_reset_code E uid email s))"
proof (cases "succeeds (issue_and_send_password_reset_code E uid email s)")
  case True
  show ?thesis
  proof (rule adds_issue)
    show "users (snd (issue_and_send_password_reset_code E uid email s)) =
        update_rows (\<lambda>u. u_id u = uid) (\<lambda>u. u\<lparr>u_reset_token := Some (sha256 E (draw E ResetCodeDraw 0)),
          u_reset_expires := Some (now E + seconds password_reset_ttl_seconds)\<rparr>) (users s)"
      using True by (auto simp: issue_and_send_password_reset_code_def Let_def split: if_splits)
  next
    fix k and u :: user
    assume "ids_distinct s" "u \<in> set (users s)" "u_id u = uid" "\<not> I k"
      "code_live k (u\<lparr>u_reset_token := Some (sha256 E (draw E ResetCodeDraw 0)),
          u_reset_expires := Some (now E + seconds password_reset_ttl_seconds)\<rparr>)"
    with assms [of u] show "code_live k u" by (cases k) auto
  qed simp
qed (auto simp: issue_and_send_password_reset_code_def Let_def adds_same split: if_splits)

lemma issue_challenge_adds:
  assumes "I (ChallengeKey (hash_challenge_token E (draw E ChallengeTokenDraw 0)))"
  shows "adds I s (snd (issue_challenge E uid s))"
proof (cases "succeeds (issue_challenge E uid s)")
  case True
  show ?thesis
  proof (rule adds_issue)
    show "users (snd (issue_challenge E uid s)) =
        update_rows (\<lambda>u. u_id u = uid) (\<lambda>u. u\<lparr>u_challenge := Some (hash_challenge_token E (draw E ChallengeTokenDraw 0)),
          u_challenge_expires := Some (now E + challenge_ttl)\<rparr>) (users s)"
      using True by (auto simp: issue_challenge_def Let_def split: if_splits)
  next
    fix k and u :: user
    assume "\<not> I k" "code_live k (u\<lparr>u_challenge := Some (hash_challenge_token E (draw E ChallengeTokenDraw 0)),
          u_challenge_expires := Some (now E + challenge_ttl)\<rparr>)"
    with assms show "code_live k u" by (cases k) auto
  qed simp
qed (auto simp: issue_challenge_def Let_def adds_same split: if_splits)

lemma personal_workspace_adds: "adds I s (snd (get_or_create_personal_workspace E i s))"
proof -
  obtain P f where "users (snd (get_or_create_personal_workspace E i s)) = update_rows P f (users s)"
    "\<And>u :: user. u_id (f u) = u_id u" "\<And>k u. code_live k (f u) = code_live k u"
  proof (cases "users (snd (get_or_create_personal_workspace E i s)) = users s")
    case True
    then show thesis
      by (intro that [of "\<lambda>_. False" id]) (simp_all add: update_rows_def)
  next
    case False
    then obtain w where w: "users (snd (get_or_create_personal_workspace E i s)) =
        update_rows (\<lambda>u. u_id u = i) (\<lambda>u. u\<lparr>u_default_workspace := Some w\<rparr>) (users s)"
      by (auto simp: get_or_create_personal_workspace_def Let_def split: option.splits if_splits)
    show thesis
    proof (rule that [OF w])
      fix k and u :: user
      show "code_live k (u\<lparr>u_default_workspace := Some w\<rparr>) = code_live k u" by (cases k) auto
    qed simp
  qed
  then show ?thesis by (intro adds_update [where P = P and f = f]) auto
qed

lemma create_user_adds:
  "adds I s (snd (create_user E email pw f s))"
proof (cases "create_user E email pw f s")
  case (Pair r s')
  show ?thesis
  proof (cases r)
    case (Inl e)
    with Pair have "s' = s"
      using create_user_attempt_error [of E 0 email pw f s e s']
      by (auto simp: create_user_def max_ndy_id_attempts_def split: if_splits)
    with Pair show ?thesis by (simp add: adds_same)
  next
    case (Inr u)
    with Pair have "create_user_attempt E 0 email pw f s = (Inr u, s')"
      by (simp add: create_user_def split: if_splits)
    from create_user_attempt_ok [OF this] obtain j where
      u: "u = new_user E (generate_core_id E j) email pw f"
      and new: "\<forall>v \<in> set (users s). u_id v \<noteq> u_id u"
      and s': "s' = snd (get_or_create_personal_workspace E (u_id u) (s\<lparr>users := users s @ [u]\<rparr>))"
      by blast
    have "\<not> code_live k u" for k
      by (cases k) (simp_all add: u new_user_def)
    with new have "adds (\<lambda>k. False) s (s\<lparr>users := users s @ [u]\<rparr>)"
      by (auto simp: adds_def ids_distinct_def code_stock_def)
    from adds_trans [OF this personal_workspace_adds] Pair show ?thesis by (simp add: s')
  qed
qed

lemma login_tail_users [simp]:
  "users (snd (and_then (issue_session E u n m) (\<lambda>tok s1. (ok (f tok), record_login E u m b s1)) s)) = users s"
  by (rule and_then_frame; simp)

text \<open>Updates that touch none of the code columns, or only clear them.\<close>

lemma code_live_mono:
  "u_email v = u_email u \<Longrightarrow> u_challenge v \<in> {None, u_challenge u} \<Longrightarrow>
   u_reset_token v \<in> {None, u_reset_token u} \<Longrightarrow> u_email_token v \<in> {None, u_email_token u} \<Longrightarrow>
   code_live k v \<Longrightarrow> code_live k u"
  by (cases k) auto

lemma adds_clear:
  assumes "users s' = update_rows P f (users s)"
    and "\<And>u. u_id (f u) = u_id u" "\<And>u. u_email (f u) = u_email u"
    and "\<And>u. u_challenge (f u) \<in> {None, u_challenge u}"
    and "\<And>u. u_reset_token (f u) \<in> {None, u_reset_token u}"
    and "\<And>u. u_email_token (f u) \<in> {None, u_email_token u}"
  shows "adds I s s'"
  by (rule adds_update [OF assms(1,2)]) (rule code_live_mono [OF assms(3-6)])

lemma create_user_email:
  assumes "create_user E e pw f s = (Inr u, s1)" and "v \<in> set (users s1)" and "u_id v = u_id u"
  shows "u_email v = e"
proof -
  have "create_user_attempt E 0 e pw f s = (Inr u, s1)"
    using assms(1) by (simp add: create_user_def split: if_splits)
  from create_user_attempt_ok [OF this] obtain j where
    u: "u = new_user E (generate_core_id E j) e pw f"
    and new: "\<forall>w \<in> set (users s). u_id w \<noteq> u_id u"
    and s1: "s1 = snd (get_or_create_personal_workspace E (u_id u) (s\<lparr>users := users s @ [u]\<rparr>))"
    by blast
  have "identity_columns v \<in> set (map identity_columns (users s1))"
    using assms(2) by simp
  then have "identity_columns v \<in> identity_columns ` set (users s @ [u])"
    unfolding s1 personal_workspace_columns by simp
  then obtain w where "w \<in> set (users s @ [u])" "identity_columns v = identity_columns w"
    by blast
  then have "w \<in> set (users s @ [u])" "u_id w = u_id v" "u_email w = u_email v"
    by (simp_all add: identity_columns_def)
  with new assms(3) have "u_email v = u_email u" by auto
  then show ?thesis by (simp add: u new_user_def)
qed

lemma register_adds: "adds (\<lambda>k. code_issued k (E, Register e p f m)) s (snd (register E e p f m s))"
proof (cases "create_user E e (Some (bcrypt_hash E p)) f s")
  case (Pair r s1)
  have c: "adds I s s1" for I
    using create_user_adds [of I s E e "Some (bcrypt_hash E p)" f] Pair by simp
  show ?thesis
  proof (cases r)
    case (Inl x)
    with Pair c show ?thesis by (simp add: register_def)
  next
    case (Inr u)
    show ?thesis
    proof (cases "e = dev_shortcut_email")
      case True
      have v: "adds I s1 (update_user (u_id u) (\<lambda>v. v\<lparr>u_email_verified_at := Some (now E)\<rparr>) s1)" for I
        by (rule adds_clear [where P = "\<lambda>v. u_id v = u_id u"
              and f = "\<lambda>v. v\<lparr>u_email_verified_at := Some (now E)\<rparr>"]) simp_all
      have "register E e p f m s =
          and_then (issue_session E (u_id u) (u_ndy_id u) m)
            (\<lambda>tok s3. (ok (SessionIssued tok), record_login E (u_id u) m False s3))
            (update_user (u_id u) (\<lambda>v. v\<lparr>u_email_verified_at := Some (now E)\<rparr>) s1)"
        using Pair Inr True by (simp add: register_def)
      then show ?thesis
        by (simp only:) (rule adds_same_after [OF adds_trans [OF c v]], simp only: login_tail_users)
    next
      case False
      have "adds (\<lambda>k. code_issued k (E, Register e p f m)) s1
              (snd (issue_and_send_verification_email E (u_id u) (u_email u) s1))"
      proof (rule issue_verification_adds)
        fix v
        assume "ids_distinct s1" "v \<in> set (users s1)" "u_id v = u_id u"
        then show "code_issued (EmailKey (u_email v) (sha256 E (draw E EmailCodeDraw 0))) (E, Register e p f m)"
          using create_user_email Pair Inr by auto
      qed
      with Pair Inr False c show ?thesis
        by (auto simp: register_def intro: adds_trans)
    qed
  qed
qed

lemma recompute_trust_users [simp]: "users (snd (recompute_trust E u s)) = users s"
  by (simp add: recompute_trust_def Let_def split: option.splits)

lemma auth_step_adds: "adds (\<lambda>k. code_issued k (E, a)) s (snd (auth_step (E, a) s))"
proof (cases a)
  case (Login e p m)
  have "adds (\<lambda>k. code_issued k (E, a)) s (snd (issue_challenge E i s))" for i
    by (rule issue_challenge_adds) (simp add: Login)
  with Login show ?thesis
    by (auto simp: login_def Let_def adds_same split: sum.splits option.splits prod.splits)
next
  case (Register e p f m)
  then show ?thesis by (simp add: register_adds)
next
  case (UpdateOwnProfile u f)
  then show ?thesis
    by (cases "find_user u s")
      (auto simp: update_own_profile_def update_profile_def adds_same
       intro!: adds_clear [where P = "\<lambda>v. u_id v = u"])
next
  case (ChangePassword u c n)
  then show ?thesis
    by (auto simp: change_password_def adds_same split: sum.splits
       intro!: adds_clear [where P = "\<lambda>v. u_id v = u"])
next
  case (ForgotPassword e)
  have "adds (\<lambda>k. code_issued k (E, a)) s (snd (issue_and_send_password_reset_code E (u_id u) (u_email u) s))"
    if "find_by_email e s = Some u" for u
    by (rule issue_reset_adds) (use ForgotPassword find_by_email_D [OF that] in \<open>auto dest: ids_distinctD\<close>)
  with ForgotPassword show ?thesis
    by (auto simp: forgot_password_def adds_same split: option.splits)
next
  case (ResetPassword e c n)
  then show ?thesis
    by (auto simp: reset_password_def Let_def adds_same split: option.splits intro!: adds_clear)
next
  case (ResendVerification u)
  have "adds (\<lambda>k. code_issued k (E, a)) s (snd (issue_and_send_verification_email E i e s))" for i e
    by (rule issue_verification_adds) (simp add: ResendVerification)
  with ResendVerification show ?thesis
    by (auto simp: request_email_verification_def adds_same split: sum.splits)
next
  case (ResendVerificationByEmail e)
  have "adds (\<lambda>k. code_issued k (E, a)) s (snd (issue_and_send_verification_email E (u_id u) (u_email u) s))"
    if "find_by_email e s = Some u" for u
    by (rule issue_verification_adds)
      (use ResendVerificationByEmail find_by_email_D [OF that] in \<open>auto dest: ids_distinctD\<close>)
  with ResendVerificationByEmail show ?thesis
    by (auto simp: request_email_verification_by_email_def adds_same split: option.splits)
next
  case (ConfirmEmail e c m)
  then show ?thesis
    by (auto simp: confirm_email_verification_def Let_def adds_same split: option.splits
        intro!: adds_clear)
next
  case (BeginTotp u)
  then show ?thesis
    by (auto simp: begin_totp_setup_def Let_def adds_same split: sum.splits
       intro!: adds_clear [where P = "\<lambda>v. u_id v = u"])
next
  case (ConfirmTotp u c)
  then show ?thesis
    by (auto simp: confirm_totp_setup_def Let_def adds_same split: sum.splits
       intro!: adds_clear [where P = "\<lambda>v. u_id v = u"])
next
  case (DisableTotp u p c)
  then show ?thesis
    by (auto simp: disable_totp_def adds_same split: sum.splits intro!: adds_and_then)
      (auto intro!: adds_clear [where P = "\<lambda>v. u_id v = u"])
next
  case (VerifyChallenge t c m)
  have "adds (\<lambda>k. code_issued k (E, a)) s (snd (verify_challenge E t c m s))"
  proof (cases rule: verify_challenge_cases [of E t c m s])
    case (accepted u f s1 s3)
    then show ?thesis
      by (intro adds_clear [where P = "\<lambda>v. u_id v = u_id u \<and> u_challenge v = Some (hash_challenge_token E t)"
            and f = "\<lambda>v. v\<lparr>u_challenge := None, u_challenge_expires := None\<rparr>"])
        (simp_all add: clear_challenge_def)
  qed (simp add: adds_same)
  with VerifyChallenge show ?thesis by simp
next
  case (BeginSms u p)
  then show ?thesis
    by (auto simp: begin_sms_setup_def adds_same split: sum.splits)
next
  case (ConfirmSms u p c)
  then show ?thesis
    by (auto simp: confirm_sms_setup_def adds_same split: sum.splits
       intro!: adds_clear [where P = "\<lambda>v. u_id v = u"])
next
  case (DisableSms u p)
  then show ?thesis
    by (auto simp: disable_sms_def adds_same split: sum.splits
       intro!: adds_clear [where P = "\<lambda>v. u_id v = u"])
qed

lemma redeemed_leaves:
  assumes "x \<in> set (users s)" and "P x" and "code_live k x" and "users s' = update_rows P f (users s)"
    and "\<And>u. code_live k (f u) \<Longrightarrow> code_live k u" and "\<not> code_live k (f x)"
  shows "Suc (code_stock k s') \<le> code_stock k s"
  unfolding code_stock_def assms(4) using assms(1-3,5,6) by (intro count_rows_update_drop) auto

lemma reset_redeems:
  assumes "reset_password E e c n s = (Inr r, s')"
  shows "Suc (code_stock (ResetKey e (sha256 E c)) s') \<le> code_stock (ResetKey e (sha256 E c)) s"
proof -
  obtain u :: user where u: "find_by_email e s = Some u" "u_reset_token u = Some (sha256 E c)"
    and s': "users s' = update_rows (\<lambda>v. u_id v = u_id u \<and> u_reset_token v = Some (sha256 E c))
       (\<lambda>v. v\<lparr>u_password_hash := Some (bcrypt_hash E n), u_reset_token := None, u_reset_expires := None\<rparr>)
       (users s)"
    using assms by (auto simp: reset_password_def Let_def split: option.splits if_splits)
  show ?thesis
    by (rule redeemed_leaves [OF _ _ _ s', of u]) (use find_by_email_D [OF u(1)] u(2) in simp_all)
qed

lemma confirm_redeems:
  assumes "confirm_email_verification E e c m s = (Inr r, s')"
  shows "Suc (code_stock (EmailKey e (sha256 E c)) s') \<le> code_stock (EmailKey e (sha256 E c)) s"
proof -
  obtain u :: user where u: "find_by_email e s = Some u" "u_email_token u = Some (sha256 E c)"
    and run: "confirm_email_verification E e c m s =
        and_then (issue_session E (u_id u) (u_ndy_id u) m)
          (\<lambda>tok s2. (ok tok, record_login E (u_id u) m False s2))
          (s\<lparr>users := update_rows (\<lambda>v. u_id v = u_id u \<and> u_email_token v = Some (sha256 E c))
             (\<lambda>v. v\<lparr>u_email_verified_at := Some (now E), u_email_token := None,
                    u_email_token_expires := None, u_level := confirmed_level u v\<rparr>) (users s)\<rparr>)"
    using assms by (auto simp: confirm_email_verification_def Let_def split: option.splits if_splits)
  have "users s' = users (snd (confirm_email_verification E e c m s))"
    using assms by simp
  then have s': "users s' = update_rows (\<lambda>v. u_id v = u_id u \<and> u_email_token v = Some (sha256 E c))
       (\<lambda>v. v\<lparr>u_email_verified_at := Some (now E), u_email_token := None,
              u_email_token_expires := None, u_level := confirmed_level u v\<rparr>) (users s)"
    unfolding run login_tail_users by simp
  show ?thesis
    by (rule redeemed_leaves [OF _ _ _ s', of u]) (use find_by_email_D [OF u(1)] u(2) in simp_all)
qed

lemma challenge_redeems:
  assumes "verify_challenge E t c m s = (Inr r, s')"
  shows "Suc (code_stock (ChallengeKey (hash_challenge_token E t)) s') \<le>
           code_stock (ChallengeKey (hash_challenge_token E t)) s"
proof (cases rule: verify_challenge_cases [of E t c m s])
  case (refused e)
  with assms show ?thesis by simp
next
  case (accepted u f s1 s3)
  let ?h = "hash_challenge_token E t"
  have u: "u \<in> set (users s)" "u_challenge u = Some ?h"
    using accepted(1) unfolding find_by_challenge_def by (auto dest: find_row_Some_D)
  have "users (snd (verify_challenge E t c m s)) = clear_challenge (u_id u) ?h (users s)"
    unfolding accepted(6) login_tail_users by (rule accepted(4))
  with assms have s': "users s' = update_rows (\<lambda>v. u_id v = u_id u \<and> u_challenge v = Some ?h)
       (\<lambda>v. v\<lparr>u_challenge := None, u_challenge_expires := None\<rparr>) (users s)"
    by (simp add: clear_challenge_def)
  show ?thesis
    by (rule redeemed_leaves [OF u(1) _ _ s']) (use u(2) in simp_all)
qed

interpretation issued_codes:
  issued_credentials auth_step ids_distinct code_presented "\<lambda>b. b" code_issued code_stock
proof (unfold_locales, goal_cases)
  case (1 s a)
  then show ?case
    using auth_step_adds [of "fst a" "snd a" s] by (simp add: adds_def)
next
  case (2 s a k)
  then show ?case
    by (cases a rule: code_presented.cases)
      (auto simp: accepted_reply_def split: sum.splits,
       (metis prod.collapse reset_redeems confirm_redeems challenge_redeems)+)
next
  case (3 s k a)
  then show ?case
    using auth_step_adds [of "fst a" "snd a" s] by (simp add: adds_def)
qed

text \<open>
  Every code is redeemed at most once per issue.  For the challenge of a two-step login, a
  password reset code and an e-mail verification code: over any sequence of the module's
  operations, the number of successful redemptions of a code is at most the number of accounts
  that held it at the start plus the number of operations that issued it again.
\<close>

theorem codes_redeemed_once:
  assumes "ids_distinct s"
  shows "count_rows (\<lambda>(op, granted). code_presented op = Some k \<and> granted) (run_log auth_step ops s) \<le>
           code_stock k s + count_rows (code_issued k) ops"
proof -
  have "(\<lambda>(op, granted). code_presented op = Some k \<and> granted) = issued_codes.used k"
    by (auto simp: fun_eq_iff issued_codes.used_def)
  then show ?thesis
    using issued_codes.balance [OF assms, of k ops] by simp
qed

definition reset_run :: "(env \<times> auth_op) list" where
  "reset_run =
     [(demo_env 5, ForgotPassword ''m1@x.y''),
      (demo_env 6, ResetPassword ''m1@x.y'' ''ABCDE0'' ''new''),
      (demo_env 7, ResetPassword ''m1@x.y'' ''ABCDE0'' ''newer'')]"

theorem codes_redeemed_once_witness:
  "count_rows (\<lambda>(op, granted). code_presented op = Some (ResetKey ''m1@x.y'' ''ABCDE0'') \<and> granted)
     (run_log auth_step reset_run demo_db) \<le> 1 \<and>
   map snd (run_log auth_step reset_run demo_db) = [True, True, False]"
proof
  have "ids_distinct demo_db"
    by (simp add: ids_distinct_def unique_on_def demo_db_def demo_user_def)
  moreover have "code_stock (ResetKey ''m1@x.y'' ''ABCDE0'') demo_db +
      count_rows (code_issued (ResetKey ''m1@x.y'' ''ABCDE0'')) reset_run = 1"
    by code_simp
  ultimately show "count_rows (\<lambda>(op, granted). code_presented op = Some (ResetKey ''m1@x.y'' ''ABCDE0'') \<and> granted)
     (run_log auth_step reset_run demo_db) \<le> 1"
    using codes_redeemed_once by metis
  show "map snd (run_log auth_step reset_run demo_db) = [True, True, False]"
    by code_simp
qed

section \<open>Who gets a session\<close>

lemma check_password_ok:
  "check_password E e pw s = (Inr u, x) \<longleftrightarrow>
     find_by_email e s = Some u \<and> password_matches E u pw \<and> \<not> u_suspended u \<and> x = None"
  by (auto simp: check_password_def password_matches_def split: option.splits)

lemma no_second_factor:
  "enabled_two_factor_methods u = [] \<longleftrightarrow> u_totp_enabled_at u = None \<and> u_sms_enabled_at u = None"
  by (simp add: enabled_two_factor_methods_def)

lemma issue_challenge_sessions [simp]: "sessions (snd (issue_challenge E i s)) = sessions s"
  by (simp add: issue_challenge_def Let_def)

lemma login_tail_sessions [simp]:
  "sessions (snd (and_then (issue_session E u n m) (\<lambda>tok s1. (ok (f tok), record_login E u m b s1)) s)) =
     sessions (snd (issue_session E u n m s))"
  by (auto simp: and_then_def split: prod.splits sum.splits)

definition password_suffices :: "env \<Rightarrow> string \<Rightarrow> user \<Rightarrow> bool" where
  "password_suffices E pw u \<longleftrightarrow>
     password_matches E u pw \<and> \<not> u_suspended u \<and> u_email_verified_at u \<noteq> None \<and> u_totp_enabled_at u = None \<and>
     u_sms_enabled_at u = None"

lemma login_suffices:
  assumes "find_by_email email s = Some u" and "password_suffices E pw u"
  shows "succeeds (login E email pw m s) = succeeds (issue_session E (u_id u) (u_ndy_id u) m s)"
    and "sessions (snd (login E email pw m s)) = sessions (snd (issue_session E (u_id u) (u_ndy_id u) m s))"
    and "fst (login E email pw m s) = map_sum id SessionIssued (fst (issue_session E (u_id u) (u_ndy_id u) m s))"
proof -
  from assms have "check_password E email pw s = (Inr u, None)"
    by (simp add: check_password_ok password_suffices_def)
  with assms(2) have l: "login E email pw m s =
      and_then (issue_session E (u_id u) (u_ndy_id u) m)
        (\<lambda>tok s1. (ok (SessionIssued tok), record_login E (u_id u) m (is_new_device (u_id u) m s) s1)) s"
    by (auto simp: login_def password_suffices_def no_second_factor Let_def)
  show "sessions (snd (login E email pw m s)) = sessions (snd (issue_session E (u_id u) (u_ndy_id u) m s))"
    unfolding l by simp
  show f: "fst (login E email pw m s) = map_sum id SessionIssued (fst (issue_session E (u_id u) (u_ndy_id u) m s))"
    unfolding l by (cases "issue_session E (u_id u) (u_ndy_id u) m s"; cases "fst (issue_session E (u_id u) (u_ndy_id u) m s)")
      (auto simp: and_then_def)
  then show "succeeds (login E email pw m s) = succeeds (issue_session E (u_id u) (u_ndy_id u) m s)"
    by (cases "fst (issue_session E (u_id u) (u_ndy_id u) m s)") (simp_all add: succeeds_iff prod_eq_iff)
qed

lemma login_refuses:
  assumes "\<nexists>u. find_by_email email s = Some u \<and> password_suffices E pw u"
  shows "sessions (snd (login E email pw m s)) = sessions s \<and> fst (login E email pw m s) \<noteq> Inr (SessionIssued tok)"
proof (cases "check_password E email pw s")
  case (Pair r f)
  show ?thesis
  proof (cases r)
    case (Inr u)
    with Pair have u: "find_by_email email s = Some u \<and> password_matches E u pw \<and> \<not> u_suspended u"
      using check_password_ok by blast
    with assms have "u_email_verified_at u = None \<or> enabled_two_factor_methods u \<noteq> []"
      by (auto simp: password_suffices_def no_second_factor)
    with Pair Inr show ?thesis
      by (auto simp: login_def and_then_def issue_challenge_def Let_def)
  qed (use Pair in \<open>auto simp: login_def split: option.splits\<close>)
qed

text \<open>
  C7. A password alone opens a session exactly on an active, verified account without a second
  factor.  \<^verbatim>\<open>login\<close> answers with a session if and only if the e-mail address is an account's, the
  password matches, the account is not suspended, its address is verified and neither second factor
  is on (and the refresh token just drawn is new); with such an answer exactly one session is added,
  for that account and opened by that token, and with any other none is.  The password grant accepts
  the same accounts and no others.
\<close>

theorem login_gate:
  "((\<exists>tok. fst (login E email pw m s) = Inr (SessionIssued tok)) \<longleftrightarrow>
     (\<exists>u. find_by_email email s = Some u \<and> password_matches E u pw \<and> \<not> u_suspended u \<and>
       u_email_verified_at u \<noteq> None \<and> u_totp_enabled_at u = None \<and> u_sms_enabled_at u = None) \<and>
     find_session (hash_token E (draw E RefreshTokenDraw 0)) s = None) \<and>
   (case fst (login E email pw m s) of
      Inr (SessionIssued tok) \<Rightarrow>
        \<exists>u x. find_by_email email s = Some u \<and> sessions (snd (login E email pw m s)) = sessions s @ [x] \<and>
          s_user x = u_id u \<and> s_token_hash x = hash_token E (is_refresh tok) \<and> s_revoked_at x = None
    | _ \<Rightarrow> sessions (snd (login E email pw m s)) = sessions s) \<and>
   (validate_credentials_for_password_grant E email pw s = Inr (i, n) \<longleftrightarrow>
     (\<exists>u. find_by_email email s = Some u \<and> password_matches E u pw \<and> \<not> u_suspended u \<and>
       u_email_verified_at u \<noteq> None \<and> u_totp_enabled_at u = None \<and> u_sms_enabled_at u = None \<and>
       i = u_id u \<and> n = u_ndy_id u))"
proof -
  have grant: "validate_credentials_for_password_grant E email pw s = Inr (i, n) \<longleftrightarrow>
      (\<exists>u. find_by_email email s = Some u \<and> password_suffices E pw u \<and> i = u_id u \<and> n = u_ndy_id u)"
  proof (cases "check_password E email pw s")
    case (Pair r f)
    show ?thesis
    proof (cases r)
      case (Inl e)
      with Pair have "\<nexists>u. find_by_email email s = Some u \<and> password_matches E u pw \<and> \<not> u_suspended u"
        by (metis Pair_inject check_password_ok Inl_Inr_False)
      with Pair Inl show ?thesis
        by (auto simp: validate_credentials_for_password_grant_def password_suffices_def)
    next
      case (Inr u)
      with Pair have "find_by_email email s = Some u \<and> password_matches E u pw \<and> \<not> u_suspended u"
        using check_password_ok by blast
      with Pair Inr show ?thesis
        by (auto simp: validate_credentials_for_password_grant_def no_second_factor password_suffices_def)
    qed
  qed
  show ?thesis
  proof (cases "\<exists>u. find_by_email email s = Some u \<and> password_suffices E pw u")
    case True
    then obtain u where u: "find_by_email email s = Some u" "password_suffices E pw u" by blast
    note opens = login_suffices [OF this, of m]
    obtain r s' where i: "issue_session E (u_id u) (u_ndy_id u) m s = (r, s')" by fastforce
    have unchanged: "sessions s' = sessions s" if "r = Inl e" for e
    proof -
      obtain dev s1 where d: "resolve_device E (u_id u) (sm_device_id m) (sm_user_agent m) s = (dev, s1)"
        by fastforce
      then have "sessions s1 = sessions s"
        using resolve_device_frame(1) [of E "u_id u" "sm_device_id m" "sm_user_agent m" s] by simp
      with i d that show ?thesis by (auto simp: issue_session_def Let_def split: if_splits)
    qed
    show ?thesis
    proof (cases r)
      case (Inl e)
      with i have "find_session (hash_token E (draw E RefreshTokenDraw 0)) s \<noteq> None"
        using issue_session_succeeds [of E "u_id u" "u_ndy_id u" m s] by (auto simp: succeeds_iff)
      with Inl i opens unchanged grant show ?thesis by (auto simp: password_suffices_def)
    next
      case (Inr tok)
      with i have fresh: "find_session (hash_token E (draw E RefreshTokenDraw 0)) s = None"
        using issue_session_succeeds [of E "u_id u" "u_ndy_id u" m s] by (auto simp: succeeds_iff)
      from i Inr obtain dev where "sessions s' = sessions s @ [new_session E (u_id u) m dev]"
          "is_refresh tok = draw E RefreshTokenDraw 0"
        by (auto simp: issue_session_ok Let_def split: prod.splits)
      then have "\<exists>x. sessions s' = sessions s @ [x] \<and> s_user x = u_id u \<and>
          s_token_hash x = hash_token E (is_refresh tok) \<and> s_revoked_at x = None"
        by (simp add: new_session_def)
      with Inr i opens u fresh grant show ?thesis by (auto simp: password_suffices_def)
    qed
  next
    case False
    with login_refuses [OF False] grant show ?thesis
      by (auto simp: password_suffices_def split: sum.splits auth_reply.splits)
  qed
qed

text \<open>An unknown address and a wrong password are answered alike.\<close>

lemma login_does_not_enumerate:
  assumes "find_by_email e s = None" and "find_by_email e' s = Some u" and "\<not> password_matches E u pw"
  shows "fst (login E e pw m s) = fst (login E e' pw m s)"
  using assms by (auto simp: login_def check_password_def password_matches_def)

text \<open>
  A password reset locks out whoever had the old password.  When it succeeds, the code was
  pending for that e-mail address and in time; the new password opens the account's password
  check; and no refresh token of a session the account had is ever exchanged again, whatever the
  session operations that follow.
\<close>

theorem password_reset_effect:
  assumes "reset_password E email code new s = (Inr (), s')"
    and "bcrypt_compare E new (bcrypt_hash E new)" and "bcrypt_hash E new \<noteq> []"
  shows "\<exists>u v. find_by_email email s = Some u \<and> u_reset_token u = Some (sha256 E code) \<and>
           \<not> expired_at E (u_reset_expires u) \<and>
           find_by_email email s' = Some v \<and> u_id v = u_id u \<and> password_matches E v new \<and>
           u_reset_token v = None \<and>
           (\<forall>x. find_session (hash_token E' t) s' = Some x \<and> s_user x = u_id u \<longrightarrow>
              \<not> succeeds (rotate_session E' t m (run_ops session_step ops s')))"
proof -
  obtain u :: user where u: "find_by_email email s = Some u" "u_reset_token u = Some (sha256 E code)"
      "\<not> expired_at E (u_reset_expires u)"
    and s': "s' = record_event E (u_id u) PASSWORD_CHANGED no_meta
                     (revoke_user_sessions E (u_id u)
                       (s\<lparr>users := update_rows (\<lambda>v. u_id v = u_id u \<and> u_reset_token v = Some (sha256 E code))
                          (\<lambda>v. v\<lparr>u_password_hash := Some (bcrypt_hash E new), u_reset_token := None,
                                 u_reset_expires := None\<rparr>) (users s)\<rparr>))"
    using assms(1) by (auto simp: reset_password_def Let_def split: option.splits if_splits)
  let ?v = "u\<lparr>u_password_hash := Some (bcrypt_hash E new), u_reset_token := None, u_reset_expires := None\<rparr>"
  have v: "find_by_email email s' = Some ?v"
    using u unfolding s' find_by_email_def by (simp add: find_row_update_keep)
  have closed: "\<forall>x \<in> set (sessions s'). s_user x = u_id u \<longrightarrow> s_revoked_at x \<noteq> None"
    by (simp add: s' revoke_user_sessions_def)
  have "\<not> succeeds (rotate_session E' t m (run_ops session_step ops s'))"
    if x: "find_session (hash_token E' t) s' = Some x" "s_user x = u_id u" for x
  proof -
    have "x \<in> set (sessions s')"
      using x(1) unfolding find_session_def by (blast dest: find_row_Some_D)
    with x closed have "token_spent (hash_token E' t) s'"
      by (auto simp: token_spent_def)
    then have "token_spent (hash_token E' t) (run_ops session_step ops s')"
      by (rule refresh_rotation.spent_run [OF TrueI])
    then show ?thesis
      by (auto simp: token_spent_def rotate_session_def)
  qed
  with u v assms(2,3) show ?thesis
    by (intro exI [of _ u] exI [of _ ?v]) (simp add: password_matches_def)
qed

theorem password_reset_effect_witness:
  "\<exists>u v. find_by_email ''m1@x.y'' demo_db = Some u \<and>
     find_by_email ''m1@x.y'' (snd (reset_password (demo_env 5) ''m1@x.y'' ''c'' ''new''
       (update_user ''m1'' (\<lambda>u. u\<lparr>u_reset_token := Some ''c'', u_reset_expires := Some 9\<rparr>) demo_db))) = Some v \<and>
     u_password_hash u = Some ''pw'' \<and> password_matches (demo_env 5) v ''new''"
proof -
  let ?s = "update_user ''m1'' (\<lambda>u. u\<lparr>u_reset_token := Some ''c'', u_reset_expires := Some 9\<rparr>) demo_db"
  have "fst (reset_password (demo_env 5) ''m1@x.y'' ''c'' ''new'' ?s) = Inr ()"
    by code_simp
  then have "reset_password (demo_env 5) ''m1@x.y'' ''c'' ''new'' ?s =
      (Inr (), snd (reset_password (demo_env 5) ''m1@x.y'' ''c'' ''new'' ?s))"
    by (simp add: prod_eq_iff)
  moreover have "bcrypt_compare (demo_env 5) ''new'' (bcrypt_hash (demo_env 5) ''new'')"
    "bcrypt_hash (demo_env 5) ''new'' \<noteq> []"
    by (simp_all add: demo_env_def)
  ultimately have "\<exists>v. find_by_email ''m1@x.y'' (snd (reset_password (demo_env 5) ''m1@x.y'' ''c'' ''new'' ?s)) = Some v \<and>
      password_matches (demo_env 5) v ''new''"
    using password_reset_effect [of "demo_env 5" "''m1@x.y''" "''c''" "''new''" ?s] by blast
  moreover have "\<exists>u. find_by_email ''m1@x.y'' demo_db = Some u \<and> u_password_hash u = Some ''pw''"
    by (simp add: find_by_email_def demo_db_def demo_user_def)
  ultimately show ?thesis by blast
qed

text \<open>A reset leaves the refresh tokens of connected apps alone.\<close>

lemma reset_keeps_app_tokens: "oauth_tokens (snd (reset_password E e c n s)) = oauth_tokens s"
  by (simp add: reset_password_def Let_def split: option.splits)

text \<open>
  Neither the second step of a login nor the e-mail confirmation looks at \<^verbatim>\<open>suspended\<close>: both hand a
  session to a suspended account.
\<close>

definition suspended_mid_login :: db where
  "suspended_mid_login = update_user ''m1''
     (\<lambda>u. u\<lparr>u_suspended := True, u_sms_enabled_at := Some 1, u_sms_phone := Some ''+44'',
            u_challenge := Some ''t'', u_challenge_expires := Some 9, u_email_token := Some ''c'',
            u_email_token_expires := Some 9\<rparr>) demo_db"

lemma suspended_account_completes_login:
  "succeeds (verify_challenge (demo_env 5) ''t'' ''+44'' no_meta suspended_mid_login) \<and>
   succeeds (confirm_email_verification (demo_env 5) ''m1@x.y'' ''c'' no_meta suspended_mid_login)"
  by code_simp

text \<open>
  Six digits are unique over all accounts in the database: when the drawn reset code is pending
  for another account, \<^verbatim>\<open>forgotPassword\<close> fails for a registered address, not for an unknown one.
\<close>

lemma forgot_password_clash:
  "let s = update_user ''a1'' (\<lambda>u. u\<lparr>u_reset_token := Some ''ABCDE0''\<rparr>) demo_db
   in fst (forgot_password (demo_env 5) ''m1@x.y'' s) = Inl unique_violation \<and>
      fst (forgot_password (demo_env 5) ''nobody@x.y'' s) = Inr 299"
  by code_simp

end
