(* ===== verification/LoginRequests.thy ===== *)
theory LoginRequests
  imports Auth
begin

text \<open>
  The QR / deep-link sign-in of \<^verbatim>\<open>auth/auth.service.ts\<close>: a browser asks for a request, a signed-in
  person approves or denies it in the app, and the browser exchanges an approved request for a
  session.  A request is PENDING until it is approved, denied or expired, and an approved request
  is exchanged once.  The status pushed over the websocket gateway is not modelled.
\<close>

definition login_request_ttl :: time where
  "login_request_ttl = seconds 90"

fun login_request_status_name :: "login_request_status \<Rightarrow> string" where
  "login_request_status_name LR_PENDING = ''pending''"
| "login_request_status_name LR_APPROVED = ''approved''"
| "login_request_status_name LR_DENIED = ''denied''"
| "login_request_status_name LR_EXPIRED = ''expired''"

definition find_login_request :: "string \<Rightarrow> db \<Rightarrow> login_request option" where
  "find_login_request t s = find_row (\<lambda>r. lr_token r = t) (login_requests s)"

abbreviation update_login_requests ::
  "(login_request \<Rightarrow> bool) \<Rightarrow> (login_request \<Rightarrow> login_request) \<Rightarrow> db \<Rightarrow> db" where
  "update_login_requests P f s \<equiv> s\<lparr>login_requests := update_rows P f (login_requests s)\<rparr>"

definition create_login_request ::
  "env \<Rightarrow> login_request_method \<Rightarrow> string option \<Rightarrow> string option \<Rightarrow> string option \<Rightarrow> (db, login_request) handler" where
  "create_login_request E method dev browser ip s =
     (let r = \<lparr>lr_id = new_id E T_LoginRequest 0, lr_token = draw E LoginTokenDraw 0,
               lr_method = method, lr_status = LR_PENDING, lr_ip = ip, lr_device = dev,
               lr_browser = browser, lr_location = geo_lookup E ip, lr_user = None,
               lr_expires = now E + login_request_ttl, lr_approved_at = None, lr_denied_at = None,
               lr_session_issued_at = None, lr_created_at = now E\<rparr>
      in if find_login_request (lr_token r) s \<noteq> None then (throw unique_violation, s)
         else (ok r, s\<lparr>login_requests := login_requests s @ [r]\<rparr>))"

text \<open>The private \<^verbatim>\<open>findActiveOrExpire\<close> of the login requests.\<close>

definition login_request_active_or_expire :: "env \<Rightarrow> string \<Rightarrow> (db, login_request) handler" where
  "login_request_active_or_expire E t s =
     (case find_login_request t s of
        None \<Rightarrow> (throw (BadRequest ''Unknown or expired login request.''), s)
      | Some r \<Rightarrow>
          if lr_status r = LR_PENDING \<and> lr_expires r < now E
          then (ok (r\<lparr>lr_status := LR_EXPIRED\<rparr>),
                update_login_requests (\<lambda>r. lr_token r = t) (\<lambda>r. r\<lparr>lr_status := LR_EXPIRED\<rparr>) s)
          else (ok r, s))"

definition get_login_request_status :: "env \<Rightarrow> string \<Rightarrow> (db, login_request) handler" where
  "get_login_request_status E t = login_request_active_or_expire E t"

definition reread_login_request :: "string \<Rightarrow> (db, login_request) handler" where
  "reread_login_request t s =
     (case find_login_request t s of None \<Rightarrow> (throw record_missing, s) | Some r \<Rightarrow> (ok r, s))"

definition already_message :: "login_request \<Rightarrow> http_error" where
  "already_message r =
     BadRequest (''This login request is already '' @ login_request_status_name (lr_status r) @ ''.'')"

abbreviation pending_request :: "string \<Rightarrow> login_request \<Rightarrow> bool" where
  "pending_request t r \<equiv> lr_token r = t \<and> lr_status r = LR_PENDING"

definition mark_ndyapps_connected :: "env \<Rightarrow> id \<Rightarrow> db \<Rightarrow> db" where
  "mark_ndyapps_connected E uid s =
     s\<lparr>users := update_rows (\<lambda>u. u_id u = uid \<and> \<not> u_ndyapps_connected u)
        (\<lambda>u. u\<lparr>u_ndyapps_connected := True, u_ndyapps_connected_at := Some (now E)\<rparr>) (users s)\<rparr>"

definition approve_login_request :: "env \<Rightarrow> string \<Rightarrow> id \<Rightarrow> (db, login_request) handler" where
  "approve_login_request E t uid =
     and_then (login_request_active_or_expire E t) (\<lambda>r s.
       if lr_status r \<noteq> LR_PENDING then (throw (already_message r), s)
       else if count_rows (pending_request t) (login_requests s) = 0
       then (throw (Conflict ''This login request was already handled.''), s)
       else
         reread_login_request t
           (mark_ndyapps_connected E uid
             (update_login_requests (pending_request t)
               (\<lambda>r. r\<lparr>lr_status := LR_APPROVED, lr_approved_at := Some (now E), lr_user := Some uid\<rparr>) s)))"

definition deny_login_request :: "env \<Rightarrow> string \<Rightarrow> (db, login_request) handler" where
  "deny_login_request E t =
     and_then (login_request_active_or_expire E t) (\<lambda>r s.
       if lr_status r \<noteq> LR_PENDING then (throw (already_message r), s)
       else
         reread_login_request t
           (update_login_requests (pending_request t)
              (\<lambda>r. r\<lparr>lr_status := LR_DENIED, lr_denied_at := Some (now E)\<rparr>) s))"

abbreviation exchangeable :: "string \<Rightarrow> login_request \<Rightarrow> bool" where
  "exchangeable t r \<equiv> lr_token r = t \<and> lr_status r = LR_APPROVED \<and> lr_session_issued_at r = None"

definition exchange_login_request ::
  "env \<Rightarrow> string \<Rightarrow> session_meta \<Rightarrow> (db, issued_session) handler" where
  "exchange_login_request E t meta =
     and_then (login_request_active_or_expire E t) (\<lambda>r s.
       if lr_status r \<noteq> LR_APPROVED \<or> \<not> truthy (lr_user r)
       then (throw (BadRequest ''This login request has not been approved.''), s)
       else if lr_session_issued_at r \<noteq> None \<or> count_rows (exchangeable t) (login_requests s) = 0
       then (throw (Conflict ''This login request was already exchanged for a session.''), s)
       else
         (let s1 = update_login_requests (exchangeable t)
                     (\<lambda>r. r\<lparr>lr_session_issued_at := Some (now E)\<rparr>) s
          in case find_user (the (lr_user r)) s1 of
               None \<Rightarrow> (throw record_missing, s1)
             | Some u \<Rightarrow> issue_session E (u_id u) (u_ndy_id u) meta s1))"

section \<open>A request only moves forward\<close>

text \<open>
  PENDING goes to one of the three other states and those are final; the approver is fixed with
  the approval, and an exchange is never undone.
\<close>

definition request_later :: "login_request \<Rightarrow> login_request \<Rightarrow> bool" where
  "request_later x y =
     (lr_token y = lr_token x \<and> lr_expires y = lr_expires x \<and>
      (lr_status x \<noteq> LR_PENDING \<longrightarrow> lr_status y = lr_status x \<and> lr_user y = lr_user x) \<and>
      (lr_session_issued_at x \<noteq> None \<longrightarrow> lr_session_issued_at y \<noteq> None))"

lemma request_later_refl [simp]: "request_later r r"
  by (simp add: request_later_def)

lemma request_later_trans: "request_later x y \<Longrightarrow> request_later y z \<Longrightarrow> request_later x z"
  by (auto simp: request_later_def)

definition requests_advance :: "db \<Rightarrow> db \<Rightarrow> bool" where
  "requests_advance s s' = (\<forall>t x. find_login_request t s = Some x \<longrightarrow>
     (\<exists>y. find_login_request t s' = Some y \<and> request_later x y))"

lemma find_login_request_cong:
  "login_requests s' = login_requests s \<Longrightarrow> find_login_request t s' = find_login_request t s"
  by (simp add: find_login_request_def)

lemma requests_advance_same [simp]: "login_requests s' = login_requests s \<Longrightarrow> requests_advance s s'"
  by (simp add: requests_advance_def find_login_request_def)

lemma requests_advance_trans:
  "requests_advance s1 s2 \<Longrightarrow> requests_advance s2 s3 \<Longrightarrow> requests_advance s1 s3"
  unfolding requests_advance_def by (meson request_later_trans)

lemma find_login_request_D: "find_login_request t s = Some r \<Longrightarrow> lr_token r = t \<and> r \<in> set (login_requests s)"
  unfolding find_login_request_def by (blast dest: find_row_Some_D)

lemma find_login_request_update:
  assumes "\<And>r. lr_token (f r) = lr_token r"
  shows "find_login_request t (update_login_requests P f s) =
           map_option (\<lambda>r. if P r then f r else r) (find_login_request t s)"
  unfolding find_login_request_def using assms by (simp add: find_row_update_keep)

lemma requests_advance_update:
  assumes "\<And>r. lr_token (f r) = lr_token r"
    and "\<And>t r. find_login_request t s = Some r \<Longrightarrow> P r \<Longrightarrow> request_later r (f r)"
  shows "requests_advance s (update_login_requests P f s)"
  using assms by (simp add: requests_advance_def find_login_request_update)

lemma active_or_expire_ok:
  assumes "login_request_active_or_expire E t s = (Inr r, s1)"
  shows "find_login_request t s1 = Some r \<and> requests_advance s s1 \<and> sessions s1 = sessions s \<and>
         users s1 = users s \<and> (lr_status r = LR_PENDING \<longrightarrow> now E \<le> lr_expires r) \<and>
         (\<exists>r0. find_login_request t s = Some r0 \<and> lr_expires r0 = lr_expires r \<and>
           (lr_status r \<in> {LR_PENDING, LR_APPROVED} \<longrightarrow> r0 = r \<and> s1 = s))"
proof -
  obtain r0 where r0: "find_login_request t s = Some r0"
    using assms by (auto simp: login_request_active_or_expire_def split: option.splits)
  show ?thesis
  proof (cases "lr_status r0 = LR_PENDING \<and> lr_expires r0 < now E")
    case True
    with assms r0 have r: "r = r0\<lparr>lr_status := LR_EXPIRED\<rparr>"
      and s1: "s1 = update_login_requests (\<lambda>r. lr_token r = t) (\<lambda>r. r\<lparr>lr_status := LR_EXPIRED\<rparr>) s"
      by (simp_all add: login_request_active_or_expire_def)
    have "find_login_request t s1 = Some r"
      using find_login_request_D [OF r0] r0 by (simp add: s1 r find_login_request_update)
    moreover have "requests_advance s s1"
      unfolding s1
    proof (rule requests_advance_update)
      fix t' and x :: login_request
      assume "find_login_request t' s = Some x" "lr_token x = t"
      with r0 have "x = r0"
        using find_login_request_D [of t' s x] by auto
      with True show "request_later x (x\<lparr>lr_status := LR_EXPIRED\<rparr>)"
        by (simp add: request_later_def)
    qed simp
    ultimately show ?thesis
      using True r0 by (simp add: r s1)
  next
    case False
    with assms r0 show ?thesis
      by (auto simp: login_request_active_or_expire_def)
  qed
qed

lemma active_or_expire_found:
  "login_request_active_or_expire E t s = (Inr r, s1) \<Longrightarrow> find_login_request t s1 = Some r"
  using active_or_expire_ok by blast

lemma active_or_expire_error:
  "login_request_active_or_expire E t s = (Inl e, s1) \<Longrightarrow> s1 = s"
  by (auto simp: login_request_active_or_expire_def split: option.splits if_splits)

lemma active_or_expire_cases:
  obtains e where "login_request_active_or_expire E t s = (Inl e, s)"
    | r s1 where "login_request_active_or_expire E t s = (Inr r, s1)"
  by (cases "login_request_active_or_expire E t s"; cases "fst (login_request_active_or_expire E t s)")
    (auto dest: active_or_expire_error)

lemma reread_login_request_state [simp]: "snd (reread_login_request t s) = s"
  by (simp add: reread_login_request_def split: option.splits)

lemma connected_requests [simp]:
  "login_requests (mark_ndyapps_connected E u s) = login_requests s"
  "sessions (mark_ndyapps_connected E u s) = sessions s"
  by (simp_all add: mark_ndyapps_connected_def)

lemma find_request_connected [simp]:
  "find_login_request t (mark_ndyapps_connected E u s) = find_login_request t s"
  by (simp add: find_login_request_def)

text \<open>What approving, denying and exchanging do to the request.\<close>

lemma approve_request_ok:
  assumes "approve_login_request E t uid s = (Inr r', s')"
  obtains r where "find_login_request t s = Some r" "lr_status r = LR_PENDING" "now E \<le> lr_expires r"
    "s' = mark_ndyapps_connected E uid (update_login_requests (pending_request t)
       (\<lambda>r. r\<lparr>lr_status := LR_APPROVED, lr_approved_at := Some (now E), lr_user := Some uid\<rparr>) s)"
proof -
  obtain r s1 where a: "login_request_active_or_expire E t s = (Inr r, s1)"
    and k: "lr_status r = LR_PENDING"
      "s' = mark_ndyapps_connected E uid (update_login_requests (pending_request t)
       (\<lambda>r. r\<lparr>lr_status := LR_APPROVED, lr_approved_at := Some (now E), lr_user := Some uid\<rparr>) s1)"
    using assms unfolding approve_login_request_def
    by (elim and_then_succeedsD) (auto simp: reread_login_request_def split: if_splits option.splits)
  from active_or_expire_ok [OF a] k(1) have "s1 = s" "find_login_request t s = Some r" "now E \<le> lr_expires r"
    by auto
  with k show thesis by (intro that) auto
qed

lemma approve_request_refused:
  assumes "\<not> succeeds (approve_login_request E t u s)"
  shows "snd (approve_login_request E t u s) = snd (login_request_active_or_expire E t s)"
proof (cases rule: active_or_expire_cases [of E t s])
  case (2 r s1)
  then have "find_login_request t s1 = Some r"
    by (rule active_or_expire_found)
  with assms 2 show ?thesis
    by (auto simp: approve_login_request_def reread_login_request_def find_login_request_update
        split: if_splits)
qed (simp add: approve_login_request_def)

lemma exchange_request_ok:
  assumes "exchange_login_request E t m s = (Inr tok, s')"
  obtains r uid u where "find_login_request t s = Some r" "lr_status r = LR_APPROVED" "lr_user r = Some uid"
    "lr_session_issued_at r = None" "find_user uid s = Some u"
    "issue_session E uid (u_ndy_id u) m (update_login_requests (exchangeable t)
       (\<lambda>r. r\<lparr>lr_session_issued_at := Some (now E)\<rparr>) s) = (Inr tok, s')"
proof -
  obtain r s1 where a: "login_request_active_or_expire E t s = (Inr r, s1)"
    and k: "lr_status r = LR_APPROVED" "truthy (lr_user r)" "lr_session_issued_at r = None"
      "\<exists>u. find_user (the (lr_user r)) (update_login_requests (exchangeable t)
       (\<lambda>r. r\<lparr>lr_session_issued_at := Some (now E)\<rparr>) s1) = Some u \<and>
       issue_session E (u_id u) (u_ndy_id u) m (update_login_requests (exchangeable t)
       (\<lambda>r. r\<lparr>lr_session_issued_at := Some (now E)\<rparr>) s1) = (Inr tok, s')"
    using assms unfolding exchange_login_request_def
    by (elim and_then_succeedsD) (auto simp: Let_def split: if_splits option.splits)
  from active_or_expire_ok [OF a] k(1) have s1: "s1 = s" "find_login_request t s = Some r"
    by auto
  obtain uid where uid: "lr_user r = Some uid"
    using k(2) by (auto simp: truthy_iff)
  from k(4) obtain u :: user where u: "find_user uid s = Some u"
    "issue_session E (u_id u) (u_ndy_id u) m (update_login_requests (exchangeable t)
       (\<lambda>r. r\<lparr>lr_session_issued_at := Some (now E)\<rparr>) s) = (Inr tok, s')"
    by (auto simp: uid s1 find_user_def)
  with find_user_D [OF u(1)] s1 k uid show thesis
    by (intro that [of r uid u]) auto
qed

section \<open>The flow as a system\<close>

datatype request_op =
    CreateRequest login_request_method "string option" "string option" "string option"
  | PollRequest string
  | ApproveRequest string id
  | DenyRequest string
  | ExchangeRequest string session_meta

fun request_step :: "env \<times> request_op \<Rightarrow> db \<Rightarrow> bool \<times> db" where
  "request_step (E, CreateRequest x d b i) s = answered (create_login_request E x d b i s)"
| "request_step (E, PollRequest t) s = answered (get_login_request_status E t s)"
| "request_step (E, ApproveRequest t u) s = answered (approve_login_request E t u s)"
| "request_step (E, DenyRequest t) s = answered (deny_login_request E t s)"
| "request_step (E, ExchangeRequest t m) s = answered (exchange_login_request E t m s)"

fun request_exchanged :: "env \<times> request_op \<Rightarrow> string option" where
  "request_exchanged (E, ExchangeRequest t m) = Some t"
| "request_exchanged _ = None"

definition request_spent :: "string \<Rightarrow> db \<Rightarrow> bool" where
  "request_spent t s = (\<exists>r. find_login_request t s = Some r \<and> lr_session_issued_at r \<noteq> None)"

text \<open>An update of the request with one token, seen by the lookups.\<close>

lemma requests_advance_token:
  assumes "login_requests s' = update_rows P f (login_requests s)" and "\<And>r. lr_token (f r) = lr_token r"
    and "\<And>r. P r \<Longrightarrow> request_later r (f r)"
  shows "requests_advance s s'"
proof -
  have "requests_advance s (update_login_requests P f s)"
    using assms(2,3) by (intro requests_advance_update) auto
  moreover have "find_login_request t s' = find_login_request t (update_login_requests P f s)" for t
    using assms(1) by (simp add: find_login_request_def)
  ultimately show ?thesis by (simp add: requests_advance_def)
qed

lemma advance_pending:
  assumes "login_requests s' = update_rows (pending_request t) f (login_requests s)"
    and "\<And>r. lr_token (f r) = lr_token r" "\<And>r. lr_expires (f r) = lr_expires r"
    and "\<And>r. lr_session_issued_at (f r) = lr_session_issued_at r"
  shows "requests_advance s s'"
  by (rule requests_advance_token [OF assms(1,2)]) (auto simp: request_later_def assms(2-4))

lemma active_then_advance:
  assumes "\<And>r s1. requests_advance s1 (snd (k r s1))"
  shows "requests_advance s (snd (and_then (login_request_active_or_expire E t) k s))"
proof (cases rule: active_or_expire_cases [of E t s])
  case (2 r s1)
  then have "requests_advance s s1"
    using active_or_expire_ok by blast
  then show ?thesis
    using 2 assms [of s1 r] by (auto intro: requests_advance_trans)
qed simp

lemma request_step_advance: "requests_advance s (snd (request_step (E, a) s))"
proof (cases a)
  case (CreateRequest x d b i)
  then show ?thesis
    by (auto simp: create_login_request_def Let_def requests_advance_def find_login_request_def
        find_row_append split: option.splits)
next
  case (PollRequest t)
  then show ?thesis
    using active_or_expire_ok [of E t s]
    by (cases rule: active_or_expire_cases [of E t s])
      (auto simp: get_login_request_status_def)
next
  case (ApproveRequest t u)
  have "requests_advance s (snd (approve_login_request E t u s))"
    unfolding approve_login_request_def
    by (rule active_then_advance, auto intro!: advance_pending simp: mark_ndyapps_connected_def)
  with ApproveRequest show ?thesis by simp
next
  case (DenyRequest t)
  have "requests_advance s (snd (deny_login_request E t s))"
    unfolding deny_login_request_def
    by (rule active_then_advance, auto intro!: advance_pending)
  with DenyRequest show ?thesis by simp
next
  case (ExchangeRequest t m)
  have "requests_advance s (snd (exchange_login_request E t m s))"
    unfolding exchange_login_request_def Let_def
    by (rule active_then_advance,
        auto intro!: requests_advance_token [where P = "exchangeable t"] split: option.splits
          simp: request_later_def)
  with ExchangeRequest show ?thesis by simp
qed

lemma exchange_spends:
  assumes "exchange_login_request E t m s = (Inr tok, s')"
  shows "request_spent t s'"
  using assms
proof (rule exchange_request_ok)
  fix r :: login_request and uid and u :: user
  let ?s1 = "update_login_requests (exchangeable t) (\<lambda>r. r\<lparr>lr_session_issued_at := Some (now E)\<rparr>) s"
  assume r: "find_login_request t s = Some r" "lr_status r = LR_APPROVED" "lr_session_issued_at r = None"
    and i: "issue_session E uid (u_ndy_id u) m ?s1 = (Inr tok, s')"
  have "login_requests s' = login_requests (snd (issue_session E uid (u_ndy_id u) m ?s1))"
    using i by simp
  then have "login_requests s' = login_requests ?s1"
    by simp
  then show ?thesis
    using r find_login_request_D [OF r(1)]
    by (simp add: request_spent_def find_login_request_def find_row_update_keep)
qed

interpretation request_exchange:
  single_use request_step "\<lambda>_. True" request_exchanged "\<lambda>b. b" request_spent
proof (unfold_locales, goal_cases)
  case (2 s a k)
  then show ?case
    by (cases a rule: request_exchanged.cases)
      (auto simp: accepted_reply_def split: sum.splits, metis exchange_spends prod.collapse)
next
  case (3 s a k)
  then show ?case
    by (cases a rule: request_exchanged.cases)
      (auto simp: accepted_reply_def request_spent_def split: sum.splits,
       metis exchange_request_ok option.distinct(1) option.inject prod.collapse)
next
  case (4 s k a)
  then show ?case
    using request_step_advance [of s "fst a" "snd a"]
    by (fastforce simp: request_spent_def requests_advance_def request_later_def)
qed simp

text \<open>
  C10. A QR code signs in one browser.  In any sequence of creations, polls, approvals, denials and
  exchanges, at most one exchange of a given login request gives a session.
\<close>

theorem login_request_exchanged_once:
  "count_rows (\<lambda>(op, granted). request_exchanged op = Some t \<and> granted) (run_log request_step ops s) \<le> 1"
proof -
  have "(\<lambda>(op, granted). request_exchanged op = Some t \<and> granted) = request_exchange.redeems t"
    by (auto simp: fun_eq_iff request_exchange.redeems_def)
  then show ?thesis
    using request_exchange.at_most_once [OF TrueI] by simp
qed

section \<open>Where a session of the flow comes from\<close>

text \<open>What the log of a run must hold for the request to look the way it does.\<close>

definition request_explained :: "string \<Rightarrow> ((env \<times> request_op) \<times> bool) list \<Rightarrow> login_request \<Rightarrow> bool" where
  "request_explained t log r =
     (\<exists>E x d b i. ((E, CreateRequest x d b i), True) \<in> set log \<and> draw E LoginTokenDraw 0 = t \<and>
        lr_expires r = now E + login_request_ttl \<and>
        (lr_status r = LR_APPROVED \<longrightarrow>
          (\<exists>E' uid. ((E', ApproveRequest t uid), True) \<in> set log \<and> lr_user r = Some uid \<and>
             now E' \<le> lr_expires r)))"

lemma request_explained_mono:
  "request_explained t log r \<Longrightarrow> set log \<subseteq> set log' \<Longrightarrow> request_explained t log' r"
  unfolding request_explained_def by blast

lemma request_explained_like:
  "request_explained t log r0 \<Longrightarrow> lr_expires r = lr_expires r0 \<Longrightarrow>
   lr_status r = LR_APPROVED \<longrightarrow> lr_status r0 = LR_APPROVED \<and> lr_user r = lr_user r0 \<Longrightarrow>
   request_explained t log r"
  unfolding request_explained_def by metis

text \<open>How the request with token \<open>t\<close> can look after one operation.\<close>

definition request_step_ok :: "string \<Rightarrow> env \<times> request_op \<Rightarrow> bool \<Rightarrow> db \<Rightarrow> login_request \<Rightarrow> bool" where
  "request_step_ok t op granted s r =
     ((\<exists>r0. find_login_request t s = Some r0 \<and> lr_expires r = lr_expires r0 \<and>
         (lr_status r = LR_APPROVED \<longrightarrow>
            (lr_status r0 = LR_APPROVED \<and> lr_user r = lr_user r0) \<or>
            (\<exists>uid. snd op = ApproveRequest t uid \<and> granted \<and> lr_user r = Some uid \<and>
               now (fst op) \<le> lr_expires r))) \<or>
      (\<exists>x d b i. snd op = CreateRequest x d b i \<and> granted \<and> draw (fst op) LoginTokenDraw 0 = t \<and>
         lr_expires r = now (fst op) + login_request_ttl \<and> lr_status r = LR_PENDING))"

lemma request_step_ok_keep:
  assumes "find_login_request t s = Some r0" and "lr_expires r = lr_expires r0"
    and "lr_status r = LR_APPROVED \<Longrightarrow> lr_status r0 = LR_APPROVED \<and> lr_user r = lr_user r0"
  shows "request_step_ok t op granted s r"
  using assms unfolding request_step_ok_def by blast

lemma active_or_expire_keep:
  assumes "find_login_request t (snd (login_request_active_or_expire E t' s)) = Some r"
  shows "\<exists>r0. find_login_request t s = Some r0 \<and> lr_expires r = lr_expires r0 \<and>
           (lr_status r = LR_APPROVED \<longrightarrow> lr_status r0 = LR_APPROVED \<and> lr_user r = lr_user r0)"
  using assms
  by (auto simp: login_request_active_or_expire_def find_login_request_update
      split: option.splits if_splits)

lemma active_then_keep:
  assumes "find_login_request t (snd (and_then (login_request_active_or_expire E t') k s)) = Some r"
    and "\<And>r1 s1 r2. login_request_active_or_expire E t' s = (Inr r1, s1) \<Longrightarrow>
           find_login_request t (snd (k r1 s1)) = Some r2 \<Longrightarrow>
           \<exists>r0. find_login_request t s1 = Some r0 \<and> lr_expires r2 = lr_expires r0 \<and>
             (lr_status r2 = LR_APPROVED \<longrightarrow> lr_status r0 = LR_APPROVED \<and> lr_user r2 = lr_user r0)"
  shows "request_step_ok t op granted s r"
proof (cases rule: active_or_expire_cases [of E t' s])
  case (1 e)
  with assms(1) show ?thesis by (simp add: request_step_ok_keep)
next
  case (2 r1 s1)
  then have "find_login_request t (snd (k r1 s1)) = Some r"
    using assms(1) by simp
  from assms(2) [OF 2 this] active_or_expire_keep [of t E t' s] show ?thesis
    using 2 by (metis request_step_ok_keep snd_conv)
qed

lemma request_step_find:
  assumes "find_login_request t (snd (request_step (E, a) s)) = Some r"
  shows "request_step_ok t (E, a) (fst (request_step (E, a) s)) s r"
proof (cases a)
  case (CreateRequest x d b i)
  with assms show ?thesis
    by (auto simp: create_login_request_def Let_def find_login_request_def find_row_append
        request_step_ok_def split: option.splits if_splits)
next
  case (PollRequest t')
  with assms active_or_expire_keep [of t E t' s r] show ?thesis
    by (auto simp: get_login_request_status_def intro: request_step_ok_keep)
next
  case (ApproveRequest t' u)
  show ?thesis
  proof (cases "succeeds (approve_login_request E t' u s)")
    case True
    then obtain r' where "approve_login_request E t' u s = (Inr r', snd (approve_login_request E t' u s))"
      by (metis prod.collapse succeeds_iff)
    then show ?thesis
    proof (rule approve_request_ok)
      fix r1 :: login_request
      assume r1: "find_login_request t' s = Some r1" "lr_status r1 = LR_PENDING" "now E \<le> lr_expires r1"
        and s': "snd (approve_login_request E t' u s) = mark_ndyapps_connected E u
          (update_login_requests (pending_request t')
            (\<lambda>r. r\<lparr>lr_status := LR_APPROVED, lr_approved_at := Some (now E), lr_user := Some u\<rparr>) s)"
      have "find_login_request t (snd (approve_login_request E t' u s)) =
          map_option (\<lambda>r. if pending_request t' r then r\<lparr>lr_status := LR_APPROVED,
            lr_approved_at := Some (now E), lr_user := Some u\<rparr> else r) (find_login_request t s)"
        unfolding s' by (simp add: find_login_request_def find_row_update_keep)
      with assms ApproveRequest obtain z :: login_request where z: "find_login_request t s = Some z"
        and r: "r = (if pending_request t' z then z\<lparr>lr_status := LR_APPROVED,
            lr_approved_at := Some (now E), lr_user := Some u\<rparr> else z)"
        by auto
      show ?thesis
      proof (cases "pending_request t' z")
        case True
        with z have "t' = t" "z = r1"
          using find_login_request_D [OF z] r1(1) by auto
        with True r z r1 ApproveRequest \<open>succeeds (approve_login_request E t' u s)\<close> show ?thesis
          by (simp add: request_step_ok_def accepted_reply_def succeeds_def split: sum.splits)
      next
        case False
        with z r show ?thesis by (simp add: request_step_ok_keep)
      qed
    qed
  next
    case False
    then show ?thesis
      using assms active_or_expire_keep [of t E t' s r]
      by (auto simp: ApproveRequest approve_request_refused intro: request_step_ok_keep)
  qed
next
  case (DenyRequest t')
  have "request_step_ok t (E, a) g s r" for g
    using assms unfolding DenyRequest request_step.simps answered_simps deny_login_request_def
    by (rule active_then_keep) (auto simp: find_login_request_update split: if_splits)
  then show ?thesis .
next
  case (ExchangeRequest t' m)
  have "request_step_ok t (E, a) g s r" for g
    using assms unfolding ExchangeRequest request_step.simps answered_simps exchange_login_request_def
    by (rule active_then_keep)
      (auto simp: find_login_request_def find_row_update_keep Let_def split: if_splits option.splits)
  then show ?thesis .
qed

lemma explained_step:
  assumes "\<And>r. find_login_request t s = Some r \<Longrightarrow> request_explained t log r"
    and "find_login_request t (snd (request_step op s)) = Some r"
  shows "request_explained t (log @ [(op, fst (request_step op s))]) r"
proof -
  obtain E a where op: "op = (E, a)" by fastforce
  let ?log = "log @ [(op, fst (request_step op s))]"
  have "request_step_ok t (E, a) (fst (request_step (E, a) s)) s r"
    using assms(2) unfolding op by (rule request_step_find)
  then consider r0 where "find_login_request t s = Some r0" "lr_expires r = lr_expires r0"
      "lr_status r = LR_APPROVED \<longrightarrow> lr_status r0 = LR_APPROVED \<and> lr_user r = lr_user r0"
    | r0 uid where "find_login_request t s = Some r0" "lr_expires r = lr_expires r0"
      "a = ApproveRequest t uid" "fst (request_step op s)" "lr_user r = Some uid" "now E \<le> lr_expires r"
    | x d b i where "a = CreateRequest x d b i" "fst (request_step op s)" "draw E LoginTokenDraw 0 = t"
      "lr_expires r = now E + login_request_ttl" "lr_status r = LR_PENDING"
    unfolding request_step_ok_def op by auto
  then show ?thesis
  proof cases
    case 1
    then have "request_explained t ?log r0"
      using assms(1) request_explained_mono [of t log r0 ?log] by auto
    with 1 show ?thesis by (blast intro: request_explained_like)
  next
    case 2
    then have "request_explained t ?log r0"
      using assms(1) request_explained_mono [of t log r0 ?log] by auto
    then obtain E' x d b i where c: "((E', CreateRequest x d b i), True) \<in> set ?log"
        "draw E' LoginTokenDraw 0 = t" "lr_expires r0 = now E' + login_request_ttl"
      unfolding request_explained_def by blast
    have "((E, ApproveRequest t uid), True) \<in> set ?log"
      using 2 by (simp add: op)
    with 2 c show ?thesis
      unfolding request_explained_def by metis
  next
    case 3
    then have "((E, CreateRequest x d b i), True) \<in> set ?log"
      by (simp add: op)
    with 3 show ?thesis
      unfolding request_explained_def by (metis login_request_status.distinct(1))
  qed
qed

lemma explained_run:
  assumes "find_login_request t s = None"
  shows "find_login_request t (run_ops request_step ops s) = Some r \<Longrightarrow>
           request_explained t (run_log request_step ops s) r"
proof (induction ops arbitrary: r rule: rev_induct)
  case Nil
  with assms show ?case by simp
next
  case (snoc op ops)
  then show ?case
    using explained_step [where t = t and s = "run_ops request_step ops s" and r = r and op = op
        and log = "run_log request_step ops s"] by simp
qed

text \<open>
  A session of the QR flow traces back to its two steps.  Whenever an exchange succeeds after
  any run that began without a request of that token, the run holds a creation that drew the
  token, and an approval of it by some person at most ninety seconds later, and the one session
  added is that person's.
\<close>

theorem login_request_traceable:
  assumes "find_login_request t s = None"
    and "exchange_login_request E t m (run_ops request_step ops s) = (Inr tok, s')"
  shows "\<exists>E1 x d b i E2 uid y. ((E1, CreateRequest x d b i), True) \<in> set (run_log request_step ops s) \<and>
           draw E1 LoginTokenDraw 0 = t \<and>
           ((E2, ApproveRequest t uid), True) \<in> set (run_log request_step ops s) \<and>
           now E2 \<le> now E1 + login_request_ttl \<and>
           sessions s' = sessions (run_ops request_step ops s) @ [y] \<and> s_user y = uid"
  using assms(2)
proof (rule exchange_request_ok)
  fix r :: login_request and uid and u :: user
  let ?s = "run_ops request_step ops s"
  let ?s1 = "update_login_requests (exchangeable t) (\<lambda>r. r\<lparr>lr_session_issued_at := Some (now E)\<rparr>) ?s"
  assume r: "find_login_request t ?s = Some r" "lr_status r = LR_APPROVED" "lr_user r = Some uid"
    and i: "issue_session E uid (u_ndy_id u) m ?s1 = (Inr tok, s')"
  have "request_explained t (run_log request_step ops s) r"
    using explained_run [OF assms(1) r(1)] .
  moreover have "sessions s' = sessions (snd (issue_session E uid (u_ndy_id u) m ?s1))"
    "succeeds (issue_session E uid (u_ndy_id u) m ?s1)"
    using i by simp_all
  then have "\<exists>y. sessions s' = sessions ?s @ [y] \<and> s_user y = uid"
    by (auto simp: issue_session_sessions new_session_def)
  ultimately show ?thesis
    using r unfolding request_explained_def by (metis option.inject)
qed

definition qr_run :: "(env \<times> request_op) list" where
  "qr_run = [(demo_env 5, CreateRequest QR None None None), (demo_env 6, PollRequest ''ABCDE0''),
     (demo_env 7, ApproveRequest ''ABCDE0'' ''m1'')]"

theorem login_request_traceable_witness:
  "\<exists>E2. ((E2, ApproveRequest ''ABCDE0'' ''m1''), True) \<in> set (run_log request_step qr_run demo_db)"
proof -
  let ?s = "run_ops request_step qr_run demo_db"
  have n: "find_login_request ''ABCDE0'' demo_db = None"
    by (simp add: find_login_request_def demo_db_def empty_db_def)
  have "succeeds (exchange_login_request (demo_env 8) ''ABCDE0'' no_meta ?s)"
    "map s_user (sessions (snd (exchange_login_request (demo_env 8) ''ABCDE0'' no_meta ?s))) = [''m1'']"
    "sessions ?s = []"
    by code_simp+
  then obtain tok s' where "exchange_login_request (demo_env 8) ''ABCDE0'' no_meta ?s = (Inr tok, s')"
      "map s_user (sessions s') = [''m1'']" "sessions ?s = []"
    by (metis prod.collapse succeeds_iff)
  with login_request_traceable [OF n this(1)] show ?thesis
    by auto
qed

end
