(* ===== verification/OAuth.thy ===== *)
theory OAuth
  imports Auth "HOL-Library.Char_ord" "HOL-Library.List_Lexorder"
begin

text \<open>
  The OpenID provider, \<^verbatim>\<open>apps/api/src/oauth\<close>: the scope list (\<^verbatim>\<open>scopes.ts\<close>), the client registry
  (\<^verbatim>\<open>oauth-client.service.ts\<close>), consent grants (\<^verbatim>\<open>grant.service.ts\<close>), authorization codes
  (\<^verbatim>\<open>authorization-code.service.ts\<close>), token sets with refresh-token rotation and reuse detection
  (\<^verbatim>\<open>oauth-token.service.ts\<close>), the authorize and token endpoints (\<^verbatim>\<open>authorize.controller.ts\<close>,
  \<^verbatim>\<open>token.controller.ts\<close>) and the access-token guard.  A redirect is its base URL and the list of
  query parameters the code sets on it; percent-encoding is the URL library's.
\<close>

fun join_comma :: "string list \<Rightarrow> string" where
  "join_comma [] = []"
| "join_comma [w] = w"
| "join_comma (w # v # ws) = w @ '', '' @ join_comma (v # ws)"

section \<open>Scopes\<close>

definition oidc_scopes :: "(string \<times> string) list" where
  "oidc_scopes =
     [(''openid'', ''Confirm who you are (required for every connection)''),
      (''profile'', ''Your name and NDY ID''),
      (''email'', ''Your email address''),
      (''membership'', ''Your current membership tier and status''),
      (''cryndy'', ''Your available CRYNDY balance''),
      (''ndybits:report-event'',
         ''Report verified ecosystem events for NDYBITS reward crediting''),
      (''ecosystem:report-event'',
         ''Report ecosystem-relevant events (identity/profile/membership/activity changes)''),
      (''ecosystem:read-events'',
         ''Read the ecosystem event log for intelligence/automation processing (NDYCORE)''),
      (''profile:read'', ''Read your Passport/profile fields''),
      (''membership:read'', ''Read your current membership tier and status''),
      (''wallet:read'', ''Read your NDYBITS and CRYNDY balances''),
      (''activity:read'', ''Read your ecosystem activity feed''),
      (''connections:read'', ''See which other NDY products/apps you have connected''),
      (''ndyqr:create'', ''Create NDYQR codes on behalf of this product'')]"

definition all_scopes :: "string list" where
  "all_scopes = map fst oidc_scopes"

definition parse_scope :: "string \<Rightarrow> string list" where
  "parse_scope t = filter (\<lambda>w. w \<noteq> []) (split_on (CHR '' '') t)"

definition join_scope :: "string list \<Rightarrow> string" where
  "join_scope = join_with (CHR '' '')"

definition normalize_scope :: "string list \<Rightarrow> string" where
  "normalize_scope ws = join_scope (sort (remdups ws))"

definition is_subset_scope :: "string list \<Rightarrow> string list \<Rightarrow> bool" where
  "is_subset_scope requested allowed = list_all (\<lambda>w. w \<in> set allowed) requested"

section \<open>Clients\<close>

definition hash_secret :: "env \<Rightarrow> string \<Rightarrow> string" where
  "hash_secret E t = sha256 E t"

definition find_by_client_id :: "string \<Rightarrow> db \<Rightarrow> oauth_client reply" where
  "find_by_client_id cid s =
     (case find_row (\<lambda>c. oc_client_id c = cid) (oauth_clients s) of
        None \<Rightarrow> throw (NotFound ''Unknown or inactive client.'')
      | Some c \<Rightarrow> if oc_active c then ok c else throw (NotFound ''Unknown or inactive client.''))"

definition verify_secret :: "env \<Rightarrow> oauth_client \<Rightarrow> string option \<Rightarrow> bool" where
  "verify_secret E c provided =
     (if oc_type c = PUBLIC then True
      else if \<not> truthy (oc_secret_hash c) \<or> \<not> truthy provided then False
      else oc_secret_hash c = Some (hash_secret E (the provided)))"

text \<open>\<^verbatim>\<open>serializeClient\<close> leaves the secret hash out.\<close>

definition serialize_client :: "oauth_client \<Rightarrow> oauth_client" where
  "serialize_client c = c\<lparr>oc_secret_hash := None\<rparr>"

definition unknown_scopes_error :: "string list \<Rightarrow> http_error" where
  "unknown_scopes_error ws = BadRequest (''Unknown scope(s): '' @ join_comma ws)"

definition new_client ::
  "env \<Rightarrow> string \<Rightarrow> string list \<Rightarrow> string list \<Rightarrow> oauth_client_type \<Rightarrow> oauth_client" where
  "new_client E name redirects scopes t =
     \<lparr>oc_id = new_id E T_OAuthClient 0, oc_client_id = draw E ClientIdDraw 0,
      oc_secret_hash = (if t = CONFIDENTIAL then Some (hash_secret E (draw E ClientSecretDraw 0))
                        else None),
      oc_type = t, oc_name = name, oc_redirects = redirects, oc_scopes = scopes, oc_active = True\<rparr>"

definition create_client ::
  "env \<Rightarrow> string \<Rightarrow> string list \<Rightarrow> string list \<Rightarrow> oauth_client_type option \<Rightarrow>
     (db, oauth_client \<times> string option) handler" where
  "create_client E name redirects scopes t s =
     (let invalid = filter (\<lambda>w. w \<notin> set all_scopes) scopes;
          c = new_client E name redirects scopes (or_else t CONFIDENTIAL)
      in if invalid \<noteq> [] then (throw (unknown_scopes_error invalid), s)
         else if redirects = [] then (throw (BadRequest ''At least one redirect URI is required.''), s)
         else if exists_row (\<lambda>x. oc_client_id x = oc_client_id c) (oauth_clients s)
         then (throw unique_violation, s)
         else (ok (serialize_client c,
                   if oc_type c = CONFIDENTIAL then Some (draw E ClientSecretDraw 0) else None),
               s\<lparr>oauth_clients := oauth_clients s @ [c]\<rparr>))"

abbreviation update_client_row :: "id \<Rightarrow> (oauth_client \<Rightarrow> oauth_client) \<Rightarrow> db \<Rightarrow> db" where
  "update_client_row i f s \<equiv> s\<lparr>oauth_clients := update_rows (\<lambda>c. oc_id c = i) f (oauth_clients s)\<rparr>"

definition set_client_active :: "id \<Rightarrow> bool \<Rightarrow> (db, oauth_client) handler" where
  "set_client_active i b s =
     (case find_row (\<lambda>c. oc_id c = i) (oauth_clients s) of
        None \<Rightarrow> (throw record_missing, s)
      | Some c \<Rightarrow> (ok (serialize_client (c\<lparr>oc_active := b\<rparr>)),
                   update_client_row i (\<lambda>c. c\<lparr>oc_active := b\<rparr>) s))"

record client_patch =
  cp_name :: "string option"
  cp_redirects :: "string list option"
  cp_scopes :: "string list option"

definition patch_client :: "client_patch \<Rightarrow> oauth_client \<Rightarrow> oauth_client" where
  "patch_client p c =
     c\<lparr>oc_name := or_else (cp_name p) (oc_name c),
       oc_redirects := or_else (cp_redirects p) (oc_redirects c),
       oc_scopes := or_else (cp_scopes p) (oc_scopes c)\<rparr>"

definition update_client :: "id \<Rightarrow> client_patch \<Rightarrow> (db, oauth_client) handler" where
  "update_client i p s =
     (case find_row (\<lambda>c. oc_id c = i) (oauth_clients s) of
        None \<Rightarrow> (throw (NotFound ''No OAuth client with that id.''), s)
      | Some c \<Rightarrow>
          (let invalid = filter (\<lambda>w. w \<notin> set all_scopes) (or_else (cp_scopes p) [])
           in if invalid \<noteq> [] then (throw (unknown_scopes_error invalid), s)
              else if cp_redirects p = Some []
              then (throw (BadRequest ''At least one redirect URI is required.''), s)
              else (ok (serialize_client (patch_client p c)), update_client_row i (patch_client p) s)))"

definition list_clients :: "db \<Rightarrow> oauth_client list" where
  "list_clients s = map serialize_client (rev (oauth_clients s))"

text \<open>What the consent screen may see of a client.\<close>

definition get_public_info :: "string \<Rightarrow> db \<Rightarrow> (string \<times> string \<times> string list) reply" where
  "get_public_info cid s =
     (case find_by_client_id cid s of
        Inl e \<Rightarrow> throw e
      | Inr c \<Rightarrow> ok (oc_client_id c, oc_name c, oc_scopes c))"

section \<open>Grants\<close>

definition find_grant :: "id \<Rightarrow> id \<Rightarrow> db \<Rightarrow> oauth_grant option" where
  "find_grant uid cdb s = find_row (\<lambda>g. og_user g = uid \<and> og_client g = cdb) (oauth_grants s)"

definition find_existing_covering_grant :: "id \<Rightarrow> id \<Rightarrow> string \<Rightarrow> db \<Rightarrow> oauth_grant option" where
  "find_existing_covering_grant uid cdb requested s =
     (case find_grant uid cdb s of
        None \<Rightarrow> None
      | Some g \<Rightarrow>
          if og_revoked_at g \<noteq> None then None
          else if is_subset_scope (parse_scope requested) (parse_scope (og_scope g)) then Some g
          else None)"

definition new_grant :: "env \<Rightarrow> id \<Rightarrow> id \<Rightarrow> string \<Rightarrow> oauth_grant" where
  "new_grant E uid cdb scope =
     \<lparr>og_id = new_id E T_OAuthGrant 0, og_user = uid, og_client = cdb, og_scope = scope,
      og_created_at = now E, og_revoked_at = None\<rparr>"

definition upsert_grant :: "env \<Rightarrow> id \<Rightarrow> id \<Rightarrow> string \<Rightarrow> db \<Rightarrow> oauth_grant \<times> db" where
  "upsert_grant E uid cdb scope s =
     (case find_grant uid cdb s of
        Some g \<Rightarrow>
          (let merged = normalize_scope (parse_scope (og_scope g) @ parse_scope scope);
               renew = (\<lambda>g. g\<lparr>og_scope := merged, og_revoked_at := None\<rparr>)
           in (renew g,
               s\<lparr>oauth_grants := update_rows (\<lambda>g. og_user g = uid \<and> og_client g = cdb) renew
                   (oauth_grants s)\<rparr>))
      | None \<Rightarrow>
          (let g = new_grant E uid cdb (normalize_scope (parse_scope scope))
           in (g, record_event E uid OAUTH_APP_CONNECTED no_meta
                    (s\<lparr>oauth_grants := oauth_grants s @ [g]\<rparr>))))"

definition list_grants :: "id \<Rightarrow> db \<Rightarrow> oauth_grant list" where
  "list_grants uid s = rev (filter (\<lambda>g. og_user g = uid \<and> og_revoked_at g = None) (oauth_grants s))"

definition revoke_grant :: "env \<Rightarrow> id \<Rightarrow> id \<Rightarrow> db \<Rightarrow> db" where
  "revoke_grant E uid gid s =
     (case find_row (\<lambda>g. og_id g = gid) (oauth_grants s) of
        None \<Rightarrow> s
      | Some g \<Rightarrow>
          if og_user g \<noteq> uid then s
          else record_event E uid OAUTH_APP_REVOKED no_meta
            (s\<lparr>oauth_grants := update_rows (\<lambda>g. og_id g = gid)
                 (\<lambda>g. g\<lparr>og_revoked_at := Some (now E)\<rparr>) (oauth_grants s),
               oauth_tokens := update_rows
                 (\<lambda>t. ot_user t = uid \<and> ot_client t = og_client g \<and> ot_revoked_at t = None)
                 (\<lambda>t. t\<lparr>ot_revoked_at := Some (now E)\<rparr>) (oauth_tokens s)\<rparr>))"

section \<open>Authorization codes\<close>

definition auth_code_ttl :: time where
  "auth_code_ttl = 60000"

definition find_code :: "string \<Rightarrow> db \<Rightarrow> auth_code option" where
  "find_code code s = find_row (\<lambda>r. ac_code r = code) (auth_codes s)"

definition new_auth_code ::
  "env \<Rightarrow> id \<Rightarrow> id \<Rightarrow> string \<Rightarrow> string \<Rightarrow> string option \<Rightarrow> string option \<Rightarrow> auth_code" where
  "new_auth_code E uid cdb redirect scope challenge meth =
     \<lparr>ac_id = new_id E T_AuthCode 0, ac_code = draw E AuthCodeDraw 0, ac_user = uid, ac_client = cdb,
      ac_redirect = redirect, ac_scope = scope, ac_challenge = challenge, ac_method = meth,
      ac_expires = now E + auth_code_ttl, ac_used_at = None\<rparr>"

definition issue_code ::
  "env \<Rightarrow> id \<Rightarrow> id \<Rightarrow> string \<Rightarrow> string \<Rightarrow> string option \<Rightarrow> string option \<Rightarrow> (db, string) handler" where
  "issue_code E uid cdb redirect scope challenge meth s =
     (let r = new_auth_code E uid cdb redirect scope challenge meth
      in if find_code (ac_code r) s \<noteq> None then (throw unique_violation, s)
         else (ok (ac_code r), s\<lparr>auth_codes := auth_codes s @ [r]\<rparr>))"

definition redeem_code :: "env \<Rightarrow> string \<Rightarrow> id \<Rightarrow> string \<Rightarrow> (db, auth_code) handler" where
  "redeem_code E code cdb redirect s =
     (case find_code code s of
        None \<Rightarrow> (throw (BadRequest ''Unknown authorization code.''), s)
      | Some r \<Rightarrow>
          if ac_expires r < now E then (throw (BadRequest ''Authorization code has expired.''), s)
          else if ac_client r \<noteq> cdb
          then (throw (BadRequest ''Authorization code was not issued to this client.''), s)
          else if ac_redirect r \<noteq> redirect
          then (throw (BadRequest ''redirect_uri does not match the one used to obtain this code.''), s)
          else if count_rows (\<lambda>r. ac_code r = code \<and> ac_used_at r = None) (auth_codes s) = 0
          then (throw (Conflict ''This authorization code was already used.''), s)
          else (ok r, s\<lparr>auth_codes := update_rows (\<lambda>r. ac_code r = code \<and> ac_used_at r = None)
                          (\<lambda>r. r\<lparr>ac_used_at := Some (now E)\<rparr>) (auth_codes s)\<rparr>))"

definition verify_pkce_challenge :: "env \<Rightarrow> string \<Rightarrow> string \<Rightarrow> bool" where
  "verify_pkce_challenge E verifier challenge = (sha256_b64url E verifier = challenge)"

section \<open>Token sets\<close>

definition oauth_refresh_ttl :: time where
  "oauth_refresh_ttl = days 30"

record token_set =
  ts_access :: string
  ts_id :: string
  ts_refresh :: string
  ts_expires_in :: nat
  ts_scope :: string

definition find_token :: "string \<Rightarrow> db \<Rightarrow> oauth_refresh option" where
  "find_token h s = find_row (\<lambda>t. ot_hash t = h) (oauth_tokens s)"

abbreviation update_tokens :: "(oauth_refresh \<Rightarrow> bool) \<Rightarrow> (oauth_refresh \<Rightarrow> oauth_refresh) \<Rightarrow> db \<Rightarrow> db" where
  "update_tokens P f s \<equiv> s\<lparr>oauth_tokens := update_rows P f (oauth_tokens s)\<rparr>"

text \<open>The arguments of \<^verbatim>\<open>issueTokenSet\<close>.\<close>

record token_params =
  tk_user_id :: id
  tk_ndy_id :: string
  tk_client_db :: id
  tk_client_id :: string
  tk_scope :: string
  tk_claims :: "(string \<times> json) list"
  tk_family :: "string option"
  tk_device :: "string option"

definition new_token :: "env \<Rightarrow> token_params \<Rightarrow> id option \<Rightarrow> oauth_refresh" where
  "new_token E p dev =
     \<lparr>ot_id = new_id E T_OAuthRefresh 0, ot_hash = hash_token E (draw E OAuthRefreshDraw 0),
      ot_user = tk_user_id p, ot_client = tk_client_db p, ot_scope = tk_scope p,
      ot_family = or_else (tk_family p) (draw E FamilyDraw 0), ot_device = dev,
      ot_created_at = now E, ot_expires = now E + oauth_refresh_ttl, ot_revoked_at = None\<rparr>"

definition issue_token_set :: "env \<Rightarrow> token_params \<Rightarrow> (db, token_set) handler" where
  "issue_token_set E p s =
     (let (dev, s1) = resolve_device E (tk_user_id p) (tk_device p) None s;
          t = new_token E p dev
      in if find_token (ot_hash t) s1 \<noteq> None then (throw unique_violation, s1)
         else (ok \<lparr>ts_access = sign_jwt E (OAuthClaims (tk_user_id p) (tk_ndy_id p) (tk_client_id p) (tk_scope p)),
                   ts_id = sign_id_token E
                     ([(''iss'', JStr (web_app_url E)), (''sub'', JStr (tk_user_id p)),
                       (''aud'', JStr (tk_client_id p)), (''token_use'', JStr ''id_token'')] @ tk_claims p),
                   ts_refresh = draw E OAuthRefreshDraw 0, ts_expires_in = 3600,
                   ts_scope = tk_scope p\<rparr>,
               s1\<lparr>oauth_tokens := oauth_tokens s1 @ [t]\<rparr>))"

definition reuse_notice :: "oauth_refresh \<Rightarrow> notify_params" where
  "reuse_notice t =
     \<lparr>np_user = ot_user t, np_workspace = None, np_category = SECURITY, np_channel = EMAIL_CHANNEL,
      np_title = ''Suspicious activity on your NDY HUB connected apps'',
      np_body = ''A login token for one of your connected apps was used more than once, which usually means it was copied or intercepted. We've signed that connection out as a precaution - you may need to reconnect the app.'',
      np_link = None, np_source = Some (''oauth-reuse-detected:'' @ ot_family t)\<rparr>"

definition refresh_refused :: http_error where
  "refresh_refused = Unauthorized ''Refresh token is invalid, expired, or revoked.''"

definition kill_family :: "env \<Rightarrow> string \<Rightarrow> db \<Rightarrow> db" where
  "kill_family E fam s =
     update_tokens (\<lambda>t. ot_family t = fam \<and> ot_revoked_at t = None)
       (\<lambda>t. t\<lparr>ot_revoked_at := Some (now E)\<rparr>) s"

definition rotate_refresh_token ::
  "env \<Rightarrow> string \<Rightarrow> id \<Rightarrow> (db, id \<times> string \<times> string \<times> string) handler" where
  "rotate_refresh_token E token cdb s =
     (case find_token (hash_token E token) s of
        None \<Rightarrow> (throw refresh_refused, s)
      | Some t \<Rightarrow>
          if ot_client t \<noteq> cdb then (throw refresh_refused, s)
          else if ot_revoked_at t \<noteq> None
          then (throw refresh_refused,
                snd (notify E (reuse_notice t)
                  (record_event E (ot_user t) OAUTH_TOKEN_REUSE_DETECTED no_meta
                    (kill_family E (ot_family t) s))))
          else if ot_expires t < now E then (throw refresh_refused, s)
          else case find_user (ot_user t) s of
            None \<Rightarrow> (throw record_missing, s)
          | Some u \<Rightarrow>
              (ok (ot_user t, u_ndy_id u, ot_scope t, ot_family t),
               update_tokens (\<lambda>x. ot_id x = ot_id t) (\<lambda>x. x\<lparr>ot_revoked_at := Some (now E)\<rparr>) s))"

definition scopes_grant_claims :: "string \<Rightarrow> user \<Rightarrow> (string \<times> json) list" where
  "scopes_grant_claims scope u =
     [(''ndy_id'', JStr (u_ndy_id u))] @
     (if ''profile'' \<in> set (parse_scope scope)
      then [(''name'', case full_name (u_passport u) of None \<Rightarrow> JNull | Some n \<Rightarrow> JStr n)] else []) @
     (if ''email'' \<in> set (parse_scope scope) then [(''email'', JStr (u_email u))] else [])"

text \<open>
  The check of \<^verbatim>\<open>token_use\<close> throws inside the \<^verbatim>\<open>try\<close>, so a dashboard token gets the generic reply.
\<close>

definition verify_access_token :: "env \<Rightarrow> string \<Rightarrow> claims reply" where
  "verify_access_token E token =
     (case verify_jwt E token of
        Some (OAuthClaims u n c sc) \<Rightarrow> ok (OAuthClaims u n c sc)
      | _ \<Rightarrow> throw (Unauthorized ''Invalid or expired access token.''))"

definition oauth_access_token_guard :: "env \<Rightarrow> string option \<Rightarrow> claims reply" where
  "oauth_access_token_guard E header =
     (case extract_bearer_token header of
        None \<Rightarrow> throw (Unauthorized ''Missing bearer token.'')
      | Some t \<Rightarrow> verify_access_token E t)"

section \<open>The authorize endpoint\<close>

type_synonym redirect_url = "string \<times> (string \<times> string) list"

definition set_param :: "string \<Rightarrow> string option \<Rightarrow> (string \<times> string) list" where
  "set_param k v = (if truthy v then [(k, the v)] else [])"

record authorize_query =
  aq_client :: string
  aq_redirect :: string
  aq_response_type :: string
  aq_scope :: "string option"
  aq_state :: "string option"
  aq_challenge :: "string option"
  aq_method :: "string option"

definition authorize :: "env \<Rightarrow> authorize_query \<Rightarrow> db \<Rightarrow> redirect_url reply" where
  "authorize E q s =
     (if aq_response_type q \<noteq> ''code'' then throw (BadRequest ''Only response_type=code is supported.'')
      else if truthy (aq_challenge q) \<and> aq_method q \<noteq> Some ''S256''
      then throw (BadRequest ''code_challenge_method must be S256 when code_challenge is present.'')
      else case find_by_client_id (aq_client q) s of
        Inl _ \<Rightarrow> throw (BadRequest ''Unknown client_id.'')
      | Inr c \<Rightarrow>
          let requested = parse_scope (or_else (aq_scope q) ''openid'')
          in if aq_redirect q \<notin> set (oc_redirects c)
             then throw (BadRequest ''redirect_uri is not registered for this client.'')
             else if oc_type c = PUBLIC \<and> \<not> truthy (aq_challenge q)
             then throw (BadRequest ''code_challenge is required for public clients (PKCE, RFC 8252).'')
             else if \<not> is_subset_scope requested (oc_scopes c)
             then throw (BadRequest ''One or more requested scopes are not allowed for this client.'')
             else ok (web_app_url E @ ''/oauth/consent'',
                      [(''client_id'', aq_client q), (''redirect_uri'', aq_redirect q),
                       (''scope'', join_scope requested)] @
                      set_param ''state'' (aq_state q) @
                      (if truthy (aq_challenge q)
                       then [(''code_challenge'', the (aq_challenge q)), (''code_challenge_method'', ''S256'')]
                       else [])))"

definition authorize_status ::
  "id \<Rightarrow> string \<Rightarrow> string \<Rightarrow> db \<Rightarrow>
     ((string \<times> string \<times> string list) \<times> (string \<times> string) list \<times> bool) reply" where
  "authorize_status uid cid scope s =
     (case find_by_client_id cid s of
        Inl e \<Rightarrow> throw e
      | Inr c \<Rightarrow>
          ok ((oc_client_id c, oc_name c, oc_scopes c),
              map (\<lambda>w. (w, or_else (map_of oidc_scopes w) w)) (parse_scope scope),
              find_existing_covering_grant uid (oc_id c) scope s \<noteq> None))"

record consent_dto =
  cd_client :: string
  cd_redirect :: string
  cd_scope :: string
  cd_state :: "string option"
  cd_approve :: bool
  cd_challenge :: "string option"
  cd_method :: "string option"

definition consent :: "env \<Rightarrow> id \<Rightarrow> consent_dto \<Rightarrow> (db, redirect_url) handler" where
  "consent E uid d s =
     (case find_by_client_id (cd_client d) s of
        Inl e \<Rightarrow> (throw e, s)
      | Inr c \<Rightarrow>
          if cd_redirect d \<notin> set (oc_redirects c)
          then (throw (BadRequest ''redirect_uri is not registered for this client.''), s)
          else if \<not> is_subset_scope (parse_scope (cd_scope d)) (oc_scopes c)
          then (throw (BadRequest ''One or more requested scopes are not allowed for this client.''), s)
          else if truthy (cd_challenge d) \<and> \<not> truthy (cd_method d)
          then (throw (BadRequest ''code_challenge_method is required when code_challenge is present.''), s)
          else if \<not> cd_approve d
          then (ok (cd_redirect d, (''error'', ''access_denied'') # set_param ''state'' (cd_state d)), s)
          else and_then (issue_code E uid (oc_id c) (cd_redirect d) (cd_scope d) (cd_challenge d) (cd_method d))
                 (\<lambda>code s1. (ok (cd_redirect d, (''code'', code) # set_param ''state'' (cd_state d)), s1))
                 (snd (upsert_grant E uid (oc_id c) (cd_scope d) s)))"

section \<open>The token endpoint\<close>

datatype grant_type = AuthorizationCodeGrant | RefreshTokenGrant | PasswordGrant

record token_dto =
  td_grant :: grant_type
  td_client :: string
  td_secret :: "string option"
  td_code :: "string option"
  td_redirect :: "string option"
  td_refresh :: "string option"
  td_verifier :: "string option"
  td_username :: "string option"
  td_password :: "string option"
  td_scope :: "string option"

definition client_params ::
  "oauth_client \<Rightarrow> id \<Rightarrow> string \<Rightarrow> string \<Rightarrow> (string \<times> json) list \<Rightarrow> string option \<Rightarrow> string option \<Rightarrow> token_params" where
  "client_params c uid ndy scope cl family dev =
     \<lparr>tk_user_id = uid, tk_ndy_id = ndy, tk_client_db = oc_id c, tk_client_id = oc_client_id c,
      tk_scope = scope, tk_claims = cl, tk_family = family, tk_device = dev\<rparr>"

text \<open>The two PKCE checks the code exchange makes after it has redeemed the code.\<close>

definition pkce_error :: "env \<Rightarrow> oauth_client \<Rightarrow> auth_code \<Rightarrow> string option \<Rightarrow> http_error option" where
  "pkce_error E c r verifier =
     (if oc_type c = PUBLIC \<and> \<not> truthy (ac_challenge r)
      then Some (BadRequest ''PKCE (code_challenge) is required for public clients.'')
      else if truthy (ac_challenge r) \<and> \<not> truthy verifier
      then Some (BadRequest ''code_verifier is required - this authorization request used PKCE.'')
      else if truthy (ac_challenge r) \<and> \<not> verify_pkce_challenge E (the verifier) (the (ac_challenge r))
      then Some (BadRequest ''code_verifier does not match code_challenge.'')
      else None)"

definition handle_authorization_code_grant ::
  "env \<Rightarrow> token_dto \<Rightarrow> oauth_client \<Rightarrow> string option \<Rightarrow> (db, token_set) handler" where
  "handle_authorization_code_grant E d c dev s =
     (if \<not> truthy (td_code d) \<or> \<not> truthy (td_redirect d)
      then (throw (BadRequest ''code and redirect_uri are required for this grant_type.''), s)
      else and_then (redeem_code E (the (td_code d)) (oc_id c) (the (td_redirect d)))
        (\<lambda>r s1. case pkce_error E c r (td_verifier d) of
             Some e \<Rightarrow> (throw e, s1)
           | None \<Rightarrow>
               (case find_by_id (ac_user r) s1 of
                  Inl e \<Rightarrow> (throw e, s1)
                | Inr u \<Rightarrow>
                    issue_token_set E (client_params c (u_id u) (u_ndy_id u) (ac_scope r)
                      (scopes_grant_claims (ac_scope r) u) None dev) s1)) s)"

text \<open>\<^verbatim>\<open>openid\<close> is put in front when the filtered request does not have it.\<close>

definition with_openid :: "string list \<Rightarrow> string" where
  "with_openid ws = (if ''openid'' \<in> set ws then join_scope ws else join_scope (''openid'' # ws))"

definition password_grant_scope :: "string option \<Rightarrow> oauth_client \<Rightarrow> string" where
  "password_grant_scope requested c =
     with_openid (filter (\<lambda>w. w \<in> set (oc_scopes c))
       (parse_scope (or_else requested ''openid profile email'')))"

definition handle_password_grant ::
  "env \<Rightarrow> token_dto \<Rightarrow> oauth_client \<Rightarrow> string option \<Rightarrow> (db, token_set) handler" where
  "handle_password_grant E d c dev s =
     (if oc_client_id c \<notin> set (password_grant_clients E)
      then (throw (Forbidden ''This client is not authorized to use the password grant.''), s)
      else if \<not> truthy (td_username d) \<or> \<not> truthy (td_password d)
      then (throw (BadRequest ''username and password are required for this grant_type.''), s)
      else case validate_credentials_for_password_grant E (the (td_username d)) (the (td_password d)) s of
        Inl e \<Rightarrow> (throw e, s)
      | Inr (uid, _) \<Rightarrow>
          (case find_by_id uid s of
             Inl e \<Rightarrow> (throw e, s)
           | Inr u \<Rightarrow>
               let scope = password_grant_scope (td_scope d) c
               in issue_token_set E (client_params c (u_id u) (u_ndy_id u) scope
                    (scopes_grant_claims scope u) None dev) s))"

definition handle_refresh_token_grant ::
  "env \<Rightarrow> token_dto \<Rightarrow> oauth_client \<Rightarrow> string option \<Rightarrow> (db, token_set) handler" where
  "handle_refresh_token_grant E d c dev s =
     (if \<not> truthy (td_refresh d)
      then (throw (BadRequest ''refresh_token is required for this grant_type.''), s)
      else and_then (rotate_refresh_token E (the (td_refresh d)) (oc_id c))
        (\<lambda>(uid, ndy, scope, fam) s1.
           case find_by_id uid s1 of
             Inl e \<Rightarrow> (throw e, s1)
           | Inr u \<Rightarrow>
               issue_token_set E (client_params c uid ndy scope (scopes_grant_claims scope u) (Some fam) dev) s1) s)"

definition token_endpoint :: "env \<Rightarrow> token_dto \<Rightarrow> string option \<Rightarrow> (db, token_set) handler" where
  "token_endpoint E d dev s =
     (case find_by_client_id (td_client d) s of
        Inl _ \<Rightarrow> (throw (Unauthorized ''Invalid client credentials.''), s)
      | Inr c \<Rightarrow>
          if \<not> verify_secret E c (td_secret d)
          then (throw (Unauthorized ''Invalid client credentials.''), s)
          else case td_grant d of
            AuthorizationCodeGrant \<Rightarrow> handle_authorization_code_grant E d c dev s
          | PasswordGrant \<Rightarrow> handle_password_grant E d c dev s
          | RefreshTokenGrant \<Rightarrow> handle_refresh_token_grant E d c dev s)"

end
