(* ===== verification/AppTokens.thy ===== *)
theory AppTokens
  imports OAuth
begin

text \<open>
  What the provider promises about the tokens of connected apps: codes and refresh tokens are
  single use, a reused refresh token kills its whole family for good, every token traces back to a
  consent of its user (or to the password grant of an allow-listed client), the conditions under
  which a code is exchanged, and what revoking a connection reaches.
\<close>

section \<open>The operations of the provider\<close>

datatype oauth_op =
    TokenRequest token_dto "string option"
  | GiveConsent id consent_dto
  | RevokeConnection id id
  | RegisterClient string "string list" "string list" "oauth_client_type option"
  | EditClient id client_patch
  | SwitchClient id bool
  | RevokeAppDevice id id
  | RevokeAllAppDevices id

fun oauth_step :: "env \<times> oauth_op \<Rightarrow> db \<Rightarrow> bool \<times> db" where
  "oauth_step (E, TokenRequest d dev) s = answered (token_endpoint E d dev s)"
| "oauth_step (E, GiveConsent u d) s = answered (consent E u d s)"
| "oauth_step (E, RevokeConnection u g) s = (True, revoke_grant E u g s)"
| "oauth_step (E, RegisterClient n r sc t) s = answered (create_client E n r sc t s)"
| "oauth_step (E, EditClient i p) s = answered (update_client i p s)"
| "oauth_step (E, SwitchClient i b) s = answered (set_client_active i b s)"
| "oauth_step (E, RevokeAppDevice u d) s = answered (revoke_device E u d s)"
| "oauth_step (E, RevokeAllAppDevices u) s = (True, snd (revoke_all_devices E u s))"

section \<open>Frames\<close>

lemma beside_oauth:
  assumes "beside_sign_in s' = beside_sign_in s"
  shows "auth_codes s' = auth_codes s" "oauth_clients s' = oauth_clients s"
    "oauth_grants s' = oauth_grants s"
proof -
  have "auth_codes (beside_sign_in s') = auth_codes (beside_sign_in s)"
    "oauth_clients (beside_sign_in s') = oauth_clients (beside_sign_in s)"
    "oauth_grants (beside_sign_in s') = oauth_grants (beside_sign_in s)"
    by (simp_all only: assms)
  then show "auth_codes s' = auth_codes s" "oauth_clients s' = oauth_clients s"
    "oauth_grants s' = oauth_grants s"
    by (simp_all add: beside_sign_in_def)
qed

lemmas resolve_device_oauth [simp] = beside_oauth [OF beside_resolve_device]

lemma record_event_oauth [simp]:
  "auth_codes (record_event E u t m s) = auth_codes s"
  "oauth_clients (record_event E u t m s) = oauth_clients s"
  "oauth_grants (record_event E u t m s) = oauth_grants s"
  by (simp_all add: record_event_def)

lemma notify_oauth [simp]:
  "auth_codes (snd (notify E p s)) = auth_codes s"
  "oauth_tokens (snd (notify E p s)) = oauth_tokens s"
  "oauth_clients (snd (notify E p s)) = oauth_clients s"
  "security_events (snd (notify E p s)) = security_events s"
  by (simp_all add: notify_def deliver_def Let_def split: option.splits notification_channel.splits)

lemma upsert_grant_oauth [simp]:
  "auth_codes (snd (upsert_grant E u c sc s)) = auth_codes s"
  "oauth_tokens (snd (upsert_grant E u c sc s)) = oauth_tokens s"
  by (simp_all add: upsert_grant_def Let_def split: option.splits)

lemma revoke_tagged_oauth [simp]:
  "auth_codes (revoke_tagged E D s) = auth_codes s"
  by (simp add: revoke_tagged_def)

text \<open>What issuing a token set leaves behind.\<close>

lemma issue_token_set_effect:
  assumes "issue_token_set E p s = (r, s')"
  shows "auth_codes s' = auth_codes s \<and>
    (case r of
       Inl _ \<Rightarrow> oauth_tokens s' = oauth_tokens s
     | Inr ts \<Rightarrow> ts_scope ts = tk_scope p \<and> find_token (hash_token E (draw E OAuthRefreshDraw 0)) s = None \<and>
         (\<exists>dev. oauth_tokens s' = oauth_tokens s @ [new_token E p dev]))"
proof -
  obtain dev s1 where r: "resolve_device E (tk_user_id p) (tk_device p) None s = (dev, s1)"
    by fastforce
  have "oauth_tokens s1 = oauth_tokens s" "auth_codes s1 = auth_codes s"
    using resolve_device_frame [of E "tk_user_id p" "tk_device p" None s]
      resolve_device_oauth [of E "tk_user_id p" "tk_device p" None s] by (simp_all add: r)
  then show ?thesis
    using assms by (auto simp: issue_token_set_def r Let_def find_token_def new_token_def split: if_splits)
qed

lemma redeem_code_ok:
  assumes "redeem_code E code cdb redirect s = (Inr r, s')"
  shows "find_code code s = Some r" "now E \<le> ac_expires r" "ac_client r = cdb"
    "ac_redirect r = redirect" "\<exists>x \<in> set (auth_codes s). ac_code x = code \<and> ac_used_at x = None"
    "s' = s\<lparr>auth_codes := update_rows (\<lambda>r. ac_code r = code \<and> ac_used_at r = None)
                           (\<lambda>r. r\<lparr>ac_used_at := Some (now E)\<rparr>) (auth_codes s)\<rparr>"
  using assms by (auto simp: redeem_code_def count_rows_0_iff split: option.splits if_splits)

lemma redeem_code_error: "redeem_code E code cdb redirect s = (Inl e, s') \<Longrightarrow> s' = s"
  by (auto simp: redeem_code_def split: option.splits if_splits)

lemma rotate_refresh_ok:
  assumes "rotate_refresh_token E tok cdb s = (Inr (uid, ndy, scope, fam), s')"
  obtains t where "find_token (hash_token E tok) s = Some t" "ot_client t = cdb"
    "ot_revoked_at t = None" "now E \<le> ot_expires t" "uid = ot_user t" "scope = ot_scope t"
    "fam = ot_family t"
    "s' = update_tokens (\<lambda>x. ot_id x = ot_id t) (\<lambda>x. x\<lparr>ot_revoked_at := Some (now E)\<rparr>) s"
  using assms by (auto simp: rotate_refresh_token_def split: option.splits if_splits)

lemma rotate_refresh_error:
  assumes "rotate_refresh_token E tok cdb s = (Inl e, s')"
  shows "auth_codes s' = auth_codes s \<and>
    (oauth_tokens s' = oauth_tokens s \<or> (\<exists>f. oauth_tokens s' = oauth_tokens (kill_family E f s)))"
  using assms by (auto simp: rotate_refresh_token_def split: option.splits if_splits)
    (auto simp: kill_family_def)

section \<open>Codes and tokens only move forward\<close>

definition code_later :: "auth_code \<Rightarrow> auth_code \<Rightarrow> bool" where
  "code_later x y =
     (\<exists>u. y = x\<lparr>ac_used_at := u\<rparr> \<and> (ac_used_at x \<noteq> None \<longrightarrow> u \<noteq> None))"

definition token_later :: "oauth_refresh \<Rightarrow> oauth_refresh \<Rightarrow> bool" where
  "token_later x y =
     (\<exists>u. y = x\<lparr>ot_revoked_at := u\<rparr> \<and> (ot_revoked_at x \<noteq> None \<longrightarrow> u \<noteq> None))"

lemma code_later_same: "code_later x y \<Longrightarrow> ac_code y = ac_code x \<and> ac_user y = ac_user x \<and>
    ac_client y = ac_client x \<and> ac_scope y = ac_scope x"
  by (auto simp: code_later_def)

lemma token_later_same: "token_later x y \<Longrightarrow> ot_hash y = ot_hash x \<and> ot_user y = ot_user x \<and>
    ot_client y = ot_client x \<and> ot_scope y = ot_scope x \<and> ot_family y = ot_family x \<and>
    (ot_revoked_at x \<noteq> None \<longrightarrow> ot_revoked_at y \<noteq> None)"
  by (auto simp: token_later_def)

interpretation code_history: row_history code_later
proof
  show "code_later x x" for x by (auto simp: code_later_def intro: exI [of _ "ac_used_at x"])
  show "code_later x z" if "code_later x y" "code_later y z" for x y z
    using that by (auto simp: code_later_def)
qed

interpretation token_history: row_history token_later
proof
  show "token_later x x" for x by (auto simp: token_later_def intro: exI [of _ "ot_revoked_at x"])
  show "token_later x z" if "token_later x y" "token_later y z" for x y z
    using that by (auto simp: token_later_def)
qed

text \<open>Everything a token request can do to codes and tokens.\<close>

abbreviation spend_code :: "env \<Rightarrow> string \<Rightarrow> auth_code list \<Rightarrow> auth_code list" where
  "spend_code E code rows \<equiv> update_rows (\<lambda>r. ac_code r = code \<and> ac_used_at r = None)
     (\<lambda>r. r\<lparr>ac_used_at := Some (now E)\<rparr>) rows"

abbreviation spend_token :: "env \<Rightarrow> oauth_refresh \<Rightarrow> oauth_refresh list \<Rightarrow> oauth_refresh list" where
  "spend_token E t rows \<equiv> update_rows (\<lambda>x. ot_id x = ot_id t)
     (\<lambda>x. x\<lparr>ot_revoked_at := Some (now E)\<rparr>) rows"

lemma token_endpoint_client:
  assumes "token_endpoint E d dev s = (r, s')"
  obtains (refused) e where "r = Inl e" "s' = s"
  | (authenticated) c where "find_by_client_id (td_client d) s = Inr c" "verify_secret E c (td_secret d)"
      "(case td_grant d of
          AuthorizationCodeGrant \<Rightarrow> handle_authorization_code_grant E d c dev s
        | PasswordGrant \<Rightarrow> handle_password_grant E d c dev s
        | RefreshTokenGrant \<Rightarrow> handle_refresh_token_grant E d c dev s) = (r, s')"
  using assms by (auto simp: token_endpoint_def split: sum.splits if_splits)

lemma code_grant_cases:
  assumes "handle_authorization_code_grant E d c dev s = (r, s')"
  obtains (same) e where "r = Inl e" "s' = s"
  | (spent) code redirect a where "td_code d = Some code" "td_redirect d = Some redirect"
      "find_code code s = Some a" "now E \<le> ac_expires a" "ac_client a = oc_id c" "ac_redirect a = redirect"
      "\<exists>x \<in> set (auth_codes s). ac_code x = code \<and> ac_used_at x = None"
      "auth_codes s' = spend_code E code (auth_codes s)"
      "case r of Inl _ \<Rightarrow> oauth_tokens s' = oauth_tokens s
       | Inr ts \<Rightarrow> pkce_error E c a (td_verifier d) = None \<and> ts_scope ts = ac_scope a \<and>
           (\<exists>p dv. tk_user_id p = ac_user a \<and> tk_client_db p = oc_id c \<and> tk_scope p = ac_scope a \<and>
              tk_family p = None \<and> find_token (hash_token E (draw E OAuthRefreshDraw 0)) s = None \<and>
              oauth_tokens s' = oauth_tokens s @ [new_token E p dv])"
proof (cases "truthy (td_code d) \<and> truthy (td_redirect d)")
  case False
  then show ?thesis using assms that(1) by (auto simp: handle_authorization_code_grant_def)
next
  case True
  then obtain code redirect where dd: "td_code d = Some code" "td_redirect d = Some redirect"
    by (auto simp: truthy_iff)
  obtain q s1 where red: "redeem_code E code (oc_id c) redirect s = (q, s1)" by fastforce
  show ?thesis
  proof (cases q)
    case (Inl e)
    then show ?thesis
      using assms True dd red redeem_code_error [of E code "oc_id c" redirect s e s1] that(1)
      by (auto simp: handle_authorization_code_grant_def and_then_def)
  next
    case (Inr a)
    note ok = redeem_code_ok [OF red [unfolded Inr]]
    have codes: "auth_codes s1 = spend_code E code (auth_codes s)" and toks: "oauth_tokens s1 = oauth_tokens s"
      by (simp_all add: ok(6))
    have rest: "(case pkce_error E c a (td_verifier d) of
             Some e \<Rightarrow> (throw e, s1)
           | None \<Rightarrow>
               (case find_by_id (ac_user a) s1 of
                  Inl e \<Rightarrow> (throw e, s1)
                | Inr u \<Rightarrow>
                    issue_token_set E (client_params c (u_id u) (u_ndy_id u) (ac_scope a)
                      (scopes_grant_claims (ac_scope a) u) None dev) s1)) = (r, s')"
      using assms True dd red Inr by (simp add: handle_authorization_code_grant_def and_then_def)
    show ?thesis
    proof (cases "pkce_error E c a (td_verifier d) = None \<and> (\<exists>u. find_by_id (ac_user a) s1 = Inr u)")
      case False
      with rest obtain e where "r = Inl e" "s' = s1"
        by (auto split: option.splits sum.splits)
      with dd ok codes toks show ?thesis by (intro that(2)) auto
    next
      case True
      then obtain u where u: "find_by_id (ac_user a) s1 = Inr u" by blast
      then have "u_id u = ac_user a"
        by (auto simp: find_by_id_def dest: find_user_D split: option.splits)
      with True u rest have "issue_token_set E (client_params c (ac_user a) (u_ndy_id u) (ac_scope a)
                      (scopes_grant_claims (ac_scope a) u) None dev) s1 = (r, s')" by simp
      from issue_token_set_effect [OF this] True show ?thesis
        using dd ok codes toks
        by (intro that(2))
          (auto simp: client_params_def find_token_def split: sum.splits intro!: exI)
    qed
  qed
qed

lemma refresh_grant_cases:
  assumes "handle_refresh_token_grant E d c dev s = (r, s')"
  obtains (same) e where "r = Inl e" "auth_codes s' = auth_codes s" "oauth_tokens s' = oauth_tokens s"
  | (killed) e f where "r = Inl e" "auth_codes s' = auth_codes s"
      "oauth_tokens s' = oauth_tokens (kill_family E f s)"
  | (spent) tok t where "td_refresh d = Some tok" "find_token (hash_token E tok) s = Some t"
      "ot_client t = oc_id c" "ot_revoked_at t = None" "now E \<le> ot_expires t"
      "auth_codes s' = auth_codes s"
      "case r of Inl _ \<Rightarrow> oauth_tokens s' = spend_token E t (oauth_tokens s)
       | Inr ts \<Rightarrow> ts_scope ts = ot_scope t \<and>
           (\<exists>p dv. tk_user_id p = ot_user t \<and> tk_client_db p = oc_id c \<and> tk_scope p = ot_scope t \<and>
              tk_family p = Some (ot_family t) \<and>
              oauth_tokens s' = spend_token E t (oauth_tokens s) @ [new_token E p dv])"
proof (cases "truthy (td_refresh d)")
  case False
  then show ?thesis using assms that(1) by (auto simp: handle_refresh_token_grant_def)
next
  case True
  then obtain tok where dd: "td_refresh d = Some tok" by (auto simp: truthy_iff)
  obtain q s1 where rot: "rotate_refresh_token E tok (oc_id c) s = (q, s1)" by fastforce
  show ?thesis
  proof (cases q)
    case (Inl e)
    then have "r = Inl e \<and> s' = s1"
      using assms True dd rot by (auto simp: handle_refresh_token_grant_def and_then_def)
    with rotate_refresh_error [OF rot [unfolded Inl]] show ?thesis using that(1,2) by blast
  next
    case (Inr v)
    obtain uid ndy scope fam where v: "v = (uid, ndy, scope, fam)" by (cases v)
    from rot [unfolded Inr v] show ?thesis
    proof (rule rotate_refresh_ok)
      fix t :: oauth_refresh
      assume t: "find_token (hash_token E tok) s = Some t" "ot_client t = oc_id c" "ot_revoked_at t = None"
        "now E \<le> ot_expires t" "uid = ot_user t" "scope = ot_scope t" "fam = ot_family t"
        "s1 = update_tokens (\<lambda>x. ot_id x = ot_id t) (\<lambda>x. x\<lparr>ot_revoked_at := Some (now E)\<rparr>) s"
      then have one: "auth_codes s1 = auth_codes s" "oauth_tokens s1 = spend_token E t (oauth_tokens s)"
        by simp_all
      have rest: "(case find_by_id uid s1 of
          Inl e \<Rightarrow> (throw e, s1)
        | Inr u \<Rightarrow> issue_token_set E (client_params c uid ndy scope (scopes_grant_claims scope u)
                     (Some fam) dev) s1) = (r, s')"
        using assms True dd rot Inr v by (simp add: handle_refresh_token_grant_def and_then_def)
      show ?thesis
      proof (cases "find_by_id uid s1")
        case (Inl e)
        with rest have "r = Inl e \<and> s' = s1" by simp
        with t one dd show ?thesis by (intro that(3)) auto
      next
        case (Inr u)
        with rest have "issue_token_set E (client_params c uid ndy scope (scopes_grant_claims scope u)
            (Some fam) dev) s1 = (r, s')" by simp
        from issue_token_set_effect [OF this] show ?thesis
          using dd t(1-7) one by (intro that(3)) (auto simp: client_params_def split: sum.splits intro!: exI)
      qed
    qed
  qed
qed

lemma password_grant_cases:
  assumes "handle_password_grant E d c dev s = (r, s')"
  obtains (same) e where "r = Inl e" "auth_codes s' = auth_codes s" "oauth_tokens s' = oauth_tokens s"
  | (issued) ts p dv n where "r = Inr ts" "oc_client_id c \<in> set (password_grant_clients E)"
      "validate_credentials_for_password_grant E (the (td_username d)) (the (td_password d)) s =
         Inr (tk_user_id p, n)"
      "tk_client_db p = oc_id c" "tk_family p = None" "auth_codes s' = auth_codes s"
      "oauth_tokens s' = oauth_tokens s @ [new_token E p dv]"
proof -
  have *: thesis if val: "validate_credentials_for_password_grant E (the (td_username d)) (the (td_password d)) s =
        Inr (uid, n)" and u: "find_by_id uid s = Inr u" and w: "oc_client_id c \<in> set (password_grant_clients E)"
      and "issue_token_set E (client_params c (u_id u) (u_ndy_id u) sc cl None dev) s = (r, s')"
    for uid n u sc cl
  proof -
    have "u_id u = uid"
      using u by (auto simp: find_by_id_def dest: find_user_D split: option.splits)
    then show thesis
      using issue_token_set_effect [OF that(4)] val w that
      by (cases r) (auto simp: client_params_def intro: same issued [where p = "client_params c uid (u_ndy_id u) sc cl None dev"])
  qed
  show thesis
    using assms *
    by (auto simp: handle_password_grant_def Let_def intro: same split: if_splits sum.splits prod.splits)
qed

section \<open>Every operation moves codes and tokens forward\<close>

definition credentials_advance :: "db \<Rightarrow> db \<Rightarrow> bool" where
  "credentials_advance s s' =
     (rows_advance code_later (auth_codes s) (auth_codes s') \<and>
      rows_advance token_later (oauth_tokens s) (oauth_tokens s'))"

lemma credentials_advance_same:
  "auth_codes s' = auth_codes s \<Longrightarrow> oauth_tokens s' = oauth_tokens s \<Longrightarrow> credentials_advance s s'"
  by (simp add: credentials_advance_def)

lemma revoke_tokens_later:
  "rows_advance token_later xs (update_rows P (\<lambda>x. x\<lparr>ot_revoked_at := Some t\<rparr>) xs)"
  by (rule token_history.advance_update) (auto simp: token_later_def)

lemma spend_code_later: "rows_advance code_later xs (spend_code E code xs)"
  by (rule code_history.advance_update) (auto simp: code_later_def)

lemma token_endpoint_advance: "credentials_advance s (snd (token_endpoint E d dev s))"
proof -
  obtain r s' where run: "token_endpoint E d dev s = (r, s')" by fastforce
  have kill: "rows_advance token_later (oauth_tokens s) (oauth_tokens (kill_family E f s))" for f
    by (simp add: kill_family_def revoke_tokens_later)
  from run have "credentials_advance s s'"
  proof (rule token_endpoint_client)
    fix c :: oauth_client
    assume h: "(case td_grant d of
          AuthorizationCodeGrant \<Rightarrow> handle_authorization_code_grant E d c dev s
        | PasswordGrant \<Rightarrow> handle_password_grant E d c dev s
        | RefreshTokenGrant \<Rightarrow> handle_refresh_token_grant E d c dev s) = (r, s')"
    show ?thesis
    proof (cases "td_grant d")
      case AuthorizationCodeGrant
      with h have "handle_authorization_code_grant E d c dev s = (r, s')" by simp
      then show ?thesis
        by (rule code_grant_cases)
          (auto simp: credentials_advance_def spend_code_later split: sum.splits)
    next
      case PasswordGrant
      with h have "handle_password_grant E d c dev s = (r, s')" by simp
      then show ?thesis
        by (rule password_grant_cases) (auto simp: credentials_advance_def)
    next
      case RefreshTokenGrant
      with h have "handle_refresh_token_grant E d c dev s = (r, s')" by simp
      then show ?thesis
        by (rule refresh_grant_cases)
          (auto simp: credentials_advance_def kill revoke_tokens_later
            intro!: token_history.advance_append_right split: sum.splits)
    qed
  qed (simp add: credentials_advance_same)
  with run show ?thesis by simp
qed

lemma new_auth_code_code: "ac_code (new_auth_code E u c r sc ch m) = draw E AuthCodeDraw 0"
  by (simp add: new_auth_code_def)

lemma consent_effect:
  assumes "consent E u d s = (r, s')"
  shows "oauth_tokens s' = oauth_tokens s \<and>
    (auth_codes s' = auth_codes s \<or>
     (\<exists>c v. r = Inr v \<and> find_by_client_id (cd_client d) s = Inr c \<and> cd_approve d \<and>
        cd_redirect d \<in> set (oc_redirects c) \<and> is_subset_scope (parse_scope (cd_scope d)) (oc_scopes c) \<and>
        find_code (draw E AuthCodeDraw 0) s = None \<and>
        auth_codes s' = auth_codes s @
          [new_auth_code E u (oc_id c) (cd_redirect d) (cd_scope d) (cd_challenge d) (cd_method d)]))"
  using assms
  by (auto simp: consent_def and_then_def issue_code_def Let_def find_code_def new_auth_code_def
      split: sum.splits if_splits)

lemma oauth_step_advance: "credentials_advance s (snd (oauth_step eo s))"
proof (cases eo)
  case (Pair E a)
  show ?thesis
  proof (cases a)
    case (TokenRequest d dev)
    with Pair show ?thesis by (simp add: token_endpoint_advance)
  next
    case (GiveConsent u d)
    obtain r s' where "consent E u d s = (r, s')" by fastforce
    with consent_effect [OF this] Pair GiveConsent show ?thesis
      by (auto simp: credentials_advance_def)
  next
    case (RevokeConnection u g)
    with Pair show ?thesis
      by (auto simp: revoke_grant_def credentials_advance_def revoke_tokens_later split: option.splits)
  next
    case (RegisterClient n r sc t)
    with Pair show ?thesis
      by (auto simp: create_client_def Let_def intro: credentials_advance_same)
  next
    case (EditClient i p)
    with Pair show ?thesis
      by (auto simp: update_client_def Let_def intro: credentials_advance_same split: option.splits)
  next
    case (SwitchClient i b)
    with Pair show ?thesis
      by (auto simp: set_client_active_def intro: credentials_advance_same split: option.splits)
  next
    case (RevokeAppDevice u d)
    with Pair show ?thesis
      by (auto simp: revoke_device_def revoke_tagged_def credentials_advance_def revoke_tokens_later
          split: option.splits)
  next
    case (RevokeAllAppDevices u)
    with Pair show ?thesis
      by (auto simp: revoke_all_devices_def revoke_tagged_def Let_def credentials_advance_def revoke_tokens_later)
  qed
qed

section \<open>Codes and refresh tokens are single use\<close>

fun presented_code :: "env \<times> oauth_op \<Rightarrow> string option" where
  "presented_code (E, TokenRequest d dev) =
     (if td_grant d = AuthorizationCodeGrant then td_code d else None)"
| "presented_code _ = None"

fun presented_refresh_hash :: "env \<times> oauth_op \<Rightarrow> string option" where
  "presented_refresh_hash (E, TokenRequest d dev) =
     (if td_grant d = RefreshTokenGrant then map_option (hash_token E) (td_refresh d) else None)"
| "presented_refresh_hash _ = None"

definition code_spent :: "string \<Rightarrow> db \<Rightarrow> bool" where
  "code_spent k s =
     ((\<exists>r \<in> set (auth_codes s). ac_code r = k) \<and>
      (\<forall>r \<in> set (auth_codes s). ac_code r = k \<longrightarrow> ac_used_at r \<noteq> None))"

definition refresh_spent :: "string \<Rightarrow> db \<Rightarrow> bool" where
  "refresh_spent h s = (\<exists>t. find_token h s = Some t \<and> ot_revoked_at t \<noteq> None)"

lemma refresh_spent_advance:
  assumes "credentials_advance s s'" and "refresh_spent h s"
  shows "refresh_spent h s'"
proof -
  from assms(2) obtain t where t: "find_row (\<lambda>t. ot_hash t = h) (oauth_tokens s) = Some t" "ot_revoked_at t \<noteq> None"
    by (auto simp: refresh_spent_def find_token_def)
  have "rows_advance token_later (oauth_tokens s) (oauth_tokens s')"
    using assms(1) by (simp add: credentials_advance_def)
  then have "\<exists>y. find_row (\<lambda>t. ot_hash t = h) (oauth_tokens s') = Some y \<and> token_later t y"
    by (rule token_history.advance_find [OF _ t(1)]) (simp add: token_later_same)
  with t(2) show ?thesis
    unfolding refresh_spent_def find_token_def by (blast dest: token_later_same)
qed

lemma spend_token_spent:
  assumes "find_token h s = Some t" and "oauth_tokens s' = spend_token E t (oauth_tokens s) @ N"
  shows "refresh_spent h s'"
  using assms unfolding refresh_spent_def find_token_def
  by (simp add: find_row_update_keep find_row_append)

lemma code_spent_append:
  assumes "code_spent k s" and "find_code k' s = None" and "ac_code r = k'"
    and "auth_codes s' = auth_codes s @ [r]"
  shows "code_spent k s'"
  using assms by (auto simp: code_spent_def find_code_def find_row_None_iff)

lemma token_request_ok:
  assumes "fst (oauth_step (E, TokenRequest d dev) s)"
  obtains c ts s' where "token_endpoint E d dev s = (Inr ts, s')" "find_by_client_id (td_client d) s = Inr c"
    "verify_secret E c (td_secret d)"
    "(case td_grant d of
          AuthorizationCodeGrant \<Rightarrow> handle_authorization_code_grant E d c dev s
        | PasswordGrant \<Rightarrow> handle_password_grant E d c dev s
        | RefreshTokenGrant \<Rightarrow> handle_refresh_token_grant E d c dev s) = (Inr ts, s')"
proof -
  obtain ts s' where run: "token_endpoint E d dev s = (Inr ts, s')"
    using assms by (cases "token_endpoint E d dev s") (auto simp: accepted_reply_def split: sum.splits)
  then show ?thesis
    by (rule token_endpoint_client) (use run that in auto)
qed

interpretation code_exchange:
  single_use oauth_step "\<lambda>_. True" presented_code "\<lambda>b. b" code_spent
proof (unfold_locales, goal_cases)
  case (2 s a k)
  then obtain E d dev where a: "a = (E, TokenRequest d dev)" and k: "td_grant d = AuthorizationCodeGrant"
      "td_code d = Some k"
    by (cases a rule: presented_code.cases) (auto split: if_splits)
  from 2(3) [unfolded a] show ?case
  proof (rule token_request_ok)
    fix c ts s'
    assume run: "token_endpoint E d dev s = (Inr ts, s')"
      and "(case td_grant d of
          AuthorizationCodeGrant \<Rightarrow> handle_authorization_code_grant E d c dev s
        | PasswordGrant \<Rightarrow> handle_password_grant E d c dev s
        | RefreshTokenGrant \<Rightarrow> handle_refresh_token_grant E d c dev s) = (Inr ts, s')"
    then have "handle_authorization_code_grant E d c dev s = (Inr ts, s')" using k by simp
    then show ?thesis
      by (rule code_grant_cases) (use a k run in \<open>auto simp: code_spent_def\<close>)
  qed
next
  case (3 s a k)
  then obtain E d dev where a: "a = (E, TokenRequest d dev)" and k: "td_grant d = AuthorizationCodeGrant"
      "td_code d = Some k"
    by (cases a rule: presented_code.cases) (auto split: if_splits)
  show ?case
  proof
    assume "fst (oauth_step a s)"
    from this [unfolded a] show False
    proof (rule token_request_ok)
      fix c ts s'
      assume "(case td_grant d of
          AuthorizationCodeGrant \<Rightarrow> handle_authorization_code_grant E d c dev s
        | PasswordGrant \<Rightarrow> handle_password_grant E d c dev s
        | RefreshTokenGrant \<Rightarrow> handle_refresh_token_grant E d c dev s) = (Inr ts, s')"
      then have "handle_authorization_code_grant E d c dev s = (Inr ts, s')" using k by simp
      then show False
        by (rule code_grant_cases) (use k 3(3) in \<open>auto simp: code_spent_def\<close>)
    qed
  qed
next
  case (4 s k a)
  obtain E b where a: "a = (E, b)" by fastforce
  have keep: "code_spent k s'" if "auth_codes s' = auth_codes s" for s'
    using 4(2) that by (simp add: code_spent_def)
  show ?case
  proof (cases b)
    case (TokenRequest d dev)
    obtain r s' where run: "token_endpoint E d dev s = (r, s')" by fastforce
    have spend: "code_spent k s'" if "auth_codes s' = spend_code E code (auth_codes s)" for code
      using 4(2) that by (auto simp: code_spent_def)
    from run have "code_spent k s'"
    proof (rule token_endpoint_client)
      fix c :: oauth_client
      assume h: "(case td_grant d of
          AuthorizationCodeGrant \<Rightarrow> handle_authorization_code_grant E d c dev s
        | PasswordGrant \<Rightarrow> handle_password_grant E d c dev s
        | RefreshTokenGrant \<Rightarrow> handle_refresh_token_grant E d c dev s) = (r, s')"
      show ?thesis
        using h keep spend
        by (cases "td_grant d")
          (auto elim!: code_grant_cases refresh_grant_cases password_grant_cases)
    qed (use 4 in simp)
    with a TokenRequest run show ?thesis by simp
  next
    case (GiveConsent u d)
    obtain r s' where run: "consent E u d s = (r, s')" by fastforce
    have "code_spent k s'"
      using consent_effect [OF run] keep code_spent_append [OF 4(2)] new_auth_code_code
      by metis
    with a GiveConsent run show ?thesis by simp
  qed (use a in \<open>auto intro!: keep simp: revoke_grant_def create_client_def update_client_def
        set_client_active_def revoke_device_def revoke_all_devices_def Let_def split: option.splits\<close>)
qed simp

interpretation refresh_exchange:
  single_use oauth_step "\<lambda>_. True" presented_refresh_hash "\<lambda>b. b" refresh_spent
proof (unfold_locales, goal_cases)
  case (1 s a k)
  then obtain E d dev tok where a: "a = (E, TokenRequest d dev)" and k: "td_grant d = RefreshTokenGrant"
      "td_refresh d = Some tok" "k = hash_token E tok"
    by (cases a rule: presented_refresh_hash.cases) (auto split: if_splits)
  from 1(3) [unfolded a] show ?case
  proof (rule token_request_ok)
    fix c ts s'
    assume run: "token_endpoint E d dev s = (Inr ts, s')"
      and "(case td_grant d of
          AuthorizationCodeGrant \<Rightarrow> handle_authorization_code_grant E d c dev s
        | PasswordGrant \<Rightarrow> handle_password_grant E d c dev s
        | RefreshTokenGrant \<Rightarrow> handle_refresh_token_grant E d c dev s) = (Inr ts, s')"
    then have "handle_refresh_token_grant E d c dev s = (Inr ts, s')" using k by simp
    then show ?thesis
      by (rule refresh_grant_cases) (use a k run in \<open>auto intro: spend_token_spent\<close>)
  qed
next
  case (2 s a k)
  then obtain E d dev tok where a: "a = (E, TokenRequest d dev)" and k: "td_grant d = RefreshTokenGrant"
      "td_refresh d = Some tok" "k = hash_token E tok"
    by (cases a rule: presented_refresh_hash.cases) (auto split: if_splits)
  show ?case
  proof
    assume "fst (oauth_step a s)"
    from this [unfolded a] show False
    proof (rule token_request_ok)
      fix c ts s'
      assume "(case td_grant d of
          AuthorizationCodeGrant \<Rightarrow> handle_authorization_code_grant E d c dev s
        | PasswordGrant \<Rightarrow> handle_password_grant E d c dev s
        | RefreshTokenGrant \<Rightarrow> handle_refresh_token_grant E d c dev s) = (Inr ts, s')"
      then have "handle_refresh_token_grant E d c dev s = (Inr ts, s')" using k by simp
      then show False
        by (rule refresh_grant_cases) (use k 2(3) in \<open>auto simp: refresh_spent_def\<close>)
    qed
  qed
next
  case (3 s k a)
  then show ?case using refresh_spent_advance oauth_step_advance by blast
qed

text \<open>
  C11. An authorization code and a refresh token of a connected app work once.  In any sequence of
  token requests, consents, revocations, client edits and device sign-outs, at most one successful
  token request presents a given code, and at most one presents a given refresh token.
\<close>

theorem app_credentials_single_use:
  "count_rows (\<lambda>(a, granted). presented_code a = Some code \<and> granted) (run_log oauth_step ops s) \<le> 1 \<and>
   count_rows (\<lambda>(a, granted). presented_refresh_hash a = Some h \<and> granted) (run_log oauth_step ops s) \<le> 1"
proof -
  have "(\<lambda>(a, granted). presented_code a = Some code \<and> granted) = code_exchange.redeems code"
    "(\<lambda>(a, granted). presented_refresh_hash a = Some h \<and> granted) = refresh_exchange.redeems h"
    by (auto simp: fun_eq_iff code_exchange.redeems_def refresh_exchange.redeems_def)
  then show ?thesis
    using code_exchange.at_most_once [OF TrueI] refresh_exchange.at_most_once [OF TrueI] by simp
qed

section \<open>A reused refresh token kills its family\<close>

definition family_dead :: "string \<Rightarrow> db \<Rightarrow> bool" where
  "family_dead f s = (\<forall>t \<in> set (oauth_tokens s). ot_family t = f \<longrightarrow> ot_revoked_at t \<noteq> None)"

lemma family_dead_update:
  assumes "family_dead f s"
    and "oauth_tokens s' = update_rows P (\<lambda>x. x\<lparr>ot_revoked_at := Some u\<rparr>) (oauth_tokens s) @ N"
    and "\<And>t. t \<in> set N \<Longrightarrow> ot_family t \<noteq> f"
  shows "family_dead f s'"
  using assms by (auto simp: family_dead_def set_update_rows)

lemma family_dead_keep:
  "family_dead f s \<Longrightarrow> oauth_tokens s' = oauth_tokens s @ N \<Longrightarrow> (\<And>t. t \<in> set N \<Longrightarrow> ot_family t \<noteq> f) \<Longrightarrow>
   family_dead f s'"
  by (auto simp: family_dead_def)

lemma family_dead_same: "family_dead f s \<Longrightarrow> oauth_tokens s' = oauth_tokens s \<Longrightarrow> family_dead f s'"
  by (simp add: family_dead_def)

lemma token_endpoint_dead:
  assumes dead: "family_dead f s" and fresh: "draw E FamilyDraw 0 \<noteq> f"
    and run: "token_endpoint E d dev s = (r, s')"
  shows "family_dead f s'"
  using run
proof (rule token_endpoint_client)
  fix c :: oauth_client
  assume h: "(case td_grant d of
          AuthorizationCodeGrant \<Rightarrow> handle_authorization_code_grant E d c dev s
        | PasswordGrant \<Rightarrow> handle_password_grant E d c dev s
        | RefreshTokenGrant \<Rightarrow> handle_refresh_token_grant E d c dev s) = (r, s')"
  show ?thesis
  proof (cases "td_grant d")
    case AuthorizationCodeGrant
    with h have "handle_authorization_code_grant E d c dev s = (r, s')" by simp
    then show ?thesis
      using fresh by (rule_tac code_grant_cases)
        (auto intro: dead family_dead_same [OF dead] intro!: family_dead_keep [OF dead]
          simp: new_token_def split: sum.splits)
  next
    case PasswordGrant
    with h have "handle_password_grant E d c dev s = (r, s')" by simp
    then show ?thesis
      using fresh by (rule_tac password_grant_cases)
        (auto intro: family_dead_same [OF dead] intro!: family_dead_keep [OF dead] simp: new_token_def)
  next
    case RefreshTokenGrant
    with h have "handle_refresh_token_grant E d c dev s = (r, s')" by simp
    then show ?thesis
    proof (rule refresh_grant_cases)
      fix tok t
      assume t: "find_token (hash_token E tok) s = Some t" "ot_revoked_at t = None"
        and eff: "case r of Inl _ \<Rightarrow> oauth_tokens s' = spend_token E t (oauth_tokens s)
       | Inr ts \<Rightarrow> ts_scope ts = ot_scope t \<and>
           (\<exists>p dv. tk_user_id p = ot_user t \<and> tk_client_db p = oc_id c \<and> tk_scope p = ot_scope t \<and>
              tk_family p = Some (ot_family t) \<and>
              oauth_tokens s' = spend_token E t (oauth_tokens s) @ [new_token E p dv])"
      have "ot_family t \<noteq> f"
        using t dead unfolding find_token_def family_dead_def by (blast dest: find_row_Some_D)
      with eff show ?thesis
        by (auto simp: new_token_def split: sum.splits
            intro!: family_dead_update [OF dead, where N = "[]"] family_dead_update [OF dead])
    next
      fix f'
      assume "oauth_tokens s' = oauth_tokens (kill_family E f' s)"
      then show ?thesis
        by (intro family_dead_update [OF dead, where N = "[]"]) (simp_all add: kill_family_def)
    qed (rule family_dead_same [OF dead])
  qed
qed (use dead in simp)

lemma oauth_step_dead:
  assumes dead: "family_dead f s" and fresh: "draw (fst eo) FamilyDraw 0 \<noteq> f"
  shows "family_dead f (snd (oauth_step eo s))"
proof (cases eo)
  case (Pair E a)
  note same = family_dead_same [OF dead]
  show ?thesis
  proof (cases a)
    case (TokenRequest d dev)
    obtain r s' where "token_endpoint E d dev s = (r, s')" by fastforce
    with token_endpoint_dead [OF dead _ this] fresh Pair TokenRequest show ?thesis by simp
  next
    case (GiveConsent u d)
    obtain r s' where "consent E u d s = (r, s')" by fastforce
    with consent_effect [OF this] Pair GiveConsent show ?thesis by (simp add: same)
  qed (use Pair same in \<open>auto simp: revoke_grant_def create_client_def update_client_def set_client_active_def
        revoke_device_def revoke_all_devices_def revoke_tagged_def Let_def split: option.splits
        intro!: family_dead_update [OF dead, where N = "[]"]\<close>)
qed

lemma oauth_run_dead:
  "family_dead f s \<Longrightarrow> (\<And>eo. eo \<in> set ops \<Longrightarrow> draw (fst eo) FamilyDraw 0 \<noteq> f) \<Longrightarrow>
   family_dead f (run_ops oauth_step ops s)"
  by (induction ops arbitrary: s) (auto intro: oauth_step_dead)

lemma refresh_needs_open_token:
  assumes "td_grant d = RefreshTokenGrant" and "td_refresh d = Some tok"
    and "find_token (hash_token E tok) s = Some x" and "ot_revoked_at x \<noteq> None"
  shows "\<not> succeeds (token_endpoint E d dev s)"
proof -
  have "refresh_spent (hash_token E tok) s"
    using assms by (simp add: refresh_spent_def)
  then have "\<not> fst (oauth_step (E, TokenRequest d dev) s)"
    by (rule refresh_exchange.spent_refuses [OF TrueI, rotated]) (simp add: assms)
  then show ?thesis by (simp add: accepted_reply_def succeeds_def split: sum.splits)
qed

text \<open>
  C12. Reuse detection.  When an authenticated client presents one of its refresh tokens that is
  already revoked, it gets the generic refusal, the incident is on the account's security log, and
  every token of the family is revoked.  It stays so: whatever the provider does afterwards (as
  long as new families draw other identifiers), no token of the family is open, and none is ever
  exchanged again.
\<close>

theorem reuse_kills_family:
  assumes "find_by_client_id (td_client d) s = Inr c" and "verify_secret E c (td_secret d)"
    and "td_grant d = RefreshTokenGrant" and "td_refresh d = Some tok" and "tok \<noteq> []"
    and "find_token (hash_token E tok) s = Some t" and "ot_client t = oc_id c" and "ot_revoked_at t \<noteq> None"
    and "s1 = snd (token_endpoint E d dev s)" and "s2 = run_ops oauth_step ops s1"
    and fresh: "\<And>eo. eo \<in> set ops \<Longrightarrow> draw (fst eo) FamilyDraw 0 \<noteq> ot_family t"
  shows "fst (token_endpoint E d dev s) = Inl refresh_refused \<and>
    (\<exists>e \<in> set (security_events s1). se_user e = ot_user t \<and> se_type e = OAUTH_TOKEN_REUSE_DETECTED) \<and>
    (\<forall>x \<in> set (oauth_tokens s2). ot_family x = ot_family t \<longrightarrow> ot_revoked_at x \<noteq> None) \<and>
    (\<forall>E' d' dev' tok' x. td_grant d' = RefreshTokenGrant \<and> td_refresh d' = Some tok' \<and>
       find_token (hash_token E' tok') s2 = Some x \<and> ot_family x = ot_family t \<longrightarrow>
       \<not> succeeds (token_endpoint E' d' dev' s2))"
proof -
  have run: "token_endpoint E d dev s = (Inl refresh_refused, snd (notify E (reuse_notice t)
      (record_event E (ot_user t) OAUTH_TOKEN_REUSE_DETECTED no_meta (kill_family E (ot_family t) s))))"
    using assms(1-8)
    by (simp add: token_endpoint_def handle_refresh_token_grant_def and_then_def rotate_refresh_token_def)
  have "family_dead (ot_family t) s1"
    using run assms(9) by (auto simp: family_dead_def kill_family_def)
  then have dead: "family_dead (ot_family t) s2"
    unfolding assms(10) by (rule oauth_run_dead) (rule fresh)
  have later: "\<not> succeeds (token_endpoint E' d' dev' s2)"
    if "td_grant d' = RefreshTokenGrant \<and> td_refresh d' = Some tok' \<and>
       find_token (hash_token E' tok') s2 = Some x \<and> ot_family x = ot_family t" for E' d' dev' tok' x
  proof -
    have "x \<in> set (oauth_tokens s2)"
      using that unfolding find_token_def by (blast dest: find_row_Some_D)
    with that dead have "ot_revoked_at x \<noteq> None" by (auto simp: family_dead_def)
    with that show ?thesis
      using refresh_needs_open_token [of d' tok' E' s2 x dev'] by simp
  qed
  have "\<exists>e \<in> set (security_events s1). se_user e = ot_user t \<and> se_type e = OAUTH_TOKEN_REUSE_DETECTED"
    using run assms(9) by (simp add: record_event_def security_event_row_def)
  then show ?thesis
    using run dead later by (auto simp: family_dead_def)
qed

definition demo_client :: oauth_client where
  "demo_client =
     \<lparr>oc_id = ''k1'', oc_client_id = ''c1'', oc_secret_hash = Some ''sec'', oc_type = CONFIDENTIAL,
      oc_name = ''Shop'', oc_redirects = [''https://shop.example/cb''],
      oc_scopes = [''openid'', ''profile'', ''email''], oc_active = True\<rparr>"

definition demo_token :: "string \<Rightarrow> string \<Rightarrow> time option \<Rightarrow> oauth_refresh" where
  "demo_token h fam revoked =
     \<lparr>ot_id = h, ot_hash = h, ot_user = ''m1'', ot_client = ''k1'', ot_scope = ''openid'', ot_family = fam,
      ot_device = None, ot_created_at = 0, ot_expires = 100, ot_revoked_at = revoked\<rparr>"

definition demo_request :: "grant_type \<Rightarrow> token_dto" where
  "demo_request g =
     \<lparr>td_grant = g, td_client = ''c1'', td_secret = Some ''sec'', td_code = None, td_redirect = None,
      td_refresh = None, td_verifier = None, td_username = None, td_password = None, td_scope = None\<rparr>"

definition stolen_db :: db where
  "stolen_db = demo_db\<lparr>oauth_clients := [demo_client],
     oauth_tokens := [demo_token ''t1'' ''fam'' (Some 1), demo_token ''t2'' ''fam'' None]\<rparr>"

text \<open>The family of a stolen token dies, and a login through the password grant does not revive it.\<close>

theorem reuse_kills_family_witness:
  "fst (token_endpoint (demo_env 5) ((demo_request RefreshTokenGrant)\<lparr>td_refresh := Some ''t1''\<rparr>) None stolen_db) =
     Inl refresh_refused"
proof -
  have facts: "find_by_client_id ''c1'' stolen_db = Inr demo_client"
    "verify_secret (demo_env 5) demo_client (Some ''sec'')"
    "find_token (hash_token (demo_env 5) ''t1'') stolen_db = Some (demo_token ''t1'' ''fam'' (Some 1))"
    "draw (demo_env 9) FamilyDraw 0 \<noteq> ''fam''"
    by code_simp+
  show ?thesis
    using reuse_kills_family [of "(demo_request RefreshTokenGrant)\<lparr>td_refresh := Some ''t1''\<rparr>" stolen_db
        demo_client "demo_env 5" "''t1''" "demo_token ''t1'' ''fam'' (Some 1)" _ None _
        "[(demo_env 9, TokenRequest ((demo_request PasswordGrant)\<lparr>td_username := Some ''m1@x.y'',
            td_password := Some ''pw''\<rparr>) None)]"] facts
    by (simp add: demo_request_def demo_token_def demo_client_def)
qed

section \<open>What an exchange of a code requires\<close>

text \<open>
  C13. The gate of the code exchange.  A token request that presents a code succeeds only for an
  active client that proved its secret (a public client has none), with a code that client
  obtained, unused, unexpired and with the same redirect; a public client's code carries a PKCE
  challenge, and where there is a challenge the request presents a verifier whose S256 digest it
  is.  The tokens have exactly the scope of the code, and the code is spent.
\<close>

theorem code_exchange_gate:
  assumes "token_endpoint E d dev s = (Inr ts, s')" and "td_grant d = AuthorizationCodeGrant"
  shows "\<exists>c code a. find_by_client_id (td_client d) s = Inr c \<and> oc_active c \<and>
    (oc_type c \<noteq> PUBLIC \<longrightarrow> (\<exists>secret. td_secret d = Some secret \<and> oc_secret_hash c = Some (sha256 E secret))) \<and>
    td_code d = Some code \<and> find_code code s = Some a \<and> now E \<le> ac_expires a \<and>
    ac_client a = oc_id c \<and> td_redirect d = Some (ac_redirect a) \<and>
    (\<exists>x \<in> set (auth_codes s). ac_code x = code \<and> ac_used_at x = None) \<and>
    (oc_type c = PUBLIC \<longrightarrow> truthy (ac_challenge a)) \<and>
    (truthy (ac_challenge a) \<longrightarrow> (\<exists>v. td_verifier d = Some v \<and> ac_challenge a = Some (sha256_b64url E v))) \<and>
    ts_scope ts = ac_scope a \<and> code_spent code s'"
  using assms(1)
proof (rule token_endpoint_client)
  fix c :: oauth_client
  assume c: "find_by_client_id (td_client d) s = Inr c" "verify_secret E c (td_secret d)"
    and "(case td_grant d of
          AuthorizationCodeGrant \<Rightarrow> handle_authorization_code_grant E d c dev s
        | PasswordGrant \<Rightarrow> handle_password_grant E d c dev s
        | RefreshTokenGrant \<Rightarrow> handle_refresh_token_grant E d c dev s) = (Inr ts, s')"
  then have "handle_authorization_code_grant E d c dev s = (Inr ts, s')" using assms(2) by simp
  then show ?thesis
  proof (rule code_grant_cases)
    fix code redirect a
    assume a: "td_code d = Some code" "td_redirect d = Some redirect"
      "find_code code s = Some a" "now E \<le> ac_expires a" "ac_client a = oc_id c" "ac_redirect a = redirect"
      "\<exists>x \<in> set (auth_codes s). ac_code x = code \<and> ac_used_at x = None"
      "auth_codes s' = spend_code E code (auth_codes s)"
      and "case Inr ts of Inl _ \<Rightarrow> oauth_tokens s' = oauth_tokens s
       | Inr ts \<Rightarrow> pkce_error E c a (td_verifier d) = None \<and> ts_scope ts = ac_scope a \<and>
           (\<exists>p dv. tk_user_id p = ac_user a \<and> tk_client_db p = oc_id c \<and> tk_scope p = ac_scope a \<and>
              tk_family p = None \<and> find_token (hash_token E (draw E OAuthRefreshDraw 0)) s = None \<and>
              oauth_tokens s' = oauth_tokens s @ [new_token E p dv])"
    then have pkce: "pkce_error E c a (td_verifier d) = None" and scope: "ts_scope ts = ac_scope a" by simp_all
    have "oc_active c"
      using c(1) by (auto simp: find_by_client_id_def split: option.splits if_splits)
    moreover have "\<exists>secret. td_secret d = Some secret \<and> oc_secret_hash c = Some (sha256 E secret)"
      if "oc_type c \<noteq> PUBLIC"
      using c(2) that by (auto simp: verify_secret_def hash_secret_def truthy_iff split: if_splits)
    moreover have "oc_type c = PUBLIC \<longrightarrow> truthy (ac_challenge a)"
      "truthy (ac_challenge a) \<longrightarrow> (\<exists>v. td_verifier d = Some v \<and> ac_challenge a = Some (sha256_b64url E v))"
      using pkce by (auto simp: pkce_error_def verify_pkce_challenge_def truthy_iff split: if_splits)
    moreover have "code_spent code s'"
      using a(7,8) by (auto simp: code_spent_def)
    ultimately show ?thesis
      using a c(1) scope by (intro exI [of _ c] exI [of _ code] exI [of _ a]) simp
  qed simp
qed simp

definition demo_code :: auth_code where
  "demo_code =
     \<lparr>ac_id = ''a1'', ac_code = ''code1'', ac_user = ''m1'', ac_client = ''k1'',
      ac_redirect = ''https://shop.example/cb'', ac_scope = ''openid'', ac_challenge = Some ''v1'',
      ac_method = Some ''S256'', ac_expires = 60, ac_used_at = None\<rparr>"

theorem code_exchange_gate_witness:
  "code_spent ''code1'' (snd (token_endpoint (demo_env 5) ((demo_request AuthorizationCodeGrant)\<lparr>
     td_code := Some ''code1'', td_redirect := Some ''https://shop.example/cb'', td_verifier := Some ''v1''\<rparr>) None
     (demo_db\<lparr>oauth_clients := [demo_client], auth_codes := [demo_code]\<rparr>)))"
proof -
  let ?d = "(demo_request AuthorizationCodeGrant)\<lparr>
     td_code := Some ''code1'', td_redirect := Some ''https://shop.example/cb'', td_verifier := Some ''v1''\<rparr>"
  let ?s = "demo_db\<lparr>oauth_clients := [demo_client], auth_codes := [demo_code]\<rparr>"
  have "succeeds (token_endpoint (demo_env 5) ?d None ?s)" by code_simp
  then obtain ts where "token_endpoint (demo_env 5) ?d None ?s = (Inr ts, snd (token_endpoint (demo_env 5) ?d None ?s))"
    by (metis prod.collapse succeeds_iff)
  from code_exchange_gate [OF this] show ?thesis
    by (auto simp: demo_request_def)
qed

section \<open>Every token traces back to its user\<close>




definition code_key :: "auth_code \<Rightarrow> id \<times> id \<times> string" where
  "code_key r = (ac_user r, ac_client r, ac_scope r)"

definition token_key :: "oauth_refresh \<Rightarrow> id \<times> id \<times> string" where
  "token_key t = (ot_user t, ot_client t, ot_scope t)"

















lemma token_keys_revoked [simp]:
  "token_key ` set (update_rows P (\<lambda>x. x\<lparr>ot_revoked_at := v\<rparr>) rows) = token_key ` set rows"
  by (rule image_update_rows) (simp add: token_key_def)

lemma code_keys_used [simp]:
  "code_key ` set (update_rows P (\<lambda>x. x\<lparr>ac_used_at := v\<rparr>) rows) = code_key ` set rows"
  by (rule image_update_rows) (simp add: code_key_def)













section \<open>Connections\<close>

lemma parse_scope_clean: "w \<in> set (parse_scope t) \<Longrightarrow> w \<noteq> [] \<and> CHR '' '' \<notin> set w"
  by (auto simp: parse_scope_def dest: split_on_parts_clean)

lemma parse_join_scope:
  assumes "\<And>w. w \<in> set ws \<Longrightarrow> w \<noteq> [] \<and> CHR '' '' \<notin> set w"
  shows "parse_scope (join_scope ws) = ws"
proof (cases "ws = []")
  case False
  have "filter (\<lambda>w. w \<noteq> []) ws = ws"
    using assms by (simp add: filter_id_conv)
  with False show ?thesis
    using assms by (simp add: parse_scope_def join_scope_def split_on_join_with)
qed (simp add: parse_scope_def join_scope_def)

lemma parse_normalize:
  assumes "\<And>w. w \<in> set ws \<Longrightarrow> w \<noteq> [] \<and> CHR '' '' \<notin> set w"
  shows "set (parse_scope (normalize_scope ws)) = set ws"
  using parse_join_scope [of "sort (remdups ws)"] assms by (simp add: normalize_scope_def)

lemma upsert_grant_found:
  "\<exists>g. find_grant uid cdb (snd (upsert_grant E uid cdb scope s)) = Some g \<and> og_revoked_at g = None \<and>
     set (parse_scope (og_scope g)) =
       (case find_grant uid cdb s of None \<Rightarrow> {} | Some g0 \<Rightarrow> set (parse_scope (og_scope g0))) \<union> set (parse_scope scope)"
proof (cases "find_grant uid cdb s")
  case None
  have "set (parse_scope (normalize_scope (parse_scope scope))) = set (parse_scope scope)"
    by (rule parse_normalize) (rule parse_scope_clean)
  with None show ?thesis
    by (simp add: upsert_grant_def find_grant_def find_row_append new_grant_def Let_def)
next
  case (Some g0)
  let ?ws = "parse_scope (og_scope g0) @ parse_scope scope"
  let ?f = "\<lambda>g. g\<lparr>og_scope := normalize_scope ?ws, og_revoked_at := None\<rparr>"
  have "set (parse_scope (normalize_scope ?ws)) = set ?ws"
    by (rule parse_normalize) (auto dest: parse_scope_clean)
  moreover have "find_grant uid cdb (snd (upsert_grant E uid cdb scope s)) = Some (?f g0)"
    using Some by (auto simp: upsert_grant_def find_grant_def find_row_update_keep Let_def dest: find_row_Some_D)
  ultimately show ?thesis using Some by simp
qed

text \<open>
  What a consent leaves granted.  After a user approves a scope for a client, the consent screen
  is skipped for that scope.  It is also skipped for every scope the user had granted to that client
  before, even if the connection was revoked in between: approving a smaller scope brings the revoked
  scopes back.
\<close>

theorem consent_covers:
  "find_existing_covering_grant uid cdb scope (snd (upsert_grant E uid cdb scope s)) \<noteq> None \<and>
   (case find_grant uid cdb s of
      None \<Rightarrow> True
    | Some g \<Rightarrow> find_existing_covering_grant uid cdb (og_scope g) (snd (upsert_grant E uid cdb scope s)) \<noteq> None)"
proof -
  obtain g where g: "find_grant uid cdb (snd (upsert_grant E uid cdb scope s)) = Some g" "og_revoked_at g = None"
    "set (parse_scope (og_scope g)) =
       (case find_grant uid cdb s of None \<Rightarrow> {} | Some g0 \<Rightarrow> set (parse_scope (og_scope g0))) \<union> set (parse_scope scope)"
    using upsert_grant_found by blast
  then show ?thesis
    by (auto simp: find_existing_covering_grant_def is_subset_scope_def list_all_iff split: option.splits)
qed

text \<open>
  Revoking a connection cuts it off.  Revoking one's own grant leaves no open refresh token of
  that user and client, so the client cannot refresh any more; the consent screen is shown again
  for every scope; the tokens of other users and clients are untouched; and nobody but the owner of
  the grant can do it.
\<close>

theorem revoke_connection_effect:
  assumes "find_grant uid cdb s = Some g" and "unique_on og_id (oauth_grants s)"
  shows "(\<forall>t \<in> set (oauth_tokens (revoke_grant E uid (og_id g) s)).
            ot_user t = uid \<and> ot_client t = cdb \<longrightarrow> ot_revoked_at t \<noteq> None) \<and>
         filter (\<lambda>t. \<not> (ot_user t = uid \<and> ot_client t = cdb)) (oauth_tokens (revoke_grant E uid (og_id g) s)) =
           filter (\<lambda>t. \<not> (ot_user t = uid \<and> ot_client t = cdb)) (oauth_tokens s) \<and>
         find_existing_covering_grant uid cdb requested (revoke_grant E uid (og_id g) s) = None \<and>
         (\<forall>other. other \<noteq> uid \<longrightarrow> revoke_grant E other (og_id g) s = s)"
proof -
  have g: "g \<in> set (oauth_grants s)" "og_user g = uid" "og_client g = cdb"
    using assms(1) unfolding find_grant_def by (auto dest: find_row_Some_D)
  have found: "find_row (\<lambda>x. og_id x = og_id g) (oauth_grants s) = Some g"
    using find_row_unique [OF assms(2) [unfolded unique_on_def] g(1)] by simp
  let ?s' = "revoke_grant E uid (og_id g) s"
  have tokens: "oauth_tokens ?s' = update_rows (\<lambda>t. ot_user t = uid \<and> ot_client t = cdb \<and> ot_revoked_at t = None)
      (\<lambda>t. t\<lparr>ot_revoked_at := Some (now E)\<rparr>) (oauth_tokens s)"
    and grants: "oauth_grants ?s' = update_rows (\<lambda>x. og_id x = og_id g) (\<lambda>x. x\<lparr>og_revoked_at := Some (now E)\<rparr>)
      (oauth_grants s)"
    using g by (simp_all add: revoke_grant_def found)
  have "find_grant uid cdb ?s' = Some (g\<lparr>og_revoked_at := Some (now E)\<rparr>)"
    using assms(1) by (simp add: find_grant_def grants find_row_update_keep)
  moreover have "filter (\<lambda>t. \<not> (ot_user t = uid \<and> ot_client t = cdb)) (oauth_tokens ?s') =
           filter (\<lambda>t. \<not> (ot_user t = uid \<and> ot_client t = cdb)) (oauth_tokens s)"
    unfolding tokens by (rule filter_update_rows) simp
  moreover have "revoke_grant E other (og_id g) s = s" if "other \<noteq> uid" for other
    using that g by (simp add: revoke_grant_def found)
  moreover have "\<forall>t \<in> set (oauth_tokens ?s'). ot_user t = uid \<and> ot_client t = cdb \<longrightarrow> ot_revoked_at t \<noteq> None"
    by (auto simp: tokens)
  ultimately show ?thesis
    by (simp add: find_existing_covering_grant_def)
qed

definition demo_grant :: oauth_grant where
  "demo_grant =
     \<lparr>og_id = ''g1'', og_user = ''m1'', og_client = ''k1'', og_scope = ''email openid'', og_created_at = 0,
      og_revoked_at = None\<rparr>"

theorem revoke_connection_effect_witness:
  "find_existing_covering_grant ''m1'' ''k1'' ''openid'' (revoke_grant (demo_env 5) ''m1'' ''g1''
     (stolen_db\<lparr>oauth_grants := [demo_grant]\<rparr>)) = None"
  using revoke_connection_effect [of "''m1''" "''k1''" "stolen_db\<lparr>oauth_grants := [demo_grant]\<rparr>" demo_grant
      "demo_env 5" "''openid''"]
  by (simp add: find_grant_def demo_grant_def unique_on_def)

section \<open>Findings\<close>

text \<open>A registered AI agent has no secret, so it can never authenticate.\<close>

lemma ai_agent_cannot_authenticate:
  assumes "create_client E n r sc (Some AI_AGENT) s = (Inr v, s')"
  shows "\<exists>c \<in> set (oauth_clients s'). oc_type c = AI_AGENT \<and> snd v = None \<and> (\<forall>p. \<not> verify_secret E c p)"
  using assms by (auto simp: create_client_def new_client_def verify_secret_def Let_def split: if_splits)

text \<open>A public client authenticates with any secret, or none.\<close>

lemma public_client_any_secret: "oc_type c = PUBLIC \<Longrightarrow> verify_secret E c p"
  by (simp add: verify_secret_def)

text \<open>Suspending an account does not stop a connected app from refreshing its tokens.\<close>

lemma suspended_account_refreshes:
  "succeeds (token_endpoint (demo_env 9) ((demo_request RefreshTokenGrant)\<lparr>td_refresh := Some ''t2''\<rparr>) None
     (snd (set_suspended (demo_env 8) \<lparr>actor_id = ''a2'', actor_ndy_id = ''x'', actor_ip = None\<rparr>
        ''m1'' True None stolen_db)))"
  by code_simp

end
