(* ===== verification/Passkeys.thy ===== *)
theory Passkeys
  imports OAuth
begin

text \<open>
  Passkeys: \<^verbatim>\<open>auth/passkey.service.ts\<close>, the passkey routes of \<^verbatim>\<open>auth/auth.controller.ts\<close> and the
  ceremonies of other products, \<^verbatim>\<open>oauth/passkey-cross-product.controller.ts\<close>.  What WebAuthn
  itself checks (origin, relying party, signature over the challenge) is the library's: the two
  verifiers are the parameters \<^verbatim>\<open>webauthn_register\<close> and \<^verbatim>\<open>webauthn_assert\<close> of \<^verbatim>\<open>env\<close>.
\<close>

section \<open>Relying parties\<close>

record relying_party =
  rp_id :: string
  rp_origin :: string
  rp_name :: string

definition relying_parties :: "(string \<times> relying_party) list" where
  "relying_parties =
     [(''ndyhub'', \<lparr>rp_id = ''ndyhub.com'', rp_origin = ''https://ndyhub.com'', rp_name = ''NDY HUB''\<rparr>),
      (''ndymail'', \<lparr>rp_id = ''ndymail.com'', rp_origin = ''https://www.ndymail.com'',
                     rp_name = ''NDYMAIL''\<rparr>)]"

definition ndy_hub_relying_party :: "env \<Rightarrow> relying_party" where
  "ndy_hub_relying_party E =
     \<lparr>rp_id = web_app_host E, rp_origin = web_app_url E, rp_name = ''NDY HUB''\<rparr>"

definition resolve_relying_party :: "env \<Rightarrow> string \<Rightarrow> relying_party reply" where
  "resolve_relying_party E key =
     (if key = ''ndyhub'' then ok (ndy_hub_relying_party E)
      else case map_of relying_parties key of
        None \<Rightarrow> throw (Unauthorized ''Unknown relying party.'')
      | Some rp \<Rightarrow> ok rp)"

section \<open>A user's passkeys\<close>

record passkey_summary =
  ps_id :: id
  ps_label :: "string option"
  ps_created_at :: time
  ps_last_used_at :: "time option"

definition passkey_summary_of :: "passkey \<Rightarrow> passkey_summary" where
  "passkey_summary_of k =
     \<lparr>ps_id = pk_id k, ps_label = pk_label k, ps_created_at = pk_created_at k,
      ps_last_used_at = pk_last_used_at k\<rparr>"

definition list_passkeys :: "env \<Rightarrow> id \<Rightarrow> string \<Rightarrow> db \<Rightarrow> passkey_summary list reply" where
  "list_passkeys E uid key s =
     (case resolve_relying_party E key of
        Inl e \<Rightarrow> throw e
      | Inr rp \<Rightarrow>
          ok (map passkey_summary_of (sort_key pk_created_at
                (filter (\<lambda>k. pk_user k = uid \<and> pk_rp k = rp_id rp) (passkeys s)))))"

definition remove_passkey :: "env \<Rightarrow> id \<Rightarrow> id \<Rightarrow> (db, unit) handler" where
  "remove_passkey E uid pid s =
     (let P = (\<lambda>k. pk_id k = pid \<and> pk_user k = uid)
      in if count_rows P (passkeys s) = 0 then (throw (NotFound ''Passkey not found.''), s)
         else (ok (), record_event E uid PASSKEY_REMOVED no_meta
                        (s\<lparr>passkeys := delete_rows P (passkeys s)\<rparr>)))"

section \<open>Challenges\<close>

definition webauthn_challenge_ttl :: time where
  "webauthn_challenge_ttl = minutes 5"

definition find_challenge :: "id \<Rightarrow> db \<Rightarrow> webauthn_challenge option" where
  "find_challenge cid s = find_row (\<lambda>c. wc_id c = cid) (challenges s)"

definition new_webauthn_challenge ::
  "env \<Rightarrow> id option \<Rightarrow> webauthn_challenge_type \<Rightarrow> string \<Rightarrow> webauthn_challenge" where
  "new_webauthn_challenge E uid t rp =
     \<lparr>wc_id = new_id E T_WebauthnChallenge 0, wc_challenge = draw E WebauthnDraw 0, wc_user = uid,
      wc_type = t, wc_rp = rp, wc_expires = now E + webauthn_challenge_ttl\<rparr>"

definition create_challenge ::
  "env \<Rightarrow> id option \<Rightarrow> webauthn_challenge_type \<Rightarrow> string \<Rightarrow> (db, id) handler" where
  "create_challenge E uid t rp s =
     (let c = new_webauthn_challenge E uid t rp
      in if find_challenge (wc_id c) s \<noteq> None then (throw unique_violation, s)
         else (ok (wc_id c), s\<lparr>challenges := challenges s @ [c]\<rparr>))"

definition attempt_expired :: http_error where
  "attempt_expired = Unauthorized ''This attempt has expired - try again.''"

definition consume_challenge ::
  "env \<Rightarrow> id \<Rightarrow> webauthn_challenge_type \<Rightarrow> id option \<Rightarrow> string \<Rightarrow> (db, webauthn_challenge) handler" where
  "consume_challenge E cid t uid rp s =
     (case find_challenge cid s of
        None \<Rightarrow> (throw attempt_expired, s)
      | Some c \<Rightarrow>
          if wc_rp c \<noteq> rp \<or> wc_type c \<noteq> t \<or> wc_expires c < now E \<or> (uid \<noteq> None \<and> wc_user c \<noteq> uid)
          then (throw attempt_expired, s)
          else if count_rows (\<lambda>c. wc_id c = cid) (challenges s) = 0 then (throw attempt_expired, s)
          else (ok c, s\<lparr>challenges := delete_rows (\<lambda>c. wc_id c = cid) (challenges s)\<rparr>))"

definition challenge_user_id :: "id \<Rightarrow> db \<Rightarrow> id option" where
  "challenge_user_id cid s = (case find_challenge cid s of None \<Rightarrow> None | Some c \<Rightarrow> wc_user c)"

section \<open>Registration\<close>

record registration_options =
  ro_rp :: relying_party
  ro_user_name :: string
  ro_user_id :: id
  ro_display_name :: string
  ro_challenge :: string
  ro_exclude :: "(string \<times> string list) list"

definition begin_registration ::
  "env \<Rightarrow> id \<Rightarrow> string \<Rightarrow> (db, registration_options \<times> id) handler" where
  "begin_registration E uid key s =
     (case resolve_relying_party E key of
        Inl e \<Rightarrow> (throw e, s)
      | Inr rp \<Rightarrow>
          (case find_by_id uid s of
             Inl e \<Rightarrow> (throw e, s)
           | Inr u \<Rightarrow>
               let opts =
                 \<lparr>ro_rp = rp, ro_user_name = u_email u, ro_user_id = u_id u,
                  ro_display_name = or_else (full_name (u_passport u)) (u_email u),
                  ro_challenge = draw E WebauthnDraw 0,
                  ro_exclude = map (\<lambda>k. (pk_credential k, pk_transports k))
                    (filter (\<lambda>k. pk_user k = uid \<and> pk_rp k = rp_id rp) (passkeys s))\<rparr>
               in and_then (create_challenge E (Some uid) REGISTRATION (rp_id rp))
                    (\<lambda>cid s1. (ok (opts, cid), s1)) s))"

record register_dto =
  rd_challenge_id :: id
  rd_response :: string
  rd_label :: "string option"

definition new_passkey :: "env \<Rightarrow> id \<Rightarrow> string \<Rightarrow> webauthn_info \<Rightarrow> string option \<Rightarrow> passkey" where
  "new_passkey E uid rp i label =
     \<lparr>pk_id = new_id E T_Passkey 0, pk_user = uid, pk_rp = rp, pk_credential = wi_credential i,
      pk_public_key = wi_public_key i, pk_counter = wi_counter i, pk_transports = wi_transports i,
      pk_label = label, pk_created_at = now E, pk_last_used_at = None\<rparr>"

definition verify_registration ::
  "env \<Rightarrow> id \<Rightarrow> register_dto \<Rightarrow> string \<Rightarrow> (db, passkey_summary) handler" where
  "verify_registration E uid d key s =
     (case resolve_relying_party E key of
        Inl e \<Rightarrow> (throw e, s)
      | Inr rp \<Rightarrow>
          and_then (consume_challenge E (rd_challenge_id d) REGISTRATION (Some uid) (rp_id rp))
            (\<lambda>c s1.
               case webauthn_register E (rp_id rp) (rp_origin rp) (wc_challenge c) (rd_response d) of
                 None \<Rightarrow> (throw (Unauthorized ''Could not verify this passkey - try again.''), s1)
               | Some i \<Rightarrow>
                   let k = new_passkey E uid (rp_id rp) i (rd_label d)
                   in if exists_row (\<lambda>x. pk_credential x = pk_credential k \<or> pk_id x = pk_id k) (passkeys s1)
                      then (throw (Conflict ''This passkey is already registered.''), s1)
                      else (ok (passkey_summary_of k),
                            record_event E uid PASSKEY_ADDED no_meta
                              (s1\<lparr>passkeys := passkeys s1 @ [k]\<rparr>))) s)"

section \<open>Sign-in\<close>

definition begin_authentication :: "env \<Rightarrow> string \<Rightarrow> (db, (string \<times> string) \<times> id) handler" where
  "begin_authentication E key s =
     (case resolve_relying_party E key of
        Inl e \<Rightarrow> (throw e, s)
      | Inr rp \<Rightarrow>
          and_then (create_challenge E None AUTHENTICATION (rp_id rp))
            (\<lambda>cid s1. (ok ((rp_id rp, draw E WebauthnDraw 0), cid), s1)) s)"

record passkey_login_dto =
  pl_challenge_id :: id
  pl_credential :: string
  pl_response :: string

definition passkey_failure :: http_error where
  "passkey_failure = Unauthorized ''Could not sign in with this passkey.''"

definition find_passkey :: "string \<Rightarrow> db \<Rightarrow> passkey option" where
  "find_passkey cred s = find_row (\<lambda>k. pk_credential k = cred) (passkeys s)"

abbreviation use_passkey :: "env \<Rightarrow> id \<Rightarrow> nat \<Rightarrow> db \<Rightarrow> db" where
  "use_passkey E pid n s \<equiv> s\<lparr>passkeys := update_rows (\<lambda>k. pk_id k = pid)
     (\<lambda>k. k\<lparr>pk_counter := n, pk_last_used_at := Some (now E)\<rparr>) (passkeys s)\<rparr>"

definition verify_authentication_core ::
  "env \<Rightarrow> passkey_login_dto \<Rightarrow> string \<Rightarrow> (db, id \<times> string) handler" where
  "verify_authentication_core E d key s =
     (case resolve_relying_party E key of
        Inl e \<Rightarrow> (throw e, s)
      | Inr rp \<Rightarrow>
          and_then (consume_challenge E (pl_challenge_id d) AUTHENTICATION None (rp_id rp))
            (\<lambda>c s1.
               case find_passkey (pl_credential d) s1 of
                 None \<Rightarrow> (throw passkey_failure, s1)
               | Some k \<Rightarrow>
                   if pk_rp k \<noteq> rp_id rp then (throw passkey_failure, s1)
                   else (case webauthn_assert E (rp_id rp) (rp_origin rp) (wc_challenge c)
                                (pk_public_key k) (pk_counter k) (pl_response d) of
                      None \<Rightarrow> (throw passkey_failure, s1)
                    | Some n \<Rightarrow>
                        (case find_by_id (pk_user k) s1 of
                           Inl e \<Rightarrow> (throw e, s1)
                         | Inr u \<Rightarrow>
                             if u_suspended u
                             then (throw (Unauthorized ''This account has been suspended.''), s1)
                             else (ok (u_id u, u_ndy_id u), use_passkey E (pk_id k) n s1)))) s)"

definition verify_authentication ::
  "env \<Rightarrow> passkey_login_dto \<Rightarrow> session_meta \<Rightarrow> string \<Rightarrow> (db, issued_session) handler" where
  "verify_authentication E d meta key =
     and_then (verify_authentication_core E d key) (\<lambda>(uid, ndy) s1.
       let fresh_device = is_new_device uid meta s1
       in and_then (issue_session E uid ndy meta)
            (\<lambda>tok s2. (ok tok, record_login E uid meta fresh_device s2)) s1)"

definition verify_authentication_for_relying_party ::
  "env \<Rightarrow> passkey_login_dto \<Rightarrow> session_meta \<Rightarrow> string \<Rightarrow> (db, id \<times> string) handler" where
  "verify_authentication_for_relying_party E d meta key =
     and_then (verify_authentication_core E d key) (\<lambda>(uid, ndy) s1.
       (ok (uid, ndy), record_login E uid meta (is_new_device uid meta s1) s1))"

section \<open>Ceremonies of other products\<close>

text \<open>
  \<^verbatim>\<open>Object.fromEntries\<close> keeps the last entry of a repeated client; an empty relying-party key is
  falsy.
\<close>

definition authenticate_passkey_client ::
  "env \<Rightarrow> string \<Rightarrow> string \<Rightarrow> db \<Rightarrow> (oauth_client \<times> string) reply" where
  "authenticate_passkey_client E cid secret s =
     (case find_by_client_id cid s of
        Inl _ \<Rightarrow> throw (Unauthorized ''Invalid client credentials.'')
      | Inr c \<Rightarrow>
          if \<not> verify_secret E c (Some secret) then throw (Unauthorized ''Invalid client credentials.'')
          else let key = map_of (rev (passkey_clients E)) cid
               in if \<not> truthy key
                  then throw (Forbidden ''This client is not authorized for cross-product passkeys.'')
                  else ok (c, the key))"

definition cross_begin_registration ::
  "env \<Rightarrow> string \<Rightarrow> string \<Rightarrow> string \<Rightarrow> string \<Rightarrow> (db, registration_options \<times> id) handler" where
  "cross_begin_registration E cid secret username pw s =
     (case authenticate_passkey_client E cid secret s of
        Inl e \<Rightarrow> (throw e, s)
      | Inr (c, key) \<Rightarrow>
          (case validate_credentials_for_password_grant E username pw s of
             Inl e \<Rightarrow> (throw e, s)
           | Inr (uid, _) \<Rightarrow> begin_registration E uid key s))"

definition resolve_challenge_user_id :: "id \<Rightarrow> db \<Rightarrow> id reply" where
  "resolve_challenge_user_id cid s =
     (if truthy (challenge_user_id cid s) then ok (the (challenge_user_id cid s))
      else throw attempt_expired)"

definition cross_verify_registration ::
  "env \<Rightarrow> string \<Rightarrow> string \<Rightarrow> register_dto \<Rightarrow> (db, passkey_summary) handler" where
  "cross_verify_registration E cid secret d s =
     (case authenticate_passkey_client E cid secret s of
        Inl e \<Rightarrow> (throw e, s)
      | Inr (c, key) \<Rightarrow>
          (case resolve_challenge_user_id (rd_challenge_id d) s of
             Inl e \<Rightarrow> (throw e, s)
           | Inr uid \<Rightarrow> verify_registration E uid d key s))"

definition cross_begin_login ::
  "env \<Rightarrow> string \<Rightarrow> string \<Rightarrow> (db, (string \<times> string) \<times> id) handler" where
  "cross_begin_login E cid secret s =
     (case authenticate_passkey_client E cid secret s of
        Inl e \<Rightarrow> (throw e, s)
      | Inr (c, key) \<Rightarrow> begin_authentication E key s)"

definition cross_verify_login ::
  "env \<Rightarrow> string \<Rightarrow> string \<Rightarrow> passkey_login_dto \<Rightarrow> string option \<Rightarrow> session_meta \<Rightarrow> (db, token_set) handler" where
  "cross_verify_login E cid secret d dev meta s =
     (case authenticate_passkey_client E cid secret s of
        Inl e \<Rightarrow> (throw e, s)
      | Inr (c, key) \<Rightarrow>
          and_then (verify_authentication_for_relying_party E d meta key) (\<lambda>(uid, _) s1.
            case find_by_id uid s1 of
              Inl e \<Rightarrow> (throw e, s1)
            | Inr u \<Rightarrow>
                (case find_by_client_id (oc_client_id c) s1 of
                   Inl e \<Rightarrow> (throw e, s1)
                 | Inr rc \<Rightarrow>
                     let scope = with_openid (oc_scopes rc)
                     in issue_token_set E (client_params c (u_id u) (u_ndy_id u) scope
                          (scopes_grant_claims scope u) None dev) s1)) s)"

end
