(* ===== verification/Social.thy ===== *)
theory Social
  imports Passkeys
begin

text \<open>
  Sign in with Google or Apple, \<^verbatim>\<open>auth/social-auth.service.ts\<close>: the state row that ties a callback
  to the browser that left, the callbacks (which never throw: every failure is a redirect), the
  resolution of a provider identity to an account, linking and unlinking, and the one-minute code
  the web app or the native app trades for a session.  The provider's token endpoint and the
  verification of its \<^verbatim>\<open>id_token\<close> are the parameter \<^verbatim>\<open>social_exchange\<close>; a redirect is a base URL
  and the parameters set on it, in order.
\<close>

section \<open>Where a sign-in may return to\<close>

definition redirect_scheme_allowlist :: "string list" where
  "redirect_scheme_allowlist = [''ndjoyit://oauth-callback'']"

definition sanitize_redirect_path :: "string option \<Rightarrow> string" where
  "sanitize_redirect_path raw =
     (if truthy raw \<and> the raw \<in> set redirect_scheme_allowlist then the raw
      else if \<not> truthy raw \<or> \<not> starts_with ''/'' (the raw) \<or> starts_with ''//'' (the raw) then ''/''
      else the raw)"

definition is_app_return_url :: "string \<Rightarrow> bool" where
  "is_app_return_url p = (p \<in> set redirect_scheme_allowlist)"

definition callback_url :: "env \<Rightarrow> string \<Rightarrow> (string \<times> string) list \<Rightarrow> redirect_url" where
  "callback_url E p params =
     (if is_app_return_url p then (p, params)
      else (web_app_url E @ ''/oauth/callback'', (''next'', p) # params))"

definition error_redirect :: "env \<Rightarrow> string \<Rightarrow> string \<Rightarrow> redirect_url" where
  "error_redirect E p err = callback_url E p [(''error'', err)]"

definition link_redirect :: "env \<Rightarrow> string \<Rightarrow> (string \<times> string) list \<Rightarrow> redirect_url" where
  "link_redirect E p params = (web_app_url E @ p, params)"

section \<open>Leaving for the provider\<close>

definition state_ttl :: time where
  "state_ttl = minutes 10"

definition exchange_ttl :: time where
  "exchange_ttl = 60 * 1000"

definition normalize_provider :: "string \<Rightarrow> auth_provider reply" where
  "normalize_provider raw =
     (if to_upper raw = ''GOOGLE'' then ok GOOGLE
      else if to_upper raw = ''APPLE'' then ok APPLE
      else throw (BadRequest ''Unknown sign-in provider.''))"

fun provider_slug :: "auth_provider \<Rightarrow> string" where
  "provider_slug GOOGLE = ''google''"
| "provider_slug APPLE = ''apple''"

definition get_provider_status :: "env \<Rightarrow> bool \<times> bool" where
  "get_provider_status E = (social_configured E GOOGLE, social_configured E APPLE)"

definition redirect_uri_for :: "env \<Rightarrow> auth_provider \<Rightarrow> string" where
  "redirect_uri_for E p = api_url E @ ''/auth/oauth/'' @ provider_slug p @ ''/callback''"

definition assert_configured :: "env \<Rightarrow> auth_provider \<Rightarrow> unit reply" where
  "assert_configured E p =
     (if social_configured E p then ok ()
      else throw (BadRequest ((if p = GOOGLE then ''Google'' else ''Apple'') @
             '' sign-in isn't configured on this server yet.'')))"

definition find_state :: "id \<Rightarrow> db \<Rightarrow> ext_auth_state option" where
  "find_state i s = find_row (\<lambda>r. es_id r = i) (auth_states s)"

definition new_state :: "env \<Rightarrow> auth_provider \<Rightarrow> string \<Rightarrow> id option \<Rightarrow> ext_auth_state" where
  "new_state E p path link =
     \<lparr>es_id = new_id E T_AuthState 0, es_provider = p, es_nonce = draw E NonceDraw 0,
      es_link_user = link, es_redirect = path, es_expires = now E + state_ttl\<rparr>"

definition create_state ::
  "env \<Rightarrow> auth_provider \<Rightarrow> string \<Rightarrow> id option \<Rightarrow> (db, id \<times> string) handler" where
  "create_state E p path link s =
     (let r = new_state E p path link
      in if find_state (es_id r) s \<noteq> None then (throw unique_violation, s)
         else (ok (es_id r, es_nonce r), s\<lparr>auth_states := auth_states s @ [r]\<rparr>))"

text \<open>\<^verbatim>\<open>client\<close> is the client id this server is registered under at the provider.\<close>

definition build_authorize_url ::
  "env \<Rightarrow> string \<Rightarrow> auth_provider \<Rightarrow> string \<Rightarrow> string \<Rightarrow> redirect_url" where
  "build_authorize_url E client p state nonce =
     (case p of
        GOOGLE \<Rightarrow>
          (''https://accounts.google.com/o/oauth2/v2/auth'',
           [(''client_id'', client), (''redirect_uri'', redirect_uri_for E p),
            (''response_type'', ''code''), (''scope'', ''openid email profile''),
            (''state'', state), (''nonce'', nonce)])
      | APPLE \<Rightarrow>
          (''https://appleid.apple.com/auth/authorize'',
           [(''client_id'', client), (''redirect_uri'', redirect_uri_for E p),
            (''response_type'', ''code''), (''scope'', ''name email''),
            (''response_mode'', ''form_post''), (''state'', state), (''nonce'', nonce)]))"

definition leave_for_provider ::
  "env \<Rightarrow> string \<Rightarrow> auth_provider \<Rightarrow> string \<Rightarrow> id option \<Rightarrow> (db, redirect_url) handler" where
  "leave_for_provider E client p path link s =
     (case assert_configured E p of
        Inl e \<Rightarrow> (throw e, s)
      | Inr _ \<Rightarrow>
          and_then (create_state E p path link)
            (\<lambda>(st, nonce) s1. (ok (build_authorize_url E client p st nonce), s1)) s)"

definition begin_auth :: "env \<Rightarrow> string \<Rightarrow> auth_provider \<Rightarrow> string option \<Rightarrow> (db, redirect_url) handler" where
  "begin_auth E client p next_path =
     leave_for_provider E client p (sanitize_redirect_path next_path) None"

definition begin_link ::
  "env \<Rightarrow> string \<Rightarrow> id \<Rightarrow> auth_provider \<Rightarrow> string option \<Rightarrow> (db, redirect_url) handler" where
  "begin_link E client uid p next_path =
     leave_for_provider E client p (sanitize_redirect_path (Some (or_else next_path ''/settings'')))
       (Some uid)"

section \<open>Coming back\<close>

definition consume_state ::
  "env \<Rightarrow> string option \<Rightarrow> auth_provider \<Rightarrow> db \<Rightarrow> ext_auth_state option \<times> db" where
  "consume_state E st p s =
     (if \<not> truthy st then (None, s)
      else case find_state (the st) s of
        None \<Rightarrow> (None, s)
      | Some r \<Rightarrow>
          if es_provider r \<noteq> p \<or> es_expires r < now E then (None, s)
          else if count_rows (\<lambda>r. es_id r = the st) (auth_states s) = 0 then (None, s)
          else (Some r, s\<lparr>auth_states := delete_rows (\<lambda>r. es_id r = the st) (auth_states s)\<rparr>))"

record verified_identity =
  vi_subject :: string
  vi_email :: string
  vi_email_verified :: bool
  vi_name :: "string option"

definition find_identity :: "auth_provider \<Rightarrow> string \<Rightarrow> db \<Rightarrow> auth_identity option" where
  "find_identity p sub s = find_row (\<lambda>i. ai_provider i = p \<and> ai_provider_user i = sub) (identities s)"

definition new_identity :: "env \<Rightarrow> id \<Rightarrow> auth_provider \<Rightarrow> verified_identity \<Rightarrow> auth_identity" where
  "new_identity E uid p v =
     \<lparr>ai_id = new_id E T_AuthIdentity 0, ai_user = uid, ai_provider = p, ai_provider_user = vi_subject v,
      ai_email = Some (vi_email v), ai_created_at = now E\<rparr>"

text \<open>\<^verbatim>\<open>authIdentity.create\<close> for an identity the caller has just looked up in vain.\<close>

definition create_identity :: "env \<Rightarrow> id \<Rightarrow> auth_provider \<Rightarrow> verified_identity \<Rightarrow> (db, unit) handler" where
  "create_identity E uid p v s =
     (let i = new_identity E uid p v
      in if find_user uid s = None then (throw (ServerError ''Foreign key constraint failed''), s)
         else if exists_row (\<lambda>x. ai_id x = ai_id i) (identities s) then (throw unique_violation, s)
         else (ok (), s\<lparr>identities := identities s @ [i]\<rparr>))"

definition resolve_or_create_user ::
  "env \<Rightarrow> auth_provider \<Rightarrow> verified_identity \<Rightarrow> (db, user) handler" where
  "resolve_or_create_user E p v s =
     (case find_identity p (vi_subject v) s of
        Some i \<Rightarrow> (find_by_id (ai_user i) s, s)
      | None \<Rightarrow>
          (case find_by_email (vi_email v) s of
             Some u \<Rightarrow> and_then (create_identity E (u_id u) p v) (\<lambda>_ s1. (ok u, s1)) s
           | None \<Rightarrow>
               and_then (create_user E (vi_email v) None (no_fields\<lparr>pf_full_name := map_option Some (vi_name v)\<rparr>))
                 (\<lambda>u. and_then (create_identity E (u_id u) p v) (\<lambda>_ s2.
                    (ok u,
                     if vi_email_verified v
                     then update_user (u_id u) (\<lambda>x. x\<lparr>u_email_verified_at := Some (now E)\<rparr>) s2
                     else s2))) s))"

definition finish_link ::
  "env \<Rightarrow> id \<Rightarrow> auth_provider \<Rightarrow> verified_identity \<Rightarrow> string \<Rightarrow> (db, redirect_url) handler" where
  "finish_link E uid p v path s =
     (case find_identity p (vi_subject v) s of
        Some i \<Rightarrow>
          if ai_user i \<noteq> uid
          then (ok (link_redirect E path [(''linkError'', ''already_linked_elsewhere'')]), s)
          else (ok (link_redirect E path [(''linked'', provider_slug p)]), s)
      | None \<Rightarrow>
          and_then (create_identity E uid p v)
            (\<lambda>_ s1. (ok (link_redirect E path [(''linked'', provider_slug p)]), s1)) s)"

fun method_name :: "two_factor_method \<Rightarrow> string" where
  "method_name TOTP = ''TOTP''"
| "method_name SMS = ''SMS''"

definition find_exchange :: "id \<Rightarrow> db \<Rightarrow> login_exchange option" where
  "find_exchange i s = find_row (\<lambda>r. lx_id r = i) (exchanges s)"

definition create_exchange :: "env \<Rightarrow> id \<Rightarrow> (db, id) handler" where
  "create_exchange E uid s =
     (let r = \<lparr>lx_id = new_id E T_LoginExchange 0, lx_user = uid, lx_expires = now E + exchange_ttl\<rparr>
      in if find_exchange (lx_id r) s \<noteq> None then (throw unique_violation, s)
         else (ok (lx_id r), s\<lparr>exchanges := exchanges s @ [r]\<rparr>))"

definition build_success_redirect :: "env \<Rightarrow> user \<Rightarrow> string \<Rightarrow> (db, redirect_url) handler" where
  "build_success_redirect E u path s =
     (let ms = enabled_two_factor_methods u
      in if u_suspended u then (ok (error_redirect E path ''account_suspended''), s)
         else if ms \<noteq> []
         then and_then (issue_challenge E (u_id u)) (\<lambda>t s1.
                (ok (callback_url E path
                   [(''requires2fa'', ''1''), (''challengeToken'', t),
                    (''methods'', join_with CHR '','' (map method_name ms))]), s1)) s
         else and_then (create_exchange E (u_id u))
                (\<lambda>code s1. (ok (callback_url E path [(''code'', code)]), s1)) s)"

text \<open>
  The checks on what the provider said: the nonce of the state row, and an e-mail address.  Apple
  sends the name once, in a form field of its own.
\<close>

definition verified_profile ::
  "ext_auth_state \<Rightarrow> social_profile option \<Rightarrow> string option \<Rightarrow> verified_identity option" where
  "verified_profile st prof nm =
     (case prof of
        None \<Rightarrow> None
      | Some x \<Rightarrow>
          if sp_nonce x \<noteq> Some (es_nonce st) \<or> \<not> truthy (sp_email x) then None
          else Some \<lparr>vi_subject = sp_subject x, vi_email = the (sp_email x),
                     vi_email_verified = sp_email_verified x, vi_name = nm\<rparr>)"

definition finish_callback ::
  "env \<Rightarrow> auth_provider \<Rightarrow> ext_auth_state \<Rightarrow> verified_identity \<Rightarrow> (db, redirect_url) handler" where
  "finish_callback E p st v s =
     (if truthy (es_link_user st) then finish_link E (the (es_link_user st)) p v (es_redirect st) s
      else and_then (resolve_or_create_user E p v) (\<lambda>u. build_success_redirect E u (es_redirect st)) s)"

text \<open>The \<^verbatim>\<open>try\<close>/\<^verbatim>\<open>catch\<close> around a callback: what was written before the exception stays.\<close>

definition caught :: "redirect_url \<Rightarrow> redirect_url reply \<times> db \<Rightarrow> redirect_url \<times> db" where
  "caught fallback r = (case fst r of Inl _ \<Rightarrow> fallback | Inr u \<Rightarrow> u, snd r)"

definition social_callback ::
  "env \<Rightarrow> auth_provider \<Rightarrow> string option \<Rightarrow> string option \<Rightarrow> string option \<Rightarrow>
     (social_profile option \<Rightarrow> string option) \<Rightarrow> db \<Rightarrow> redirect_url \<times> db" where
  "social_callback E p code state err name_of s =
     (case consume_state E state p s of
        (None, s1) \<Rightarrow> (error_redirect E ''/'' ''invalid_request'', s1)
      | (Some st, s1) \<Rightarrow>
          if truthy err \<or> \<not> truthy code
          then (error_redirect E (es_redirect st) (or_else err ''access_denied''), s1)
          else
            let prof = social_exchange E p (the code);
                failed = error_redirect E ''/'' (provider_slug p @ ''_sign_in_failed'')
            in case verified_profile st prof (name_of prof) of
                 None \<Rightarrow> (failed, s1)
               | Some v \<Rightarrow> caught failed (finish_callback E p st v s1))"

definition handle_google_callback ::
  "env \<Rightarrow> string option \<Rightarrow> string option \<Rightarrow> string option \<Rightarrow> db \<Rightarrow> redirect_url \<times> db" where
  "handle_google_callback E code state err =
     social_callback E GOOGLE code state err (\<lambda>prof. Option.bind prof sp_name)"

text \<open>\<^verbatim>\<open>JSON.parse\<close> of Apple's \<^verbatim>\<open>user\<close> field: None when it is absent or malformed.\<close>

record apple_callback_dto =
  ap_code :: "string option"
  ap_state :: "string option"
  ap_error :: "string option"
  ap_user :: "(string option \<times> string option) option"

definition parse_apple_user_field :: "(string option \<times> string option) option \<Rightarrow> string option" where
  "parse_apple_user_field raw =
     (case raw of
        None \<Rightarrow> None
      | Some (first_name, last_name) \<Rightarrow>
          (let parts = map the (filter truthy [first_name, last_name])
           in if parts \<noteq> [] then Some (join_with CHR '' '' parts) else None))"

definition handle_apple_callback :: "env \<Rightarrow> apple_callback_dto \<Rightarrow> db \<Rightarrow> redirect_url \<times> db" where
  "handle_apple_callback E d =
     social_callback E APPLE (ap_code d) (ap_state d) (ap_error d)
       (\<lambda>_. parse_apple_user_field (ap_user d))"

section \<open>The code of the redirect\<close>

definition sign_in_expired :: http_error where
  "sign_in_expired = Unauthorized ''This sign-in attempt has expired - try again.''"

definition exchange_login_code :: "env \<Rightarrow> string \<Rightarrow> session_meta \<Rightarrow> (db, issued_session) handler" where
  "exchange_login_code E code meta s =
     (case find_exchange code s of
        None \<Rightarrow> (throw sign_in_expired, s)
      | Some r \<Rightarrow>
          if lx_expires r < now E then (throw sign_in_expired, s)
          else if count_rows (\<lambda>r. lx_id r = code) (exchanges s) = 0 then (throw sign_in_expired, s)
          else
            let s1 = s\<lparr>exchanges := delete_rows (\<lambda>r. lx_id r = code) (exchanges s)\<rparr>
            in case find_by_id (lx_user r) s1 of
                 Inl e \<Rightarrow> (throw e, s1)
               | Inr u \<Rightarrow>
                   let fresh_device = is_new_device (u_id u) meta s1
                   in and_then (issue_session E (u_id u) (u_ndy_id u) meta)
                        (\<lambda>tok s2. (ok tok, record_login E (u_id u) meta fresh_device s2)) s1)"

section \<open>Connected accounts\<close>

definition list_connected_accounts ::
  "id \<Rightarrow> db \<Rightarrow> (id \<times> auth_provider \<times> string option \<times> time) list" where
  "list_connected_accounts uid s =
     map (\<lambda>i. (ai_id i, ai_provider i, ai_email i, ai_created_at i))
       (sort_key ai_created_at (filter (\<lambda>i. ai_user i = uid) (identities s)))"

definition unlink_account :: "id \<Rightarrow> id \<Rightarrow> (db, unit) handler" where
  "unlink_account uid iid s =
     (case find_row (\<lambda>i. ai_id i = iid) (identities s) of
        None \<Rightarrow> (throw (BadRequest ''No connected account with that id.''), s)
      | Some i \<Rightarrow>
          if ai_user i \<noteq> uid then (throw (BadRequest ''No connected account with that id.''), s)
          else case find_by_id uid s of
            Inl e \<Rightarrow> (throw e, s)
          | Inr u \<Rightarrow>
              if \<not> truthy (u_password_hash u) \<and>
                 count_rows (\<lambda>x. ai_user x = uid \<and> ai_id x \<noteq> iid) (identities s) = 0 \<and>
                 count_rows (\<lambda>k. pk_user k = uid) (passkeys s) = 0
              then (throw (Conflict ''Disconnecting this would leave your account with no way to sign in - set a password or add a passkey first.''), s)
              else (ok (), s\<lparr>identities := delete_rows (\<lambda>x. ai_id x = iid) (identities s)\<rparr>))"

end
