(* ===== verification/SignIn.thy ===== *)
theory SignIn
  imports Social
begin

text \<open>
  What passkeys and social sign-in promise.  Every challenge, state and exchange code is used at
  most once per issue; a passkey opens an account only through a signature over a pending challenge of its
  own relying party; a passkey or a provider identity gets onto an account only through a ceremony
  of that account; callbacks redirect to the web app or to the allow-listed app; disconnecting a
  provider leaves a way in.
\<close>

section \<open>The operations\<close>

datatype sign_in_op =
    BeginPasskey id
  | AddPasskey id register_dto
  | RemovePasskey id id
  | BeginPasskeyLogin
  | PasskeyLogin passkey_login_dto session_meta
  | CrossBegin string string string string
  | CrossAdd string string register_dto
  | CrossBeginLogin string string
  | CrossLogin string string passkey_login_dto "string option" session_meta
  | LeaveFor string auth_provider "string option"
  | LinkVia string id auth_provider "string option"
  | GoogleBack "string option" "string option" "string option"
  | AppleBack apple_callback_dto
  | ExchangeCode string session_meta
  | Unlink id id

text \<open>A callback that comes back without an \<^verbatim>\<open>error\<close> parameter has signed in or linked.\<close>

definition came_back :: "redirect_url \<times> db \<Rightarrow> bool \<times> db" where
  "came_back r = (''error'' \<notin> fst ` set (snd (fst r)), snd r)"

fun sign_in_step :: "env \<times> sign_in_op \<Rightarrow> db \<Rightarrow> bool \<times> db" where
  "sign_in_step (E, BeginPasskey u) s = answered (begin_registration E u ''ndyhub'' s)"
| "sign_in_step (E, AddPasskey u d) s = answered (verify_registration E u d ''ndyhub'' s)"
| "sign_in_step (E, RemovePasskey u i) s = answered (remove_passkey E u i s)"
| "sign_in_step (E, BeginPasskeyLogin) s = answered (begin_authentication E ''ndyhub'' s)"
| "sign_in_step (E, PasskeyLogin d m) s = answered (verify_authentication E d m ''ndyhub'' s)"
| "sign_in_step (E, CrossBegin c k n p) s = answered (cross_begin_registration E c k n p s)"
| "sign_in_step (E, CrossAdd c k d) s = answered (cross_verify_registration E c k d s)"
| "sign_in_step (E, CrossBeginLogin c k) s = answered (cross_begin_login E c k s)"
| "sign_in_step (E, CrossLogin c k d v m) s = answered (cross_verify_login E c k d v m s)"
| "sign_in_step (E, LeaveFor c p n) s = answered (begin_auth E c p n s)"
| "sign_in_step (E, LinkVia c u p n) s = answered (begin_link E c u p n s)"
| "sign_in_step (E, GoogleBack c st e) s = came_back (handle_google_callback E c st e s)"
| "sign_in_step (E, AppleBack d) s = came_back (handle_apple_callback E d s)"
| "sign_in_step (E, ExchangeCode c m) s = answered (exchange_login_code E c m s)"
| "sign_in_step (E, Unlink u i) s = answered (unlink_account u i s)"

section \<open>Frames\<close>

text \<open>The tables sign-in keeps its tickets and its ways in.\<close>

definition doors :: "db \<Rightarrow> webauthn_challenge list \<times> ext_auth_state list \<times> login_exchange list \<times>
    passkey list \<times> auth_identity list" where
  "doors s = (challenges s, auth_states s, exchanges s, passkeys s, identities s)"

lemma doors_same:
  "doors s' = doors s \<longleftrightarrow> challenges s' = challenges s \<and> auth_states s' = auth_states s \<and>
     exchanges s' = exchanges s \<and> passkeys s' = passkeys s \<and> identities s' = identities s"
  by (auto simp: doors_def)

lemma doors_beside:
  assumes "beside_sign_in s' = beside_sign_in s"
  shows "doors s' = doors s"
  by (simp add: doors_same beside_tables [OF assms])

lemma doors_issue_session [simp]: "doors (snd (issue_session E u n m s)) = doors s"
  by (rule doors_beside [OF beside_issue_session])

lemma doors_record_login [simp]: "doors (record_login E u m b s) = doors s"
  by (simp add: doors_def record_login_def)

lemma doors_record_event [simp]: "doors (record_event E u t m s) = doors s"
  by (simp add: doors_def record_event_def)

lemma doors_issue_challenge [simp]: "doors (snd (issue_challenge E u s)) = doors s"
  by (simp add: doors_def issue_challenge_def Let_def)

lemma doors_issue_token_set [simp]: "doors (snd (issue_token_set E p s)) = doors s"
proof -
  obtain dev s1 where r: "resolve_device E (tk_user_id p) (tk_device p) None s = (dev, s1)"
    by fastforce
  then have "doors s1 = doors s"
    using doors_beside [OF beside_resolve_device, of E "tk_user_id p" "tk_device p" None s] by simp
  then show ?thesis
    by (simp add: issue_token_set_def r Let_def) (simp add: doors_def)
qed

lemma doors_personal_workspace [simp]:
  "doors (snd (get_or_create_personal_workspace E i s)) = doors s"
  by (simp add: get_or_create_personal_workspace_def doors_def Let_def split: option.splits)

lemma doors_create_user_attempt [simp]:
  "doors (snd (create_user_attempt E n e p f s)) = doors s"
proof (induction E n e p f s rule: create_user_attempt.induct)
  case (1 E n e p f s)
  show ?case
  proof (cases "max_ndy_id_attempts \<le> n")
    case False
    let ?u = "new_user E (generate_core_id E n) e p f"
    have "doors (s\<lparr>users := x\<rparr>) = doors s" for x by (simp add: doors_def)
    with False 1 [OF False refl] show ?thesis
      by (subst create_user_attempt.simps) (simp add: Let_def)
  qed (simp add: create_user_attempt.simps)
qed

lemma doors_create_user [simp]: "doors (snd (create_user E e p f s)) = doors s"
  by (simp add: create_user_def)

lemma doors_login_tail [simp]:
  "doors (snd (and_then (issue_session E u n m) (\<lambda>tok s1. (ok (f tok), record_login E u m b s1)) s)) =
     doors s"
  by (rule and_then_frame) simp_all

section \<open>Tickets\<close>

lemma consume_challenge_ok:
  assumes "consume_challenge E cid t uid rp s = (Inr c, s')"
  shows "find_challenge cid s = Some c" "wc_rp c = rp" "wc_type c = t" "now E \<le> wc_expires c"
    "uid \<noteq> None \<Longrightarrow> wc_user c = uid"
    "s' = s\<lparr>challenges := delete_rows (\<lambda>c. wc_id c = cid) (challenges s)\<rparr>"
  using assms by (auto simp: consume_challenge_def split: option.splits if_splits)

lemma consume_challenge_error: "consume_challenge E cid t uid rp s = (Inl e, s') \<Longrightarrow> s' = s"
  by (auto simp: consume_challenge_def split: option.splits if_splits)

lemma create_challenge_ok:
  "create_challenge E uid t rp s = (Inr i, s') \<longleftrightarrow>
     i = new_id E T_WebauthnChallenge 0 \<and> find_challenge i s = None \<and>
     s' = s\<lparr>challenges := challenges s @ [new_webauthn_challenge E uid t rp]\<rparr>"
  by (auto simp: create_challenge_def Let_def new_webauthn_challenge_def)

lemma create_challenge_error: "create_challenge E uid t rp s = (Inl e, s') \<Longrightarrow> s' = s"
  by (auto simp: create_challenge_def Let_def split: if_splits)

datatype ticket_key = ChallengeTicket id | StateTicket id | ExchangeTicket id

fun ticket_stock :: "ticket_key \<Rightarrow> db \<Rightarrow> nat" where
  "ticket_stock (ChallengeTicket i) s = count_rows (\<lambda>c. wc_id c = i) (challenges s)"
| "ticket_stock (StateTicket i) s = count_rows (\<lambda>r. es_id r = i) (auth_states s)"
| "ticket_stock (ExchangeTicket i) s = count_rows (\<lambda>r. lx_id r = i) (exchanges s)"

fun ticket_presented :: "env \<times> sign_in_op \<Rightarrow> ticket_key option" where
  "ticket_presented (E, AddPasskey u d) = Some (ChallengeTicket (rd_challenge_id d))"
| "ticket_presented (E, PasskeyLogin d m) = Some (ChallengeTicket (pl_challenge_id d))"
| "ticket_presented (E, CrossAdd c k d) = Some (ChallengeTicket (rd_challenge_id d))"
| "ticket_presented (E, CrossLogin c k d v m) = Some (ChallengeTicket (pl_challenge_id d))"
| "ticket_presented (E, GoogleBack c st e) = map_option StateTicket st"
| "ticket_presented (E, AppleBack d) = map_option StateTicket (ap_state d)"
| "ticket_presented (E, ExchangeCode c m) = Some (ExchangeTicket c)"
| "ticket_presented _ = None"

fun ticket_issued :: "ticket_key \<Rightarrow> env \<times> sign_in_op \<Rightarrow> bool" where
  "ticket_issued (ChallengeTicket i) (E, a) = (i = new_id E T_WebauthnChallenge 0 \<and>
     (case a of BeginPasskey u \<Rightarrow> True | BeginPasskeyLogin \<Rightarrow> True | CrossBegin c k n p \<Rightarrow> True
      | CrossBeginLogin c k \<Rightarrow> True | _ \<Rightarrow> False))"
| "ticket_issued (StateTicket i) (E, a) = (i = new_id E T_AuthState 0 \<and>
     (case a of LeaveFor c p n \<Rightarrow> True | LinkVia c u p n \<Rightarrow> True | _ \<Rightarrow> False))"
| "ticket_issued (ExchangeTicket i) (E, a) = (i = new_id E T_LoginExchange 0 \<and>
     (case a of GoogleBack c st e \<Rightarrow> True | AppleBack d \<Rightarrow> True | _ \<Rightarrow> False))"

text \<open>A step's effect on the stock: at most one issue of \<open>I\<close>, and nothing when it only consumes.\<close>

definition stocks :: "(ticket_key \<Rightarrow> bool) \<Rightarrow> db \<Rightarrow> db \<Rightarrow> bool" where
  "stocks I s s' = (\<forall>k. ticket_stock k s' \<le> ticket_stock k s + (if I k then 1 else 0))"

lemma ticket_stock_doors: "doors s' = doors s \<Longrightarrow> ticket_stock k s' = ticket_stock k s"
  by (cases k) (simp_all add: doors_same)

lemma stocks_same:
  assumes "doors s' = doors s"
  shows "stocks I s s'"
  by (simp add: stocks_def ticket_stock_doors [OF assms])

lemma stocks_trans: "stocks (\<lambda>_. False) s s1 \<Longrightarrow> stocks I s1 s2 \<Longrightarrow> stocks I s s2"
  unfolding stocks_def by (metis (no_types, lifting) add_0_right add_le_mono1 order_trans)

lemma stocks_delete [simp]:
  "stocks I s (s\<lparr>challenges := delete_rows P (challenges s)\<rparr>)"
  "stocks I s (s\<lparr>auth_states := delete_rows Q (auth_states s)\<rparr>)"
  "stocks I s (s\<lparr>exchanges := delete_rows R (exchanges s)\<rparr>)"
proof -
  have a: "ticket_stock k (s\<lparr>challenges := delete_rows P (challenges s)\<rparr>) \<le> ticket_stock k s"
    "ticket_stock k (s\<lparr>auth_states := delete_rows Q (auth_states s)\<rparr>) \<le> ticket_stock k s"
    "ticket_stock k (s\<lparr>exchanges := delete_rows R (exchanges s)\<rparr>) \<le> ticket_stock k s" for k
    by (cases k; auto intro: count_rows_mono)+
  show "stocks I s (s\<lparr>challenges := delete_rows P (challenges s)\<rparr>)"
    "stocks I s (s\<lparr>auth_states := delete_rows Q (auth_states s)\<rparr>)"
    "stocks I s (s\<lparr>exchanges := delete_rows R (exchanges s)\<rparr>)"
    unfolding stocks_def by (intro allI trans_le_add1 a)+
qed

lemma stocks_after: "stocks I s s1 \<Longrightarrow> doors s2 = doors s1 \<Longrightarrow> stocks I s s2"
  unfolding stocks_def using ticket_stock_doors by metis

text \<open>What each ceremony leaves of the tickets.\<close>

lemma create_challenge_stocks:
  assumes "I (ChallengeTicket (new_id E T_WebauthnChallenge 0))"
  shows "stocks I s (snd (create_challenge E u t rp s))"
proof -
  have "ticket_stock k (s\<lparr>challenges := challenges s @ [new_webauthn_challenge E u t rp]\<rparr>) \<le>
      ticket_stock k s + (if I k then 1 else 0)" for k
    using assms by (cases k) (auto simp: new_webauthn_challenge_def)
  then show ?thesis
    by (simp add: create_challenge_def Let_def stocks_def)
qed

lemma create_state_stocks:
  assumes "I (StateTicket (new_id E T_AuthState 0))"
  shows "stocks I s (snd (create_state E p path l s))"
proof -
  have "ticket_stock k (s\<lparr>auth_states := auth_states s @ [new_state E p path l]\<rparr>) \<le>
      ticket_stock k s + (if I k then 1 else 0)" for k
    using assms by (cases k) (auto simp: new_state_def)
  then show ?thesis
    by (simp add: create_state_def Let_def stocks_def)
qed

lemma create_exchange_stocks:
  assumes "I (ExchangeTicket (new_id E T_LoginExchange 0))"
  shows "stocks I s (snd (create_exchange E u s))"
proof -
  have "ticket_stock k (s\<lparr>exchanges := exchanges s @
        [\<lparr>lx_id = new_id E T_LoginExchange 0, lx_user = u, lx_expires = e\<rparr>]\<rparr>) \<le>
      ticket_stock k s + (if I k then 1 else 0)" for k e
    using assms by (cases k) auto
  then show ?thesis
    by (simp add: create_exchange_def Let_def stocks_def)
qed

lemma ticket_stock_unticketed [simp]:
  "ticket_stock k (s\<lparr>passkeys := x\<rparr>) = ticket_stock k s"
  "ticket_stock k (s\<lparr>identities := y\<rparr>) = ticket_stock k s"
  "ticket_stock k (s\<lparr>users := z\<rparr>) = ticket_stock k s"
  by (cases k; simp)+

lemma stocks_and_then:
  assumes "stocks (\<lambda>_. False) s (snd (h s))" and "\<And>x s1. h s = (Inr x, s1) \<Longrightarrow> stocks I s1 (snd (k x s1))"
  shows "stocks I s (snd (and_then h k s))"
proof (cases "h s")
  case (Pair r s1)
  with assms(1) have le: "stocks (\<lambda>_. False) s s1" by simp
  show ?thesis
  proof (cases r)
    case (Inl e)
    with Pair le show ?thesis by (auto simp: stocks_def intro: le_SucI)
  next
    case (Inr x)
    with Pair le assms(2) show ?thesis by (auto intro: stocks_trans)
  qed
qed

lemma consume_challenge_stocks: "stocks I s (snd (consume_challenge E c t u rp s))"
  by (auto simp: consume_challenge_def stocks_same split: option.splits)

lemma stocks_unticketed [simp]:
  "stocks I s (s\<lparr>passkeys := x\<rparr>)" "stocks I s (s\<lparr>identities := y\<rparr>)" "stocks I s (s\<lparr>users := z\<rparr>)"
  by (simp_all add: stocks_def)

lemma stocks_events [simp]:
  "stocks I s (record_event E u t m s1) = stocks I s s1"
  "stocks I s (record_login E u m b s1) = stocks I s s1"
  unfolding stocks_def
  using ticket_stock_doors [OF doors_record_event, of _ E u t m s1]
    ticket_stock_doors [OF doors_record_login, of _ E u m b s1] by simp_all

lemma verify_registration_stocks: "stocks I s (snd (verify_registration E u d key s))"
  by (auto simp: verify_registration_def stocks_same consume_challenge_stocks Let_def
      split: sum.splits option.splits intro!: stocks_and_then)

lemma verify_core_stocks: "stocks I s (snd (verify_authentication_core E d key s))"
  by (auto simp: verify_authentication_core_def stocks_same consume_challenge_stocks Let_def
      split: sum.splits option.splits intro!: stocks_and_then)

lemma verify_authentication_stocks: "stocks I s (snd (verify_authentication E d m key s))"
  unfolding verify_authentication_def Let_def
  by (rule stocks_and_then) (auto simp: verify_core_stocks intro: stocks_same)

lemma verify_for_rp_stocks:
  "stocks I s (snd (verify_authentication_for_relying_party E d m key s))"
  unfolding verify_authentication_for_relying_party_def
  by (rule stocks_and_then) (auto simp: verify_core_stocks intro: stocks_same)

lemma begin_registration_stocks:
  assumes "I (ChallengeTicket (new_id E T_WebauthnChallenge 0))"
  shows "stocks I s (snd (begin_registration E u key s))"
  using create_challenge_stocks [where I = I, OF assms]
  by (auto simp: begin_registration_def stocks_same Let_def split: sum.splits)

lemma begin_authentication_stocks:
  assumes "I (ChallengeTicket (new_id E T_WebauthnChallenge 0))"
  shows "stocks I s (snd (begin_authentication E key s))"
  using create_challenge_stocks [where I = I, OF assms]
  by (auto simp: begin_authentication_def stocks_same split: sum.splits)

lemma cross_verify_login_stocks: "stocks I s (snd (cross_verify_login E c k d v m s))"
  by (auto simp: cross_verify_login_def stocks_same verify_for_rp_stocks Let_def
      split: sum.splits prod.splits intro!: stocks_and_then)

lemma leave_stocks:
  assumes "I (StateTicket (new_id E T_AuthState 0))"
  shows "stocks I s (snd (leave_for_provider E c p path l s))"
  using create_state_stocks [where I = I, OF assms]
  by (auto simp: leave_for_provider_def stocks_same case_prod_unfold split: sum.splits)

lemma create_identity_stocks: "stocks I s (snd (create_identity E u p v s))"
  by (simp add: create_identity_def Let_def stocks_same)

lemma resolve_stocks: "stocks I s (snd (resolve_or_create_user E p v s))"
  by (auto simp: resolve_or_create_user_def stocks_same create_identity_stocks
      split: option.splits intro!: stocks_and_then)

lemma finish_callback_stocks:
  assumes "I (ExchangeTicket (new_id E T_LoginExchange 0))"
  shows "stocks I s (snd (finish_callback E p st v s))"
proof -
  have "stocks I s1 (snd (build_success_redirect E u path s1))" for u path s1
    using create_exchange_stocks [where I = I, OF assms]
    by (auto simp: build_success_redirect_def Let_def stocks_same)
  then show ?thesis
    by (auto simp: finish_callback_def finish_link_def stocks_same resolve_stocks create_identity_stocks
        split: option.splits intro!: stocks_and_then)
qed

lemma consume_state_stocks: "stocks I s (snd (consume_state E st p s))"
  by (auto simp: consume_state_def stocks_same split: option.splits)

lemma social_callback_stocks:
  assumes "I (ExchangeTicket (new_id E T_LoginExchange 0))"
  shows "stocks I s (snd (social_callback E p c st e f s))"
proof (cases "consume_state E st p s")
  case (Pair r s1)
  have le: "stocks J s s1" for J
    using consume_state_stocks [of J s E st p] Pair by simp
  have "stocks I s (snd (caught x (finish_callback E p y v s1)))" for x y v
    using stocks_trans [OF le finish_callback_stocks [where I = I, OF assms]]
    by (simp add: caught_def)
  with Pair le show ?thesis
    by (auto simp: social_callback_def Let_def split: option.splits)
qed

lemma exchange_stocks: "stocks I s (snd (exchange_login_code E c m s))"
  by (auto simp: exchange_login_code_def Let_def stocks_same split: option.splits sum.splits
      intro: stocks_after [OF stocks_delete(3)])

lemma sign_in_step_stocks: "stocks (\<lambda>k. ticket_issued k (E, a)) s (snd (sign_in_step (E, a) s))"
proof (cases a)
  case (BeginPasskey u)
  then show ?thesis by (simp add: begin_registration_stocks)
next
  case (AddPasskey u d)
  then show ?thesis by (simp add: verify_registration_stocks)
next
  case (RemovePasskey u i)
  then show ?thesis by (auto simp: remove_passkey_def Let_def stocks_same)
next
  case BeginPasskeyLogin
  then show ?thesis by (simp add: begin_authentication_stocks)
next
  case (PasskeyLogin d m)
  then show ?thesis by (simp add: verify_authentication_stocks)
next
  case (CrossBegin c k n p)
  then show ?thesis
    by (auto simp: cross_begin_registration_def stocks_same begin_registration_stocks
        split: sum.splits prod.splits)
next
  case (CrossAdd c k d)
  then show ?thesis
    by (auto simp: cross_verify_registration_def stocks_same verify_registration_stocks
        split: sum.splits prod.splits)
next
  case (CrossBeginLogin c k)
  then show ?thesis
    by (auto simp: cross_begin_login_def stocks_same begin_authentication_stocks
        split: sum.splits prod.splits)
next
  case (CrossLogin c k d v m)
  then show ?thesis by (simp add: cross_verify_login_stocks)
next
  case (LeaveFor c p n)
  then show ?thesis by (simp add: begin_auth_def leave_stocks)
next
  case (LinkVia c u p n)
  then show ?thesis by (simp add: begin_link_def leave_stocks)
next
  case (GoogleBack c st e)
  then show ?thesis by (simp add: came_back_def handle_google_callback_def social_callback_stocks)
next
  case (AppleBack d)
  then show ?thesis by (simp add: came_back_def handle_apple_callback_def social_callback_stocks)
next
  case (ExchangeCode c m)
  then show ?thesis by (simp add: exchange_stocks)
next
  case (Unlink u i)
  then show ?thesis
    by (auto simp: unlink_account_def stocks_same split: option.splits sum.splits)
qed

section \<open>Redeeming a ticket uses it up\<close>

definition uses :: "ticket_key \<Rightarrow> db \<Rightarrow> db \<Rightarrow> bool" where
  "uses k s s' = (Suc (ticket_stock k s') \<le> ticket_stock k s)"

lemma uses_then: "uses k s s1 \<Longrightarrow> stocks I s1 s2 \<Longrightarrow> \<not> I k \<Longrightarrow> uses k s s2"
  unfolding uses_def stocks_def by (metis (full_types) Suc_le_mono add_0_right order_trans)

lemma uses_same: "uses k s s1 \<Longrightarrow> doors s2 = doors s1 \<Longrightarrow> uses k s s2"
  by (erule uses_then [where I = "\<lambda>_. False"]) (simp_all add: stocks_same)

lemma deleted_uses:
  "find_challenge i s \<noteq> None \<Longrightarrow>
     uses (ChallengeTicket i) s (s\<lparr>challenges := delete_rows (\<lambda>c. wc_id c = i) (challenges s)\<rparr>)"
  "find_state i s \<noteq> None \<Longrightarrow>
     uses (StateTicket i) s (s\<lparr>auth_states := delete_rows (\<lambda>r. es_id r = i) (auth_states s)\<rparr>)"
  "find_exchange i s \<noteq> None \<Longrightarrow>
     uses (ExchangeTicket i) s (s\<lparr>exchanges := delete_rows (\<lambda>r. lx_id r = i) (exchanges s)\<rparr>)"
  unfolding uses_def find_challenge_def find_state_def find_exchange_def
  by (auto simp: Suc_le_eq dest!: find_row_Some_D intro!: count_rows_pos)

lemma consume_challenge_uses:
  "consume_challenge E i t u rp s = (Inr c, s1) \<Longrightarrow> uses (ChallengeTicket i) s s1"
  by (frule consume_challenge_ok(1), drule consume_challenge_ok(6)) (simp add: deleted_uses(1))

lemma verify_registration_ok:
  assumes "verify_registration E u d key s = (Inr x, s')"
  obtains rp c s1 i where "resolve_relying_party E key = Inr rp"
    "consume_challenge E (rd_challenge_id d) REGISTRATION (Some u) (rp_id rp) s = (Inr c, s1)"
    "webauthn_register E (rp_id rp) (rp_origin rp) (wc_challenge c) (rd_response d) = Some i"
    "wi_credential i \<notin> pk_credential ` set (passkeys s1)"
    "s' = record_event E u PASSKEY_ADDED no_meta
       (s1\<lparr>passkeys := passkeys s1 @ [new_passkey E u (rp_id rp) i (rd_label d)]\<rparr>)"
proof -
  obtain rp where rp: "resolve_relying_party E key = Inr rp"
    using assms by (cases "resolve_relying_party E key") (simp_all add: verify_registration_def)
  then obtain c s1 where c: "consume_challenge E (rd_challenge_id d) REGISTRATION (Some u) (rp_id rp) s = (Inr c, s1)"
    using assms by (auto simp: verify_registration_def elim!: and_then_succeedsD)
  then obtain i where i: "webauthn_register E (rp_id rp) (rp_origin rp) (wc_challenge c) (rd_response d) = Some i"
    using assms rp by (auto simp: verify_registration_def split: option.splits)
  have "wi_credential i \<notin> pk_credential ` set (passkeys s1)"
    "s' = record_event E u PASSKEY_ADDED no_meta
       (s1\<lparr>passkeys := passkeys s1 @ [new_passkey E u (rp_id rp) i (rd_label d)]\<rparr>)"
    using assms rp c i
    by (auto simp: verify_registration_def Let_def new_passkey_def split: if_splits)
  with rp c i that show thesis by blast
qed

lemma verify_registration_uses:
  assumes "verify_registration E u d key s = (Inr x, s')"
  shows "uses (ChallengeTicket (rd_challenge_id d)) s s'"
  using assms
proof (rule verify_registration_ok)
  fix rp c s1 i
  assume c: "consume_challenge E (rd_challenge_id d) REGISTRATION (Some u) (rp_id rp) s = (Inr c, s1)"
    and s': "s' = record_event E u PASSKEY_ADDED no_meta
       (s1\<lparr>passkeys := passkeys s1 @ [new_passkey E u (rp_id rp) i (rd_label d)]\<rparr>)"
  show ?thesis
    by (rule uses_then [OF consume_challenge_uses [OF c], where I = "\<lambda>_. False"]) (simp_all add: s')
qed

lemma verify_core_ok:
  assumes "verify_authentication_core E d key s = (Inr (uid, ndy), s')"
  obtains rp c s1 k n u where "resolve_relying_party E key = Inr rp"
    "consume_challenge E (pl_challenge_id d) AUTHENTICATION None (rp_id rp) s = (Inr c, s1)"
    "find_passkey (pl_credential d) s1 = Some k" "pk_rp k = rp_id rp"
    "webauthn_assert E (rp_id rp) (rp_origin rp) (wc_challenge c) (pk_public_key k) (pk_counter k)
       (pl_response d) = Some n"
    "find_user (pk_user k) s1 = Some u" "\<not> u_suspended u" "uid = u_id u" "ndy = u_ndy_id u"
    "s' = use_passkey E (pk_id k) n s1"
  using assms by (auto simp: verify_authentication_core_def find_by_id_def
      split: sum.splits option.splits if_splits elim!: and_then_succeedsD)

lemma verify_core_uses:
  assumes "verify_authentication_core E d key s = (Inr x, s')"
  shows "uses (ChallengeTicket (pl_challenge_id d)) s s'"
proof -
  from assms have "verify_authentication_core E d key s = (Inr (fst x, snd x), s')" by simp
  then show ?thesis
  proof (rule verify_core_ok)
    fix rp c s1 n and k :: passkey
    assume c: "consume_challenge E (pl_challenge_id d) AUTHENTICATION None (rp_id rp) s = (Inr c, s1)"
      and s': "s' = use_passkey E (pk_id k) n s1"
    show ?thesis
      by (rule uses_then [OF consume_challenge_uses [OF c], where I = "\<lambda>_. False"]) (simp_all add: s')
  qed
qed

lemma verify_authentication_uses:
  assumes "verify_authentication E d m key s = (Inr x, s')"
  shows "uses (ChallengeTicket (pl_challenge_id d)) s s'"
proof -
  from assms obtain uid ndy s1 where c: "verify_authentication_core E d key s = (Inr (uid, ndy), s1)"
    and t: "and_then (issue_session E uid ndy m)
          (\<lambda>tok s2. (ok tok, record_login E uid m (is_new_device uid m s1) s2)) s1 = (Inr x, s')"
    by (auto simp: verify_authentication_def Let_def elim!: and_then_succeedsD)
  have "doors s' = doors s1"
    using doors_login_tail [of E uid ndy m "\<lambda>x. x" "is_new_device uid m s1" s1] t by simp
  then show ?thesis
    by (rule uses_same [OF verify_core_uses [OF c]])
qed

lemma verify_for_rp_uses:
  assumes "verify_authentication_for_relying_party E d m key s = (Inr x, s')"
  shows "uses (ChallengeTicket (pl_challenge_id d)) s s'"
proof -
  from assms obtain y s1 b i where c: "verify_authentication_core E d key s = (Inr y, s1)"
    and t: "s' = record_login E i m b s1"
    by (auto simp: verify_authentication_for_relying_party_def elim!: and_then_succeedsD)
  show ?thesis
    by (rule uses_same [OF verify_core_uses [OF c]]) (simp add: t)
qed

lemma cross_verify_login_uses:
  assumes "cross_verify_login E c k d v m s = (Inr x, s')"
  shows "uses (ChallengeTicket (pl_challenge_id d)) s s'"
proof -
  from assms obtain y s1 key p where a: "verify_authentication_for_relying_party E d m key s = (Inr y, s1)"
    and t: "issue_token_set E p s1 = (Inr x, s')"
    by (auto simp: cross_verify_login_def Let_def split: sum.splits prod.splits elim!: and_then_succeedsD)
  have "doors s' = doors s1"
    using doors_issue_token_set [of E p s1] t by simp
  then show ?thesis
    by (rule uses_same [OF verify_for_rp_uses [OF a]])
qed

lemma consume_state_ok:
  assumes "consume_state E st p s = (Some r, s1)"
  shows "truthy st" "find_state (the st) s = Some r" "es_provider r = p" "now E \<le> es_expires r"
    "s1 = s\<lparr>auth_states := delete_rows (\<lambda>r. es_id r = the st) (auth_states s)\<rparr>"
  using assms by (auto simp: consume_state_def split: option.splits if_splits)

lemma consume_state_none: "consume_state E st p s = (None, s1) \<Longrightarrow> s1 = s"
  by (auto simp: consume_state_def split: option.splits if_splits)

lemma error_redirect_error [simp]: "''error'' \<in> fst ` set (snd (error_redirect E p e))"
  by (simp add: error_redirect_def callback_url_def)

lemma social_callback_uses:
  assumes "''error'' \<notin> fst ` set (snd (fst (social_callback E p c st e f s)))"
  shows "uses (StateTicket (the st)) s (snd (social_callback E p c st e f s))"
proof (cases "consume_state E st p s")
  case (Pair o' s1)
  then obtain r where r: "consume_state E st p s = (Some r, s1)"
    using assms by (cases o') (simp_all add: social_callback_def)
  have u: "uses (StateTicket (the st)) s s1"
    using consume_state_ok [OF r] by (simp add: deleted_uses(2))
  have "stocks (\<lambda>k. \<exists>i. k = ExchangeTicket i) s1 (snd (social_callback E p c st e f s))"
    using finish_callback_stocks [of "\<lambda>k. \<exists>i. k = ExchangeTicket i" E]
    by (auto simp: social_callback_def r Let_def caught_def stocks_same split: option.splits)
  then show ?thesis
    by (rule uses_then [OF u]) simp
qed

lemma exchange_uses:
  assumes "exchange_login_code E c m s = (Inr x, s')"
  shows "uses (ExchangeTicket c) s s'"
proof -
  let ?s1 = "s\<lparr>exchanges := delete_rows (\<lambda>r. lx_id r = c) (exchanges s)\<rparr>"
  from assms obtain r where r: "find_exchange c s = Some r"
    by (cases "find_exchange c s") (simp_all add: exchange_login_code_def)
  from assms r obtain u where "find_by_id (lx_user r) ?s1 = Inr u"
    by (cases "find_by_id (lx_user r) ?s1") (simp_all add: exchange_login_code_def Let_def split: if_splits)
  with assms r obtain b where "find_exchange c s \<noteq> None"
    and t: "and_then (issue_session E (u_id u) (u_ndy_id u) m)
          (\<lambda>tok s2. (ok tok, record_login E (u_id u) m b s2)) ?s1 = (Inr x, s')"
    by (simp add: exchange_login_code_def Let_def split: if_splits)
  then have u: "uses (ExchangeTicket c) s ?s1"
    by (simp add: deleted_uses(3))
  have "doors s' = doors ?s1"
    using doors_login_tail [of E "u_id u" "u_ndy_id u" m "\<lambda>x. x" b ?s1] t by simp
  then show ?thesis
    by (rule uses_same [OF u])
qed

lemma sign_in_step_uses:
  assumes "ticket_presented a = Some k" and "fst (sign_in_step a s)"
  shows "uses k s (snd (sign_in_step a s))"
  using assms
  by (cases a rule: ticket_presented.cases)
    (auto simp: accepted_reply_def came_back_def handle_google_callback_def handle_apple_callback_def
       cross_verify_registration_def split: sum.splits prod.splits
      dest!: social_callback_uses,
     (metis prod.collapse verify_registration_uses verify_authentication_uses
        cross_verify_login_uses exchange_uses)+)

interpretation sign_in_tickets:
  issued_credentials sign_in_step "\<lambda>_. True" ticket_presented "\<lambda>b. b" ticket_issued ticket_stock
proof (unfold_locales, goal_cases)
  case (1 s a)
  then show ?case by simp
next
  case (2 s a k)
  then show ?case
    using sign_in_step_uses by (simp add: uses_def)
next
  case (3 s k a)
  then show ?case
    using sign_in_step_stocks [of "fst a" "snd a" s] by (simp add: stocks_def)
qed

text \<open>
  The tickets of a sign-in are used at most once.  Over any sequence of passkey and social
  sign-in operations, the number of ceremonies a WebAuthn challenge completes, of callbacks a
  state value lets through and of sessions an exchange code buys is at most the number of rows
  that held it at the start plus the number of operations that issued it.
\<close>

theorem sign_in_tickets_used_once:
  "count_rows (\<lambda>(op, granted). ticket_presented op = Some k \<and> granted) (run_log sign_in_step ops s) \<le>
     ticket_stock k s + count_rows (ticket_issued k) ops"
proof -
  have "(\<lambda>(op, granted). ticket_presented op = Some k \<and> granted) = sign_in_tickets.used k"
    by (auto simp: fun_eq_iff sign_in_tickets.used_def)
  then show ?thesis
    using sign_in_tickets.balance [OF TrueI, of k ops s] by simp
qed

section \<open>Who a passkey signs in\<close>

text \<open>
  \<open>k\<close> is a passkey of \<open>s\<close> for the relying party asked for, \<open>u\<close> its account, and the response
  signs the pending challenge with it; the authenticator's new counter is \<open>n\<close>.
\<close>

definition passkey_proves :: "env \<Rightarrow> passkey_login_dto \<Rightarrow> string \<Rightarrow> db \<Rightarrow> passkey \<Rightarrow> user \<Rightarrow> nat \<Rightarrow> bool" where
  "passkey_proves E d key s k u n =
     (\<exists>rp c. resolve_relying_party E key = Inr rp \<and>
        find_challenge (pl_challenge_id d) s = Some c \<and> wc_type c = AUTHENTICATION \<and>
        wc_rp c = rp_id rp \<and> now E \<le> wc_expires c \<and>
        find_passkey (pl_credential d) s = Some k \<and> pk_rp k = rp_id rp \<and>
        webauthn_assert E (rp_id rp) (rp_origin rp) (wc_challenge c) (pk_public_key k)
          (pk_counter k) (pl_response d) = Some n \<and>
        find_user (pk_user k) s = Some u \<and> \<not> u_suspended u)"

lemma verify_core_proves:
  assumes "verify_authentication_core E d key s = (Inr (uid, ndy), s')"
  obtains k u n where "passkey_proves E d key s k u n" "uid = u_id u" "ndy = u_ndy_id u"
    "users s' = users s" "sessions s' = sessions s" "oauth_tokens s' = oauth_tokens s"
    "oauth_clients s' = oauth_clients s"
    "find_passkey (pl_credential d) s' = Some (k\<lparr>pk_counter := n, pk_last_used_at := Some (now E)\<rparr>)"
    "find_challenge (pl_challenge_id d) s' = None"
  using assms
proof (rule verify_core_ok)
  fix rp c s1 n and k :: passkey and u
  assume rp: "resolve_relying_party E key = Inr rp"
    and c: "consume_challenge E (pl_challenge_id d) AUTHENTICATION None (rp_id rp) s = (Inr c, s1)"
    and k: "find_passkey (pl_credential d) s1 = Some k" "pk_rp k = rp_id rp"
    and a: "webauthn_assert E (rp_id rp) (rp_origin rp) (wc_challenge c) (pk_public_key k) (pk_counter k)
       (pl_response d) = Some n"
    and u: "find_user (pk_user k) s1 = Some u" "\<not> u_suspended u" "uid = u_id u" "ndy = u_ndy_id u"
    and s': "s' = use_passkey E (pk_id k) n s1"
  note c' = consume_challenge_ok [OF c]
  have "find_passkey (pl_credential d) s = Some k" "find_user (pk_user k) s = Some u"
    using k(1) u(1) by (simp_all add: c'(6) find_passkey_def find_user_def)
  with rp c' k a u have p: "passkey_proves E d key s k u n"
    unfolding passkey_proves_def by blast
  have "find_challenge (pl_challenge_id d) s' = None"
    by (simp add: s' c'(6) find_challenge_def find_row_None_iff)
  moreover have "find_passkey (pl_credential d) s' =
      Some (k\<lparr>pk_counter := n, pk_last_used_at := Some (now E)\<rparr>)"
    using k(1) unfolding s' find_passkey_def by (simp add: find_row_update_keep)
  ultimately show thesis
    using p u s' c'(6) by (intro that) simp_all
qed

text \<open>
  A passkey opens a session only for its own account.  When a passkey sign-in succeeds, the
  challenge it names was pending for this relying party and in time, the credential is a passkey
  registered for the same relying party, the authenticator signed that challenge, and the account
  of the passkey is not suspended; the one new session is that account's, the challenge is gone
  and the authenticator's counter is stored.
\<close>

theorem passkey_login_gate:
  assumes "verify_authentication E d m key s = (Inr tok, s')"
  shows "\<exists>k u n x. passkey_proves E d key s k u n \<and> sessions s' = sessions s @ [x] \<and>
           s_user x = u_id u \<and> pk_user k = u_id u \<and> find_challenge (pl_challenge_id d) s' = None \<and>
           map_option pk_counter (find_passkey (pl_credential d) s') = Some n"
proof -
  obtain uid ndy s1 where c: "verify_authentication_core E d key s = (Inr (uid, ndy), s1)"
    and t: "and_then (issue_session E uid ndy m)
          (\<lambda>tok s2. (ok tok, record_login E uid m (is_new_device uid m s1) s2)) s1 = (Inr tok, s')"
    using assms by (auto simp: verify_authentication_def Let_def elim!: and_then_succeedsD)
  from c show ?thesis
  proof (rule verify_core_proves)
    fix u n and k :: passkey
    assume p: "passkey_proves E d key s k u n" and u: "uid = u_id u" and ss: "sessions s1 = sessions s"
      and k: "find_passkey (pl_credential d) s1 = Some (k\<lparr>pk_counter := n, pk_last_used_at := Some (now E)\<rparr>)"
      and ch: "find_challenge (pl_challenge_id d) s1 = None"
    have ds: "doors s' = doors s1"
      using doors_login_tail [of E uid ndy m "\<lambda>x. x" "is_new_device uid m s1" s1] t by simp
    obtain s2 where i: "issue_session E uid ndy m s1 = (Inr tok, s2)"
      and s': "s' = record_login E uid m (is_new_device uid m s1) s2"
      using t by (auto elim!: and_then_succeedsD)
    obtain x where "sessions s' = sessions s @ [x]" "s_user x = uid"
      using i ss by (auto simp: s' issue_session_ok Let_def new_session_def split: prod.splits)
    moreover have "pk_user k = u_id u"
      using p by (auto simp: passkey_proves_def dest: find_user_D)
    moreover have "find_challenge (pl_challenge_id d) s' = None"
      "map_option pk_counter (find_passkey (pl_credential d) s') = Some n"
      using ch k ds by (simp_all add: doors_same find_challenge_def find_passkey_def)
    ultimately show ?thesis using p u by blast
  qed
qed

definition passkey_db :: db where
  "passkey_db = demo_db\<lparr>
     passkeys := [\<lparr>pk_id = ''k1'', pk_user = ''m1'', pk_rp = ''hub.example'', pk_credential = ''cred'',
       pk_public_key = ''pub'', pk_counter = 4, pk_transports = [], pk_label = None,
       pk_created_at = 1, pk_last_used_at = None\<rparr>],
     challenges := [\<lparr>wc_id = ''ch'', wc_challenge = ''sig'', wc_user = None,
       wc_type = AUTHENTICATION, wc_rp = ''hub.example'', wc_expires = 9\<rparr>]\<rparr>"

definition passkey_reply :: passkey_login_dto where
  "passkey_reply = \<lparr>pl_challenge_id = ''ch'', pl_credential = ''cred'', pl_response = ''sig''\<rparr>"

theorem passkey_login_gate_witness:
  "\<exists>k u n. passkey_proves (demo_env 5) passkey_reply ''ndyhub'' passkey_db k u n \<and> pk_user k = u_id u"
proof -
  have "succeeds (verify_authentication (demo_env 5) passkey_reply no_meta ''ndyhub'' passkey_db)"
    by code_simp
  then obtain tok where "fst (verify_authentication (demo_env 5) passkey_reply no_meta ''ndyhub'' passkey_db) = Inr tok"
    by (auto simp: succeeds_iff)
  then show ?thesis
    using passkey_login_gate [of "demo_env 5" passkey_reply no_meta "''ndyhub''" passkey_db tok
        "snd (verify_authentication (demo_env 5) passkey_reply no_meta ''ndyhub'' passkey_db)"]
    by (metis prod.collapse)
qed

end
