(* ===== verification/WaysIn.thy ===== *)
theory WaysIn
  imports SignIn
begin

text \<open>
  How a passkey or a provider identity gets onto an account and how it leaves it: the provenance
  of every row, the gate of a social callback, where callbacks send the browser, and the guard of
  \<^verbatim>\<open>unlinkAccount\<close> beside the missing one of \<^verbatim>\<open>removePasskey\<close>.
\<close>

section \<open>Where a passkey comes from\<close>

text \<open>
  The two ways a registration starts: a signed-in user of the web app, or the password of the
  account, presented by an allow-listed product with its client credentials.
\<close>

fun ceremony :: "db \<Rightarrow> env \<times> sign_in_op \<Rightarrow> id \<Rightarrow> string \<Rightarrow> bool" where
  "ceremony s (E, BeginPasskey v) u rp = (v = u \<and> rp = web_app_host E)"
| "ceremony s (E, CrossBegin c k n p) u rp =
     (\<exists>cl key r ndy. authenticate_passkey_client E c k s = Inr (cl, key) \<and>
        resolve_relying_party E key = Inr r \<and> rp = rp_id r \<and>
        validate_credentials_for_password_grant E n p s = Inr (u, ndy))"
| "ceremony s (E, _) u rp = False"

definition registrations :: "db \<Rightarrow> (id \<times> string) set" where
  "registrations s = {(u, rp). \<exists>c \<in> set (challenges s).
     wc_type c = REGISTRATION \<and> wc_user c = Some u \<and> wc_rp c = rp}"

definition enrolled :: "db \<Rightarrow> (id \<times> string) set" where
  "enrolled s = (\<lambda>k. (pk_user k, pk_rp k)) ` set (passkeys s)"

definition grows :: "(id \<times> string) set \<Rightarrow> db \<Rightarrow> db \<Rightarrow> bool" where
  "grows N s s' = (registrations s' \<subseteq> registrations s \<union> N \<and> enrolled s' \<subseteq> enrolled s \<union> registrations s \<and>
     (unique_on pk_credential (passkeys s) \<longrightarrow> unique_on pk_credential (passkeys s')))"

lemma grows_doors: "doors s' = doors s \<Longrightarrow> grows N s s'"
  by (simp add: grows_def registrations_def enrolled_def doors_same)

lemma grows_after: "grows N s s1 \<Longrightarrow> doors s2 = doors s1 \<Longrightarrow> grows N s s2"
  by (simp add: grows_def registrations_def enrolled_def doors_same)

lemma grows_events [simp]:
  "grows N s (record_event E u t m s1) = grows N s s1"
  "grows N s (record_login E u m b s1) = grows N s s1"
  by (simp_all add: grows_def registrations_def enrolled_def record_event_def record_login_def)

lemma grows_delete: "grows N s (s\<lparr>challenges := delete_rows P (challenges s)\<rparr>)"
  by (auto simp: grows_def registrations_def enrolled_def)

lemma grows_unrelated [simp]:
  "grows N s (s\<lparr>auth_states := a\<rparr>)" "grows N s (s\<lparr>exchanges := b\<rparr>)" "grows N s (s\<lparr>identities := d\<rparr>)"
  "grows N s (s\<lparr>users := z\<rparr>)" "grows N s s"
  by (auto simp: grows_def registrations_def enrolled_def)

lemma consume_challenge_grows: "grows N s (snd (consume_challenge E c t u rp s))"
  by (auto simp: consume_challenge_def intro: grows_delete split: option.splits)

lemma create_challenge_grows:
  assumes "\<And>v. t = REGISTRATION \<Longrightarrow> u = Some v \<Longrightarrow> (v, rp) \<in> N"
  shows "grows N s (snd (create_challenge E u t rp s))"
  using assms
  by (auto simp: create_challenge_def Let_def grows_def registrations_def enrolled_def
      new_webauthn_challenge_def)

lemma begin_registration_grows:
  assumes "\<And>r. resolve_relying_party E key = Inr r \<Longrightarrow> (u, rp_id r) \<in> N"
  shows "grows N s (snd (begin_registration E u key s))"
  using assms by (auto simp: begin_registration_def Let_def split: sum.splits intro!: create_challenge_grows)

lemma begin_authentication_grows: "grows N s (snd (begin_authentication E key s))"
  by (auto simp: begin_authentication_def split: sum.splits intro!: create_challenge_grows)

lemma verify_registration_grows: "grows N s (snd (verify_registration E u d key s))"
proof (cases "verify_registration E u d key s")
  case (Pair r s')
  show ?thesis
  proof (cases r)
    case (Inl e)
    have "\<exists>E' c t v rp. s' = snd (consume_challenge E' c t v rp s) \<or> s' = s"
      using Pair Inl
      by (auto simp: verify_registration_def and_then_def Let_def split: sum.splits prod.splits option.splits if_splits)
        (metis snd_conv)+
    with Pair show ?thesis by (auto intro: consume_challenge_grows)
  next
    case (Inr x)
    with Pair have "verify_registration E u d key s = (Inr x, s')" by simp
    then show ?thesis
    proof (rule verify_registration_ok)
      fix rp c s1 i
      assume c: "consume_challenge E (rd_challenge_id d) REGISTRATION (Some u) (rp_id rp) s = (Inr c, s1)"
        and s': "s' = record_event E u PASSKEY_ADDED no_meta
          (s1\<lparr>passkeys := passkeys s1 @ [new_passkey E u (rp_id rp) i (rd_label d)]\<rparr>)"
        and fresh: "wi_credential i \<notin> pk_credential ` set (passkeys s1)"
      note c' = consume_challenge_ok [OF c]
      have "c \<in> set (challenges s)"
        using c'(1) unfolding find_challenge_def by (blast dest: find_row_Some_D)
      with c' have "(u, rp_id rp) \<in> registrations s"
        by (auto simp: registrations_def)
      then have "grows N s (s1\<lparr>passkeys := passkeys s1 @ [new_passkey E u (rp_id rp) i (rd_label d)]\<rparr>)"
        using fresh by (auto simp: c'(6) grows_def registrations_def enrolled_def new_passkey_def)
      with Pair s' show ?thesis by simp
    qed
  qed
qed

lemma verify_core_grows: "grows N s (snd (verify_authentication_core E d key s))"
proof (cases "verify_authentication_core E d key s")
  case (Pair r s')
  show ?thesis
  proof (cases r)
    case (Inl e)
    have "\<exists>E' c t v rp. s' = snd (consume_challenge E' c t v rp s) \<or> s' = s"
      using Pair Inl
      by (auto simp: verify_authentication_core_def and_then_def Let_def split: sum.splits prod.splits option.splits if_splits)
        (metis snd_conv)+
    with Pair show ?thesis by (auto intro: consume_challenge_grows)
  next
    case (Inr x)
    with Pair have "verify_authentication_core E d key s = (Inr (fst x, snd x), s')" by simp
    then show ?thesis
    proof (rule verify_core_ok)
      fix rp c s1 n and k :: passkey
      assume c: "consume_challenge E (pl_challenge_id d) AUTHENTICATION None (rp_id rp) s = (Inr c, s1)"
        and s': "s' = use_passkey E (pk_id k) n s1"
      have "(\<lambda>k. (pk_user k, pk_rp k)) ` set (passkeys s') = (\<lambda>k. (pk_user k, pk_rp k)) ` set (passkeys s)"
        unfolding s' consume_challenge_ok(6) [OF c]
        by (simp add: image_update_rows)
      then show ?thesis
        using Pair consume_challenge_ok(6) [OF c]
        by (auto simp: s' grows_def registrations_def enrolled_def)
    qed
  qed
qed

lemma and_then_grows:
  assumes "grows N s (snd (h s))" and "\<And>x s1. doors (snd (k x s1)) = doors s1"
  shows "grows N s (snd (and_then h k s))"
proof (cases "h s")
  case (Pair r s1)
  with assms show ?thesis
    by (cases r) (auto intro: grows_after)
qed

lemma cross_verify_login_grows: "grows N s (snd (cross_verify_login E c k d v m s))"
proof -
  have "grows N s (snd (verify_authentication_for_relying_party E d m key s))" for key
    unfolding verify_authentication_for_relying_party_def
    by (rule and_then_grows) (auto simp: verify_core_grows)
  then show ?thesis
    by (auto simp: cross_verify_login_def Let_def split: sum.splits prod.splits intro!: and_then_grows)
qed

text \<open>A social callback leaves WebAuthn's two tables alone.\<close>

definition webauthn_part :: "db \<Rightarrow> webauthn_challenge list \<times> passkey list" where
  "webauthn_part s = (challenges s, passkeys s)"

lemma webauthn_doors: "doors s' = doors s \<Longrightarrow> webauthn_part s' = webauthn_part s"
  by (simp add: doors_same webauthn_part_def)

lemma webauthn_frames [simp]:
  "webauthn_part (snd (create_identity E u q v s)) = webauthn_part s"
  "webauthn_part (snd (create_exchange E u s)) = webauthn_part s"
  "webauthn_part (snd (create_state E q r l s)) = webauthn_part s"
  "webauthn_part (s\<lparr>users := x\<rparr>) = webauthn_part s"
  "webauthn_part (s\<lparr>auth_states := y\<rparr>) = webauthn_part s"
  by (simp_all add: webauthn_part_def create_identity_def create_exchange_def create_state_def Let_def)

lemmas webauthn_elsewhere [simp] =
  webauthn_doors [OF doors_create_user] webauthn_doors [OF doors_issue_challenge]

lemma webauthn_callback: "webauthn_part (snd (social_callback E p c st e f s)) = webauthn_part s"
proof -
  have r: "webauthn_part (snd (resolve_or_create_user E p v s1)) = webauthn_part s1" for v s1
    by (auto simp: resolve_or_create_user_def split: option.splits intro!: and_then_frame)
  have b: "webauthn_part (snd (build_success_redirect E u path s1)) = webauthn_part s1" for u path s1
    by (auto simp: build_success_redirect_def Let_def intro!: and_then_frame)
  have "webauthn_part (snd (finish_callback E p st v s1)) = webauthn_part s1" for st v s1
    by (auto simp: finish_callback_def finish_link_def r b split: option.splits intro!: and_then_frame)
  then show ?thesis
    by (auto simp: social_callback_def caught_def consume_state_def Let_def split: option.splits prod.splits if_splits)
qed

lemma social_grows: "grows N s (snd (social_callback E p c st e f s))"
  using webauthn_callback [of E p c st e f s]
  by (simp add: grows_def registrations_def enrolled_def webauthn_part_def)

lemma sign_in_step_grows: "grows {(u, rp). ceremony s (E, a) u rp} s (snd (sign_in_step (E, a) s))"
proof (cases a)
  case (BeginPasskey u)
  then show ?thesis
    by (auto simp: resolve_relying_party_def ndy_hub_relying_party_def intro!: begin_registration_grows)
next
  case (RemovePasskey u i)
  have "grows N s (s\<lparr>passkeys := delete_rows P (passkeys s)\<rparr>)" for N P
    by (auto simp: grows_def registrations_def enrolled_def)
  then show ?thesis
    using RemovePasskey by (auto simp: remove_passkey_def Let_def)
next
  case (PasskeyLogin d m)
  then show ?thesis
    by (auto simp: verify_authentication_def Let_def case_prod_unfold intro!: and_then_grows verify_core_grows)
next
  case (CrossBegin c k n p)
  then show ?thesis
    by (auto simp: cross_begin_registration_def split: sum.splits intro!: begin_registration_grows)
next
  case (CrossAdd c k d)
  then show ?thesis
    by (auto simp: cross_verify_registration_def verify_registration_grows split: sum.splits)
next
  case (CrossBeginLogin c k)
  then show ?thesis
    by (auto simp: cross_begin_login_def begin_authentication_grows split: sum.splits)
next
  case (ExchangeCode c m)
  then show ?thesis
    by (auto simp: exchange_login_code_def Let_def split: option.splits sum.splits
        intro: grows_after [OF grows_unrelated(2)])
next
  case (Unlink u i)
  then show ?thesis
    by (auto simp: unlink_account_def split: option.splits sum.splits)
qed (auto simp: verify_registration_grows begin_authentication_grows cross_verify_login_grows
   begin_auth_def begin_link_def leave_for_provider_def create_state_def and_then_def came_back_def Let_def
   handle_google_callback_def handle_apple_callback_def social_grows split: sum.splits prod.splits if_splits)

definition ceremony_held :: "db \<Rightarrow> (env \<times> sign_in_op) list \<Rightarrow> id \<times> string \<Rightarrow> bool" where
  "ceremony_held s ops x =
     (\<exists>as a bs. ops = as @ a # bs \<and> ceremony (run_ops sign_in_step as s) a (fst x) (snd x))"

lemma ceremony_held_snoc:
  "ceremony_held s (ops @ [a]) x \<longleftrightarrow>
     ceremony_held s ops x \<or> ceremony (run_ops sign_in_step ops s) a (fst x) (snd x)"
proof
  assume "ceremony_held s (ops @ [a]) x"
  then obtain as b bs where h: "ops @ [a] = as @ b # bs"
    "ceremony (run_ops sign_in_step as s) b (fst x) (snd x)"
    unfolding ceremony_held_def by blast
  show "ceremony_held s ops x \<or> ceremony (run_ops sign_in_step ops s) a (fst x) (snd x)"
  proof (cases bs rule: rev_cases)
    case Nil
    with h show ?thesis by simp
  next
    case (snoc ys y)
    with h have "ops = as @ b # ys" by simp
    with h(2) show ?thesis unfolding ceremony_held_def by blast
  qed
next
  assume "ceremony_held s ops x \<or> ceremony (run_ops sign_in_step ops s) a (fst x) (snd x)"
  then show "ceremony_held s (ops @ [a]) x"
    unfolding ceremony_held_def by (metis append.assoc append_Cons append_Nil2 append_self_conv)
qed

text \<open>
  C15. No passkey without a ceremony of its account.  Starting with no passkeys and no pending
  challenges, every passkey after any sequence of operations belongs to an account for which a
  registration was started for the passkey's own relying party: by the signed-in account itself
  for the web app, or by an allow-listed product that presented its client credentials and the account's
  password.  No two passkeys share a credential id.
\<close>

theorem passkeys_traceable:
  assumes "passkeys s = []" and "challenges s = []" and "k \<in> set (passkeys (run_ops sign_in_step ops s))"
  shows "(\<exists>as a bs. ops = as @ a # bs \<and> ceremony (run_ops sign_in_step as s) a (pk_user k) (pk_rp k)) \<and>
         unique_on pk_credential (passkeys (run_ops sign_in_step ops s))"
proof -
  have "registrations (run_ops sign_in_step ops s) \<subseteq> Collect (ceremony_held s ops) \<and>
      enrolled (run_ops sign_in_step ops s) \<subseteq> Collect (ceremony_held s ops) \<and>
      unique_on pk_credential (passkeys (run_ops sign_in_step ops s))"
  proof (induction ops rule: rev_induct)
    case Nil
    with assms(1,2) show ?case by (simp add: registrations_def enrolled_def unique_on_def)
  next
    case (snoc a ops)
    have "grows {(u, rp). ceremony (run_ops sign_in_step ops s) a u rp} (run_ops sign_in_step ops s)
        (snd (sign_in_step a (run_ops sign_in_step ops s)))"
      using sign_in_step_grows [of _ "fst a" "snd a"] by simp
    with snoc show ?case
      by (auto simp: grows_def ceremony_held_snoc)
  qed
  then have "ceremony_held s ops (pk_user k, pk_rp k)"
    "unique_on pk_credential (passkeys (run_ops sign_in_step ops s))"
    using assms(3) by (auto simp: enrolled_def)
  then show ?thesis by (simp add: ceremony_held_def)
qed

definition passkey_run :: "(env \<times> sign_in_op) list" where
  "passkey_run = [(demo_env 5, BeginPasskey ''m1''),
     (demo_env 6, AddPasskey ''m1'' \<lparr>rd_challenge_id = ''id0'', rd_response = ''ABCDE0'', rd_label = None\<rparr>)]"

theorem passkeys_traceable_witness:
  "pk_user (hd (passkeys (run_ops sign_in_step passkey_run demo_db))) = ''m1'' \<and>
   (\<exists>as a bs. passkey_run = as @ a # bs \<and> ceremony (run_ops sign_in_step as demo_db) a ''m1'' ''hub.example'')"
proof -
  let ?s = "run_ops sign_in_step passkey_run demo_db"
  have k: "map (\<lambda>k. (pk_user k, pk_rp k)) (passkeys ?s) = [(''m1'', ''hub.example'')]"
    by code_simp
  then have "hd (passkeys ?s) \<in> set (passkeys ?s)" by (cases "passkeys ?s") simp_all
  moreover have "passkeys demo_db = []" "challenges demo_db = []"
    by (simp_all add: demo_db_def empty_db_def)
  ultimately show ?thesis
    using passkeys_traceable [of demo_db "hd (passkeys ?s)" passkey_run] k
    by (cases "passkeys ?s") auto
qed

section \<open>What a callback may do\<close>

text \<open>
  The callback came back on the state value of a row that was pending for this provider, and the
  provider vouched for profile \<open>x\<close> with that row's nonce.
\<close>

definition vouched :: "env \<Rightarrow> auth_provider \<Rightarrow> string option \<Rightarrow> string option \<Rightarrow> db \<Rightarrow>
    ext_auth_state \<Rightarrow> social_profile \<Rightarrow> bool" where
  "vouched E p code st s r x =
     (truthy st \<and> find_state (the st) s = Some r \<and> es_provider r = p \<and> now E \<le> es_expires r \<and>
      truthy code \<and> social_exchange E p (the code) = Some x \<and> sp_nonce x = Some (es_nonce r) \<and>
      truthy (sp_email x))"

lemma social_callback_cases:
  obtains (redirected) "''error'' \<in> fst ` set (snd (fst (social_callback E p code st err f s)))"
      "\<exists>r. fst (social_callback E p code st err f s) = error_redirect E ''/'' r \<or>
         (\<exists>y. find_state (the st) s = Some y \<and>
            fst (social_callback E p code st err f s) = error_redirect E (es_redirect y) r)"
      "doors (snd (social_callback E p code st err f s)) = doors s \<or>
        doors (snd (social_callback E p code st err f s)) =
          doors (s\<lparr>auth_states := delete_rows (\<lambda>r. es_id r = the st) (auth_states s)\<rparr>)"
  | (signed) r x v where "vouched E p code st s r x" "vi_subject v = sp_subject x"
      "sp_email x = Some (vi_email v)" "vi_email_verified v = sp_email_verified x"
      "social_callback E p code st err f s =
         caught (error_redirect E ''/'' (provider_slug p @ ''_sign_in_failed''))
           (finish_callback E p r v (s\<lparr>auth_states := delete_rows (\<lambda>r. es_id r = the st) (auth_states s)\<rparr>))"
proof (cases "consume_state E st p s")
  case (Pair o' s1)
  show thesis
  proof (cases o')
    case None
    with Pair consume_state_none [of E st p s s1] show thesis
      by (intro redirected) (auto simp: social_callback_def)
  next
    case (Some r)
    with Pair have c: "consume_state E st p s = (Some r, s1)" by simp
    note r = consume_state_ok [OF c]
    show thesis
    proof (cases "truthy err \<or> \<not> truthy code")
      case True
      then show thesis
        using r(5) by (intro redirected) (auto simp: social_callback_def c r(2))
    next
      case False
      let ?prof = "social_exchange E p (the code)"
      show thesis
      proof (cases "verified_profile r ?prof (f ?prof)")
        case None
        with False r(5) show thesis
          by (intro redirected) (auto simp: social_callback_def c Let_def)
      next
        case (Some v)
        then obtain x where x: "?prof = Some x" "sp_nonce x = Some (es_nonce r)" "truthy (sp_email x)"
          and v: "v = \<lparr>vi_subject = sp_subject x, vi_email = the (sp_email x),
                     vi_email_verified = sp_email_verified x, vi_name = f ?prof\<rparr>"
          by (auto simp: verified_profile_def split: option.splits if_splits)
        have "vouched E p code st s r x"
          using False r x by (simp add: vouched_def)
        with False r(5) x v Some show thesis
          by (intro signed [of r x v]) (auto simp: social_callback_def c Let_def truthy_iff)
      qed
    qed
  qed
qed

text \<open>The account a verified identity resolves to, and the rows that resolution adds.\<close>

lemma create_identity_ok:
  "create_identity E u p v s = (Inr x, s') \<Longrightarrow>
     find_user u s \<noteq> None \<and> s' = s\<lparr>identities := identities s @ [new_identity E u p v]\<rparr>"
  by (auto simp: create_identity_def Let_def split: if_splits)

lemma create_identity_error: "create_identity E u p v s = (Inl e, s') \<Longrightarrow> s' = s"
  by (auto simp: create_identity_def Let_def split: if_splits)

lemma resolve_error:
  assumes "resolve_or_create_user E p v s = (Inl e, s')"
  shows "doors s' = doors s"
proof (cases "find_identity p (vi_subject v) s")
  case None
  show ?thesis
  proof (cases "find_by_email (vi_email v) s")
    case (Some u)
    with None assms show ?thesis
      by (auto simp: resolve_or_create_user_def and_then_def dest: create_identity_error
          split: prod.splits sum.splits)
  next
    case n: None
    have "doors (snd (create_user E (vi_email v) None (no_fields\<lparr>pf_full_name := map_option Some (vi_name v)\<rparr>) s)) = doors s"
      by (rule doors_create_user)
    with None n assms show ?thesis
      by (cases "create_user E (vi_email v) None (no_fields\<lparr>pf_full_name := map_option Some (vi_name v)\<rparr>) s")
        (auto simp: resolve_or_create_user_def and_then_def dest: create_identity_error
          split: prod.splits sum.splits)
  qed
qed (use assms in \<open>simp add: resolve_or_create_user_def\<close>)

definition holds_email :: "db \<Rightarrow> id \<Rightarrow> string \<Rightarrow> bool" where
  "holds_email s i e = (\<exists>w \<in> set (users s). u_id w = i \<and> u_email w = e)"

lemma resolve_ok:
  assumes "resolve_or_create_user E p v s = (Inr u, s')"
  obtains (known) i where "find_identity p (vi_subject v) s = Some i" "find_user (ai_user i) s = Some u" "s' = s"
  | (attached) "find_identity p (vi_subject v) s = None" "u_email u = vi_email v"
      "holds_email s' (u_id u) (vi_email v)"
      "identities s' = identities s @ [new_identity E (u_id u) p v]" "exchanges s' = exchanges s"
      "auth_states s' = auth_states s"
proof (cases "find_identity p (vi_subject v) s")
  case (Some i)
  with assms show thesis
    by (intro known) (auto simp: resolve_or_create_user_def find_by_id_def split: option.splits)
next
  case None
  show thesis
  proof (cases "find_by_email (vi_email v) s")
    case (Some w)
    with None assms have "create_identity E (u_id u) p v s = (Inr (), s')" "w = u"
      by (auto simp: resolve_or_create_user_def and_then_def split: prod.splits sum.splits)
    with None Some find_by_email_D [OF Some] show thesis
      by (intro attached) (auto dest!: create_identity_ok simp: holds_email_def)
  next
    case n: None
    from None n assms obtain s1 s2 where
        c: "create_user E (vi_email v) None (no_fields\<lparr>pf_full_name := map_option Some (vi_name v)\<rparr>) s = (Inr u, s1)"
      and i: "create_identity E (u_id u) p v s1 = (Inr (), s2)"
      and s': "s' = (if vi_email_verified v
                     then update_user (u_id u) (\<lambda>x. x\<lparr>u_email_verified_at := Some (now E)\<rparr>) s2 else s2)"
      by (auto simp: resolve_or_create_user_def elim!: and_then_succeedsD)
    have d: "doors s1 = doors s"
      using doors_create_user [of E "vi_email v" None "no_fields\<lparr>pf_full_name := map_option Some (vi_name v)\<rparr>" s] c by simp
    obtain w where w: "w \<in> set (users s1)" "u_id w = u_id u"
      using create_identity_ok [OF i] find_user_D by (cases "find_user (u_id u) s1") blast+
    have "u_email w = vi_email v"
      by (rule create_user_email [OF c w])
    with w have "holds_email s1 (u_id u) (vi_email v)"
      by (auto simp: holds_email_def)
    then have "holds_email s' (u_id u) (vi_email v)"
      using create_identity_ok [OF i] by (auto simp: s' holds_email_def)
    moreover have "u_email u = vi_email v"
      using c by (auto simp: create_user_def new_user_def dest!: create_user_attempt_ok split: if_splits)
    ultimately show thesis
      using None create_identity_ok [OF i] d
      by (intro attached) (auto simp: s' doors_same)
  qed
qed

lemma holds_email_frame [simp]: "holds_email (s\<lparr>exchanges := x\<rparr>) i e = holds_email s i e"
  by (simp add: holds_email_def)

lemma issue_challenge_effect:
  "issue_challenge E i s = (r, s') \<Longrightarrow>
     identities s' = identities s \<and> auth_states s' = auth_states s \<and> exchanges s' = exchanges s \<and>
     (\<forall>j e. holds_email s j e \<longrightarrow> holds_email s' j e)"
  by (auto simp: issue_challenge_def Let_def holds_email_def split: if_splits)

lemma success_redirect_effect:
  assumes "build_success_redirect E u path s = (r, s')"
  shows "identities s' = identities s" "auth_states s' = auth_states s"
    "holds_email s j e \<Longrightarrow> holds_email s' j e"
    "exchanges s' = exchanges s \<or>
     \<not> u_suspended u \<and> enabled_two_factor_methods u = [] \<and>
     exchanges s' = exchanges s @
       [\<lparr>lx_id = new_id E T_LoginExchange 0, lx_user = u_id u, lx_expires = now E + exchange_ttl\<rparr>]"
  using assms
  by (auto simp: build_success_redirect_def create_exchange_def Let_def and_then_def
      dest!: issue_challenge_effect split: if_splits sum.splits prod.splits)

text \<open>
  A social callback lets in whom the provider vouched for.  A callback adds a provider
  identity only when it answers a pending state row with that row's nonce, and only for the
  subject the provider named: to the account that asked for the link, or to the account that
  holds the e-mail address the provider gave.  It hands out an exchange code only to an account
  that is not suspended and has no second factor, found by the subject or by that address.
\<close>

theorem social_callback_gate:
  assumes "social_callback E p code st err f s = (url, s')"
  shows "(\<forall>i \<in> set (identities s') - set (identities s). \<exists>r x. vouched E p code st s r x \<and>
            ai_provider i = p \<and> ai_provider_user i = sp_subject x \<and>
            (if truthy (es_link_user r) then es_link_user r = Some (ai_user i)
             else holds_email s' (ai_user i) (the (sp_email x)))) \<and>
         (\<forall>e \<in> set (exchanges s') - set (exchanges s). \<exists>r x u. vouched E p code st s r x \<and>
            \<not> truthy (es_link_user r) \<and> u_id u = lx_user e \<and> \<not> u_suspended u \<and>
            enabled_two_factor_methods u = [] \<and>
            ((\<exists>i \<in> set (identities s). ai_provider i = p \<and> ai_provider_user i = sp_subject x \<and>
                ai_user i = u_id u) \<or> sp_email x = Some (u_email u)))"
proof (cases rule: social_callback_cases [where E = E and p = p and code = code and st = st and err = err and f = f and s = s])
  case redirected
  with assms show ?thesis by (auto simp: doors_same)
next
  case (signed r x v)
  let ?s = "s\<lparr>auth_states := delete_rows (\<lambda>r. es_id r = the st) (auth_states s)\<rparr>"
  obtain y where fin: "finish_callback E p r v ?s = (y, s')"
    using assms signed(5) by (cases "finish_callback E p r v ?s") (simp add: caught_def)
  have e: "the (sp_email x) = vi_email v" using signed(3) by simp
  show ?thesis
  proof (cases "truthy (es_link_user r)")
    case True
    then have "exchanges s' = exchanges s \<and> (identities s' = identities s \<or>
        identities s' = identities s @ [new_identity E (the (es_link_user r)) p v])"
      using fin by (auto simp: finish_callback_def finish_link_def and_then_def
          dest: create_identity_ok create_identity_error
          split: option.splits if_splits sum.splits prod.splits)
    with True signed(1,2) show ?thesis
      by (intro conjI ballI exI [of _ r] exI [of _ x]) (auto simp: new_identity_def truthy_iff)
  next
    case False
    note run = fin [unfolded finish_callback_def if_not_P [OF False]]
    show ?thesis
    proof (cases "resolve_or_create_user E p v ?s")
      case (Pair z s1)
      show ?thesis
      proof (cases z)
        case (Inl err')
        with Pair run have "doors s' = doors ?s"
          using resolve_error [of E p v ?s err' s1] by (simp add: and_then_def)
        then show ?thesis by (simp add: doors_same)
      next
        case (Inr u)
        with Pair have res: "resolve_or_create_user E p v ?s = (Inr u, s1)" by simp
        with run have b: "build_success_redirect E u (es_redirect r) s1 = (y, s')"
          by (simp add: and_then_def)
        note eff = success_redirect_effect [OF b]
        from res show ?thesis
        proof (cases rule: resolve_ok)
          case (known i)
          then have i: "i \<in> set (identities s)" "ai_provider i = p" "ai_provider_user i = sp_subject x"
            "ai_user i = u_id u"
            using signed(2) by (auto simp: find_identity_def dest: find_row_Some_D find_user_D)
          have "identities s' = identities s" using eff(1) known by simp
          moreover have "\<forall>e \<in> set (exchanges s') - set (exchanges s).
              lx_user e = u_id u \<and> \<not> u_suspended u \<and> enabled_two_factor_methods u = []"
            using eff(4) known by auto
          ultimately show ?thesis
            using i signed(1) False
            by (intro conjI ballI exI [of _ r] exI [of _ x] exI [of _ u]) auto
        next
          case attached
          have "\<forall>i \<in> set (identities s') - set (identities s).
              ai_provider i = p \<and> ai_provider_user i = sp_subject x \<and> ai_user i = u_id u"
            using eff(1) attached signed(2) by (auto simp: new_identity_def)
          moreover have "holds_email s' (u_id u) (vi_email v)"
            by (rule eff(3)) (rule attached)
          moreover have "\<forall>e \<in> set (exchanges s') - set (exchanges s).
              lx_user e = u_id u \<and> \<not> u_suspended u \<and> enabled_two_factor_methods u = []"
            using eff(4) attached by auto
          ultimately show ?thesis
            using signed(1,2,3) False attached(2)
            by (intro conjI ballI exI [of _ r] exI [of _ x] exI [of _ u]) auto
        qed
      qed
    qed
  qed
qed

definition pending_state :: ext_auth_state where
  "pending_state = \<lparr>es_id = ''st'', es_provider = GOOGLE, es_nonce = ''ABCDE0'', es_link_user = None,
     es_redirect = ''/home'', es_expires = 9\<rparr>"

definition callback_db :: db where
  "callback_db = demo_db\<lparr>auth_states := [pending_state]\<rparr>"

theorem social_callback_gate_witness:
  "map lx_user (exchanges (snd (handle_google_callback (demo_env 5) (Some ''m1'') (Some ''st'') None callback_db))) = [''m1''] \<and>
   (\<exists>r x. vouched (demo_env 5) GOOGLE (Some ''m1'') (Some ''st'') callback_db r x \<and> \<not> truthy (es_link_user r))"
proof -
  let ?r = "handle_google_callback (demo_env 5) (Some ''m1'') (Some ''st'') None callback_db"
  have m: "map lx_user (exchanges (snd ?r)) = [''m1'']" by code_simp
  then obtain e where "e \<in> set (exchanges (snd ?r)) - set (exchanges callback_db)"
    by (cases "exchanges (snd ?r)") (auto simp: callback_db_def demo_db_def empty_db_def)
  then have "\<exists>r x. vouched (demo_env 5) GOOGLE (Some ''m1'') (Some ''st'') callback_db r x \<and> \<not> truthy (es_link_user r)"
    using social_callback_gate [OF prod.collapse [symmetric], of "demo_env 5" GOOGLE "Some ''m1''" "Some ''st''"
        None "\<lambda>prof. Option.bind prof sp_name" callback_db]
    unfolding handle_google_callback_def by blast
  with m show ?thesis by blast
qed

text \<open>
  The provider's word that the address is verified is not asked for: an unverified address that
  belongs to a password account opens that account.
\<close>

lemma unverified_email_opens_account:
  "let E = (demo_env 5)\<lparr>social_exchange := (\<lambda>_ c. Some \<lparr>sp_subject = c, sp_email = Some ''a1@x.y'',
              sp_email_verified = False, sp_name = None, sp_nonce = Some ''ABCDE0''\<rparr>)\<rparr>
   in map lx_user (exchanges (snd (handle_google_callback E (Some ''evil'') (Some ''st'') None callback_db))) = [''a1'']"
  by code_simp

text \<open>An account suspended between the callback and the exchange gets its session all the same.\<close>

lemma suspended_account_exchanges_code:
  "succeeds (exchange_login_code (demo_env 5) ''x'' no_meta
     (update_user ''m1'' (\<lambda>u. u\<lparr>u_suspended := True\<rparr>)
       (demo_db\<lparr>exchanges := [\<lparr>lx_id = ''x'', lx_user = ''m1'', lx_expires = 9\<rparr>]\<rparr>)))"
  by code_simp

section \<open>Where the browser is sent\<close>

definition local_path :: "string \<Rightarrow> bool" where
  "local_path p = (starts_with ''/'' p \<and> \<not> starts_with ''//'' p)"

definition safe_return :: "string \<Rightarrow> bool" where
  "safe_return p = (is_app_return_url p \<or> local_path p)"

lemma sanitize_safe: "safe_return (sanitize_redirect_path raw)"
  by (auto simp: sanitize_redirect_path_def safe_return_def is_app_return_url_def local_path_def
      starts_with_def)

definition stays_home :: "env \<Rightarrow> redirect_url \<Rightarrow> bool" where
  "stays_home E u =
     ((fst u = web_app_url E @ ''/oauth/callback'' \<and> (\<forall>p. (''next'', p) \<in> set (snd u) \<longrightarrow> local_path p)) \<or>
      is_app_return_url (fst u) \<or>
      (\<exists>q. safe_return q \<and> fst u = web_app_url E @ q))"

lemma callback_url_home:
  "safe_return p \<Longrightarrow> ''next'' \<notin> fst ` set params \<Longrightarrow> stays_home E (callback_url E p params)"
  by (force simp: stays_home_def callback_url_def safe_return_def image_iff)

lemma error_redirect_home: "safe_return p \<Longrightarrow> stays_home E (error_redirect E p e)"
  by (simp add: error_redirect_def callback_url_home)

lemma root_safe: "safe_return ''/''"
  by (simp add: safe_return_def local_path_def starts_with_def)

lemma link_redirect_home: "safe_return p \<Longrightarrow> stays_home E (link_redirect E p params)"
  by (auto simp: stays_home_def link_redirect_def)

lemma finish_callback_home:
  assumes "finish_callback E p r v s = (Inr u, s')" and "safe_return (es_redirect r)"
  shows "stays_home E u"
  using assms
  by (auto simp: finish_callback_def finish_link_def build_success_redirect_def link_redirect_home
      error_redirect_home Let_def split: if_splits option.splits elim!: and_then_succeedsD
      intro!: callback_url_home)

lemma social_callback_home:
  assumes "\<forall>r \<in> set (auth_states s). safe_return (es_redirect r)"
  shows "stays_home E (fst (social_callback E p code st err f s))"
proof (cases rule: social_callback_cases [where E = E and p = p and code = code and st = st and err = err and f = f and s = s])
  case redirected
  then obtain r y where "fst (social_callback E p code st err f s) = error_redirect E ''/'' r \<or>
      find_state (the st) s = Some y \<and>
      fst (social_callback E p code st err f s) = error_redirect E (es_redirect y) r"
    by blast
  moreover have "safe_return (es_redirect y)" if "find_state (the st) s = Some y"
    using that assms unfolding find_state_def by (blast dest: find_row_Some_D)
  ultimately show ?thesis
    by (auto simp: error_redirect_home root_safe)
next
  case (signed r x v)
  let ?s = "s\<lparr>auth_states := delete_rows (\<lambda>r. es_id r = the st) (auth_states s)\<rparr>"
  have "r \<in> set (auth_states s)"
    using signed(1) unfolding vouched_def find_state_def by (blast dest: find_row_Some_D)
  with assms have safe: "safe_return (es_redirect r)" by blast
  show ?thesis
  proof (cases "finish_callback E p r v ?s")
    case (Pair z s1)
    with safe show ?thesis
      unfolding signed(5)
      by (cases z) (auto simp: caught_def error_redirect_home root_safe finish_callback_home)
  qed
qed

definition states_safe :: "db \<Rightarrow> bool" where
  "states_safe s = (\<forall>r \<in> set (auth_states s). safe_return (es_redirect r))"

lemma states_doors: "doors s' = doors s \<Longrightarrow> auth_states s' = auth_states s"
  by (simp add: doors_same)

lemmas states_elsewhere [simp] =
  states_doors [OF doors_create_user] states_doors [OF doors_issue_challenge]
  states_doors [OF doors_issue_session] states_doors [OF doors_record_login]
  states_doors [OF doors_record_event] states_doors [OF doors_issue_token_set]

lemma and_then_states:
  assumes "auth_states (snd (h s)) = auth_states s"
    and "\<And>x s1. auth_states (snd (k x s1)) = auth_states s1"
  shows "auth_states (snd (and_then h k s)) = auth_states s"
  using assms by (rule and_then_frame)

lemma ticket_tables_safe [simp]:
  "auth_states (snd (consume_challenge E i t u rp s)) = auth_states s"
  "auth_states (snd (create_challenge E u t rp s)) = auth_states s"
  "auth_states (snd (create_identity E v q w s)) = auth_states s"
  "auth_states (snd (create_exchange E v s)) = auth_states s"
  by (simp_all add: consume_challenge_def create_challenge_def create_identity_def create_exchange_def
      Let_def split: option.splits)

lemma begin_registration_safe [simp]: "auth_states (snd (begin_registration E u key s)) = auth_states s"
  by (auto simp: begin_registration_def Let_def split: sum.splits intro!: and_then_states)

lemma begin_authentication_safe [simp]: "auth_states (snd (begin_authentication E key s)) = auth_states s"
  by (auto simp: begin_authentication_def split: sum.splits intro!: and_then_states)

lemma verify_registration_safe [simp]: "auth_states (snd (verify_registration E u d key s)) = auth_states s"
  by (auto simp: verify_registration_def Let_def split: sum.splits option.splits intro!: and_then_states)

lemma verify_core_safe [simp]: "auth_states (snd (verify_authentication_core E d key s)) = auth_states s"
  by (auto simp: verify_authentication_core_def split: sum.splits option.splits intro!: and_then_states)

lemma verify_authentication_safe [simp]:
  "auth_states (snd (verify_authentication E d m key s)) = auth_states s"
  "auth_states (snd (verify_authentication_for_relying_party E d m key s)) = auth_states s"
  by (auto simp: verify_authentication_def verify_authentication_for_relying_party_def Let_def
      case_prod_unfold intro!: and_then_states)

lemma cross_verify_login_safe [simp]: "auth_states (snd (cross_verify_login E c k d v m s)) = auth_states s"
  by (auto simp: cross_verify_login_def Let_def split: sum.splits prod.splits intro!: and_then_states)

lemmas login_tail_states [simp] = states_doors [OF doors_login_tail]

lemma exchange_safe [simp]: "auth_states (snd (exchange_login_code E c m s)) = auth_states s"
  by (auto simp: exchange_login_code_def Let_def split: option.splits sum.splits)

lemma leave_safe: "states_safe s \<Longrightarrow> safe_return path \<Longrightarrow> states_safe (snd (leave_for_provider E c p path l s))"
  by (auto simp: leave_for_provider_def create_state_def new_state_def and_then_def states_safe_def Let_def
      split: sum.splits prod.splits if_splits)

lemma resolve_safe [simp]: "auth_states (snd (resolve_or_create_user E p v s)) = auth_states s"
  by (auto simp: resolve_or_create_user_def split: option.splits intro!: and_then_states)

lemma finish_callback_safe [simp]: "auth_states (snd (finish_callback E p r v s)) = auth_states s"
proof -
  have "auth_states (snd (build_success_redirect E u path s1)) = auth_states s1" for u path s1
    by (auto simp: build_success_redirect_def Let_def intro!: and_then_states)
  then show ?thesis
    by (auto simp: finish_callback_def finish_link_def split: option.splits intro!: and_then_states)
qed

lemma callback_safe: "states_safe s \<Longrightarrow> states_safe (snd (social_callback E p c st e f s))"
  by (auto simp: social_callback_def consume_state_def caught_def Let_def states_safe_def
      split: option.splits if_splits)

lemma sign_in_step_states:
  assumes "\<And>c p n. a \<noteq> LeaveFor c p n" "\<And>c u p n. a \<noteq> LinkVia c u p n"
    "\<And>c st e. a \<noteq> GoogleBack c st e" "\<And>d. a \<noteq> AppleBack d"
  shows "auth_states (snd (sign_in_step (E, a) s)) = auth_states s"
  using assms
  by (cases a)
    (auto simp: remove_passkey_def cross_begin_registration_def cross_verify_registration_def
       cross_begin_login_def unlink_account_def Let_def
     split: sum.splits prod.splits option.splits)

lemma sign_in_step_safe: "states_safe s \<Longrightarrow> states_safe (snd (sign_in_step (E, a) s))"
proof (cases "(\<exists>c p n. a = LeaveFor c p n) \<or> (\<exists>c u p n. a = LinkVia c u p n) \<or>
    (\<exists>c st e. a = GoogleBack c st e) \<or> (\<exists>d. a = AppleBack d)")
  case True
  assume "states_safe s"
  with True show ?thesis
    by (auto simp: begin_auth_def begin_link_def leave_safe sanitize_safe came_back_def
       handle_google_callback_def handle_apple_callback_def callback_safe)
next
  case False
  assume "states_safe s"
  with False sign_in_step_states [of a E s] show ?thesis
    by (auto simp: states_safe_def)
qed

interpretation safe_states: invariant_system sign_in_step states_safe
  by unfold_locales (metis prod.collapse sign_in_step_safe)

text \<open>
  A social sign-in only returns to the web app or the allow-listed app.  Whatever values of
  \<open>next\<close> the starts were given and whatever the browser brings back, after any sequence of
  operations every callback redirects to the web app's own callback page with a local path to go
  on to, to the allow-listed app scheme, or, for a link, to a stored path appended to the web
  app's address.
\<close>

theorem callbacks_stay_home:
  assumes "auth_states s = []"
  shows "stays_home E (fst (handle_google_callback E code st err (run_ops sign_in_step ops s))) \<and>
         stays_home E (fst (handle_apple_callback E d (run_ops sign_in_step ops s)))"
proof -
  have "states_safe (run_ops sign_in_step ops s)"
    by (rule safe_states.run_inv) (simp add: states_safe_def assms)
  then show ?thesis
    unfolding handle_google_callback_def handle_apple_callback_def states_safe_def
    by (intro conjI social_callback_home)
qed

theorem callbacks_stay_home_witness:
  "stays_home (demo_env 5) (fst (handle_google_callback (demo_env 5) (Some ''m1'') (Some ''id0'') None
     (run_ops sign_in_step [(demo_env 4, LeaveFor ''c'' GOOGLE (Some ''//evil.example''))] demo_db))) \<and>
   fst (handle_google_callback (demo_env 5) (Some ''m1'') (Some ''id0'') None
     (run_ops sign_in_step [(demo_env 4, LeaveFor ''c'' GOOGLE (Some ''//evil.example''))] demo_db)) =
     (''https://hub.example/oauth/callback'', [(''next'', ''/''), (''code'', ''id0'')])"
proof
  have "auth_states demo_db = []" by (simp add: demo_db_def empty_db_def)
  then show "stays_home (demo_env 5) (fst (handle_google_callback (demo_env 5) (Some ''m1'') (Some ''id0'') None
     (run_ops sign_in_step [(demo_env 4, LeaveFor ''c'' GOOGLE (Some ''//evil.example''))] demo_db)))"
    using callbacks_stay_home by blast
  show "fst (handle_google_callback (demo_env 5) (Some ''m1'') (Some ''id0'') None
     (run_ops sign_in_step [(demo_env 4, LeaveFor ''c'' GOOGLE (Some ''//evil.example''))] demo_db)) =
     (''https://hub.example/oauth/callback'', [(''next'', ''/''), (''code'', ''id0'')])"
    by code_simp
qed

text \<open>
  A link that was to return to the app is sent to the web app's host name with the app's scheme
  glued to it.
\<close>

lemma app_link_leaves_site:
  "fst (link_redirect (demo_env 5) (sanitize_redirect_path (Some ''ndjoyit://oauth-callback'')) []) =
     ''https://hub.examplendjoyit://oauth-callback''"
  by code_simp

section \<open>Keeping a way in\<close>

definition has_way_in :: "id \<Rightarrow> db \<Rightarrow> bool" where
  "has_way_in uid s =
     ((\<exists>u. find_user uid s = Some u \<and> truthy (u_password_hash u)) \<or>
      (\<exists>i \<in> set (identities s). ai_user i = uid) \<or> (\<exists>k \<in> set (passkeys s). pk_user k = uid))"

text \<open>
  Disconnecting a provider leaves a way in.  \<open>unlinkAccount\<close> succeeds only for an identity of
  the caller, removes exactly that row, and the account still has a password, another identity or
  a passkey afterwards; nobody else's identities change.  It refuses, with a conflict, when the
  identity is the only way in.
\<close>

theorem unlink_keeps_a_way_in:
  assumes "unique_on ai_id (identities s)" and "i \<in> set (identities s)" and "find_user uid s = Some u"
  shows "unlink_account uid (ai_id i) s =
           (if ai_user i \<noteq> uid then (throw (BadRequest ''No connected account with that id.''), s)
            else if has_way_in uid (s\<lparr>identities := delete_rows (\<lambda>x. ai_id x = ai_id i) (identities s)\<rparr>)
            then (ok (), s\<lparr>identities := filter (\<lambda>x. x \<noteq> i) (identities s)\<rparr>)
            else (throw (Conflict ''Disconnecting this would leave your account with no way to sign in - set a password or add a passkey first.''), s))"
proof -
  have f: "find_row (\<lambda>x. ai_id x = ai_id i) (identities s) = Some i"
    using assms(1,2) by (intro find_row_unique) (simp_all add: unique_on_def)
  have d: "delete_rows (\<lambda>x. ai_id x = ai_id i) (identities s) = filter (\<lambda>x. x \<noteq> i) (identities s)"
    unfolding delete_rows_def
    by (rule filter_cong [OF refl]) (use assms(1,2) unique_onD in fastforce)
  have w: "has_way_in uid (s\<lparr>identities := delete_rows (\<lambda>x. ai_id x = ai_id i) (identities s)\<rparr>) \<longleftrightarrow>
      truthy (u_password_hash u) \<or> count_rows (\<lambda>x. ai_user x = uid \<and> ai_id x \<noteq> ai_id i) (identities s) \<noteq> 0 \<or>
      count_rows (\<lambda>k. pk_user k = uid) (passkeys s) \<noteq> 0"
    using assms(3) by (auto simp: has_way_in_def count_rows_0_iff find_user_def)
  show ?thesis
    unfolding w by (simp add: unlink_account_def f d find_by_id_def assms(3))
qed

definition social_only_db :: db where
  "social_only_db = (update_user ''m1'' (\<lambda>u. u\<lparr>u_password_hash := None\<rparr>) passkey_db)
     \<lparr>identities := [\<lparr>ai_id = ''i1'', ai_user = ''m1'', ai_provider = GOOGLE, ai_provider_user = ''g'',
        ai_email = None, ai_created_at = 0\<rparr>]\<rparr>"

theorem unlink_keeps_a_way_in_witness:
  "unlink_account ''m1'' ''i1'' social_only_db = (ok (), social_only_db\<lparr>identities := []\<rparr>)"
proof -
  let ?i = "hd (identities social_only_db)"
  obtain u where "find_user ''m1'' social_only_db = Some u"
    by (simp add: social_only_db_def passkey_db_def demo_db_def demo_user_def find_user_def)
  moreover have "unique_on ai_id (identities social_only_db)" "?i \<in> set (identities social_only_db)"
    "ai_id ?i = ''i1''" "ai_user ?i = ''m1''" "filter (\<lambda>x. x \<noteq> ?i) (identities social_only_db) = []"
    by (simp_all add: social_only_db_def unique_on_def)
  moreover have "has_way_in ''m1'' (social_only_db\<lparr>identities := x\<rparr>)" for x
    by (simp add: has_way_in_def social_only_db_def passkey_db_def)
  ultimately show ?thesis
    using unlink_keeps_a_way_in [of social_only_db ?i "''m1''" u] by simp
qed

text \<open>
  The other way round there is no guard: the last passkey of an account without a password goes.
  And the guard above counts a passkey of another product, which cannot sign in here.
\<close>

lemma remove_passkey_locks_out:
  "let s = social_only_db\<lparr>identities := []\<rparr>; r = remove_passkey (demo_env 5) ''m1'' ''k1'' s
   in succeeds r \<and> passkeys (snd r) = [] \<and> identities (snd r) = [] \<and>
      map_option u_password_hash (find_user ''m1'' (snd r)) = Some None"
  by code_simp

lemma unlink_counts_foreign_passkeys:
  "let s = social_only_db\<lparr>passkeys := map (\<lambda>k. k\<lparr>pk_rp := ''ndymail.com''\<rparr>) (passkeys social_only_db)\<rparr>
   in succeeds (unlink_account ''m1'' ''i1'' s) \<and>
      list_passkeys (demo_env 5) ''m1'' ''ndyhub'' (snd (unlink_account ''m1'' ''i1'' s)) = ok []"
  by code_simp

end
