(* ===== verification/Rewards.thy ===== *)
theory Rewards
  imports OAuth "HOL-Library.Product_Lexorder"
begin

text \<open>
  NDYBITS and the two logs products report into: the ledger (\<^verbatim>\<open>ndybits/ndybits.service.ts\<close>), the
  reward engine (\<^verbatim>\<open>ndybits/reward-engine.service.ts\<close>), the ecosystem event log
  (\<^verbatim>\<open>ecosystem-event/\<close>) with its cursor paging, and the Basic-auth guards in front of them
  (\<^verbatim>\<open>ndy-economy/guards\<close>, \<^verbatim>\<open>ecosystem-event/guards\<close>, \<^verbatim>\<open>ndyqr/guards\<close>).
\<close>

section \<open>Registered clients that call server to server\<close>

text \<open>\<^verbatim>\<open>decoded.indexOf(':')\<close>, then the two slices around it.\<close>

fun split_credentials :: "string \<Rightarrow> (string \<times> string) option" where
  "split_credentials [] = None"
| "split_credentials (c # cs) =
     (if c = CHR '':'' then Some ([], cs)
      else map_option (\<lambda>(a, b). (c # a, b)) (split_credentials cs))"

definition client_credentials :: "env \<Rightarrow> string option \<Rightarrow> (string \<times> string) reply" where
  "client_credentials E header =
     (case header of
        None \<Rightarrow> throw (Unauthorized ''Missing client credentials.'')
      | Some h \<Rightarrow>
          if \<not> starts_with ''Basic '' h then throw (Unauthorized ''Missing client credentials.'')
          else case split_credentials (unbase64 E (drop 6 h)) of
            None \<Rightarrow> throw (Unauthorized ''Malformed client credentials.'')
          | Some p \<Rightarrow> ok p)"

definition scoped_client_guard ::
  "env \<Rightarrow> string \<Rightarrow> string option \<Rightarrow> string option \<Rightarrow> db \<Rightarrow> string reply" where
  "scoped_client_guard E unscoped required header s =
     (if \<not> truthy required then throw (Forbidden unscoped)
      else case client_credentials E header of
        Inl e \<Rightarrow> throw e
      | Inr (cid, secret) \<Rightarrow>
          (case find_by_client_id cid s of
             Inl _ \<Rightarrow> throw (Unauthorized ''Invalid client credentials.'')
           | Inr c \<Rightarrow>
               if \<not> verify_secret E c (Some secret)
               then throw (Unauthorized ''Invalid client credentials.'')
               else if the required \<notin> set (oc_scopes c)
               then throw (Forbidden (''Client is not authorized for the \"'' @ the required @ ''\" scope.''))
               else ok (oc_client_id c)))"

definition economy_client_guard :: "env \<Rightarrow> string option \<Rightarrow> string option \<Rightarrow> db \<Rightarrow> string reply" where
  "economy_client_guard E = scoped_client_guard E ''No economy scope configured for this route.''"

definition ecosystem_event_client_guard :: "env \<Rightarrow> string option \<Rightarrow> string option \<Rightarrow> db \<Rightarrow> string reply" where
  "ecosystem_event_client_guard E =
     scoped_client_guard E ''No ecosystem event scope configured for this route.''"

definition ndyqr_client_guard :: "env \<Rightarrow> string option \<Rightarrow> string option \<Rightarrow> db \<Rightarrow> string reply" where
  "ndyqr_client_guard E = scoped_client_guard E ''No NDYQR scope configured for this route.''"

section \<open>The ledger\<close>

definition recent_entries_limit :: nat where
  "recent_entries_limit = 20"

definition ndybits_balance :: "id \<Rightarrow> db \<Rightarrow> int" where
  "ndybits_balance uid s = sum_list (map le_amount (filter (\<lambda>l. le_user l = uid) (ledger s)))"

definition ndybits_summary :: "id \<Rightarrow> db \<Rightarrow> int \<times> ledger_entry list" where
  "ndybits_summary uid s =
     (ndybits_balance uid s,
      take recent_entries_limit
        (rev (sort_key le_created_at (filter (\<lambda>l. le_user l = uid) (ledger s)))))"

definition new_ledger_entry :: "env \<Rightarrow> id \<Rightarrow> int \<Rightarrow> string \<Rightarrow> string option \<Rightarrow> ledger_entry" where
  "new_ledger_entry E uid amount reason src =
     \<lparr>le_id = new_id E T_Ledger 0, le_user = uid, le_amount = amount, le_reason = reason,
      le_source = src, le_campaign = None, le_risk = RF_NONE, le_redeemed_at = None,
      le_created_at = now E\<rparr>"

definition find_entry :: "string \<Rightarrow> db \<Rightarrow> ledger_entry option" where
  "find_entry src s = find_row (\<lambda>l. le_source l = Some src) (ledger s)"

definition credit_ndybits ::
  "env \<Rightarrow> id \<Rightarrow> int \<Rightarrow> string \<Rightarrow> string option \<Rightarrow> (db, ledger_entry) handler" where
  "credit_ndybits E uid amount reason src s =
     (let l = new_ledger_entry E uid amount reason src
      in if amount = 0 then (throw (BadRequest ''NDYBITS ledger entries must be non-zero.''), s)
         else case (case src of None \<Rightarrow> None | Some k \<Rightarrow> find_entry k s) of
           Some l0 \<Rightarrow> (if truthy src then ok l0 else throw unique_violation, s)
         | None \<Rightarrow>
             if exists_row (\<lambda>x. le_id x = le_id l) (ledger s)
             then (throw (if truthy src then ServerError ''No NdybitsLedgerEntry found''
                          else unique_violation), s)
             else if find_user uid s = None then (throw foreign_key_error, s)
             else (ok l, s\<lparr>ledger := ledger s @ [l]\<rparr>))"

section \<open>The reward engine\<close>

definition velocity_window :: time where
  "velocity_window = 24 * 60 * 60 * 1000"

record verified_event =
  ve_event :: string
  ve_user :: id
  ve_source :: string
  ve_client :: "string option"

datatype verified_result =
    Credited int id
  | Denied string
  | AlreadyProcessed id

definition find_event_log :: "string \<Rightarrow> db \<Rightarrow> economy_event option" where
  "find_event_log src s = find_row (\<lambda>e. ee_source e = src) (economy_log s)"

definition find_rule :: "string \<Rightarrow> db \<Rightarrow> reward_rule option" where
  "find_rule k s = find_row (\<lambda>r. rw_event r = k) (reward_rules s)"

definition new_event_log ::
  "env \<Rightarrow> verified_event \<Rightarrow> bool \<Rightarrow> string option \<Rightarrow> id option \<Rightarrow> economy_event" where
  "new_event_log E v denied reason entry =
     \<lparr>ee_id = new_id E T_EconomyEvent 0, ee_event = ve_event v, ee_user = ve_user v,
      ee_client = ve_client v, ee_source = ve_source v, ee_denied = denied, ee_deny_reason = reason,
      ee_ledger = entry, ee_created_at = now E\<rparr>"

text \<open>A clash on the source id or on the ledger entry is taken for a lost race and swallowed.\<close>

definition log_event ::
  "env \<Rightarrow> verified_event \<Rightarrow> bool \<Rightarrow> string option \<Rightarrow> id option \<Rightarrow> (db, unit) handler" where
  "log_event E v denied reason entry s =
     (if exists_row (\<lambda>e. ee_source e = ve_source v \<or> (entry \<noteq> None \<and> ee_ledger e = entry)) (economy_log s)
      then (ok (), s)
      else if find_user (ve_user v) s = None then (throw foreign_key_error, s)
      else (ok (), s\<lparr>economy_log := economy_log s @ [new_event_log E v denied reason entry]\<rparr>))"

definition rule_refusal :: "string \<Rightarrow> reward_rule option \<Rightarrow> string option" where
  "rule_refusal k r =
     (case r of
        None \<Rightarrow> Some (''No reward rule registered for event \"'' @ k @ ''\".'')
      | Some x \<Rightarrow>
          if rw_enabled x then None
          else Some (''Reward rule \"'' @ k @ ''\" is not currently enabled.''))"

text \<open>The events of this kind credited to the user in the last 24 hours.\<close>

definition recent_count :: "env \<Rightarrow> id \<Rightarrow> string \<Rightarrow> db \<Rightarrow> nat" where
  "recent_count E uid k s =
     count_rows (\<lambda>e. ee_user e = uid \<and> ee_event e = k \<and> \<not> ee_denied e \<and>
                     now E - velocity_window \<le> ee_created_at e) (economy_log s)"

definition deny ::
  "env \<Rightarrow> verified_event \<Rightarrow> string \<Rightarrow> (db, verified_result) handler" where
  "deny E v reason = and_then (log_event E v True (Some reason) None) (\<lambda>_ s1. (ok (Denied reason), s1))"

definition entry_source :: "string \<Rightarrow> string" where
  "entry_source src = ''economy-event:'' @ src"

lemma entry_source_simps [simp]:
  "entry_source a = entry_source b \<longleftrightarrow> a = b" "truthy (Some (entry_source a))"
  by (simp_all add: entry_source_def)

definition credit_event :: "env \<Rightarrow> verified_event \<Rightarrow> reward_rule \<Rightarrow> (db, verified_result) handler" where
  "credit_event E v r =
     and_then (credit_ndybits E (ve_user v) (rw_amount r) (rw_label r)
                 (Some (entry_source (ve_source v))))
       (\<lambda>l. and_then (log_event E v False None (Some (le_id l)))
          (\<lambda>_ s2. (ok (Credited (rw_amount r) (le_id l)), s2)))"

definition daily_limit_reason :: "nat \<Rightarrow> string \<Rightarrow> string" where
  "daily_limit_reason cap k = ''Daily limit ('' @ string_of_nat cap @ '') reached for \"'' @ k @ ''\".''"

definition handle_verified_event :: "env \<Rightarrow> verified_event \<Rightarrow> (db, verified_result) handler" where
  "handle_verified_event E v s =
     (case find_event_log (ve_source v) s of
        Some e \<Rightarrow> (ok (AlreadyProcessed (ee_id e)), s)
      | None \<Rightarrow>
          (let r = find_rule (ve_event v) s
           in case rule_refusal (ve_event v) r of
                Some reason \<Rightarrow> deny E v reason s
              | None \<Rightarrow>
                  (case rw_daily (the r) of
                     Some cap \<Rightarrow>
                       if cap \<le> recent_count E (ve_user v) (ve_event v) s
                       then deny E v (daily_limit_reason cap (ve_event v)) s
                       else credit_event E v (the r) s
                   | None \<Rightarrow> credit_event E v (the r) s)))"

text \<open>\<^verbatim>\<open>POST ndy-economy/events/report\<close>\<close>

definition report_economy_event ::
  "env \<Rightarrow> string option \<Rightarrow> string \<Rightarrow> id \<Rightarrow> string \<Rightarrow> (db, verified_result) handler" where
  "report_economy_event E header event uid src s =
     (case economy_client_guard E (Some ''ndybits:report-event'') header s of
        Inl e \<Rightarrow> (throw e, s)
      | Inr cid \<Rightarrow>
          handle_verified_event E
            \<lparr>ve_event = event, ve_user = uid, ve_source = src, ve_client = Some cid\<rparr> s)"

section \<open>The ecosystem event log\<close>

definition ecosystem_event_types :: "string list" where
  "ecosystem_event_types =
     [''identity.updated'', ''profile.updated'', ''membership.changed'', ''verification.changed'',
      ''connection.created'', ''reward.earned'', ''booking.created'', ''quiz.completed'',
      ''steps.goal_completed'']"

definition is_registered_event_type :: "string \<Rightarrow> bool" where
  "is_registered_event_type t = (t \<in> set ecosystem_event_types)"

record ecosystem_report =
  er_type :: string
  er_user_id :: id
  er_source_id :: string
  er_client_id :: "string option"
  er_payload :: "json option"

definition find_ecosystem_event :: "string \<Rightarrow> db \<Rightarrow> ecosystem_event option" where
  "find_ecosystem_event src s = find_row (\<lambda>e. ev_source e = src) (ecosystem_events s)"

definition new_ecosystem_event :: "env \<Rightarrow> ecosystem_report \<Rightarrow> ecosystem_event" where
  "new_ecosystem_event E r =
     \<lparr>ev_id = new_id E T_EcosystemEvent 0, ev_type = er_type r, ev_user = er_user_id r,
      ev_client = er_client_id r, ev_payload = er_payload r, ev_source = er_source_id r,
      ev_created_at = now E\<rparr>"

text \<open>The forward to the reward engine cannot fail the report; what it wrote stays.\<close>

definition report_ecosystem_event :: "env \<Rightarrow> ecosystem_report \<Rightarrow> (db, ecosystem_event) handler" where
  "report_ecosystem_event E r s =
     (if \<not> is_registered_event_type (er_type r)
      then (throw (BadRequest (''Unknown event type \"'' @ er_type r @
              ''\" - see event-catalog.ts for the registered list.'')), s)
      else case find_ecosystem_event (er_source_id r) s of
        Some e \<Rightarrow> (ok e, s)
      | None \<Rightarrow>
          if find_user (er_user_id r) s = None then (throw foreign_key_error, s)
          else let e = new_ecosystem_event E r
               in (ok e,
                   snd (handle_verified_event E
                     \<lparr>ve_event = er_type r, ve_user = er_user_id r,
                      ve_source = ''ecosystem-event:'' @ er_source_id r, ve_client = er_client_id r\<rparr>
                     (s\<lparr>ecosystem_events := ecosystem_events s @ [e]\<rparr>))))"

definition report_ecosystem_endpoint ::
  "env \<Rightarrow> string option \<Rightarrow> ecosystem_report \<Rightarrow> (db, ecosystem_event) handler" where
  "report_ecosystem_endpoint E header r s =
     (case ecosystem_event_client_guard E (Some ''ecosystem:report-event'') header s of
        Inl e \<Rightarrow> (throw e, s)
      | Inr cid \<Rightarrow> report_ecosystem_event E (r\<lparr>er_client_id := Some cid\<rparr>) s)"

definition list_events_for_user :: "id \<Rightarrow> nat \<Rightarrow> db \<Rightarrow> ecosystem_event list" where
  "list_events_for_user uid n s =
     take n (rev (sort_key ev_created_at (filter (\<lambda>e. ev_user e = uid) (ecosystem_events s))))"

text \<open>
  \<^verbatim>\<open>listSince\<close>: Prisma's cursor takes the rows from the cursor's own position on, in the order of
  the query, and \<^verbatim>\<open>skip: 1\<close> drops the first; an unknown cursor gives no rows; a negative \<^verbatim>\<open>take\<close>
  reads backwards from the end, or from the cursor.  A page of zero rows reads the id of
  \<^verbatim>\<open>events[-1]\<close>.
\<close>

definition event_key :: "ecosystem_event \<Rightarrow> time \<times> id" where
  "event_key e = (ev_created_at e, ev_id e)"

definition event_stream :: "string option \<Rightarrow> db \<Rightarrow> ecosystem_event list" where
  "event_stream kind s =
     sort_key event_key
       (filter (\<lambda>e. \<not> truthy kind \<or> ev_type e = the kind) (ecosystem_events s))"

definition after_cursor :: "id option \<Rightarrow> bool \<Rightarrow> ecosystem_event list \<Rightarrow> db \<Rightarrow> ecosystem_event list" where
  "after_cursor cursor backwards es s =
     (if \<not> truthy cursor then (if backwards then rev es else es)
      else case find_row (\<lambda>e. ev_id e = the cursor) (ecosystem_events s) of
        None \<Rightarrow> []
      | Some c \<Rightarrow>
          if backwards then drop 1 (rev (filter (\<lambda>e. event_key e \<le> event_key c) es))
          else drop 1 (filter (\<lambda>e. event_key c \<le> event_key e) es))"

definition page_size :: "int option \<Rightarrow> int" where
  "page_size n = min (or_else n 100) 500"

definition list_since ::
  "id option \<Rightarrow> int option \<Rightarrow> string option \<Rightarrow> db \<Rightarrow> (ecosystem_event list \<times> id option) reply" where
  "list_since cursor n kind s =
     (let t = page_size n; backwards = (t < 0);
          rows = take (nat \<bar>t\<bar>) (after_cursor cursor backwards (event_stream kind s) s);
          es = (if backwards then rev rows else rows)
      in if int (length es) \<noteq> t then ok (es, None)
         else if es = [] then throw (ServerError ''Cannot read properties of undefined'')
         else ok (es, Some (ev_id (last es))))"

text \<open>\<^verbatim>\<open>GET ecosystem/events\<close>\<close>

definition list_since_endpoint ::
  "env \<Rightarrow> string option \<Rightarrow> id option \<Rightarrow> int option \<Rightarrow> string option \<Rightarrow> db \<Rightarrow>
     (ecosystem_event list \<times> id option) reply" where
  "list_since_endpoint E header cursor n kind s =
     (case ecosystem_event_client_guard E (Some ''ecosystem:read-events'') header s of
        Inl e \<Rightarrow> throw e
      | Inr _ \<Rightarrow> list_since cursor n kind s)"

section \<open>The ledger follows the event log\<close>

text \<open>
  The entry of a credited event: same account, same moment, the prefixed source id, and the amount
  the rule \<open>rules\<close> sets for the event.
\<close>

definition credit_of :: "(string \<Rightarrow> reward_rule option) \<Rightarrow> ledger_entry \<Rightarrow> economy_event \<Rightarrow> bool" where
  "credit_of rules l e =
     (ee_ledger e = Some (le_id l) \<and> le_user l = ee_user e \<and> le_created_at l = ee_created_at e \<and>
      le_source l = Some (entry_source (ee_source e)) \<and>
      (\<exists>r. rules (ee_event e) = Some r \<and> le_amount l = rw_amount r))"

definition credited_events :: "db \<Rightarrow> economy_event list" where
  "credited_events s = filter (\<lambda>e. \<not> ee_denied e) (economy_log s)"

definition rewards_ok :: "(string \<Rightarrow> reward_rule option) \<Rightarrow> db \<Rightarrow> bool" where
  "rewards_ok rules s =
     ((\<lambda>k. find_rule k s) = rules \<and> unique_on ee_source (economy_log s) \<and> unique_on le_id (ledger s) \<and>
      list_all2 (credit_of rules) (ledger s) (credited_events s) \<and>
      (\<forall>e \<in> set (economy_log s). ee_denied e \<longrightarrow> ee_ledger e = None))"

lemma entry_of_event:
  assumes "rewards_ok rules s" and "l \<in> set (ledger s)"
  shows "\<exists>e \<in> set (economy_log s). credit_of rules l e"
proof -
  have all: "list_all2 (credit_of rules) (ledger s) (credited_events s)"
    using assms(1) by (simp add: rewards_ok_def)
  obtain n where "n < length (ledger s)" "ledger s ! n = l"
    using assms(2) by (auto simp: in_set_conv_nth)
  with all have "n < length (credited_events s)" "credit_of rules l (credited_events s ! n)"
    by (auto simp: list_all2_conv_all_nth)
  then have "credited_events s ! n \<in> set (economy_log s)"
    using nth_mem [of n "credited_events s"] by (simp add: credited_events_def)
  with \<open>credit_of rules l _\<close> show ?thesis by blast
qed

lemma event_of_entry:
  assumes "rewards_ok rules s" and "e \<in> set (economy_log s)" and "ee_ledger e = Some i"
  shows "\<exists>l \<in> set (ledger s). le_id l = i"
proof -
  have all: "list_all2 (credit_of rules) (ledger s) (credited_events s)"
    using assms(1) by (simp add: rewards_ok_def)
  have "e \<in> set (credited_events s)"
    using assms by (auto simp: rewards_ok_def credited_events_def)
  then obtain n where "n < length (credited_events s)" "credited_events s ! n = e"
    by (auto simp: in_set_conv_nth)
  with all assms(3) have "n < length (ledger s)" "le_id (ledger s ! n) = i"
    by (auto simp: list_all2_conv_all_nth credit_of_def)
  then show ?thesis by (metis nth_mem)
qed

lemma find_event_log_None: "find_event_log k s = None \<longleftrightarrow> (\<forall>e \<in> set (economy_log s). ee_source e \<noteq> k)"
  by (auto simp: find_event_log_def find_row_None_iff)

lemma deny_effect:
  assumes "find_event_log (ve_source v) s = None"
  shows "snd (deny E v reason s) = s \<or>
    snd (deny E v reason s) = s\<lparr>economy_log := economy_log s @ [new_event_log E v True (Some reason) None]\<rparr>"
  by (auto simp: deny_def log_event_def and_then_def)

lemma credit_event_effect:
  assumes "rewards_ok rules s" and "find_event_log (ve_source v) s = None"
    and "l = new_ledger_entry E (ve_user v) (rw_amount r) (rw_label r) (Some (entry_source (ve_source v)))"
  shows "snd (credit_event E v r s) = s \<and> \<not> accepted_reply (fst (credit_event E v r s)) \<or>
    (snd (credit_event E v r s) = s\<lparr>ledger := ledger s @ [l],
        economy_log := economy_log s @ [new_event_log E v False None (Some (le_id l))]\<rparr> \<and>
     fst (credit_event E v r s) = Inr (Credited (rw_amount r) (le_id l)) \<and>
     (\<forall>x \<in> set (ledger s). le_id x \<noteq> le_id l) \<and> rw_amount r \<noteq> 0)"
proof -
  let ?src = "entry_source (ve_source v)"
  have none: "find_entry ?src s = None"
  proof (rule ccontr)
    assume "find_entry ?src s \<noteq> None"
    then obtain x where "x \<in> set (ledger s)" "le_source x = Some ?src"
      unfolding find_entry_def by (auto dest: find_row_Some_D)
    then obtain e where "e \<in> set (economy_log s)" "ee_source e = ve_source v"
      using entry_of_event [OF assms(1)] by (force simp: credit_of_def)
    with assms(2) show False by (auto simp: find_event_log_None)
  qed
  show ?thesis
  proof (cases "rw_amount r = 0 \<or> (\<exists>x \<in> set (ledger s). le_id x = le_id l) \<or> find_user (ve_user v) s = None")
    case True
    then show ?thesis
      using none by (auto simp: credit_event_def credit_ndybits_def and_then_def assms(3) Let_def)
  next
    case False
    have c: "credit_ndybits E (ve_user v) (rw_amount r) (rw_label r) (Some ?src) s =
        (ok l, s\<lparr>ledger := ledger s @ [l]\<rparr>)"
      using False none by (auto simp: credit_ndybits_def assms(3) Let_def)
    have "\<not> exists_row (\<lambda>e. ee_source e = ve_source v \<or> (Some (le_id l) \<noteq> None \<and> ee_ledger e = Some (le_id l)))
        (economy_log s)"
      using assms(2) False event_of_entry [OF assms(1)] by (auto simp: find_event_log_None)
    then have "log_event E v False None (Some (le_id l)) (s\<lparr>ledger := ledger s @ [l]\<rparr>) =
        (ok (), s\<lparr>ledger := ledger s @ [l],
           economy_log := economy_log s @ [new_event_log E v False None (Some (le_id l))]\<rparr>)"
      using False by (simp add: log_event_def find_user_def)
    with c False show ?thesis by (simp add: credit_event_def)
  qed
qed

lemma verified_event_cases:
  assumes "rewards_ok rules s"
  obtains (same) "snd (handle_verified_event E v s) = s"
  | (denied) reason where "find_event_log (ve_source v) s = None"
      "snd (handle_verified_event E v s) =
         s\<lparr>economy_log := economy_log s @ [new_event_log E v True (Some reason) None]\<rparr>"
  | (credited) r l where "find_event_log (ve_source v) s = None" "rules (ve_event v) = Some r"
      "\<And>cap. rw_daily r = Some cap \<Longrightarrow> recent_count E (ve_user v) (ve_event v) s < cap"
      "l = new_ledger_entry E (ve_user v) (rw_amount r) (rw_label r) (Some (entry_source (ve_source v)))"
      "\<forall>x \<in> set (ledger s). le_id x \<noteq> le_id l"
      "snd (handle_verified_event E v s) = s\<lparr>ledger := ledger s @ [l],
         economy_log := economy_log s @ [new_event_log E v False None (Some (le_id l))]\<rparr>"
proof (cases "find_event_log (ve_source v) s")
  case (Some e)
  then show thesis by (intro same) (simp add: handle_verified_event_def)
next
  case None
  note d = deny_effect [OF None, of E] and c = credit_event_effect [OF assms None refl, of E]
  have rules: "find_rule k s = rules k" for k
    using assms by (auto simp: rewards_ok_def)
  show thesis
  proof (cases "rule_refusal (ve_event v) (rules (ve_event v))")
    case (Some reason)
    then have "handle_verified_event E v s = deny E v reason s"
      using None by (simp add: handle_verified_event_def rules Let_def)
    with d [of reason] show thesis
      by (elim disjE) (rule same, simp, rule denied [OF None], simp)
  next
    case ok: None
    then obtain r where r: "rules (ve_event v) = Some r"
      by (auto simp: rule_refusal_def split: option.splits)
    show thesis
    proof (cases "\<exists>cap. rw_daily r = Some cap \<and> cap \<le> recent_count E (ve_user v) (ve_event v) s")
      case True
      then obtain reason where "handle_verified_event E v s = deny E v reason s"
        using None ok r by (auto simp: handle_verified_event_def rules Let_def)
      with d [of reason] show thesis
      by (elim disjE) (rule same, simp, rule denied [OF None], simp)
    next
      case False
      then have "handle_verified_event E v s = credit_event E v r s"
        using None ok r by (auto simp: handle_verified_event_def rules Let_def split: option.splits)
      with None r c [of r] False show thesis
        by (elim disjE) (rule same, simp, rule credited [of r], auto simp: not_le)
    qed
  qed
qed

lemma verified_event_ok:
  assumes "rewards_ok rules s"
  shows "rewards_ok rules (snd (handle_verified_event E v s))"
  using assms
proof (cases rule: verified_event_cases [of rules s E v])
  case same
  with assms show ?thesis by simp
next
  case (denied reason)
  with assms show ?thesis
    by (auto simp: rewards_ok_def find_rule_def fun_eq_iff find_event_log_None new_event_log_def credited_events_def)
next
  case (credited r l)
  have "credit_of rules l (new_event_log E v False None (Some (le_id l)))"
    using credited(2,4) by (simp add: credit_of_def new_event_log_def new_ledger_entry_def)
  with credited(1,5,6) assms show ?thesis
    by (auto simp: rewards_ok_def find_rule_def fun_eq_iff find_event_log_None new_event_log_def
        credited_events_def intro!: list_all2_appendI)
qed

text \<open>The reports products make, behind their guards.\<close>

datatype reward_op =
    EconomyReport "string option" string id string
  | EcosystemReport "string option" ecosystem_report

fun reward_step :: "env \<times> reward_op \<Rightarrow> db \<Rightarrow> bool \<times> db" where
  "reward_step (E, EconomyReport h k u src) s = answered (report_economy_event E h k u src s)"
| "reward_step (E, EcosystemReport h r) s = answered (report_ecosystem_endpoint E h r s)"

lemma rewards_ok_events [simp]: "rewards_ok rules (s\<lparr>ecosystem_events := x\<rparr>) = rewards_ok rules s"
  by (simp add: rewards_ok_def find_rule_def credited_events_def)

text \<open>A step of either kind is a verified event, perhaps after a row of the other log.\<close>

lemma reward_step_cases:
  obtains (same) "snd (reward_step (E, a) s) = s"
  | (event) v x where "snd (reward_step (E, a) s) =
      snd (handle_verified_event E v (s\<lparr>ecosystem_events := x\<rparr>))"
proof (cases a)
  case (EconomyReport h k u src)
  show thesis
  proof (cases "economy_client_guard E (Some ''ndybits:report-event'') h s")
    case (Inr cid)
    with EconomyReport show thesis
      by (intro event [of _ "ecosystem_events s"]) (simp add: report_economy_event_def)
  qed (use EconomyReport same in \<open>simp add: report_economy_event_def\<close>)
next
  case (EcosystemReport h r)
  show thesis
  proof (cases "ecosystem_event_client_guard E (Some ''ecosystem:report-event'') h s")
    case (Inr cid)
    show thesis
      by (cases "is_registered_event_type (er_type r) \<and> find_ecosystem_event (er_source_id r) s = None \<and>
            find_user (er_user_id r) s \<noteq> None")
        (use EcosystemReport Inr in \<open>auto simp: report_ecosystem_endpoint_def report_ecosystem_event_def Let_def
          split: option.splits intro: same event\<close>)
  qed (use EcosystemReport same in \<open>simp add: report_ecosystem_endpoint_def\<close>)
qed

lemma reward_step_ok: "rewards_ok rules s \<Longrightarrow> rewards_ok rules (snd (reward_step (E, a) s))"
  by (cases rule: reward_step_cases [of E a s]) (auto intro: verified_event_ok)

interpretation reward_log: invariant_system reward_step "rewards_ok rules" for rules
  by unfold_locales (metis prod.collapse reward_step_ok)

definition intake_event :: "env \<times> verified_event \<Rightarrow> (db, verified_result) handler" where
  "intake_event a = handle_verified_event (fst a) (snd a)"

interpretation event_intake:
  idempotent_intake intake_event "rewards_ok rules" "\<lambda>a. Some (ve_source (snd a))"
    "\<lambda>k s. find_event_log k s \<noteq> None" accepted_reply for rules
proof (unfold_locales, goal_cases)
  case (1 s a)
  then show ?case by (simp add: intake_event_def verified_event_ok)
next
  case (2 s a k)
  obtain E v where a: "a = (E, v)" by (cases a)
  show ?case
  proof (cases "find_event_log (ve_source v) s")
    case (Some e)
    with 2 a show ?thesis by (simp add: intake_event_def handle_verified_event_def)
  next
    case None
    have d: "find_event_log (ve_source v) (snd (deny E v reason s)) \<noteq> None"
      if "accepted_reply (fst (deny E v reason s))" for reason
      using that None
      by (auto simp: deny_def log_event_def and_then_def find_event_log_def find_row_append
          new_event_log_def find_row_None_iff split: if_splits)
    have c: "find_event_log (ve_source v) (snd (credit_event E v r s)) \<noteq> None"
      if "accepted_reply (fst (credit_event E v r s))" for r
      using credit_event_effect [OF 2(1) None refl, of E r] that
      by (auto simp: find_event_log_def find_row_append new_event_log_def split: option.splits)
    have "(\<exists>reason. handle_verified_event E v s = deny E v reason s) \<or>
        (\<exists>r. handle_verified_event E v s = credit_event E v r s)"
      using None by (auto simp: handle_verified_event_def Let_def split: option.splits)
    with 2(2,3) a d c show ?thesis
      by (auto simp: intake_event_def)
  qed
next
  case (3 s a k)
  then show ?case by (auto simp: intake_event_def handle_verified_event_def)
next
  case (4 s k a)
  show ?case
    using 4(2) by (cases rule: verified_event_cases [OF 4(1), of "fst a" "snd a"])
      (auto simp: intake_event_def find_event_log_def find_row_append split: option.splits)
qed

text \<open>
  C16. A reported event is rewarded once.  When the reward engine has answered a report, any later
  report with the same source id, by whichever client and for whatever event or user, and after
  any other reports, changes nothing: no second ledger entry, no second row of the event log.
\<close>

theorem reward_report_idempotent:
  assumes "rewards_ok rules s" and "handle_verified_event E v s = (Inr x, s1)" and "ve_source v' = ve_source v"
  shows "snd (handle_verified_event E' v' (run_ops intake_event evs s1)) = run_ops intake_event evs s1"
proof -
  have "accepted_reply (fst (intake_event (E, v) s))" "snd (intake_event (E, v) s) = s1"
    using assms(2) by (simp_all add: intake_event_def)
  then have "snd (intake_event (E', v') (run_ops intake_event evs s1)) = run_ops intake_event evs s1"
    using event_intake.late_redelivery [OF assms(1), of "(E, v)" "ve_source v" "(E', v')" evs] assms(3)
    by simp
  then show ?thesis by (simp add: intake_event_def)
qed

definition quiz_rule :: reward_rule where
  "quiz_rule = \<lparr>rw_event = ''quiz.completed'', rw_label = ''Quiz'', rw_amount = 5, rw_daily = Some 1,
     rw_enabled = True\<rparr>"

definition reward_db :: db where
  "reward_db = demo_db\<lparr>reward_rules := [quiz_rule]\<rparr>"

definition quiz_event :: "string \<Rightarrow> verified_event" where
  "quiz_event k = \<lparr>ve_event = ''quiz.completed'', ve_user = ''m1'', ve_source = k, ve_client = None\<rparr>"

lemma rewards_ok_empty: "economy_log s = [] \<Longrightarrow> ledger s = [] \<Longrightarrow> rewards_ok (\<lambda>k. find_rule k s) s"
  by (simp add: rewards_ok_def unique_on_def credited_events_def)

lemma rewards_ok_reward_db: "rewards_ok (\<lambda>k. find_rule k reward_db) reward_db"
  by (rule rewards_ok_empty) (simp_all add: reward_db_def demo_db_def empty_db_def)

theorem reward_report_idempotent_witness:
  "let s1 = snd (handle_verified_event (demo_env 5) (quiz_event ''q1'') reward_db)
   in ndybits_balance ''m1'' s1 = 5 \<and>
      snd (handle_verified_event (demo_env 6) (quiz_event ''q1'') s1) = s1"
proof -
  let ?r = "handle_verified_event (demo_env 5) (quiz_event ''q1'') reward_db"
  have "fst ?r = Inr (Credited 5 ''id0'')" "ndybits_balance ''m1'' (snd ?r) = 5"
    by code_simp+
  moreover from this have "?r = (Inr (Credited 5 ''id0''), snd ?r)"
    by (simp add: prod_eq_iff)
  ultimately show ?thesis
    using reward_report_idempotent [OF rewards_ok_reward_db, of "demo_env 5" "quiz_event ''q1''" _ _
        "quiz_event ''q1''" "demo_env 6" "[]"] by (metis run_ops.simps(1))
qed

definition granted_by :: "(string \<Rightarrow> reward_rule option) \<Rightarrow> economy_event \<Rightarrow> int" where
  "granted_by rules e = (case rules (ee_event e) of None \<Rightarrow> 0 | Some r \<Rightarrow> rw_amount r)"

lemma balance_of_events:
  assumes "list_all2 (credit_of rules) ls es"
  shows "sum_list (map le_amount (filter (\<lambda>l. le_user l = u) ls)) =
           sum_list (map (granted_by rules) (filter (\<lambda>e. ee_user e = u) es))"
  using assms by (induction rule: list_all2_induct) (auto simp: credit_of_def granted_by_def)

lemma entry_sources:
  assumes "list_all2 (credit_of rules) ls es"
  shows "map le_source ls = map (\<lambda>e. Some (entry_source (ee_source e))) es"
  using assms by (induction rule: list_all2_induct) (auto simp: credit_of_def)

text \<open>
  C17. NDYBITS exist only by the rules.  From an empty ledger, after any sequence of reports by any
  clients, a balance is exactly the sum, over the account's credited events, of the amounts the
  server's rules set for them; no two entries share a source id; and products never name an
  amount.
\<close>

theorem balance_is_what_the_rules_grant:
  assumes "ledger s = []" and "economy_log s = []"
  shows "ndybits_balance u (run_ops reward_step ops s) =
           sum_list (map (granted_by (\<lambda>k. find_rule k s))
             (filter (\<lambda>e. ee_user e = u) (credited_events (run_ops reward_step ops s)))) \<and>
         distinct (map le_source (ledger (run_ops reward_step ops s)))"
proof -
  let ?s = "run_ops reward_step ops s"
  have "rewards_ok (\<lambda>k. find_rule k s) ?s"
    by (rule reward_log.run_inv) (rule rewards_ok_empty; fact)
  then have all: "list_all2 (credit_of (\<lambda>k. find_rule k s)) (ledger ?s) (credited_events ?s)"
    and uniq: "distinct (map ee_source (economy_log ?s))"
    by (simp_all add: rewards_ok_def unique_on_def)
  have "distinct (map ee_source (credited_events ?s))"
    unfolding credited_events_def by (rule distinct_map_filter [OF uniq])
  then have "distinct (map (\<lambda>e. Some (entry_source (ee_source e))) (credited_events ?s))"
    by (auto simp: distinct_map inj_on_def)
  with balance_of_events [OF all] entry_sources [OF all] show ?thesis
    by (simp add: ndybits_balance_def)
qed

definition quiz_client :: oauth_client where
  "quiz_client = \<lparr>oc_id = ''c'', oc_client_id = ''quiz'', oc_secret_hash = Some ''s'',
     oc_type = CONFIDENTIAL, oc_name = ''NDYQUIZ'', oc_redirects = [],
     oc_scopes = [''ndybits:report-event''], oc_active = True\<rparr>"

definition report_run :: "(env \<times> reward_op) list" where
  "report_run =
     [(demo_env 5, EconomyReport (Some ''Basic quiz:s'') ''quiz.completed'' ''m1'' ''q1''),
      (demo_env 6, EconomyReport (Some ''Basic quiz:s'') ''quiz.completed'' ''m1'' ''q2''),
      (demo_env 7, EconomyReport (Some ''Basic quiz:x'') ''quiz.completed'' ''m1'' ''q3'')]"

theorem balance_is_what_the_rules_grant_witness:
  "ndybits_balance ''m1'' (run_ops reward_step report_run (reward_db\<lparr>oauth_clients := [quiz_client]\<rparr>)) = 5 \<and>
   distinct (map le_source (ledger (run_ops reward_step report_run (reward_db\<lparr>oauth_clients := [quiz_client]\<rparr>))))"
proof
  show "ndybits_balance ''m1'' (run_ops reward_step report_run (reward_db\<lparr>oauth_clients := [quiz_client]\<rparr>)) = 5"
    by code_simp
  show "distinct (map le_source (ledger (run_ops reward_step report_run (reward_db\<lparr>oauth_clients := [quiz_client]\<rparr>))))"
    using balance_is_what_the_rules_grant [of "reward_db\<lparr>oauth_clients := [quiz_client]\<rparr>"]
    by (simp add: reward_db_def demo_db_def empty_db_def)
qed

section \<open>The daily limit\<close>

definition credited_in :: "time \<Rightarrow> time \<Rightarrow> id \<Rightarrow> string \<Rightarrow> db \<Rightarrow> nat" where
  "credited_in from to u k s =
     count_rows (\<lambda>e. ee_user e = u \<and> ee_event e = k \<and> \<not> ee_denied e \<and>
                     from \<le> ee_created_at e \<and> ee_created_at e \<le> to) (economy_log s)"

definition within_limit :: "nat \<Rightarrow> id \<Rightarrow> string \<Rightarrow> db \<Rightarrow> bool" where
  "within_limit cap u k s = (\<forall>t. credited_in (t - velocity_window) t u k s \<le> cap)"

lemma within_limit_events [simp]: "within_limit cap u k (s\<lparr>ecosystem_events := x\<rparr>) = within_limit cap u k s"
  by (simp add: within_limit_def credited_in_def)

lemma verified_event_within_limit:
  assumes ok: "rewards_ok rules s" and rule: "rules k = Some r" "rw_daily r = Some cap"
    and lim: "within_limit cap u k s" and past: "\<forall>e \<in> set (economy_log s). ee_created_at e \<le> now E"
  shows "within_limit cap u k (snd (handle_verified_event E v s))"
  using ok
proof (cases rule: verified_event_cases [of rules s E v])
  case same
  with lim show ?thesis by simp
next
  case (denied reason)
  with lim show ?thesis
    by (simp add: within_limit_def credited_in_def new_event_log_def)
next
  case (credited r' l)
  show ?thesis
  proof (cases "ve_user v = u \<and> ve_event v = k")
    case False
    with credited(6) lim show ?thesis
      by (auto simp: within_limit_def credited_in_def new_event_log_def)
  next
    case True
    then have less: "recent_count E u k s < cap"
      using credited(2,3) rule by auto
    have "credited_in (t - velocity_window) t u k (snd (handle_verified_event E v s)) \<le> cap" for t
    proof (cases "now E \<le> t")
      case late: True
      have "credited_in (t - velocity_window) t u k s \<le> recent_count E u k s"
        unfolding credited_in_def recent_count_def
        by (rule count_rows_mono) (use late in auto)
      with less credited(6) show ?thesis
        by (simp add: credited_in_def new_event_log_def)
    next
      case early: False
      then show ?thesis
        using credited(6) lim by (simp add: within_limit_def credited_in_def new_event_log_def)
    qed
    then show ?thesis by (simp add: within_limit_def)
  qed
qed

lemma verified_event_times:
  assumes "rewards_ok rules s" and "e \<in> set (economy_log (snd (handle_verified_event E v s)))"
  shows "e \<in> set (economy_log s) \<or> ee_created_at e = now E"
  using assms(1)
proof (cases rule: verified_event_cases [of rules s E v])
  case same
  with assms(2) show ?thesis by simp
qed (use assms(2) in \<open>auto simp: new_event_log_def\<close>)

text \<open>
  C18. The daily limit of a reward rule holds in every 24 hours.  Whatever products report, in any
  order and however often, if the clock does not run backwards then in no window of 24 hours is an
  account credited more often for an event than the rule's limit.
\<close>

theorem daily_limit_holds:
  assumes "ledger s = []" and "economy_log s = []" and "find_rule k s = Some r" and "rw_daily r = Some cap"
    and "sorted (map (now \<circ> fst) ops)"
  shows "credited_in (t - velocity_window) t u k (run_ops reward_step ops s) \<le> cap"
proof -
  let ?rules = "\<lambda>k. find_rule k s"
  have "within_limit cap u k (run_ops reward_step ops s) \<and>
      (\<forall>e \<in> set (economy_log (run_ops reward_step ops s)). \<exists>a \<in> set ops. ee_created_at e = now (fst a))"
    using assms(5)
  proof (induction ops rule: rev_induct)
    case Nil
    with assms(2) show ?case by (simp add: within_limit_def credited_in_def)
  next
    case (snoc a ops)
    let ?s = "run_ops reward_step ops s"
    have ok: "rewards_ok ?rules ?s"
      by (rule reward_log.run_inv) (rule rewards_ok_empty; fact)
    from snoc have lim: "within_limit cap u k ?s"
      and times: "\<forall>e \<in> set (economy_log ?s). \<exists>a \<in> set ops. ee_created_at e = now (fst a)"
      and le: "\<forall>b \<in> set ops. now (fst b) \<le> now (fst a)"
      by (auto simp: sorted_append)
    obtain E b where a: "a = (E, b)" by (cases a)
    show ?case
    proof (cases rule: reward_step_cases [of E b ?s])
      case same
      with lim times a show ?thesis by auto
    next
      case (event v x)
      let ?s' = "?s\<lparr>ecosystem_events := x\<rparr>"
      have ok': "rewards_ok ?rules ?s'" using ok by simp
      have past: "\<forall>e \<in> set (economy_log ?s'). ee_created_at e \<le> now E"
        using times le a by fastforce
      have "within_limit cap u k (snd (handle_verified_event E v ?s'))"
        by (rule verified_event_within_limit [OF ok' assms(3,4) _ past]) (simp add: lim)
      moreover have "\<forall>e \<in> set (economy_log (snd (handle_verified_event E v ?s'))).
          \<exists>a \<in> set (ops @ [a]). ee_created_at e = now (fst a)"
        using verified_event_times [OF ok'] times a by fastforce
      ultimately show ?thesis using event a by simp
    qed
  qed
  then show ?thesis by (simp add: within_limit_def)
qed

theorem daily_limit_holds_witness:
  "map (ee_denied) (economy_log (run_ops reward_step report_run (reward_db\<lparr>oauth_clients := [quiz_client]\<rparr>))) =
     [False, True] \<and>
   credited_in (7 - velocity_window) 7 ''m1'' ''quiz.completed''
     (run_ops reward_step report_run (reward_db\<lparr>oauth_clients := [quiz_client]\<rparr>)) \<le> 1"
proof
  show "map (ee_denied) (economy_log (run_ops reward_step report_run (reward_db\<lparr>oauth_clients := [quiz_client]\<rparr>))) =
     [False, True]"
    by code_simp
  have "find_rule ''quiz.completed'' (reward_db\<lparr>oauth_clients := [quiz_client]\<rparr>) = Some quiz_rule"
    "rw_daily quiz_rule = Some 1" "sorted (map (now \<circ> fst) report_run)"
    by (simp_all add: reward_db_def find_rule_def quiz_rule_def report_run_def demo_env_def)
  then show "credited_in (7 - velocity_window) 7 ''m1'' ''quiz.completed''
     (run_ops reward_step report_run (reward_db\<lparr>oauth_clients := [quiz_client]\<rparr>)) \<le> 1"
    using daily_limit_holds [of "reward_db\<lparr>oauth_clients := [quiz_client]\<rparr>" "''quiz.completed''" quiz_rule 1 report_run]
    by (simp add: reward_db_def demo_db_def empty_db_def)
qed

end
