(* ===== verification/EventFeed.thy ===== *)
theory EventFeed
  imports Rewards
begin

text \<open>
  The feed over the ecosystem event log, \<^verbatim>\<open>EcosystemEventService.listSince\<close>: a consumer that follows
  the cursors until there is none reads every event once and in order, and stops.
\<close>

text \<open>The consumer's loop; the fuel bounds the number of pages it asks for.\<close>

fun read_feed ::
  "nat \<Rightarrow> id option \<Rightarrow> int \<Rightarrow> string option \<Rightarrow> db \<Rightarrow> ecosystem_event list option" where
  "read_feed 0 cursor n kind s = None"
| "read_feed (Suc f) cursor n kind s =
     (case list_since cursor (Some n) kind s of
        Inl _ \<Rightarrow> None
      | Inr (es, None) \<Rightarrow> Some es
      | Inr (es, Some c) \<Rightarrow> map_option ((@) es) (read_feed f (Some c) n kind s))"

lemma event_stream_sorted: "sorted (map event_key (event_stream kind s))"
  by (simp add: event_stream_def)

lemma event_stream_distinct:
  assumes "unique_on ev_id (ecosystem_events s)"
  shows "distinct (map event_key (event_stream kind s))"
proof -
  have "distinct (map ev_id (event_stream kind s))"
    using assms unfolding unique_on_def event_stream_def
    by (simp add: distinct_map inj_on_def)
  then show ?thesis
    by (auto simp: distinct_map inj_on_def event_key_def)
qed

lemma event_stream_mem: "set (event_stream kind s) \<subseteq> set (ecosystem_events s)"
  by (auto simp: event_stream_def)

text \<open>In a strictly sorted list the elements from the m-th key on are the m-th suffix.\<close>

lemma filter_from_nth:
  fixes f :: "'a \<Rightarrow> 'b :: linorder"
  assumes "sorted (map f xs)" and "distinct (map f xs)" and "m < length xs"
  shows "filter (\<lambda>x. f (xs ! m) \<le> f x) xs = drop m xs"
  using assms
proof (induction xs arbitrary: m)
  case (Cons x xs)
  show ?case
  proof (cases m)
    case 0
    with Cons.prems(1) have "filter (\<lambda>y. f x \<le> f y) xs = xs" by (simp add: filter_id_conv)
    with 0 show ?thesis by simp
  next
    case (Suc k)
    with Cons.prems have k: "k < length xs" "f x \<le> f (xs ! k)" "f x \<noteq> f (xs ! k)" by auto
    then have "\<not> f (xs ! k) \<le> f x" by auto
    with Suc Cons k(1) show ?thesis by simp
  qed
qed simp

lemma after_cursor_nth:
  assumes "unique_on ev_id (ecosystem_events s)" and "m < length (event_stream kind s)"
    and "ev_id (event_stream kind s ! m) \<noteq> []"
  shows "after_cursor (Some (ev_id (event_stream kind s ! m))) False (event_stream kind s) s =
           drop (Suc m) (event_stream kind s)"
proof -
  let ?L = "event_stream kind s"
  have "?L ! m \<in> set (ecosystem_events s)"
    using assms(2) event_stream_mem nth_mem by blast
  then have "find_row (\<lambda>e. ev_id e = ev_id (?L ! m)) (ecosystem_events s) = Some (?L ! m)"
    using assms(1) by (intro find_row_unique) (simp_all add: unique_on_def)
  moreover have "filter (\<lambda>e. event_key (?L ! m) \<le> event_key e) ?L = drop m ?L"
    by (rule filter_from_nth [OF event_stream_sorted event_stream_distinct [OF assms(1)] assms(2)])
  ultimately show ?thesis
    using assms(3) by (simp add: after_cursor_def)
qed

lemma read_feed_from:
  assumes "unique_on ev_id (ecosystem_events s)" and "\<forall>e \<in> set (ecosystem_events s). ev_id e \<noteq> []"
    and "0 < n" and "after_cursor cursor False (event_stream kind s) s = drop p (event_stream kind s)"
    and "p \<le> length (event_stream kind s)" and "length (event_stream kind s) - p < f"
  shows "read_feed f cursor n kind s = Some (drop p (event_stream kind s))"
  using assms(4-6)
proof (induction f arbitrary: p cursor)
  case (Suc f)
  let ?L = "event_stream kind s"
  define N where "N = nat (page_size (Some n))"
  have N: "0 < N" "page_size (Some n) = int N"
    using assms(3) by (simp_all add: N_def page_size_def)
  have page: "list_since cursor (Some n) kind s =
      (if N \<le> length ?L - p then ok (take N (drop p ?L), Some (ev_id (last (take N (drop p ?L)))))
       else ok (drop p ?L, None))"
    using N Suc.prems(1) by (auto simp: list_since_def Let_def)
  show ?case
  proof (cases "N \<le> length ?L - p")
    case False
    with page show ?thesis by simp
  next
    case True
    then have m: "p + N - 1 < length ?L" "p + N \<le> length ?L" using N(1) by auto
    have "take N (drop p ?L) \<noteq> []" using True N(1) by auto
    then have last: "last (take N (drop p ?L)) = ?L ! (p + N - 1)"
      using True N(1) by (simp add: last_conv_nth)
    have "?L ! (p + N - 1) \<in> set (ecosystem_events s)"
      using m event_stream_mem nth_mem by blast
    then have "after_cursor (Some (ev_id (last (take N (drop p ?L))))) False ?L s = drop (p + N) ?L"
      unfolding last using after_cursor_nth [OF assms(1) m(1)] assms(2) N(1) by simp
    then have "read_feed f (Some (ev_id (last (take N (drop p ?L))))) n kind s = Some (drop (p + N) ?L)"
      by (rule Suc.IH) (use m Suc.prems N(1) in auto)
    then have "read_feed (Suc f) cursor n kind s = Some (take N (drop p ?L) @ drop (p + N) ?L)"
      using page True by simp
    then show ?thesis
      by (metis add.commute append_take_drop_id drop_drop)
  qed
qed simp

text \<open>
  C19. A consumer of the event feed reads everything once and stops.  With distinct, non-empty ids,
  a consumer that asks for pages of any positive size and follows the cursors gets, after at most
  one request more than there are events, the complete log of the kind asked for, in the order of
  time and id, without a gap or a repetition.
\<close>

theorem feed_is_complete:
  assumes "unique_on ev_id (ecosystem_events s)" and "\<forall>e \<in> set (ecosystem_events s). ev_id e \<noteq> []" and "0 < n"
  shows "\<exists>es. read_feed (Suc (length (ecosystem_events s))) None n kind s = Some es \<and>
           sorted (map event_key es) \<and> distinct (map ev_id es) \<and>
           set es = {e \<in> set (ecosystem_events s). truthy kind \<longrightarrow> ev_type e = the kind}"
proof (intro exI conjI)
  have "length (event_stream kind s) < Suc (length (ecosystem_events s))"
    by (simp add: event_stream_def le_imp_less_Suc)
  moreover have "after_cursor None False (event_stream kind s) s = drop 0 (event_stream kind s)"
    by (simp add: after_cursor_def)
  ultimately show "read_feed (Suc (length (ecosystem_events s))) None n kind s = Some (event_stream kind s)"
    using read_feed_from [OF assms, of None kind 0] by (simp del: read_feed.simps)
  show "sorted (map event_key (event_stream kind s))"
    by (rule event_stream_sorted)
  show "distinct (map ev_id (event_stream kind s))"
    using assms(1) unfolding unique_on_def event_stream_def by (simp add: distinct_map inj_on_def)
  show "set (event_stream kind s) = {e \<in> set (ecosystem_events s). truthy kind \<longrightarrow> ev_type e = the kind}"
    by (auto simp: event_stream_def)
qed

definition feed_event :: "id \<Rightarrow> time \<Rightarrow> ecosystem_event" where
  "feed_event i t = \<lparr>ev_id = i, ev_type = ''quiz.completed'', ev_user = ''m1'', ev_client = None,
     ev_payload = None, ev_source = i, ev_created_at = t\<rparr>"

definition feed_db :: db where
  "feed_db = demo_db\<lparr>ecosystem_events := [feed_event ''c'' 1, feed_event ''b'' 2, feed_event ''a'' 2]\<rparr>"

theorem feed_is_complete_witness:
  "map_option (map ev_id) (read_feed 4 None 2 None feed_db) = Some [''c'', ''a'', ''b''] \<and>
   (\<exists>es. read_feed 4 None 2 None feed_db = Some es \<and> set es = set (ecosystem_events feed_db))"
proof
  show "map_option (map ev_id) (read_feed 4 None 2 None feed_db) = Some [''c'', ''a'', ''b'']"
    by code_simp
  have "unique_on ev_id (ecosystem_events feed_db)" "\<forall>e \<in> set (ecosystem_events feed_db). ev_id e \<noteq> []"
    "length (ecosystem_events feed_db) = 3"
    by (simp_all add: feed_db_def feed_event_def unique_on_def)
  then show "\<exists>es. read_feed 4 None 2 None feed_db = Some es \<and> set es = set (ecosystem_events feed_db)"
    using feed_is_complete [of feed_db 2 None] by (auto simp: numeral_eq_Suc)
qed

text \<open>
  The promise ends at the cursor: an event stored in the same millisecond as the cursor's event,
  with a smaller id, sorts before the cursor and is never read.  And a page of zero events fails.
\<close>

lemma late_event_is_skipped:
  "let s = demo_db\<lparr>ecosystem_events := [feed_event ''b'' 2]\<rparr>;
       s' = s\<lparr>ecosystem_events := ecosystem_events s @ [feed_event ''a'' 2]\<rparr>
   in list_since None (Some 1) None s = ok ([feed_event ''b'' 2], Some ''b'') \<and>
      list_since (Some ''b'') (Some 1) None s' = ok ([], None)"
  by code_simp

lemma empty_page_fails: "\<exists>e. list_since None (Some 0) None feed_db = throw (ServerError e)"
  by (simp add: list_since_def page_size_def after_cursor_def)

end
