(* ===== verification/Economy.thy ===== *)
theory Economy
  imports Rewards
begin

text \<open>
  The paid side: CRYNDY purchases (\<^verbatim>\<open>cryndy/cryndy.service.ts\<close> and its webhook guard), memberships
  and the Stripe webhook (\<^verbatim>\<open>membership/\<close>), the dormant bridge (\<^verbatim>\<open>ndy-economy/\<close>), the transaction
  list (\<^verbatim>\<open>transactions/transactions.service.ts\<close>) and the claims of \<^verbatim>\<open>oauth/userinfo.controller.ts\<close>.
  Amounts are integers in the unit of their column's last decimal place.
\<close>

section \<open>Dates\<close>

text \<open>\<^verbatim>\<open>getUTCFullYear\<close> and \<^verbatim>\<open>getUTCMonth() + 1\<close> of the proleptic Gregorian calendar.\<close>

definition utc_year_month :: "time \<Rightarrow> int \<times> int" where
  "utc_year_month t =
     (let z = t div 86400000 + 719468; era = z div 146097; doe = z mod 146097;
          yoe = (doe - doe div 1460 + doe div 36524 - doe div 146096) div 365;
          doy = doe - (365 * yoe + yoe div 4 - yoe div 100);
          mp = (5 * doy + 2) div 153;
          m = (if mp < 10 then mp + 3 else mp - 9)
      in (yoe + era * 400 + (if m \<le> 2 then 1 else 0), m))"

section \<open>CRYNDY purchases\<close>

definition max_reference_attempts :: nat where
  "max_reference_attempts = 5"

definition spendable_statuses :: "cryndy_status list" where
  "spendable_statuses = [AVAILABLE, DISTRIBUTED_ON_CHAIN]"

definition all_cryndy_statuses :: "cryndy_status list" where
  "all_cryndy_statuses =
     [PAYMENT_PENDING, PAYMENT_CONFIRMED, UNDER_REVIEW, CP_VERIFIED, ALLOCATED, LOCKED, AVAILABLE,
      DISTRIBUTED_ON_CHAIN, CP_CANCELLED, REFUNDED]"

definition purchase_total :: "cryndy_purchase \<Rightarrow> int" where
  "purchase_total p = cp_amount p + cp_bonus p"

record cryndy_summary =
  cy_available :: int
  cy_breakdown :: "(cryndy_status \<times> nat \<times> int) list"
  cy_purchases :: "cryndy_purchase list"

definition cryndy_user_summary :: "id \<Rightarrow> db \<Rightarrow> cryndy_summary" where
  "cryndy_user_summary uid s =
     (let ps = rev (sort_key cp_created_at (filter (\<lambda>p. cp_user p = uid) (purchases s)))
      in \<lparr>cy_available = sum_list (map purchase_total (filter (\<lambda>p. cp_status p \<in> set spendable_statuses) ps)),
          cy_breakdown = map (\<lambda>st. (st, count_rows (\<lambda>p. cp_status p = st) ps,
            sum_list (map purchase_total (filter (\<lambda>p. cp_status p = st) ps)))) all_cryndy_statuses,
          cy_purchases = ps\<rparr>)"

definition generate_purchase_reference :: "env \<Rightarrow> nat \<Rightarrow> string" where
  "generate_purchase_reference E n =
     (let (y, m) = utc_year_month (now E)
      in ''CRY-'' @ string_of_nat (nat y) @ ''-'' @ pad_start 2 CHR ''0'' (string_of_nat (nat m)) @ ''-'' @
         draw E ReferenceDraw n)"

record purchase_dto =
  pd_tx :: string
  pd_ndy_id :: string
  pd_status :: cryndy_status
  pd_paid :: int
  pd_currency :: string
  pd_amount :: int
  pd_bonus :: "int option"
  pd_package :: "string option"
  pd_method :: string

definition new_purchase :: "env \<Rightarrow> nat \<Rightarrow> id \<Rightarrow> purchase_dto \<Rightarrow> cryndy_purchase" where
  "new_purchase E n uid d =
     \<lparr>cp_id = new_id E T_Purchase n, cp_reference = generate_purchase_reference E n, cp_user = uid,
      cp_paid = pd_paid d, cp_currency = pd_currency d, cp_amount = pd_amount d,
      cp_bonus = or_else (pd_bonus d) 0, cp_package = pd_package d, cp_method = pd_method d,
      cp_status = PAYMENT_CONFIRMED, cp_provider_tx = pd_tx d, cp_created_at = now E,
      cp_verified_at = None, cp_allocated_at = None\<rparr>"

definition find_purchase :: "id \<Rightarrow> db \<Rightarrow> cryndy_purchase option" where
  "find_purchase i s = find_row (\<lambda>p. cp_id p = i) (purchases s)"

definition find_by_tx :: "string \<Rightarrow> db \<Rightarrow> cryndy_purchase option" where
  "find_by_tx tx s = find_row (\<lambda>p. cp_provider_tx p = tx) (purchases s)"

text \<open>
  The retry loop, \<open>left\<close> attempts before the end.  A clash on the reference is reported before one
  on the provider's transaction id and is rethrown on the last attempt.
\<close>

fun create_purchase_attempt ::
  "env \<Rightarrow> nat \<Rightarrow> id \<Rightarrow> purchase_dto \<Rightarrow> (db, bool \<times> cryndy_purchase) handler" where
  "create_purchase_attempt E 0 uid d s =
     (throw (Conflict ''Could not allocate a unique purchase reference, please retry.''), s)"
| "create_purchase_attempt E (Suc left) uid d s =
     (let p = new_purchase E (max_reference_attempts - Suc left) uid d
      in if exists_row (\<lambda>x. cp_id x = cp_id p) (purchases s) then (throw unique_violation, s)
         else if exists_row (\<lambda>x. cp_reference x = cp_reference p) (purchases s)
         then (if left = 0 then (throw unique_violation, s) else create_purchase_attempt E left uid d s)
         else case find_by_tx (pd_tx d) s of
           Some x \<Rightarrow> (ok (False, x), s)
         | None \<Rightarrow> (ok (True, p), s\<lparr>purchases := purchases s @ [p]\<rparr>))"

definition create_purchase :: "env \<Rightarrow> id \<Rightarrow> purchase_dto \<Rightarrow> (db, bool \<times> cryndy_purchase) handler" where
  "create_purchase E = create_purchase_attempt E max_reference_attempts"

text \<open>\<^verbatim>\<open>updateMany\<close> from the given statuses, then the row.\<close>

definition transition_purchase ::
  "cryndy_status list \<Rightarrow> (cryndy_purchase \<Rightarrow> cryndy_purchase) \<Rightarrow> string \<Rightarrow> id \<Rightarrow> (db, cryndy_purchase) handler" where
  "transition_purchase from f refusal i s =
     (let P = (\<lambda>p. cp_id p = i \<and> cp_status p \<in> set from);
          s1 = s\<lparr>purchases := update_rows P f (purchases s)\<rparr>
      in if count_rows P (purchases s) = 0 then (throw (Conflict refusal), s)
         else case find_purchase i s1 of
           None \<Rightarrow> (throw (ServerError ''No CryndyPurchase found''), s1)
         | Some p \<Rightarrow> (ok p, s1))"

definition mark_verified :: "env \<Rightarrow> id \<Rightarrow> (db, cryndy_purchase) handler" where
  "mark_verified E =
     transition_purchase [PAYMENT_CONFIRMED, UNDER_REVIEW]
       (\<lambda>p. p\<lparr>cp_status := CP_VERIFIED, cp_verified_at := Some (now E)\<rparr>)
       ''Purchase is not in a state that can be verified.''"

definition allocate :: "env \<Rightarrow> id \<Rightarrow> (db, cryndy_purchase) handler" where
  "allocate E =
     transition_purchase [CP_VERIFIED]
       (\<lambda>p. p\<lparr>cp_status := ALLOCATED, cp_allocated_at := Some (now E)\<rparr>)
       ''Purchase is not in a state that can be allocated.''"

text \<open>The answer is whether the delivery was a duplicate, and the purchase's id.\<close>

definition handle_purchase_webhook :: "env \<Rightarrow> purchase_dto \<Rightarrow> (db, bool \<times> id) handler" where
  "handle_purchase_webhook E d s =
     (case find_row (\<lambda>u. u_ndy_id u = pd_ndy_id d) (users s) of
        None \<Rightarrow> (throw (BadRequest (''Unknown NDY ID: '' @ pd_ndy_id d)), s)
      | Some u \<Rightarrow>
          and_then (create_purchase E (u_id u) d) (\<lambda>(created, p) s1.
            if \<not> created then (ok (True, cp_id p), s1)
            else and_then
              (\<lambda>s1. if pd_status d \<in> {CP_VERIFIED, ALLOCATED} then mark_verified E (cp_id p) s1 else (ok p, s1))
              (\<lambda>p. and_then (\<lambda>s2. if pd_status d = ALLOCATED then allocate E (cp_id p) s2 else (ok p, s2))
                 (\<lambda>p s3. (ok (False, cp_id p), s3))) s1) s)"

text \<open>\<^verbatim>\<open>Buffer.from(t, 'hex')\<close>: pairs of digits up to the first pair that is not one.\<close>

definition hex_digit :: "char \<Rightarrow> nat option" where
  "hex_digit c =
     (if is_digit c then Some (of_char c - 48)
      else if in_range 97 102 c then Some (of_char c - 87)
      else if in_range 65 70 c then Some (of_char c - 55)
      else None)"

fun hex_bytes :: "string \<Rightarrow> nat list" where
  "hex_bytes (a # b # cs) =
     (case (hex_digit a, hex_digit b) of
        (Some x, Some y) \<Rightarrow> (16 * x + y) # hex_bytes cs
      | _ \<Rightarrow> [])"
| "hex_bytes _ = []"

definition cryndy_signature_guard :: "env \<Rightarrow> string option \<Rightarrow> string option \<Rightarrow> unit reply" where
  "cryndy_signature_guard E signature body =
     (case (signature, body) of
        (Some sig, Some b) \<Rightarrow>
          if hex_bytes sig = hex_bytes (hmac_sha256 E (cryndy_secret E) b) then ok ()
          else throw (Unauthorized ''Invalid webhook signature.'')
      | _ \<Rightarrow> throw (Unauthorized ''Missing webhook signature.''))"

definition cryndy_webhook_endpoint ::
  "env \<Rightarrow> string option \<Rightarrow> string option \<Rightarrow> purchase_dto \<Rightarrow> (db, bool \<times> id) handler" where
  "cryndy_webhook_endpoint E signature body d s =
     (case cryndy_signature_guard E signature body of
        Inl e \<Rightarrow> (throw e, s)
      | Inr _ \<Rightarrow> handle_purchase_webhook E d s)"

section \<open>Memberships\<close>

record tier_config =
  tc_label :: string
  tc_monthly :: nat
  tc_annual :: nat
  tc_benefits :: "string list"

fun tier_configs :: "membership_tier \<Rightarrow> tier_config" where
  "tier_configs RISE = \<lparr>tc_label = ''NDY Rise'', tc_monthly = 900, tc_annual = 9000,
     tc_benefits = [''Core NDY HUB access'', ''Standard support'']\<rparr>"
| "tier_configs FLOW = \<lparr>tc_label = ''NDY Flow'', tc_monthly = 1900, tc_annual = 19000,
     tc_benefits = [''Everything in Rise'', ''Priority support'', ''Early feature access'']\<rparr>"
| "tier_configs PULSE = \<lparr>tc_label = ''NDY Pulse'', tc_monthly = 3900, tc_annual = 39000,
     tc_benefits = [''Everything in Flow'', ''Reduced CRYNDY fees'', ''Extended transaction history'']\<rparr>"
| "tier_configs VAULT = \<lparr>tc_label = ''NDY Vault'', tc_monthly = 7900, tc_annual = 79000,
     tc_benefits = [''Everything in Pulse'', ''Higher CRYNDY purchase limits'', ''Dedicated account review'']\<rparr>"
| "tier_configs MODE = \<lparr>tc_label = ''NDY Mode'', tc_monthly = 14900, tc_annual = 149000,
     tc_benefits = [''Everything in Vault'', ''Business-tier verification'', ''API access'']\<rparr>"
| "tier_configs LEGACY = \<lparr>tc_label = ''NDY Legacy'', tc_monthly = 29900, tc_annual = 299000,
     tc_benefits = [''Everything in Mode'', ''White-glove onboarding'', ''Direct line to support'']\<rparr>"

definition price_cents :: "membership_tier \<Rightarrow> billing_cycle \<Rightarrow> nat" where
  "price_cents t c = (if c = ANNUAL then tc_annual (tier_configs t) else tc_monthly (tier_configs t))"

definition add_billing_period :: "time \<Rightarrow> billing_cycle \<Rightarrow> time" where
  "add_billing_period t c = t + days (if c = ANNUAL then 365 else 30)"

record membership_view =
  mb_id :: id
  mb_tier :: membership_tier
  mb_label :: string
  mb_cycle :: billing_cycle
  mb_status :: membership_status
  mb_started_at :: time
  mb_period_end :: time
  mb_cancelled_at :: "time option"

definition serialize_membership :: "membership \<Rightarrow> membership_view" where
  "serialize_membership m =
     \<lparr>mb_id = ms_id m, mb_tier = ms_tier m, mb_label = tc_label (tier_configs (ms_tier m)),
      mb_cycle = ms_cycle m, mb_status = ms_status m, mb_started_at = ms_started_at m,
      mb_period_end = ms_period_end m, mb_cancelled_at = ms_cancelled_at m\<rparr>"

text \<open>The rows are created in the order of \<^verbatim>\<open>createdAt\<close>, which equals \<^verbatim>\<open>startedAt\<close>.\<close>

definition current_and_history :: "id \<Rightarrow> db \<Rightarrow> membership_view option \<times> membership_view list" where
  "current_and_history uid s =
     (let ms = rev (sort_key ms_started_at (filter (\<lambda>m. ms_user m = uid) (memberships s)))
      in (map_option serialize_membership (find_row (\<lambda>m. ms_status m = M_ACTIVE) ms),
          map serialize_membership ms))"

abbreviation update_memberships :: "(membership \<Rightarrow> bool) \<Rightarrow> env \<Rightarrow> db \<Rightarrow> db" where
  "update_memberships P E s \<equiv> s\<lparr>memberships := update_rows (\<lambda>m. P m \<and> ms_status m = M_ACTIVE)
     (\<lambda>m. m\<lparr>ms_status := M_CANCELLED, ms_cancelled_at := Some (now E)\<rparr>) (memberships s)\<rparr>"

definition cancel_active_for_user :: "env \<Rightarrow> id \<Rightarrow> db \<Rightarrow> db" where
  "cancel_active_for_user E uid s = update_memberships (\<lambda>m. ms_user m = uid) E s"

definition new_membership ::
  "env \<Rightarrow> id \<Rightarrow> membership_tier \<Rightarrow> billing_cycle \<Rightarrow> string option \<Rightarrow> string option \<Rightarrow> membership" where
  "new_membership E uid t c sub cust =
     \<lparr>ms_id = new_id E T_Membership 0, ms_user = uid, ms_tier = t, ms_cycle = c,
      ms_status = M_ACTIVE, ms_started_at = now E, ms_period_end = add_billing_period (now E) c,
      ms_cancelled_at = None, ms_subscription = sub, ms_customer = cust\<rparr>"

definition create_membership :: "membership \<Rightarrow> (db, membership) handler" where
  "create_membership m s =
     (if exists_row (\<lambda>x. ms_id x = ms_id m \<or> (ms_subscription m \<noteq> None \<and> ms_subscription x = ms_subscription m))
           (memberships s)
      then (throw unique_violation, s)
      else if find_user (ms_user m) s = None then (throw foreign_key_error, s)
      else (ok m, s\<lparr>memberships := memberships s @ [m]\<rparr>))"

datatype subscribe_result = Checkout string | DevActivated id

definition subscribe ::
  "env \<Rightarrow> id \<Rightarrow> membership_tier \<Rightarrow> billing_cycle \<Rightarrow> (db, subscribe_result) handler" where
  "subscribe E uid t c s =
     (case stripe_checkout E of
        Some session \<Rightarrow>
          (case session uid t c (price_cents t c) of
             None \<Rightarrow> (throw (BadRequest ''Stripe did not return a checkout URL.''), s)
           | Some url \<Rightarrow> (ok (Checkout url), s))
      | None \<Rightarrow>
          and_then (create_membership (new_membership E uid t c None None))
            (\<lambda>m s2. (ok (DevActivated (ms_id m)), s2)) (cancel_active_for_user E uid s))"

definition cancel_membership :: "env \<Rightarrow> id \<Rightarrow> id \<Rightarrow> (db, unit) handler" where
  "cancel_membership E uid mid s =
     (if count_rows (\<lambda>m. (ms_id m = mid \<and> ms_user m = uid) \<and> ms_status m = M_ACTIVE) (memberships s) = 0
      then (throw (NotFound ''No active membership with that id for this user.''), s)
      else (ok (), update_memberships (\<lambda>m. ms_id m = mid \<and> ms_user m = uid) E s))"

section \<open>The Stripe webhook\<close>

definition record_stripe_event_once :: "string \<Rightarrow> db \<Rightarrow> bool \<times> db" where
  "record_stripe_event_once i s =
     (if i \<in> set (stripe_events s) then (False, s)
      else (True, s\<lparr>stripe_events := stripe_events s @ [i]\<rparr>))"

definition verify_webhook_signature :: "env \<Rightarrow> string \<Rightarrow> string \<Rightarrow> stripe_event reply" where
  "verify_webhook_signature E body sig =
     (if stripe_checkout E = None then throw (Conflict ''Stripe is not configured on this server.'')
      else case stripe_verify E body sig of
        None \<Rightarrow> throw (ServerError ''StripeSignatureVerificationError'')
      | Some ev \<Rightarrow> ok ev)"

definition handle_checkout_completed ::
  "env \<Rightarrow> id option \<Rightarrow> membership_tier option \<Rightarrow> billing_cycle option \<Rightarrow> string option \<Rightarrow>
     string option \<Rightarrow> (db, unit) handler" where
  "handle_checkout_completed E uid t c sub cust s =
     (if \<not> truthy uid \<or> t = None \<or> c = None then (ok (), s)
      else and_then (create_membership (new_membership E (the uid) (the t) (the c) sub cust))
             (\<lambda>_ s2. (ok (), s2)) (cancel_active_for_user E (the uid) s))"

definition handle_subscription_deleted :: "env \<Rightarrow> string \<Rightarrow> db \<Rightarrow> db" where
  "handle_subscription_deleted E sub s = update_memberships (\<lambda>m. ms_subscription m = Some sub) E s"

fun stripe_event_id :: "stripe_event \<Rightarrow> string" where
  "stripe_event_id (CheckoutCompleted i _ _ _ _ _) = i"
| "stripe_event_id (SubscriptionDeleted i _) = i"
| "stripe_event_id (OtherStripeEvent i) = i"

fun dispatch_stripe_event :: "env \<Rightarrow> stripe_event \<Rightarrow> (db, unit) handler" where
  "dispatch_stripe_event E (CheckoutCompleted i uid t c sub cust) s =
     handle_checkout_completed E uid t c sub cust s"
| "dispatch_stripe_event E (SubscriptionDeleted i sub) s = (ok (), handle_subscription_deleted E sub s)"
| "dispatch_stripe_event E (OtherStripeEvent i) s = (ok (), s)"

text \<open>The answer says whether the delivery was a duplicate.\<close>

definition process_stripe_event :: "env \<Rightarrow> stripe_event \<Rightarrow> (db, bool) handler" where
  "process_stripe_event E ev s =
     (case record_stripe_event_once (stripe_event_id ev) s of
        (False, s1) \<Rightarrow> (ok True, s1)
      | (True, s1) \<Rightarrow> and_then (dispatch_stripe_event E ev) (\<lambda>_ s2. (ok False, s2)) s1)"

definition stripe_webhook :: "env \<Rightarrow> string option \<Rightarrow> string option \<Rightarrow> (db, bool) handler" where
  "stripe_webhook E signature body s =
     (case (signature, body) of
        (Some sig, Some b) \<Rightarrow>
          (case verify_webhook_signature E b sig of
             Inl e \<Rightarrow> (throw e, s)
           | Inr ev \<Rightarrow> process_stripe_event E ev s)
      | _ \<Rightarrow> (throw (BadRequest ''Missing Stripe signature or raw body.''), s))"

end
