(* ===== verification/Payments.thy ===== *)
theory Payments
  imports Economy
begin

text \<open>
  What the payment webhooks promise: a purchase is recorded once and only moves forward along its
  lifecycle, a Stripe event is handled once, an account never has two active memberships.
\<close>

section \<open>The life of a purchase\<close>

text \<open>The specification: the moves a purchase may make.\<close>

inductive purchase_move :: "cryndy_status \<Rightarrow> cryndy_status \<Rightarrow> bool" where
  verify_confirmed: "purchase_move PAYMENT_CONFIRMED CP_VERIFIED"
| verify_reviewed: "purchase_move UNDER_REVIEW CP_VERIFIED"
| allocate_verified: "purchase_move CP_VERIFIED ALLOCATED"

inductive_cases purchase_moveE: "purchase_move a b"

definition same_purchase :: "cryndy_purchase \<Rightarrow> cryndy_purchase \<Rightarrow> bool" where
  "same_purchase x y =
     (y\<lparr>cp_status := cp_status x, cp_verified_at := cp_verified_at x, cp_allocated_at := cp_allocated_at x\<rparr> = x)"

definition purchase_later :: "cryndy_purchase \<Rightarrow> cryndy_purchase \<Rightarrow> bool" where
  "purchase_later x y = (same_purchase x y \<and> purchase_move\<^sup>*\<^sup>* (cp_status x) (cp_status y))"

lemma same_purchase_iff:
  "same_purchase x y \<longleftrightarrow>
     cp_id y = cp_id x \<and> cp_reference y = cp_reference x \<and> cp_user y = cp_user x \<and>
     cp_paid y = cp_paid x \<and> cp_currency y = cp_currency x \<and> cp_amount y = cp_amount x \<and>
     cp_bonus y = cp_bonus x \<and> cp_package y = cp_package x \<and> cp_method y = cp_method x \<and>
     cp_provider_tx y = cp_provider_tx x \<and> cp_created_at y = cp_created_at x"
  by (cases x; cases y) (auto simp: same_purchase_def)

interpretation purchase_history: row_history purchase_later
  by unfold_locales (auto simp: purchase_later_def same_purchase_iff)

definition purchases_advance :: "db \<Rightarrow> db \<Rightarrow> bool" where
  "purchases_advance s s' = rows_advance purchase_later (purchases s) (purchases s')"

lemma purchases_advance_refl [simp]: "purchases_advance s s"
  by (simp add: purchases_advance_def)

lemma purchases_advance_trans:
  "purchases_advance s1 s2 \<Longrightarrow> purchases_advance s2 s3 \<Longrightarrow> purchases_advance s1 s3"
  unfolding purchases_advance_def by (rule purchase_history.advance_trans)

lemma lifecycle_moves [simp]:
  "purchase_move\<^sup>*\<^sup>* PAYMENT_CONFIRMED CP_VERIFIED" "purchase_move\<^sup>*\<^sup>* UNDER_REVIEW CP_VERIFIED"
  "purchase_move\<^sup>*\<^sup>* CP_VERIFIED ALLOCATED"
  by (simp_all add: r_into_rtranclp purchase_move.intros)

text \<open>Same rows, moved along.\<close>

definition purchases_moved :: "db \<Rightarrow> db \<Rightarrow> bool" where
  "purchases_moved s s' = (purchases_advance s s' \<and> length (purchases s') = length (purchases s))"

lemma purchases_moved_refl [simp]: "purchases_moved s s"
  by (simp add: purchases_moved_def)

lemma and_then_moved:
  assumes "purchases_moved s (snd (h s))" and "\<And>x s1. purchases_moved s1 (snd (k x s1))"
  shows "purchases_moved s (snd (and_then h k s))"
proof (cases "h s")
  case (Pair r s1)
  show ?thesis
  proof (cases r)
    case (Inr x)
    with Pair assms(1) assms(2) [of s1 x] show ?thesis
      by (auto simp: purchases_moved_def intro: purchases_advance_trans)
  qed (use Pair assms(1) in simp)
qed

lemma transition_advance:
  assumes "\<And>p. cp_status p \<in> set from \<Longrightarrow> purchase_later p (f p)"
  shows "purchases_moved s (snd (transition_purchase from f m i s))"
proof -
  have "rows_advance purchase_later (purchases s)
      (update_rows (\<lambda>p. cp_id p = i \<and> cp_status p \<in> set from) f (purchases s))"
    by (rule purchase_history.advance_update) (simp add: assms)
  then show ?thesis
    by (auto simp: transition_purchase_def Let_def purchases_moved_def purchases_advance_def
        split: option.splits)
qed

lemma mark_verified_moved: "purchases_moved s (snd (mark_verified E i s))"
  unfolding mark_verified_def
  by (rule transition_advance)
    (auto simp: purchase_later_def same_purchase_iff)

lemma allocate_moved: "purchases_moved s (snd (allocate E i s))"
  unfolding allocate_def
  by (rule transition_advance)
    (auto simp: purchase_later_def same_purchase_iff)

text \<open>Creation appends a confirmed purchase for the transaction, or finds the one there is.\<close>

definition made_purchase :: "id \<Rightarrow> purchase_dto \<Rightarrow> db \<Rightarrow> cryndy_purchase \<Rightarrow> bool" where
  "made_purchase uid d s p =
     (find_by_tx (pd_tx d) s = None \<and> cp_provider_tx p = pd_tx d \<and> cp_status p = PAYMENT_CONFIRMED \<and>
      cp_user p = uid \<and> cp_amount p = pd_amount d \<and> (\<forall>x \<in> set (purchases s). cp_id x \<noteq> cp_id p))"

lemma create_purchase_cases:
  "(\<exists>e. create_purchase_attempt E n uid d s = (Inl e, s)) \<or>
   (\<exists>p. create_purchase_attempt E n uid d s = (Inr (False, p), s) \<and> find_by_tx (pd_tx d) s = Some p) \<or>
   (\<exists>p. create_purchase_attempt E n uid d s = (Inr (True, p), s\<lparr>purchases := purchases s @ [p]\<rparr>) \<and>
      made_purchase uid d s p)"
proof (induction E n uid d s rule: create_purchase_attempt.induct)
  case (2 E left uid d s)
  let ?p = "new_purchase E (max_reference_attempts - Suc left) uid d"
  consider (pk) "exists_row (\<lambda>x. cp_id x = cp_id ?p) (purchases s)"
    | (clash) "\<not> exists_row (\<lambda>x. cp_id x = cp_id ?p) (purchases s)"
        "exists_row (\<lambda>x. cp_reference x = cp_reference ?p) (purchases s)"
    | (free) "\<not> exists_row (\<lambda>x. cp_id x = cp_id ?p) (purchases s)"
        "\<not> exists_row (\<lambda>x. cp_reference x = cp_reference ?p) (purchases s)"
    by blast
  then show ?case
  proof cases
    case pk
    then have "create_purchase_attempt E (Suc left) uid d s = (throw unique_violation, s)"
      by (subst create_purchase_attempt.simps) (simp add: Let_def del: exists_row_iff create_purchase_attempt.simps)
    then show ?thesis by blast
  next
    case clash
    show ?thesis
    proof (cases "left = 0")
      case True
      then have "create_purchase_attempt E (Suc left) uid d s = (throw unique_violation, s)"
        using clash by (subst create_purchase_attempt.simps) (simp add: Let_def del: exists_row_iff create_purchase_attempt.simps)
      then show ?thesis by blast
    next
      case False
      then have "create_purchase_attempt E (Suc left) uid d s = create_purchase_attempt E left uid d s"
        using clash by (subst create_purchase_attempt.simps) (simp add: Let_def del: exists_row_iff create_purchase_attempt.simps)
      with 2 [OF refl clash(1,2) False] show ?thesis by (simp only:)
    qed
  next
    case free
    then have run: "create_purchase_attempt E (Suc left) uid d s =
        (case find_by_tx (pd_tx d) s of Some x \<Rightarrow> (ok (False, x), s)
         | None \<Rightarrow> (ok (True, ?p), s\<lparr>purchases := purchases s @ [?p]\<rparr>))"
      by (subst create_purchase_attempt.simps) (simp add: Let_def del: exists_row_iff create_purchase_attempt.simps)
    show ?thesis
    proof (cases "find_by_tx (pd_tx d) s")
      case None
      with free have "made_purchase uid d s ?p"
        by (simp add: made_purchase_def new_purchase_def)
      with run None show ?thesis by simp
    next
      case (Some x)
      with run show ?thesis by simp
    qed
  qed
qed simp

text \<open>What a delivery leaves behind, and what it answers.\<close>

lemma handle_purchase_webhook_cases:
  obtains (same) "snd (handle_purchase_webhook E d s) = s"
      "accepted_reply (fst (handle_purchase_webhook E d s)) \<longrightarrow> find_by_tx (pd_tx d) s \<noteq> None"
  | (made) uid p where "made_purchase uid d s p"
      "purchases_advance (s\<lparr>purchases := purchases s @ [p]\<rparr>) (snd (handle_purchase_webhook E d s))"
      "length (purchases (snd (handle_purchase_webhook E d s))) = Suc (length (purchases s))"
proof (cases "find_row (\<lambda>u. u_ndy_id u = pd_ndy_id d) (users s)")
  case None
  then show thesis by (intro same) (simp_all add: handle_purchase_webhook_def)
next
  case (Some u)
  let ?rest = "\<lambda>p. and_then
      (\<lambda>s1. if pd_status d \<in> {CP_VERIFIED, ALLOCATED} then mark_verified E (cp_id p) s1 else (ok p, s1))
      (\<lambda>p. and_then (\<lambda>s2. if pd_status d = ALLOCATED then allocate E (cp_id p) s2 else (ok p, s2))
         (\<lambda>p s3. (ok (False, cp_id p), s3)))"
  have rest: "purchases_moved s1 (snd (?rest p s1))" for p s1
  proof (rule and_then_moved)
    show "purchases_moved s1 (snd (if pd_status d \<in> {CP_VERIFIED, ALLOCATED} then mark_verified E (cp_id p) s1 else (ok p, s1)))"
      by (simp add: mark_verified_moved)
    show "purchases_moved s2 (snd (and_then
        (\<lambda>s2. if pd_status d = ALLOCATED then allocate E (cp_id p) s2 else (ok p, s2))
        (\<lambda>p s3. (ok (False, cp_id p), s3)) s2))" for p s2
      by (rule and_then_moved) (simp_all add: allocate_moved)
  qed
  consider (error) e where "create_purchase E (u_id u) d s = (Inl e, s)"
    | (found) p where "create_purchase E (u_id u) d s = (Inr (False, p), s)" "find_by_tx (pd_tx d) s = Some p"
    | (fresh) p where "create_purchase E (u_id u) d s = (Inr (True, p), s\<lparr>purchases := purchases s @ [p]\<rparr>)"
        "made_purchase (u_id u) d s p"
    using create_purchase_cases [of E max_reference_attempts "u_id u" d s] unfolding create_purchase_def by blast
  then show thesis
  proof cases
    case error
    with Some show thesis by (intro same) (simp_all add: handle_purchase_webhook_def)
  next
    case found
    with Some show thesis by (intro same) (simp_all add: handle_purchase_webhook_def)
  next
    case (fresh p)
    let ?s1 = "s\<lparr>purchases := purchases s @ [p]\<rparr>"
    have "handle_purchase_webhook E d s = ?rest p ?s1"
      using Some fresh(1) by (simp add: handle_purchase_webhook_def)
    then have "purchases_moved ?s1 (snd (handle_purchase_webhook E d s))"
      using rest [of ?s1 p] by simp
    then show thesis
      by (intro made [OF fresh(2)]) (simp_all add: purchases_moved_def)
  qed
qed

text \<open>Deliveries are the only operations on purchases.\<close>

fun purchase_step :: "env \<times> string option \<times> string option \<times> purchase_dto \<Rightarrow> (db, bool \<times> id) handler" where
  "purchase_step (E, sig, body, d) s = cryndy_webhook_endpoint E sig body d s"

lemma purchase_step_cases:
  obtains (same) "snd (purchase_step (E, sig, body, d) s) = s"
      "accepted_reply (fst (purchase_step (E, sig, body, d) s)) \<longrightarrow> find_by_tx (pd_tx d) s \<noteq> None"
  | (made) uid p where "made_purchase uid d s p"
      "purchases_advance (s\<lparr>purchases := purchases s @ [p]\<rparr>) (snd (purchase_step (E, sig, body, d) s))"
      "length (purchases (snd (purchase_step (E, sig, body, d) s))) = Suc (length (purchases s))"
proof (cases "cryndy_signature_guard E sig body")
  case (Inl e)
  then show thesis by (intro same) (simp_all add: cryndy_webhook_endpoint_def)
next
  case (Inr x)
  then have "purchase_step (E, sig, body, d) s = handle_purchase_webhook E d s"
    by (simp add: cryndy_webhook_endpoint_def)
  then show thesis
    using same made by (cases rule: handle_purchase_webhook_cases [of E d s]) simp_all
qed

lemma advance_extended:
  "purchases_advance (s\<lparr>purchases := purchases s @ [p]\<rparr>) s' \<Longrightarrow> purchases_advance s s'"
  unfolding purchases_advance_def
  by (rule purchase_history.advance_trans [OF purchase_history.advance_append]) simp

lemma advance_find_tx:
  assumes "purchases_advance s s'" and "find_by_tx tx s = Some x"
  shows "\<exists>y. find_by_tx tx s' = Some y \<and> purchase_later x y"
  using assms unfolding purchases_advance_def find_by_tx_def
  by (rule purchase_history.advance_find) (simp add: purchase_later_def same_purchase_iff)

interpretation purchase_intake:
  idempotent_intake purchase_step "\<lambda>_. True" "\<lambda>(E, sig, body, d). Some (pd_tx d)"
    "\<lambda>tx s. find_by_tx tx s \<noteq> None" accepted_reply
proof (unfold_locales, goal_cases)
  case (1 s a)
  then show ?case by simp
next
  case (2 s a k)
  obtain E sig body d where a: "a = (E, sig, body, d)" by (cases a)
  show ?case
  proof (cases rule: purchase_step_cases [of E sig body d s])
    case same
    with 2 a show ?thesis by auto
  next
    case (made uid p)
    have "find_by_tx (pd_tx d) (s\<lparr>purchases := purchases s @ [p]\<rparr>) = Some p"
      using made(1) by (simp add: made_purchase_def find_by_tx_def find_row_append)
    with 2(2) a made(2) show ?thesis
      by (auto dest: advance_find_tx)
  qed
next
  case (3 s a k)
  obtain E sig body d where a: "a = (E, sig, body, d)" by (cases a)
  show ?case
    by (cases rule: purchase_step_cases [of E sig body d s]) (use 3 a in \<open>auto simp: made_purchase_def\<close>)
next
  case (4 s k a)
  obtain E sig body d where a: "a = (E, sig, body, d)" by (cases a)
  show ?case
    by (cases rule: purchase_step_cases [of E sig body d s])
      (use 4 a in \<open>auto dest: advance_extended advance_find_tx\<close>)
qed


section \<open>The lifecycle, refined by every run of deliveries\<close>

text \<open>Rows there before keep their place and move along; new rows have moved on from confirmation.\<close>

definition lifecycle_ok :: "db \<Rightarrow> db \<Rightarrow> bool" where
  "lifecycle_ok s s' =
     (purchases_advance s s' \<and>
      (\<forall>p \<in> set (drop (length (purchases s)) (purchases s')).
         purchase_move\<^sup>*\<^sup>* PAYMENT_CONFIRMED (cp_status p)))"

lemma advance_nth:
  "purchases_advance s s' \<Longrightarrow> i < length (purchases s) \<Longrightarrow>
     i < length (purchases s') \<and> purchase_later (purchases s ! i) (purchases s' ! i)"
  by (auto simp: purchases_advance_def purchase_history.advance_iff_nth)

lemma lifecycle_nth:
  "lifecycle_ok s s' \<longleftrightarrow> purchases_advance s s' \<and>
     (\<forall>i. length (purchases s) \<le> i \<and> i < length (purchases s') \<longrightarrow>
        purchase_move\<^sup>*\<^sup>* PAYMENT_CONFIRMED (cp_status (purchases s' ! i)))"
proof -
  have "set (drop n xs) = {xs ! i |i. n \<le> i \<and> i < length xs}" for n and xs :: "cryndy_purchase list"
    by (auto simp: set_conv_nth) (metis add.commute le_add2 le_add_diff_inverse less_diff_conv
        add_diff_cancel_left' diff_less_mono)+
  then show ?thesis by (auto simp: lifecycle_ok_def)
qed

lemma lifecycle_trans: "lifecycle_ok s1 s2 \<Longrightarrow> lifecycle_ok s2 s3 \<Longrightarrow> lifecycle_ok s1 s3"
  unfolding lifecycle_nth
  by (auto intro: purchases_advance_trans)
    (metis advance_nth not_le purchase_later_def rtranclp_trans)

lemma purchase_step_lifecycle: "lifecycle_ok s (snd (purchase_step a s))"
proof -
  obtain E sig body d where a: "a = (E, sig, body, d)" by (cases a)
  show ?thesis
  proof (cases rule: purchase_step_cases [of E sig body d s])
    case same
    then show ?thesis by (simp add: a lifecycle_ok_def)
  next
    case (made uid p)
    have "purchase_later p (purchases (snd (purchase_step a s)) ! length (purchases s))"
      using advance_nth [OF made(2), of "length (purchases s)"] by (simp add: a)
    moreover have "cp_status p = PAYMENT_CONFIRMED"
      using made(1) by (simp add: made_purchase_def)
    ultimately show ?thesis
      using made advance_extended [OF made(2)]
      by (auto simp: a lifecycle_nth purchase_later_def le_less_Suc_eq)
  qed
qed

lemma run_lifecycle: "lifecycle_ok s (run_ops purchase_step as s)"
proof (induction as arbitrary: s)
  case (Cons a as)
  show ?case
    using lifecycle_trans [OF purchase_step_lifecycle Cons.IH] by simp
qed (simp add: lifecycle_ok_def)

lemma reached_from_confirmed:
  assumes "purchase_move\<^sup>*\<^sup>* PAYMENT_CONFIRMED st"
  shows "st \<in> {PAYMENT_CONFIRMED, CP_VERIFIED, ALLOCATED}"
  using assms by (induction rule: rtranclp_induct) (auto elim: purchase_moveE)

text \<open>
  C20. Every run of presale deliveries refines the purchase lifecycle: the purchases there before
  keep their place, their buyer, their amounts and the provider's transaction, and their status
  moves only along confirmed (or under review), verified, allocated; a purchase recorded in the
  run has moved along the same way from confirmation.
\<close>

theorem purchase_lifecycle: "lifecycle_ok s (run_ops purchase_step deliveries s)"
  by (rule run_lifecycle)

text \<open>
  A delivery the webhook accepted is recorded for good: whatever is delivered in between, a
  further delivery for the same provider transaction, whatever it reports, changes nothing.
\<close>

theorem purchase_recorded_once:
  assumes "accepted_reply (fst (purchase_step (E, sig, body, d) s))" and "pd_tx d' = pd_tx d"
  shows "snd (purchase_step (E', sig', body', d')
      (run_ops purchase_step as (snd (purchase_step (E, sig, body, d) s)))) =
    run_ops purchase_step as (snd (purchase_step (E, sig, body, d) s))"
  using purchase_intake.late_redelivery
    [where k = "pd_tx d" and a = "(E, sig, body, d)" and b = "(E', sig', body', d')"] assms
  by simp

text \<open>No delivery ever makes a purchase spendable.\<close>

lemma nothing_spendable:
  assumes "purchases s = []"
  shows "cy_available (cryndy_user_summary uid (run_ops purchase_step as s)) = 0"
proof -
  let ?s = "run_ops purchase_step as s"
  have "cp_status p \<in> {PAYMENT_CONFIRMED, CP_VERIFIED, ALLOCATED}" if "p \<in> set (purchases ?s)" for p
    using run_lifecycle [of s as] that assms reached_from_confirmed by (auto simp: lifecycle_ok_def)
  then have "filter (\<lambda>p. cp_status p \<in> set spendable_statuses)
      (rev (sort_key cp_created_at (filter (\<lambda>p. cp_user p = uid) (purchases ?s)))) = []"
    by (intro filter_all_False) (fastforce simp: spendable_statuses_def)
  then show ?thesis by (simp add: cryndy_user_summary_def Let_def)
qed


section \<open>Memberships and the Stripe webhook\<close>

datatype membership_op =
    Subscribe id membership_tier billing_cycle
  | CancelMembership id id
  | StripeDelivery "string option" "string option"

fun membership_step :: "env \<times> membership_op \<Rightarrow> db \<Rightarrow> bool \<times> db" where
  "membership_step (E, Subscribe uid t c) s = answered (subscribe E uid t c s)"
| "membership_step (E, CancelMembership uid i) s = answered (cancel_membership E uid i s)"
| "membership_step (E, StripeDelivery sig body) s = answered (stripe_webhook E sig body s)"

text \<open>An account has at most one active membership.\<close>

definition active_for :: "id \<Rightarrow> membership \<Rightarrow> bool" where
  "active_for uid m = (ms_user m = uid \<and> ms_status m = M_ACTIVE)"

definition one_active :: "db \<Rightarrow> bool" where
  "one_active s = (\<forall>uid. count_rows (active_for uid) (memberships s) \<le> 1)"

lemma one_active_cong: "memberships s' = memberships s \<Longrightarrow> one_active s' = one_active s"
  by (simp add: one_active_def)

lemma one_active_update:
  assumes "one_active s"
  shows "one_active (s\<lparr>memberships := update_rows P
    (\<lambda>m. m\<lparr>ms_status := M_CANCELLED, ms_cancelled_at := t\<rparr>) (memberships s)\<rparr>)"
proof -
  have "count_rows (active_for u) (update_rows P
      (\<lambda>m. m\<lparr>ms_status := M_CANCELLED, ms_cancelled_at := t\<rparr>) (memberships s)) \<le>
    count_rows (active_for u) (memberships s)" for u
    by (rule count_rows_update_le) (simp add: active_for_def)
  with assms show ?thesis
    by (simp add: one_active_def) (meson order_trans)
qed

lemma cancelled_none_active [simp]:
  "count_rows (active_for uid) (memberships (cancel_active_for_user E uid s)) = 0"
  by (simp add: cancel_active_for_user_def count_rows_0_iff active_for_def)

lemma create_membership_result:
  "(\<exists>e. create_membership m s = (Inl e, s)) \<or>
   create_membership m s = (Inr m, s\<lparr>memberships := memberships s @ [m]\<rparr>)"
  by (simp add: create_membership_def)

lemma create_membership_one_active:
  assumes "one_active s" and "count_rows (active_for (ms_user m)) (memberships s) = 0"
  shows "one_active (snd (create_membership m s))"
proof -
  have "count_rows (active_for u) (memberships s @ [m]) \<le> 1" for u
    using assms by (cases "u = ms_user m") (auto simp: one_active_def active_for_def)
  then show ?thesis
    using assms(1) create_membership_result [of m s]
    by (elim disjE) (simp_all add: one_active_def prod_eq_iff)
qed

text \<open>Activation, of \<^verbatim>\<open>subscribe\<close> and of the webhook alike: the old ones end, a new one starts.\<close>

lemma activate_one_active:
  assumes "one_active s"
  shows "one_active (snd (create_membership (new_membership E uid t c sub cust)
    (cancel_active_for_user E uid s)))"
proof (rule create_membership_one_active)
  show "one_active (cancel_active_for_user E uid s)"
    unfolding cancel_active_for_user_def by (rule one_active_update [OF assms])
qed (simp add: new_membership_def)

lemma membership_step_one_active:
  assumes "one_active s"
  shows "one_active (snd (membership_step a s))"
proof -
  obtain E op where a: "a = (E, op)" by (cases a)
  show ?thesis
  proof (cases op)
    case (Subscribe uid t c)
    with assms show ?thesis
      by (auto simp: a subscribe_def activate_one_active split: option.splits)
  next
    case (CancelMembership uid i)
    with assms show ?thesis
      by (auto simp: a cancel_membership_def one_active_update)
  next
    case (StripeDelivery sig body)
    have handled: "one_active (snd (dispatch_stripe_event E ev s1))" if "one_active s1" for ev s1
      using that
      by (cases ev) (simp_all add: handle_checkout_completed_def handle_subscription_deleted_def
          activate_one_active one_active_update)
    have "one_active (snd (process_stripe_event E ev s))" for ev
    proof -
      have "one_active (s\<lparr>stripe_events := stripe_events s @ [stripe_event_id ev]\<rparr>)"
        using assms by (simp add: one_active_def)
      from handled [OF this] assms show ?thesis
        by (simp add: process_stripe_event_def record_stripe_event_once_def)
    qed
    with StripeDelivery assms show ?thesis
      by (auto simp: a stripe_webhook_def split: option.splits sum.splits)
  qed
qed

fun delivered_event :: "env \<times> membership_op \<Rightarrow> string option" where
  "delivered_event (E, StripeDelivery (Some sig) (Some body)) =
     (case verify_webhook_signature E body sig of Inl _ \<Rightarrow> None | Inr ev \<Rightarrow> Some (stripe_event_id ev))"
| "delivered_event _ = None"

lemma delivered_eventD:
  assumes "delivered_event (E, op) = Some k"
  shows "\<exists>sig body ev. op = StripeDelivery (Some sig) (Some body) \<and> stripe_event_id ev = k \<and>
    stripe_webhook E (Some sig) (Some body) = process_stripe_event E ev"
  using assms
  by (cases "(E, op)" rule: delivered_event.cases)
    (auto simp: stripe_webhook_def fun_eq_iff split: sum.splits)

lemma dispatch_events [simp]:
  "stripe_events (snd (dispatch_stripe_event E ev s)) = stripe_events s"
proof -
  have "stripe_events (snd (create_membership m s1)) = stripe_events s1" for m s1
    by (simp add: create_membership_def)
  then show ?thesis
    by (cases ev) (simp_all add: handle_checkout_completed_def handle_subscription_deleted_def
        cancel_active_for_user_def)
qed

interpretation stripe_intake:
  idempotent_intake membership_step one_active delivered_event "\<lambda>i s. i \<in> set (stripe_events s)" "\<lambda>_. True"
proof (unfold_locales, goal_cases)
  case (1 s a)
  then show ?case by (rule membership_step_one_active)
next
  case (2 s a k)
  then obtain E sig body ev where "a = (E, StripeDelivery (Some sig) (Some body))"
      "stripe_event_id ev = k" "stripe_webhook E (Some sig) (Some body) = process_stripe_event E ev"
    using delivered_eventD by (metis prod.collapse)
  then show ?case
    by (auto simp: process_stripe_event_def record_stripe_event_once_def)
next
  case (3 s a k)
  then obtain E sig body ev where "a = (E, StripeDelivery (Some sig) (Some body))"
      "stripe_event_id ev = k" "stripe_webhook E (Some sig) (Some body) = process_stripe_event E ev"
    using delivered_eventD by (metis prod.collapse)
  with 3 show ?case
    by (auto simp: process_stripe_event_def record_stripe_event_once_def)
next
  case (4 s k a)
  obtain E op where a: "a = (E, op)" by (cases a)
  have plain: "stripe_events (snd (subscribe E uid t c s)) = stripe_events s"
      "stripe_events (snd (cancel_membership E uid i s)) = stripe_events s" for uid t c i
    by (auto simp: subscribe_def cancel_membership_def create_membership_def cancel_active_for_user_def
        split: option.splits)
  with 4 show ?case
    by (cases op)
      (auto simp: a stripe_webhook_def process_stripe_event_def record_stripe_event_once_def
        split: option.splits sum.splits)
qed


text \<open>
  C21. Whatever memberships are bought, cancelled or reported by Stripe, in whatever order and with
  whatever failures, no account ever holds two active memberships.
\<close>

theorem one_active_membership:
  assumes "one_active s"
  shows "one_active (run_ops membership_step ops s)"
  by (rule stripe_intake.run_inv [OF assms])

theorem one_active_membership_witness:
  "one_active (run_ops membership_step
     [(demo_env 1, Subscribe ''m1'' RISE MONTHLY), (demo_env 2, Subscribe ''m1'' VAULT ANNUAL)] demo_db)"
  by (rule one_active_membership) (simp add: one_active_def demo_db_def empty_db_def)

text \<open>
  A genuine Stripe event is acted on once: whatever happens in between, delivering an event
  with the same id again changes nothing.
\<close>

theorem stripe_event_handled_once:
  assumes "one_active s"
    and "delivered_event a = Some k" and "delivered_event b = Some k"
  shows "snd (membership_step b (run_ops membership_step ops (snd (membership_step a s)))) =
    run_ops membership_step ops (snd (membership_step a s))"
  using stripe_intake.late_redelivery [where k = k, OF assms(1,2) TrueI assms(3)] .

definition stripe_env :: "time \<Rightarrow> env" where
  "stripe_env t = (demo_env t)\<lparr>
     stripe_checkout := Some (\<lambda>_ _ _ _. Some ''https://pay.example''),
     stripe_verify := (\<lambda>b g. if g = ''sig'' then
       Some (CheckoutCompleted b (Some ''m1'') (Some FLOW) (Some MONTHLY) (Some ''sub1'') None) else None)\<rparr>"

theorem stripe_event_handled_once_witness:
  "let a = (stripe_env 5, StripeDelivery (Some ''sig'') (Some ''evt1''));
       s1 = snd (membership_step a demo_db);
       s2 = run_ops membership_step [(stripe_env 6, CancelMembership ''m1'' ''id0'')] s1
   in map ms_status (memberships s1) = [M_ACTIVE] \<and> map ms_status (memberships s2) = [M_CANCELLED] \<and>
      snd (membership_step a s2) = s2"
proof -
  let ?a = "(stripe_env 5, StripeDelivery (Some ''sig'') (Some ''evt1''))"
  have "one_active demo_db" by (simp add: one_active_def demo_db_def empty_db_def)
  moreover have "delivered_event ?a = Some ''evt1''" by code_simp
  moreover have "map ms_status (memberships (snd (membership_step ?a demo_db))) = [M_ACTIVE]"
    "map ms_status (memberships (run_ops membership_step [(stripe_env 6, CancelMembership ''m1'' ''id0'')]
      (snd (membership_step ?a demo_db)))) = [M_CANCELLED]"
    by code_simp+
  ultimately show ?thesis
    using stripe_event_handled_once [of demo_db ?a "''evt1''" ?a
        "[(stripe_env 6, CancelMembership ''m1'' ''id0'')]"]
    by (simp add: Let_def)
qed

definition presale_env :: "time \<Rightarrow> env" where
  "presale_env t = (demo_env t)\<lparr>hmac_sha256 := (\<lambda>_ b. b)\<rparr>"

theorem purchase_recorded_once_witness:
  "let d = \<lparr>pd_tx = ''tx1'', pd_ndy_id = ''NDY-MBR-AAAAA4'', pd_status = ALLOCATED, pd_paid = 100,
         pd_currency = ''EUR'', pd_amount = 500, pd_bonus = None, pd_package = None, pd_method = ''card''\<rparr>;
       s1 = snd (purchase_step (presale_env 5, Some ''0aff'', Some ''0AFF'', d) (demo_db));
       deliver_again = purchase_step (presale_env 9, Some ''0aff'', Some ''0AFF'', d\<lparr>pd_amount := 900\<rparr>)
   in cryndy_signature_guard (presale_env 5) (Some ''0aff'') (Some ''0AFF'') = ok () \<and>
      map cp_status (purchases s1) = [ALLOCATED] \<and> snd (deliver_again s1) = s1"
proof -
  let ?d = "\<lparr>pd_tx = ''tx1'', pd_ndy_id = ''NDY-MBR-AAAAA4'', pd_status = ALLOCATED, pd_paid = 100,
         pd_currency = ''EUR'', pd_amount = 500, pd_bonus = None, pd_package = None, pd_method = ''card''\<rparr>"
  have "accepted_reply (fst (purchase_step (presale_env 5, Some ''0aff'', Some ''0AFF'', ?d) demo_db))"
    "cryndy_signature_guard (presale_env 5) (Some ''0aff'') (Some ''0AFF'') = ok ()"
    "map cp_status (purchases (snd (purchase_step (presale_env 5, Some ''0aff'', Some ''0AFF'', ?d) demo_db))) = [ALLOCATED]"
    by code_simp+
  then show ?thesis
    using purchase_recorded_once [of "presale_env 5" "Some ''0aff''" "Some ''0AFF''" ?d demo_db
        "?d\<lparr>pd_amount := 900\<rparr>" "presale_env 9" "Some ''0aff''" "Some ''0AFF''" "[]"]
    by (simp add: Let_def)
qed


text \<open>What a completed checkout gives the buyer: the membership paid for, and only that one.\<close>

lemma current_membership:
  assumes "m \<in> set (memberships s)" and "active_for uid m"
    and "\<And>x. x \<in> set (memberships s) \<Longrightarrow> active_for uid x \<Longrightarrow> x = m"
  shows "fst (current_and_history uid s) = Some (serialize_membership m)"
proof -
  let ?ms = "rev (sort_key ms_started_at (filter (\<lambda>m. ms_user m = uid) (memberships s)))"
  have "find_row (\<lambda>m. ms_status m = M_ACTIVE) ?ms \<noteq> None"
    using assms(1,2) by (auto simp: find_row_None_iff active_for_def)
  then obtain x where x: "find_row (\<lambda>m. ms_status m = M_ACTIVE) ?ms = Some x" by blast
  then have "x \<in> set (memberships s) \<and> active_for uid x"
    using find_row_Some_D [OF x] by (simp add: active_for_def)
  with assms(3) [of x] x show ?thesis by (simp add: current_and_history_def Let_def)
qed

text \<open>
  When Stripe reports a completed checkout and the report is acted on, the buyer's current
  membership is the tier and billing cycle paid for, running 30 or 365 days from now, and every
  membership of everyone else is as it was.
\<close>

theorem checkout_activates:
  assumes "process_stripe_event E (CheckoutCompleted ev (Some uid) (Some t) (Some c) sub cust) s = (Inr False, s')"
    and "uid \<noteq> []"
  shows "fst (current_and_history uid s') =
           Some (serialize_membership (new_membership E uid t c sub cust)) \<and>
         ms_period_end (new_membership E uid t c sub cust) = now E + days (if c = ANNUAL then 365 else 30) \<and>
         filter (\<lambda>m. ms_user m \<noteq> uid) (memberships s') = filter (\<lambda>m. ms_user m \<noteq> uid) (memberships s)"
proof -
  let ?m = "new_membership E uid t c sub cust"
  let ?s0 = "s\<lparr>stripe_events := stripe_events s @ [ev]\<rparr>"
  have first: "ev \<notin> set (stripe_events s)"
    using assms(1) by (auto simp: process_stripe_event_def record_stripe_event_once_def)
  have run: "(Inr False, s') = and_then (create_membership ?m) (\<lambda>_ s2. (Inr False, s2))
      (cancel_active_for_user E uid ?s0)"
    using assms first by (simp add: process_stripe_event_def record_stripe_event_once_def
        handle_checkout_completed_def and_then_def split: sum.splits prod.splits)
  have rows: "memberships s' = memberships (cancel_active_for_user E uid ?s0) @ [?m]"
    using create_membership_result [of ?m "cancel_active_for_user E uid ?s0"] run
    by (elim disjE exE) simp_all
  have gone: "\<not> active_for uid x" if "x \<in> set (memberships (cancel_active_for_user E uid ?s0))" for x
    using cancelled_none_active that unfolding count_rows_0_iff by blast
  have "fst (current_and_history uid s') = Some (serialize_membership ?m)"
  proof (rule current_membership)
    show "x = ?m" if "x \<in> set (memberships s')" "active_for uid x" for x
      using that gone by (auto simp: rows)
  qed (simp_all add: rows active_for_def new_membership_def)
  moreover have "filter (\<lambda>m. ms_user m \<noteq> uid) (memberships s') = filter (\<lambda>m. ms_user m \<noteq> uid) (memberships s)"
    by (simp add: rows new_membership_def cancel_active_for_user_def) (rule filter_update_rows, simp)
  ultimately show ?thesis by (simp add: new_membership_def add_billing_period_def)
qed

theorem checkout_activates_witness:
  "let s' = snd (process_stripe_event (demo_env 5)
         (CheckoutCompleted ''evt1'' (Some ''m1'') (Some FLOW) (Some ANNUAL) None None) demo_db)
   in map_option mb_tier (fst (current_and_history ''m1'' s')) = Some FLOW"
proof -
  let ?r = "process_stripe_event (demo_env 5)
         (CheckoutCompleted ''evt1'' (Some ''m1'') (Some FLOW) (Some ANNUAL) None None) demo_db"
  have "fst ?r = Inr False" by code_simp
  then have "?r = (Inr False, snd ?r)" by (simp add: prod_eq_iff)
  from checkout_activates [OF this] show ?thesis
    by (simp add: Let_def serialize_membership_def new_membership_def)
qed

section \<open>What goes wrong\<close>

text \<open>The event is marked as seen before it is handled: when handling fails, the retry is a duplicate.\<close>

lemma failed_stripe_event_is_lost:
  assumes "process_stripe_event E ev s = (Inl e, s1)"
  shows "process_stripe_event E' ev s1 = (Inr True, s1)"
proof -
  let ?s0 = "s\<lparr>stripe_events := stripe_events s @ [stripe_event_id ev]\<rparr>"
  have "snd (dispatch_stripe_event E ev ?s0) = s1"
    using assms by (auto simp: process_stripe_event_def record_stripe_event_once_def and_then_def
        split: if_splits sum.splits prod.splits)
  with dispatch_events [of E ev ?s0] have "stripe_event_id ev \<in> set (stripe_events s1)" by simp
  then show ?thesis by (simp add: process_stripe_event_def record_stripe_event_once_def)
qed

definition presale_report :: "cryndy_status \<Rightarrow> purchase_dto" where
  "presale_report st =
     \<lparr>pd_tx = ''tx1'', pd_ndy_id = ''NDY-MBR-AAAAA4'', pd_status = st, pd_paid = 100,
      pd_currency = ''EUR'', pd_amount = 500, pd_bonus = None, pd_package = None, pd_method = ''card''\<rparr>"

text \<open>A refund reported first is stored as a confirmed payment; progress reported later is dropped.\<close>

lemma refund_stored_as_confirmed:
  "map cp_status (purchases (snd (handle_purchase_webhook (demo_env 5) (presale_report REFUNDED) demo_db)))
     = [PAYMENT_CONFIRMED]"
  by code_simp

lemma later_progress_dropped:
  "let s1 = snd (handle_purchase_webhook (demo_env 5) (presale_report PAYMENT_CONFIRMED) demo_db)
   in map cp_status (purchases (snd (handle_purchase_webhook (demo_env 6) (presale_report ALLOCATED) s1)))
     = [PAYMENT_CONFIRMED]"
  by code_simp

text \<open>Decoding stops at the first pair that is not hexadecimal, so anything may follow the signature.\<close>

lemma signature_with_a_tail:
  "cryndy_signature_guard (presale_env 5) (Some ''0affXX'') (Some ''0aff'') = ok ()"
  by code_simp

end
