(* ===== verification/Signature.thy ===== *)
theory Signature
  imports Workspaces
begin

text \<open>
  NDY Signature, \<^verbatim>\<open>signature/signature.service.ts\<close>: requests with one slot per signer, the single-use
  links, signing, declining, revoking, the attestation of a signature and its public verification.
\<close>

section \<open>Data\<close>

definition signer_token_ttl :: time where
  "signer_token_ttl = days 14"

definition signature_consent_text :: string where
  "signature_consent_text = ''I intend to sign this document as my NDY identity. I understand this records a verified NDY digital attestation, and is not presented as a legally-binding electronic signature.''"

text \<open>The part of \<^verbatim>\<open>AuthenticatedRequestUser\<close> the service reads.\<close>

record signing_actor =
  sa_sub :: id
  sa_ndy_id :: string

record signer_dto =
  sd_user :: "id option"
  sd_email :: "string option"

record signature_dto =
  qd_title :: string
  qd_hash :: string
  qd_ref :: "string option"
  qd_expires :: "time option"
  qd_signers :: "signer_dto list"

fun signature_status_name :: "signature_status \<Rightarrow> string" where
  "signature_status_name SG_PENDING = ''PENDING''"
| "signature_status_name SG_SIGNED = ''SIGNED''"
| "signature_status_name SG_DECLINED = ''DECLINED''"
| "signature_status_name SG_EXPIRED = ''EXPIRED''"
| "signature_status_name SG_REVOKED = ''REVOKED''"

section \<open>Creating a request\<close>

text \<open>The first signer with no address, or with two.\<close>

fun signers_error :: "nat \<Rightarrow> signer_dto list \<Rightarrow> http_error option" where
  "signers_error i [] = None"
| "signers_error i (d # ds) =
     (if \<not> truthy (sd_user d) \<and> \<not> truthy (sd_email d)
      then Some (BadRequest (''signers['' @ string_of_nat i @ ''] must have either userId or email.''))
      else if truthy (sd_user d) \<and> truthy (sd_email d)
      then Some (BadRequest (''signers['' @ string_of_nat i @ ''] must have only one of userId or email.''))
      else signers_error (Suc i) ds)"

definition new_signature_request :: "env \<Rightarrow> signing_actor \<Rightarrow> signature_dto \<Rightarrow> signature_request" where
  "new_signature_request E a d =
     \<lparr>sr_id = new_id E T_SignatureRequest 0, sr_title = qd_title d, sr_hash = qd_hash d,
      sr_ref = qd_ref d, sr_creator = sa_sub a, sr_creator_ndy_id = sa_ndy_id a,
      sr_status = SG_PENDING, sr_expires = qd_expires d, sr_created_at = now E\<rparr>"

definition new_slot :: "env \<Rightarrow> signature_dto \<Rightarrow> nat \<Rightarrow> signer_dto \<Rightarrow> signer_slot" where
  "new_slot E d i x =
     \<lparr>sl_id = new_id E T_SignerSlot i, sl_request = new_id E T_SignatureRequest 0,
      sl_user = sd_user x, sl_email = sd_email x, sl_token = sha256 E (draw E SignerTokenDraw i),
      sl_signed_at = None, sl_declined_at = None,
      sl_expires = or_else (qd_expires d) (now E + signer_token_ttl)\<rparr>"

definition new_slots :: "env \<Rightarrow> signature_dto \<Rightarrow> signer_slot list" where
  "new_slots E d = map (\<lambda>(i, x). new_slot E d i x) (enumerate 0 (qd_signers d))"

definition sign_url :: "env \<Rightarrow> nat \<Rightarrow> string" where
  "sign_url E i = web_app_url E @ ''/sign/'' @ draw E SignerTokenDraw i"

definition sign_request_notice :: "env \<Rightarrow> signing_actor \<Rightarrow> nat \<Rightarrow> signer_slot \<Rightarrow> id \<Rightarrow> notify_params" where
  "sign_request_notice E a i sl uid =
     \<lparr>np_user = uid, np_workspace = None, np_category = SIGNATURE, np_channel = IN_APP,
      np_title = ''You have a document to sign'',
      np_body = sa_ndy_id a @ '' asked you to sign a document on NDY HUB.'',
      np_link = Some (sign_url E i),
      np_source = Some (''signature-request:'' @ sl_request sl @ '':'' @ sl_id sl)\<rparr>"

text \<open>\<^verbatim>\<open>deliverSignRequest\<close> with its failures caught: the i-th notification of the request.\<close>

definition deliver_sign_request :: "env \<Rightarrow> signing_actor \<Rightarrow> nat \<times> signer_slot \<Rightarrow> db \<Rightarrow> db" where
  "deliver_sign_request E a p s =
     (case p of (i, sl) \<Rightarrow>
        if truthy (sl_user sl)
        then snd (notify (E\<lparr>new_id := (\<lambda>T n. new_id E T (n + i))\<rparr>)
                    (sign_request_notice E a i sl (the (sl_user sl))) s)
        else if truthy (sl_email sl)
        then s\<lparr>mail_outbox := mail_outbox s @
               [SignatureInviteMail (the (sl_email sl)) (escape_html (sa_ndy_id a)) (escape_html (sign_url E i))]\<rparr>
        else s)"

record sign_link =
  ln_signer :: id
  ln_user :: "id option"
  ln_email :: "string option"
  ln_url :: string

definition sign_links :: "env \<Rightarrow> signature_dto \<Rightarrow> sign_link list" where
  "sign_links E d = map (\<lambda>(i, sl). \<lparr>ln_signer = sl_id sl, ln_user = sl_user sl,
       ln_email = sl_email sl, ln_url = sign_url E i\<rparr>) (enumerate 0 (new_slots E d))"

definition create_signature_request ::
  "env \<Rightarrow> signing_actor \<Rightarrow> signature_dto \<Rightarrow> (db, signature_request \<times> sign_link list) handler" where
  "create_signature_request E a d s =
     (case signers_error 0 (qd_signers d) of
        Some e \<Rightarrow> (throw e, s)
      | None \<Rightarrow>
          if (case qd_expires d of None \<Rightarrow> False | Some t \<Rightarrow> t \<le> now E)
          then (throw (BadRequest ''expiresAt must be in the future.''), s)
          else let r = new_signature_request E a d; sls = new_slots E d
            in if exists_row (\<lambda>x. sr_id x = sr_id r) (signature_requests s) \<or>
                  \<not> distinct (map sl_id (signer_slots s @ sls)) \<or>
                  \<not> distinct (map sl_token (signer_slots s @ sls))
               then (throw unique_violation, s)
               else (ok (r, sign_links E d),
                     fold (deliver_sign_request E a) (enumerate 0 sls)
                       (s\<lparr>signature_requests := signature_requests s @ [r],
                          signer_slots := signer_slots s @ sls\<rparr>)))"

section \<open>Signing\<close>

definition find_slot :: "string \<Rightarrow> db \<Rightarrow> signer_slot option" where
  "find_slot h s = find_row (\<lambda>x. sl_token x = h) (signer_slots s)"

definition find_request :: "id \<Rightarrow> db \<Rightarrow> signature_request option" where
  "find_request i s = find_row (\<lambda>r. sr_id r = i) (signature_requests s)"

abbreviation update_slot :: "id \<Rightarrow> (signer_slot \<Rightarrow> signer_slot) \<Rightarrow> db \<Rightarrow> db" where
  "update_slot i f s \<equiv> s\<lparr>signer_slots := update_rows (\<lambda>x. sl_id x = i) f (signer_slots s)\<rparr>"

definition set_request_status :: "id \<Rightarrow> signature_status \<Rightarrow> db \<Rightarrow> db" where
  "set_request_status i st s =
     s\<lparr>signature_requests := update_rows (\<lambda>r. sr_id r = i) (\<lambda>r. r\<lparr>sr_status := st\<rparr>) (signature_requests s)\<rparr>"

definition load_signer_for_signing :: "env \<Rightarrow> string \<Rightarrow> (db, signer_slot \<times> signature_request) handler" where
  "load_signer_for_signing E t s =
     (case find_slot (sha256 E t) s of
        None \<Rightarrow> (throw (NotFound ''Invalid signing link.''), s)
      | Some sl \<Rightarrow>
          (case find_request (sl_request sl) s of
             None \<Rightarrow> (throw (ServerError ''Inconsistent query result''), s)
           | Some r \<Rightarrow>
               if sl_signed_at sl \<noteq> None then (throw (Conflict ''This document is already signed.''), s)
               else if sl_declined_at sl \<noteq> None
               then (throw (Conflict ''You already declined to sign this document.''), s)
               else if sl_expires sl \<le> now E then (throw (Conflict ''This signing link has expired.''), s)
               else if sr_status r = SG_REVOKED then (throw (Conflict ''This request has been revoked.''), s)
               else if sr_status r = SG_SIGNED then (throw (Conflict ''This request is already fully signed.''), s)
               else if sr_status r = SG_DECLINED then (throw (Conflict ''This request was already declined.''), s)
               else if (case sr_expires r of None \<Rightarrow> False | Some x \<Rightarrow> x \<le> now E)
               then (throw (Conflict ''This request has expired.''), set_request_status (sr_id r) SG_EXPIRED s)
               else (ok (sl, r), s)))"

definition assert_signer_identity :: "signer_slot \<Rightarrow> signing_actor \<Rightarrow> db \<Rightarrow> unit reply" where
  "assert_signer_identity sl a s =
     (if truthy (sl_user sl)
      then (if sl_user sl \<noteq> Some (sa_sub a)
            then throw (Forbidden ''This signing link belongs to a different account.'') else ok ())
      else if truthy (sl_email sl)
      then (case find_user (sa_sub a) s of
              None \<Rightarrow> throw (NotFound ''No user with that id.'')
            | Some u \<Rightarrow>
                if Some (u_email u) \<noteq> sl_email sl
                then throw (Forbidden ''This signing link was sent to a different email address.'') else ok ())
      else ok ())"

text \<open>\<^verbatim>\<open>attest\<close>: the proof counts only when it has been validated.\<close>

definition attestation_claims ::
  "env \<Rightarrow> id \<Rightarrow> string \<Rightarrow> string \<Rightarrow> id \<Rightarrow> time \<Rightarrow> (string \<times> json) list" where
  "attestation_claims E i ndy h rid t =
     [(''contentHash'', JStr h), (''consentText'', JStr signature_consent_text),
      (''signatureRequestId'', JStr rid), (''kid'', JStr (oidc_key_id E)),
      (''iss'', JStr (web_app_url E)), (''aud'', JStr ''ndy-signature''), (''sub'', JStr ndy),
      (''jti'', JStr i), (''iat'', JNum (t div 1000))]"

record attestation_result =
  at_jws :: "string option"
  at_key :: "string option"
  at_status :: attestation_status
  at_error :: "string option"

definition attestation_failed :: "string \<Rightarrow> attestation_result" where
  "attestation_failed m = \<lparr>at_jws = None, at_key = None, at_status = AT_FAILED, at_error = Some m\<rparr>"

definition attest_signature :: "env \<Rightarrow> id \<Rightarrow> string \<Rightarrow> string \<Rightarrow> id \<Rightarrow> time \<Rightarrow> attestation_result" where
  "attest_signature E i ndy h rid t =
     (case attest E (attestation_claims E i ndy h rid t) of
        Inl m \<Rightarrow> attestation_failed m
      | Inr jws \<Rightarrow>
          (case attestation_error E jws of
             Some m \<Rightarrow> attestation_failed m
           | None \<Rightarrow> \<lparr>at_jws = Some jws, at_key = Some (oidc_key_id E), at_status = AT_VERIFIED, at_error = None\<rparr>))"

definition new_signature ::
  "env \<Rightarrow> signing_actor \<Rightarrow> signature_request \<Rightarrow> string option \<Rightarrow> string option \<Rightarrow> signature_row" where
  "new_signature E a r ip agent =
     (let i = new_id E T_Signature 0;
          at = attest_signature E i (sa_ndy_id a) (sr_hash r) (sr_id r) (now E)
      in \<lparr>sig_id = i, sig_request = sr_id r, sig_signer = sa_sub a, sig_ndy_id = sa_ndy_id a,
          sig_hash = sr_hash r, sig_ip = ip, sig_user_agent = agent,
          sig_consent = Some signature_consent_text, sig_attestation = at_jws at,
          sig_key_id = at_key at, sig_status = at_status at, sig_attempts = 1,
          sig_last_error = at_error at,
          sig_attested_at = (if at_status at = AT_VERIFIED then Some (now E) else None),
          sig_signed_at = now E\<rparr>)"

text \<open>The request is signed once every slot is.\<close>

definition slots_of :: "id \<Rightarrow> db \<Rightarrow> signer_slot list" where
  "slots_of i s = filter (\<lambda>x. sl_request x = i) (signer_slots s)"

definition recompute_status :: "id \<Rightarrow> db \<Rightarrow> signature_status \<times> db" where
  "recompute_status i s =
     (if list_all (\<lambda>x. sl_signed_at x \<noteq> None) (slots_of i s)
      then (SG_SIGNED, set_request_status i SG_SIGNED s)
      else (SG_PENDING, s))"

definition creator_notice :: "signature_request \<Rightarrow> string \<Rightarrow> string \<Rightarrow> string \<Rightarrow> notify_params" where
  "creator_notice r title body src =
     \<lparr>np_user = sr_creator r, np_workspace = None, np_category = SIGNATURE, np_channel = IN_APP,
      np_title = title, np_body = body, np_link = None, np_source = Some src\<rparr>"

definition sign ::
  "env \<Rightarrow> signing_actor \<Rightarrow> string \<Rightarrow> string option \<Rightarrow> string option \<Rightarrow>
     (db, signature_row \<times> signature_status) handler" where
  "sign E a t ip agent =
     and_then (load_signer_for_signing E t) (\<lambda>(sl, r) s.
       case assert_signer_identity sl a s of
         Inl e \<Rightarrow> (throw e, s)
       | Inr _ \<Rightarrow>
           let g = new_signature E a r ip agent
           in if exists_row (\<lambda>x. sig_id x = sig_id g) (signatures s) then (throw unique_violation, s)
              else let s1 = update_slot (sl_id sl)
                         (\<lambda>x. x\<lparr>sl_signed_at := Some (now E), sl_user := Some (sa_sub a)\<rparr>)
                         (s\<lparr>signatures := signatures s @ [g]\<rparr>);
                       (st, s2) = recompute_status (sl_request sl) s1
                in (ok (g, st),
                    snd (notify E (creator_notice r ''Your document was signed''
                      (sa_ndy_id a @ '' signed \"'' @ sr_title r @ ''\".'')
                      (''signature-signed:'' @ sig_id g)) s2)))"

definition decline :: "env \<Rightarrow> signing_actor \<Rightarrow> string \<Rightarrow> (db, unit) handler" where
  "decline E a t =
     and_then (load_signer_for_signing E t) (\<lambda>(sl, r) s.
       case assert_signer_identity sl a s of
         Inl e \<Rightarrow> (throw e, s)
       | Inr _ \<Rightarrow>
           let s1 = update_slot (sl_id sl)
                      (\<lambda>x. x\<lparr>sl_declined_at := Some (now E), sl_user := Some (sa_sub a)\<rparr>) s;
               s2 = set_request_status (sl_request sl) SG_DECLINED s1
           in (ok (), snd (notify E (creator_notice r ''Your document was declined''
                (sa_ndy_id a @ '' declined to sign \"'' @ sr_title r @ ''\".'')
                (''signature-declined:'' @ sl_id sl)) s2)))"

definition revoke :: "signing_actor \<Rightarrow> id \<Rightarrow> (db, signature_request) handler" where
  "revoke a i s =
     (case find_request i s of
        None \<Rightarrow> (throw (NotFound ''No signature request with that id.''), s)
      | Some r \<Rightarrow>
          if sr_creator r \<noteq> sa_sub a
          then (throw (Forbidden ''Only the creator can revoke this request.''), s)
          else if sr_status r \<noteq> SG_PENDING
          then (throw (Conflict (''This request is already '' @ to_lower (signature_status_name (sr_status r)) @
                  '' and can't be revoked.'')), s)
          else (ok (r\<lparr>sr_status := SG_REVOKED\<rparr>), set_request_status i SG_REVOKED s))"

section \<open>Attestation again, verification, lists\<close>

definition find_signature :: "id \<Rightarrow> db \<Rightarrow> signature_row option" where
  "find_signature i s = find_row (\<lambda>g. sig_id g = i) (signatures s)"

definition attested_again :: "env \<Rightarrow> attestation_result \<Rightarrow> nat \<Rightarrow> signature_row \<Rightarrow> signature_row" where
  "attested_again E at n g =
     g\<lparr>sig_attestation := at_jws at, sig_key_id := at_key at, sig_status := at_status at,
       sig_attempts := n, sig_last_error := at_error at,
       sig_attested_at := (if at_status at = AT_VERIFIED then Some (now E) else sig_attested_at g)\<rparr>"

definition reattest :: "env \<Rightarrow> id \<Rightarrow> (db, attestation_status \<times> nat) handler" where
  "reattest E i s =
     (case find_signature i s of
        None \<Rightarrow> (throw (NotFound ''No signature with that id.''), s)
      | Some g \<Rightarrow>
          if sig_status g = AT_VERIFIED then (ok (sig_status g, sig_attempts g), s)
          else let at = attest_signature E (sig_id g) (sig_ndy_id g) (sig_hash g) (sig_request g) (sig_signed_at g);
                   n = Suc (sig_attempts g)
               in (ok (at_status at, n),
                   s\<lparr>signatures := update_rows (\<lambda>x. sig_id x = sig_id g) (attested_again E at n) (signatures s)\<rparr>))"

record signature_view =
  sv_id :: id
  sv_request :: id
  sv_hash :: string
  sv_ndy_id :: string
  sv_signed_at :: time
  sv_status :: attestation_status
  sv_attestation :: "string option"
  sv_key_id :: "string option"
  sv_jwks :: string

definition verify_signature :: "env \<Rightarrow> id \<Rightarrow> db \<Rightarrow> signature_view reply" where
  "verify_signature E i s =
     (case find_signature i s of
        None \<Rightarrow> throw (NotFound ''No signature with that id.'')
      | Some g \<Rightarrow>
          let verified = (sig_status g = AT_VERIFIED)
          in ok \<lparr>sv_id = sig_id g, sv_request = sig_request g, sv_hash = sig_hash g,
                 sv_ndy_id = sig_ndy_id g, sv_signed_at = sig_signed_at g, sv_status = sig_status g,
                 sv_attestation = (if verified then sig_attestation g else None),
                 sv_key_id = (if verified then sig_key_id g else None),
                 sv_jwks = api_url E @ ''/.well-known/jwks.json''\<rparr>)"

record slot_preview =
  pv_title :: string
  pv_ref :: "string option"
  pv_status :: signature_status
  pv_creator :: string
  pv_email :: "string option"
  pv_expires :: time
  pv_signed_at :: "time option"
  pv_declined_at :: "time option"
  pv_consent :: string

definition preview_slot :: "env \<Rightarrow> string \<Rightarrow> db \<Rightarrow> slot_preview reply" where
  "preview_slot E t s =
     (case find_slot (sha256 E t) s of
        None \<Rightarrow> throw (NotFound ''Invalid signing link.'')
      | Some sl \<Rightarrow>
          (case find_request (sl_request sl) s of
             None \<Rightarrow> throw (ServerError ''Inconsistent query result'')
           | Some r \<Rightarrow>
               ok \<lparr>pv_title = sr_title r, pv_ref = sr_ref r, pv_status = sr_status r,
                   pv_creator = sr_creator_ndy_id r, pv_email = sl_email sl, pv_expires = sl_expires sl,
                   pv_signed_at = sl_signed_at sl, pv_declined_at = sl_declined_at sl,
                   pv_consent = signature_consent_text\<rparr>))"

definition list_signatures_for_user ::
  "signing_actor \<Rightarrow> db \<Rightarrow>
     (signature_request \<times> nat \<times> nat) list \<times> (signer_slot \<times> signature_request option) list" where
  "list_signatures_for_user a s =
     (map (\<lambda>r. (r, length (slots_of (sr_id r) s), count_rows (\<lambda>g. sig_request g = sr_id r) (signatures s)))
        (take 100 (rev (sort_key sr_created_at (filter (\<lambda>r. sr_creator r = sa_sub a) (signature_requests s))))),
      map (\<lambda>x. (x, find_request (sl_request x) s))
        (take 100 (sort_key sl_expires (filter (\<lambda>x. sl_user x = Some (sa_sub a) \<and> sl_signed_at x = None \<and>
           sl_declined_at x = None) (signer_slots s)))))"

end
