(* ===== verification/Signing.thy ===== *)
theory Signing
  imports Signature Sessions
begin

text \<open>
  What NDY Signature promises: links that work once, requests that settle once, signatures that
  are backed by a slot and a validated proof.
\<close>

section \<open>The tables the service owns\<close>

lemma notify_signature_tables [simp]:
  "signature_requests (snd (notify E p s)) = signature_requests s"
  "signer_slots (snd (notify E p s)) = signer_slots s"
  "signatures (snd (notify E p s)) = signatures s"
  by (simp_all add: notify_def deliver_def Let_def split: option.splits notification_channel.splits)

lemma deliver_signature_tables [simp]:
  "signature_requests (deliver_sign_request E a p s) = signature_requests s"
  "signer_slots (deliver_sign_request E a p s) = signer_slots s"
  "signatures (deliver_sign_request E a p s) = signatures s"
  by (simp_all add: deliver_sign_request_def split: prod.splits)

lemma deliver_all_signature_tables [simp]:
  "signature_requests (fold (deliver_sign_request E a) ps s) = signature_requests s"
  "signer_slots (fold (deliver_sign_request E a) ps s) = signer_slots s"
  "signatures (fold (deliver_sign_request E a) ps s) = signatures s"
  by (induction ps arbitrary: s) simp_all

text \<open>With a unique key an update by key changes one row in place.\<close>

lemma unique_split:
  assumes "unique_on key rows" and "x \<in> set rows"
  obtains ys zs where "rows = ys @ x # zs"
    "\<And>f. update_rows (\<lambda>r. key r = key x) f rows = ys @ f x # zs"
    "\<And>y. y \<in> set ys \<union> set zs \<Longrightarrow> key y \<noteq> key x"
proof -
  obtain ys zs where split: "rows = ys @ x # zs" using assms(2) by (auto simp: in_set_conv_decomp)
  with assms(1) have other: "key y \<noteq> key x" if "y \<in> set ys \<union> set zs" for y
    using that by (auto simp: unique_on_def image_iff)
  have "update_rows (\<lambda>r. key r = key x) f rows = ys @ f x # zs" for f
  proof -
    have "map (\<lambda>r. if key r = key x then f r else r) l = l" if "set l \<subseteq> set ys \<union> set zs" for l
      using other that by (intro map_idI) auto
    then show ?thesis by (simp add: split update_rows_def)
  qed
  with split other show thesis by (intro that) auto
qed

section \<open>The invariant\<close>

abbreviation signed :: "signer_slot \<Rightarrow> bool" where
  "signed x \<equiv> sl_signed_at x \<noteq> None"

text \<open>
  A request is signed exactly when all its slots are, has one signature per signed slot, and its
  slots expire with it.
\<close>

definition request_fits :: "signer_slot list \<Rightarrow> nat \<Rightarrow> signature_request \<Rightarrow> bool" where
  "request_fits mine n r =
     (sr_status r \<noteq> SG_EXPIRED \<and>
      (sr_status r = SG_SIGNED \<longleftrightarrow> mine \<noteq> [] \<and> (\<forall>x \<in> set mine. signed x)) \<and>
      (\<forall>x \<in> set mine. sr_expires r = None \<or> sr_expires r = Some (sl_expires x)) \<and>
      n = count_rows signed mine)"

definition request_ok :: "signer_slot list \<Rightarrow> signature_row list \<Rightarrow> signature_request \<Rightarrow> bool" where
  "request_ok sls gs r =
     request_fits (filter (\<lambda>x. sl_request x = sr_id r) sls) (count_rows (\<lambda>g. sig_request g = sr_id r) gs) r"

definition sig_ok :: "db \<Rightarrow> bool" where
  "sig_ok s =
     (unique_on sr_id (signature_requests s) \<and> unique_on sl_id (signer_slots s) \<and>
      unique_on sl_token (signer_slots s) \<and> unique_on sig_id (signatures s) \<and>
      sl_request ` set (signer_slots s) \<subseteq> sr_id ` set (signature_requests s) \<and>
      sig_request ` set (signatures s) \<subseteq> sr_id ` set (signature_requests s) \<and>
      (\<forall>r \<in> set (signature_requests s). request_ok (signer_slots s) (signatures s) r))"

lemma find_slotD: "find_slot h s = Some x \<Longrightarrow> x \<in> set (signer_slots s) \<and> sl_token x = h"
  unfolding find_slot_def by (blast dest: find_row_Some_D)

lemma find_requestD: "find_request i s = Some r \<Longrightarrow> r \<in> set (signature_requests s) \<and> sr_id r = i"
  unfolding find_request_def by (blast dest: find_row_Some_D)

section \<open>What each operation does\<close>

text \<open>A slot that may be acted on by the account.\<close>

definition open_slot :: "env \<Rightarrow> string \<Rightarrow> signing_actor \<Rightarrow> db \<Rightarrow> signer_slot \<Rightarrow> signature_request \<Rightarrow> bool" where
  "open_slot E t a s sl r =
     (find_slot (sha256 E t) s = Some sl \<and> find_request (sl_request sl) s = Some r \<and>
      sl_signed_at sl = None \<and> sl_declined_at sl = None \<and> now E < sl_expires sl \<and>
      (sr_expires r = None \<or> now E < the (sr_expires r)) \<and>
      sr_status r \<notin> {SG_REVOKED, SG_SIGNED, SG_DECLINED} \<and> assert_signer_identity sl a s = Inr ())"

lemma load_ok:
  assumes "load_signer_for_signing E t s = (Inr (sl, r), s')" and "assert_signer_identity sl a s' = Inr ()"
  shows "s' = s \<and> open_slot E t a s sl r"
  using assms
  by (auto simp: load_signer_for_signing_def open_slot_def split: option.splits if_splits)

lemma load_error:
  assumes "sig_ok s" and "load_signer_for_signing E t s = (Inl e, s')"
  shows "s' = s"
proof (rule ccontr)
  assume "s' \<noteq> s"
  with assms(2) obtain sl r x where sl: "find_slot (sha256 E t) s = Some sl" "\<not> sl_expires sl \<le> now E"
    and r: "find_request (sl_request sl) s = Some r" "sr_expires r = Some x" "x \<le> now E"
    by (auto simp: load_signer_for_signing_def split: option.splits if_splits)
  have "request_ok (signer_slots s) (signatures s) r"
    using assms(1) find_requestD [OF r(1)] by (simp add: sig_ok_def)
  then have "sr_expires r = Some (sl_expires sl)"
    using find_slotD [OF sl(1)] find_requestD [OF r(1)] r(2) by (auto simp: request_ok_def request_fits_def)
  with sl(2) r show False by simp
qed

definition signed_slot :: "env \<Rightarrow> signing_actor \<Rightarrow> signer_slot \<Rightarrow> signer_slot" where
  "signed_slot E a x = x\<lparr>sl_signed_at := Some (now E), sl_user := Some (sa_sub a)\<rparr>"

definition declined_slot :: "env \<Rightarrow> signing_actor \<Rightarrow> signer_slot \<Rightarrow> signer_slot" where
  "declined_slot E a x = x\<lparr>sl_declined_at := Some (now E), sl_user := Some (sa_sub a)\<rparr>"

lemma sign_cases:
  assumes "sig_ok s"
  obtains (error) e where "sign E a t ip agent s = (Inl e, s)"
  | (signed) sl r g st where "fst (sign E a t ip agent s) = Inr (g, st)"
      "open_slot E t a s sl r" "g = new_signature E a r ip agent"
      "\<forall>x \<in> set (signatures s). sig_id x \<noteq> sig_id g"
      "signatures (snd (sign E a t ip agent s)) = signatures s @ [g]"
      "signer_slots (snd (sign E a t ip agent s)) =
         update_rows (\<lambda>x. sl_id x = sl_id sl) (signed_slot E a) (signer_slots s)"
      "signature_requests (snd (sign E a t ip agent s)) =
         (if list_all signed (filter (\<lambda>x. sl_request x = sl_request sl)
               (update_rows (\<lambda>x. sl_id x = sl_id sl) (signed_slot E a) (signer_slots s)))
          then update_rows (\<lambda>r. sr_id r = sl_request sl) (\<lambda>r. r\<lparr>sr_status := SG_SIGNED\<rparr>) (signature_requests s)
          else signature_requests s)"
proof (cases "load_signer_for_signing E t s")
  case (Pair q s1)
  show thesis
  proof (cases q)
    case (Inl e)
    with Pair load_error [OF assms] show thesis by (intro error [of e]) (simp add: sign_def)
  next
    case (Inr p)
    obtain sl r where p: "p = (sl, r)" by (cases p)
    have same: "s1 = s"
      using Pair Inr by (auto simp: load_signer_for_signing_def split: option.splits if_splits)
    show thesis
    proof (cases "assert_signer_identity sl a s")
      case (Inl e)
      with Pair Inr p same show thesis by (intro error [of e]) (simp add: sign_def)
    next
      case (Inr u)
      let ?g = "new_signature E a r ip agent"
      have opened: "open_slot E t a s sl r"
        using load_ok [of E t s sl r s1 a] Pair \<open>q = Inr p\<close> p same Inr by simp
      show thesis
      proof (cases "exists_row (\<lambda>x. sig_id x = sig_id ?g) (signatures s)")
        case True
        with Pair \<open>q = Inr p\<close> p same Inr show thesis
          by (intro error [of unique_violation]) (simp add: sign_def Let_def del: exists_row_iff)
      next
        case False
        let ?s1 = "update_slot (sl_id sl) (\<lambda>x. x\<lparr>sl_signed_at := Some (now E), sl_user := Some (sa_sub a)\<rparr>)
                      (s\<lparr>signatures := signatures s @ [?g]\<rparr>)"
        have run: "sign E a t ip agent s =
            (Inr (?g, fst (recompute_status (sl_request sl) ?s1)),
             snd (notify E (creator_notice r ''Your document was signed''
                (sa_ndy_id a @ '' signed \"'' @ sr_title r @ ''\".'') (''signature-signed:'' @ sig_id ?g))
                (snd (recompute_status (sl_request sl) ?s1))))"
          using Pair \<open>q = Inr p\<close> p same Inr False
          by (simp add: sign_def Let_def split_def del: exists_row_iff)
        show thesis
          by (rule signed [of ?g "fst (recompute_status (sl_request sl) ?s1)" sl r])
            (use opened False in \<open>simp_all add: run recompute_status_def slots_of_def
              set_request_status_def signed_slot_def [abs_def]\<close>)
      qed
    qed
  qed
qed


lemma decline_cases:
  assumes "sig_ok s"
  obtains (error) e where "decline E a t s = (Inl e, s)"
  | (declined) sl r where "fst (decline E a t s) = Inr ()" "open_slot E t a s sl r"
      "signatures (snd (decline E a t s)) = signatures s"
      "signer_slots (snd (decline E a t s)) =
         update_rows (\<lambda>x. sl_id x = sl_id sl) (declined_slot E a) (signer_slots s)"
      "signature_requests (snd (decline E a t s)) =
         update_rows (\<lambda>r. sr_id r = sl_request sl) (\<lambda>r. r\<lparr>sr_status := SG_DECLINED\<rparr>) (signature_requests s)"
proof (cases "load_signer_for_signing E t s")
  case (Pair q s1)
  show thesis
  proof (cases q)
    case (Inl e)
    with Pair load_error [OF assms] show thesis by (intro error [of e]) (simp add: decline_def)
  next
    case (Inr p)
    obtain sl r where p: "p = (sl, r)" by (cases p)
    have same: "s1 = s"
      using Pair Inr by (auto simp: load_signer_for_signing_def split: option.splits if_splits)
    show thesis
    proof (cases "assert_signer_identity sl a s")
      case (Inl e)
      with Pair Inr p same show thesis by (intro error [of e]) (simp add: decline_def)
    next
      case (Inr u)
      have "open_slot E t a s sl r"
        using load_ok [of E t s sl r s1 a] Pair \<open>q = Inr p\<close> p same Inr by simp
      with Pair \<open>q = Inr p\<close> p same Inr show thesis
        by (intro declined [of sl r])
          (simp_all add: decline_def Let_def set_request_status_def declined_slot_def [abs_def])
    qed
  qed
qed

lemma revoke_cases:
  "(\<exists>e. revoke a i s = (Inl e, s)) \<or>
   (\<exists>r. find_request i s = Some r \<and> sr_status r = SG_PENDING \<and> sr_creator r = sa_sub a \<and>
      revoke a i s = (Inr (r\<lparr>sr_status := SG_REVOKED\<rparr>), set_request_status i SG_REVOKED s))"
  by (auto simp: revoke_def split: option.split)

definition proof_again :: "env \<Rightarrow> signature_row \<Rightarrow> signature_row" where
  "proof_again E g = attested_again E (attest_signature E (sig_id g) (sig_ndy_id g) (sig_hash g)
     (sig_request g) (sig_signed_at g)) (Suc (sig_attempts g)) g"

lemma reattest_cases:
  assumes "unique_on sig_id (signatures s)"
  shows "snd (reattest E i s) = s \<or>
    (\<exists>g. find_signature i s = Some g \<and> sig_status g \<noteq> AT_VERIFIED \<and>
       snd (reattest E i s) = s\<lparr>signatures := update_rows (\<lambda>x. sig_id x = sig_id g) (proof_again E) (signatures s)\<rparr>)"
proof (cases "find_signature i s")
  case None
  then show ?thesis by (simp add: reattest_def)
next
  case (Some g)
  then have "g \<in> set (signatures s)"
    unfolding find_signature_def by (blast dest: find_row_Some_D)
  then obtain ys zs where "signatures s = ys @ g # zs"
    and "\<And>f. update_rows (\<lambda>r. sig_id r = sig_id g) f (signatures s) = ys @ f g # zs"
    and "\<And>y. y \<in> set ys \<union> set zs \<Longrightarrow> sig_id y \<noteq> sig_id g"
    by (rule unique_split [OF assms]) (rule that)
  with Some show ?thesis by (simp add: reattest_def Let_def proof_again_def)
qed

lemma create_request_cases:
  obtains (error) e where "create_signature_request E a d s = (Inl e, s)"
  | (created) ls where "fst (create_signature_request E a d s) = Inr (new_signature_request E a d, ls)"
      "\<forall>x \<in> set (signature_requests s). sr_id x \<noteq> new_id E T_SignatureRequest 0"
      "distinct (map sl_id (signer_slots s @ new_slots E d))"
      "distinct (map sl_token (signer_slots s @ new_slots E d))"
      "signature_requests (snd (create_signature_request E a d s)) =
         signature_requests s @ [new_signature_request E a d]"
      "signer_slots (snd (create_signature_request E a d s)) = signer_slots s @ new_slots E d"
      "signatures (snd (create_signature_request E a d s)) = signatures s"
proof -
  let ?r = "new_signature_request E a d"
  let ?ok = "signers_error 0 (qd_signers d) = None \<and>
    \<not> (case qd_expires d of None \<Rightarrow> False | Some t \<Rightarrow> t \<le> now E) \<and>
    \<not> exists_row (\<lambda>x. sr_id x = sr_id ?r) (signature_requests s) \<and>
    distinct (map sl_id (signer_slots s @ new_slots E d)) \<and>
    distinct (map sl_token (signer_slots s @ new_slots E d))"
  show thesis
  proof (cases ?ok)
    case True
    then have run: "create_signature_request E a d s = (Inr (?r, sign_links E d),
        fold (deliver_sign_request E a) (enumerate 0 (new_slots E d))
          (s\<lparr>signature_requests := signature_requests s @ [?r], signer_slots := signer_slots s @ new_slots E d\<rparr>))"
      by (simp add: create_signature_request_def Let_def)
    with True show thesis
      by (intro created [of "sign_links E d"]) (simp_all add: new_signature_request_def)
  next
    case False
    then have "\<exists>e. create_signature_request E a d s = (Inl e, s)"
      by (auto simp: create_signature_request_def Let_def split: option.splits)
    with error show thesis by blast
  qed
qed


section \<open>The invariant is kept\<close>

lemma request_ok_other:
  assumes "sl_request y = sl_request x" and "sl_request x \<noteq> sr_id r"
  shows "request_ok (ys @ y # zs) gs r = request_ok (ys @ x # zs) gs r"
  using assms by (simp add: request_ok_def)

lemma request_ok_other_signature:
  "sig_request g \<noteq> sr_id r \<Longrightarrow> request_ok sls (gs @ [g]) r = request_ok sls gs r"
  by (simp add: request_ok_def)

lemma request_ok_status:
  assumes "request_ok sls gs r" and "sr_status r \<noteq> SG_SIGNED" and "st \<notin> {SG_SIGNED, SG_EXPIRED}"
  shows "request_ok sls gs (r\<lparr>sr_status := st\<rparr>)"
  using assms by (auto simp: request_ok_def request_fits_def)

text \<open>The state around an open slot, taken apart.\<close>

lemma open_slot_split:
  assumes "sig_ok s" and "open_slot E t a s sl r"
  obtains ys zs us vs where
    "signer_slots s = ys @ sl # zs" "signature_requests s = us @ r # vs"
    "sl_request sl = sr_id r"
    "\<And>f. update_rows (\<lambda>x. sl_id x = sl_id sl) f (signer_slots s) = ys @ f sl # zs"
    "\<And>f. update_rows (\<lambda>x. sr_id x = sr_id r) f (signature_requests s) = us @ f r # vs"
    "\<And>x. x \<in> set us \<union> set vs \<Longrightarrow> sr_id x \<noteq> sr_id r"
proof -
  have sl: "sl \<in> set (signer_slots s)" and r: "r \<in> set (signature_requests s)" "sr_id r = sl_request sl"
    using assms(2) find_slotD find_requestD by (auto simp: open_slot_def)
  have u: "unique_on sl_id (signer_slots s)" "unique_on sr_id (signature_requests s)"
    using assms(1) by (simp_all add: sig_ok_def)
  obtain ys zs where 1: "signer_slots s = ys @ sl # zs"
      and 2: "\<And>f. update_rows (\<lambda>x. sl_id x = sl_id sl) f (signer_slots s) = ys @ f sl # zs"
      and "\<And>y. y \<in> set ys \<union> set zs \<Longrightarrow> sl_id y \<noteq> sl_id sl"
    using sl by (rule unique_split [OF u(1)]) (rule that)
  obtain us vs where 3: "signature_requests s = us @ r # vs"
      and 4: "\<And>f. update_rows (\<lambda>x. sr_id x = sr_id r) f (signature_requests s) = us @ f r # vs"
      and 5: "\<And>y. y \<in> set us \<union> set vs \<Longrightarrow> sr_id y \<noteq> sr_id r"
    using r(1) by (rule unique_split [OF u(2)]) (rule that)
  show thesis
    by (rule that [OF 1 3 r(2) [symmetric] 2 4 5])
qed

lemma sig_ok_settle:
  assumes ok: "sig_ok s" and opened: "open_slot E t a s sl r"
    and f: "sl_id (f sl) = sl_id sl" "sl_request (f sl) = sl_request sl" "sl_token (f sl) = sl_token sl"
    and slots: "signer_slots s' = update_rows (\<lambda>x. sl_id x = sl_id sl) f (signer_slots s)"
    and reqs: "signature_requests s' = update_rows (\<lambda>x. sr_id x = sl_request sl) h (signature_requests s)"
    and h: "sr_id (h r) = sr_id r" and h_ok: "request_ok (signer_slots s') (signatures s') (h r)"
    and sigs: "\<And>x. request_ok (signer_slots s') (signatures s) x \<Longrightarrow> sr_id x \<noteq> sr_id r \<Longrightarrow>
      request_ok (signer_slots s') (signatures s') x"
    and uniq: "unique_on sig_id (signatures s')"
    and own: "sig_request ` set (signatures s') \<subseteq> insert (sr_id r) (sig_request ` set (signatures s))"
  shows "sig_ok s'"
proof -
  obtain ys zs us vs where
    sp: "signer_slots s = ys @ sl # zs" "signature_requests s = us @ r # vs" "sl_request sl = sr_id r"
    and up: "\<And>f. update_rows (\<lambda>x. sl_id x = sl_id sl) f (signer_slots s) = ys @ f sl # zs"
      "\<And>f. update_rows (\<lambda>x. sr_id x = sr_id r) f (signature_requests s) = us @ f r # vs"
    and other: "\<And>x. x \<in> set us \<union> set vs \<Longrightarrow> sr_id x \<noteq> sr_id r"
    by (rule open_slot_split [OF ok opened]) (rule that)
  have sls: "signer_slots s' = ys @ f sl # zs" and rs: "signature_requests s' = us @ h r # vs"
    using slots reqs sp(3) up by simp_all
  have "request_ok (signer_slots s') (signatures s') x" if "x \<in> set us \<union> set vs" for x
  proof (rule sigs)
    have "request_ok (ys @ sl # zs) (signatures s) x"
      using ok sp that by (auto simp: sig_ok_def)
    then show "request_ok (signer_slots s') (signatures s) x"
      unfolding sls using request_ok_other [OF f(2)] sp(3) other [OF that] by metis
  qed (rule other [OF that])
  with h_ok have "\<forall>x \<in> set (signature_requests s'). request_ok (signer_slots s') (signatures s') x"
    unfolding rs by auto
  moreover have "unique_on sl_id (signer_slots s')" "unique_on sl_token (signer_slots s')"
      "unique_on sr_id (signature_requests s')"
    using ok f h unfolding sls rs sig_ok_def sp by (simp_all add: unique_on_def)
  moreover have "sl_request ` set (signer_slots s') \<subseteq> sr_id ` set (signature_requests s')"
    using ok f h sp(3) unfolding sls rs sig_ok_def sp by auto
  moreover have "sig_request ` set (signatures s') \<subseteq> sr_id ` set (signature_requests s')"
  proof -
    have "sr_id ` set (signature_requests s') = sr_id ` set (signature_requests s)"
      using h unfolding rs sp by simp
    moreover have "insert (sr_id r) (sig_request ` set (signatures s)) \<subseteq> sr_id ` set (signature_requests s)"
      using ok sp(2) by (simp add: sig_ok_def)
    ultimately show ?thesis using own by (metis order_trans)
  qed
  ultimately show ?thesis using uniq by (simp add: sig_ok_def)
qed


lemma settled_request:
  assumes "sig_ok s" and "open_slot E t a s sl r" and "sl_request (f sl) = sl_request sl"
    and "sl_expires (f sl) = sl_expires sl"
    and "signer_slots s' = update_rows (\<lambda>x. sl_id x = sl_id sl) f (signer_slots s)"
  shows "sr_status r = SG_PENDING \<and>
    (\<exists>ms ns. filter (\<lambda>x. sl_request x = sr_id r) (signer_slots s) = ms @ sl # ns \<and>
       filter (\<lambda>x. sl_request x = sr_id r) (signer_slots s') = ms @ f sl # ns)"
proof -
  obtain ys zs us vs where
    sp: "signer_slots s = ys @ sl # zs" "signature_requests s = us @ r # vs" "sl_request sl = sr_id r"
    and up: "\<And>f. update_rows (\<lambda>x. sl_id x = sl_id sl) f (signer_slots s) = ys @ f sl # zs"
      "\<And>f. update_rows (\<lambda>x. sr_id x = sr_id r) f (signature_requests s) = us @ f r # vs"
    and other: "\<And>x. x \<in> set us \<union> set vs \<Longrightarrow> sr_id x \<noteq> sr_id r"
    by (rule open_slot_split [OF assms(1,2)]) (rule that)
  have "sr_status r \<noteq> SG_EXPIRED"
    using assms(1) sp(2) by (auto simp: sig_ok_def request_ok_def request_fits_def)
  with assms(2) have "sr_status r = SG_PENDING"
    by (cases "sr_status r") (auto simp: open_slot_def)
  moreover have "signer_slots s' = ys @ f sl # zs" using assms(5) up(1) by simp
  ultimately show ?thesis
    using sp assms(3) by (intro conjI exI [of _ "filter (\<lambda>x. sl_request x = sr_id r) ys"]
      exI [of _ "filter (\<lambda>x. sl_request x = sr_id r) zs"]) simp_all
qed

lemma sign_ok_step:
  assumes ok: "sig_ok s"
  shows "sig_ok (snd (sign E a t ip agent s))"
  using ok
proof (cases rule: sign_cases [of s E a t ip agent])
  case (error e)
  with ok show ?thesis by simp
next
  case (signed sl r g st)
  let ?s' = "snd (sign E a t ip agent s)"
  let ?all = "list_all signed (filter (\<lambda>x. sl_request x = sl_request sl) (signer_slots ?s'))"
  let ?h = "\<lambda>x. if ?all then x\<lparr>sr_status := SG_SIGNED\<rparr> else x"
  have r: "sr_id r = sl_request sl"
    using signed(2) find_requestD by (auto simp: open_slot_def)
  have g: "sig_request g = sr_id r" by (simp add: signed(3) new_signature_def Let_def)
  have mine: "sr_status r = SG_PENDING" and
    "\<exists>ms ns. filter (\<lambda>x. sl_request x = sr_id r) (signer_slots s) = ms @ sl # ns \<and>
       filter (\<lambda>x. sl_request x = sr_id r) (signer_slots ?s') = ms @ signed_slot E a sl # ns"
    using settled_request [OF ok signed(2) _ _ signed(6)] by (simp_all add: signed_slot_def)
  then obtain ms ns where ms:
      "filter (\<lambda>x. sl_request x = sr_id r) (signer_slots s) = ms @ sl # ns"
      "filter (\<lambda>x. sl_request x = sr_id r) (signer_slots ?s') = ms @ signed_slot E a sl # ns" by blast
  have was: "request_ok (signer_slots s) (signatures s) r"
    using ok find_requestD [of "sl_request sl" s r] signed(2) by (simp add: sig_ok_def open_slot_def)
  show ?thesis
  proof (rule sig_ok_settle [OF ok signed(2) _ _ _ signed(6), of ?h])
    show "signature_requests ?s' = update_rows (\<lambda>x. sr_id x = sl_request sl) ?h (signature_requests s)"
    proof (cases ?all)
      case True
      then show ?thesis using signed(6,7) by simp
    next
      case False
      then have "?h = (\<lambda>x. x)" by (simp add: fun_eq_iff)
      with False show ?thesis using signed(6,7) by (simp add: update_rows_def)
    qed
    show "request_ok (signer_slots ?s') (signatures ?s') (?h r)"
    proof -
      have all: "?all = (\<forall>x \<in> set (ms @ signed_slot E a sl # ns). signed x)"
        using ms(2) r by (simp only: list_all_iff)
      have "request_fits (ms @ sl # ns) (count_rows (\<lambda>x. sig_request x = sr_id r) (signatures s)) r"
        using was unfolding request_ok_def ms(1) .
      then have "request_fits (ms @ signed_slot E a sl # ns)
          (count_rows (\<lambda>x. sig_request x = sr_id r) (signatures s @ [g])) (?h r)"
        using mine g signed(2) unfolding all by (simp add: request_fits_def signed_slot_def open_slot_def)
      moreover have "sr_id (?h r) = sr_id r" by simp
      ultimately show ?thesis unfolding request_ok_def signed(5) using ms(2) by simp
    qed
    show "request_ok (signer_slots ?s') (signatures ?s') x"
      if "request_ok (signer_slots ?s') (signatures s) x" "sr_id x \<noteq> sr_id r" for x
      using that g by (simp add: signed(5) request_ok_other_signature)
    show "unique_on sig_id (signatures ?s')"
      using ok signed(4) by (auto simp: signed(5) sig_ok_def)
  qed (simp_all add: signed_slot_def signed(5) g)
qed

lemma decline_ok_step:
  assumes ok: "sig_ok s"
  shows "sig_ok (snd (decline E a t s))"
  using ok
proof (cases rule: decline_cases [of s E a t])
  case (error e)
  with ok show ?thesis by simp
next
  case (declined sl r)
  let ?s' = "snd (decline E a t s)"
  have r: "sr_id r = sl_request sl"
    using declined(2) find_requestD by (auto simp: open_slot_def)
  have mine: "sr_status r = SG_PENDING" and
    "\<exists>ms ns. filter (\<lambda>x. sl_request x = sr_id r) (signer_slots s) = ms @ sl # ns \<and>
       filter (\<lambda>x. sl_request x = sr_id r) (signer_slots ?s') = ms @ declined_slot E a sl # ns"
    using settled_request [OF ok declined(2) _ _ declined(4)] by (simp_all add: declined_slot_def)
  then obtain ms ns where ms:
      "filter (\<lambda>x. sl_request x = sr_id r) (signer_slots s) = ms @ sl # ns"
      "filter (\<lambda>x. sl_request x = sr_id r) (signer_slots ?s') = ms @ declined_slot E a sl # ns" by blast
  have was: "request_ok (signer_slots s) (signatures s) r"
    using ok find_requestD [of "sl_request sl" s r] declined(2) by (simp add: sig_ok_def open_slot_def)
  show ?thesis
  proof (rule sig_ok_settle [OF ok declined(2) _ _ _ declined(4,5)])
    show "request_ok (signer_slots ?s') (signatures ?s') (r\<lparr>sr_status := SG_DECLINED\<rparr>)"
    proof -
      have "request_fits (ms @ sl # ns) (count_rows (\<lambda>x. sig_request x = sr_id r) (signatures s)) r"
        using was unfolding request_ok_def ms(1) .
      then have "request_fits (ms @ declined_slot E a sl # ns)
          (count_rows (\<lambda>x. sig_request x = sr_id r) (signatures s)) (r\<lparr>sr_status := SG_DECLINED\<rparr>)"
        using mine declined(2) by (simp add: request_fits_def declined_slot_def open_slot_def)
      then show ?thesis unfolding request_ok_def declined(3) using ms(2) by simp
    qed
    show "unique_on sig_id (signatures ?s')"
      using ok by (simp add: declined(3) sig_ok_def)
  qed (simp_all add: declined_slot_def declined(3) subset_insertI)
qed


lemma revoke_ok_step:
  assumes ok: "sig_ok s"
  shows "sig_ok (snd (revoke a i s))"
  using revoke_cases [of a i s]
proof (elim disjE exE conjE)
  fix r
  assume r: "find_request i s = Some r" "sr_status r = SG_PENDING"
    and run: "revoke a i s = (Inr (r\<lparr>sr_status := SG_REVOKED\<rparr>), set_request_status i SG_REVOKED s)"
  have "sr_status x \<noteq> SG_SIGNED" if "x \<in> set (signature_requests s)" "sr_id x = i" for x
  proof -
    have "x = r"
      using ok find_requestD [OF r(1)] that by (auto simp: sig_ok_def intro: unique_onD)
    with r(2) show ?thesis by simp
  qed
  then show ?thesis
    using ok by (auto simp: run set_request_status_def sig_ok_def image_update_rows request_ok_status)
qed (use ok in simp)

lemma proof_again_same [simp]:
  "sig_id (proof_again E g) = sig_id g" "sig_request (proof_again E g) = sig_request g"
  "sig_signer (proof_again E g) = sig_signer g" "sig_hash (proof_again E g) = sig_hash g"
  "sig_ndy_id (proof_again E g) = sig_ndy_id g" "sig_consent (proof_again E g) = sig_consent g"
  "sig_signed_at (proof_again E g) = sig_signed_at g"
  by (simp_all add: proof_again_def attested_again_def)

lemma reattest_ok_step:
  assumes ok: "sig_ok s"
  shows "sig_ok (snd (reattest E i s))"
proof -
  have "count_rows (\<lambda>g. sig_request g = j) (update_rows P (proof_again E) (signatures s)) =
      count_rows (\<lambda>g. sig_request g = j) (signatures s)" for P j
    by (rule count_rows_update_keep) simp
  moreover have "sig_request ` set (update_rows P (proof_again E) (signatures s)) = sig_request ` set (signatures s)" for P
    by (rule image_update_rows) simp
  moreover have "snd (reattest E i s) = s \<or>
      (\<exists>P. snd (reattest E i s) = s\<lparr>signatures := update_rows P (proof_again E) (signatures s)\<rparr>)"
    using reattest_cases [of s E i] ok by (auto simp: sig_ok_def)
  ultimately show ?thesis
    using ok by (elim disjE exE) (simp_all add: sig_ok_def request_ok_def)
qed

lemma new_slots_fields:
  assumes "x \<in> set (new_slots E d)"
  shows "sl_request x = new_id E T_SignatureRequest 0 \<and> sl_signed_at x = None \<and> sl_declined_at x = None \<and>
    sl_expires x = or_else (qd_expires d) (now E + signer_token_ttl)"
  using assms by (auto simp: new_slots_def new_slot_def)

lemma create_ok_step:
  assumes ok: "sig_ok s"
  shows "sig_ok (snd (create_signature_request E a d s))"
proof (cases rule: create_request_cases [of E a d s])
  case (error e)
  with ok show ?thesis by simp
next
  case (created ls)
  let ?r = "new_signature_request E a d"
  have r: "sr_id ?r = new_id E T_SignatureRequest 0" "sr_status ?r = SG_PENDING" "sr_expires ?r = qd_expires d"
    by (simp_all add: new_signature_request_def)
  have old: "sl_request x \<noteq> sr_id ?r" if "x \<in> set (signer_slots s)" for x
    using ok created(2) that by (auto simp: sig_ok_def r)
  have sigs: "sig_request g \<noteq> sr_id ?r" if "g \<in> set (signatures s)" for g
    using ok created(2) that by (auto simp: sig_ok_def r)
  have mine: "filter (\<lambda>x. sl_request x = sr_id ?r) (signer_slots s @ new_slots E d) = new_slots E d"
    using old new_slots_fields by (auto simp: r filter_empty_conv filter_id_conv)
  have "count_rows (\<lambda>g. sig_request g = sr_id ?r) (signatures s) = 0"
    "count_rows signed (new_slots E d) = 0"
    using sigs new_slots_fields by (auto simp: count_rows_0_iff)
  then have new: "request_ok (signer_slots s @ new_slots E d) (signatures s) ?r"
    unfolding request_ok_def mine using new_slots_fields
    by (cases "qd_expires d") (auto simp: request_fits_def r neq_Nil_conv)
  have others: "request_ok (signer_slots s @ new_slots E d) (signatures s) x"
    if "x \<in> set (signature_requests s)" for x
  proof -
    have "filter (\<lambda>y. sl_request y = sr_id x) (new_slots E d) = []"
      using created(2) that new_slots_fields by (auto simp: filter_empty_conv)
    moreover have "request_ok (signer_slots s) (signatures s) x" using ok that by (simp add: sig_ok_def)
    ultimately show ?thesis by (simp add: request_ok_def)
  qed
  have "sl_request ` set (new_slots E d) \<subseteq> {sr_id ?r}"
    using new_slots_fields by (auto simp: r)
  moreover have "unique_on sl_id (signer_slots s @ new_slots E d)" "unique_on sl_token (signer_slots s @ new_slots E d)"
    using created(3,4) by (simp_all add: unique_on_def)
  moreover have "sr_id ?r \<notin> sr_id ` set (signature_requests s)"
    using created(2) by (auto simp: r)
  ultimately show ?thesis
    using ok new others by (auto simp: sig_ok_def created)
qed

section \<open>Runs\<close>

datatype signature_op =
    CreateRequest signing_actor signature_dto
  | SignSlot signing_actor string "string option" "string option"
  | DeclineSlot signing_actor string
  | RevokeRequest signing_actor id
  | Reattest id

fun signature_step :: "env \<times> signature_op \<Rightarrow> db \<Rightarrow> bool \<times> db" where
  "signature_step (E, CreateRequest a d) s = answered (create_signature_request E a d s)"
| "signature_step (E, SignSlot a t ip agent) s = answered (sign E a t ip agent s)"
| "signature_step (E, DeclineSlot a t) s = answered (decline E a t s)"
| "signature_step (E, RevokeRequest a i) s = answered (revoke a i s)"
| "signature_step (E, Reattest i) s = answered (reattest E i s)"

lemma signature_step_ok: "sig_ok s \<Longrightarrow> sig_ok (snd (signature_step a s))"
  by (cases "(a, s)" rule: signature_step.cases)
    (simp_all add: create_ok_step sign_ok_step decline_ok_step revoke_ok_step reattest_ok_step)


section \<open>Slots and requests settle\<close>

inductive signature_move :: "signature_status \<Rightarrow> signature_status \<Rightarrow> bool" where
  all_signed: "signature_move SG_PENDING SG_SIGNED"
| one_declined: "signature_move SG_PENDING SG_DECLINED"
| creator_revoked: "signature_move SG_PENDING SG_REVOKED"

inductive_simps signature_move_from [simp]: "signature_move SG_PENDING st"

definition closed_slot :: "signer_slot \<Rightarrow> bool" where
  "closed_slot x = (sl_signed_at x \<noteq> None \<or> sl_declined_at x \<noteq> None)"

text \<open>Where and for whom a slot is stays; a signed or declined slot does not change.\<close>

definition slot_later :: "signer_slot \<Rightarrow> signer_slot \<Rightarrow> bool" where
  "slot_later x y =
     (sl_id y = sl_id x \<and> sl_request y = sl_request x \<and> sl_token y = sl_token x \<and>
      sl_email y = sl_email x \<and> sl_expires y = sl_expires x \<and> (closed_slot x \<longrightarrow> y = x))"

text \<open>A request keeps its document; its status settles once.\<close>

definition request_later :: "signature_request \<Rightarrow> signature_request \<Rightarrow> bool" where
  "request_later x y =
     (y\<lparr>sr_status := sr_status x\<rparr> = x \<and> (sr_status y = sr_status x \<or> signature_move (sr_status x) (sr_status y)))"

lemma no_second_move: "signature_move a b \<Longrightarrow> \<not> signature_move b c"
  by (auto elim!: signature_move.cases)

lemma request_later_iff:
  "request_later x y \<longleftrightarrow>
     sr_id y = sr_id x \<and> sr_title y = sr_title x \<and> sr_hash y = sr_hash x \<and> sr_ref y = sr_ref x \<and>
     sr_creator y = sr_creator x \<and> sr_creator_ndy_id y = sr_creator_ndy_id x \<and>
     sr_expires y = sr_expires x \<and> sr_created_at y = sr_created_at x \<and>
     (sr_status y = sr_status x \<or> signature_move (sr_status x) (sr_status y))"
  by (cases x; cases y) (auto simp: request_later_def)

interpretation slot_history: row_history slot_later
  by unfold_locales (auto simp: slot_later_def)

interpretation request_history: row_history request_later
  by unfold_locales (auto simp: request_later_iff dest: no_second_move)

definition signing_later :: "db \<Rightarrow> db \<Rightarrow> bool" where
  "signing_later s s' =
     (rows_advance slot_later (signer_slots s) (signer_slots s') \<and>
      rows_advance request_later (signature_requests s) (signature_requests s'))"

lemma signing_later_same [simp]: "signing_later s s"
  by (simp add: signing_later_def)

lemma signing_later_trans: "signing_later s1 s2 \<Longrightarrow> signing_later s2 s3 \<Longrightarrow> signing_later s1 s3"
  unfolding signing_later_def
  by (blast intro: slot_history.advance_trans request_history.advance_trans)

lemma settle_later:
  assumes ok: "sig_ok s" and opened: "open_slot E t a s sl r"
    and f: "slot_later sl (f sl)" and h: "request_later r (h r)"
  shows "rows_advance slot_later (signer_slots s) (update_rows (\<lambda>x. sl_id x = sl_id sl) f (signer_slots s)) \<and>
    rows_advance request_later (signature_requests s)
      (update_rows (\<lambda>x. sr_id x = sl_request sl) h (signature_requests s))"
proof -
  have sl: "sl \<in> set (signer_slots s)" and r: "r \<in> set (signature_requests s)" "sr_id r = sl_request sl"
    using opened find_slotD find_requestD by (auto simp: open_slot_def)
  have "x = sl" if "x \<in> set (signer_slots s)" "sl_id x = sl_id sl" for x
    using ok that sl by (auto simp: sig_ok_def intro: unique_onD)
  moreover have "x = r" if "x \<in> set (signature_requests s)" "sr_id x = sl_request sl" for x
    using ok that r by (auto simp: sig_ok_def intro: unique_onD)
  ultimately show ?thesis
    using f h by (auto intro!: slot_history.advance_update request_history.advance_update)
qed

lemma open_slot_pending:
  assumes "sig_ok s" and "open_slot E t a s sl r"
  shows "sr_status r = SG_PENDING" "\<not> closed_slot sl"
proof -
  have "request_ok (signer_slots s) (signatures s) r"
    using assms find_requestD [of "sl_request sl" s r] by (simp add: sig_ok_def open_slot_def)
  then show "sr_status r = SG_PENDING"
    using assms(2) by (cases "sr_status r") (auto simp: open_slot_def request_ok_def request_fits_def)
  show "\<not> closed_slot sl" using assms(2) by (simp add: open_slot_def closed_slot_def)
qed

lemma signature_step_later:
  assumes ok: "sig_ok s"
  shows "signing_later s (snd (signature_step (E, op) s))"
proof (cases op)
  case (CreateRequest a d)
  show ?thesis
    by (cases rule: create_request_cases [of E a d s]) (simp_all add: CreateRequest signing_later_def)
next
  case (SignSlot a t ip agent)
  from ok show ?thesis
  proof (cases rule: sign_cases [of s E a t ip agent])
    case (signed sl r g st)
    note pending = open_slot_pending [OF ok signed(2)]
    have "slot_later sl (signed_slot E a sl)"
      using pending(2) by (simp add: slot_later_def signed_slot_def)
    from settle_later [OF ok signed(2), where f = "signed_slot E a", OF this, of "\<lambda>x. x\<lparr>sr_status := SG_SIGNED\<rparr>"] pending(1)
    show ?thesis by (simp add: SignSlot signing_later_def signed(6,7) request_later_iff)
  qed (simp add: SignSlot)
next
  case (DeclineSlot a t)
  from ok show ?thesis
  proof (cases rule: decline_cases [of s E a t])
    case (declined sl r)
    note pending = open_slot_pending [OF ok declined(2)]
    have "slot_later sl (declined_slot E a sl)"
      using pending(2) by (simp add: slot_later_def declined_slot_def)
    from settle_later [OF ok declined(2), where f = "declined_slot E a", OF this, of "\<lambda>x. x\<lparr>sr_status := SG_DECLINED\<rparr>"] pending(1)
    show ?thesis by (simp add: DeclineSlot signing_later_def declined(4,5) request_later_iff)
  qed (simp add: DeclineSlot)
next
  case (RevokeRequest a i)
  show ?thesis using revoke_cases [of a i s]
  proof (elim disjE exE conjE)
    fix r
    assume r: "find_request i s = Some r" "sr_status r = SG_PENDING"
      and run: "revoke a i s = (Inr (r\<lparr>sr_status := SG_REVOKED\<rparr>), set_request_status i SG_REVOKED s)"
    have "x = r" if "x \<in> set (signature_requests s)" "sr_id x = i" for x
      using ok find_requestD [OF r(1)] that by (auto simp: sig_ok_def intro: unique_onD)
    then have "rows_advance request_later (signature_requests s)
        (update_rows (\<lambda>x. sr_id x = i) (\<lambda>x. x\<lparr>sr_status := SG_REVOKED\<rparr>) (signature_requests s))"
      using r(2) by (intro request_history.advance_update) (auto simp: request_later_iff)
    then show ?thesis by (simp add: RevokeRequest run signing_later_def set_request_status_def)
  qed (simp add: RevokeRequest)
next
  case (Reattest i)
  have "signature_requests (snd (reattest E i s)) = signature_requests s"
    "signer_slots (snd (reattest E i s)) = signer_slots s"
    using reattest_cases [of s E i] ok by (auto simp: sig_ok_def)
  then show ?thesis by (simp add: Reattest signing_later_def)
qed


section \<open>Links work once\<close>

fun used_link :: "env \<times> signature_op \<Rightarrow> string option" where
  "used_link (E, SignSlot a t ip agent) = Some (sha256 E t)"
| "used_link (E, DeclineSlot a t) = Some (sha256 E t)"
| "used_link _ = None"

definition link_spent :: "string \<Rightarrow> db \<Rightarrow> bool" where
  "link_spent k s = (\<exists>x \<in> set (signer_slots s). sl_token x = k \<and> closed_slot x)"

lemma link_spent_later: "signing_later s s' \<Longrightarrow> link_spent k s \<Longrightarrow> link_spent k s'"
  unfolding link_spent_def signing_later_def
  by (metis slot_history.advance_member slot_later_def)

lemma spent_slot:
  assumes "sig_ok s" and "link_spent k s" and "find_slot k s = Some sl"
  shows "closed_slot sl"
proof -
  obtain x where x: "x \<in> set (signer_slots s)" "sl_token x = k" "closed_slot x"
    using assms(2) by (auto simp: link_spent_def)
  moreover have "unique_on sl_token (signer_slots s)" using assms(1) by (simp add: sig_ok_def)
  ultimately have "sl = x"
    using find_slotD [OF assms(3)] by (auto intro: unique_onD)
  with x(3) show ?thesis by simp
qed

lemma open_slot_unspent:
  assumes "sig_ok s" and "open_slot E t a s sl r"
  shows "\<not> link_spent (sha256 E t) s"
  using assms open_slot_pending(2) [OF assms] spent_slot [OF assms(1)] by (auto simp: open_slot_def)

lemma closed_spends:
  assumes "open_slot E t a s sl r" and "sl_token (f sl) = sl_token sl" and "closed_slot (f sl)"
    and "signer_slots s' = update_rows (\<lambda>x. sl_id x = sl_id sl) f (signer_slots s)"
  shows "link_spent (sha256 E t) s'"
proof -
  have "sl \<in> set (signer_slots s)" "sl_token sl = sha256 E t"
    using assms(1) find_slotD by (auto simp: open_slot_def)
  then have "f sl \<in> set (signer_slots s')" using assms(4) by (force simp: update_rows_def)
  with assms(2,3) \<open>sl_token sl = _\<close> show ?thesis by (auto simp: link_spent_def)
qed

lemma link_use:
  assumes ok: "sig_ok s" and link: "used_link (E, op) = Some k" and did: "fst (signature_step (E, op) s)"
  shows "\<not> link_spent k s \<and> link_spent k (snd (signature_step (E, op) s))"
proof (cases op)
  case (SignSlot a t ip agent)
  from ok show ?thesis
  proof (cases rule: sign_cases [of s E a t ip agent])
    case (error e)
    with did show ?thesis by (simp add: SignSlot)
  next
    case (signed sl r g st)
    have k: "k = sha256 E t" using link by (simp add: SignSlot)
    have "link_spent (sha256 E t) (snd (sign E a t ip agent s))"
      by (rule closed_spends [OF signed(2) _ _ signed(6)]) (simp_all add: signed_slot_def closed_slot_def)
    then show ?thesis
      using open_slot_unspent [OF ok signed(2)] by (simp add: SignSlot k)
  qed
next
  case (DeclineSlot a t)
  from ok show ?thesis
  proof (cases rule: decline_cases [of s E a t])
    case (error e)
    with did show ?thesis by (simp add: DeclineSlot)
  next
    case (declined sl r)
    have k: "k = sha256 E t" using link by (simp add: DeclineSlot)
    have "link_spent (sha256 E t) (snd (decline E a t s))"
      by (rule closed_spends [OF declined(2) _ _ declined(4)]) (simp_all add: declined_slot_def closed_slot_def)
    then show ?thesis
      using open_slot_unspent [OF ok declined(2)] by (simp add: DeclineSlot k)
  qed
qed (use link in simp_all)

interpretation signing_links:
  single_use signature_step sig_ok used_link "\<lambda>r. r" link_spent
proof (unfold_locales, goal_cases)
  case (1 s a)
  then show ?case by (rule signature_step_ok)
next
  case (2 s a k)
  then show ?case using link_use [of s "fst a" "snd a" k] by simp
next
  case (3 s a k)
  then show ?case using link_use [of s "fst a" "snd a" k] by auto
next
  case (4 s k a)
  then show ?case using signature_step_later [of s "fst a" "snd a"] link_spent_later by (metis prod.collapse)
qed

text \<open>
  A signing link works once.  In any run of requests, signatures, refusals, revocations and
  renewed attestations, from any consistent state, a link is used to sign or to decline at most
  once.
\<close>

theorem signing_link_single_use:
  assumes "sig_ok s"
  shows "count_rows (\<lambda>e. used_link (fst e) = Some k \<and> snd e) (run_log signature_step ops s) \<le> 1"
  using signing_links.at_most_once [OF assms, of k ops] unfolding signing_links.redeems_def .

lemma run_later: "sig_ok s \<Longrightarrow> signing_later s (run_ops signature_step ops s)"
proof (induction ops arbitrary: s)
  case (Cons a ops)
  have "signing_later s (snd (signature_step a s))"
    using signature_step_later [OF Cons.prems, of "fst a" "snd a"] by simp
  from signing_later_trans [OF this Cons.IH [OF signature_step_ok [OF Cons.prems]]] show ?case
    by simp
qed simp

text \<open>
  C22. Requests settle once and are complete.  Any run refines the lifecycle in which a pending
  request is signed, declined or revoked and then stays so, its document untouched; and in every
  state reached a request is signed exactly when all its slots are, with one signature for each.
\<close>

theorem signature_requests_settle:
  assumes "sig_ok s"
  shows "rows_advance request_later (signature_requests s)
      (signature_requests (run_ops signature_step ops s)) \<and>
    sig_ok (run_ops signature_step ops s)"
  using run_later [OF assms, of ops] signing_links.run_inv [OF assms, of ops]
  by (simp add: signing_later_def)

section \<open>Every signature is backed\<close>

definition signature_backed :: "db \<Rightarrow> signature_row \<Rightarrow> bool" where
  "signature_backed s g =
     (\<exists>x \<in> set (signer_slots s). \<exists>r \<in> set (signature_requests s).
        sl_request x = sig_request g \<and> sr_id r = sig_request g \<and> sl_user x = Some (sig_signer g) \<and>
        sl_signed_at x = Some (sig_signed_at g) \<and> sig_hash g = sr_hash r \<and>
        sig_consent g = Some signature_consent_text)"

text \<open>A signature that counts as verified carries a validated proof of its own claims; no other carries any.\<close>

definition proof_backed :: "signature_row \<Rightarrow> bool" where
  "proof_backed g =
     (if sig_status g = AT_VERIFIED
      then \<exists>E jws. sig_attestation g = Some jws \<and> attestation_error E jws = None \<and>
             attest E (attestation_claims E (sig_id g) (sig_ndy_id g) (sig_hash g) (sig_request g)
               (sig_signed_at g)) = Inr jws
      else sig_attestation g = None)"

definition all_backed :: "db \<Rightarrow> bool" where
  "all_backed s = (\<forall>g \<in> set (signatures s). signature_backed s g \<and> proof_backed g)"

lemma backed_later:
  assumes "signing_later s s'" and "signature_backed s g"
  shows "signature_backed s' g"
proof -
  obtain x r where x: "x \<in> set (signer_slots s)" "sl_request x = sig_request g"
      "sl_user x = Some (sig_signer g)" "sl_signed_at x = Some (sig_signed_at g)"
    and r: "r \<in> set (signature_requests s)" "sr_id r = sig_request g" "sig_hash g = sr_hash r"
      "sig_consent g = Some signature_consent_text"
    using assms(2) by (auto simp: signature_backed_def)
  obtain x' where "x' \<in> set (signer_slots s')" "slot_later x x'"
    using assms(1) slot_history.advance_member x(1) unfolding signing_later_def by blast
  then have "x \<in> set (signer_slots s')" using x(4) by (simp add: slot_later_def closed_slot_def)
  moreover obtain r' where "r' \<in> set (signature_requests s')" "request_later r r'"
    using assms(1) request_history.advance_member r(1) unfolding signing_later_def by blast
  ultimately show ?thesis
    using x r unfolding signature_backed_def
    by (intro bexI [of _ x] bexI [of _ r']) (auto simp: request_later_iff)
qed

lemma attest_backed:
  "at = attest_signature E i ndy h rid t \<Longrightarrow>
     (if at_status at = AT_VERIFIED
      then \<exists>E jws. at_jws at = Some jws \<and> attestation_error E jws = None \<and>
             attest E (attestation_claims E i ndy h rid t) = Inr jws
      else at_jws at = None)"
  by (auto simp: attest_signature_def attestation_failed_def split: sum.splits option.splits)

lemma new_signature_proof: "proof_backed (new_signature E a r ip agent)"
proof -
  let ?at = "attest_signature E (new_id E T_Signature 0) (sa_ndy_id a) (sr_hash r) (sr_id r) (now E)"
  have "sig_status (new_signature E a r ip agent) = at_status ?at"
    "sig_attestation (new_signature E a r ip agent) = at_jws ?at"
    "sig_id (new_signature E a r ip agent) = new_id E T_Signature 0"
    "sig_ndy_id (new_signature E a r ip agent) = sa_ndy_id a"
    "sig_hash (new_signature E a r ip agent) = sr_hash r"
    "sig_request (new_signature E a r ip agent) = sr_id r"
    "sig_signed_at (new_signature E a r ip agent) = now E"
    by (simp_all add: new_signature_def Let_def)
  with attest_backed [OF refl [of ?at]] show ?thesis by (simp add: proof_backed_def)
qed

lemma all_backed_step:
  assumes ok: "sig_ok s" and backed: "all_backed s"
  shows "all_backed (snd (signature_step (E, op) s))"
proof -
  note later = signature_step_later [OF ok, of E op]
  have old: "signature_backed (snd (signature_step (E, op) s)) g" if "g \<in> set (signatures s)" for g
    using backed_later [OF later] backed that by (simp add: all_backed_def)
  show ?thesis
  proof (cases op)
    case (CreateRequest a d)
    have "signatures (snd (create_signature_request E a d s)) = signatures s"
      by (cases rule: create_request_cases [of E a d s]) simp_all
    with old backed show ?thesis by (simp add: all_backed_def CreateRequest)
  next
    case (SignSlot a t ip agent)
    from ok show ?thesis
    proof (cases rule: sign_cases [of s E a t ip agent])
      case (error e)
      with backed show ?thesis by (simp add: SignSlot)
    next
      case (signed sl r g st)
      let ?s' = "snd (signature_step (E, op) s)"
      have sl: "sl \<in> set (signer_slots s)" and r: "r \<in> set (signature_requests s)" "sr_id r = sl_request sl"
        using signed(2) find_slotD find_requestD by (auto simp: open_slot_def)
      have "signed_slot E a sl \<in> set (signer_slots ?s')"
        using sl by (force simp: SignSlot signed(6) update_rows_def)
      moreover obtain r' where "r' \<in> set (signature_requests ?s')" "request_later r r'"
        using later request_history.advance_member r(1) unfolding signing_later_def by blast
      ultimately have "signature_backed ?s' g"
        using r(2) by (auto simp: signature_backed_def signed(3) new_signature_def Let_def signed_slot_def
            request_later_iff intro!: bexI [of _ "signed_slot E a sl"] bexI [of _ r'])
      moreover have "proof_backed g" by (simp add: signed(3) new_signature_proof)
      ultimately show ?thesis
        using old backed by (auto simp: all_backed_def SignSlot signed(5))
    qed
  next
    case (DeclineSlot a t)
    from ok have "signatures (snd (decline E a t s)) = signatures s"
      by (cases rule: decline_cases [of s E a t]) simp_all
    with old backed show ?thesis by (simp add: all_backed_def DeclineSlot)
  next
    case (RevokeRequest a i)
    have "signatures (snd (revoke a i s)) = signatures s"
      using revoke_cases [of a i s] by (auto simp: set_request_status_def)
    with old backed show ?thesis by (simp add: all_backed_def RevokeRequest)
  next
    case (Reattest i)
    have again: "proof_backed (proof_again E g)" for g
      using attest_backed [OF refl, of E "sig_id g" "sig_ndy_id g" "sig_hash g" "sig_request g" "sig_signed_at g"]
      by (simp add: proof_backed_def) (simp add: proof_again_def attested_again_def)
    have same: "signature_backed s' (proof_again E g) = signature_backed s' g" for s' g
      by (simp add: signature_backed_def)
    have "snd (reattest E i s) = s \<or>
        (\<exists>P. snd (reattest E i s) = s\<lparr>signatures := update_rows P (proof_again E) (signatures s)\<rparr>)"
      using reattest_cases [of s E i] ok by (auto simp: sig_ok_def)
    then show ?thesis
    proof (elim disjE exE)
      fix P
      assume run: "snd (reattest E i s) = s\<lparr>signatures := update_rows P (proof_again E) (signatures s)\<rparr>"
      have "signature_backed (s\<lparr>signatures := gs\<rparr>) g = signature_backed s g" for gs g
        by (simp add: signature_backed_def)
      with backed again same show ?thesis
        by (auto simp: Reattest run all_backed_def update_rows_def)
    qed (use backed in \<open>simp add: Reattest\<close>)
  qed
qed

text \<open>
  C23. Every signature is backed by what happened.  From no signatures, after any run, each recorded
  signature belongs to a slot of its request that its signer filled at that moment, carries the
  document hash and the consent text of the request, and if it counts as verified it carries a
  proof over exactly its own claims that has been validated; an unverified one carries none.  The
  public verification page shows a proof or a key for a verified signature only, in any state; after
  the run the proof it shows is the validated one of that signature.
\<close>

theorem signatures_are_backed:
  assumes "sig_ok s" and "signatures s = []"
  shows "all_backed (run_ops signature_step ops s) \<and>
    (verify_signature E i t = Inr v \<longrightarrow> sv_status v \<noteq> AT_VERIFIED \<longrightarrow>
       sv_attestation v = None \<and> sv_key_id v = None) \<and>
    (verify_signature E i (run_ops signature_step ops s) = Inr v \<longrightarrow> sv_status v = AT_VERIFIED \<longrightarrow>
       (\<exists>E' jws. sv_attestation v = Some jws \<and> attestation_error E' jws = None \<and>
          attest E' (attestation_claims E' (sv_id v) (sv_ndy_id v) (sv_hash v) (sv_request v) (sv_signed_at v)) = Inr jws))"
proof -
  have shown: ?thesis if b: "all_backed (run_ops signature_step ops s)"
  proof (intro conjI impI)
    assume v: "verify_signature E i (run_ops signature_step ops s) = Inr v" "sv_status v = AT_VERIFIED"
    then obtain g where g: "find_signature i (run_ops signature_step ops s) = Some g" "sig_status g = AT_VERIFIED"
      "sv_attestation v = sig_attestation g" "sv_id v = sig_id g" "sv_ndy_id v = sig_ndy_id g"
      "sv_hash v = sig_hash g" "sv_request v = sig_request g" "sv_signed_at v = sig_signed_at g"
      by (auto simp: verify_signature_def Let_def split: option.splits)
    then have "g \<in> set (signatures (run_ops signature_step ops s))"
      unfolding find_signature_def by (blast dest: find_row_Some_D)
    with b g(2) show "\<exists>E' jws. sv_attestation v = Some jws \<and> attestation_error E' jws = None \<and>
        attest E' (attestation_claims E' (sv_id v) (sv_ndy_id v) (sv_hash v) (sv_request v) (sv_signed_at v)) = Inr jws"
      unfolding g(3-8) by (auto simp: all_backed_def proof_backed_def)
  qed (use b in \<open>auto simp: verify_signature_def Let_def split: option.splits if_splits\<close>)
  have "all_backed s \<Longrightarrow> all_backed (run_ops signature_step ops s)"
    using assms(1)
  proof (induction ops arbitrary: s)
    case (Cons a ops)
    then show ?case
      using all_backed_step [of s "fst a" "snd a"] signature_step_ok by simp
  qed simp
  with assms(2) have "all_backed (run_ops signature_step ops s)" by (simp add: all_backed_def)
  then show ?thesis by (rule shown)
qed

section \<open>A concrete request\<close>

definition demo_signer :: "id \<Rightarrow> signing_actor" where
  "demo_signer i = \<lparr>sa_sub = i, sa_ndy_id = ''NDY-'' @ i\<rparr>"

definition demo_signing :: "(env \<times> signature_op) list" where
  "demo_signing =
     [(demo_env 1, CreateRequest (demo_signer ''a1'')
         \<lparr>qd_title = ''Lease'', qd_hash = ''abc'', qd_ref = None, qd_expires = Some 100,
          qd_signers = [\<lparr>sd_user = Some ''m1'', sd_email = None\<rparr>,
                        \<lparr>sd_user = None, sd_email = Some ''a2@x.y''\<rparr>]\<rparr>),
      (demo_env 2, SignSlot (demo_signer ''m1'') ''ABCDE0'' None None),
      (demo_env 3, SignSlot (demo_signer ''m1'') ''ABCDE0'' None None),
      (demo_env 4, SignSlot (demo_signer ''m1'') ''ABCDE1'' None None),
      ((demo_env 5)\<lparr>new_id := (\<lambda>_ _. ''x'')\<rparr>, SignSlot (demo_signer ''a2'') ''ABCDE1'' None None)]"

lemma sig_ok_demo: "sig_ok demo_db" "signatures demo_db = []"
  by (simp_all add: sig_ok_def demo_db_def empty_db_def unique_on_def)

theorem signing_link_single_use_witness:
  "map snd (run_log signature_step demo_signing demo_db) = [True, True, False, False, True] \<and>
   count_rows (\<lambda>e. used_link (fst e) = Some ''ABCDE0'' \<and> snd e) (run_log signature_step demo_signing demo_db) \<le> 1"
proof
  show "map snd (run_log signature_step demo_signing demo_db) = [True, True, False, False, True]"
    by code_simp
qed (rule signing_link_single_use [OF sig_ok_demo(1)])

theorem signature_requests_settle_witness:
  "map sr_status (signature_requests (run_ops signature_step demo_signing demo_db)) = [SG_SIGNED] \<and>
   sig_ok (run_ops signature_step demo_signing demo_db)"
proof
  show "map sr_status (signature_requests (run_ops signature_step demo_signing demo_db)) = [SG_SIGNED]"
    by code_simp
qed (use signature_requests_settle [OF sig_ok_demo(1), of demo_signing] in blast)

theorem signatures_are_backed_witness:
  "map sig_signer (signatures (run_ops signature_step demo_signing demo_db)) = [''m1'', ''a2''] \<and>
   all_backed (run_ops signature_step demo_signing demo_db)"
proof
  show "map sig_signer (signatures (run_ops signature_step demo_signing demo_db)) = [''m1'', ''a2'']"
    by code_simp
qed (use signatures_are_backed [OF sig_ok_demo] in blast)

section \<open>What goes wrong\<close>

text \<open>
  No request ever becomes \<^verbatim>\<open>EXPIRED\<close>: its slots expire at the same moment and their check comes
  first, so the transition is dead code, and an expired request stays pending and revocable.
\<close>

lemma never_expired:
  assumes "sig_ok s" and "r \<in> set (signature_requests (run_ops signature_step ops s))"
  shows "sr_status r \<noteq> SG_EXPIRED"
  using signing_links.run_inv [OF assms(1), of ops] assms(2)
  by (auto simp: sig_ok_def request_ok_def request_fits_def)

end
