(* ===== verification/Space.thy ===== *)
theory Space
  imports Rbac "HOL-Library.Product_Lexorder"
begin

text \<open>
  NDYSPACE without its mail: calendar, contacts, tasks, notes, bookmarks, the notification feed and
  the drive (\<^verbatim>\<open>ndyspace/ndyspace-*.service.ts\<close> and the routes of their controllers).  All of them keep
  rows that belong to one account and share the same three shapes of operation, which are stated
  once over a table description.
\<close>

section \<open>Tables of owned rows\<close>

text \<open>
  A table: its primary key, its owner column, how it is read and changed in the database, and the
  message of its \<^verbatim>\<open>NotFoundException\<close>.
\<close>

record 'r owned =
  ow_key :: "'r \<Rightarrow> id"
  ow_owner :: "'r \<Rightarrow> id"
  ow_get :: "db \<Rightarrow> 'r list"
  ow_set :: "('r list \<Rightarrow> 'r list) \<Rightarrow> db \<Rightarrow> db"
  ow_missing :: string

definition mine :: "'r owned \<Rightarrow> id \<Rightarrow> db \<Rightarrow> 'r list" where
  "mine T uid s = filter (\<lambda>x. ow_owner T x = uid) (ow_get T s)"

definition insert_owned :: "'r owned \<Rightarrow> 'r \<Rightarrow> (db, 'r) handler" where
  "insert_owned T x s =
     (if exists_row (\<lambda>y. ow_key T y = ow_key T x) (ow_get T s) then (throw unique_violation, s)
      else if find_user (ow_owner T x) s = None then (throw foreign_key_error, s)
      else (ok x, ow_set T (\<lambda>rows. rows @ [x]) s))"

text \<open>\<^verbatim>\<open>getOne\<close>: a row of somebody else is reported like one that is not there.\<close>

definition get_owned :: "'r owned \<Rightarrow> id \<Rightarrow> id \<Rightarrow> db \<Rightarrow> 'r reply" where
  "get_owned T uid i s =
     (case find_row (\<lambda>x. ow_key T x = i) (ow_get T s) of
        None \<Rightarrow> throw (NotFound (ow_missing T))
      | Some x \<Rightarrow> if ow_owner T x \<noteq> uid then throw (NotFound (ow_missing T)) else ok x)"

definition update_owned :: "'r owned \<Rightarrow> id \<Rightarrow> id \<Rightarrow> ('r \<Rightarrow> 'r) \<Rightarrow> (db, 'r) handler" where
  "update_owned T uid i f s =
     (case get_owned T uid i s of
        Inl e \<Rightarrow> (throw e, s)
      | Inr x \<Rightarrow> (ok (f x), ow_set T (update_rows (\<lambda>x. ow_key T x = i) f) s))"

definition remove_owned :: "'r owned \<Rightarrow> id \<Rightarrow> id \<Rightarrow> (db, id) handler" where
  "remove_owned T uid i s =
     (case get_owned T uid i s of
        Inl e \<Rightarrow> (throw e, s)
      | Inr x \<Rightarrow> (ok i, ow_set T (delete_rows (\<lambda>x. ow_key T x = i)) s))"

text \<open>
  A field of an update: \<^verbatim>\<open>undefined\<close> leaves the column, \<^verbatim>\<open>null\<close> clears it, and is refused by Prisma
  where the column is required.
\<close>

type_synonym 'a field = "'a option option"

definition nullable :: "'a field \<Rightarrow> 'a option \<Rightarrow> 'a option" where
  "nullable v old = (case v of None \<Rightarrow> old | Some x \<Rightarrow> x)"

definition required :: "'a field \<Rightarrow> 'a \<Rightarrow> 'a" where
  "required v old = (case v of Some (Some x) \<Rightarrow> x | _ \<Rightarrow> old)"

definition invalid_null :: http_error where
  "invalid_null = ServerError ''PrismaClientValidationError''"

section \<open>Calendar\<close>

definition calendar_table :: "calendar_event owned" where
  "calendar_table = \<lparr>ow_key = ce_id, ow_owner = ce_user, ow_get = calendar_events,
     ow_set = calendar_events_update, ow_missing = ''No event with that id.''\<rparr>"

record event_dto =
  cd_title :: string
  cd_description :: "string option"
  cd_start :: time
  cd_end :: time
  cd_color :: "string option"
  cd_attendees :: "string list option"

definition create_event :: "env \<Rightarrow> id \<Rightarrow> event_dto \<Rightarrow> (db, calendar_event) handler" where
  "create_event E uid d s =
     (if cd_end d < cd_start d then (throw (BadRequest ''endAt must not be before startAt.''), s)
      else insert_owned calendar_table
        \<lparr>ce_id = new_id E T_CalendarEvent 0, ce_user = uid, ce_title = cd_title d,
         ce_description = cd_description d, ce_start = cd_start d, ce_end = cd_end d,
         ce_color = or_else (cd_color d) ''#4f7cff'', ce_attendees = or_else (cd_attendees d) [],
         ce_created_at = now E\<rparr> s)"

definition list_events_in_range :: "id \<Rightarrow> time \<Rightarrow> time \<Rightarrow> db \<Rightarrow> calendar_event list" where
  "list_events_in_range uid a b s =
     sort_key ce_start (filter (\<lambda>e. a \<le> ce_start e \<and> ce_start e < b) (mine calendar_table uid s))"

definition list_upcoming_events :: "env \<Rightarrow> id \<Rightarrow> nat \<Rightarrow> db \<Rightarrow> calendar_event list" where
  "list_upcoming_events E uid n s =
     take n (sort_key ce_start (filter (\<lambda>e. now E \<le> ce_start e) (mine calendar_table uid s)))"

record event_update =
  cu_title :: "string field"
  cu_description :: "string field"
  cu_start :: "time field"
  cu_end :: "time field"
  cu_color :: "string field"
  cu_attendees :: "string list field"

definition apply_event_update :: "event_update \<Rightarrow> calendar_event \<Rightarrow> calendar_event" where
  "apply_event_update d e =
     e\<lparr>ce_title := required (cu_title d) (ce_title e),
       ce_description := nullable (cu_description d) (ce_description e),
       ce_start := required (cu_start d) (ce_start e), ce_end := required (cu_end d) (ce_end e),
       ce_color := required (cu_color d) (ce_color e),
       ce_attendees := required (cu_attendees d) (ce_attendees e)\<rparr>"

text \<open>The two dates are compared only when both are sent.\<close>

definition update_event :: "id \<Rightarrow> id \<Rightarrow> event_update \<Rightarrow> (db, calendar_event) handler" where
  "update_event uid i d s =
     (case get_owned calendar_table uid i s of
        Inl e \<Rightarrow> (throw e, s)
      | Inr _ \<Rightarrow>
          if (case (cu_start d, cu_end d) of (Some (Some a), Some (Some b)) \<Rightarrow> b < a | _ \<Rightarrow> False)
          then (throw (BadRequest ''endAt must not be before startAt.''), s)
          else if cu_title d = Some None \<or> cu_color d = Some None \<or> cu_attendees d = Some None
          then (throw invalid_null, s)
          else update_owned calendar_table uid i (apply_event_update d) s)"

section \<open>Contacts\<close>

definition contact_table :: "contact owned" where
  "contact_table = \<lparr>ow_key = cn_id, ow_owner = cn_user, ow_get = contacts, ow_set = contacts_update,
     ow_missing = ''No contact with that id.''\<rparr>"

record contact_dto =
  ct_name :: "string field"
  ct_email :: "string field"
  ct_phone :: "string field"
  ct_company :: "string field"
  ct_notes :: "string field"
  ct_ndy_id :: "string field"

definition apply_contact :: "contact_dto \<Rightarrow> contact \<Rightarrow> contact" where
  "apply_contact d c =
     c\<lparr>cn_full_name := required (ct_name d) (cn_full_name c), cn_email := nullable (ct_email d) (cn_email c),
       cn_phone := nullable (ct_phone d) (cn_phone c), cn_company := nullable (ct_company d) (cn_company c),
       cn_notes := nullable (ct_notes d) (cn_notes c), cn_ndy_id := nullable (ct_ndy_id d) (cn_ndy_id c)\<rparr>"

text \<open>\<^verbatim>\<open>{ userId, ...dto }\<close>; the name is required by the DTO.\<close>

definition create_contact :: "env \<Rightarrow> id \<Rightarrow> contact_dto \<Rightarrow> (db, contact) handler" where
  "create_contact E uid d =
     insert_owned contact_table (apply_contact d
       \<lparr>cn_id = new_id E T_Contact 0, cn_user = uid, cn_full_name = [], cn_email = None, cn_phone = None,
        cn_company = None, cn_notes = None, cn_ndy_id = None, cn_created_at = now E\<rparr>)"

text \<open>
  The order of names is the database's collation and the match of \<^verbatim>\<open>contains\<close> with
  \<^verbatim>\<open>mode: insensitive\<close> its \<^verbatim>\<open>ILIKE\<close>; both are parameters.
\<close>

definition list_contacts :: "(string \<Rightarrow> int) \<Rightarrow> id \<Rightarrow> db \<Rightarrow> contact list" where
  "list_contacts collation uid s = sort_key (\<lambda>c. collation (cn_full_name c)) (mine contact_table uid s)"

definition list_recent_contacts :: "id \<Rightarrow> nat \<Rightarrow> db \<Rightarrow> contact list" where
  "list_recent_contacts uid n s = take n (rev (sort_key cn_created_at (mine contact_table uid s)))"

definition search_contacts ::
  "(string \<Rightarrow> int) \<Rightarrow> (string \<Rightarrow> string \<Rightarrow> bool) \<Rightarrow> id \<Rightarrow> string \<Rightarrow> db \<Rightarrow> contact list" where
  "search_contacts collation ilike uid q s =
     (if trim q = [] then []
      else take 10 (sort_key (\<lambda>c. collation (cn_full_name c))
        (filter (\<lambda>c. ilike q (cn_full_name c) \<or> (case cn_email c of None \<Rightarrow> False | Some m \<Rightarrow> ilike q m))
          (mine contact_table uid s))))"

definition update_contact :: "id \<Rightarrow> id \<Rightarrow> contact_dto \<Rightarrow> (db, contact) handler" where
  "update_contact uid i d s =
     (case get_owned contact_table uid i s of
        Inl e \<Rightarrow> (throw e, s)
      | Inr _ \<Rightarrow> if ct_name d = Some None then (throw invalid_null, s)
                 else update_owned contact_table uid i (apply_contact d) s)"

section \<open>Tasks\<close>

definition task_table :: "task owned" where
  "task_table = \<lparr>ow_key = ta_id, ow_owner = ta_user, ow_get = tasks, ow_set = tasks_update,
     ow_missing = ''No task with that id.''\<rparr>"

fun priority_rank :: "task_priority \<Rightarrow> int" where
  "priority_rank TP_LOW = 0"
| "priority_rank TP_MEDIUM = 1"
| "priority_rank TP_HIGH = 2"

fun status_rank :: "task_status \<Rightarrow> int" where
  "status_rank TS_OPEN = 0"
| "status_rank TS_COMPLETED = 1"

definition create_task ::
  "env \<Rightarrow> id \<Rightarrow> string \<Rightarrow> string option \<Rightarrow> task_priority option \<Rightarrow> time option \<Rightarrow> (db, task) handler" where
  "create_task E uid title description priority due =
     insert_owned task_table
       \<lparr>ta_id = new_id E T_Task 0, ta_user = uid, ta_title = title, ta_description = description,
        ta_priority = or_else priority TP_MEDIUM, ta_status = TS_OPEN, ta_due = due,
        ta_completed_at = None, ta_created_at = now E\<rparr>"

definition list_tasks_by_status :: "id \<Rightarrow> task_status \<Rightarrow> db \<Rightarrow> task list" where
  "list_tasks_by_status uid st s =
     sort_key (\<lambda>t. (- priority_rank (ta_priority t), - ta_created_at t))
       (filter (\<lambda>t. ta_status t = st) (mine task_table uid s))"

definition list_all_tasks :: "id \<Rightarrow> db \<Rightarrow> task list" where
  "list_all_tasks uid s =
     sort_key (\<lambda>t. (status_rank (ta_status t), - priority_rank (ta_priority t), - ta_created_at t))
       (mine task_table uid s)"

record task_update =
  tu_title :: "string field"
  tu_description :: "string field"
  tu_priority :: "task_priority field"
  tu_status :: "task_status field"
  tu_due :: "time field"

definition apply_task_update :: "env \<Rightarrow> task_update \<Rightarrow> task \<Rightarrow> task" where
  "apply_task_update E d t =
     t\<lparr>ta_title := required (tu_title d) (ta_title t),
       ta_description := nullable (tu_description d) (ta_description t),
       ta_priority := required (tu_priority d) (ta_priority t),
       ta_status := required (tu_status d) (ta_status t),
       ta_due := (case tu_due d of Some (Some x) \<Rightarrow> Some x | _ \<Rightarrow> ta_due t),
       ta_completed_at := (case tu_status d of
            Some (Some TS_COMPLETED) \<Rightarrow> Some (now E)
          | Some (Some TS_OPEN) \<Rightarrow> None
          | _ \<Rightarrow> ta_completed_at t)\<rparr>"

definition update_task :: "env \<Rightarrow> id \<Rightarrow> id \<Rightarrow> task_update \<Rightarrow> (db, task) handler" where
  "update_task E uid i d s =
     (case get_owned task_table uid i s of
        Inl e \<Rightarrow> (throw e, s)
      | Inr _ \<Rightarrow>
          if tu_title d = Some None \<or> tu_priority d = Some None \<or> tu_status d = Some None
          then (throw invalid_null, s)
          else update_owned task_table uid i (apply_task_update E d) s)"

definition set_task_complete :: "env \<Rightarrow> id \<Rightarrow> id \<Rightarrow> bool \<Rightarrow> (db, task) handler" where
  "set_task_complete E uid i complete =
     update_owned task_table uid i (\<lambda>t.
       t\<lparr>ta_status := (if complete then TS_COMPLETED else TS_OPEN),
         ta_completed_at := (if complete then Some (now E) else None)\<rparr>)"

section \<open>Notes and bookmarks\<close>

definition note_table :: "note_row owned" where
  "note_table = \<lparr>ow_key = no_id, ow_owner = no_user, ow_get = note_rows, ow_set = note_rows_update,
     ow_missing = ''No note with that id.''\<rparr>"

definition create_note :: "env \<Rightarrow> id \<Rightarrow> string \<Rightarrow> string option \<Rightarrow> (db, note_row) handler" where
  "create_note E uid title body =
     insert_owned note_table \<lparr>no_id = new_id E T_Note 0, no_user = uid, no_title = title,
       no_body = or_else body '''', no_created_at = now E, no_updated_at = now E\<rparr>"

definition list_notes :: "id \<Rightarrow> db \<Rightarrow> note_row list" where
  "list_notes uid s = rev (sort_key no_updated_at (mine note_table uid s))"

definition update_note :: "env \<Rightarrow> id \<Rightarrow> id \<Rightarrow> string field \<Rightarrow> string field \<Rightarrow> (db, note_row) handler" where
  "update_note E uid i title body s =
     (case get_owned note_table uid i s of
        Inl e \<Rightarrow> (throw e, s)
      | Inr _ \<Rightarrow>
          if title = Some None \<or> body = Some None then (throw invalid_null, s)
          else update_owned note_table uid i (\<lambda>n. n\<lparr>no_title := required title (no_title n),
                 no_body := required body (no_body n), no_updated_at := now E\<rparr>) s)"

definition bookmark_table :: "bookmark owned" where
  "bookmark_table = \<lparr>ow_key = bm_id, ow_owner = bm_user, ow_get = bookmarks, ow_set = bookmarks_update,
     ow_missing = ''No bookmark with that id.''\<rparr>"

definition create_bookmark :: "env \<Rightarrow> id \<Rightarrow> string \<Rightarrow> string \<Rightarrow> (db, bookmark) handler" where
  "create_bookmark E uid title url =
     insert_owned bookmark_table \<lparr>bm_id = new_id E T_Bookmark 0, bm_user = uid, bm_title = title,
       bm_url = url, bm_created_at = now E\<rparr>"

definition list_bookmarks :: "id \<Rightarrow> db \<Rightarrow> bookmark list" where
  "list_bookmarks uid s = rev (sort_key bm_created_at (mine bookmark_table uid s))"

section \<open>The notification feed\<close>

definition feed_table :: "space_notification owned" where
  "feed_table = \<lparr>ow_key = sn_id, ow_owner = sn_user, ow_get = space_notifications,
     ow_set = space_notifications_update, ow_missing = ''No notification with that id.''\<rparr>"

definition recent_feed_limit :: nat where
  "recent_feed_limit = 20"

definition create_space_notification ::
  "env \<Rightarrow> nat \<Rightarrow> id \<Rightarrow> space_notification_type \<Rightarrow> string \<Rightarrow> (db, space_notification) handler" where
  "create_space_notification E n uid ty m =
     insert_owned feed_table \<lparr>sn_id = new_id E T_SpaceNotification n, sn_user = uid, sn_type = ty,
       sn_message = m, sn_read = False, sn_created_at = now E\<rparr>"

definition list_feed :: "id \<Rightarrow> db \<Rightarrow> space_notification list" where
  "list_feed uid s = take recent_feed_limit (rev (sort_key sn_created_at (mine feed_table uid s)))"

definition unread_feed_count :: "id \<Rightarrow> db \<Rightarrow> nat" where
  "unread_feed_count uid s = count_rows (\<lambda>n. \<not> sn_read n) (mine feed_table uid s)"

definition mark_feed_read :: "id \<Rightarrow> id \<Rightarrow> (db, space_notification) handler" where
  "mark_feed_read uid i = update_owned feed_table uid i (\<lambda>n. n\<lparr>sn_read := True\<rparr>)"

definition mark_feed_all_read :: "id \<Rightarrow> (db, nat) handler" where
  "mark_feed_all_read uid s =
     (ok (unread_feed_count uid s),
      s\<lparr>space_notifications := update_rows (\<lambda>n. sn_user n = uid \<and> \<not> sn_read n) (\<lambda>n. n\<lparr>sn_read := True\<rparr>)
          (space_notifications s)\<rparr>)"

section \<open>The drive\<close>

definition folder_table :: "drive_folder owned" where
  "folder_table = \<lparr>ow_key = df_id, ow_owner = df_user, ow_get = drive_folders,
     ow_set = drive_folders_update, ow_missing = ''No folder with that id.''\<rparr>"

definition file_table :: "drive_file owned" where
  "file_table = \<lparr>ow_key = dv_id, ow_owner = dv_user, ow_get = drive_files,
     ow_set = drive_files_update, ow_missing = ''No file with that id.''\<rparr>"

definition recent_files_limit :: nat where
  "recent_files_limit = 20"

definition storage_quota_bytes :: nat where
  "storage_quota_bytes = 5 * 1024 * 1024 * 1024"

definition create_folder :: "env \<Rightarrow> id \<Rightarrow> string \<Rightarrow> (db, drive_folder) handler" where
  "create_folder E uid name =
     insert_owned folder_table \<lparr>df_id = new_id E T_Folder 0, df_user = uid, df_name = name,
       df_created_at = now E\<rparr>"

definition list_folders :: "id \<Rightarrow> db \<Rightarrow> (drive_folder \<times> nat) list" where
  "list_folders uid s =
     map (\<lambda>d. (d, count_rows (\<lambda>f. dv_folder f = Some (df_id d)) (drive_files s)))
       (sort_key df_created_at (mine folder_table uid s))"

text \<open>The foreign key of the files is \<^verbatim>\<open>onDelete: SetNull\<close>.\<close>

definition delete_folder :: "id \<Rightarrow> id \<Rightarrow> (db, id) handler" where
  "delete_folder uid i =
     and_then (remove_owned folder_table uid i) (\<lambda>_ s.
       (ok i, s\<lparr>drive_files := update_rows (\<lambda>f. dv_folder f = Some i) (\<lambda>f. f\<lparr>dv_folder := None\<rparr>)
                  (drive_files s)\<rparr>))"

record upload =
  up_name :: string
  up_mime :: string
  up_size :: nat

text \<open>An empty folder id is falsy but, unlike \<^verbatim>\<open>null\<close>, it is written, and then points nowhere.\<close>

definition folder_check :: "id \<Rightarrow> id option \<Rightarrow> db \<Rightarrow> unit reply" where
  "folder_check uid folder s =
     (if truthy folder
      then (case get_owned folder_table uid (the folder) s of Inl e \<Rightarrow> throw e | Inr _ \<Rightarrow> ok ())
      else ok ())"

definition dangling_folder :: "id option \<Rightarrow> db \<Rightarrow> bool" where
  "dangling_folder folder s =
     (case folder of None \<Rightarrow> False | Some d \<Rightarrow> \<not> exists_row (\<lambda>x. df_id x = d) (drive_folders s))"

definition upload_file :: "env \<Rightarrow> id \<Rightarrow> upload \<Rightarrow> id option \<Rightarrow> (db, drive_file) handler" where
  "upload_file E uid up folder s =
     (case folder_check uid folder s of
        Inl e \<Rightarrow> (throw e, s)
      | Inr _ \<Rightarrow>
          if dangling_folder folder s then (throw foreign_key_error, s)
          else insert_owned file_table
            \<lparr>dv_id = new_id E T_File 0, dv_user = uid, dv_folder = folder, dv_name = up_name up,
             dv_mime = up_mime up, dv_size = up_size up, dv_url = stored_file_url E (up_name up),
             dv_created_at = now E\<rparr> s)"

definition used_bytes :: "id \<Rightarrow> db \<Rightarrow> nat" where
  "used_bytes uid s = sum_list (map dv_size (mine file_table uid s))"

definition assert_within_quota :: "nat \<Rightarrow> nat \<Rightarrow> unit reply" where
  "assert_within_quota used incoming =
     (if storage_quota_bytes < used + incoming
      then throw (BadRequest ''This upload would exceed your storage quota.'') else ok ())"

text \<open>The route, with what multer has let through (it refuses a file over its own limit before).\<close>

definition upload_endpoint :: "env \<Rightarrow> id \<Rightarrow> upload option \<Rightarrow> id option \<Rightarrow> (db, drive_file) handler" where
  "upload_endpoint E uid file folder s =
     (case file of
        None \<Rightarrow> (throw (BadRequest ''No file was uploaded.''), s)
      | Some up \<Rightarrow>
          (case assert_within_quota (used_bytes uid s) (up_size up) of
             Inl e \<Rightarrow> (throw e, s)
           | Inr _ \<Rightarrow> upload_file E uid up folder s))"

text \<open>\<^verbatim>\<open>folderId ?? undefined\<close>: no filter when it is not given.\<close>

definition list_files :: "id \<Rightarrow> id option \<Rightarrow> db \<Rightarrow> drive_file list" where
  "list_files uid folder s =
     rev (sort_key dv_created_at
       (filter (\<lambda>f. folder = None \<or> dv_folder f = folder) (mine file_table uid s)))"

definition list_recent_files :: "id \<Rightarrow> db \<Rightarrow> drive_file list" where
  "list_recent_files uid s = take recent_files_limit (rev (sort_key dv_created_at (mine file_table uid s)))"

definition move_file :: "id \<Rightarrow> id \<Rightarrow> id option \<Rightarrow> (db, drive_file) handler" where
  "move_file uid i folder s =
     (case get_owned file_table uid i s of
        Inl e \<Rightarrow> (throw e, s)
      | Inr _ \<Rightarrow>
          (case folder_check uid folder s of
             Inl e \<Rightarrow> (throw e, s)
           | Inr _ \<Rightarrow>
               if dangling_folder folder s then (throw foreign_key_error, s)
               else update_owned file_table uid i (\<lambda>f. f\<lparr>dv_folder := folder\<rparr>) s))"

text \<open>Removing the row also removes, by \<^verbatim>\<open>onDelete: Cascade\<close>, its attachments to mails.\<close>

definition delete_file :: "id \<Rightarrow> id \<Rightarrow> (db, id) handler" where
  "delete_file uid i =
     and_then (remove_owned file_table uid i) (\<lambda>_ s.
       (ok i, s\<lparr>email_attachments := delete_rows (\<lambda>a. ea_file a = i) (email_attachments s)\<rparr>))"

text \<open>The percentage in tenths.\<close>

definition storage_usage :: "id \<Rightarrow> db \<Rightarrow> nat \<times> nat \<times> nat" where
  "storage_usage uid s =
     (let used = used_bytes uid s
      in (used, storage_quota_bytes,
          min 1000 ((2000 * used + storage_quota_bytes) div (2 * storage_quota_bytes))))"

end
