(* ===== verification/Isolation.thy ===== *)
theory Isolation
  imports Space Sessions
begin

text \<open>
  What NDYSPACE promises an account: nobody else can change or see its rows, and its drive stays
  within the quota.
\<close>

section \<open>The contract of a table of owned rows\<close>

locale owned_table =
  fixes T :: "'r owned"
  assumes get_set [simp]: "ow_get T (ow_set T f s) = f (ow_get T s)"
    and users_set [simp]: "users (ow_set T f s) = users s"
begin

abbreviation keys :: "db \<Rightarrow> bool" where
  "keys s \<equiv> unique_on (ow_key T) (ow_get T s)"

lemma get_owned_ok:
  "get_owned T uid i s = Inr x \<Longrightarrow> x \<in> set (ow_get T s) \<and> ow_key T x = i \<and> ow_owner T x = uid"
  unfolding get_owned_def by (auto split: option.splits if_splits dest!: find_row_Some_D)

text \<open>A row is found by its owner, and by nobody else.\<close>

lemma get_owned_mine:
  assumes "keys s"
  shows "get_owned T uid i s =
    (case find_row (\<lambda>x. ow_key T x = i) (mine T uid s) of
       None \<Rightarrow> throw (NotFound (ow_missing T)) | Some x \<Rightarrow> ok x)"
proof (cases "find_row (\<lambda>x. ow_key T x = i) (mine T uid s)")
  case None
  then show ?thesis
    by (auto simp: get_owned_def mine_def find_row_None_iff split: option.splits dest!: find_row_Some_D)
next
  case (Some x)
  have x: "x \<in> set (ow_get T s)" "ow_owner T x = uid" "ow_key T x = i"
    using find_row_Some_D [OF Some] by (auto simp: mine_def)
  then have "find_row (\<lambda>x. ow_key T x = i) (ow_get T s) = Some x"
    using find_row_unique [OF assms [unfolded unique_on_def] x(1)] x(3) by simp
  with Some x(2) show ?thesis by (simp add: get_owned_def)
qed

lemma others_insert: "v \<noteq> ow_owner T x \<Longrightarrow> mine T v (snd (insert_owned T x s)) = mine T v s"
  by (simp add: insert_owned_def mine_def)

lemma others_row:
  assumes "keys s" and "get_owned T uid i s = Inr x" and "v \<noteq> uid"
    and "y \<in> set (ow_get T s)" and "ow_key T y = i"
  shows "ow_owner T y \<noteq> v"
  using assms get_owned_ok [OF assms(2)] by (metis unique_onD)

lemma others_update:
  assumes "keys s" and "v \<noteq> uid" and "\<And>x. ow_owner T (f x) = ow_owner T x"
  shows "mine T v (snd (update_owned T uid i f s)) = mine T v s"
proof (cases "get_owned T uid i s")
  case (Inr x)
  have "filter (\<lambda>y. ow_owner T y = v) (update_rows (\<lambda>y. ow_key T y = i) f (ow_get T s)) = mine T v s"
    unfolding mine_def
    by (rule filter_update_rows) (use others_row [OF assms(1) Inr assms(2)] assms(3) in auto)
  with Inr show ?thesis by (simp add: update_owned_def mine_def)
qed (simp add: update_owned_def)

lemma others_remove:
  assumes "keys s" and "v \<noteq> uid"
  shows "mine T v (snd (remove_owned T uid i s)) = mine T v s"
proof (cases "get_owned T uid i s")
  case (Inr x)
  have "filter (\<lambda>y. ow_owner T y = v) (delete_rows (\<lambda>y. ow_key T y = i) (ow_get T s)) =
      filter (\<lambda>y. ow_owner T y = v) (ow_get T s)"
    unfolding delete_rows_def filter_filter
    using others_row [OF assms(1) Inr assms(2)] by (intro filter_cong) auto
  with Inr show ?thesis by (simp add: remove_owned_def mine_def)
qed (simp add: remove_owned_def)

lemma keys_insert: "keys s \<Longrightarrow> keys (snd (insert_owned T x s))"
  by (auto simp: insert_owned_def)

lemma keys_update:
  "keys s \<Longrightarrow> (\<And>x. ow_key T (f x) = ow_key T x) \<Longrightarrow> keys (snd (update_owned T uid i f s))"
  by (auto simp: update_owned_def split: sum.splits)

lemma keys_remove: "keys s \<Longrightarrow> keys (snd (remove_owned T uid i s))"
  by (auto simp: remove_owned_def split: sum.splits)

lemma get_owned_frame:
  assumes "keys s" and "keys s'" and "mine T uid s' = mine T uid s"
  shows "get_owned T uid i s' = get_owned T uid i s"
  using assms by (simp add: get_owned_mine)

end

text \<open>The eight tables.\<close>

interpretation calendar_rows: owned_table calendar_table
  by unfold_locales (simp_all add: calendar_table_def)

interpretation contact_rows: owned_table contact_table
  by unfold_locales (simp_all add: contact_table_def)

interpretation task_rows: owned_table task_table
  by unfold_locales (simp_all add: task_table_def)

interpretation note_rows: owned_table note_table
  by unfold_locales (simp_all add: note_table_def)

interpretation bookmark_rows: owned_table bookmark_table
  by unfold_locales (simp_all add: bookmark_table_def)

interpretation feed_rows: owned_table feed_table
  by unfold_locales (simp_all add: feed_table_def)

interpretation folder_rows: owned_table folder_table
  by unfold_locales (simp_all add: folder_table_def)

interpretation file_rows: owned_table file_table
  by unfold_locales (simp_all add: file_table_def)


section \<open>The routes\<close>

datatype space_op =
    CreateEvent event_dto | UpdateEvent id event_update | RemoveEvent id
  | CreateContact contact_dto | UpdateContact id contact_dto | RemoveContact id
  | CreateTask string "string option" "task_priority option" "time option"
  | UpdateTask id task_update | CompleteTask id bool | RemoveTask id
  | CreateNote string "string option" | UpdateNote id "string field" "string field" | RemoveNote id
  | CreateBookmark string string | RemoveBookmark id
  | MarkFeedRead id | MarkFeedAllRead
  | CreateFolder string | DeleteFolder id
  | UploadFile "upload option" "id option" | MoveFile id "id option" | DeleteFile id

fun space_step :: "env \<times> id \<times> space_op \<Rightarrow> db \<Rightarrow> bool \<times> db" where
  "space_step (E, uid, CreateEvent d) s = answered (create_event E uid d s)"
| "space_step (E, uid, UpdateEvent i d) s = answered (update_event uid i d s)"
| "space_step (E, uid, RemoveEvent i) s = answered (remove_owned calendar_table uid i s)"
| "space_step (E, uid, CreateContact d) s = answered (create_contact E uid d s)"
| "space_step (E, uid, UpdateContact i d) s = answered (update_contact uid i d s)"
| "space_step (E, uid, RemoveContact i) s = answered (remove_owned contact_table uid i s)"
| "space_step (E, uid, CreateTask t d p due) s = answered (create_task E uid t d p due s)"
| "space_step (E, uid, UpdateTask i d) s = answered (update_task E uid i d s)"
| "space_step (E, uid, CompleteTask i b) s = answered (set_task_complete E uid i b s)"
| "space_step (E, uid, RemoveTask i) s = answered (remove_owned task_table uid i s)"
| "space_step (E, uid, CreateNote t b) s = answered (create_note E uid t b s)"
| "space_step (E, uid, UpdateNote i t b) s = answered (update_note E uid i t b s)"
| "space_step (E, uid, RemoveNote i) s = answered (remove_owned note_table uid i s)"
| "space_step (E, uid, CreateBookmark t u) s = answered (create_bookmark E uid t u s)"
| "space_step (E, uid, RemoveBookmark i) s = answered (remove_owned bookmark_table uid i s)"
| "space_step (E, uid, MarkFeedRead i) s = answered (mark_feed_read uid i s)"
| "space_step (E, uid, MarkFeedAllRead) s = answered (mark_feed_all_read uid s)"
| "space_step (E, uid, CreateFolder n) s = answered (create_folder E uid n s)"
| "space_step (E, uid, DeleteFolder i) s = answered (delete_folder uid i s)"
| "space_step (E, uid, UploadFile f d) s = answered (upload_endpoint E uid f d s)"
| "space_step (E, uid, MoveFile i d) s = answered (move_file uid i d s)"
| "space_step (E, uid, DeleteFile i) s = answered (delete_file uid i s)"

datatype space_query =
    Events time time | Upcoming nat | Event id | Contacts | RecentContacts nat | SearchContacts string
  | Contact id | TasksOf task_status | AllTasks | Task id | Notes | Note id | Bookmarks | Feed | UnreadFeed
  | Folders | Files "id option" | RecentFiles | File id | Usage

datatype space_answer =
    EventList "calendar_event list" | OneEvent "calendar_event reply" | ContactList "contact list"
  | OneContact "contact reply" | TaskList "task list" | OneTask "task reply" | NoteList "note_row list"
  | OneNote "note_row reply" | BookmarkList "bookmark list" | FeedList "space_notification list"
  | Count nat | FolderList "(drive_folder \<times> nat) list" | FileList "drive_file list"
  | OneFile "drive_file reply" | UsageOf "nat \<times> nat \<times> nat"

fun answer_query ::
  "env \<Rightarrow> (string \<Rightarrow> int) \<Rightarrow> (string \<Rightarrow> string \<Rightarrow> bool) \<Rightarrow> id \<Rightarrow> space_query \<Rightarrow> db \<Rightarrow> space_answer" where
  "answer_query E coll ilike uid (Events a b) s = EventList (list_events_in_range uid a b s)"
| "answer_query E coll ilike uid (Upcoming n) s = EventList (list_upcoming_events E uid n s)"
| "answer_query E coll ilike uid (Event i) s = OneEvent (get_owned calendar_table uid i s)"
| "answer_query E coll ilike uid Contacts s = ContactList (list_contacts coll uid s)"
| "answer_query E coll ilike uid (RecentContacts n) s = ContactList (list_recent_contacts uid n s)"
| "answer_query E coll ilike uid (SearchContacts q) s = ContactList (search_contacts coll ilike uid q s)"
| "answer_query E coll ilike uid (Contact i) s = OneContact (get_owned contact_table uid i s)"
| "answer_query E coll ilike uid (TasksOf st) s = TaskList (list_tasks_by_status uid st s)"
| "answer_query E coll ilike uid AllTasks s = TaskList (list_all_tasks uid s)"
| "answer_query E coll ilike uid (Task i) s = OneTask (get_owned task_table uid i s)"
| "answer_query E coll ilike uid Notes s = NoteList (list_notes uid s)"
| "answer_query E coll ilike uid (Note i) s = OneNote (get_owned note_table uid i s)"
| "answer_query E coll ilike uid Bookmarks s = BookmarkList (list_bookmarks uid s)"
| "answer_query E coll ilike uid Feed s = FeedList (list_feed uid s)"
| "answer_query E coll ilike uid UnreadFeed s = Count (unread_feed_count uid s)"
| "answer_query E coll ilike uid Folders s = FolderList (list_folders uid s)"
| "answer_query E coll ilike uid (Files d) s = FileList (list_files uid d s)"
| "answer_query E coll ilike uid RecentFiles s = FileList (list_recent_files uid s)"
| "answer_query E coll ilike uid (File i) s = OneFile (get_owned file_table uid i s)"
| "answer_query E coll ilike uid Usage s = UsageOf (storage_usage uid s)"

section \<open>Consistent tables\<close>

definition folders_owned :: "db \<Rightarrow> bool" where
  "folders_owned s =
     ((\<forall>x \<in> set (drive_folders s). df_id x \<noteq> []) \<and>
      (\<forall>f \<in> set (drive_files s). \<forall>d. dv_folder f = Some d \<longrightarrow>
         (\<exists>x \<in> set (drive_folders s). df_id x = d \<and> df_user x = dv_user f)))"

definition space_ok :: "db \<Rightarrow> bool" where
  "space_ok s =
     (calendar_rows.keys s \<and> contact_rows.keys s \<and> task_rows.keys s \<and> note_rows.keys s \<and>
      bookmark_rows.keys s \<and> feed_rows.keys s \<and> folder_rows.keys s \<and> file_rows.keys s \<and> folders_owned s)"

lemma owned_columns [simp]:
  "ow_key calendar_table = ce_id" "ow_owner calendar_table = ce_user"
  "ow_get calendar_table = calendar_events" "ow_set calendar_table = calendar_events_update"
  "ow_key contact_table = cn_id" "ow_owner contact_table = cn_user"
  "ow_get contact_table = contacts" "ow_set contact_table = contacts_update"
  "ow_key task_table = ta_id" "ow_owner task_table = ta_user"
  "ow_get task_table = tasks" "ow_set task_table = tasks_update"
  "ow_key note_table = no_id" "ow_owner note_table = no_user"
  "ow_get note_table = note_rows" "ow_set note_table = note_rows_update"
  "ow_key bookmark_table = bm_id" "ow_owner bookmark_table = bm_user"
  "ow_get bookmark_table = bookmarks" "ow_set bookmark_table = bookmarks_update"
  "ow_key feed_table = sn_id" "ow_owner feed_table = sn_user"
  "ow_get feed_table = space_notifications" "ow_set feed_table = space_notifications_update"
  "ow_key folder_table = df_id" "ow_owner folder_table = df_user"
  "ow_get folder_table = drive_folders" "ow_set folder_table = drive_folders_update"
  "ow_key file_table = dv_id" "ow_owner file_table = dv_user"
  "ow_get file_table = drive_files" "ow_set file_table = drive_files_update"
  by (simp_all add: calendar_table_def contact_table_def task_table_def note_table_def
       bookmark_table_def feed_table_def folder_table_def file_table_def)

text \<open>The rows an account sees, and what every operation of somebody else leaves alone.\<close>

definition space_view :: "id \<Rightarrow> db \<Rightarrow> calendar_event list \<times> contact list \<times> task list \<times> note_row list \<times>
    bookmark list \<times> space_notification list \<times> drive_folder list \<times> drive_file list" where
  "space_view v s =
     (mine calendar_table v s, mine contact_table v s, mine task_table v s, mine note_table v s,
      mine bookmark_table v s, mine feed_table v s, mine folder_table v s, mine file_table v s)"

definition unseen :: "id \<Rightarrow> db \<Rightarrow> db \<Rightarrow> bool" where
  "unseen v s s' = (space_ok s' \<and> space_view v s' = space_view v s)"

lemma unseen_same: "space_ok s \<Longrightarrow> unseen v s s"
  by (simp add: unseen_def)

text \<open>
  The contract of a table whose rows only their owner sees: the view of an account over all tables
  changes with this table only through the account's own rows.
\<close>

locale private_table = owned_table T for T :: "'r owned" +
  assumes ok_keys: "space_ok s \<Longrightarrow> unique_on (ow_key T) (ow_get T s)"
    and ok_set: "space_ok s \<Longrightarrow> unique_on (ow_key T) (f (ow_get T s)) \<Longrightarrow> space_ok (ow_set T f s)"
    and view_set: "mine T v (ow_set T f s) = mine T v s \<Longrightarrow> space_view v (ow_set T f s) = space_view v s"
begin

lemma insert_unseen:
  assumes "space_ok s" and "v \<noteq> ow_owner T x"
  shows "unseen v s (snd (insert_owned T x s))"
  using others_insert [OF assms(2), of s] keys_insert [OF ok_keys [OF assms(1)], of x] assms(1)
  by (auto simp: unseen_def insert_owned_def intro: ok_set view_set)

lemma update_unseen:
  assumes "space_ok s" and "v \<noteq> uid" and "\<And>x. ow_key T (f x) = ow_key T x"
    and "\<And>x. ow_owner T (f x) = ow_owner T x"
  shows "unseen v s (snd (update_owned T uid i f s))"
  using others_update [OF ok_keys [OF assms(1)] assms(2), of f i] assms
    keys_update [OF ok_keys [OF assms(1)], of f uid i]
  by (auto simp: unseen_def update_owned_def intro: ok_set view_set split: sum.splits)

lemma remove_unseen:
  assumes "space_ok s" and "v \<noteq> uid"
  shows "unseen v s (snd (remove_owned T uid i s))"
  using others_remove [OF ok_keys [OF assms(1)] assms(2), of i] assms
    keys_remove [OF ok_keys [OF assms(1)], of uid i]
  by (auto simp: unseen_def remove_owned_def intro: ok_set view_set split: sum.splits)

end

interpretation private_calendars: private_table calendar_table
  by unfold_locales (auto simp: space_ok_def folders_owned_def space_view_def mine_def)

interpretation private_contacts: private_table contact_table
  by unfold_locales (auto simp: space_ok_def folders_owned_def space_view_def mine_def)

interpretation private_tasks: private_table task_table
  by unfold_locales (auto simp: space_ok_def folders_owned_def space_view_def mine_def)

interpretation private_notes: private_table note_table
  by unfold_locales (auto simp: space_ok_def folders_owned_def space_view_def mine_def)

interpretation private_bookmarks: private_table bookmark_table
  by unfold_locales (auto simp: space_ok_def folders_owned_def space_view_def mine_def)

interpretation private_feeds: private_table feed_table
  by unfold_locales (auto simp: space_ok_def folders_owned_def space_view_def mine_def)

section \<open>The drive\<close>

lemma folder_check_ok:
  assumes "space_ok s" and "folder_check uid d s = Inr u" and "\<not> dangling_folder d s" and "d = Some i"
  shows "\<exists>x \<in> set (drive_folders s). df_id x = i \<and> df_user x = uid"
proof (cases "i = []")
  case True
  with assms(1,3,4) show ?thesis
    by (auto simp: dangling_folder_def space_ok_def folders_owned_def)
next
  case False
  with assms obtain x where "get_owned folder_table uid i s = Inr x"
    by (auto simp: folder_check_def split: sum.splits)
  from folder_rows.get_owned_ok [OF this] show ?thesis by auto
qed

lemma file_folder:
  assumes "space_ok s" and "f \<in> set (drive_files s)" and "dv_folder f = Some d"
  shows "\<exists>x \<in> set (drive_folders s). df_id x = d \<and> df_user x = dv_user f"
  using assms unfolding space_ok_def folders_owned_def by blast

lemma create_folder_unseen:
  assumes "space_ok s" and "v \<noteq> uid" and "new_id E T_Folder 0 \<noteq> []"
  shows "unseen v s (snd (create_folder E uid n s))"
  using assms
  by (auto simp: unseen_def create_folder_def insert_owned_def space_ok_def folders_owned_def
      space_view_def mine_def)

lemma upload_unseen:
  assumes ok: "space_ok s" and v: "v \<noteq> uid"
  shows "unseen v s (snd (upload_file E uid up d s))"
proof (cases "folder_check uid d s")
  case (Inr u)
  show ?thesis
  proof (cases "dangling_folder d s")
    case False
    have "\<exists>x \<in> set (drive_folders s). df_id x = i \<and> df_user x = uid" if "d = Some i" for i
      using folder_check_ok [OF ok Inr False that] .
    with ok v Inr False show ?thesis
      by (auto simp: unseen_def upload_file_def insert_owned_def space_ok_def folders_owned_def
          space_view_def mine_def)
  qed (use ok Inr in \<open>simp add: upload_file_def unseen_same\<close>)
qed (use ok in \<open>simp add: upload_file_def unseen_same\<close>)

lemma move_unseen:
  assumes ok: "space_ok s" and v: "v \<noteq> uid"
  shows "unseen v s (snd (move_file uid i d s))"
proof -
  have keys: "file_rows.keys s" using ok by (simp add: space_ok_def)
  show ?thesis
  proof (cases "get_owned file_table uid i s")
    case (Inr f)
    note f = file_rows.get_owned_ok [OF Inr]
    show ?thesis
    proof (cases "(\<exists>e. folder_check uid d s = Inl e) \<or> dangling_folder d s")
      case True
      with Inr ok show ?thesis by (auto simp: move_file_def unseen_same split: sum.splits)
    next
      case False
      then obtain u where check: "folder_check uid d s = Inr u" "\<not> dangling_folder d s"
        by (cases "folder_check uid d s") auto
      have home: "\<exists>x \<in> set (drive_folders s). df_id x = j \<and> df_user x = uid" if "d = Some j" for j
        using folder_check_ok [OF ok check that] .
      have owner: "dv_user y = uid" if "y \<in> set (drive_files s)" "dv_id y = i" for y
        using file_rows.others_row [OF keys Inr, of "dv_user y" y] that by auto
      have "mine file_table v (snd (update_owned file_table uid i (\<lambda>f. f\<lparr>dv_folder := d\<rparr>) s)) = mine file_table v s"
        by (rule file_rows.others_update [OF keys v]) simp
      then show ?thesis
        using ok Inr check home owner
        by (auto simp: unseen_def move_file_def update_owned_def space_ok_def folders_owned_def
            space_view_def mine_def)
    qed
  qed (use ok in \<open>simp add: move_file_def unseen_same\<close>)
qed

lemma delete_folder_unseen:
  assumes ok: "space_ok s" and v: "v \<noteq> uid"
  shows "unseen v s (snd (delete_folder uid i s))"
proof (cases "get_owned folder_table uid i s")
  case (Inr x)
  have keys: "folder_rows.keys s" using ok by (simp add: space_ok_def)
  have same: "mine folder_table v (snd (remove_owned folder_table uid i s)) = mine folder_table v s"
    by (rule folder_rows.others_remove [OF keys v])
  have "dv_user f = uid" if f: "f \<in> set (drive_files s)" "dv_folder f = Some i" for f
  proof -
    obtain y where y: "y \<in> set (drive_folders s)" "df_id y = i" "df_user y = dv_user f"
      using file_folder [OF ok f] by blast
    with folder_rows.others_row [OF keys Inr, of "df_user y" y] show ?thesis by auto
  qed
  then have "filter (\<lambda>f. dv_user f = v) (update_rows (\<lambda>f. dv_folder f = Some i) (\<lambda>f. f\<lparr>dv_folder := None\<rparr>) (drive_files s)) =
      filter (\<lambda>f. dv_user f = v) (drive_files s)"
    using v by (intro filter_update_rows) auto
  moreover have "folders_owned ((drive_folders_update (delete_rows (\<lambda>x. df_id x = i)) s)\<lparr>
      drive_files := update_rows (\<lambda>f. dv_folder f = Some i) (\<lambda>f. f\<lparr>dv_folder := None\<rparr>) (drive_files s)\<rparr>)"
  proof -
    have "\<exists>x \<in> set (drive_folders s). df_id x \<noteq> i \<and> df_id x = d \<and> df_user x = dv_user f"
      if "f \<in> set (drive_files s)" "dv_folder f = Some d" "d \<noteq> i" for f d
      using file_folder [OF ok that(1,2)] that(3) by blast
    then show ?thesis
      using ok by (auto simp: folders_owned_def space_ok_def Bex_def)
  qed
  ultimately show ?thesis
    using ok Inr same
    by (auto simp: unseen_def delete_folder_def remove_owned_def and_then_def space_ok_def
        space_view_def mine_def)
qed (use ok in \<open>simp add: delete_folder_def remove_owned_def and_then_def unseen_same\<close>)

lemma delete_file_unseen:
  assumes ok: "space_ok s" and v: "v \<noteq> uid"
  shows "unseen v s (snd (delete_file uid i s))"
proof (cases "get_owned file_table uid i s")
  case (Inr x)
  have keys: "file_rows.keys s" using ok by (simp add: space_ok_def)
  have "mine file_table v (snd (remove_owned file_table uid i s)) = mine file_table v s"
    by (rule file_rows.others_remove [OF keys v])
  with ok Inr show ?thesis
    by (auto simp: unseen_def delete_file_def remove_owned_def and_then_def space_ok_def folders_owned_def
        space_view_def mine_def)
qed (use ok in \<open>simp add: delete_file_def remove_owned_def and_then_def unseen_same\<close>)


section \<open>Runs by other accounts\<close>

lemma updates_keep_identity [simp]:
  "ce_id (apply_event_update d e) = ce_id e" "ce_user (apply_event_update d e) = ce_user e"
  "cn_id (apply_contact c x) = cn_id x" "cn_user (apply_contact c x) = cn_user x"
  "ta_id (apply_task_update E u t) = ta_id t" "ta_user (apply_task_update E u t) = ta_user t"
  by (simp_all add: apply_event_update_def apply_contact_def apply_task_update_def)

lemma mark_all_unseen:
  assumes "space_ok s" and "v \<noteq> uid"
  shows "unseen v s (snd (mark_feed_all_read uid s))"
proof -
  have "filter (\<lambda>n. sn_user n = v) (update_rows (\<lambda>n. sn_user n = uid \<and> \<not> sn_read n) (\<lambda>n. n\<lparr>sn_read := True\<rparr>)
      (space_notifications s)) = filter (\<lambda>n. sn_user n = v) (space_notifications s)"
    using assms(2) by (intro filter_update_rows) auto
  with assms(1) show ?thesis
    by (auto simp: unseen_def mark_feed_all_read_def space_ok_def folders_owned_def space_view_def mine_def)
qed

lemmas private_unseen =
  private_calendars.insert_unseen private_calendars.update_unseen private_calendars.remove_unseen
  private_contacts.insert_unseen private_contacts.update_unseen private_contacts.remove_unseen
  private_tasks.insert_unseen private_tasks.update_unseen private_tasks.remove_unseen
  private_notes.insert_unseen private_notes.update_unseen private_notes.remove_unseen
  private_bookmarks.insert_unseen private_bookmarks.remove_unseen private_feeds.update_unseen

lemma space_step_unseen:
  assumes ok: "space_ok s" and v: "v \<noteq> uid" and ids: "new_id E T_Folder 0 \<noteq> []"
  shows "unseen v s (snd (space_step (E, uid, op) s))"
proof (cases op)
  case (CreateFolder n)
  show ?thesis using create_folder_unseen [of s v uid E n, OF ok v ids] by (simp add: CreateFolder)
next
  case (UploadFile f d)
  then show ?thesis
    using upload_unseen [OF ok v, of E] ok by (auto simp: upload_endpoint_def unseen_same split: option.splits sum.splits)
qed (use ok v in \<open>auto simp: create_event_def update_event_def create_contact_def update_contact_def create_task_def
      update_task_def set_task_complete_def create_note_def update_note_def create_bookmark_def
      mark_feed_read_def mark_all_unseen move_unseen delete_folder_unseen delete_file_unseen unseen_same
      intro!: private_unseen split: sum.splits\<close>)

text \<open>An answer to an account depends on its own rows only.\<close>

lemma answer_of_view:
  assumes "space_ok s" and "space_ok s'" and "space_view v s' = space_view v s"
  shows "answer_query E coll ilike v q s' = answer_query E coll ilike v q s"
proof -
  have counts: "count_rows (\<lambda>f. dv_folder f = Some (df_id d)) (drive_files t) =
      count_rows (\<lambda>f. dv_folder f = Some (df_id d)) (mine file_table v t)"
    if "space_ok t" "d \<in> set (mine folder_table v t)" for t d
  proof -
    have keys: "folder_rows.keys t" and d: "d \<in> set (drive_folders t)" "df_user d = v"
      using that by (simp_all add: space_ok_def mine_def)
    have "dv_user f = v" if f: "f \<in> set (drive_files t)" "dv_folder f = Some (df_id d)" for f
    proof -
      obtain y where y: "y \<in> set (drive_folders t)" "df_id y = df_id d" "df_user y = dv_user f"
        using file_folder [OF \<open>space_ok t\<close> f] by blast
      then have "y = d" using keys d by (auto intro: unique_onD)
      with y(3) d show ?thesis by simp
    qed
    then have "filter (\<lambda>f. dv_folder f = Some (df_id d)) (drive_files t) =
        filter (\<lambda>f. dv_folder f = Some (df_id d)) (mine file_table v t)"
      unfolding mine_def filter_filter by (intro filter_cong) auto
    then show ?thesis by (simp add: count_rows_def)
  qed
  have same: "mine calendar_table v s' = mine calendar_table v s" "mine contact_table v s' = mine contact_table v s"
    "mine task_table v s' = mine task_table v s" "mine note_table v s' = mine note_table v s"
    "mine bookmark_table v s' = mine bookmark_table v s" "mine feed_table v s' = mine feed_table v s"
    "mine folder_table v s' = mine folder_table v s" "mine file_table v s' = mine file_table v s"
    using assms(3) by (simp_all add: space_view_def)
  have folders: "list_folders v s' = list_folders v s"
    using counts [OF assms(1)] counts [OF assms(2)] same(7,8) by (simp add: list_folders_def)
  have keys: "calendar_rows.keys s" "calendar_rows.keys s'" "contact_rows.keys s" "contact_rows.keys s'"
    "task_rows.keys s" "task_rows.keys s'" "note_rows.keys s" "note_rows.keys s'" "file_rows.keys s" "file_rows.keys s'"
    using assms(1,2) by (simp_all add: space_ok_def)
  have gets: "get_owned calendar_table v i s' = get_owned calendar_table v i s"
    "get_owned contact_table v i s' = get_owned contact_table v i s"
    "get_owned task_table v i s' = get_owned task_table v i s"
    "get_owned note_table v i s' = get_owned note_table v i s"
    "get_owned file_table v i s' = get_owned file_table v i s" for i
    by (rule calendar_rows.get_owned_frame contact_rows.get_owned_frame task_rows.get_owned_frame
        note_rows.get_owned_frame file_rows.get_owned_frame; fact)+
  show ?thesis
    by (cases q) (simp_all add: list_events_in_range_def list_upcoming_events_def list_contacts_def
        list_recent_contacts_def search_contacts_def list_tasks_by_status_def list_all_tasks_def list_notes_def
        list_bookmarks_def list_feed_def unread_feed_count_def list_files_def list_recent_files_def
        storage_usage_def used_bytes_def Let_def gets folders same)
qed

section \<open>The quota\<close>

lemma used_bytes_update [simp]:
  assumes "\<And>f. dv_user (h f) = dv_user f" and "\<And>f. dv_size (h f) = dv_size f"
  shows "used_bytes u (s\<lparr>drive_files := update_rows P h (drive_files s)\<rparr>) = used_bytes u s"
proof -
  have "sum_list (map dv_size (filter (\<lambda>x. dv_user x = u) (update_rows P h rows))) =
      sum_list (map dv_size (filter (\<lambda>x. dv_user x = u) rows))" for rows
    using assms by (induction rows) simp_all
  then show ?thesis by (simp add: used_bytes_def mine_def)
qed

lemma used_bytes_delete:
  "used_bytes u (drive_files_update (delete_rows P) s) \<le> used_bytes u s"
proof -
  have "sum_list (map dv_size (filter (\<lambda>x. dv_user x = u) (delete_rows P rows))) \<le>
      sum_list (map dv_size (filter (\<lambda>x. dv_user x = u) rows))" for rows
    by (induction rows) (auto simp: delete_rows_def)
  then show ?thesis by (simp add: used_bytes_def mine_def)
qed

lemma used_bytes_cong: "drive_files s' = drive_files s \<Longrightarrow> used_bytes u s' = used_bytes u s"
  by (simp add: used_bytes_def mine_def)

lemma upload_used:
  "used_bytes u (snd (upload_endpoint E uid f d s)) \<le> max (used_bytes u s) storage_quota_bytes"
  by (auto simp: upload_endpoint_def upload_file_def insert_owned_def assert_within_quota_def used_bytes_def
      mine_def split: option.splits sum.splits if_splits)

lemma space_step_used:
  "used_bytes u (snd (space_step (E, uid, op) s)) \<le> max (used_bytes u s) storage_quota_bytes"
proof (cases op)
  case (UploadFile f d)
  then show ?thesis using upload_used [of u E uid f d s] by simp
next
  case (DeleteFolder i)
  have "used_bytes u (snd (delete_folder uid i s)) = used_bytes u s"
  proof (cases "get_owned folder_table uid i s")
    case (Inr x)
    have "used_bytes u ((drive_folders_update (delete_rows (\<lambda>x. df_id x = i)) s)\<lparr>drive_files :=
        update_rows (\<lambda>f. dv_folder f = Some i) (\<lambda>f. f\<lparr>dv_folder := None\<rparr>) (drive_files s)\<rparr>) = used_bytes u s"
      using used_bytes_update [where h = "\<lambda>f. f\<lparr>dv_folder := None\<rparr>" and P = "\<lambda>f. dv_folder f = Some i" and s = s]
      by (simp add: used_bytes_def mine_def)
    with Inr show ?thesis by (simp add: delete_folder_def remove_owned_def and_then_def)
  qed (simp add: delete_folder_def remove_owned_def and_then_def)
  then show ?thesis by (simp add: DeleteFolder)
next
  case (MoveFile i d)
  have "used_bytes u (drive_files_update (update_rows P (\<lambda>f. f\<lparr>dv_folder := d\<rparr>)) s) = used_bytes u s" for P
    using used_bytes_update [where h = "\<lambda>f. f\<lparr>dv_folder := d\<rparr>" and P = P and s = s] by (simp add: used_bytes_def mine_def)
  then show ?thesis
    by (auto simp: MoveFile move_file_def update_owned_def split: sum.splits)
next
  case (DeleteFile i)
  have "used_bytes u (snd (delete_file uid i s)) \<le> used_bytes u s"
    using used_bytes_delete [of u "\<lambda>x. dv_id x = i" s]
    by (auto simp: delete_file_def remove_owned_def and_then_def used_bytes_def mine_def split: sum.splits)
  then show ?thesis by (simp add: DeleteFile)
qed (auto simp: create_event_def update_event_def create_contact_def update_contact_def create_task_def
      update_task_def set_task_complete_def create_note_def update_note_def create_bookmark_def create_folder_def
      mark_feed_read_def mark_feed_all_read_def insert_owned_def update_owned_def remove_owned_def
      used_bytes_def mine_def split: sum.splits)

text \<open>
  C25. The drive stays within its quota: in any run of requests by any accounts, no account ever
  stores more than five gigabytes.
\<close>

theorem drive_quota_holds:
  assumes "\<And>u. used_bytes u s \<le> storage_quota_bytes"
  shows "used_bytes u (run_ops space_step ops s) \<le> storage_quota_bytes"
  using assms
proof (induction ops arbitrary: s)
  case (Cons a ops)
  have "used_bytes v (snd (space_step a s)) \<le> storage_quota_bytes" for v
    using space_step_used [of v "fst a" "fst (snd a)" "snd (snd a)" s] Cons.prems [of v] by simp
  then show ?case using Cons.IH by simp
qed simp

theorem drive_quota_holds_witness:
  "used_bytes ''m1'' (run_ops space_step
     [(demo_env 1, ''m1'', UploadFile (Some \<lparr>up_name = ''a'', up_mime = ''b'', up_size = 5 * 1024 * 1024 * 1024\<rparr>) None),
      (demo_env 2, ''m1'', UploadFile (Some \<lparr>up_name = ''c'', up_mime = ''b'', up_size = 1\<rparr>) None)] demo_db) \<le> storage_quota_bytes"
  by (rule drive_quota_holds) (simp add: used_bytes_def mine_def demo_db_def empty_db_def)

section \<open>What goes wrong\<close>

text \<open>An update that sends one date only can put the end of an event before its start.\<close>

lemma event_ends_before_it_starts:
  "let s1 = snd (create_event (demo_env 1) ''m1'' \<lparr>cd_title = ''Call'', cd_description = None, cd_start = 10,
              cd_end = 20, cd_color = None, cd_attendees = None\<rparr> demo_db);
       s2 = snd (update_event ''m1'' ''id0'' \<lparr>cu_title = None, cu_description = None, cu_start = None,
              cu_end = Some (Some 5), cu_color = None, cu_attendees = None\<rparr> s1)
   in map (\<lambda>e. (ce_start e, ce_end e)) (calendar_events s2) = [(10, 5)]"
  by code_simp

end
