(* ===== verification/Mail.thy ===== *)
theory Mail
  imports Space
begin

text \<open>
  NDYMAIL, \<^verbatim>\<open>ndyspace/ndyspace-mail.service.ts\<close>: one shared row per message, one mailbox row per
  recipient, drafts, attachments from the drive.
\<close>

section \<open>Recipients and attachments\<close>

text \<open>\<^verbatim>\<open>Array.from(new Set(xs))\<close> keeps the first of equal elements.\<close>

definition first_occurrences :: "'a list \<Rightarrow> 'a list" where
  "first_occurrences xs = rev (remdups (rev xs))"

lemma first_occurrences [simp]:
  "set (first_occurrences xs) = set xs" "distinct (first_occurrences xs)"
  by (simp_all add: first_occurrences_def)

fun comma_list :: "string list \<Rightarrow> string" where
  "comma_list [] = []"
| "comma_list [x] = x"
| "comma_list (x # xs) = x @ '', '' @ comma_list xs"

definition resolve_recipients :: "string list \<Rightarrow> db \<Rightarrow> user list reply" where
  "resolve_recipients ids s =
     (let wanted = first_occurrences ids; found = filter (\<lambda>u. u_ndy_id u \<in> set wanted) (users s)
      in if wanted = [] then ok []
         else if length found \<noteq> length wanted
         then throw (NotFound (''No NDYSPACE user found for NDY ID(s): '' @
                comma_list (filter (\<lambda>i. i \<notin> u_ndy_id ` set found) wanted)))
         else ok found)"

definition validate_attachments :: "id \<Rightarrow> id list \<Rightarrow> db \<Rightarrow> unit reply" where
  "validate_attachments uid ids s =
     (let files = filter (\<lambda>f. dv_id f \<in> set ids) (drive_files s)
      in if ids \<noteq> [] \<and> (length files \<noteq> length ids \<or> list_ex (\<lambda>f. dv_user f \<noteq> uid) files)
         then throw (BadRequest ''One or more attachments are invalid or not yours.'') else ok ())"

section \<open>Delivery\<close>

record delivery =
  dl_subject :: string
  dl_body :: string
  dl_to :: "user list"
  dl_cc :: "user list"
  dl_files :: "id list"

definition new_email :: "env \<Rightarrow> id \<Rightarrow> string \<Rightarrow> string \<Rightarrow> email" where
  "new_email E uid subject body =
     \<lparr>em_id = new_id E T_Email 0, em_sender = uid, em_subject = subject, em_body = body, em_created_at = now E\<rparr>"

definition mailbox_row :: "env \<Rightarrow> nat \<Rightarrow> id \<Rightarrow> email_folder \<Rightarrow> bool \<Rightarrow> bool \<Rightarrow> email_recipient" where
  "mailbox_row E n uid folder is_read cc =
     \<lparr>er_id = new_id E T_EmailRecipient n, er_email = new_id E T_Email 0, er_user = uid, er_folder = folder,
      er_read = is_read, er_starred = False, er_cc = cc, er_draft_to = [], er_draft_cc = [], er_created_at = now E\<rparr>"

text \<open>Everybody addressed, with the \<^verbatim>\<open>isCc\<close> flag, without the sender.\<close>

definition addressed :: "id \<Rightarrow> delivery \<Rightarrow> (id \<times> bool) list" where
  "addressed uid d =
     filter (\<lambda>(i, _). i \<noteq> uid) (map (\<lambda>u. (u_id u, False)) (dl_to d) @ map (\<lambda>u. (u_id u, True)) (dl_cc d))"

definition delivered_rows :: "env \<Rightarrow> id \<Rightarrow> delivery \<Rightarrow> email_recipient list" where
  "delivered_rows E uid d =
     mailbox_row E 0 uid SENT True False #
     map (\<lambda>(n, i, cc). mailbox_row E n i INBOX False cc) (enumerate 1 (addressed uid d))"

definition attachment_rows :: "env \<Rightarrow> id list \<Rightarrow> email_attachment list" where
  "attachment_rows E files =
     map (\<lambda>(n, f). \<lparr>ea_id = new_id E T_Attachment n, ea_email = new_id E T_Email 0, ea_file = f\<rparr>) (enumerate 0 files)"

text \<open>The constraints of the three tables on what a transaction inserts.\<close>

definition mail_insert_error ::
  "email \<Rightarrow> email_recipient list \<Rightarrow> email_attachment list \<Rightarrow> db \<Rightarrow> http_error option" where
  "mail_insert_error e rows atts s =
     (if exists_row (\<lambda>x. em_id x = em_id e) (emails s) then Some unique_violation
      else if find_user (em_sender e) s = None then Some foreign_key_error
      else if \<not> distinct (map er_id (email_recipients s @ rows)) \<or>
              \<not> distinct (map (\<lambda>r. (er_email r, er_user r)) rows) then Some unique_violation
      else if \<not> list_all (\<lambda>r. find_user (er_user r) s \<noteq> None) rows then Some foreign_key_error
      else if \<not> distinct (map ea_id (email_attachments s @ atts)) then Some unique_violation
      else if \<not> list_all (\<lambda>a. exists_row (\<lambda>f. dv_id f = ea_file a) (drive_files s)) atts then Some foreign_key_error
      else None)"

abbreviation insert_mail :: "email \<Rightarrow> email_recipient list \<Rightarrow> email_attachment list \<Rightarrow> db \<Rightarrow> db" where
  "insert_mail e rows atts s \<equiv>
     s\<lparr>emails := emails s @ [e], email_recipients := email_recipients s @ rows,
       email_attachments := email_attachments s @ atts\<rparr>"

text \<open>The notifications of one message; \<^verbatim>\<open>Promise.all\<close> rejects with a failure but runs them all.\<close>

fun notify_mail :: "env \<Rightarrow> string \<Rightarrow> (nat \<times> id) list \<Rightarrow> (db, unit) handler" where
  "notify_mail E subject [] s = (ok (), s)"
| "notify_mail E subject ((n, i) # rest) s =
     (case create_space_notification E n i SN_MAIL (''New message: \"'' @ subject @ ''\"'') s of
        (r, s1) \<Rightarrow>
          (case notify_mail E subject rest s1 of
             (r', s2) \<Rightarrow> ((case r of Inl e \<Rightarrow> throw e | Inr _ \<Rightarrow> r'), s2)))"

definition deliver_mail :: "env \<Rightarrow> id \<Rightarrow> delivery \<Rightarrow> (db, email) handler" where
  "deliver_mail E uid d s =
     (let e = new_email E uid (dl_subject d) (dl_body d); rows = delivered_rows E uid d;
          atts = attachment_rows E (dl_files d)
      in case mail_insert_error e rows atts s of
           Some err \<Rightarrow> (throw err, s)
         | None \<Rightarrow>
             and_then (notify_mail E (dl_subject d) (enumerate 0 (map fst (addressed uid d))))
               (\<lambda>_ s2. (ok e, s2)) (insert_mail e rows atts s))"

record mail_dto =
  ml_to :: "string list option"
  ml_cc :: "string list option"
  ml_subject :: "string option"
  ml_body :: "string option"
  ml_files :: "id list option"

definition cc_without :: "string list \<Rightarrow> string list \<Rightarrow> string list" where
  "cc_without to cc = filter (\<lambda>i. i \<notin> set to) (first_occurrences cc)"

text \<open>\<^verbatim>\<open>SendEmailDto\<close> requires the recipients, the subject and the body.\<close>

definition send_mail :: "env \<Rightarrow> id \<Rightarrow> mail_dto \<Rightarrow> (db, email) handler" where
  "send_mail E uid d s =
     (let to = first_occurrences (or_else (ml_to d) []);
          cc = cc_without to (or_else (ml_cc d) []);
          files = first_occurrences (or_else (ml_files d) [])
      in if to = [] then (throw (BadRequest ''At least one recipient is required.''), s)
         else case resolve_recipients to s of
           Inl e \<Rightarrow> (throw e, s)
         | Inr tos \<Rightarrow>
             (case resolve_recipients cc s of
                Inl e \<Rightarrow> (throw e, s)
              | Inr ccs \<Rightarrow>
                  (case validate_attachments uid files s of
                     Inl e \<Rightarrow> (throw e, s)
                   | Inr _ \<Rightarrow>
                       deliver_mail E uid \<lparr>dl_subject = or_else (ml_subject d) '''', dl_body = or_else (ml_body d) '''',
                         dl_to = tos, dl_cc = ccs, dl_files = files\<rparr> s)))"

section \<open>Reading\<close>

definition find_email :: "id \<Rightarrow> db \<Rightarrow> email option" where
  "find_email i s = find_row (\<lambda>e. em_id e = i) (emails s)"

definition find_mailbox_row :: "id \<Rightarrow> db \<Rightarrow> email_recipient option" where
  "find_mailbox_row i s = find_row (\<lambda>r. er_id r = i) (email_recipients s)"

definition inbox_list_limit :: nat where
  "inbox_list_limit = 100"

text \<open>A list item: the row, its message and the sender's NDY ID, name and photo.\<close>

definition mail_item :: "db \<Rightarrow> email_recipient \<Rightarrow>
    (email_recipient \<times> email \<times> string \<times> string option \<times> string option) option" where
  "mail_item s r =
     (case find_email (er_email r) s of
        None \<Rightarrow> None
      | Some e \<Rightarrow>
          (case find_user (em_sender e) s of
             None \<Rightarrow> None
           | Some u \<Rightarrow> Some (r, e, u_ndy_id u, full_name (u_passport u), photo_url (u_passport u))))"

definition list_mail_folder ::
  "id \<Rightarrow> email_folder \<Rightarrow> db \<Rightarrow> (email_recipient \<times> email \<times> string \<times> string option \<times> string option) list" where
  "list_mail_folder uid folder s =
     List.map_filter (mail_item s)
       (take inbox_list_limit (rev (sort_key er_created_at
          (filter (\<lambda>r. er_user r = uid \<and> er_folder r = folder) (email_recipients s)))))"

definition mail_message_missing :: http_error where
  "mail_message_missing = NotFound ''No message with that id.''"

definition own_mailbox_row :: "id \<Rightarrow> id \<Rightarrow> db \<Rightarrow> email_recipient reply" where
  "own_mailbox_row uid i s =
     (case find_mailbox_row i s of
        None \<Rightarrow> throw mail_message_missing
      | Some r \<Rightarrow> if er_user r \<noteq> uid then throw mail_message_missing else ok r)"

text \<open>The detail adds who it went to (copies that are neither drafts nor sent) and the attachments.\<close>

definition mail_detail ::
  "id \<Rightarrow> id \<Rightarrow> db \<Rightarrow>
     ((email_recipient \<times> email \<times> string \<times> string option \<times> string option) option \<times>
      (string \<times> string option \<times> bool) list \<times> (email_attachment \<times> drive_file) list) reply" where
  "mail_detail uid i s =
     (case own_mailbox_row uid i s of
        Inl e \<Rightarrow> throw e
      | Inr r \<Rightarrow> ok
          (mail_item s r,
           List.map_filter (\<lambda>x. map_option (\<lambda>u. (u_ndy_id u, full_name (u_passport u), er_cc x)) (find_user (er_user x) s))
             (filter (\<lambda>x. er_email x = er_email r \<and> er_folder x \<notin> {DRAFTS, SENT}) (email_recipients s)),
           List.map_filter (\<lambda>a. map_option (Pair a) (find_row (\<lambda>f. dv_id f = ea_file a) (drive_files s)))
             (filter (\<lambda>a. ea_email a = er_email r) (email_attachments s))))"

definition unread_mail_count :: "id \<Rightarrow> db \<Rightarrow> nat" where
  "unread_mail_count uid s =
     count_rows (\<lambda>r. er_user r = uid \<and> er_folder r = INBOX \<and> \<not> er_read r) (email_recipients s)"

section \<open>The mailbox\<close>

abbreviation update_mailbox_row :: "id \<Rightarrow> (email_recipient \<Rightarrow> email_recipient) \<Rightarrow> db \<Rightarrow> db" where
  "update_mailbox_row i f s \<equiv> s\<lparr>email_recipients := update_rows (\<lambda>r. er_id r = i) f (email_recipients s)\<rparr>"

definition apply_mail_update ::
  "email_folder field \<Rightarrow> bool field \<Rightarrow> bool field \<Rightarrow> email_recipient \<Rightarrow> email_recipient" where
  "apply_mail_update folder is_read starred r =
     r\<lparr>er_folder := required folder (er_folder r), er_read := required is_read (er_read r),
       er_starred := required starred (er_starred r)\<rparr>"

definition update_mail ::
  "id \<Rightarrow> id \<Rightarrow> email_folder field \<Rightarrow> bool field \<Rightarrow> bool field \<Rightarrow> (db, email_recipient) handler" where
  "update_mail uid i folder is_read starred s =
     (case own_mailbox_row uid i s of
        Inl e \<Rightarrow> (throw e, s)
      | Inr r \<Rightarrow>
          if folder = Some None \<or> is_read = Some None \<or> starred = Some None then (throw invalid_null, s)
          else (ok (apply_mail_update folder is_read starred r),
                update_mailbox_row i (apply_mail_update folder is_read starred) s))"

definition remove_mail :: "id \<Rightarrow> id \<Rightarrow> (db, id) handler" where
  "remove_mail uid i s =
     (case own_mailbox_row uid i s of
        Inl e \<Rightarrow> (throw e, s)
      | Inr r \<Rightarrow> (ok i, s\<lparr>email_recipients := delete_rows (\<lambda>r. er_id r = i) (email_recipients s)\<rparr>))"

definition empty_mail_trash :: "id \<Rightarrow> (db, nat) handler" where
  "empty_mail_trash uid s =
     (let P = (\<lambda>r. er_user r = uid \<and> er_folder r = TRASH)
      in (ok (count_rows P (email_recipients s)), s\<lparr>email_recipients := delete_rows P (email_recipients s)\<rparr>))"

section \<open>Drafts\<close>

definition draft_missing :: http_error where
  "draft_missing = NotFound ''No draft with that id.''"

definition own_draft :: "id \<Rightarrow> id \<Rightarrow> db \<Rightarrow> email_recipient reply" where
  "own_draft uid i s =
     (case find_mailbox_row i s of
        None \<Rightarrow> throw draft_missing
      | Some r \<Rightarrow> if er_user r \<noteq> uid \<or> er_folder r \<noteq> DRAFTS then throw draft_missing else ok r)"

definition draft_row :: "env \<Rightarrow> id \<Rightarrow> string list \<Rightarrow> string list \<Rightarrow> email_recipient" where
  "draft_row E uid to cc = (mailbox_row E 0 uid DRAFTS True False)\<lparr>er_draft_to := to, er_draft_cc := cc\<rparr>"

text \<open>The attachments of an edited draft are replaced.\<close>

definition replaced_attachments :: "env \<Rightarrow> id \<Rightarrow> id list \<Rightarrow> email_attachment list" where
  "replaced_attachments E i files = map (\<lambda>a. a\<lparr>ea_email := i\<rparr>) (attachment_rows E files)"

definition edit_draft ::
  "env \<Rightarrow> email_recipient \<Rightarrow> mail_dto \<Rightarrow> string list \<Rightarrow> string list \<Rightarrow> id list \<Rightarrow> db \<Rightarrow> db" where
  "edit_draft E r d to cc files s =
     update_mailbox_row (er_id r) (\<lambda>x. x\<lparr>er_draft_to := to, er_draft_cc := cc\<rparr>)
       (s\<lparr>emails := update_rows (\<lambda>e. em_id e = er_email r)
             (\<lambda>e. e\<lparr>em_subject := or_else (ml_subject d) '''', em_body := or_else (ml_body d) ''''\<rparr>) (emails s),
          email_attachments := delete_rows (\<lambda>a. ea_email a = er_email r) (email_attachments s) @
             replaced_attachments E (er_email r) files\<rparr>)"

definition save_draft :: "env \<Rightarrow> id \<Rightarrow> mail_dto \<Rightarrow> id option \<Rightarrow> (db, id) handler" where
  "save_draft E uid d draft s =
     (let to = first_occurrences (or_else (ml_to d) []);
          cc = cc_without to (or_else (ml_cc d) []);
          files = first_occurrences (or_else (ml_files d) [])
      in case validate_attachments uid files s of
           Inl e \<Rightarrow> (throw e, s)
         | Inr _ \<Rightarrow>
             if truthy draft
             then (case own_draft uid (the draft) s of
                     Inl e \<Rightarrow> (throw e, s)
                   | Inr r \<Rightarrow>
                       if \<not> distinct (map ea_id (delete_rows (\<lambda>a. ea_email a = er_email r) (email_attachments s) @
                             replaced_attachments E (er_email r) files))
                       then (throw unique_violation, s)
                       else (ok (er_id r), edit_draft E r d to cc files s))
             else let e = new_email E uid (or_else (ml_subject d) '''') (or_else (ml_body d) '''');
                      r = draft_row E uid to cc; atts = attachment_rows E files
                  in case mail_insert_error e [r] atts s of
                       Some err \<Rightarrow> (throw err, s)
                     | None \<Rightarrow> (ok (er_id r), insert_mail e [r] atts s))"

text \<open>Deleting a message removes every mailbox row and every attachment of it.\<close>

definition delete_email :: "id \<Rightarrow> db \<Rightarrow> db" where
  "delete_email i s =
     s\<lparr>emails := delete_rows (\<lambda>e. em_id e = i) (emails s),
       email_recipients := delete_rows (\<lambda>r. er_email r = i) (email_recipients s),
       email_attachments := delete_rows (\<lambda>a. ea_email a = i) (email_attachments s)\<rparr>"

definition draft_files :: "id \<Rightarrow> email_recipient \<Rightarrow> mail_dto \<Rightarrow> db \<Rightarrow> id list reply" where
  "draft_files uid r d s =
     (case ml_files d of
        Some fs \<Rightarrow>
          (case validate_attachments uid (first_occurrences fs) s of
             Inl e \<Rightarrow> throw e | Inr _ \<Rightarrow> ok (first_occurrences fs))
      | None \<Rightarrow> ok (map ea_file (filter (\<lambda>a. ea_email a = er_email r) (email_attachments s))))"

definition send_draft :: "env \<Rightarrow> id \<Rightarrow> id \<Rightarrow> mail_dto \<Rightarrow> (db, email) handler" where
  "send_draft E uid i d s =
     (case own_draft uid i s of
        Inl e \<Rightarrow> (throw e, s)
      | Inr r \<Rightarrow>
          (case find_email (er_email r) s of
             None \<Rightarrow> (throw (ServerError ''Inconsistent query result''), s)
           | Some m \<Rightarrow>
               let to = first_occurrences (or_else (ml_to d) (er_draft_to r));
                   cc = cc_without to (or_else (ml_cc d) (er_draft_cc r))
               in if to = [] then (throw (BadRequest ''At least one recipient is required.''), s)
                  else case resolve_recipients to s of
                    Inl e \<Rightarrow> (throw e, s)
                  | Inr tos \<Rightarrow>
                      (case resolve_recipients cc s of
                         Inl e \<Rightarrow> (throw e, s)
                       | Inr ccs \<Rightarrow>
                           (case draft_files uid r d s of
                              Inl e \<Rightarrow> (throw e, s)
                            | Inr files \<Rightarrow>
                                deliver_mail E uid
                                  \<lparr>dl_subject = or_else (ml_subject d) (em_subject m),
                                   dl_body = or_else (ml_body d) (em_body m),
                                   dl_to = tos, dl_cc = ccs, dl_files = files\<rparr>
                                  (delete_email (er_email r) s)))))"

end
