(* ===== verification/Mailbox.thy ===== *)
theory Mailbox
  imports Mail Sessions
begin

text \<open>
  What NDYMAIL promises: a message reaches everybody it is addressed to, and once it is delivered
  nobody changes it or takes it out of somebody else's mailbox.
\<close>

section \<open>The routes\<close>

datatype mail_op =
    SendMail mail_dto
  | UpdateMail id "email_folder field" "bool field" "bool field"
  | RemoveMail id
  | EmptyMailTrash
  | SaveDraft mail_dto "id option"
  | SendDraft id mail_dto

fun mail_step :: "env \<times> id \<times> mail_op \<Rightarrow> db \<Rightarrow> bool \<times> db" where
  "mail_step (E, uid, SendMail d) s = answered (send_mail E uid d s)"
| "mail_step (E, uid, UpdateMail i f r st) s = answered (update_mail uid i f r st s)"
| "mail_step (E, uid, RemoveMail i) s = answered (remove_mail uid i s)"
| "mail_step (E, uid, EmptyMailTrash) s = answered (empty_mail_trash uid s)"
| "mail_step (E, uid, SaveDraft d i) s = answered (save_draft E uid d i s)"
| "mail_step (E, uid, SendDraft i d) s = answered (send_draft E uid i d s)"

text \<open>Filing an existing copy under the drafts, which \<^verbatim>\<open>UpdateEmailRecipientDto\<close> allows.\<close>

fun files_as_draft :: "env \<times> id \<times> mail_op \<Rightarrow> bool" where
  "files_as_draft (_, _, UpdateMail _ f _ _) = (f = Some (Some DRAFTS))"
| "files_as_draft _ = False"

section \<open>Mailboxes and messages\<close>

definition mailbox :: "id \<Rightarrow> db \<Rightarrow> email_recipient list" where
  "mailbox v s = filter (\<lambda>r. er_user r = v) (email_recipients s)"

definition message :: "id \<Rightarrow> db \<Rightarrow> email option \<times> email_attachment list" where
  "message i s = (find_email i s, filter (\<lambda>a. ea_email a = i) (email_attachments s))"

definition mail_ok :: "db \<Rightarrow> bool" where
  "mail_ok s =
     (unique_on em_id (emails s) \<and> unique_on er_id (email_recipients s) \<and>
      (\<forall>r \<in> set (email_recipients s). er_email r \<in> em_id ` set (emails s)) \<and>
      (\<forall>r \<in> set (email_recipients s). er_folder r = DRAFTS \<longrightarrow>
         (\<forall>r' \<in> set (email_recipients s). er_email r' = er_email r \<longrightarrow> r' = r)))"

text \<open>A message that is no draft.\<close>

definition delivered :: "id \<Rightarrow> db \<Rightarrow> bool" where
  "delivered i s =
     (i \<in> em_id ` set (emails s) \<and>
      (\<forall>r \<in> set (email_recipients s). er_email r = i \<longrightarrow> er_folder r \<noteq> DRAFTS))"

definition arrived :: "email_recipient \<Rightarrow> bool" where
  "arrived r = (er_folder r = INBOX \<and> \<not> er_read r)"

definition undisturbed :: "id \<Rightarrow> db \<Rightarrow> db \<Rightarrow> bool" where
  "undisturbed uid s s' =
     (mail_ok s' \<and>
      (\<forall>i. delivered i s \<longrightarrow> delivered i s' \<and> message i s' = message i s) \<and>
      (\<forall>v. v \<noteq> uid \<longrightarrow> (\<exists>new. mailbox v s' = mailbox v s @ new \<and> list_all arrived new)))"

lemma undisturbed_ok: "undisturbed uid s s' \<Longrightarrow> mail_ok s'"
  by (simp add: undisturbed_def)

lemma undisturbed_mailbox:
  assumes "undisturbed uid s s'" and "v \<noteq> uid"
  obtains new where "mailbox v s' = mailbox v s @ new" "list_all arrived new"
  using assms unfolding undisturbed_def by blast

lemma undisturbed_refl: "mail_ok s \<Longrightarrow> undisturbed uid s s"
  by (simp add: undisturbed_def)

lemma undisturbed_trans:
  assumes "undisturbed uid s s1" and "undisturbed uid s1 s2"
  shows "undisturbed uid s s2"
proof -
  have "\<exists>new. mailbox v s2 = mailbox v s @ new \<and> list_all arrived new" if v: "v \<noteq> uid" for v
  proof -
    obtain n1 n2 where "mailbox v s1 = mailbox v s @ n1" "list_all arrived n1"
      "mailbox v s2 = mailbox v s1 @ n2" "list_all arrived n2"
      using assms v unfolding undisturbed_def by blast
    then show ?thesis by (intro exI [of _ "n1 @ n2"]) simp
  qed
  with assms show ?thesis by (simp add: undisturbed_def)
qed

lemma undisturbed_cong:
  assumes "emails s' = emails s" and "email_recipients s' = email_recipients s"
    and "email_attachments s' = email_attachments s" and "undisturbed uid s0 s"
  shows "undisturbed uid s0 s'"
  using assms
  by (simp add: undisturbed_def mail_ok_def delivered_def message_def mailbox_def find_email_def)

section \<open>New messages\<close>

lemma insert_undisturbed:
  assumes ok: "mail_ok s" and free: "mail_insert_error e rows atts s = None"
    and rows: "\<And>r. r \<in> set rows \<Longrightarrow> er_email r = em_id e"
    and atts: "\<And>a. a \<in> set atts \<Longrightarrow> ea_email a = em_id e"
    and draft: "\<And>r. r \<in> set rows \<Longrightarrow> er_folder r = DRAFTS \<Longrightarrow> rows = [r]"
    and others: "\<And>r. r \<in> set rows \<Longrightarrow> er_user r \<noteq> uid \<Longrightarrow> arrived r"
  shows "undisturbed uid s (insert_mail e rows atts s)"
proof -
  let ?s = "insert_mail e rows atts s"
  have fresh: "em_id e \<notin> em_id ` set (emails s)"
    and keys: "unique_on er_id (email_recipients s @ rows)"
    using free by (auto simp: mail_insert_error_def unique_on_def split: if_splits)
  have old: "er_email r \<noteq> em_id e" if "r \<in> set (email_recipients s)" for r
  proof -
    have "er_email r \<in> em_id ` set (emails s)" using ok that by (simp add: mail_ok_def)
    with fresh show ?thesis by metis
  qed
  have "mail_ok ?s"
    unfolding mail_ok_def
  proof (intro conjI ballI impI)
    fix r r' assume r: "r \<in> set (email_recipients ?s)" "er_folder r = DRAFTS"
      and r': "r' \<in> set (email_recipients ?s)" "er_email r' = er_email r"
    show "r' = r"
    proof (cases "r \<in> set rows")
      case True
      with r' old [of r'] rows [of r] have "r' \<in> set rows" by auto
      with True draft [OF True r(2)] show ?thesis by auto
    next
      case False
      with r have "r \<in> set (email_recipients s)" by auto
      moreover from this r' old [of r] rows [of r'] have "r' \<in> set (email_recipients s)" by auto
      ultimately show ?thesis using ok r(2) r'(2) unfolding mail_ok_def by blast
    qed
  qed (use ok fresh keys rows in \<open>auto simp: mail_ok_def\<close>)
  moreover have "delivered i ?s \<and> message i ?s = message i s" if d: "delivered i s" for i
  proof -
    from d have "i \<in> em_id ` set (emails s)" by (simp add: delivered_def)
    with fresh have "i \<noteq> em_id e" by metis
    with d rows atts show ?thesis
      by (auto simp: delivered_def message_def find_email_def table_simps filter_all_False split: option.splits)
  qed
  moreover have "\<exists>new. mailbox v ?s = mailbox v s @ new \<and> list_all arrived new" if "v \<noteq> uid" for v
    using others that
    by (intro exI [of _ "filter (\<lambda>r. er_user r = v) rows"]) (auto simp: mailbox_def list_all_iff)
  ultimately show ?thesis by (simp add: undisturbed_def)
qed

lemma space_notification_frame [simp]:
  "emails (snd (create_space_notification E n i k t s)) = emails s"
  "email_recipients (snd (create_space_notification E n i k t s)) = email_recipients s"
  "email_attachments (snd (create_space_notification E n i k t s)) = email_attachments s"
  by (simp_all add: create_space_notification_def insert_owned_def feed_table_def)

lemma notify_mail_frame [simp]:
  "emails (snd (notify_mail E t xs s)) = emails s"
  "email_recipients (snd (notify_mail E t xs s)) = email_recipients s"
  "email_attachments (snd (notify_mail E t xs s)) = email_attachments s"
  by (induction xs arbitrary: s) (auto simp: case_prod_unfold)

lemma deliver_rows:
  "r \<in> set (delivered_rows E uid d) \<Longrightarrow>
     er_email r = new_id E T_Email 0 \<and> er_folder r \<noteq> DRAFTS \<and> (er_user r \<noteq> uid \<longrightarrow> arrived r)"
  by (auto simp: delivered_rows_def mailbox_row_def arrived_def)

lemma deliver_atts: "a \<in> set (attachment_rows E fs) \<Longrightarrow> ea_email a = new_id E T_Email 0"
  by (auto simp: attachment_rows_def)

lemma deliver_undisturbed:
  assumes "mail_ok s"
  shows "undisturbed uid s (snd (deliver_mail E uid d s))"
proof (cases "mail_insert_error (new_email E uid (dl_subject d) (dl_body d)) (delivered_rows E uid d)
    (attachment_rows E (dl_files d)) s")
  case None
  let ?s = "insert_mail (new_email E uid (dl_subject d) (dl_body d)) (delivered_rows E uid d)
    (attachment_rows E (dl_files d)) s"
  have "undisturbed uid s ?s"
    by (rule insert_undisturbed [OF assms None])
      (use deliver_rows [of _ E uid d] deliver_atts [of _ E "dl_files d"] in \<open>auto simp: new_email_def\<close>)
  then have "undisturbed uid s (snd (notify_mail E (dl_subject d) (enumerate 0 (map fst (addressed uid d))) ?s))"
    by (rule undisturbed_cong [rotated 3]) simp_all
  with None show ?thesis by (simp add: deliver_mail_def Let_def)
qed (simp add: deliver_mail_def undisturbed_refl [OF assms])

lemma send_undisturbed: "mail_ok s \<Longrightarrow> undisturbed uid s (snd (send_mail E uid d s))"
  by (auto simp: send_mail_def Let_def undisturbed_refl deliver_undisturbed split: sum.splits)

section \<open>The own mailbox\<close>

lemma own_row_ok:
  "own_mailbox_row uid i s = Inr r \<Longrightarrow> r \<in> set (email_recipients s) \<and> er_id r = i \<and> er_user r = uid"
  unfolding own_mailbox_row_def find_mailbox_row_def
  by (auto split: option.splits if_splits dest!: find_row_Some_D)

lemma own_draft_ok:
  "own_draft uid i s = Inr r \<Longrightarrow>
     r \<in> set (email_recipients s) \<and> er_id r = i \<and> er_user r = uid \<and> er_folder r = DRAFTS"
  unfolding own_draft_def find_mailbox_row_def
  by (auto split: option.splits if_splits dest!: find_row_Some_D)

lemma same_row:
  "mail_ok s \<Longrightarrow> r \<in> set (email_recipients s) \<Longrightarrow> x \<in> set (email_recipients s) \<Longrightarrow> er_id x = er_id r \<Longrightarrow> x = r"
  by (auto simp: mail_ok_def dest: unique_onD)

lemma update_row_undisturbed:
  assumes ok: "mail_ok s" and r: "r \<in> set (email_recipients s)" "er_id r = i" "er_user r = uid"
    and f: "\<And>x. er_id (f x) = er_id x" "\<And>x. er_email (f x) = er_email x" "\<And>x. er_user (f x) = er_user x"
    and folder: "er_folder (f r) = DRAFTS \<Longrightarrow> er_folder r = DRAFTS"
  shows "undisturbed uid s (update_mailbox_row i f s)"
proof -
  have only: "x = r" if "x \<in> set (email_recipients s)" "er_id x = i" for x
    using same_row [OF ok r(1) that(1)] that(2) r(2) by simp
  have "mail_ok (update_mailbox_row i f s)"
    using ok only f folder by (auto simp: mail_ok_def set_update_rows)
  moreover have "delivered j (update_mailbox_row i f s)" if "delivered j s" for j
    using that only f folder by (auto simp: delivered_def set_update_rows)
  moreover have "mailbox v (update_mailbox_row i f s) = mailbox v s" if "v \<noteq> uid" for v
  proof -
    have "filter (\<lambda>x. er_user x = v) (update_rows (\<lambda>x. er_id x = i) f (email_recipients s)) =
        filter (\<lambda>x. er_user x = v) (email_recipients s)"
      by (rule filter_update_rows) (use only r(3) f(3) that in auto)
    then show ?thesis by (simp add: mailbox_def)
  qed
  ultimately show ?thesis
    by (simp add: undisturbed_def message_def find_email_def)
qed

lemma delete_rows_undisturbed:
  assumes ok: "mail_ok s" and own: "\<And>r. r \<in> set (email_recipients s) \<Longrightarrow> P r \<Longrightarrow> er_user r = uid"
  shows "undisturbed uid s (s\<lparr>email_recipients := delete_rows P (email_recipients s)\<rparr>)"
proof -
  let ?s = "s\<lparr>email_recipients := delete_rows P (email_recipients s)\<rparr>"
  have "mail_ok ?s" using ok by (auto simp: mail_ok_def)
  moreover have "mailbox v ?s = mailbox v s" if "v \<noteq> uid" for v
    unfolding mailbox_def delete_rows_def
    using own that by (auto intro!: filter_cong)
  ultimately show ?thesis
    by (auto simp: undisturbed_def delivered_def message_def find_email_def)
qed

lemma update_mail_undisturbed:
  assumes "mail_ok s" and "f \<noteq> Some (Some DRAFTS)"
  shows "undisturbed uid s (snd (update_mail uid i f r st s))"
proof (cases "own_mailbox_row uid i s")
  case (Inr x)
  from own_row_ok [OF Inr] have x: "x \<in> set (email_recipients s)" "er_id x = i" "er_user x = uid" by auto
  have "er_folder (apply_mail_update f r st x) = DRAFTS \<Longrightarrow> er_folder x = DRAFTS"
    using assms(2) by (auto simp: apply_mail_update_def required_def split: option.splits)
  with update_row_undisturbed [OF assms(1) x, of "apply_mail_update f r st"] Inr undisturbed_refl [OF assms(1)]
  show ?thesis by (simp add: update_mail_def apply_mail_update_def)
qed (simp add: update_mail_def undisturbed_refl [OF assms(1)])

lemma remove_mail_undisturbed:
  assumes "mail_ok s"
  shows "undisturbed uid s (snd (remove_mail uid i s))"
proof (cases "own_mailbox_row uid i s")
  case (Inr x)
  from own_row_ok [OF Inr] have x: "x \<in> set (email_recipients s)" "er_id x = i" "er_user x = uid" by auto
  have "undisturbed uid s (s\<lparr>email_recipients := delete_rows (\<lambda>r. er_id r = i) (email_recipients s)\<rparr>)"
  proof (rule delete_rows_undisturbed [OF assms])
    fix q assume "q \<in> set (email_recipients s)" "er_id q = i"
    with same_row [OF assms x(1), of q] x show "er_user q = uid" by simp
  qed
  with Inr show ?thesis by (simp add: remove_mail_def)
qed (simp add: remove_mail_def undisturbed_refl [OF assms])

lemma empty_trash_undisturbed:
  "mail_ok s \<Longrightarrow> undisturbed uid s (snd (empty_mail_trash uid s))"
  unfolding empty_mail_trash_def Let_def snd_conv by (rule delete_rows_undisturbed) auto

section \<open>Drafts\<close>

text \<open>The message of a draft is nobody else's.\<close>

lemma draft_alone:
  "mail_ok s \<Longrightarrow> own_draft uid i s = Inr r \<Longrightarrow> x \<in> set (email_recipients s) \<Longrightarrow> er_email x = er_email r \<Longrightarrow> x = r"
  using own_draft_ok [of uid i s r] unfolding mail_ok_def by blast

lemma not_delivered: "own_draft uid i s = Inr r \<Longrightarrow> delivered j s \<Longrightarrow> j \<noteq> er_email r"
  using own_draft_ok [of uid i s r] unfolding delivered_def by blast

lemma edit_draft_undisturbed:
  assumes ok: "mail_ok s" and d: "own_draft uid i s = Inr r"
  shows "undisturbed uid s (edit_draft E r dto to cc files s)"
proof -
  let ?s = "s\<lparr>emails := update_rows (\<lambda>e. em_id e = er_email r)
             (\<lambda>e. e\<lparr>em_subject := or_else (ml_subject dto) '''', em_body := or_else (ml_body dto) ''''\<rparr>) (emails s),
          email_attachments := delete_rows (\<lambda>a. ea_email a = er_email r) (email_attachments s) @
             replaced_attachments E (er_email r) files\<rparr>"
  have ids: "em_id ` set (emails ?s) = em_id ` set (emails s)"
    by (simp add: image_update_rows)
  from own_draft_ok [OF d] have r: "r \<in> set (email_recipients s)" "er_id r = i" "er_user r = uid" by auto
  have ok1: "mail_ok ?s" using ok ids by (simp add: mail_ok_def)
  have "undisturbed uid s ?s"
    unfolding undisturbed_def
  proof (intro conjI allI impI)
    fix j assume j: "delivered j s"
    with ids show "delivered j ?s" by (simp add: delivered_def)
    have ne: "j \<noteq> er_email r" using not_delivered [OF d j] .
    have "find_row (\<lambda>e. em_id e = j) (emails ?s) = find_row (\<lambda>e. em_id e = j) (emails s)"
      using ne by (simp add: find_row_update_keep)
        (cases "find_row (\<lambda>e. em_id e = j) (emails s)"; auto dest: find_row_Some_D)
    moreover have "filter (\<lambda>a. ea_email a = j) (replaced_attachments E (er_email r) files) = []"
      using ne by (intro filter_all_False) (auto simp: replaced_attachments_def)
    moreover have "filter (\<lambda>a. ea_email a = j) (delete_rows (\<lambda>a. ea_email a = er_email r) (email_attachments s)) =
        filter (\<lambda>a. ea_email a = j) (email_attachments s)"
      using ne by (auto simp: delete_rows_def intro!: filter_cong)
    ultimately show "message j ?s = message j s" by (simp add: message_def find_email_def)
  qed (use ok1 in \<open>simp_all add: mailbox_def\<close>)
  moreover have "undisturbed uid ?s (update_mailbox_row i (\<lambda>x. x\<lparr>er_draft_to := to, er_draft_cc := cc\<rparr>) ?s)"
    by (rule update_row_undisturbed [OF ok1, of r]) (use r in auto)
  ultimately show ?thesis
    using r(2) unfolding edit_draft_def by (rule_tac undisturbed_trans) auto
qed

lemma save_draft_undisturbed:
  assumes ok: "mail_ok s"
  shows "undisturbed uid s (snd (save_draft E uid d i s))"
proof (cases "truthy i")
  case True
  then show ?thesis
    using undisturbed_refl [OF ok] edit_draft_undisturbed [OF ok]
    by (auto simp: save_draft_def Let_def split: sum.splits)
next
  case False
  have "undisturbed uid s (insert_mail (new_email E uid t b) [draft_row E uid to cc] (attachment_rows E fs) s)"
    if "mail_insert_error (new_email E uid t b) [draft_row E uid to cc] (attachment_rows E fs) s = None"
    for t b to cc fs
    by (rule insert_undisturbed [OF ok that])
      (use deliver_atts [of _ E fs] in \<open>auto simp: new_email_def draft_row_def mailbox_row_def\<close>)
  with False show ?thesis
    using undisturbed_refl [OF ok]
    by (auto simp: save_draft_def Let_def split: sum.splits option.splits)
qed

lemma delete_draft_undisturbed:
  assumes ok: "mail_ok s" and d: "own_draft uid i s = Inr r"
  shows "undisturbed uid s (delete_email (er_email r) s)"
proof -
  have mine: "er_user x = uid" if "x \<in> set (email_recipients s)" "er_email x = er_email r" for x
    using draft_alone [OF ok d that] own_draft_ok [OF d] by simp
  have "mail_ok (delete_email (er_email r) s)"
    using ok by (fastforce simp: mail_ok_def delete_email_def)
  moreover have "delivered j (delete_email (er_email r) s) \<and> message j (delete_email (er_email r) s) = message j s"
    if j: "delivered j s" for j
  proof -
    have ne: "j \<noteq> er_email r" using not_delivered [OF d j] .
    have "find_row (\<lambda>e. em_id e = j) (delete_rows (\<lambda>e. em_id e = er_email r) (emails s)) =
        find_row (\<lambda>e. em_id e = j) (emails s)"
      using ne by (intro find_row_delete_keep) auto
    moreover have "filter (\<lambda>a. ea_email a = j) (delete_rows (\<lambda>a. ea_email a = er_email r) (email_attachments s)) =
        filter (\<lambda>a. ea_email a = j) (email_attachments s)"
      using ne by (auto simp: delete_rows_def intro!: filter_cong)
    ultimately show ?thesis
      using j ne by (auto simp: message_def find_email_def delete_email_def delivered_def)
  qed
  moreover have "mailbox v (delete_email (er_email r) s) = mailbox v s" if "v \<noteq> uid" for v
    unfolding mailbox_def delete_email_def delete_rows_def
    using mine that by (auto intro!: filter_cong)
  ultimately show ?thesis by (simp add: undisturbed_def)
qed

lemma send_draft_undisturbed:
  assumes ok: "mail_ok s"
  shows "undisturbed uid s (snd (send_draft E uid i d s))"
proof (cases "own_draft uid i s")
  case (Inr r)
  let ?s = "delete_email (er_email r) s"
  have del: "undisturbed uid s ?s" by (rule delete_draft_undisturbed [OF ok Inr])
  then have "mail_ok ?s" by (simp add: undisturbed_def)
  then have "undisturbed uid s (snd (deliver_mail E uid x ?s))" for x
    using undisturbed_trans [OF del deliver_undisturbed] by blast
  with Inr undisturbed_refl [OF ok] show ?thesis
    by (auto simp: send_draft_def Let_def split: option.splits sum.splits)
qed (simp add: send_draft_def undisturbed_refl [OF ok])

section \<open>Delivered mail is final\<close>

lemma mail_step_undisturbed:
  "mail_ok s \<Longrightarrow> \<not> files_as_draft (E, uid, op) \<Longrightarrow> undisturbed uid s (snd (mail_step (E, uid, op) s))"
  by (cases op) (simp_all add: send_undisturbed update_mail_undisturbed remove_mail_undisturbed
      empty_trash_undisturbed save_draft_undisturbed send_draft_undisturbed)

section \<open>Sending\<close>

lemma resolve_recipients_ok:
  "resolve_recipients ids s = Inr us \<Longrightarrow> us = filter (\<lambda>u. u_ndy_id u \<in> set ids) (users s)"
proof -
  assume "resolve_recipients ids s = Inr us"
  moreover have "set ids = set (first_occurrences ids)" by simp
  ultimately show ?thesis
    by (auto simp: resolve_recipients_def Let_def simp del: first_occurrences split: if_splits)
qed

lemma filter_unique_row:
  "unique_on key rows \<Longrightarrow> v \<in> set rows \<Longrightarrow> filter (\<lambda>u. key u = key v) rows = [v]"
  by (induction rows) (auto simp: unique_on_def image_iff intro!: filter_all_False)

lemma resolve_recipients_all:
  assumes "resolve_recipients ids s = Inr us" and "unique_on u_ndy_id (users s)"
  shows "set ids \<subseteq> u_ndy_id ` set (users s)"
proof -
  let ?found = "filter (\<lambda>u. u_ndy_id u \<in> set ids) (users s)"
  have "distinct (map u_ndy_id ?found)"
    using assms(2) by (simp add: unique_on_def distinct_map inj_on_def)
  then have "card (u_ndy_id ` set ?found) = length ?found"
    using distinct_card by fastforce
  moreover have "card (set ids) = length (first_occurrences ids)"
    using distinct_card [of "first_occurrences ids"] by simp
  moreover have "length ?found = length (first_occurrences ids)"
    using assms(1) by (auto simp: resolve_recipients_def Let_def simp flip: set_empty split: if_splits)
  moreover have "u_ndy_id ` set ?found \<subseteq> set ids" by auto
  ultimately have "u_ndy_id ` set ?found = set ids"
    by (intro card_subset_eq) simp_all
  then show ?thesis by auto
qed

lemma resolved_row:
  assumes "unique_on u_id (users s)" and "v \<in> set (users s)"
  shows "filter (\<lambda>u. u_id u = u_id v) (filter P (users s)) = (if P v then [v] else [])"
proof -
  have "filter (\<lambda>u. u_id u = u_id v) (filter P (users s)) = filter P (filter (\<lambda>u. u_id u = u_id v) (users s))"
    by (simp add: conj_commute)
  with filter_unique_row [OF assms] show ?thesis by simp
qed

lemma delivered_rows_of:
  "map (\<lambda>r. (er_folder r, er_read r, er_cc r)) (filter (\<lambda>r. er_user r = v)
      (map (\<lambda>(n, i, cc). mailbox_row E n i INBOX False cc) (enumerate k xs))) =
   map (\<lambda>(i, cc). (INBOX, False, cc)) (filter (\<lambda>x. fst x = v) xs)"
  by (induction xs arbitrary: k) (auto simp: mailbox_row_def)

lemma send_mail_ok:
  assumes "send_mail E uid d s = (Inr m, s')" and "unique_on u_ndy_id (users s)"
  obtains dl where "dl_to dl = filter (\<lambda>u. u_ndy_id u \<in> set (or_else (ml_to d) [])) (users s)"
    "dl_cc dl = filter (\<lambda>u. u_ndy_id u \<in> set (or_else (ml_cc d) []) - set (or_else (ml_to d) [])) (users s)"
    "dl_files dl = first_occurrences (or_else (ml_files d) [])"
    "m = new_email E uid (or_else (ml_subject d) '''') (or_else (ml_body d) '''')"
    "emails s' = emails s @ [m]" "email_recipients s' = email_recipients s @ delivered_rows E uid dl"
    "email_attachments s' = email_attachments s @ attachment_rows E (dl_files dl)"
    "set (or_else (ml_to d) []) \<union> set (or_else (ml_cc d) []) \<subseteq> u_ndy_id ` set (users s)"
proof -
  let ?to = "first_occurrences (or_else (ml_to d) [])"
  let ?cc = "cc_without ?to (or_else (ml_cc d) [])"
  from assms(1) obtain tos ccs where to: "resolve_recipients ?to s = Inr tos" and cc: "resolve_recipients ?cc s = Inr ccs"
    and dm: "deliver_mail E uid \<lparr>dl_subject = or_else (ml_subject d) '''', dl_body = or_else (ml_body d) '''',
        dl_to = tos, dl_cc = ccs, dl_files = first_occurrences (or_else (ml_files d) [])\<rparr> s = (Inr m, s')"
    by (auto simp: send_mail_def Let_def split: if_splits sum.splits)
  let ?dl = "\<lparr>dl_subject = or_else (ml_subject d) '''', dl_body = or_else (ml_body d) '''',
        dl_to = tos, dl_cc = ccs, dl_files = first_occurrences (or_else (ml_files d) [])\<rparr>"
  let ?s = "insert_mail (new_email E uid (dl_subject ?dl) (dl_body ?dl)) (delivered_rows E uid ?dl)
      (attachment_rows E (dl_files ?dl)) s"
  from dm have m: "m = new_email E uid (or_else (ml_subject d) '''') (or_else (ml_body d) '''')"
    and s': "s' = snd (notify_mail E (dl_subject ?dl) (enumerate 0 (map fst (addressed uid ?dl))) ?s)"
    by (auto simp: deliver_mail_def Let_def and_then_def split: option.splits prod.splits sum.splits)
  show thesis
    by (rule that [of ?dl])
      (use resolve_recipients_ok [OF to] resolve_recipients_ok [OF cc] m s'
          resolve_recipients_all [OF to assms(2)] resolve_recipients_all [OF cc assms(2)] in
        \<open>auto simp: cc_without_def intro!: filter_cong\<close>)
qed

definition mail_copy :: "id \<Rightarrow> mail_dto \<Rightarrow> user \<Rightarrow> (email_folder \<times> bool \<times> bool) list" where
  "mail_copy uid d v =
     (if u_id v = uid then [(SENT, True, False)]
      else if u_ndy_id v \<in> set (or_else (ml_to d) []) then [(INBOX, False, False)]
      else if u_ndy_id v \<in> set (or_else (ml_cc d) []) then [(INBOX, False, True)] else [])"

lemma addressed_to:
  assumes "unique_on u_id (users s)" and "v \<in> set (users s)"
    and "dl_to dl = filter P (users s)" and "dl_cc dl = filter Q (users s)" and "u_id v \<noteq> uid"
  shows "filter (\<lambda>x. fst x = u_id v) (addressed uid dl) =
    (if P v then [(u_id v, False)] else []) @ (if Q v then [(u_id v, True)] else [])"
proof -
  have "filter (\<lambda>x. fst x = u_id v) (addressed uid dl) =
      filter (\<lambda>x. fst x = u_id v) (map (\<lambda>u. (u_id u, False)) (dl_to dl) @ map (\<lambda>u. (u_id u, True)) (dl_cc dl))"
    using assms(5) unfolding addressed_def filter_filter by (intro filter_cong) auto
  then show ?thesis
    using resolved_row [OF assms(1,2)] by (simp add: assms(3,4) filter_map o_def)
qed

lemma delivered_copies:
  assumes "unique_on u_id (users s)" and "v \<in> set (users s)"
    and "dl_to dl = filter (\<lambda>u. u_ndy_id u \<in> set (or_else (ml_to d) [])) (users s)"
    and "dl_cc dl = filter (\<lambda>u. u_ndy_id u \<in> set (or_else (ml_cc d) []) - set (or_else (ml_to d) [])) (users s)"
  shows "map (\<lambda>r. (er_folder r, er_read r, er_cc r)) (filter (\<lambda>r. er_user r = u_id v) (delivered_rows E uid dl)) =
    mail_copy uid d v"
proof (cases "u_id v = uid")
  case True
  have "filter (\<lambda>x. fst x = uid) (addressed uid dl) = []"
    by (auto simp: addressed_def intro!: filter_all_False)
  then have "filter (\<lambda>r. er_user r = uid) (map (\<lambda>(n, i, cc). mailbox_row E n i INBOX False cc) (enumerate 1 (addressed uid dl))) = []"
    using delivered_rows_of [of uid E 1 "addressed uid dl"] by simp
  with True show ?thesis by (simp add: delivered_rows_def mail_copy_def mailbox_row_def)
next
  case False
  have "er_user (mailbox_row E 0 uid SENT True False) \<noteq> u_id v"
    using False by (simp add: mailbox_row_def)
  then show ?thesis
    using False addressed_to [OF assms False]
    by (simp add: delivered_rows_def mail_copy_def delivered_rows_of)
qed

text \<open>
  C26. A message that was sent reaches exactly the people it is addressed to: every NDY ID on it is a
  user's, the sender gets one read copy among the sent mail, every other addressee one unread inbox
  copy (marked as a copy when only in the Cc list), nobody else gets anything, and the message and
  its attachments are recorded as written.
\<close>

theorem mail_reaches_its_recipients:
  assumes "send_mail E uid d s = (Inr m, s')" and "unique_on u_id (users s)"
    and "unique_on u_ndy_id (users s)" and "v \<in> set (users s)"
  shows "set (or_else (ml_to d) []) \<union> set (or_else (ml_cc d) []) \<subseteq> u_ndy_id ` set (users s) \<and>
    emails s' = emails s @ [m] \<and> em_sender m = uid \<and> em_subject m = or_else (ml_subject d) '''' \<and>
    em_body m = or_else (ml_body d) '''' \<and>
    (\<exists>new. mailbox (u_id v) s' = mailbox (u_id v) s @ new \<and>
       (\<forall>r \<in> set new. er_email r = em_id m) \<and>
       map (\<lambda>r. (er_folder r, er_read r, er_cc r)) new = mail_copy uid d v) \<and>
    (\<exists>atts. email_attachments s' = email_attachments s @ atts \<and>
       (\<forall>a \<in> set atts. ea_email a = em_id m) \<and> map ea_file atts = first_occurrences (or_else (ml_files d) []))"
proof -
  obtain dl where dl: "dl_to dl = filter (\<lambda>u. u_ndy_id u \<in> set (or_else (ml_to d) [])) (users s)"
    "dl_cc dl = filter (\<lambda>u. u_ndy_id u \<in> set (or_else (ml_cc d) []) - set (or_else (ml_to d) [])) (users s)"
    "dl_files dl = first_occurrences (or_else (ml_files d) [])"
    and m: "m = new_email E uid (or_else (ml_subject d) '''') (or_else (ml_body d) '''')"
    and s': "emails s' = emails s @ [m]" "email_recipients s' = email_recipients s @ delivered_rows E uid dl"
      "email_attachments s' = email_attachments s @ attachment_rows E (dl_files dl)"
    and all: "set (or_else (ml_to d) []) \<union> set (or_else (ml_cc d) []) \<subseteq> u_ndy_id ` set (users s)"
    using send_mail_ok [OF assms(1,3)] by metis
  have files: "map ea_file (attachment_rows E fs) = fs" for fs
    by (simp add: attachment_rows_def case_prod_unfold o_def)
  have "\<exists>new. mailbox (u_id v) s' = mailbox (u_id v) s @ new \<and> (\<forall>r \<in> set new. er_email r = em_id m) \<and>
       map (\<lambda>r. (er_folder r, er_read r, er_cc r)) new = mail_copy uid d v"
    using delivered_copies [OF assms(2,4) dl(1,2), of E uid] deliver_rows [of _ E uid dl] m
    by (intro exI [of _ "filter (\<lambda>r. er_user r = u_id v) (delivered_rows E uid dl)"])
      (simp add: mailbox_def s'(2) new_email_def)
  moreover have "\<forall>a \<in> set (attachment_rows E (dl_files dl)). ea_email a = em_id m"
    using deliver_atts [of _ E "dl_files dl"] m by (simp add: new_email_def)
  ultimately show ?thesis
    using all s' files dl(3) m by (simp add: new_email_def)
qed

section \<open>What goes wrong\<close>

text \<open>
  Three accounts; the second sends a message with one of its files to the first and the third.
\<close>

definition mail_demo :: db where
  "mail_demo = demo_db\<lparr>drive_files :=
     [\<lparr>dv_id = ''f1'', dv_user = ''a2'', dv_folder = None, dv_name = ''plan'', dv_mime = ''x'', dv_size = 1,
       dv_url = ''u'', dv_created_at = 0\<rparr>]\<rparr>"

definition demo_message :: mail_dto where
  "demo_message = \<lparr>ml_to = Some [''NDY-MBR-AAAAA2'', ''NDY-MBR-AAAAA4''], ml_cc = None, ml_subject = Some ''Plan'',
     ml_body = Some ''Agreed.'', ml_files = Some [''f1'']\<rparr>"

definition demo_sent :: db where
  "demo_sent = snd (send_mail (demo_env 1) ''a2'' demo_message mail_demo)"

text \<open>
  A recipient files its copy under the drafts and saves it as a draft: the message everybody received,
  under the sender's name, says something else and has lost its attachment.
\<close>

definition rewritten :: db where
  "rewritten =
     snd (save_draft (demo_env 3) ''a1'' \<lparr>ml_to = None, ml_cc = None, ml_subject = Some ''Plan'',
         ml_body = Some ''Refused.'', ml_files = None\<rparr> (Some ''id1'')
       (snd (update_mail ''a1'' ''id1'' (Some (Some DRAFTS)) None None demo_sent)))"

lemma recipient_rewrites_a_message:
  "map (\<lambda>e. (em_sender e, em_body e)) (emails demo_sent) = [(''a2'', ''Agreed.'')] \<and>
   length (email_attachments demo_sent) = 1 \<and>
   map (\<lambda>e. (em_sender e, em_body e)) (emails rewritten) = [(''a2'', ''Refused.'')] \<and>
   email_attachments rewritten = [] \<and> length (mailbox ''m1'' rewritten) = 1"
  by code_simp

text \<open>
  Sending that draft deletes the message for the sender and for the other recipient, and passes the
  sender's file on as the recipient's own attachment.
\<close>

definition resent :: db where
  "resent =
     snd (send_draft (demo_env 3\<lparr>new_id := \<lambda>_ n. ''jd'' @ string_of_nat n\<rparr>) ''a1'' ''id1''
         \<lparr>ml_to = Some [''NDY-MBR-AAAAA2''], ml_cc = None, ml_subject = None, ml_body = None, ml_files = None\<rparr>
       (snd (update_mail ''a1'' ''id1'' (Some (Some DRAFTS)) None None demo_sent)))"

lemma recipient_deletes_a_message:
  "length (mailbox ''a2'' demo_sent) = 1 \<and> length (mailbox ''m1'' demo_sent) = 1 \<and>
   mailbox ''a2'' resent = [] \<and> mailbox ''m1'' resent = [] \<and>
   map em_sender (emails resent) = [''a1''] \<and> map ea_file (email_attachments resent) = [''f1'']"
  by code_simp

theorem mail_reaches_its_recipients_witness:
  "\<exists>new. mailbox ''m1'' demo_sent = mailbox ''m1'' mail_demo @ new \<and>
     map (\<lambda>r. (er_folder r, er_read r, er_cc r)) new = [(INBOX, False, False)]"
proof -
  have u: "unique_on u_id (users mail_demo)" "unique_on u_ndy_id (users mail_demo)"
    "demo_user ''m1'' ''AAAAA4'' USER \<in> set (users mail_demo)"
    "succeeds (send_mail (demo_env 1) ''a2'' demo_message mail_demo)"
    "mail_copy ''a2'' demo_message (demo_user ''m1'' ''AAAAA4'' USER) = [(INBOX, False, False)]"
    "u_id (demo_user ''m1'' ''AAAAA4'' USER) = ''m1''"
    by code_simp+
  then obtain m where "send_mail (demo_env 1) ''a2'' demo_message mail_demo = (Inr m, demo_sent)"
    unfolding succeeds_iff demo_sent_def by (metis prod.collapse)
  from mail_reaches_its_recipients [OF this u(1,2,3)] u(5,6) show ?thesis by auto
qed

end
