(* ===== verification/Privacy.thy ===== *)
theory Privacy
  imports Isolation Mailbox
begin

text \<open>
  All requests to NDYSPACE together, mail and the other modules: what an account sees is changed by
  others through mail alone, and a delivered message is final, its attachments apart that their owner
  deletes from the drive.
\<close>

section \<open>Requests\<close>

datatype desk_op = SpaceOp space_op | MailOp mail_op

fun desk_step :: "env \<times> id \<times> desk_op \<Rightarrow> db \<Rightarrow> bool \<times> db" where
  "desk_step (E, uid, SpaceOp op) s = space_step (E, uid, op) s"
| "desk_step (E, uid, MailOp op) s = mail_step (E, uid, op) s"

fun is_mail :: "env \<times> id \<times> desk_op \<Rightarrow> bool" where
  "is_mail (_, _, MailOp _) = True"
| "is_mail _ = False"

fun drafts_copy :: "env \<times> id \<times> desk_op \<Rightarrow> bool" where
  "drafts_copy (E, uid, MailOp op) = files_as_draft (E, uid, op)"
| "drafts_copy _ = False"

fun deleted_files :: "env \<times> id \<times> desk_op \<Rightarrow> id list" where
  "deleted_files (_, _, SpaceOp (DeleteFile i)) = [i]"
| "deleted_files _ = []"

section \<open>Mail and the other modules\<close>

definition mail_notice :: "space_notification \<Rightarrow> bool" where
  "mail_notice n \<longleftrightarrow> sn_type n = SN_MAIL \<and> \<not> sn_read n"

definition only_notices :: "db \<Rightarrow> db \<Rightarrow> bool" where
  "only_notices s s' \<longleftrightarrow>
     calendar_events s' = calendar_events s \<and> contacts s' = contacts s \<and> tasks s' = tasks s \<and>
     note_rows s' = note_rows s \<and> bookmarks s' = bookmarks s \<and> drive_folders s' = drive_folders s \<and>
     drive_files s' = drive_files s \<and>
     (\<exists>new. space_notifications s' = space_notifications s @ new \<and> list_all mail_notice new) \<and>
     (feed_rows.keys s \<longrightarrow> feed_rows.keys s')"

lemma only_notices_same:
  assumes "calendar_events s' = calendar_events s" and "contacts s' = contacts s" and "tasks s' = tasks s"
    and "note_rows s' = note_rows s" and "bookmarks s' = bookmarks s" and "drive_folders s' = drive_folders s"
    and "drive_files s' = drive_files s" and "space_notifications s' = space_notifications s"
  shows "only_notices s s'"
  using assms by (simp add: only_notices_def)

lemma only_notices_trans:
  assumes "only_notices s s1" and "only_notices s1 s2"
  shows "only_notices s s2"
proof -
  from assms obtain n1 n2 where "space_notifications s1 = space_notifications s @ n1" "list_all mail_notice n1"
      "space_notifications s2 = space_notifications s1 @ n2" "list_all mail_notice n2"
    by (auto simp: only_notices_def)
  then have "\<exists>new. space_notifications s2 = space_notifications s @ new \<and> list_all mail_notice new"
    by (intro exI [of _ "n1 @ n2"]) simp
  with assms show ?thesis by (simp add: only_notices_def)
qed

lemma notification_notices: "only_notices s (snd (create_space_notification E n i SN_MAIL m s))"
  by (auto simp: create_space_notification_def insert_owned_def only_notices_def mail_notice_def unique_on_append
      exists_row_iff)

lemma notify_notices: "only_notices s (snd (notify_mail E t xs s))"
proof (induction xs arbitrary: s)
  case (Cons x xs)
  obtain n i where x: "x = (n, i)" by (cases x)
  have "only_notices s (snd (create_space_notification E n i SN_MAIL (''New message: \"'' @ t @ ''\"'') s))"
    by (rule notification_notices)
  from only_notices_trans [OF this Cons.IH] show ?case by (simp add: x case_prod_unfold)
qed (simp add: only_notices_same)

lemma deliver_notices: "only_notices s (snd (deliver_mail E uid d s))"
proof (cases "mail_insert_error (new_email E uid (dl_subject d) (dl_body d)) (delivered_rows E uid d)
    (attachment_rows E (dl_files d)) s")
  case None
  let ?s = "insert_mail (new_email E uid (dl_subject d) (dl_body d)) (delivered_rows E uid d)
    (attachment_rows E (dl_files d)) s"
  have "only_notices s ?s" by (rule only_notices_same) simp_all
  from only_notices_trans [OF this notify_notices] None show ?thesis
    by (simp add: deliver_mail_def Let_def)
qed (simp add: deliver_mail_def only_notices_same)

lemma mail_step_notices: "only_notices s (snd (mail_step (E, uid, op) s))"
proof (cases op)
  case (SendMail d)
  then show ?thesis
    by (auto simp: send_mail_def Let_def only_notices_same deliver_notices split: sum.splits)
next
  case (SendDraft i d)
  have "only_notices s (delete_email j s)" for j
    by (rule only_notices_same) (simp_all add: delete_email_def)
  from only_notices_trans [OF this deliver_notices] show ?thesis
    by (auto simp: SendDraft send_draft_def Let_def only_notices_same split: option.splits sum.splits)
qed (auto simp: update_mail_def remove_mail_def empty_mail_trash_def save_draft_def edit_draft_def Let_def
      intro!: only_notices_same split: sum.splits option.splits)

lemma space_step_mail:
  "emails (snd (space_step (E, uid, op) s)) = emails s \<and>
   email_recipients (snd (space_step (E, uid, op) s)) = email_recipients s \<and>
   (\<exists>gone. set gone \<subseteq> set (deleted_files (E, uid, SpaceOp op)) \<and>
      email_attachments (snd (space_step (E, uid, op) s)) = filter (\<lambda>a. ea_file a \<notin> set gone) (email_attachments s))"
proof (cases "\<exists>i. op = DeleteFile i")
  case True
  then obtain i where op: "op = DeleteFile i" by blast
  show ?thesis
  proof (cases "remove_owned file_table uid i s")
    case (Pair r s1)
    then have "emails s1 = emails s" "email_recipients s1 = email_recipients s" "email_attachments s1 = email_attachments s"
      by (auto simp: remove_owned_def split: sum.splits)
    with Pair show ?thesis
      unfolding op
      by (cases r) (auto simp: delete_file_def and_then_def delete_rows_def intro: exI [of _ "[]"] exI [of _ "[i]"])
  qed
next
  case False
  have "emails (snd (space_step (E, uid, op) s)) = emails s \<and>
      email_recipients (snd (space_step (E, uid, op) s)) = email_recipients s \<and>
      email_attachments (snd (space_step (E, uid, op) s)) = email_attachments s"
    using False
    by (cases op) (auto simp: create_event_def update_event_def create_contact_def update_contact_def create_task_def
        update_task_def set_task_complete_def create_note_def update_note_def create_bookmark_def mark_feed_read_def
        mark_feed_all_read_def create_folder_def delete_folder_def upload_endpoint_def upload_file_def move_file_def
        assert_within_quota_def insert_owned_def update_owned_def remove_owned_def and_then_def Let_def
        split: sum.splits option.splits)
  then show ?thesis by (intro conjI exI [of _ "[]"]) simp_all
qed

section \<open>NDYSPACE is private\<close>

text \<open>The rows of an account apart from its feed.\<close>

definition rest_view where
  "rest_view v s = space_view v (s\<lparr>space_notifications := []\<rparr>)"

definition feed_grows :: "id \<Rightarrow> db \<Rightarrow> db \<Rightarrow> bool" where
  "feed_grows v s s' \<longleftrightarrow> (\<exists>new. mine feed_table v s' = mine feed_table v s @ new \<and> list_all mail_notice new)"

lemma rest_view_cong: "space_view v s' = space_view v s \<Longrightarrow> rest_view v s' = rest_view v s"
  by (simp add: rest_view_def space_view_def mine_def)

lemma feed_grows_trans: "feed_grows v s s1 \<Longrightarrow> feed_grows v s1 s2 \<Longrightarrow> feed_grows v s s2"
  unfolding feed_grows_def by (metis append.assoc list_all_append)

lemma desk_step_private:
  assumes "space_ok s" and "v \<noteq> uid" and "new_id E T_Folder 0 \<noteq> []"
  shows "space_ok (snd (desk_step (E, uid, op) s)) \<and> rest_view v (snd (desk_step (E, uid, op) s)) = rest_view v s \<and>
    feed_grows v s (snd (desk_step (E, uid, op) s)) \<and>
    (\<not> is_mail (E, uid, op) \<longrightarrow> space_view v (snd (desk_step (E, uid, op) s)) = space_view v s)"
proof (cases op)
  case (SpaceOp p)
  let ?s = "snd (space_step (E, uid, p) s)"
  have u: "space_ok ?s" "space_view v ?s = space_view v s"
    using space_step_unseen [OF assms, of p] by (simp_all add: unseen_def)
  then have "mine feed_table v ?s = mine feed_table v s" by (simp add: space_view_def)
  then have "feed_grows v s ?s" by (simp add: feed_grows_def)
  with u rest_view_cong [OF u(2)] SpaceOp show ?thesis by simp
next
  case (MailOp p)
  let ?s = "snd (mail_step (E, uid, p) s)"
  have n: "only_notices s ?s" by (rule mail_step_notices)
  then obtain new where "space_notifications ?s = space_notifications s @ new" "list_all mail_notice new"
    by (auto simp: only_notices_def)
  then have "feed_grows v s ?s"
    by (auto simp: feed_grows_def mine_def list_all_iff intro!: exI [of _ "filter (\<lambda>n. sn_user n = v) new"])
  with n assms(1) MailOp show ?thesis
    by (simp add: only_notices_def space_ok_def folders_owned_def rest_view_def space_view_def mine_def)
qed

lemma desk_run_private:
  assumes "space_ok s" and "\<forall>a \<in> set ops. fst (snd a) \<noteq> v \<and> new_id (fst a) T_Folder 0 \<noteq> []"
  shows "space_ok (run_ops desk_step ops s) \<and> rest_view v (run_ops desk_step ops s) = rest_view v s \<and>
    feed_grows v s (run_ops desk_step ops s) \<and>
    (list_all (\<lambda>a. \<not> is_mail a) ops \<longrightarrow> space_view v (run_ops desk_step ops s) = space_view v s)"
  using assms
proof (induction ops arbitrary: s)
  case (Cons a ops)
  obtain E uid op where a: "a = (E, uid, op)" by (cases a)
  from Cons.prems have "v \<noteq> uid" "new_id E T_Folder 0 \<noteq> []" by (auto simp: a)
  note step = desk_step_private [OF Cons.prems(1) this, of op]
  with Cons.IH [of "snd (desk_step a s)"] Cons.prems(2) show ?case
    by (auto simp: a intro: feed_grows_trans)
qed (simp add: feed_grows_def)

lemma blank_answer:
  fixes t :: db
  assumes "q \<notin> {Feed, UnreadFeed}"
  shows "answer_query E coll ilike v q (t\<lparr>space_notifications := []\<rparr>) = answer_query E coll ilike v q t"
proof -
  let ?t = "t\<lparr>space_notifications := []\<rparr>"
  have gets: "get_owned calendar_table v i ?t = get_owned calendar_table v i t"
    "get_owned contact_table v i ?t = get_owned contact_table v i t"
    "get_owned task_table v i ?t = get_owned task_table v i t"
    "get_owned note_table v i ?t = get_owned note_table v i t"
    "get_owned file_table v i ?t = get_owned file_table v i t" for i
    by (simp_all add: get_owned_def)
  have mines: "mine calendar_table v ?t = mine calendar_table v t" "mine contact_table v ?t = mine contact_table v t"
    "mine task_table v ?t = mine task_table v t" "mine note_table v ?t = mine note_table v t"
    "mine bookmark_table v ?t = mine bookmark_table v t" "mine folder_table v ?t = mine folder_table v t"
    "mine file_table v ?t = mine file_table v t"
    by (simp_all add: mine_def)
  have folders: "list_folders v ?t = list_folders v t"
    unfolding list_folders_def mines by simp
  from assms show ?thesis
    by (cases q) (simp_all only: answer_query.simps gets mines folders list_events_in_range_def list_upcoming_events_def
        list_contacts_def list_recent_contacts_def search_contacts_def list_tasks_by_status_def list_all_tasks_def
        list_notes_def list_bookmarks_def list_files_def list_recent_files_def storage_usage_def used_bytes_def
        insert_iff simp_thms)
qed

lemma answer_of_rest:
  assumes "space_ok s" and "space_ok s'" and "rest_view v s' = rest_view v s" and "q \<notin> {Feed, UnreadFeed}"
  shows "answer_query E coll ilike v q s' = answer_query E coll ilike v q s"
proof -
  have blank: "answer_query E coll ilike v q (t\<lparr>space_notifications := []\<rparr>) = answer_query E coll ilike v q t" for t
    by (rule blank_answer [OF assms(4)])
  have "space_ok (t\<lparr>space_notifications := []\<rparr>)" if "space_ok t" for t
    using that by (simp add: space_ok_def folders_owned_def unique_on_def)
  with answer_of_view [of "s\<lparr>space_notifications := []\<rparr>" "s'\<lparr>space_notifications := []\<rparr>" v E coll ilike q]
    assms(1-3) show ?thesis
    by (simp add: rest_view_def blank)
qed

text \<open>
  C24. NDYSPACE is private.  Whatever other accounts request of the calendar, contacts, tasks, notes,
  bookmarks, notifications, drive and mail, and however often, every question an account asks about its
  own calendar, contacts, tasks, notes, bookmarks and drive is answered as before.  Its feed, too, is
  answered as before unless mail is sent; what mail adds to it are unread notices of new messages, after
  the rows that were there, which stay as they were.
\<close>

theorem space_is_private:
  assumes "space_ok s"
    and "\<forall>a \<in> set ops. fst (snd a) \<noteq> v \<and> new_id (fst a) T_Folder 0 \<noteq> []"
  shows "(q \<notin> {Feed, UnreadFeed} \<or> list_all (\<lambda>a. \<not> is_mail a) ops \<longrightarrow>
      answer_query E coll ilike v q (run_ops desk_step ops s) = answer_query E coll ilike v q s) \<and>
    (\<exists>new. mine feed_table v (run_ops desk_step ops s) = mine feed_table v s @ new \<and> list_all mail_notice new)"
  using desk_run_private [OF assms] answer_of_rest [OF assms(1), of "run_ops desk_step ops s" v q]
    answer_of_view [OF assms(1), of "run_ops desk_step ops s" v E coll ilike q]
  by (auto simp: feed_grows_def)

definition other_accounts :: "(env \<times> id \<times> desk_op) list" where
  "other_accounts =
     [(demo_env 1, ''a1'', SpaceOp (CreateFolder ''Photos'')),
      ((demo_env 2)\<lparr>new_id := (\<lambda>_ _. ''n2'')\<rparr>, ''a1'', SpaceOp (RemoveNote ''n1'')),
      ((demo_env 3)\<lparr>new_id := (\<lambda>_ _. ''n3'')\<rparr>, ''a1'', SpaceOp (CreateNote ''Mine'' None)),
      (demo_env 4, ''a2'', MailOp (SendMail \<lparr>ml_to = Some [''NDY-MBR-AAAAA4''], ml_cc = None, ml_subject = Some ''Hi'',
         ml_body = Some ''text'', ml_files = None\<rparr>)),
      (demo_env 5, ''a2'', SpaceOp (UpdateNote ''n1'' (Some (Some ''Hacked'')) None))]"

definition notebook_db :: db where
  "notebook_db = demo_db\<lparr>note_rows := [\<lparr>no_id = ''n1'', no_user = ''m1'', no_title = ''Diary'', no_body = [],
     no_created_at = 0, no_updated_at = 0\<rparr>]\<rparr>"

theorem space_is_private_witness:
  "length (note_rows (run_ops desk_step other_accounts notebook_db)) = 2 \<and>
   length (mine feed_table ''m1'' (run_ops desk_step other_accounts notebook_db)) = 1 \<and>
   answer_query (demo_env 9) (\<lambda>_. 0) (\<lambda>_ _. True) ''m1'' (Note ''n1'') (run_ops desk_step other_accounts notebook_db) =
   answer_query (demo_env 9) (\<lambda>_. 0) (\<lambda>_ _. True) ''m1'' (Note ''n1'') notebook_db"
proof (intro conjI)
  show "length (note_rows (run_ops desk_step other_accounts notebook_db)) = 2" by code_simp
  show "length (mine feed_table ''m1'' (run_ops desk_step other_accounts notebook_db)) = 1" by code_simp
  have ok: "space_ok notebook_db"
    by (simp add: space_ok_def folders_owned_def notebook_db_def demo_db_def empty_db_def unique_on_def)
  have others: "\<forall>a \<in> set other_accounts. fst (snd a) \<noteq> ''m1'' \<and> new_id (fst a) T_Folder 0 \<noteq> []"
    by (simp add: other_accounts_def demo_env_def string_of_nat.simps)
  show "answer_query (demo_env 9) (\<lambda>_. 0) (\<lambda>_ _. True) ''m1'' (Note ''n1'') (run_ops desk_step other_accounts notebook_db) =
      answer_query (demo_env 9) (\<lambda>_. 0) (\<lambda>_ _. True) ''m1'' (Note ''n1'') notebook_db"
    using space_is_private [OF ok others, of "Note ''n1''" "demo_env 9"] by simp
qed

section \<open>Delivered mail is final\<close>

definition removed_files :: "(env \<times> id \<times> desk_op) list \<Rightarrow> id list" where
  "removed_files ops = concat (map deleted_files ops)"

lemma desk_step_mail:
  assumes "mail_ok s" and "\<not> drafts_copy (E, uid, op)"
  shows "mail_ok (snd (desk_step (E, uid, op) s)) \<and>
    (delivered i s \<longrightarrow> delivered i (snd (desk_step (E, uid, op) s)) \<and>
      find_email i (snd (desk_step (E, uid, op) s)) = find_email i s \<and>
      (\<exists>gone. set gone \<subseteq> set (deleted_files (E, uid, op)) \<and> snd (message i (snd (desk_step (E, uid, op) s))) =
         filter (\<lambda>a. ea_file a \<notin> set gone) (snd (message i s)))) \<and>
    (v \<noteq> uid \<longrightarrow> (\<exists>new. mailbox v (snd (desk_step (E, uid, op) s)) = mailbox v s @ new \<and> list_all arrived new))"
proof (cases op)
  case (SpaceOp p)
  let ?s = "snd (space_step (E, uid, p) s)"
  from space_step_mail [of E uid p s] obtain gone where same: "emails ?s = emails s"
      "email_recipients ?s = email_recipients s" "set gone \<subseteq> set (deleted_files (E, uid, SpaceOp p))"
      "email_attachments ?s = filter (\<lambda>a. ea_file a \<notin> set gone) (email_attachments s)" by blast
  moreover have "filter (\<lambda>a. ea_email a = i) (filter (\<lambda>a. ea_file a \<notin> set gone) xs) =
      filter (\<lambda>a. ea_file a \<notin> set gone) (filter (\<lambda>a. ea_email a = i) xs)" for xs :: "email_attachment list"
    by (simp add: conj_commute)
  ultimately show ?thesis
    using assms(1) SpaceOp
    by (auto simp: mail_ok_def delivered_def find_email_def message_def mailbox_def intro!: exI [of _ gone])
next
  case (MailOp p)
  then have "undisturbed uid s (snd (desk_step (E, uid, op) s))"
    using mail_step_undisturbed [OF assms(1), of E uid p] assms(2) by simp
  with MailOp show ?thesis
    by (auto simp: undisturbed_def message_def intro!: exI [of _ "[]"])
qed

lemma desk_run_mail:
  assumes "mail_ok s" and "list_all (\<lambda>a. \<not> drafts_copy a) ops" and "delivered i s"
  shows "delivered i (run_ops desk_step ops s) \<and> find_email i (run_ops desk_step ops s) = find_email i s \<and>
    (\<exists>gone. set gone \<subseteq> set (removed_files ops) \<and> snd (message i (run_ops desk_step ops s)) =
       filter (\<lambda>a. ea_file a \<notin> set gone) (snd (message i s)))"
  using assms
proof (induction ops arbitrary: s)
  case (Cons a ops)
  obtain E uid op where a: "a = (E, uid, op)" by (cases a)
  let ?s = "snd (desk_step a s)"
  from desk_step_mail [of s E uid op i] Cons.prems obtain g where
    step: "mail_ok ?s" "delivered i ?s" "find_email i ?s = find_email i s" "set g \<subseteq> set (deleted_files a)"
      "snd (message i ?s) = filter (\<lambda>x. ea_file x \<notin> set g) (snd (message i s))"
    by (auto simp: a)
  with Cons.IH [of ?s] Cons.prems(2) obtain h where
    rest: "delivered i (run_ops desk_step ops ?s)" "find_email i (run_ops desk_step ops ?s) = find_email i ?s"
      "set h \<subseteq> set (removed_files ops)"
      "snd (message i (run_ops desk_step ops ?s)) = filter (\<lambda>x. ea_file x \<notin> set h) (snd (message i ?s))"
    by auto
  have "snd (message i (run_ops desk_step ops ?s)) = filter (\<lambda>x. ea_file x \<notin> set (g @ h)) (snd (message i s))"
    by (simp add: rest(4) step(5))
  moreover have "set (g @ h) \<subseteq> set (removed_files (a # ops))"
    using step(4) rest(3) by (auto simp: removed_files_def)
  ultimately have "\<exists>gone. set gone \<subseteq> set (removed_files (a # ops)) \<and>
      snd (message i (run_ops desk_step ops ?s)) = filter (\<lambda>x. ea_file x \<notin> set gone) (snd (message i s))"
    by blast
  with rest(1,2) step(3) show ?case by simp
qed (auto intro: exI [of _ "[]"])

lemma desk_run_mailbox:
  assumes "mail_ok s" and "list_all (\<lambda>a. \<not> drafts_copy a \<and> fst (snd a) \<noteq> v) ops"
  shows "\<exists>new. mailbox v (run_ops desk_step ops s) = mailbox v s @ new \<and> list_all arrived new"
  using assms
proof (induction ops arbitrary: s)
  case (Cons a ops)
  obtain E uid op where a: "a = (E, uid, op)" by (cases a)
  let ?s = "snd (desk_step a s)"
  from desk_step_mail [of s E uid op _ v] Cons.prems obtain n1 where
    step: "mail_ok ?s" "mailbox v ?s = mailbox v s @ n1" "list_all arrived n1"
    by (auto simp: a)
  with Cons.IH [of ?s] Cons.prems(2) obtain n2 where
    "mailbox v (run_ops desk_step ops ?s) = mailbox v ?s @ n2" "list_all arrived n2" by auto
  with step show ?case by (intro exI [of _ "n1 @ n2"]) simp
qed simp

text \<open>
  C27. Delivered mail is final: as long as nobody files an existing copy under the drafts, no run of
  requests to NDYSPACE by any accounts, mail and the drive included, changes or deletes a message that has
  left the drafts, and of its attachments only those go whose file a request of the run deletes from the
  drive; the mailbox of an account that takes no part in the run only gains unread inbox copies.
\<close>

theorem delivered_mail_is_final:
  assumes "mail_ok s" and "list_all (\<lambda>a. \<not> drafts_copy a) ops" and "delivered i s"
  shows "delivered i (run_ops desk_step ops s) \<and> fst (message i (run_ops desk_step ops s)) = fst (message i s) \<and>
    (\<exists>gone. set gone \<subseteq> set (removed_files ops) \<and> snd (message i (run_ops desk_step ops s)) =
       filter (\<lambda>a. ea_file a \<notin> set gone) (snd (message i s))) \<and>
    (list_all (\<lambda>a. fst (snd a) \<noteq> v) ops \<longrightarrow>
      (\<exists>new. mailbox v (run_ops desk_step ops s) = mailbox v s @ new \<and> list_all arrived new))"
  using desk_run_mail [OF assms] desk_run_mailbox [OF assms(1), of v ops] assms(2)
  by (simp add: message_def list_all_iff)

theorem delivered_mail_is_final_witness:
  "message ''id0'' (run_ops desk_step [(demo_env 5, ''a2'', MailOp (RemoveMail ''id0'')),
       (demo_env 6, ''a1'', MailOp (UpdateMail ''id1'' (Some (Some TRASH)) None None)),
       (demo_env 6, ''a1'', SpaceOp (CreateNote ''n'' None)), (demo_env 7, ''a1'', MailOp EmptyMailTrash)] demo_sent) =
   message ''id0'' demo_sent"
proof -
  let ?run = "[(demo_env 5, ''a2'', MailOp (RemoveMail ''id0'')),
       (demo_env 6, ''a1'', MailOp (UpdateMail ''id1'' (Some (Some TRASH)) None None)),
       (demo_env 6, ''a1'', SpaceOp (CreateNote ''n'' None)), (demo_env 7, ''a1'', MailOp EmptyMailTrash)]"
  have "mail_ok demo_sent" "delivered ''id0'' demo_sent" by code_simp+
  from delivered_mail_is_final [OF this(1) _ this(2), of ?run] show ?thesis
    by (auto simp: removed_files_def prod_eq_iff)
qed

end
