(* ===== verification/Actions.thy ===== *)
theory Actions
  imports OAuth Mail Workspaces
begin

text \<open>
  The Context Broker (\<^verbatim>\<open>context-broker/context-broker.service.ts\<close>): which AI agents may act for an
  account; and the Action Engine (\<^verbatim>\<open>action-engine/\<close>): the registry of actions, the pipeline from a
  request to its execution, approvals and the action log.
\<close>

section \<open>Consent of AI agents\<close>

fun ai_scope_name :: "ai_scope \<Rightarrow> string" where
  "ai_scope_name EMAIL_SUMMARIZE = ''EMAIL_SUMMARIZE''"
| "ai_scope_name EMAIL_DRAFT_REPLY = ''EMAIL_DRAFT_REPLY''"
| "ai_scope_name EMAIL_MODIFY_TEXT = ''EMAIL_MODIFY_TEXT''"
| "ai_scope_name EMAIL_CONTENT_EGRESS = ''EMAIL_CONTENT_EGRESS''"

definition action_scope_to_consent :: "(string \<times> ai_scope) list" where
  "action_scope_to_consent =
     [(''email:summarize'', EMAIL_SUMMARIZE), (''email:draft-reply'', EMAIL_DRAFT_REPLY),
      (''email:modify-text'', EMAIL_MODIFY_TEXT), (''email:egress'', EMAIL_CONTENT_EGRESS)]"

definition consent_scope_for :: "string \<Rightarrow> ai_scope option" where
  "consent_scope_for t = map_of action_scope_to_consent t"

definition find_client :: "string \<Rightarrow> db \<Rightarrow> oauth_client option" where
  "find_client cid s = find_row (\<lambda>c. oc_client_id c = cid) (oauth_clients s)"

definition find_consent :: "id \<Rightarrow> string \<Rightarrow> db \<Rightarrow> ai_consent option" where
  "find_consent uid cid s = find_row (\<lambda>c. cs_user c = uid \<and> cs_client c = cid) (ai_consents s)"

datatype consent_check = Allowed | NotAllowed string

text \<open>The consent scopes an action needs, or the first of its scopes that has none.\<close>

fun needed_scopes :: "string list \<Rightarrow> string + ai_scope list" where
  "needed_scopes [] = Inr []"
| "needed_scopes (t # ts) =
     (case consent_scope_for t of
        None \<Rightarrow> Inl t
      | Some a \<Rightarrow> (case needed_scopes ts of Inl e \<Rightarrow> Inl e | Inr as \<Rightarrow> Inr (a # as)))"

definition assert_consent :: "id \<Rightarrow> string option \<Rightarrow> string list \<Rightarrow> db \<Rightarrow> consent_check" where
  "assert_consent uid cid scopes s =
     (if \<not> truthy cid
      then NotAllowed ''An AI-agent request must identify its OAuth client (origin.detail).''
      else case find_client (the cid) s of
        None \<Rightarrow> NotAllowed (''Unknown OAuth client \"'' @ the cid @ ''\".'')
      | Some c \<Rightarrow>
          if oc_type c \<noteq> AI_AGENT then NotAllowed (''OAuth client \"'' @ the cid @ ''\" is not an AI agent.'')
          else if \<not> oc_active c then NotAllowed (''AI agent \"'' @ oc_name c @ ''\" is not active.'')
          else if scopes = [] then Allowed
          else case needed_scopes scopes of
            Inl t \<Rightarrow> NotAllowed (''No AI-agent consent scope is defined for \"'' @ t @ ''\" - refusing by default.'')
          | Inr needed \<Rightarrow>
              (case find_consent uid (the cid) s of
                 None \<Rightarrow> NotAllowed (''You haven't granted \"'' @ oc_name c @ ''\" access to act on your behalf.'')
               | Some g \<Rightarrow>
                   if cs_revoked_at g \<noteq> None
                   then NotAllowed (''You haven't granted \"'' @ oc_name c @ ''\" access to act on your behalf.'')
                   else if filter (\<lambda>a. a \<notin> set (cs_scopes g)) (first_occurrences needed) \<noteq> []
                   then NotAllowed (''\"'' @ oc_name c @ ''\" isn't allowed to do this - missing consent scope(s): '' @
                     comma_list (map ai_scope_name (filter (\<lambda>a. a \<notin> set (cs_scopes g)) (first_occurrences needed))) @ ''.'')
                   else Allowed))"

text \<open>The active grants of an account, with the name of the agent.\<close>

definition list_consents :: "id \<Rightarrow> db \<Rightarrow> (ai_consent \<times> string) list" where
  "list_consents uid s =
     map (\<lambda>g. (g, case find_client (cs_client g) s of None \<Rightarrow> cs_client g | Some c \<Rightarrow> oc_name c))
       (rev (sort_key cs_granted_at (filter (\<lambda>g. cs_user g = uid \<and> cs_revoked_at g = None) (ai_consents s))))"

definition grant_consent :: "env \<Rightarrow> id \<Rightarrow> string \<Rightarrow> ai_scope list \<Rightarrow> (db, ai_consent) handler" where
  "grant_consent E uid cid scopes s =
     (case find_client cid s of
        None \<Rightarrow> (throw (NotFound (''Unknown OAuth client \"'' @ cid @ ''\".'')), s)
      | Some c \<Rightarrow>
          if oc_type c \<noteq> AI_AGENT
          then (throw (BadRequest (''OAuth client \"'' @ cid @ ''\" is not an AI agent.'')), s)
          else if \<not> oc_active c
          then (throw (BadRequest (''AI agent \"'' @ oc_name c @ ''\" is not active.'')), s)
          else let wanted = first_occurrences scopes;
                   again = (\<lambda>g. g\<lparr>cs_scopes := wanted, cs_revoked_at := None, cs_granted_at := now E\<rparr>)
            in case find_consent uid cid s of
                 Some g \<Rightarrow> (ok (again g), s\<lparr>ai_consents := update_rows (\<lambda>x. cs_user x = uid \<and> cs_client x = cid) again
                             (ai_consents s)\<rparr>)
               | None \<Rightarrow>
                   let g = \<lparr>cs_id = new_id E T_AiConsent 0, cs_user = uid, cs_client = cid, cs_scopes = wanted,
                            cs_granted_at = now E, cs_revoked_at = None\<rparr>
                   in if exists_row (\<lambda>x. cs_id x = cs_id g) (ai_consents s) then (throw unique_violation, s)
                      else if find_user uid s = None then (throw foreign_key_error, s)
                      else (ok g, s\<lparr>ai_consents := ai_consents s @ [g]\<rparr>))"

definition revoke_consent :: "env \<Rightarrow> id \<Rightarrow> string \<Rightarrow> (db, ai_consent) handler" where
  "revoke_consent E uid cid s =
     (case find_consent uid cid s of
        None \<Rightarrow> (throw (NotFound ''No active grant for that agent.''), s)
      | Some g \<Rightarrow>
          if cs_revoked_at g \<noteq> None then (throw (NotFound ''No active grant for that agent.''), s)
          else (ok (g\<lparr>cs_revoked_at := Some (now E)\<rparr>),
                s\<lparr>ai_consents := update_rows (\<lambda>x. cs_id x = cs_id g) (\<lambda>x. x\<lparr>cs_revoked_at := Some (now E)\<rparr>)
                    (ai_consents s)\<rparr>))"

section \<open>The registry\<close>

datatype dto_class = EventDto | ContactDto | TaskDto | NoteDto

record registry_entry =
  re_key :: string
  re_label :: string
  re_domain :: string
  re_tier :: risk_tier
  re_scopes :: "string list"
  re_reversible :: bool
  re_dto :: dto_class

definition action_registry :: "registry_entry list" where
  "action_registry =
     [\<lparr>re_key = ''calendar.event.create'', re_label = ''Create calendar event'', re_domain = ''calendar'',
       re_tier = RT_MEDIUM, re_scopes = [''calendar''], re_reversible = True, re_dto = EventDto\<rparr>,
      \<lparr>re_key = ''contact.create'', re_label = ''Create contact'', re_domain = ''contacts'',
       re_tier = RT_LOW, re_scopes = [''contacts''], re_reversible = True, re_dto = ContactDto\<rparr>,
      \<lparr>re_key = ''task.create'', re_label = ''Create task'', re_domain = ''tasks'',
       re_tier = RT_LOW, re_scopes = [''tasks''], re_reversible = True, re_dto = TaskDto\<rparr>,
      \<lparr>re_key = ''note.create'', re_label = ''Create note'', re_domain = ''ndyspace'',
       re_tier = RT_LOW, re_scopes = [''ndyspace''], re_reversible = True, re_dto = NoteDto\<rparr>]"

definition find_action_definition :: "string \<Rightarrow> registry_entry option" where
  "find_action_definition k = find_row (\<lambda>d. re_key d = k) action_registry"

text \<open>The table mirrors the registry at every start; an existing row keeps its kill switch.\<close>

definition sync_definition :: "registry_entry \<Rightarrow> action_definition list \<Rightarrow> action_definition list" where
  "sync_definition d rows =
     (if exists_row (\<lambda>x. ad_key x = re_key d) rows
      then update_rows (\<lambda>x. ad_key x = re_key d)
        (\<lambda>x. x\<lparr>ad_label := re_label d, ad_domain := re_domain d, ad_tier := re_tier d,
               ad_scopes := re_scopes d, ad_reversible := re_reversible d\<rparr>) rows
      else rows @ [\<lparr>ad_key = re_key d, ad_label = re_label d, ad_domain = re_domain d, ad_tier = re_tier d,
                    ad_scopes = re_scopes d, ad_reversible = re_reversible d, ad_enabled = True\<rparr>])"

definition sync_registry :: "db \<Rightarrow> db" where
  "sync_registry s = s\<lparr>action_definitions := fold sync_definition action_registry (action_definitions s)\<rparr>"

section \<open>Parameters of an action\<close>

text \<open>
  class-validator's verdict on the parameters of an action (the messages of the violated decorators of
  its DTO class) and \<^verbatim>\<open>new Date\<close> on an accepted date string.
\<close>

record dto_checks =
  ck_errors :: "dto_class \<Rightarrow> json \<Rightarrow> string list"
  ck_date :: "string \<Rightarrow> time"

fun json_get :: "string \<Rightarrow> json \<Rightarrow> json" where
  "json_get k (JObj xs) = (case map_of xs k of None \<Rightarrow> JNull | Some v \<Rightarrow> v)"
| "json_get k _ = JNull"

fun as_string :: "json \<Rightarrow> string option" where
  "as_string (JStr t) = Some t"
| "as_string _ = None"

fun as_strings :: "json \<Rightarrow> string list option" where
  "as_strings (JList xs) = Some (List.map_filter as_string xs)"
| "as_strings _ = None"

definition text_field :: "string \<Rightarrow> json \<Rightarrow> string option" where
  "text_field k p = as_string (json_get k p)"

definition read_event :: "dto_checks \<Rightarrow> json \<Rightarrow> event_dto" where
  "read_event ck p =
     \<lparr>cd_title = or_else (text_field ''title'' p) '''', cd_description = text_field ''description'' p,
      cd_start = ck_date ck (or_else (text_field ''startAt'' p) ''''),
      cd_end = ck_date ck (or_else (text_field ''endAt'' p) ''''), cd_color = text_field ''color'' p,
      cd_attendees = as_strings (json_get ''attendeeEmails'' p)\<rparr>"

definition read_contact :: "json \<Rightarrow> contact_dto" where
  "read_contact p =
     \<lparr>ct_name = Some (Some (or_else (text_field ''fullName'' p) '''')), ct_email = Some (text_field ''email'' p),
      ct_phone = Some (text_field ''phone'' p), ct_company = Some (text_field ''company'' p),
      ct_notes = Some (text_field ''notes'' p), ct_ndy_id = Some (text_field ''ndyId'' p)\<rparr>"

definition read_priority :: "json \<Rightarrow> task_priority option" where
  "read_priority p =
     map_of [(''LOW'', TP_LOW), (''MEDIUM'', TP_MEDIUM), (''HIGH'', TP_HIGH)]
       (or_else (text_field ''priority'' p) '''')"

text \<open>The \<^verbatim>\<open>execute\<close> of a registry entry, with the id of the row it creates.\<close>

definition run_action :: "env \<Rightarrow> dto_checks \<Rightarrow> dto_class \<Rightarrow> id \<Rightarrow> json \<Rightarrow> (db, id) handler" where
  "run_action E ck d uid p =
     (case d of
        EventDto \<Rightarrow> and_then (create_event E uid (read_event ck p)) (\<lambda>x s. (ok (ce_id x), s))
      | ContactDto \<Rightarrow> and_then (create_contact E uid (read_contact p)) (\<lambda>x s. (ok (cn_id x), s))
      | TaskDto \<Rightarrow> and_then (create_task E uid (or_else (text_field ''title'' p) '''') (text_field ''description'' p)
          (read_priority p) (map_option (ck_date ck) (text_field ''dueAt'' p))) (\<lambda>x s. (ok (ta_id x), s))
      | NoteDto \<Rightarrow> and_then (create_note E uid (or_else (text_field ''title'' p) '''') (text_field ''body'' p))
          (\<lambda>x s. (ok (no_id x), s)))"

section \<open>The log\<close>

record action_request =
  rq_key :: string
  rq_workspace :: id
  rq_user :: id
  rq_ndy_id :: string
  rq_origin :: json
  rq_params :: json
  rq_idem :: string

datatype action_answer =
    Executed id "id option"
  | Awaiting id "id option"
  | Refused id "string option"

fun error_message :: "http_error \<Rightarrow> string" where
  "error_message (BadRequest t) = t"
| "error_message (Unauthorized t) = t"
| "error_message (Forbidden t) = t"
| "error_message (NotFound t) = t"
| "error_message (Conflict t) = t"
| "error_message (ServerError t) = t"

definition find_log :: "string \<Rightarrow> db \<Rightarrow> action_log option" where
  "find_log k s = find_row (\<lambda>l. lg_idem l = k) (action_logs s)"

definition log_by_id :: "id \<Rightarrow> db \<Rightarrow> action_log option" where
  "log_by_id i s = find_row (\<lambda>l. lg_id l = i) (action_logs s)"

definition approval_of :: "id \<Rightarrow> db \<Rightarrow> action_approval option" where
  "approval_of l s = find_row (\<lambda>a. ap_log a = l) (action_approvals s)"

definition find_approval :: "id \<Rightarrow> db \<Rightarrow> action_approval option" where
  "find_approval i s = find_row (\<lambda>a. ap_id a = i) (action_approvals s)"

definition new_log ::
  "env \<Rightarrow> action_request \<Rightarrow> action_execution_status \<Rightarrow> risk_tier \<Rightarrow> string option \<Rightarrow> json option \<Rightarrow> action_log" where
  "new_log E r st tier reason result =
     \<lparr>lg_id = new_id E T_ActionLog 0, lg_key = rq_key r, lg_workspace = rq_workspace r, lg_user = rq_user r,
      lg_ndy_id = rq_ndy_id r, lg_origin = rq_origin r, lg_params = rq_params r, lg_status = st, lg_tier = tier,
      lg_reason = reason, lg_result = result, lg_idem = rq_idem r, lg_created_at = now E\<rparr>"

definition write_log :: "action_log \<Rightarrow> (db, action_log) handler" where
  "write_log l s =
     (if exists_row (\<lambda>x. lg_id x = lg_id l \<or> lg_idem x = lg_idem l) (action_logs s)
      then (throw unique_violation, s) else (ok l, s\<lparr>action_logs := action_logs s @ [l]\<rparr>))"

abbreviation update_log :: "id \<Rightarrow> (action_log \<Rightarrow> action_log) \<Rightarrow> db \<Rightarrow> db" where
  "update_log i f s \<equiv> s\<lparr>action_logs := update_rows (\<lambda>l. lg_id l = i) f (action_logs s)\<rparr>"

abbreviation update_approval :: "id \<Rightarrow> (action_approval \<Rightarrow> action_approval) \<Rightarrow> db \<Rightarrow> db" where
  "update_approval i f s \<equiv> s\<lparr>action_approvals := update_rows (\<lambda>a. ap_id a = i) f (action_approvals s)\<rparr>"

definition refuse_action ::
  "env \<Rightarrow> action_request \<Rightarrow> risk_tier option \<Rightarrow> string \<Rightarrow> (db, action_answer) handler" where
  "refuse_action E r tier reason =
     and_then (write_log (new_log E r AE_REJECTED (or_else tier RT_LOW) (Some reason) None))
       (\<lambda>l s. (ok (Refused (lg_id l) (Some reason)), s))"

fun stored_answer :: "action_log \<Rightarrow> action_approval option \<Rightarrow> action_answer" where
  "stored_answer l a =
     (case lg_status l of
        AE_EXECUTED \<Rightarrow> Executed (lg_id l) None
      | AE_PENDING_APPROVAL \<Rightarrow> Awaiting (lg_id l) (map_option ap_id a)
      | _ \<Rightarrow> Refused (lg_id l) (lg_reason l))"

text \<open>\<^verbatim>\<open>summarize\<close>: the id of what was created.\<close>

definition summary :: "id \<Rightarrow> json" where
  "summary i = JObj [(''id'', JStr i)]"

definition failed_action ::
  "env \<Rightarrow> action_request \<Rightarrow> registry_entry \<Rightarrow> id option \<Rightarrow> string \<Rightarrow> (db, action_answer) handler" where
  "failed_action E r d log reason s =
     (case log of
        Some i \<Rightarrow> (ok (Refused i (Some reason)),
          update_log i (\<lambda>l. l\<lparr>lg_status := AE_REJECTED, lg_reason := Some reason\<rparr>) s)
      | None \<Rightarrow> refuse_action E r (Some (re_tier d)) reason s)"

text \<open>A failure to write the log after the action ran is caught like a failure of the action.\<close>

definition execute_action ::
  "env \<Rightarrow> dto_checks \<Rightarrow> action_request \<Rightarrow> registry_entry \<Rightarrow> id option \<Rightarrow> (db, action_answer) handler" where
  "execute_action E ck r d log s =
     (case run_action E ck (re_dto d) (rq_user r) (rq_params r) s of
        (Inl e, s1) \<Rightarrow> failed_action E r d log (error_message e) s1
      | (Inr i, s1) \<Rightarrow>
          (case log of
             Some l \<Rightarrow> (ok (Executed l (Some i)),
               update_log l (\<lambda>x. x\<lparr>lg_status := AE_EXECUTED, lg_result := Some (summary i)\<rparr>) s1)
           | None \<Rightarrow>
               (case write_log (new_log E r AE_EXECUTED (re_tier d) None (Some (summary i))) s1 of
                  (Inr l, s2) \<Rightarrow> (ok (Executed (lg_id l) (Some i)), s2)
                | (Inl e, s2) \<Rightarrow> failed_action E r d None (error_message e) s2)))"

section \<open>Requests\<close>

definition approval_ttl :: time where
  "approval_ttl = 48 * 60 * 60 * 1000"

definition new_approval :: "env \<Rightarrow> action_log \<Rightarrow> action_approval" where
  "new_approval E l =
     \<lparr>ap_id = new_id E T_ActionApproval 0, ap_log = lg_id l, ap_tier = lg_tier l, ap_status = AA_PENDING,
      ap_strong = (lg_tier l = RT_CRITICAL), ap_expires = now E + approval_ttl, ap_resolver = None,
      ap_resolved_at = None, ap_created_at = now E\<rparr>"

definition approval_notice :: "action_request \<Rightarrow> registry_entry \<Rightarrow> id \<Rightarrow> notify_params" where
  "approval_notice r d i =
     \<lparr>np_user = rq_user r, np_workspace = Some (rq_workspace r), np_category = ACTION_APPROVAL,
      np_channel = IN_APP, np_title = ''Approval needed: '' @ re_label d,
      np_body = ''Your request to '' @ to_lower (re_label d) @ '' needs confirmation before it runs.'',
      np_link = None, np_source = Some (''action-approval-created:'' @ i)\<rparr>"

definition await_approval ::
  "env \<Rightarrow> action_request \<Rightarrow> registry_entry \<Rightarrow> (db, action_answer) handler" where
  "await_approval E r d =
     and_then (write_log (new_log E r AE_PENDING_APPROVAL (re_tier d) None None))
       (\<lambda>l s. let a = new_approval E l
          in if exists_row (\<lambda>x. ap_id x = ap_id a \<or> ap_log x = ap_log a) (action_approvals s)
             then (throw unique_violation, s)
             else and_then (notify E (approval_notice r d (ap_id a)))
                    (\<lambda>_ s2. (ok (Awaiting (lg_id l) (Some (ap_id a))), s2))
                    (s\<lparr>action_approvals := action_approvals s @ [a]\<rparr>))"

text \<open>
  The consent check of a request that says it comes from an agent.  \<^verbatim>\<open>origin\<close> is validated only to
  be an object; a detail that is neither a string nor falsy makes the client query fail.
\<close>

fun falsy :: "json \<Rightarrow> bool" where
  "falsy JNull = True"
| "falsy (JBool b) = (\<not> b)"
| "falsy (JNum n) = (n = 0)"
| "falsy (JStr t) = (t = [])"
| "falsy _ = False"

definition agent_refusal :: "action_request \<Rightarrow> registry_entry \<Rightarrow> db \<Rightarrow> consent_check reply" where
  "agent_refusal r d s =
     (if json_get ''type'' (rq_origin r) \<noteq> JStr ''agent'' then ok Allowed
      else case json_get ''detail'' (rq_origin r) of
        JStr t \<Rightarrow> ok (assert_consent (rq_user r) (Some t) (re_scopes d) s)
      | x \<Rightarrow> if falsy x then ok (assert_consent (rq_user r) None (re_scopes d) s) else throw invalid_null)"

fun join_semi :: "string list \<Rightarrow> string" where
  "join_semi [] = []"
| "join_semi [x] = x"
| "join_semi (x # xs) = x @ ''; '' @ join_semi xs"

definition submit_action :: "env \<Rightarrow> dto_checks \<Rightarrow> action_request \<Rightarrow> (db, action_answer) handler" where
  "submit_action E ck r s =
     (case find_log (rq_idem r) s of
        Some l \<Rightarrow> (ok (stored_answer l (approval_of (lg_id l) s)), s)
      | None \<Rightarrow>
          (case find_action_definition (rq_key r) of
             None \<Rightarrow> refuse_action E r None (''Unknown action \"'' @ rq_key r @ ''\".'') s
           | Some d \<Rightarrow>
               if \<not> exists_row (\<lambda>x. ad_key x = rq_key r \<and> ad_enabled x) (action_definitions s)
               then refuse_action E r (Some (re_tier d))
                 (''Action \"'' @ rq_key r @ ''\" is not currently enabled.'') s
               else case assert_member (rq_user r) (rq_workspace r) s of
                 Inl _ \<Rightarrow> refuse_action E r (Some (re_tier d)) ''You are not a member of this workspace.'' s
               | Inr _ \<Rightarrow>
                   (case agent_refusal r d s of
                      Inl e \<Rightarrow> (throw e, s)
                    | Inr (NotAllowed why) \<Rightarrow> refuse_action E r (Some (re_tier d)) why s
                    | Inr Allowed \<Rightarrow>
                        (let errs = ck_errors ck (re_dto d) (rq_params r)
                         in if errs \<noteq> []
                            then refuse_action E r (Some (re_tier d))
                              (if join_semi errs = [] then ''Invalid params.'' else join_semi errs) s
                            else if re_tier d = RT_LOW then execute_action E ck r d None s
                            else await_approval E r d s))))"

section \<open>Approvals\<close>

definition logged_request :: "action_log \<Rightarrow> action_request" where
  "logged_request l =
     \<lparr>rq_key = lg_key l, rq_workspace = lg_workspace l, rq_user = lg_user l, rq_ndy_id = lg_ndy_id l,
      rq_origin = lg_origin l, rq_params = lg_params l, rq_idem = lg_idem l\<rparr>"

definition resolve_approval ::
  "env \<Rightarrow> dto_checks \<Rightarrow> id \<Rightarrow> id \<Rightarrow> bool \<Rightarrow> (db, action_answer) handler" where
  "resolve_approval E ck i resolver approve s =
     (case find_approval i s of
        None \<Rightarrow> (throw (NotFound ''No approval with that id.''), s)
      | Some a \<Rightarrow>
          if ap_status a \<noteq> AA_PENDING
          then (throw (BadRequest ''This approval has already been resolved.''), s)
          else if ap_expires a < now E
          then (throw (BadRequest ''This approval has expired.''),
                update_approval i (\<lambda>a. a\<lparr>ap_status := AA_EXPIRED\<rparr>) s)
          else case log_by_id (ap_log a) s of
            None \<Rightarrow> (throw (ServerError ''Inconsistent query result''), s)
          | Some l \<Rightarrow>
              (case find_action_definition (lg_key l) of
                 None \<Rightarrow> (throw (BadRequest (''Unknown action \"'' @ lg_key l @ ''\".'')), s)
               | Some d \<Rightarrow>
                   let resolved = (\<lambda>st a. a\<lparr>ap_status := st, ap_resolver := Some resolver,
                                            ap_resolved_at := Some (now E)\<rparr>)
                   in if \<not> approve
                      then (ok (Refused (lg_id l) (Some ''Denied by user.'')),
                            update_log (lg_id l) (\<lambda>l. l\<lparr>lg_status := AE_DENIED\<rparr>)
                              (update_approval i (resolved AA_DENIED) s))
                      else execute_action E ck (logged_request l) d (Some (lg_id l))
                             (update_approval i (resolved AA_APPROVED) s)))"

definition list_pending_approvals :: "id \<Rightarrow> db \<Rightarrow> (action_approval \<times> action_log) list" where
  "list_pending_approvals w s =
     rev (sort_key (\<lambda>(a, l). ap_created_at a)
       (List.map_filter
         (\<lambda>a. case log_by_id (ap_log a) s of
              None \<Rightarrow> None | Some l \<Rightarrow> if lg_workspace l = w then Some (a, l) else None)
         (filter (\<lambda>a. ap_status a = AA_PENDING) (action_approvals s))))"

end
