(* ===== verification/Approvals.thy ===== *)
theory Approvals
  imports Actions Sessions
begin

text \<open>
  What the Action Engine promises: nothing is executed that is not registered, that an agent asked for,
  or that needed an approval and did not get it; the log tells exactly what was executed.
\<close>

section \<open>The routes\<close>

datatype action_op = Submit action_request | Resolve id id bool

fun action_step :: "env \<times> dto_checks \<times> action_op \<Rightarrow> db \<Rightarrow> bool \<times> db" where
  "action_step (E, ck, Submit r) s = answered (submit_action E ck r s)"
| "action_step (E, ck, Resolve i uid b) s = answered (resolve_approval E ck i uid b s)"

section \<open>What an action does\<close>

definition created :: "db \<Rightarrow> nat" where
  "created s = length (calendar_events s) + length (contacts s) + length (tasks s) + length (note_rows s)"

definition executed :: "db \<Rightarrow> nat" where
  "executed s = count_rows (\<lambda>l. lg_status l = AE_EXECUTED) (action_logs s)"

lemma owned_insert_tables [simp]:
  "action_logs (snd (insert_owned calendar_table x s)) = action_logs s"
  "action_approvals (snd (insert_owned calendar_table x s)) = action_approvals s"
  "action_logs (snd (insert_owned contact_table y s)) = action_logs s"
  "action_approvals (snd (insert_owned contact_table y s)) = action_approvals s"
  "action_logs (snd (insert_owned task_table z s)) = action_logs s"
  "action_approvals (snd (insert_owned task_table z s)) = action_approvals s"
  "action_logs (snd (insert_owned note_table w s)) = action_logs s"
  "action_approvals (snd (insert_owned note_table w s)) = action_approvals s"
  by (simp_all add: insert_owned_def calendar_table_def contact_table_def task_table_def note_table_def)

lemma run_action_tables:
  "action_logs (snd (run_action E ck d uid p s)) = action_logs s"
  "action_approvals (snd (run_action E ck d uid p s)) = action_approvals s"
  by (cases d; simp add: run_action_def create_event_def create_contact_def create_task_def create_note_def)+

text \<open>An action creates one row, or fails and changes nothing.\<close>

lemma insert_created:
  "created (snd (insert_owned calendar_table x s)) = created s + (if succeeds (insert_owned calendar_table x s) then 1 else 0)"
  "created (snd (insert_owned contact_table y s)) = created s + (if succeeds (insert_owned contact_table y s) then 1 else 0)"
  "created (snd (insert_owned task_table z s)) = created s + (if succeeds (insert_owned task_table z s) then 1 else 0)"
  "created (snd (insert_owned note_table w s)) = created s + (if succeeds (insert_owned note_table w s) then 1 else 0)"
  by (simp_all add: created_def insert_owned_def calendar_table_def contact_table_def task_table_def note_table_def)

lemma insert_failed:
  "insert_owned T x s = (Inl e, s1) \<Longrightarrow> s1 = s"
  by (auto simp: insert_owned_def split: if_splits)

lemma succeeds_return [simp]: "succeeds (and_then h (\<lambda>x s. (Inr (f x), s)) s) = succeeds (h s)"
  by (simp add: and_then_def succeeds_def split: prod.splits sum.splits)

lemma run_action_created:
  "created (snd (run_action E ck d uid p s)) = created s + (if succeeds (run_action E ck d uid p s) then 1 else 0)"
  by (cases d) (simp_all add: run_action_def create_event_def create_contact_def create_task_def create_note_def
      insert_created)

lemma run_action_failed:
  assumes "run_action E ck d uid p s = (Inl e, s1)"
  shows "s1 = s"
  using assms
  by (cases d) (auto simp: run_action_def create_event_def create_contact_def create_task_def create_note_def
      and_then_def dest!: insert_failed split: prod.splits sum.splits if_splits)

section \<open>Agents\<close>

text \<open>No registered action has a consent scope, so every request of an agent is refused.\<close>

lemma find_action_registered:
  "find_action_definition k = Some d \<Longrightarrow> d \<in> set action_registry \<and> re_key d = k"
  by (auto simp: find_action_definition_def dest!: find_row_Some_D)

lemma registered_scopes:
  "d \<in> set action_registry \<Longrightarrow> re_scopes d \<noteq> [] \<and> consent_scope_for (hd (re_scopes d)) = None"
  by (auto simp: action_registry_def consent_scope_for_def action_scope_to_consent_def)

lemma agent_not_allowed:
  assumes "find_action_definition k = Some d" and "json_get ''type'' (rq_origin r) = JStr ''agent''"
  shows "agent_refusal r d s \<noteq> Inr Allowed"
proof -
  obtain t ts where ts: "re_scopes d = t # ts" "consent_scope_for t = None"
    using registered_scopes [of d] find_action_registered [OF assms(1)] by (cases "re_scopes d") auto
  have "assert_consent uid cid (re_scopes d) s \<noteq> Allowed" for uid cid
    by (simp add: assert_consent_def ts split: option.splits)
  with assms(2) show ?thesis by (cases "json_get ''detail'' (rq_origin r)") (simp_all add: agent_refusal_def)
qed

section \<open>Outcomes of a request\<close>

definition new_id_free :: "env \<Rightarrow> db \<Rightarrow> bool" where
  "new_id_free E s = (new_id E T_ActionLog 0 \<notin> lg_id ` set (action_logs s))"

definition same_actions :: "db \<Rightarrow> db \<Rightarrow> bool" where
  "same_actions s s' =
     (action_logs s' = action_logs s \<and> action_approvals s' = action_approvals s \<and> created s' = created s)"

definition action_gate :: "action_request \<Rightarrow> registry_entry \<Rightarrow> bool" where
  "action_gate r d =
     (find_action_definition (rq_key r) = Some d \<and> json_get ''type'' (rq_origin r) \<noteq> JStr ''agent'')"

text \<open>
  The ways a submission can go: nothing changes; it is logged as refused; it is executed; it is
  executed under an id already taken by the log; it waits, with its approval or without.
\<close>

datatype submit_outcome =
    Unchanged | LoggedRefusal action_log | Done action_log | Unlogged
  | Waits action_log action_approval | WaitsForever action_log

fun outcome_of :: "env \<Rightarrow> action_request \<Rightarrow> db \<Rightarrow> db \<Rightarrow> submit_outcome \<Rightarrow> bool" where
  "outcome_of E r s s' Unchanged = same_actions s s'"
| "outcome_of E r s s' (LoggedRefusal l) =
     (s' = s\<lparr>action_logs := action_logs s @ [l]\<rparr> \<and> lg_status l = AE_REJECTED)"
| "outcome_of E r s s' (Done l) =
     (action_logs s' = action_logs s @ [l] \<and> action_approvals s' = action_approvals s \<and> created s' = Suc (created s) \<and>
      (\<exists>d x. action_gate r d \<and> re_tier d = RT_LOW \<and> l = new_log E r AE_EXECUTED RT_LOW None x))"
| "outcome_of E r s s' Unlogged =
     (action_logs s' = action_logs s \<and> action_approvals s' = action_approvals s \<and> \<not> new_id_free E s)"
| "outcome_of E r s s' (Waits l a) =
     (action_logs s' = action_logs s @ [l] \<and> action_approvals s' = action_approvals s @ [a] \<and> created s' = created s \<and>
      ap_id a \<notin> ap_id ` set (action_approvals s) \<and> ap_log a \<notin> ap_log ` set (action_approvals s) \<and>
      a = new_approval E l \<and> (\<exists>d. action_gate r d \<and> l = new_log E r AE_PENDING_APPROVAL (re_tier d) None None))"
| "outcome_of E r s s' (WaitsForever l) =
     (action_logs s' = action_logs s @ [l] \<and> action_approvals s' = action_approvals s \<and> created s' = created s \<and>
      (\<exists>d. action_gate r d \<and> l = new_log E r AE_PENDING_APPROVAL (re_tier d) None None))"

definition logged_new :: "env \<Rightarrow> db \<Rightarrow> db \<Rightarrow> bool" where
  "logged_new E s s' =
     (action_logs s' = action_logs s \<or>
      (new_id_free E s \<and> (\<exists>l. action_logs s' = action_logs s @ [l] \<and> lg_id l = new_id E T_ActionLog 0)))"

lemma write_log_cases:
  obtains (written) "write_log l s = (Inr l, s\<lparr>action_logs := action_logs s @ [l]\<rparr>)"
      "lg_id l \<notin> lg_id ` set (action_logs s)" "lg_idem l \<notin> lg_idem ` set (action_logs s)"
    | (clash) "write_log l s = (Inl unique_violation, s)"
      "lg_id l \<in> lg_id ` set (action_logs s) \<or> lg_idem l \<in> lg_idem ` set (action_logs s)"
proof (cases "exists_row (\<lambda>x. lg_id x = lg_id l \<or> lg_idem x = lg_idem l) (action_logs s)")
  case True
  then obtain x where "x \<in> set (action_logs s)" "lg_id x = lg_id l \<or> lg_idem x = lg_idem l" by auto
  then have "lg_id l \<in> lg_id ` set (action_logs s) \<or> lg_idem l \<in> lg_idem ` set (action_logs s)"
    by (metis imageI)
  with True show thesis by (intro clash) (simp_all add: write_log_def)
next
  case False
  then have "lg_id l \<notin> lg_id ` set (action_logs s)" "lg_idem l \<notin> lg_idem ` set (action_logs s)"
    by (auto simp: image_iff)
  with False show thesis by (intro written) (simp_all add: write_log_def)
qed

lemma new_log_fields [simp]:
  "lg_id (new_log E r st t re x) = new_id E T_ActionLog 0" "lg_idem (new_log E r st t re x) = rq_idem r"
  "lg_status (new_log E r st t re x) = st" "lg_tier (new_log E r st t re x) = t"
  "lg_key (new_log E r st t re x) = rq_key r" "lg_origin (new_log E r st t re x) = rq_origin r"
  by (simp_all add: new_log_def)

lemma refuse_outcome:
  "\<exists>out. outcome_of E r s (snd (refuse_action E r tier why s)) out \<and> logged_new E s (snd (refuse_action E r tier why s))"
proof (cases rule: write_log_cases [of "new_log E r AE_REJECTED (or_else tier RT_LOW) (Some why) None" s])
  case written
  then show ?thesis
    by (intro exI [of _ "LoggedRefusal (new_log E r AE_REJECTED (or_else tier RT_LOW) (Some why) None)"])
      (simp add: refuse_action_def and_then_def logged_new_def new_id_free_def)
next
  case clash
  then show ?thesis
    by (intro exI [of _ Unchanged])
      (simp add: refuse_action_def and_then_def logged_new_def new_id_free_def same_actions_def)
qed

lemma execute_outcome:
  assumes gate: "action_gate r d" and low: "re_tier d = RT_LOW"
    and idem: "rq_idem r \<notin> lg_idem ` set (action_logs s)"
  shows "\<exists>out. outcome_of E r s (snd (execute_action E ck r d None s)) out \<and>
    logged_new E s (snd (execute_action E ck r d None s))"
proof (cases "run_action E ck (re_dto d) (rq_user r) (rq_params r) s")
  case (Pair x s1)
  show ?thesis
  proof (cases x)
    case (Inl e)
    with Pair run_action_failed have "s1 = s" by blast
    with Pair Inl show ?thesis
      using refuse_outcome [of E r s "Some (re_tier d)" "error_message e"]
      by (simp add: execute_action_def failed_action_def)
  next
    case (Inr i)
    have s1: "action_logs s1 = action_logs s" "action_approvals s1 = action_approvals s" "created s1 = Suc (created s)"
      using run_action_tables [of E ck "re_dto d" "rq_user r" "rq_params r" s] Pair Inr
        run_action_created [of E ck "re_dto d" "rq_user r" "rq_params r" s] by auto
    let ?l = "new_log E r AE_EXECUTED (re_tier d) None (Some (summary i))"
    show ?thesis
    proof (cases rule: write_log_cases [of ?l s1])
      case written
      with Pair Inr s1 gate low show ?thesis
        by (intro exI [of _ "Done ?l"])
          (auto simp: execute_action_def logged_new_def new_id_free_def created_def)
    next
      case clash
      with idem s1 have taken: "\<not> new_id_free E s" by (simp add: new_id_free_def)
      have "snd (refuse_action E r (Some (re_tier d)) why s1) = s1" for why
        by (cases rule: write_log_cases [of "new_log E r AE_REJECTED (re_tier d) (Some why) None" s1])
          (use taken s1 in \<open>simp_all add: refuse_action_def and_then_def new_id_free_def\<close>)
      with Pair Inr clash(1) s1 taken show ?thesis
        by (intro exI [of _ Unlogged]) (simp add: execute_action_def failed_action_def logged_new_def)
    qed
  qed
qed

lemma notify_actions [simp]:
  "action_logs (snd (notify E p s)) = action_logs s" "action_approvals (snd (notify E p s)) = action_approvals s"
  "created (snd (notify E p s)) = created s"
  by (auto simp: notify_def Let_def deliver_def created_def split: option.splits notification_channel.splits)

lemma await_outcome:
  assumes gate: "action_gate r d"
  shows "\<exists>out. outcome_of E r s (snd (await_approval E r d s)) out \<and> logged_new E s (snd (await_approval E r d s))"
proof -
  let ?l = "new_log E r AE_PENDING_APPROVAL (re_tier d) None None"
  let ?a = "new_approval E ?l"
  show ?thesis
  proof (cases rule: write_log_cases [of ?l s])
    case written
    let ?s = "s\<lparr>action_logs := action_logs s @ [?l]\<rparr>"
    have new: "logged_new E s s'" if "action_logs s' = action_logs ?s" for s'
      using that written(2) by (simp add: logged_new_def new_id_free_def)
    show ?thesis
    proof (cases "exists_row (\<lambda>x. ap_id x = ap_id ?a \<or> ap_log x = ap_log ?a) (action_approvals s)")
      case True
      with written(1) have s': "snd (await_approval E r d s) = ?s"
        by (simp add: await_approval_def Let_def and_then_def)
      show ?thesis
        unfolding s' using gate new [of ?s]
        by (intro exI [of _ "WaitsForever ?l"]) (auto simp: created_def)
    next
      case False
      then have free: "ap_id ?a \<notin> ap_id ` set (action_approvals s)" "ap_log ?a \<notin> ap_log ` set (action_approvals s)"
        by (auto simp: image_iff)
      have s': "snd (await_approval E r d s) =
          snd (notify E (approval_notice r d (ap_id ?a)) (?s\<lparr>action_approvals := action_approvals s @ [?a]\<rparr>))"
        using False written(1) by (simp add: await_approval_def Let_def and_then_def split: prod.splits sum.splits)
      have "created (?s\<lparr>action_approvals := action_approvals s @ [?a]\<rparr>) = created s"
        by (simp add: created_def)
      with gate free new [of "snd (await_approval E r d s)"] show ?thesis
        unfolding s' by (intro exI [of _ "Waits ?l ?a"]) auto
    qed
  next
    case clash
    then show ?thesis
      by (intro exI [of _ Unchanged])
        (simp add: await_approval_def and_then_def logged_new_def same_actions_def)
  qed
qed

lemma submit_outcome:
  "\<exists>out. outcome_of E r s (snd (submit_action E ck r s)) out \<and> logged_new E s (snd (submit_action E ck r s))"
proof -
  have same: "\<exists>out. outcome_of E r s s out \<and> logged_new E s s"
    by (intro exI [of _ Unchanged]) (simp add: same_actions_def logged_new_def)
  show ?thesis
  proof (cases "find_log (rq_idem r) s")
    case (Some l)
    with same show ?thesis by (simp add: submit_action_def)
  next
    case None
    then have idem: "rq_idem r \<notin> lg_idem ` set (action_logs s)"
      by (auto simp: find_log_def find_row_None_iff)
    show ?thesis
    proof (cases "find_action_definition (rq_key r)")
      case None
      with \<open>find_log (rq_idem r) s = None\<close> show ?thesis
        using refuse_outcome [of E r s] by (simp add: submit_action_def)
    next
      case (Some d)
      have gate: "action_gate r d" if "agent_refusal r d s = Inr Allowed"
        using that Some agent_not_allowed [OF Some, of r s] by (auto simp: action_gate_def)
      show ?thesis
        using None Some same refuse_outcome [of E r s "Some (re_tier d)"] gate await_outcome [of r d E s]
          execute_outcome [OF _ _ idem, of d E ck]
        by (auto simp: submit_action_def Let_def split: sum.splits consent_check.splits)
    qed
  qed
qed

section \<open>Outcomes of an approval\<close>

definition settles :: "action_execution_status \<Rightarrow> action_log \<Rightarrow> action_log \<Rightarrow> bool" where
  "settles st x y =
     (lg_id y = lg_id x \<and> lg_key y = lg_key x \<and> lg_origin y = lg_origin x \<and> lg_tier y = lg_tier x \<and>
      lg_status y = st)"

lemma execute_logged:
  fixes E ck r d i and s :: db
  defines "s' \<equiv> snd (execute_action E ck r d (Some i) s)"
  obtains f st where "action_approvals s' = action_approvals s"
    "action_logs s' = update_rows (\<lambda>l. lg_id l = i) f (action_logs s)" "\<And>x. settles st x (f x)"
    "st = AE_EXECUTED \<and> created s' = Suc (created s) \<or> st = AE_REJECTED \<and> created s' = created s"
proof -
  obtain x s1 where run: "run_action E ck (re_dto d) (rq_user r) (rq_params r) s = (x, s1)"
    by fastforce
  have s1: "action_logs s1 = action_logs s" "action_approvals s1 = action_approvals s"
    using run_action_tables [of E ck "re_dto d" "rq_user r" "rq_params r" s] by (simp_all add: run)
  have cr: "created s1 = created s + (case x of Inl _ \<Rightarrow> 0 | Inr _ \<Rightarrow> 1)"
    using run_action_created [of E ck "re_dto d" "rq_user r" "rq_params r" s] by (cases x) (simp_all add: run)
  show thesis
  proof (cases x)
    case (Inl e)
    with run s1 cr show thesis
      by (intro that [of "\<lambda>l. l\<lparr>lg_status := AE_REJECTED, lg_reason := Some (error_message e)\<rparr>" AE_REJECTED])
        (simp_all add: s'_def execute_action_def failed_action_def created_def settles_def)
  next
    case (Inr k)
    with run s1 cr show thesis
      by (intro that [of "\<lambda>x. x\<lparr>lg_status := AE_EXECUTED, lg_result := Some (summary k)\<rparr>" AE_EXECUTED])
        (simp_all add: s'_def execute_action_def created_def settles_def)
  qed
qed

abbreviation resolved_by :: "env \<Rightarrow> id \<Rightarrow> action_approval_status \<Rightarrow> action_approval \<Rightarrow> action_approval" where
  "resolved_by E uid st a \<equiv> a\<lparr>ap_status := st, ap_resolver := Some uid, ap_resolved_at := Some (now E)\<rparr>"

lemma resolve_outcome:
  fixes E ck i uid b and s :: db
  defines "s' \<equiv> snd (resolve_approval E ck i uid b s)"
  obtains (same) "same_actions s s'"
  | (expired) a where "a \<in> set (action_approvals s)" "ap_id a = i" "ap_status a = AA_PENDING"
      "s' = update_approval i (\<lambda>a. a\<lparr>ap_status := AA_EXPIRED\<rparr>) s"
  | (settled) a l st lst f where "a \<in> set (action_approvals s)" "ap_id a = i" "ap_status a = AA_PENDING"
      "l \<in> set (action_logs s)" "lg_id l = ap_log a" "now E \<le> ap_expires a" "\<And>x. settles lst x (f x)"
      "action_approvals s' = update_rows (\<lambda>a. ap_id a = i) (resolved_by E uid st) (action_approvals s)"
      "action_logs s' = update_rows (\<lambda>x. lg_id x = ap_log a) f (action_logs s)"
      "lst = AE_EXECUTED \<and> st = AA_APPROVED \<and> created s' = Suc (created s) \<or>
       lst \<in> {AE_DENIED, AE_REJECTED} \<and> created s' = created s"
      "st \<noteq> AA_PENDING"
proof (cases "find_approval i s")
  case None
  then show thesis by (intro same) (simp add: s'_def resolve_approval_def same_actions_def)
next
  case (Some a)
  then have a: "a \<in> set (action_approvals s)" "ap_id a = i"
    by (auto simp: find_approval_def dest!: find_row_Some_D)
  consider "ap_status a \<noteq> AA_PENDING" | "ap_status a = AA_PENDING" "ap_expires a < now E"
    | "ap_status a = AA_PENDING" "now E \<le> ap_expires a" by linarith
  then show thesis
  proof cases
    case 1
    with Some show thesis by (intro same) (simp add: s'_def resolve_approval_def same_actions_def)
  next
    case 2
    with Some a show thesis by (intro expired [of a]) (simp_all add: s'_def resolve_approval_def)
  next
    case 3
    show thesis
    proof (cases "\<exists>l d. log_by_id (ap_log a) s = Some l \<and> find_action_definition (lg_key l) = Some d")
      case False
      with Some 3 show thesis
        by (intro same) (auto simp: s'_def resolve_approval_def same_actions_def split: option.splits)
    next
      case True
      then obtain l d where l: "log_by_id (ap_log a) s = Some l" "find_action_definition (lg_key l) = Some d" by blast
      then have ll: "l \<in> set (action_logs s)" "lg_id l = ap_log a"
        by (auto simp: log_by_id_def dest!: find_row_Some_D)
      show thesis
      proof (cases b)
        case False
        with Some 3 l a ll show thesis
          by (intro settled [of a l AE_DENIED "\<lambda>l. l\<lparr>lg_status := AE_DENIED\<rparr>" AA_DENIED])
            (simp_all add: s'_def resolve_approval_def Let_def created_def settles_def)
      next
        case True
        let ?s = "update_approval i (resolved_by E uid AA_APPROVED) s"
        have s': "s' = snd (execute_action E ck (logged_request l) d (Some (ap_log a)) ?s)"
          using Some 3 l True ll by (simp add: s'_def resolve_approval_def Let_def)
        show thesis
        proof (rule execute_logged [of E ck "logged_request l" d "ap_log a" ?s, folded s'], goal_cases)
          case (1 f lst)
          with 3 a ll show ?case by (intro settled [of a l lst f AA_APPROVED]) (auto simp: created_def)
        qed
      qed
    qed
  qed
qed

section \<open>The invariant\<close>

text \<open>What entitles a logged action to be executed.\<close>

definition approved_in_time :: "action_approval \<Rightarrow> bool" where
  "approved_in_time a =
     (ap_status a = AA_APPROVED \<and> ap_resolver a \<noteq> None \<and>
      (\<exists>t. ap_resolved_at a = Some t \<and> t \<le> ap_expires a))"

definition authorised :: "db \<Rightarrow> action_log \<Rightarrow> bool" where
  "authorised s l =
     (\<exists>d. find_action_definition (lg_key l) = Some d \<and> lg_tier l = re_tier d \<and>
        json_get ''type'' (lg_origin l) \<noteq> JStr ''agent'' \<and>
        (lg_status l = AE_EXECUTED \<longrightarrow> re_tier d = RT_LOW \<or>
           (\<exists>a \<in> set (action_approvals s). ap_log a = lg_id l \<and> approved_in_time a)))"

definition actions_ok :: "db \<Rightarrow> bool" where
  "actions_ok s =
     (unique_on lg_id (action_logs s) \<and> unique_on ap_id (action_approvals s) \<and> unique_on ap_log (action_approvals s) \<and>
      (\<forall>a \<in> set (action_approvals s). \<exists>l \<in> set (action_logs s). lg_id l = ap_log a \<and>
         (ap_status a = AA_PENDING \<longrightarrow> lg_status l = AE_PENDING_APPROVAL)) \<and>
      (\<forall>l \<in> set (action_logs s). lg_status l \<in> {AE_EXECUTED, AE_PENDING_APPROVAL} \<longrightarrow> authorised s l))"

lemma actions_ok_same: "actions_ok s \<Longrightarrow> same_actions s s' \<Longrightarrow> actions_ok s'"
  by (simp add: actions_ok_def same_actions_def authorised_def)

lemma authorised_more:
  "authorised s l \<Longrightarrow> set (action_approvals s) \<subseteq> set (action_approvals s') \<Longrightarrow> authorised s' l"
  unfolding authorised_def by blast

lemma actions_ok_log:
  assumes ok: "actions_ok s" and logs: "action_logs s' = action_logs s @ [l]"
    and apps: "action_approvals s' = action_approvals s" and free: "lg_id l \<notin> lg_id ` set (action_logs s)"
    and l: "lg_status l \<in> {AE_EXECUTED, AE_PENDING_APPROVAL} \<Longrightarrow> authorised s' l"
  shows "actions_ok s'"
proof -
  have old: "authorised s' x \<longleftrightarrow> authorised s x" for x by (simp add: authorised_def apps)
  show ?thesis
    using ok free l unfolding actions_ok_def logs apps by (auto simp: old)
qed

lemma actions_ok_wait:
  assumes ok: "actions_ok s" and logs: "action_logs s' = action_logs s @ [l]"
    and apps: "action_approvals s' = action_approvals s @ [new_approval E l]"
    and free: "lg_id l \<notin> lg_id ` set (action_logs s)" "ap_id (new_approval E l) \<notin> ap_id ` set (action_approvals s)"
      "ap_log (new_approval E l) \<notin> ap_log ` set (action_approvals s)"
    and l: "lg_status l = AE_PENDING_APPROVAL" "authorised s' l"
  shows "actions_ok s'"
proof -
  have old: "authorised s' x" if "authorised s x" for x
    using that authorised_more [of s x s'] apps by auto
  have new: "ap_log (new_approval E l) = lg_id l" by (simp add: new_approval_def)
  show ?thesis
    using ok free l old unfolding actions_ok_def logs apps by (auto simp: new)
qed

lemma submit_ok_step: "actions_ok s \<Longrightarrow> actions_ok (snd (submit_action E ck r s))"
proof -
  assume ok: "actions_ok s"
  let ?s = "snd (submit_action E ck r s)"
  obtain out where out: "outcome_of E r s ?s out" and new: "logged_new E s ?s"
    using submit_outcome [of E r s ck] by blast
  have free: "lg_id l \<notin> lg_id ` set (action_logs s)" if "action_logs ?s = action_logs s @ [l]" for l
    using new that by (auto simp: logged_new_def new_id_free_def)
  have auth: "authorised s' (new_log E r st (re_tier d) re x)"
    if "action_gate r d" "st = AE_PENDING_APPROVAL \<or> re_tier d = RT_LOW" for s' st d re x
    using that by (auto simp: authorised_def action_gate_def)
  show ?thesis
  proof (cases out)
    case Unchanged
    with out ok show ?thesis by (auto intro: actions_ok_same)
  next
    case (LoggedRefusal l)
    with out free [of l] show ?thesis by (intro actions_ok_log [OF ok, of _ l]) auto
  next
    case (Done l)
    with out obtain d x where "action_gate r d" "re_tier d = RT_LOW" "l = new_log E r AE_EXECUTED RT_LOW None x" by auto
    with Done out free [of l] auth [of d AE_EXECUTED ?s None x] show ?thesis
      by (intro actions_ok_log [OF ok, of _ l]) auto
  next
    case Unlogged
    with out ok show ?thesis by (simp add: actions_ok_def authorised_def)
  next
    case (Waits l a)
    with out obtain d where "action_gate r d" "l = new_log E r AE_PENDING_APPROVAL (re_tier d) None None" by auto
    with Waits out free [of l] auth [of d AE_PENDING_APPROVAL ?s None None] show ?thesis
      by (intro actions_ok_wait [OF ok, of _ l E]) auto
  next
    case (WaitsForever l)
    with out obtain d where "action_gate r d" "l = new_log E r AE_PENDING_APPROVAL (re_tier d) None None" by auto
    with WaitsForever out free [of l] auth [of d AE_PENDING_APPROVAL ?s None None] show ?thesis
      by (intro actions_ok_log [OF ok, of _ l]) auto
  qed
qed

lemma update_approval_authorised:
  assumes ok: "actions_ok s" and a: "a \<in> set (action_approvals s)" "ap_id a = i" "ap_status a = AA_PENDING"
    and apps: "action_approvals s' = update_rows (\<lambda>a. ap_id a = i) g (action_approvals s)"
    and l: "authorised s l"
  shows "authorised s' l"
proof -
  have "x \<in> set (action_approvals s')" if x: "x \<in> set (action_approvals s)" "approved_in_time x" for x
  proof -
    have "ap_id x \<noteq> i"
      using ok a x by (auto simp: actions_ok_def approved_in_time_def dest: unique_onD)
    with x(1) show ?thesis by (auto simp: apps set_update_rows)
  qed
  with l show ?thesis unfolding authorised_def by blast
qed

lemma expire_ok_step:
  assumes ok: "actions_ok s" and a: "a \<in> set (action_approvals s)" "ap_id a = i" "ap_status a = AA_PENDING"
  shows "actions_ok (update_approval i (\<lambda>a. a\<lparr>ap_status := AA_EXPIRED\<rparr>) s)"
proof -
  have "authorised (update_approval i (\<lambda>a. a\<lparr>ap_status := AA_EXPIRED\<rparr>) s) l" if "authorised s l" for l
    by (rule update_approval_authorised [OF ok a _ that]) simp
  with ok show ?thesis by (auto simp: actions_ok_def)
qed

lemma settle_ok_step:
  assumes ok: "actions_ok s" and a: "a \<in> set (action_approvals s)" "ap_id a = i" "ap_status a = AA_PENDING"
    and l: "l \<in> set (action_logs s)" "lg_id l = ap_log a" and time: "now E \<le> ap_expires a"
    and f: "\<And>x. settles lst x (f x)" and st: "st \<noteq> AA_PENDING"
    and apps: "action_approvals s' = update_rows (\<lambda>a. ap_id a = i) (resolved_by E uid st) (action_approvals s)"
    and logs: "action_logs s' = update_rows (\<lambda>x. lg_id x = ap_log a) f (action_logs s)"
    and lst: "lst = AE_EXECUTED \<and> st = AA_APPROVED \<or> lst \<in> {AE_DENIED, AE_REJECTED}"
  shows "actions_ok s'"
proof -
  have only: "x = a" if "x \<in> set (action_approvals s)" "ap_id x = i \<or> ap_log x = ap_log a" for x
    using ok that a(1,2) by (auto simp: actions_ok_def dest: unique_onD)
  have l_only: "x = l" if "x \<in> set (action_logs s)" "lg_id x = ap_log a" for x
    using ok that l by (auto simp: actions_ok_def dest: unique_onD)
  have fields: "lg_id (f x) = lg_id x" "lg_key (f x) = lg_key x" "lg_origin (f x) = lg_origin x"
    "lg_tier (f x) = lg_tier x" "lg_status (f x) = lst" for x
    using f [of x] by (simp_all add: settles_def)
  have keep: "authorised s' x" if "authorised s x" for x
    by (rule update_approval_authorised [OF ok a apps that])
  obtain l0 where "l0 \<in> set (action_logs s)" "lg_id l0 = ap_log a" "lg_status l0 = AE_PENDING_APPROVAL"
    using ok a(1,3) unfolding actions_ok_def by blast
  with l_only have pending: "lg_status l = AE_PENDING_APPROVAL" by blast
  with ok l(1) have "authorised s l" by (simp add: actions_ok_def)
  then have new: "authorised s' (f l)" if "lst = AE_EXECUTED"
  proof -
    let ?a = "resolved_by E uid AA_APPROVED a"
    from lst that have "st = AA_APPROVED" by auto
    with a(1,2) have "?a \<in> set (action_approvals s')" by (auto simp: apps set_update_rows)
    moreover have "ap_log ?a = lg_id l" "approved_in_time ?a" using l(2) time by (simp_all add: approved_in_time_def)
    ultimately show ?thesis using \<open>authorised s l\<close> unfolding authorised_def fields by blast
  qed
  show ?thesis
    unfolding actions_ok_def logs apps
  proof (intro conjI)
    show "\<forall>x \<in> set (update_rows (\<lambda>a. ap_id a = i) (resolved_by E uid st) (action_approvals s)).
        \<exists>l \<in> set (update_rows (\<lambda>x. lg_id x = ap_log a) f (action_logs s)). lg_id l = ap_log x \<and>
          (ap_status x = AA_PENDING \<longrightarrow> lg_status l = AE_PENDING_APPROVAL)"
    proof
      fix y assume "y \<in> set (update_rows (\<lambda>a. ap_id a = i) (resolved_by E uid st) (action_approvals s))"
      then obtain x where x: "x \<in> set (action_approvals s)" and y: "y = (if ap_id x = i then resolved_by E uid st x else x)"
        by (auto simp: set_update_rows)
      obtain k where k: "k \<in> set (action_logs s)" "lg_id k = ap_log x"
        "ap_status x = AA_PENDING \<longrightarrow> lg_status k = AE_PENDING_APPROVAL"
        using ok x unfolding actions_ok_def by blast
      let ?k = "if lg_id k = ap_log a then f k else k"
      have "?k \<in> set (update_rows (\<lambda>x. lg_id x = ap_log a) f (action_logs s))"
        using k(1) by (auto simp: set_update_rows)
      moreover have "lg_id ?k = ap_log y" using k y fields by auto
      moreover have "ap_status y = AA_PENDING \<longrightarrow> lg_status ?k = AE_PENDING_APPROVAL"
        using k y st only [OF x] a(2) by auto
      ultimately show "\<exists>l \<in> set (update_rows (\<lambda>x. lg_id x = ap_log a) f (action_logs s)). lg_id l = ap_log y \<and>
          (ap_status y = AA_PENDING \<longrightarrow> lg_status l = AE_PENDING_APPROVAL)" by blast
    qed
    show "\<forall>l \<in> set (update_rows (\<lambda>x. lg_id x = ap_log a) f (action_logs s)).
        lg_status l \<in> {AE_EXECUTED, AE_PENDING_APPROVAL} \<longrightarrow> authorised s' l"
      using ok keep new l_only lst by (auto simp: actions_ok_def fields)
  qed (use ok fields in \<open>simp_all add: actions_ok_def\<close>)
qed

lemma resolve_ok_step:
  assumes ok: "actions_ok s"
  shows "actions_ok (snd (resolve_approval E ck i uid b s))"
proof (cases rule: resolve_outcome [of s E ck i uid b])
  case same
  with ok show ?thesis by (rule actions_ok_same)
next
  case (expired a)
  with expire_ok_step [OF ok expired(1,2,3)] show ?thesis by simp
next
  case (settled a l st lst f)
  then show ?thesis by (intro settle_ok_step [OF ok, of a i l E lst f st _ uid]) auto
qed

lemma action_step_ok: "actions_ok s \<Longrightarrow> actions_ok (snd (action_step a s))"
  by (cases "(a, s)" rule: action_step.cases) (simp_all add: submit_ok_step resolve_ok_step)

interpretation action_engine: invariant_system action_step actions_ok
  by unfold_locales (rule action_step_ok)

text \<open>
  C28. Nothing is executed without authority: in every state the engine reaches, each action the log
  shows as executed is a registered one, was not asked for by an agent (no registered action has a
  consent scope for agents), and either carries a low risk or has an approval somebody gave before it
  expired.
\<close>

theorem executed_actions_are_authorised:
  assumes "action_logs s = []" and "action_approvals s = []"
    and "l \<in> set (action_logs (run_ops action_step ops s))" and "lg_status l = AE_EXECUTED"
  shows "\<exists>d \<in> set action_registry. re_key d = lg_key l \<and> lg_tier l = re_tier d \<and>
    json_get ''type'' (lg_origin l) \<noteq> JStr ''agent'' \<and>
    (re_tier d = RT_LOW \<or>
     (\<exists>a \<in> set (action_approvals (run_ops action_step ops s)).
        ap_log a = lg_id l \<and> ap_status a = AA_APPROVED \<and> ap_resolver a \<noteq> None \<and>
        (\<exists>t. ap_resolved_at a = Some t \<and> t \<le> ap_expires a)))"
proof -
  have "actions_ok s" using assms(1,2) by (simp add: actions_ok_def unique_on_def)
  then have "actions_ok (run_ops action_step ops s)" by (rule action_engine.run_inv)
  with assms(3,4) have "authorised (run_ops action_step ops s) l" by (simp add: actions_ok_def)
  with assms(4) find_action_registered show ?thesis
    unfolding authorised_def approved_in_time_def by blast
qed

section \<open>The log is complete\<close>

lemma executed_update:
  assumes "unique_on lg_id (action_logs s)" and "l \<in> set (action_logs s)" and "lg_id l = i"
    and "lg_status l = AE_PENDING_APPROVAL" and "\<And>x. settles lst x (f x)"
    and "action_logs s' = update_rows (\<lambda>x. lg_id x = i) f (action_logs s)"
  shows "executed s' = executed s + (if lst = AE_EXECUTED then 1 else 0)"
proof -
  have st: "lg_status (f x) = lst" for x using assms(5) [of x] by (simp add: settles_def)
  have "count_rows (\<lambda>l. lg_status l = AE_EXECUTED) (update_rows (\<lambda>x. lg_id x = i) f rows) =
      count_rows (\<lambda>l. lg_status l = AE_EXECUTED) rows + (if lst = AE_EXECUTED then 1 else 0)"
    if "unique_on lg_id rows" "l \<in> set rows" for rows
    using that
  proof (induction rows)
    case (Cons a rows)
    show ?case
    proof (cases "a = l")
      case True
      with Cons.prems have "update_rows (\<lambda>x. lg_id x = i) f rows = rows"
        using assms(3) by (intro update_rows_none) (auto simp: unique_on_def image_iff)
      with True assms(3,4) st show ?thesis by simp
    next
      case False
      with Cons.prems have "l \<in> set rows" "lg_id a \<noteq> i"
        using assms(3) by (auto simp: unique_on_def)
      with Cons show ?thesis by (simp add: unique_on_def)
    qed
  qed simp
  from this [OF assms(1,2)] show ?thesis by (simp add: executed_def assms(6))
qed

definition balanced :: "db \<Rightarrow> db \<Rightarrow> bool" where
  "balanced s s' = (created s' + executed s = created s + executed s')"

lemma submit_balanced:
  assumes "new_id_free E s"
  shows "balanced s (snd (submit_action E ck r s))"
proof -
  obtain out where "outcome_of E r s (snd (submit_action E ck r s)) out"
    using submit_outcome [of E r s ck] by blast
  with assms show ?thesis
    by (cases out) (auto simp: balanced_def executed_def same_actions_def created_def)
qed

lemma resolve_balanced:
  assumes ok: "actions_ok s"
  shows "balanced s (snd (resolve_approval E ck i uid b s))"
proof (cases rule: resolve_outcome [of s E ck i uid b])
  case (settled a l st lst f)
  obtain l0 where l0: "l0 \<in> set (action_logs s)" "lg_id l0 = ap_log a" "lg_status l0 = AE_PENDING_APPROVAL"
    using ok settled(1,3) unfolding actions_ok_def by blast
  have "executed (snd (resolve_approval E ck i uid b s)) = executed s + (if lst = AE_EXECUTED then 1 else 0)"
    by (rule executed_update [OF _ l0 settled(7,9)]) (use ok in \<open>simp add: actions_ok_def\<close>)
  with settled(10) show ?thesis by (auto simp: balanced_def)
qed (auto simp: balanced_def executed_def same_actions_def created_def)

text \<open>Every request draws a log id of its own.\<close>

definition own_log_ids :: "(env \<times> dto_checks \<times> action_op) list \<Rightarrow> db \<Rightarrow> bool" where
  "own_log_ids ops s =
     (distinct (map (\<lambda>a. new_id (fst a) T_ActionLog 0) ops) \<and> (\<forall>a \<in> set ops. new_id_free (fst a) s))"

lemma step_log_ids:
  "lg_id ` set (action_logs (snd (action_step (E, op) s))) \<subseteq> insert (new_id E T_ActionLog 0) (lg_id ` set (action_logs s))"
proof (cases "((E, op), s)" rule: action_step.cases)
  case (1 E' ck r s')
  then show ?thesis using submit_outcome [of E r s ck] by (auto simp: logged_new_def)
next
  case (2 E' ck i uid b s')
  then show ?thesis
  proof (cases rule: resolve_outcome [of s E ck i uid b])
    case (settled a l st lst f)
    have "lg_id (f x) = lg_id x" for x using settled(7) [of x] by (simp add: settles_def)
    then show ?thesis using 2 settled(9) by (auto simp: image_update_rows)
  qed (use 2 in \<open>auto simp: same_actions_def\<close>)
qed

lemma step_balanced:
  "actions_ok s \<Longrightarrow> new_id_free (fst a) s \<Longrightarrow> balanced s (snd (action_step a s))"
  by (cases "(a, s)" rule: action_step.cases) (simp_all add: submit_balanced resolve_balanced)

lemma step_own_ids:
  assumes own: "own_log_ids (a # ops) s"
  shows "new_id_free (fst a) s \<and> own_log_ids ops (snd (action_step a s))"
proof -
  have "new_id_free (fst b) (snd (action_step a s))" if b: "b \<in> set ops" for b
  proof -
    have "new_id (fst b) T_ActionLog 0 \<noteq> new_id (fst a) T_ActionLog 0"
      using own b by (auto simp: own_log_ids_def image_iff)
    moreover have "new_id_free (fst b) s" using own b by (simp add: own_log_ids_def)
    ultimately show ?thesis
      using step_log_ids [of "fst a" "snd a" s] by (auto simp: new_id_free_def)
  qed
  with own show ?thesis by (simp add: own_log_ids_def)
qed

text \<open>
  C29. The log is complete: as long as every request draws a new log id, the rows the engine has
  created and the actions its log shows as executed stay equal in number, whatever the requests and
  decisions are.
\<close>

theorem action_log_is_complete:
  assumes "actions_ok s" and "own_log_ids ops s"
  shows "created (run_ops action_step ops s) + executed s = created s + executed (run_ops action_step ops s)"
  using assms
proof (induction ops arbitrary: s)
  case (Cons a ops)
  from step_own_ids [OF Cons.prems(2)] have free: "new_id_free (fst a) s" "own_log_ids ops (snd (action_step a s))" by auto
  have "balanced s (snd (action_step a s))" by (rule step_balanced [OF Cons.prems(1) free(1)])
  moreover have "balanced (snd (action_step a s)) (run_ops action_step (a # ops) s)"
    using Cons.IH [OF action_step_ok [OF Cons.prems(1)] free(2)] by (simp add: balanced_def)
  ultimately show ?case unfolding balanced_def by linarith
qed simp

section \<open>Refusals\<close>

lemma execute_refused:
  assumes idem: "find_log (rq_idem r) s = None"
    and x: "execute_action E ck r d None s = (Inr (Refused i why), s')"
  shows "\<exists>tier y. refuse_action E r tier y s = (Inr (Refused i why), s')"
proof (cases "run_action E ck (re_dto d) (rq_user r) (rq_params r) s")
  case (Pair a s1)
  show ?thesis
  proof (cases a)
    case (Inl e)
    with Pair run_action_failed have "s1 = s" by blast
    with x Pair Inl show ?thesis by (auto simp: execute_action_def failed_action_def)
  next
    case (Inr k)
    have logs: "action_logs s1 = action_logs s"
      using run_action_tables [of E ck "re_dto d" "rq_user r" "rq_params r" s] Pair by simp
    let ?l = "new_log E r AE_EXECUTED (re_tier d) None (Some (summary k))"
    show ?thesis
    proof (cases rule: write_log_cases [of ?l s1])
      case written
      with x Pair Inr show ?thesis by (simp add: execute_action_def)
    next
      case clash
      then have "\<not> new_id_free E s1"
        using idem logs by (auto simp: new_id_free_def find_log_def find_row_None_iff)
      then have "fst (refuse_action E r t y s1) = Inl unique_violation" for t y
        by (cases rule: write_log_cases [of "new_log E r AE_REJECTED (or_else t RT_LOW) (Some y) None" s1])
          (simp_all add: refuse_action_def and_then_def new_id_free_def)
      with x Pair Inr clash(1) show ?thesis
        by (auto simp: execute_action_def failed_action_def dest: arg_cong [where f = fst])
    qed
  qed
qed

lemma await_not_refused: "await_approval E r d s \<noteq> (Inr (Refused i why), s')"
  by (auto simp: await_approval_def and_then_def Let_def split: prod.splits sum.splits if_splits)

text \<open>
  C30. A refused request changes nothing but the log: when the answer is a refusal (an unknown or
  disabled action, no membership, no consent, invalid parameters, a service that refused), either
  its idempotency key was in the log already (a repetition: the stored refusal is given back and
  everything is as before) or it was not, and exactly one entry was added, with the request and the
  reason given.
\<close>

theorem refused_action_changes_nothing:
  assumes "submit_action E ck r s = (Inr (Refused i why), s')"
  shows "case find_log (rq_idem r) s of
      Some l \<Rightarrow> s' = s \<and> lg_id l = i \<and> lg_reason l = why
    | None \<Rightarrow> \<exists>l. s' = s\<lparr>action_logs := action_logs s @ [l]\<rparr> \<and> lg_id l = i \<and> lg_status l = AE_REJECTED \<and>
        lg_reason l = why \<and> lg_user l = rq_user r \<and> lg_key l = rq_key r \<and> lg_params l = rq_params r \<and>
        lg_idem l = rq_idem r"
proof -
  have refuse: ?thesis if "refuse_action E r tier y s = (Inr (Refused i why), s')" "find_log (rq_idem r) s = None" for tier y
    using that by (auto simp: refuse_action_def and_then_def write_log_def new_log_def split: if_splits)
  show ?thesis
  proof (cases "find_log (rq_idem r) s")
    case (Some l)
    with assms show ?thesis by (auto simp: submit_action_def split: action_execution_status.splits)
  next
    case idem: None
    show ?thesis
    proof (cases "find_action_definition (rq_key r)")
      case None
      with idem assms refuse show ?thesis by (simp add: submit_action_def)
    next
      case (Some d)
      with idem assms refuse execute_refused [OF idem, of E ck d i why s'] await_not_refused [of E r d s i why s']
      show ?thesis
        by (auto simp: submit_action_def Let_def split: if_splits sum.splits consent_check.splits)
    qed
  qed
qed

section \<open>Concrete runs\<close>

definition demo_checks :: dto_checks where
  "demo_checks = \<lparr>ck_errors = (\<lambda>_ _. []), ck_date = (\<lambda>t. int (length t))\<rparr>"

text \<open>A member of a workspace and an account that is not one; the registry is in the table.\<close>

definition action_db :: db where
  "action_db = sync_registry (demo_db\<lparr>ws_members :=
     [\<lparr>wm_id = ''x1'', wm_workspace = ''w1'', wm_user = ''m1'', wm_role = OWNER, wm_department = None, wm_created_at = 0\<rparr>]\<rparr>)"

definition demo_request :: "id \<Rightarrow> string \<Rightarrow> string \<Rightarrow> string \<Rightarrow> action_request" where
  "demo_request uid key origin idem =
     \<lparr>rq_key = key, rq_workspace = ''w1'', rq_user = uid, rq_ndy_id = uid, rq_origin = JObj [(''type'', JStr origin)],
      rq_params = JObj [(''title'', JStr ''Call''), (''startAt'', JStr ''a''), (''endAt'', JStr ''bb'')], rq_idem = idem\<rparr>"

definition own_ids :: "time \<Rightarrow> env" where
  "own_ids t = (demo_env t)\<lparr>new_id := \<lambda>_ n. ''t'' @ string_of_nat (nat t) @ ''n'' @ string_of_nat n\<rparr>"

definition demo_actions :: "(env \<times> dto_checks \<times> action_op) list" where
  "demo_actions =
     [(own_ids 1, demo_checks, Submit (demo_request ''m1'' ''note.create'' ''user_direct'' ''k1'')),
      (own_ids 2, demo_checks, Submit (demo_request ''m1'' ''calendar.event.create'' ''user_direct'' ''k2'')),
      (own_ids 3, demo_checks, Submit (demo_request ''m1'' ''note.create'' ''agent'' ''k3'')),
      (own_ids 4, demo_checks, Resolve ''t2n0'' ''m1'' True)]"

definition demo_acted :: db where
  "demo_acted = run_ops action_step demo_actions action_db"

lemma demo_acted_log:
  "map (\<lambda>l. (lg_id l, lg_status l, lg_tier l)) (action_logs demo_acted) =
     [(''t1n0'', AE_EXECUTED, RT_LOW), (''t2n0'', AE_EXECUTED, RT_MEDIUM), (''t3n0'', AE_REJECTED, RT_LOW)]"
  by code_simp

theorem executed_actions_are_authorised_witness:
  "\<exists>a \<in> set (action_approvals demo_acted). ap_log a = ''t2n0'' \<and> ap_status a = AA_APPROVED"
proof -
  have start: "action_logs action_db = []" "action_approvals action_db = []" by code_simp+
  obtain l where l: "l \<in> set (action_logs demo_acted)" "lg_id l = ''t2n0''" "lg_status l = AE_EXECUTED"
    "lg_tier l = RT_MEDIUM"
  proof -
    have "(''t2n0'', AE_EXECUTED, RT_MEDIUM) \<in> set (map (\<lambda>l. (lg_id l, lg_status l, lg_tier l)) (action_logs demo_acted))"
      unfolding demo_acted_log by simp
    then show thesis by (auto intro: that)
  qed
  from executed_actions_are_authorised [OF start, where ops = demo_actions, folded demo_acted_def, OF l(1,3)]
  have "\<exists>a \<in> set (action_approvals demo_acted). ap_log a = lg_id l \<and> ap_status a = AA_APPROVED"
    unfolding l(4) by (elim bexE conjE disjE) auto
  then show ?thesis unfolding l(2) .
qed

theorem action_log_is_complete_witness:
  "created demo_acted + executed action_db = created action_db + executed demo_acted"
proof -
  have "action_logs action_db = []" "action_approvals action_db = []" by code_simp+
  then have "actions_ok action_db" by (simp add: actions_ok_def unique_on_def)
  moreover have "own_log_ids demo_actions action_db" by code_simp
  ultimately show ?thesis unfolding demo_acted_def by (rule action_log_is_complete)
qed

theorem refused_action_changes_nothing_witness:
  "\<exists>l. snd (submit_action (own_ids 3) demo_checks (demo_request ''a2'' ''note.create'' ''user_direct'' ''k3'') action_db) =
     action_db\<lparr>action_logs := action_logs action_db @ [l]\<rparr> \<and>
     lg_reason l = Some ''You are not a member of this workspace.''"
proof -
  let ?r = "submit_action (own_ids 3) demo_checks (demo_request ''a2'' ''note.create'' ''user_direct'' ''k3'') action_db"
  have f: "fst ?r = Inr (Refused ''t3n0'' (Some ''You are not a member of this workspace.''))"
    "length (action_logs (snd ?r)) = 1" "action_logs action_db = []" by code_simp+
  then have r: "?r = (Inr (Refused ''t3n0'' (Some ''You are not a member of this workspace.'')), snd ?r)"
    by (metis prod.collapse)
  have idem: "find_log (rq_idem (demo_request ''a2'' ''note.create'' ''user_direct'' ''k3'')) action_db = None"
    by code_simp
  from refused_action_changes_nothing [OF r] show ?thesis
    unfolding idem option.case by blast
qed

section \<open>What goes wrong\<close>

text \<open>Anybody signed in can approve (or deny) anybody's action: neither membership nor the requester is checked.\<close>

lemma stranger_approves_an_action:
  "get_membership ''a2'' ''w1'' demo_acted = None \<and>
   map ce_user (calendar_events (run_ops action_step
     [(own_ids 2, demo_checks, Submit (demo_request ''m1'' ''calendar.event.create'' ''user_direct'' ''k2'')),
      (own_ids 4, demo_checks, Resolve ''t2n0'' ''a2'' True)] action_db)) = [''m1'']"
  by code_simp

text \<open>The idempotency key is not bound to who uses it: another account gets the outcome and the approval id.\<close>

lemma idempotency_key_leaks:
  "fst (submit_action (own_ids 5) demo_checks (demo_request ''a2'' ''note.create'' ''user_direct'' ''k2'')
     (snd (submit_action (own_ids 2) demo_checks
       (demo_request ''m1'' ''calendar.event.create'' ''user_direct'' ''k2'') action_db))) =
   Inr (Awaiting ''t2n0'' (Some ''t2n0''))"
  by code_simp

text \<open>An expired approval leaves its entry waiting, so a repetition is told to wait for good.\<close>

lemma expired_action_keeps_waiting:
  "fst (submit_action (own_ids 9) demo_checks
       (demo_request ''m1'' ''calendar.event.create'' ''user_direct'' ''k2'')
     (snd (resolve_approval ((own_ids 4)\<lparr>now := 200000000\<rparr>) demo_checks ''t2n0'' ''m1'' True
       (snd (submit_action (own_ids 2) demo_checks
         (demo_request ''m1'' ''calendar.event.create'' ''user_direct'' ''k2'') action_db))))) =
   Inr (Awaiting ''t2n0'' (Some ''t2n0''))"
  by code_simp

text \<open>
  Approving runs the action although it was disabled, and its requester removed from the workspace,
  since it was submitted.
\<close>

lemma approval_ignores_later_revocation:
  "length (calendar_events (snd (resolve_approval (own_ids 4) demo_checks ''t2n0'' ''m1'' True
     ((snd (submit_action (own_ids 2) demo_checks
         (demo_request ''m1'' ''calendar.event.create'' ''user_direct'' ''k2'') action_db))
       \<lparr>ws_members := [], action_definitions := []\<rparr>)))) = 1"
  by code_simp

text \<open>The consent check believes the request about its own origin.\<close>

lemma origin_is_self_declared:
  "fst (submit_action (own_ids 3) demo_checks (demo_request ''m1'' ''note.create'' ''ai_command'' ''k3'') action_db) =
   Inr (Executed ''t3n0'' (Some ''t3n0''))"
  by code_simp

end
