(* ===== verification/QrCodes.thy ===== *)
theory QrCodes
  imports Mail Sessions "HOL-Library.Multiset"
begin

text \<open>
  NDYQR, \<^verbatim>\<open>ndyqr/ndyqr.service.ts\<close>: codes with a permanent short link and an editable destination,
  the public redirect, scans and their statistics; and what a printed code can rely on.
\<close>

section \<open>Codes\<close>

definition default_brand_style :: string where
  "default_brand_style = ''ndy-gradient''"

definition default_color_from :: string where
  "default_color_from = ''#e600f0''"

definition default_color_to :: string where
  "default_color_to = ''#38bdf8''"

definition qr_brand_defaults :: "string \<times> string \<times> string" where
  "qr_brand_defaults = (default_brand_style, default_color_from, default_color_to)"

definition find_qr_slug :: "string \<Rightarrow> db \<Rightarrow> qr_code option" where
  "find_qr_slug t s = find_row (\<lambda>c. qr_slug c = t) (qr_codes s)"

definition find_qr :: "id \<Rightarrow> db \<Rightarrow> qr_code option" where
  "find_qr i s = find_row (\<lambda>c. qr_id c = i) (qr_codes s)"

text \<open>Six attempts to draw a slug nobody has.\<close>

definition max_slug_attempts :: nat where
  "max_slug_attempts = 6"

fun draw_slug :: "env \<Rightarrow> nat \<Rightarrow> nat \<Rightarrow> db \<Rightarrow> string option" where
  "draw_slug E n 0 s = None"
| "draw_slug E n (Suc k) s =
     (if find_qr_slug (draw E SlugDraw n) s = None then Some (draw E SlugDraw n) else draw_slug E (Suc n) k s)"

definition generate_unique_slug :: "env \<Rightarrow> db \<Rightarrow> string reply" where
  "generate_unique_slug E s =
     (case draw_slug E 0 max_slug_attempts s of
        None \<Rightarrow> throw (ServerError ''Could not allocate a unique NDYQR slug.'') | Some t \<Rightarrow> ok t)"

record qr_dto =
  qd_label :: string
  qd_destination :: string
  qd_type :: "ndyqr_type option"
  qd_campaign :: "string option"
  qd_until :: "time option"
  qd_style :: "string option"
  qd_from :: "string option"
  qd_to :: "string option"
  qd_logo :: "string option"

datatype qr_owner = OfUser id | OfClient string

definition new_qr :: "env \<Rightarrow> string \<Rightarrow> qr_owner \<Rightarrow> qr_dto \<Rightarrow> qr_code" where
  "new_qr E slug owner d =
     \<lparr>qr_id = new_id E T_QrCode 0, qr_slug = slug,
      qr_owner = (case owner of OfUser u \<Rightarrow> Some u | OfClient _ \<Rightarrow> None),
      qr_client = (case owner of OfUser _ \<Rightarrow> None | OfClient c \<Rightarrow> Some c),
      qr_label = qd_label d, qr_type = or_else (qd_type d) LINK, qr_destination = qd_destination d,
      qr_campaign = qd_campaign d, qr_active = True, qr_expires = qd_until d,
      qr_style = or_else (qd_style d) default_brand_style, qr_color_from = qd_from d, qr_color_to = qd_to d,
      qr_logo = qd_logo d, qr_created_at = now E\<rparr>"

definition create_qr :: "env \<Rightarrow> qr_owner \<Rightarrow> qr_dto \<Rightarrow> (db, qr_code) handler" where
  "create_qr E owner d s =
     (case generate_unique_slug E s of
        Inl e \<Rightarrow> (throw e, s)
      | Inr slug \<Rightarrow>
          let c = new_qr E slug owner d
          in if exists_row (\<lambda>x. qr_id x = qr_id c) (qr_codes s) then (throw unique_violation, s)
             else if (case owner of OfUser u \<Rightarrow> find_user u s = None | OfClient _ \<Rightarrow> False)
             then (throw foreign_key_error, s)
             else (ok c, s\<lparr>qr_codes := qr_codes s @ [c]\<rparr>))"

definition scan_count :: "id \<Rightarrow> db \<Rightarrow> nat" where
  "scan_count i s = count_rows (\<lambda>x. qs_code x = i) (qr_scans s)"

definition list_qr_for_user :: "id \<Rightarrow> db \<Rightarrow> (qr_code \<times> nat) list" where
  "list_qr_for_user uid s =
     map (\<lambda>c. (c, scan_count (qr_id c) s))
       (rev (sort_key qr_created_at (filter (\<lambda>c. qr_owner c = Some uid) (qr_codes s))))"

definition list_all_qr :: "db \<Rightarrow> (qr_code \<times> nat \<times> (string \<times> string option) option) list" where
  "list_all_qr s =
     map (\<lambda>c. (c, scan_count (qr_id c) s,
             Option.bind (qr_owner c) (\<lambda>u. map_option (\<lambda>x. (u_ndy_id x, full_name (u_passport x))) (find_user u s))))
       (take 500 (rev (sort_key qr_created_at (qr_codes s))))"

definition get_owned_qr :: "id \<Rightarrow> id \<Rightarrow> db \<Rightarrow> qr_code reply" where
  "get_owned_qr uid i s =
     (case find_qr i s of
        None \<Rightarrow> throw (NotFound ''No QR code with that id.'')
      | Some c \<Rightarrow> if qr_owner c \<noteq> Some uid then throw (NotFound ''No QR code with that id.'') else ok c)"

record qr_update =
  qu_label :: "string field"
  qu_destination :: "string field"
  qu_type :: "ndyqr_type field"
  qu_campaign :: "string field"
  qu_active :: "bool field"
  qu_until :: "time field"
  qu_style :: "string field"
  qu_from :: "string field"
  qu_to :: "string field"
  qu_logo :: "string field"

text \<open>\<^verbatim>\<open>new Date(null)\<close> is the epoch.\<close>

definition apply_qr_update :: "qr_update \<Rightarrow> qr_code \<Rightarrow> qr_code" where
  "apply_qr_update d c =
     c\<lparr>qr_label := required (qu_label d) (qr_label c), qr_destination := required (qu_destination d) (qr_destination c),
       qr_type := required (qu_type d) (qr_type c), qr_campaign := nullable (qu_campaign d) (qr_campaign c),
       qr_active := required (qu_active d) (qr_active c),
       qr_expires := (case qu_until d of None \<Rightarrow> qr_expires c | Some t \<Rightarrow> Some (or_else t 0)),
       qr_style := required (qu_style d) (qr_style c), qr_color_from := nullable (qu_from d) (qr_color_from c),
       qr_color_to := nullable (qu_to d) (qr_color_to c), qr_logo := nullable (qu_logo d) (qr_logo c)\<rparr>"

definition update_qr :: "id \<Rightarrow> id \<Rightarrow> qr_update \<Rightarrow> (db, qr_code) handler" where
  "update_qr uid i d s =
     (case get_owned_qr uid i s of
        Inl e \<Rightarrow> (throw e, s)
      | Inr c \<Rightarrow>
          if qu_label d = Some None \<or> qu_destination d = Some None \<or> qu_type d = Some None \<or>
             qu_active d = Some None \<or> qu_style d = Some None
          then (throw invalid_null, s)
          else (ok (apply_qr_update d c),
                s\<lparr>qr_codes := update_rows (\<lambda>x. qr_id x = i) (apply_qr_update d) (qr_codes s)\<rparr>))"

text \<open>The scans of a code go with it.\<close>

definition remove_qr :: "id \<Rightarrow> id \<Rightarrow> (db, unit) handler" where
  "remove_qr uid i s =
     (case get_owned_qr uid i s of
        Inl e \<Rightarrow> (throw e, s)
      | Inr _ \<Rightarrow>
          (ok (), s\<lparr>qr_codes := delete_rows (\<lambda>x. qr_id x = i) (qr_codes s),
                    qr_scans := delete_rows (\<lambda>x. qs_code x = i) (qr_scans s)\<rparr>))"

definition qr_public_url :: "env \<Rightarrow> string \<Rightarrow> string" where
  "qr_public_url E slug =
     (if api_url E \<noteq> [] \<and> last (api_url E) = CHR ''/'' then butlast (api_url E) else api_url E) @ ''/q/'' @ slug"

section \<open>Scans\<close>

text \<open>A code works while it is active and not expired.\<close>

definition qr_works :: "env \<Rightarrow> qr_code \<Rightarrow> bool" where
  "qr_works E c = (qr_active c \<and> (case qr_expires c of None \<Rightarrow> True | Some t \<Rightarrow> \<not> t \<le> now E))"

definition find_active_by_slug :: "env \<Rightarrow> string \<Rightarrow> db \<Rightarrow> qr_code option" where
  "find_active_by_slug E slug s =
     (case find_qr_slug slug s of None \<Rightarrow> None | Some c \<Rightarrow> if qr_works E c then Some c else None)"

text \<open>
  The agent patterns; \<^verbatim>\<open>android.*mobile\<close> is one of \<^verbatim>\<open>mobi\<close>.
\<close>

definition device_type_from_user_agent :: "string option \<Rightarrow> string" where
  "device_type_from_user_agent agent =
     (if \<not> truthy agent then ''unknown''
      else let ua = to_lower (the agent); has = list_ex (\<lambda>p. contains_str p ua)
        in if has [''ipad'', ''tablet'', ''playbook'', ''silk''] then ''tablet''
           else if has [''mobi'', ''iphone'', ''ipod'', ''windows phone''] then ''mobile''
           else if has [''bot'', ''crawler'', ''spider'', ''curl'', ''wget'', ''python'', ''axios'', ''node-fetch'']
           then ''bot'' else ''desktop'')"

text \<open>The headers of a scan, the first of several values.\<close>

record scan_request =
  sq_ip :: "string option"
  sq_agent :: "string option"
  sq_referer :: "string option"
  sq_referrer :: "string option"

definition new_scan :: "env \<Rightarrow> id \<Rightarrow> scan_request \<Rightarrow> qr_scan" where
  "new_scan E i q =
     \<lparr>qs_code = i, qs_at = now E, qs_ip = sq_ip q, qs_user_agent = sq_agent q,
      qs_referer = (case sq_referer q of None \<Rightarrow> sq_referrer q | r \<Rightarrow> r),
      qs_location = geo_lookup E (sq_ip q), qs_device = Some (device_type_from_user_agent (sq_agent q))\<rparr>"

text \<open>
  Best effort: whatever fails on the way (the location lookup, the write) is caught and only logged.
  \<^verbatim>\<open>scan_stored\<close> of the environment says whether anything did.
\<close>

definition record_scan :: "env \<Rightarrow> id \<Rightarrow> scan_request \<Rightarrow> db \<Rightarrow> db" where
  "record_scan E i q s = (if scan_stored E then s\<lparr>qr_scans := qr_scans s @ [new_scan E i q]\<rparr> else s)"

definition resolve_destination :: "env \<Rightarrow> string \<Rightarrow> scan_request \<Rightarrow> db \<Rightarrow> string option \<times> db" where
  "resolve_destination E slug q s =
     (case find_active_by_slug E slug s of
        None \<Rightarrow> (None, s) | Some c \<Rightarrow> (Some (qr_destination c), record_scan E (qr_id c) q s))"

text \<open>The public route: a redirect, or 404 (also for an empty destination).\<close>

definition qr_redirect :: "env \<Rightarrow> string \<Rightarrow> scan_request \<Rightarrow> (db, string) handler" where
  "qr_redirect E slug q s =
     (case resolve_destination E slug q s of
        (d, s') \<Rightarrow> (if truthy d then ok (the d) else throw (NotFound ''This NDYQR code is not available.''), s'))"

section \<open>Statistics\<close>

text \<open>The UTC day of a time; its ISO date is one to one with it.\<close>

definition utc_day :: "time \<Rightarrow> int" where
  "utc_day t = t div days 1"

text \<open>A \<^verbatim>\<open>Map\<close> that counts its keys, in the order of their first occurrence.\<close>

definition tally :: "'a list \<Rightarrow> ('a \<times> nat) list" where
  "tally xs = map (\<lambda>k. (k, count_list xs k)) (first_occurrences xs)"

definition sort_desc :: "('a \<times> nat) list \<Rightarrow> ('a \<times> nat) list" where
  "sort_desc = sort_key (\<lambda>(_, n). - int n)"

record qr_statistics =
  st_total :: nat
  st_by_day :: "(int \<times> nat) list"
  st_devices :: "(string \<times> nat) list"
  st_locations :: "(string \<times> nat) list"

definition statistics_window :: int where
  "statistics_window = 30"

definition recent_scans :: "env \<Rightarrow> id \<Rightarrow> db \<Rightarrow> qr_scan list" where
  "recent_scans E i s =
     filter (\<lambda>x. qs_code x = i \<and> now E - days statistics_window \<le> qs_at x) (qr_scans s)"

definition scans_by_day :: "env \<Rightarrow> qr_scan list \<Rightarrow> (int \<times> nat) list" where
  "scans_by_day E xs =
     map (\<lambda>k. let d = utc_day (now E - days (int k)) in (d, count_rows (\<lambda>x. utc_day (qs_at x) = d) xs)) (rev [0..<30])"

definition qr_analytics :: "env \<Rightarrow> id \<Rightarrow> id \<Rightarrow> db \<Rightarrow> qr_statistics reply" where
  "qr_analytics E uid i s =
     (case get_owned_qr uid i s of
        Inl e \<Rightarrow> throw e
      | Inr _ \<Rightarrow>
          let recent = recent_scans E i s
          in ok \<lparr>st_total = scan_count i s,
                 st_by_day = scans_by_day E recent,
                 st_devices = sort_desc (tally (map (\<lambda>x. or_else (qs_device x) ''unknown'') recent)),
                 st_locations = take 8 (sort_desc (tally (List.map_filter
                   (\<lambda>x. if truthy (qs_location x) then qs_location x else None) recent)))\<rparr>)"

section \<open>The routes\<close>

datatype qr_op =
    CreateQr id qr_dto | CreateForClient string qr_dto | UpdateQr id id qr_update | RemoveQr id id
  | Scan string scan_request

fun qr_step :: "env \<times> qr_op \<Rightarrow> db \<Rightarrow> bool \<times> db" where
  "qr_step (E, CreateQr uid d) s = answered (create_qr E (OfUser uid) d s)"
| "qr_step (E, CreateForClient c d) s = answered (create_qr E (OfClient c) d s)"
| "qr_step (E, UpdateQr uid i d) s = answered (update_qr uid i d s)"
| "qr_step (E, RemoveQr uid i) s = answered (remove_qr uid i s)"
| "qr_step (E, Scan slug q) s = answered (qr_redirect E slug q s)"

fun qr_actor :: "env \<times> qr_op \<Rightarrow> id option" where
  "qr_actor (_, CreateQr uid _) = Some uid"
| "qr_actor (_, UpdateQr uid _ _) = Some uid"
| "qr_actor (_, RemoveQr uid _) = Some uid"
| "qr_actor _ = None"

text \<open>The owner of a code removes it, or edits it.\<close>

fun removes_qr :: "qr_code \<Rightarrow> env \<times> qr_op \<Rightarrow> bool" where
  "removes_qr c (_, RemoveQr uid i) = (i = qr_id c \<and> qr_owner c = Some uid)"
| "removes_qr c _ = False"

fun edits_qr :: "qr_code \<Rightarrow> env \<times> qr_op \<Rightarrow> bool" where
  "edits_qr c (_, UpdateQr uid i _) = (i = qr_id c \<and> qr_owner c = Some uid)"
| "edits_qr c _ = False"

fun scans_of :: "string \<Rightarrow> (env \<times> qr_op) \<times> bool \<Rightarrow> bool" where
  "scans_of slug ((E, Scan t _), redirected) = (redirected \<and> t = slug \<and> scan_stored E)"
| "scans_of slug _ = False"

section \<open>Codes and their short links\<close>

definition qr_ok :: "db \<Rightarrow> bool" where
  "qr_ok s = (unique_on qr_id (qr_codes s) \<and> unique_on qr_slug (qr_codes s))"

definition same_code :: "qr_code \<Rightarrow> qr_code \<Rightarrow> bool" where
  "same_code c c' =
     (qr_id c' = qr_id c \<and> qr_slug c' = qr_slug c \<and> qr_owner c' = qr_owner c \<and> qr_client c' = qr_client c)"

lemma same_code_refl [simp]: "same_code c c"
  by (simp add: same_code_def)

lemma same_code_update [simp]: "same_code c (apply_qr_update d c)"
  by (simp add: same_code_def apply_qr_update_def)

lemma same_code_fields:
  "qr_id (apply_qr_update d c) = qr_id c" "qr_slug (apply_qr_update d c) = qr_slug c"
  by (simp_all add: apply_qr_update_def)

lemma draw_slug_free: "draw_slug E n k s = Some t \<Longrightarrow> t \<notin> qr_slug ` set (qr_codes s)"
  by (induction E n k s rule: draw_slug.induct)
    (auto simp: find_qr_slug_def find_row_None_iff split: if_splits)

lemma generate_slug_free: "generate_unique_slug E s = Inr t \<Longrightarrow> t \<notin> qr_slug ` set (qr_codes s)"
  by (auto simp: generate_unique_slug_def draw_slug_free split: option.splits)

lemma create_qr_table:
  "snd (create_qr E owner d s) = s \<or>
   (\<exists>c. qr_codes (snd (create_qr E owner d s)) = qr_codes s @ [c] \<and>
      qr_id c \<notin> qr_id ` set (qr_codes s) \<and> qr_slug c \<notin> qr_slug ` set (qr_codes s) \<and>
      qr_scans (snd (create_qr E owner d s)) = qr_scans s)"
proof (cases "generate_unique_slug E s")
  case (Inr t)
  have "qr_slug (new_qr E t owner d) = t" by (simp add: new_qr_def)
  then show ?thesis
    using generate_slug_free [OF Inr] by (simp add: create_qr_def Inr Let_def image_iff) auto
qed (simp add: create_qr_def)

text \<open>The four things a step can do to the table of codes.\<close>

lemma qr_step_cases:
  obtains (same) "qr_codes (snd (qr_step (E, a) s)) = qr_codes s"
  | (new) c where "qr_codes (snd (qr_step (E, a) s)) = qr_codes s @ [c]"
      "qr_id c \<notin> qr_id ` set (qr_codes s)" "qr_slug c \<notin> qr_slug ` set (qr_codes s)"
      "qr_scans (snd (qr_step (E, a) s)) = qr_scans s"
  | (edit) uid i d c where "a = UpdateQr uid i d" "get_owned_qr uid i s = Inr c"
      "qr_codes (snd (qr_step (E, a) s)) = update_rows (\<lambda>x. qr_id x = i) (apply_qr_update d) (qr_codes s)"
  | (removed) uid i c where "a = RemoveQr uid i" "get_owned_qr uid i s = Inr c"
      "qr_codes (snd (qr_step (E, a) s)) = delete_rows (\<lambda>x. qr_id x = i) (qr_codes s)"
proof (cases a)
  case (CreateQr uid d)
  then show thesis using create_qr_table [of E "OfUser uid" d s] that(1,2) by auto
next
  case (CreateForClient c d)
  then show thesis using create_qr_table [of E "OfClient c" d s] that(1,2) by auto
next
  case (UpdateQr uid i d)
  have "snd (update_qr uid i d s) = s \<or>
    (\<exists>c. get_owned_qr uid i s = Inr c \<and> qr_codes (snd (update_qr uid i d s)) =
       update_rows (\<lambda>x. qr_id x = i) (apply_qr_update d) (qr_codes s))"
    by (simp add: update_qr_def split: sum.split)
  then show thesis using that(1,3) UpdateQr by auto
next
  case (RemoveQr uid i)
  have "snd (remove_qr uid i s) = s \<or>
    (\<exists>c. get_owned_qr uid i s = Inr c \<and> qr_codes (snd (remove_qr uid i s)) =
       delete_rows (\<lambda>x. qr_id x = i) (qr_codes s))"
    by (simp add: remove_qr_def split: sum.split)
  then show thesis using that(1,4) RemoveQr by auto
next
  case (Scan slug q)
  have "qr_codes (snd (qr_redirect E slug q s)) = qr_codes s"
    by (simp add: qr_redirect_def resolve_destination_def record_scan_def split: option.split)
  then show thesis using that(1) Scan by simp
qed

lemma qr_step_ok: "qr_ok s \<Longrightarrow> qr_ok (snd (qr_step a s))"
proof (cases a)
  case (Pair E op)
  assume "qr_ok s"
  then show ?thesis
    unfolding Pair
    by (rule_tac qr_step_cases [of E op s])
      (auto simp: qr_ok_def same_code_fields)
qed

interpretation qr: invariant_system qr_step qr_ok
  by unfold_locales (rule qr_step_ok)

lemma get_owned_qr_D: "get_owned_qr uid i s = Inr c \<Longrightarrow> find_qr i s = Some c \<and> qr_owner c = Some uid"
  by (auto simp: get_owned_qr_def split: option.splits if_splits)

lemma find_qr_D: "find_qr i s = Some c \<Longrightarrow> c \<in> set (qr_codes s) \<and> qr_id c = i"
  using find_row_Some_D [of "\<lambda>c. qr_id c = i"] by (auto simp: find_qr_def)

text \<open>A code no step of its owner removes stays, and stays as it is unless its owner edits it.\<close>

lemma qr_step_keeps:
  assumes "find_qr (qr_id c) s = Some c" and "\<not> removes_qr c a"
  shows "\<exists>c'. find_qr (qr_id c) (snd (qr_step a s)) = Some c' \<and> same_code c c' \<and> (\<not> edits_qr c a \<longrightarrow> c' = c)"
proof (cases a)
  case (Pair E op)
  show ?thesis
  proof (cases rule: qr_step_cases [of E op s])
    case same
    then show ?thesis using assms by (simp add: Pair find_qr_def)
  next
    case (new d)
    then show ?thesis using assms by (simp add: Pair find_qr_def table_simps)
  next
    case (edit uid i d c0)
    have "find_qr (qr_id c) (snd (qr_step a s)) = Some (if qr_id c = i then apply_qr_update d c else c)"
      using assms(1) edit(3) by (simp add: Pair find_qr_def find_row_update_keep same_code_fields)
    moreover have "edits_qr c a" if "qr_id c = i"
      using get_owned_qr_D [OF edit(2)] assms(1) that edit(1) by (simp add: Pair)
    ultimately show ?thesis by auto
  next
    case (removed uid i c0)
    have "qr_id c \<noteq> i"
      using get_owned_qr_D [OF removed(2)] assms removed(1) by (auto simp: Pair)
    then have "find_qr (qr_id c) (snd (qr_step a s)) = find_qr (qr_id c) s"
      using removed(3) by (simp add: Pair find_qr_def find_row_delete_keep)
    then show ?thesis using assms(1) by auto
  qed
qed

lemma same_code_ops:
  "same_code c c' \<Longrightarrow> removes_qr c' a = removes_qr c a" "same_code c c' \<Longrightarrow> edits_qr c' a = edits_qr c a"
  by (cases a; cases "snd a"; simp add: same_code_def)+

lemma qr_run_keeps:
  assumes "find_qr (qr_id c) s = Some c" and "\<forall>a \<in> set ops. \<not> removes_qr c a"
  shows "\<exists>c'. find_qr (qr_id c) (run_ops qr_step ops s) = Some c' \<and> same_code c c' \<and>
    ((\<forall>a \<in> set ops. \<not> edits_qr c a) \<longrightarrow> c' = c)"
  using assms
proof (induction ops arbitrary: s c)
  case (Cons a ops)
  then obtain c1 where c1: "find_qr (qr_id c) (snd (qr_step a s)) = Some c1" "same_code c c1"
    "\<not> edits_qr c a \<longrightarrow> c1 = c"
    using qr_step_keeps [of c s a] by auto
  have "qr_id c1 = qr_id c" using c1(2) by (simp add: same_code_def)
  with Cons.IH [of c1 "snd (qr_step a s)"] Cons.prems(2) c1(1) obtain c2
    where "find_qr (qr_id c) (run_ops qr_step ops (snd (qr_step a s))) = Some c2" "same_code c1 c2"
      "(\<forall>a \<in> set ops. \<not> edits_qr c1 a) \<longrightarrow> c2 = c1"
    by (auto simp: same_code_ops [OF c1(2)])
  then show ?case using c1 by (auto simp: same_code_def same_code_ops [OF c1(2)])
qed simp

lemma find_qr_slug_of:
  "qr_ok s \<Longrightarrow> find_qr i s = Some c \<Longrightarrow> find_qr_slug (qr_slug c) s = Some c"
  unfolding qr_ok_def find_qr_slug_def using find_qr_D [of i s c]
  by (auto simp: unique_on_def intro: find_row_unique)

text \<open>
  C31. A printed code stays valid: whatever accounts, products and scanners do, until its own owner
  removes it a code keeps its owner and its slug, and the slug leads to it. Nobody but the owner
  changes anything about it; the code of a product changes never.
\<close>

theorem printed_codes_stay_valid:
  assumes "qr_ok s" and "find_qr i s = Some c" and "list_all (\<lambda>a. \<not> removes_qr c a) ops"
  defines "t \<equiv> run_ops qr_step ops s"
  shows "\<exists>c'. find_qr i t = Some c' \<and> find_qr_slug (qr_slug c) t = Some c' \<and> same_code c c' \<and>
    (list_all (\<lambda>a. \<not> edits_qr c a) ops \<or> qr_owner c = None \<longrightarrow> c' = c)"
proof -
  have i: "qr_id c = i" using find_qr_D [OF assms(2)] by simp
  obtain c' where c': "find_qr i t = Some c'" "same_code c c'" "(\<forall>a \<in> set ops. \<not> edits_qr c a) \<longrightarrow> c' = c"
    using qr_run_keeps [of c s ops] assms(2,3) i unfolding t_def by (auto simp: list_all_iff)
  moreover have "find_qr_slug (qr_slug c) t = Some c'"
    using find_qr_slug_of [OF _ c'(1)] qr.run_inv [OF assms(1)] c'(2) by (simp add: t_def same_code_def)
  moreover have "\<not> edits_qr c a" if "qr_owner c = None" for a
    using that by (cases a; cases "snd a") simp_all
  ultimately show ?thesis by (auto simp: list_all_iff)
qed

section \<open>Scans are counted\<close>

text \<open>The destination of a code is never empty, which the checks of \<^verbatim>\<open>dto/ndyqr.dto.ts\<close> see to.\<close>

definition links :: "db \<Rightarrow> bool" where
  "links s = (\<forall>c \<in> set (qr_codes s). qr_destination c \<noteq> [])"

fun keeps_links :: "env \<times> qr_op \<Rightarrow> bool" where
  "keeps_links (_, CreateQr _ d) = (qd_destination d \<noteq> [])"
| "keeps_links (_, CreateForClient _ d) = (qd_destination d \<noteq> [])"
| "keeps_links (_, UpdateQr _ _ d) = (qu_destination d \<noteq> Some (Some []))"
| "keeps_links _ = True"

lemma required_kept: "x \<noteq> Some (Some []) \<Longrightarrow> y \<noteq> [] \<Longrightarrow> required x y \<noteq> []"
  by (auto simp: required_def split: option.split)

lemma qr_step_links:
  assumes "links s" and "keeps_links a"
  shows "links (snd (qr_step a s))"
proof (cases a)
  case (Pair E op)
  show ?thesis
  proof (cases op)
    case (UpdateQr uid i d)
    then show ?thesis
      using assms by (auto simp: Pair links_def update_qr_def apply_qr_update_def required_kept split: sum.split)
  next
    case (RemoveQr uid i)
    then show ?thesis using assms by (auto simp: Pair links_def remove_qr_def split: sum.split)
  next
    case (Scan slug q)
    then show ?thesis
      using assms
      by (auto simp: Pair links_def qr_redirect_def resolve_destination_def record_scan_def split: option.split)
  qed (use assms in \<open>auto simp: Pair links_def create_qr_def new_qr_def Let_def split: sum.split\<close>)
qed

lemma redirect_counts:
  assumes "qr_ok s" and "links s" and "find_qr i s = Some c"
  shows "scan_count i (snd (qr_redirect E slug q s)) =
    scan_count i s + (if accepted_reply (fst (qr_redirect E slug q s)) \<and> slug = qr_slug c \<and> scan_stored E then 1 else 0)"
proof (cases "find_active_by_slug E slug s")
  case None
  then show ?thesis by (simp add: qr_redirect_def resolve_destination_def)
next
  case (Some d)
  then have d: "d \<in> set (qr_codes s)" "qr_slug d = slug"
    using find_row_Some_D [of "\<lambda>c. qr_slug c = slug" "qr_codes s"]
    by (auto simp: find_active_by_slug_def find_qr_slug_def split: option.splits if_splits)
  have "qr_id d = i \<longleftrightarrow> slug = qr_slug c"
    using d find_qr_D [OF assms(3)] assms(1) unfolding qr_ok_def by (metis unique_onD)
  then show ?thesis
    using Some d assms(2)
    by (auto simp: qr_redirect_def resolve_destination_def record_scan_def new_scan_def scan_count_def links_def)
qed

lemma qr_step_scans:
  assumes "qr_ok s" and "links s" and "find_qr i s = Some c" and "\<not> removes_qr c a"
  shows "scan_count i (snd (qr_step a s)) =
    scan_count i s + (if scans_of (qr_slug c) (a, fst (qr_step a s)) then 1 else 0)"
proof (cases a)
  case (Pair E op)
  show ?thesis
  proof (cases op)
    case (UpdateQr uid j d)
    then show ?thesis by (simp add: Pair scan_count_def update_qr_def split: sum.split)
  next
    case (RemoveQr uid j)
    have "j \<noteq> i" if "get_owned_qr uid j s = Inr c0" for c0
      using get_owned_qr_D [OF that] assms(3,4) find_qr_D [OF assms(3)] by (auto simp: Pair RemoveQr)
    then show ?thesis
      using RemoveQr
      by (auto simp: Pair scan_count_def remove_qr_def split: sum.split intro!: arg_cong [where f = "\<lambda>P. count_rows P _"])
  next
    case (Scan slug q)
    then show ?thesis using redirect_counts [OF assms(1,2,3)] by (simp add: Pair)
  qed (use create_qr_table in \<open>auto simp: Pair scan_count_def create_qr_def Let_def split: sum.split\<close>)
qed

lemma record_never_matters:
  "fst (qr_redirect (E\<lparr>scan_stored := b\<rparr>) slug q s) = fst (qr_redirect (E\<lparr>scan_stored := b'\<rparr>) slug q s)"
proof -
  have "find_active_by_slug (E\<lparr>scan_stored := c\<rparr>) slug s = find_active_by_slug E slug s" for c
  proof -
    have "qr_works (E\<lparr>scan_stored := c\<rparr>) = qr_works E" by (simp add: qr_works_def fun_eq_iff split: option.split)
    then show ?thesis unfolding find_active_by_slug_def by (rule ssubst) (rule refl)
  qed
  then show ?thesis
    by (cases "find_active_by_slug E slug s") (simp_all add: qr_redirect_def resolve_destination_def)
qed

lemma run_scans:
  assumes "qr_ok s" and "links s" and "find_qr i s = Some c"
    and "list_all (\<lambda>a. \<not> removes_qr c a \<and> keeps_links a) ops"
  shows "scan_count i (run_ops qr_step ops s) =
    scan_count i s + count_rows (scans_of (qr_slug c)) (run_log qr_step ops s)"
  using assms
proof (induction ops arbitrary: s c)
  case (Cons a ops)
  obtain E op where a: "a = (E, op)" by (cases a)
  have i: "qr_id c = i" using find_qr_D [OF Cons.prems(3)] by simp
  from qr_step_keeps [of c s a] Cons.prems(3,4) i obtain c1
    where c1: "find_qr i (snd (qr_step a s)) = Some c1" "same_code c c1" by auto
  then have "scan_count i (run_ops qr_step ops (snd (qr_step a s))) =
      scan_count i (snd (qr_step a s)) + count_rows (scans_of (qr_slug c)) (run_log qr_step ops (snd (qr_step a s)))"
    using Cons.IH [OF qr_step_ok [OF Cons.prems(1)] qr_step_links [OF Cons.prems(2)] c1(1)] Cons.prems(4)
    by (simp add: same_code_ops [OF c1(2)] same_code_def)
  then show ?case
    using qr_step_scans [OF Cons.prems(1,2,3), of a] Cons.prems(4) by simp
qed simp

text \<open>
  C32. The scan total an owner sees: it grows by one for each scan of the printed link that was
  redirected and whose best-effort record was stored, and by nothing else (not by the scans of other
  codes, refused scans, edits, or the removal of other codes); and whether a scan can be recorded
  makes no difference to where it is sent.
\<close>

theorem scans_are_counted:
  assumes "qr_ok s" and "links s" and "find_qr i s = Some c"
    and "list_all (\<lambda>a. \<not> removes_qr c a \<and> keeps_links a) ops"
  shows "scan_count i (run_ops qr_step ops s) =
    scan_count i s + count_rows (scans_of (qr_slug c)) (run_log qr_step ops s) \<and>
    fst (qr_redirect (E\<lparr>scan_stored := False\<rparr>) slug q s) = fst (qr_redirect (E\<lparr>scan_stored := True\<rparr>) slug q s)"
  by (intro conjI run_scans [OF assms] record_never_matters)

section \<open>Statistics add up\<close>

lemma tally_total: "sum_list (map snd (tally xs)) = length xs"
proof -
  have "sum_list (map snd (tally xs)) = (\<Sum>k \<in> set xs. count_list xs k)"
    unfolding tally_def map_map o_def snd_conv
    using sum_list_distinct_conv_sum_set [OF first_occurrences(2) [of xs]] by simp
  also have "\<dots> = length xs" by (rule sum_count_set) simp_all
  finally show ?thesis .
qed

lemma sort_desc_total: "sum_list (map snd (sort_desc xs)) = sum_list (map snd xs)"
proof -
  have "mset (map snd (sort_desc xs)) = mset (map snd xs)" by (simp only: sort_desc_def mset_map mset_sort)
  then show ?thesis by (metis sum_mset_sum_list)
qed

text \<open>The devices of the statistics account for every scan of the window.\<close>

lemma devices_add_up:
  assumes "qr_analytics E uid i s = Inr st"
  shows "sum_list (map snd (st_devices st)) = length (recent_scans E i s)" and
    "st_total st = scan_count i s" and "length (recent_scans E i s) \<le> st_total st"
proof -
  have "length (recent_scans E i s) \<le> scan_count i s"
    unfolding recent_scans_def scan_count_def count_rows_def
    by (metis (no_types, lifting) count_rows_def count_rows_mono)
  with assms show "sum_list (map snd (st_devices st)) = length (recent_scans E i s)"
    and "st_total st = scan_count i s" and "length (recent_scans E i s) \<le> st_total st"
    by (auto simp: qr_analytics_def Let_def sort_desc_total tally_total split: sum.splits)
qed

section \<open>What goes wrong\<close>

definition demo_code :: "id \<Rightarrow> string \<Rightarrow> id option \<Rightarrow> qr_code" where
  "demo_code i slug owner =
     \<lparr>qr_id = i, qr_slug = slug, qr_owner = owner, qr_client = (if owner = None then Some ''shop'' else None),
      qr_label = ''flyer'', qr_type = LINK, qr_destination = ''https://x.y'', qr_campaign = None, qr_active = True,
      qr_expires = None, qr_style = default_brand_style, qr_color_from = None, qr_color_to = None, qr_logo = None,
      qr_created_at = 0\<rparr>"

definition qr_demo :: db where
  "qr_demo = demo_db\<lparr>qr_codes := [demo_code ''q1'' ''abcd2345'' (Some ''m1''), demo_code ''q2'' ''wxyz6789'' None]\<rparr>"

definition no_qr_change :: qr_update where
  "no_qr_change = \<lparr>qu_label = None, qu_destination = None, qu_type = None, qu_campaign = None, qu_active = None,
     qu_until = None, qu_style = None, qu_from = None, qu_to = None, qu_logo = None\<rparr>"

definition a_scan :: scan_request where
  "a_scan = \<lparr>sq_ip = None, sq_agent = Some ''Mozilla iPhone'', sq_referer = None, sq_referrer = None\<rparr>"

text \<open>Clearing the expiry date of a code that works makes it expire at once.\<close>

lemma cleared_expiry_expires:
  "succeeds (qr_redirect (demo_env 5) ''abcd2345'' a_scan qr_demo) \<and>
   (let s = snd (update_qr ''m1'' ''q1'' (no_qr_change\<lparr>qu_until := Some None\<rparr>) qr_demo)
    in map qr_expires (qr_codes s) = [Some 0, None] \<and> \<not> succeeds (qr_redirect (demo_env 5) ''abcd2345'' a_scan s))"
  by code_simp

text \<open>Nobody can edit, remove or analyse the code of a product.\<close>

lemma product_codes_are_frozen:
  assumes "find_qr i s = Some c" and "qr_owner c = None"
  shows "update_qr uid i d s = (throw (NotFound ''No QR code with that id.''), s) \<and>
    remove_qr uid i s = (throw (NotFound ''No QR code with that id.''), s) \<and>
    qr_analytics E uid i s = throw (NotFound ''No QR code with that id.'')"
  using assms by (simp add: get_owned_qr_def update_qr_def remove_qr_def qr_analytics_def)

section \<open>Examples\<close>

definition qr_demo_run :: "(env \<times> qr_op) list" where
  "qr_demo_run =
     [(demo_env 1, Scan ''abcd2345'' a_scan),
      (demo_env 2, UpdateQr ''m1'' ''q1'' (no_qr_change\<lparr>qu_destination := Some (Some ''https://z'')\<rparr>)),
      (demo_env 3, RemoveQr ''a1'' ''q1''), (demo_env 4, Scan ''wxyz6789'' a_scan),
      (demo_env 4, Scan ''unknown'' a_scan), (demo_env 5, Scan ''abcd2345'' a_scan),
      ((demo_env 6)\<lparr>scan_stored := False\<rparr>, Scan ''abcd2345'' a_scan)]"

theorem printed_codes_stay_valid_witness:
  "\<exists>c'. find_qr_slug ''abcd2345'' (run_ops qr_step qr_demo_run qr_demo) = Some c' \<and> qr_owner c' = Some ''m1''"
proof -
  have ok: "qr_ok qr_demo" and c: "find_qr ''q1'' qr_demo = Some (demo_code ''q1'' ''abcd2345'' (Some ''m1''))"
    and r: "list_all (\<lambda>a. \<not> removes_qr (demo_code ''q1'' ''abcd2345'' (Some ''m1'')) a) qr_demo_run"
    by code_simp+
  show ?thesis
    using printed_codes_stay_valid [OF ok c r] by (auto simp: same_code_def demo_code_def)
qed

theorem scans_are_counted_witness:
  "scan_count ''q1'' (run_ops qr_step qr_demo_run qr_demo) = 2"
proof -
  let ?c = "demo_code ''q1'' ''abcd2345'' (Some ''m1'')"
  have ok: "qr_ok qr_demo" and l: "links qr_demo" and c: "find_qr ''q1'' qr_demo = Some ?c"
    and r: "list_all (\<lambda>a. \<not> removes_qr ?c a \<and> keeps_links a) qr_demo_run"
    and n: "scan_count ''q1'' qr_demo = 0" "count_rows (scans_of (qr_slug ?c)) (run_log qr_step qr_demo_run qr_demo) = 2"
    by code_simp+
  show ?thesis using scans_are_counted [OF ok l c r] n by simp
qed

end
