(* ===== verification/AuthRoutes.thy ===== *)
theory AuthRoutes
  imports SignIn LoginRequests
begin

text \<open>
  The routes of \<^verbatim>\<open>auth/auth.controller.ts\<close> over the services: who may call them, what they pass on, and
  the session cookies of \<^verbatim>\<open>auth/session-cookie.interceptor.ts\<close>.
\<close>

section \<open>Requests\<close>

record http_request =
  hq_access :: "string option"
  hq_refresh :: "string option"
  hq_authorization :: "string option"
  hq_ip :: "string option"
  hq_agent :: "string option"
  hq_device :: "string option"

definition session_meta_of :: "http_request \<Rightarrow> session_meta" where
  "session_meta_of q = \<lparr>sm_user_agent = hq_agent q, sm_ip = hq_ip q, sm_device_id = hq_device q\<rparr>"

text \<open>An uploaded photo: its MIME type, its size, and where the storage put it.\<close>

record upload =
  up_mime :: string
  up_size :: int
  up_url :: string

definition max_photo_size :: int where
  "max_photo_size = 5 * 1024 * 1024"

definition allowed_photo_types :: "string list" where
  "allowed_photo_types = [''image/jpeg'', ''image/png'', ''image/webp'']"

text \<open>The routes without a guard, and those behind \<^verbatim>\<open>JwtAuthGuard\<close>.\<close>

datatype public_call =
    PostRegister string string profile_fields
  | PostLogin string string
  | PostRefresh "string option"
  | PostLogout "string option"
  | PostLoginRequest login_request_method "string option" "string option"
  | GetLoginRequest string
  | PostExchangeRequest string
  | GetDeviceApproval id
  | PostConfirmEmail string string
  | PostResendByEmail string
  | PostForgotPassword string
  | PostResetPassword string string string
  | PostResetResend string
  | PostVerify2fa string string
  | PostSendSms string
  | PostPasskeyLoginOptions
  | PostPasskeyLogin passkey_login_dto
  | GetProviders
  | GetOAuthStart string "string option"
  | GetGoogleCallback "string option" "string option" "string option"
  | PostAppleCallback apple_callback_dto
  | PostOAuthExchange string

datatype member_call =
    PostApproveRequest string
  | PostDenyRequest string
  | PostApproveDevice id string
  | PostDenyDevice id
  | GetMe
  | PatchMe profile_fields
  | PostPhoto "upload option"
  | PostChangePassword string string
  | PostResendVerification
  | PostTotpSetup
  | PostTotpEnable string
  | PostTotpDisable string string
  | PostSmsSetup string
  | PostSmsEnable string string
  | PostSmsDisable string
  | GetPasskeys
  | DeletePasskey id
  | PostPasskeyOptions
  | PostPasskeyVerify register_dto
  | PostOAuthConnect string "string option"
  | GetConnectedAccounts
  | DeleteConnectedAccount id

datatype auth_call = PublicCall public_call | MemberCall member_call

text \<open>\<^verbatim>\<open>BRUTE_FORCE_GUARD\<close>: five requests a minute and address; the others have the 100 of the app.\<close>

fun attempts_per_minute :: "auth_call \<Rightarrow> nat" where
  "attempts_per_minute (PublicCall (PostRegister _ _ _)) = 5"
| "attempts_per_minute (PublicCall (PostLogin _ _)) = 5"
| "attempts_per_minute (PublicCall (PostConfirmEmail _ _)) = 5"
| "attempts_per_minute (PublicCall (PostResendByEmail _)) = 5"
| "attempts_per_minute (PublicCall (PostForgotPassword _)) = 5"
| "attempts_per_minute (PublicCall (PostResetPassword _ _ _)) = 5"
| "attempts_per_minute (PublicCall (PostResetResend _)) = 5"
| "attempts_per_minute (PublicCall (PostVerify2fa _ _)) = 5"
| "attempts_per_minute (PublicCall (PostSendSms _)) = 5"
| "attempts_per_minute (PublicCall (PostPasskeyLogin _)) = 5"
| "attempts_per_minute (PublicCall (PostOAuthExchange _)) = 5"
| "attempts_per_minute (MemberCall (PostChangePassword _ _)) = 5"
| "attempts_per_minute _ = 100"

section \<open>Replies\<close>

datatype auth_body =
    AuthBody auth_reply
  | SessionBody issued_session
  | LoginRequestBody login_request
  | ApprovalBody device_approval
  | MeBody me_view
  | ProfileBody "string \<times> string \<times> passport \<times> bool \<times> bool"
  | UrlBody string
  | ExpiryBody int
  | TotpBody "string \<times> string"
  | CodesBody "string list"
  | PasskeysBody "passkey_summary list"
  | PasskeyBody passkey_summary
  | OptionsBody "registration_options \<times> id"
  | LoginOptionsBody "(string \<times> string) \<times> id"
  | ProvidersBody "bool \<times> bool"
  | RedirectBody redirect_url
  | AccountsBody "(id \<times> auth_provider \<times> string option \<times> time) list"
  | NoBody

datatype route_error = Thrown http_error | UnsupportedMediaType string | FileTooLarge

datatype session_cookie = AccessCookie | RefreshCookie

fun cookie_name :: "session_cookie \<Rightarrow> string" where
  "cookie_name AccessCookie = ''ndyhub_access_token''"
| "cookie_name RefreshCookie = ''ndyhub_refresh_token''"

fun cookie_max_age :: "session_cookie \<Rightarrow> time" where
  "cookie_max_age AccessCookie = 15 * 60 * 1000"
| "cookie_max_age RefreshCookie = 30 * 24 * 60 * 60 * 1000"

record cookie_options =
  co_http_only :: bool
  co_secure :: bool
  co_same_site :: string
  co_path :: string
  co_max_age :: time

text \<open>What the deployment fixes: whether it runs on Vercel, and the client ids at the providers.\<close>

record server_config =
  cf_vercel :: bool
  cf_client :: "auth_provider \<Rightarrow> string"

definition session_cookie_options :: "server_config \<Rightarrow> time \<Rightarrow> cookie_options" where
  "session_cookie_options cf age =
     \<lparr>co_http_only = True, co_secure = cf_vercel cf, co_same_site = ''lax'', co_path = ''/'', co_max_age = age\<rparr>"

datatype cookie_change = SetCookie session_cookie string cookie_options | ClearCookie session_cookie

fun is_issued_session :: "auth_body \<Rightarrow> issued_session option" where
  "is_issued_session (AuthBody (SessionIssued t)) = Some t"
| "is_issued_session (SessionBody t) = Some t"
| "is_issued_session _ = None"

definition issued_cookies :: "server_config \<Rightarrow> auth_body \<Rightarrow> cookie_change list" where
  "issued_cookies cf b =
     (case is_issued_session b of
        None \<Rightarrow> []
      | Some t \<Rightarrow>
          [SetCookie AccessCookie (is_access t) (session_cookie_options cf (cookie_max_age AccessCookie)),
           SetCookie RefreshCookie (is_refresh t) (session_cookie_options cf (cookie_max_age RefreshCookie))])"

type_synonym route_result = "(route_error + auth_body) \<times> cookie_change list"

definition route_body :: "('a \<Rightarrow> auth_body) \<Rightarrow> 'a reply \<times> db \<Rightarrow> (route_error + auth_body) \<times> db" where
  "route_body f r = (map_sum Thrown f (fst r), snd r)"

definition route_reads :: "('a \<Rightarrow> auth_body) \<Rightarrow> 'a reply \<Rightarrow> db \<Rightarrow> (route_error + auth_body) \<times> db" where
  "route_reads f r s = (map_sum Thrown f r, s)"

definition route_redirect :: "redirect_url \<times> db \<Rightarrow> (route_error + auth_body) \<times> db" where
  "route_redirect r = (Inr (RedirectBody (fst r)), snd r)"

section \<open>The routes\<close>

definition post_send_sms :: "env \<Rightarrow> string \<Rightarrow> db \<Rightarrow> unit reply" where
  "post_send_sms E token s =
     (case resolve_user_id_for_challenge E token s of
        Inl e \<Rightarrow> throw e | Inr uid \<Rightarrow> send_challenge_code E uid s)"

definition get_oauth_start ::
  "env \<Rightarrow> server_config \<Rightarrow> string \<Rightarrow> string option \<Rightarrow> (db, redirect_url) handler" where
  "get_oauth_start E cf p to s =
     (case normalize_provider p of
        Inl e \<Rightarrow> (throw e, s) | Inr provider \<Rightarrow> begin_auth E (cf_client cf provider) provider to s)"

definition post_oauth_connect ::
  "env \<Rightarrow> server_config \<Rightarrow> id \<Rightarrow> string \<Rightarrow> string option \<Rightarrow> (db, redirect_url) handler" where
  "post_oauth_connect E cf uid p to s =
     (case normalize_provider p of
        Inl e \<Rightarrow> (throw e, s) | Inr provider \<Rightarrow> begin_link E (cf_client cf provider) uid provider to s)"

text \<open>The file filter, the size limit, then the handler.\<close>

definition upload_photo :: "id \<Rightarrow> upload option \<Rightarrow> db \<Rightarrow> (route_error + auth_body) \<times> db" where
  "upload_photo uid file s =
     (case file of
        None \<Rightarrow> (Inl (Thrown (BadRequest ''No photo file was uploaded.'')), s)
      | Some f \<Rightarrow>
          if up_mime f \<notin> set allowed_photo_types
          then (Inl (UnsupportedMediaType ''Only JPEG, PNG, and WebP images are allowed.''), s)
          else if max_photo_size < up_size f then (Inl FileTooLarge, s)
          else route_body UrlBody (update_profile_photo uid (up_url f) s))"

fun public_route ::
  "env \<Rightarrow> server_config \<Rightarrow> http_request \<Rightarrow> public_call \<Rightarrow> db \<Rightarrow> (route_error + auth_body) \<times> db" where
  "public_route E cf q (PostRegister e p f) s = route_body AuthBody (register E e p f (session_meta_of q) s)"
| "public_route E cf q (PostLogin e p) s = route_body AuthBody (login E e p (session_meta_of q) s)"
| "public_route E cf q (PostRefresh t) s = route_body SessionBody (refresh E (hq_refresh q) t (session_meta_of q) s)"
| "public_route E cf q (PostLogout t) s = (Inr NoBody, logout E (hq_refresh q) t s)"
| "public_route E cf q (PostLoginRequest m d b) s = route_body LoginRequestBody (create_login_request E m d b (hq_ip q) s)"
| "public_route E cf q (GetLoginRequest t) s = route_body LoginRequestBody (get_login_request_status E t s)"
| "public_route E cf q (PostExchangeRequest t) s = route_body SessionBody (exchange_login_request E t (session_meta_of q) s)"
| "public_route E cf q (GetDeviceApproval i) s = route_body ApprovalBody (device_approval_status_of E i s)"
| "public_route E cf q (PostConfirmEmail e c) s = route_body SessionBody (confirm_email_verification E e c (session_meta_of q) s)"
| "public_route E cf q (PostResendByEmail e) s = route_body ExpiryBody (request_email_verification_by_email E e s)"
| "public_route E cf q (PostForgotPassword e) s = route_body ExpiryBody (forgot_password E e s)"
| "public_route E cf q (PostResetPassword e c n) s = route_body (\<lambda>_. NoBody) (reset_password E e c n s)"
| "public_route E cf q (PostResetResend e) s = route_body ExpiryBody (resend_password_reset_code E e s)"
| "public_route E cf q (PostVerify2fa t c) s = route_body SessionBody (verify_challenge E t c (session_meta_of q) s)"
| "public_route E cf q (PostSendSms t) s = route_reads (\<lambda>_. NoBody) (post_send_sms E t s) s"
| "public_route E cf q PostPasskeyLoginOptions s = route_body LoginOptionsBody (begin_authentication E ''ndyhub'' s)"
| "public_route E cf q (PostPasskeyLogin d) s = route_body SessionBody (verify_authentication E d (session_meta_of q) ''ndyhub'' s)"
| "public_route E cf q GetProviders s = (Inr (ProvidersBody (get_provider_status E)), s)"
| "public_route E cf q (GetOAuthStart p to) s = route_body RedirectBody (get_oauth_start E cf p to s)"
| "public_route E cf q (GetGoogleCallback c st e) s = route_redirect (handle_google_callback E c st e s)"
| "public_route E cf q (PostAppleCallback d) s = route_redirect (handle_apple_callback E d s)"
| "public_route E cf q (PostOAuthExchange c) s = route_body SessionBody (exchange_login_code E c (session_meta_of q) s)"

fun member_route :: "env \<Rightarrow> server_config \<Rightarrow> id \<Rightarrow> member_call \<Rightarrow> db \<Rightarrow> (route_error + auth_body) \<times> db" where
  "member_route E cf u (PostApproveRequest t) s = route_body LoginRequestBody (approve_login_request E t u s)"
| "member_route E cf u (PostDenyRequest t) s = route_body LoginRequestBody (deny_login_request E t s)"
| "member_route E cf u (PostApproveDevice i c) s = route_body ApprovalBody (approve_device E i u c s)"
| "member_route E cf u (PostDenyDevice i) s = route_body ApprovalBody (deny_device E i u s)"
| "member_route E cf u GetMe s = route_reads MeBody (get_me u s) s"
| "member_route E cf u (PatchMe f) s = route_body ProfileBody (update_own_profile u f s)"
| "member_route E cf u (PostPhoto f) s = upload_photo u f s"
| "member_route E cf u (PostChangePassword c n) s = route_body (\<lambda>_. NoBody) (change_password E u c n s)"
| "member_route E cf u PostResendVerification s = route_body (\<lambda>_. NoBody) (request_email_verification E u s)"
| "member_route E cf u PostTotpSetup s = route_body TotpBody (begin_totp_setup E u s)"
| "member_route E cf u (PostTotpEnable c) s = route_body CodesBody (confirm_totp_setup E u c s)"
| "member_route E cf u (PostTotpDisable p c) s = route_body (\<lambda>_. NoBody) (disable_totp E u p c s)"
| "member_route E cf u (PostSmsSetup p) s = route_body (\<lambda>_. NoBody) (begin_sms_setup E u p s)"
| "member_route E cf u (PostSmsEnable p c) s = route_body (\<lambda>_. NoBody) (confirm_sms_setup E u p c s)"
| "member_route E cf u (PostSmsDisable p) s = route_body (\<lambda>_. NoBody) (disable_sms E u p s)"
| "member_route E cf u GetPasskeys s = route_reads PasskeysBody (list_passkeys E u ''ndyhub'' s) s"
| "member_route E cf u (DeletePasskey i) s = route_body (\<lambda>_. NoBody) (remove_passkey E u i s)"
| "member_route E cf u PostPasskeyOptions s = route_body OptionsBody (begin_registration E u ''ndyhub'' s)"
| "member_route E cf u (PostPasskeyVerify d) s = route_body PasskeyBody (verify_registration E u d ''ndyhub'' s)"
| "member_route E cf u (PostOAuthConnect p to) s = route_body RedirectBody (post_oauth_connect E cf u p to s)"
| "member_route E cf u GetConnectedAccounts s = (Inr (AccountsBody (list_connected_accounts u s)), s)"
| "member_route E cf u (DeleteConnectedAccount i) s = route_body (\<lambda>_. NoBody) (unlink_account u i s)"

text \<open>\<^verbatim>\<open>logout\<close> clears both cookies; the interceptor adds the cookies of an issued session.\<close>

definition logout_cookies :: "auth_call \<Rightarrow> cookie_change list" where
  "logout_cookies c =
     (case c of PublicCall (PostLogout _) \<Rightarrow> [ClearCookie AccessCookie, ClearCookie RefreshCookie] | _ \<Rightarrow> [])"

definition with_cookies ::
  "server_config \<Rightarrow> auth_call \<Rightarrow> (route_error + auth_body) \<times> db \<Rightarrow> route_result \<times> db" where
  "with_cookies cf c r =
     ((fst r, logout_cookies c @ (case fst r of Inl _ \<Rightarrow> [] | Inr b \<Rightarrow> issued_cookies cf b)), snd r)"

definition auth_route :: "env \<Rightarrow> server_config \<Rightarrow> http_request \<Rightarrow> auth_call \<Rightarrow> db \<Rightarrow> route_result \<times> db" where
  "auth_route E cf q c s =
     with_cookies cf c
       (case c of
          PublicCall p \<Rightarrow> public_route E cf q p s
        | MemberCall m \<Rightarrow>
            (case jwt_auth_guard E (hq_access q) (hq_authorization q) of
               Inl e \<Rightarrow> (Inl (Thrown e), s)
             | Inr who \<Rightarrow> member_route E cf (claims_sub who) m s))"

section \<open>The cookies of a session\<close>

text \<open>The pair of tokens belongs to a session that is open for its full time.\<close>

definition opens :: "env \<Rightarrow> issued_session \<Rightarrow> db \<Rightarrow> bool" where
  "opens E tok s =
     (\<exists>x ndy. find_session (hash_token E (is_refresh tok)) s = Some x \<and>
        is_access tok = sign_jwt E (DashboardClaims (s_user x) ndy (s_id x)) \<and>
        s_revoked_at x = None \<and> s_expires x = now E + refresh_token_ttl)"

lemma opens_sessions: "sessions s' = sessions s \<Longrightarrow> opens E tok s' = opens E tok s"
  by (simp add: opens_def find_session_def)

lemma issue_session_opens:
  assumes "issue_session E u ndy m s = (Inr tok, s')"
  shows "opens E tok s'"
proof -
  obtain dev s1 where "resolve_device E u (sm_device_id m) (sm_user_agent m) s = (dev, s1)"
    by fastforce
  with assms show ?thesis
    by (auto simp: issue_session_ok Let_def opens_def find_session_def new_session_def find_row_append
        split: option.splits)
qed

lemma login_tail_opens:
  assumes "and_then (issue_session E u n m) (\<lambda>tok s1. (ok (f tok), record_login E u m b s1)) s = (Inr y, s')"
  obtains tok where "y = f tok" "opens E tok s'"
proof -
  from assms obtain tok s1 where "issue_session E u n m s = (Inr tok, s1)" "y = f tok"
      "s' = record_login E u m b s1"
    by (auto elim!: and_then_succeedsD)
  then show thesis
    using that [of tok] issue_session_opens opens_sessions [of s' s1 E tok] by simp
qed

lemma register_opens:
  assumes "register E e p f m s = (Inr (SessionIssued tok), s')"
  shows "opens E tok s'"
  using assms unfolding register_def
  by (auto split: if_splits elim!: and_then_succeedsD intro: login_tail_opens)

lemma login_opens:
  assumes "login E e p m s = (Inr (SessionIssued tok), s')"
  shows "opens E tok s'"
  using assms unfolding login_def
  by (auto simp: Let_def split: sum.splits prod.splits option.splits if_splits
      elim!: and_then_succeedsD [of "issue_challenge _ _"] login_tail_opens)

lemma confirm_email_opens:
  assumes "confirm_email_verification E e c m s = (Inr tok, s')"
  shows "opens E tok s'"
  using assms unfolding confirm_email_verification_def
  by (auto simp: Let_def split: option.splits if_splits elim!: login_tail_opens)

lemma verify_challenge_opens:
  assumes "verify_challenge E t c m s = (Inr tok, s')"
  shows "opens E tok s'"
  using assms unfolding verify_challenge_def
  by (auto simp: Let_def split: sum.splits if_splits elim!: and_then_succeedsD [of "match_factor _ _ _"] login_tail_opens)

lemma verify_authentication_opens:
  assumes "verify_authentication E d m k s = (Inr tok, s')"
  shows "opens E tok s'"
  using assms unfolding verify_authentication_def
  by (auto simp: Let_def elim!: and_then_succeedsD [of "verify_authentication_core _ _ _"] login_tail_opens)

lemma exchange_login_code_opens:
  assumes "exchange_login_code E c m s = (Inr tok, s')"
  shows "opens E tok s'"
  using assms unfolding exchange_login_code_def
  by (auto simp: Let_def split: option.splits sum.splits if_splits elim!: login_tail_opens)

lemma exchange_login_request_opens:
  assumes "exchange_login_request E t m s = (Inr tok, s')"
  shows "opens E tok s'"
  using assms unfolding exchange_login_request_def
  by (auto simp: Let_def split: option.splits if_splits
      elim!: and_then_succeedsD [of "login_request_active_or_expire _ _"] intro: issue_session_opens)

lemma refresh_opens:
  assumes "refresh E c b m s = (Inr tok, s')"
  shows "opens E tok s'"
  using assms unfolding refresh_def
  by (auto simp: Let_def split: if_splits elim!: rotate_session_ok intro: issue_session_opens)

lemmas sign_ins_open = register_opens login_opens confirm_email_opens verify_challenge_opens
  verify_authentication_opens exchange_login_code_opens exchange_login_request_opens refresh_opens

lemma route_body_Inr:
  "route_body f r = (Inr b, s') \<longleftrightarrow> (\<exists>x. r = (Inr x, s') \<and> b = f x)"
  by (cases r; cases "fst r") (auto simp: route_body_def)

lemma route_reads_Inr: "route_reads f r s = (Inr b, s') \<longleftrightarrow> (\<exists>x. r = Inr x \<and> b = f x) \<and> s' = s"
  by (cases r) (auto simp: route_reads_def)

lemma public_route_opens:
  assumes "public_route E cf q p s = (Inr b, s')" and "is_issued_session b = Some tok"
  shows "opens E tok s'"
  using assms
  by (cases p)
    (auto simp: route_body_Inr route_reads_Inr route_redirect_def
      elim!: is_issued_session.elims intro: sign_ins_open)

lemma member_route_issues_nothing:
  assumes "member_route E cf u c s = (Inr b, s')"
  shows "is_issued_session b = None"
  using assms
  by (cases c)
    (auto simp: route_body_Inr route_reads_Inr upload_photo_def split: option.splits if_splits)

text \<open>Without a valid token a guarded route answers 401, changes nothing and sets no cookie.\<close>

lemma members_only:
  assumes "jwt_auth_guard E (hq_access q) (hq_authorization q) = Inl e"
  shows "auth_route E cf q (MemberCall m) s = ((Inl (Thrown e), []), s) \<and> http_status e = 401"
  using assms
  by (auto simp: auth_route_def with_cookies_def logout_cookies_def jwt_auth_guard_def Let_def
      split: if_splits option.splits)

lemma auth_route_issues:
  assumes "auth_route E cf q c s = ((r, cookies), s')" and "SetCookie k t opts \<in> set cookies"
  obtains p b tok where "c = PublicCall p" "public_route E cf q p s = (Inr b, s')" "r = Inr b"
    "is_issued_session b = Some tok" "cookies = logout_cookies c @ issued_cookies cf b"
proof -
  from assms obtain b where r: "r = Inr b" "cookies = logout_cookies c @ issued_cookies cf b"
      "SetCookie k t opts \<in> set (issued_cookies cf b)"
    by (auto simp: auth_route_def with_cookies_def logout_cookies_def
        split: sum.splits auth_call.splits public_call.splits)
  then obtain tok where tok: "is_issued_session b = Some tok"
    by (auto simp: issued_cookies_def split: option.splits)
  show thesis
  proof (cases c)
    case (PublicCall p)
    with assms(1) r have "public_route E cf q p s = (Inr b, s')"
      by (auto simp: auth_route_def with_cookies_def prod_eq_iff)
    with that PublicCall r tok show thesis by blast
  next
    case (MemberCall m)
    with assms(1) r(1) obtain u where "member_route E cf u m s = (Inr b, s')"
      by (auto simp: auth_route_def with_cookies_def prod_eq_iff split: sum.splits)
    with member_route_issues_nothing tok show thesis by fastforce
  qed
qed

text \<open>
  C33. The session cookies always work. Whenever a route sets the refresh cookie, the reply is a
  success of a public route, the refresh cookie opens a session that is stored, not revoked and
  lasts as long as the cookie, and the access cookie set with it names that session and its owner;
  neither can be read by scripts or sent along from another site.
\<close>

theorem session_cookies_are_live:
  assumes "auth_route E cf q c s = ((r, cookies), s')" and "SetCookie RefreshCookie t opts \<in> set cookies"
  shows "\<exists>p b x ndy. c = PublicCall p \<and> r = Inr b \<and> find_session (hash_token E t) s' = Some x \<and>
    s_revoked_at x = None \<and> s_expires x = now E + co_max_age opts \<and>
    SetCookie AccessCookie (sign_jwt E (DashboardClaims (s_user x) ndy (s_id x)))
      (session_cookie_options cf (cookie_max_age AccessCookie)) \<in> set cookies \<and>
    co_http_only opts \<and> co_same_site opts = ''lax''"
proof -
  from assms obtain p b tok where p: "c = PublicCall p" "public_route E cf q p s = (Inr b, s')" "r = Inr b"
    "is_issued_session b = Some tok" "cookies = logout_cookies c @ issued_cookies cf b"
    by (rule auth_route_issues)
  from p(5) assms(2) have t: "t = is_refresh tok" "opts = session_cookie_options cf (cookie_max_age RefreshCookie)"
    by (auto simp: p(4) issued_cookies_def logout_cookies_def split: auth_call.splits public_call.splits)
  show ?thesis
    using public_route_opens [OF p(2,4)] p(1,3,5)
    by (auto simp: t opens_def issued_cookies_def p(4) session_cookie_options_def refresh_token_ttl_def days_def)
qed

definition demo_config :: server_config where
  "demo_config = \<lparr>cf_vercel = True, cf_client = (\<lambda>_. ''client'')\<rparr>"

definition no_credentials :: http_request where
  "no_credentials = \<lparr>hq_access = None, hq_refresh = None, hq_authorization = None, hq_ip = None,
     hq_agent = None, hq_device = None\<rparr>"

theorem session_cookies_are_live_witness:
  "\<exists>x. find_session (hash_token (demo_env 5) ''ABCDE0'')
      (snd (auth_route (demo_env 5) demo_config no_credentials (PublicCall (PostLogin ''m1@x.y'' ''pw'')) demo_db)) = Some x \<and>
     s_revoked_at x = None"
proof -
  let ?r = "auth_route (demo_env 5) demo_config no_credentials (PublicCall (PostLogin ''m1@x.y'' ''pw'')) demo_db"
  have "SetCookie RefreshCookie ''ABCDE0'' (session_cookie_options demo_config (cookie_max_age RefreshCookie))
      \<in> set (snd (fst ?r))"
    by code_simp
  moreover have "?r = ((fst (fst ?r), snd (fst ?r)), snd ?r)" by (simp only: prod.collapse)
  ultimately show ?thesis
    using session_cookies_are_live by blast
qed

end
