(* ===== verification/WebClient.thy ===== *)
theory WebClient
  imports AuthRoutes
begin

text \<open>
  The web application's side of a session: the requests of \<^verbatim>\<open>apps/web/src/lib/api.ts\<close> with the browser's
  cookies, their recovery from an expired access token, and \<^verbatim>\<open>auth-context.tsx\<close>, over the routes of the
  API. Any number of calls of a page may be under way at once.
\<close>

section \<open>Guarded routes leave sessions and accounts in place\<close>

definition user_ids :: "db \<Rightarrow> id list" where
  "user_ids s = map u_id (users s)"

lemma find_user_ids: "find_user i s \<noteq> None \<longleftrightarrow> i \<in> set (user_ids s)"
  using find_row_None_iff [of "\<lambda>u. u_id u = i" "users s"] by (auto simp: find_user_def user_ids_def)

definition kept :: "db \<Rightarrow> session list \<times> id list" where
  "kept s = (sessions s, user_ids s)"

lemma map_update_rows: "(\<And>r. key (f r) = key r) \<Longrightarrow> map key (update_rows P f rows) = map key rows"
  by (induction rows) auto

lemmas kept_simps = kept_def user_ids_def map_update_rows

lemma kept_and_then:
  assumes "kept (snd (h s)) = kept s" and "\<And>x s1. kept (snd (k x s1)) = kept s1"
  shows "kept (snd (and_then h k s)) = kept s"
  using and_then_frame [of kept h s k] assms by simp

lemma kept_parts:
  "kept (snd (login_request_active_or_expire E t s)) = kept s"
  "kept (snd (reread_login_request t s)) = kept s"
  "kept (snd (device_approval_active_or_expire E t s)) = kept s"
  "kept (snd (reread_device_approval t s)) = kept s"
  "kept (snd (verify_code_or_backup_code E u e c s)) = kept s"
  "kept (snd (create_challenge E v ty rp s)) = kept s"
  "kept (snd (consume_challenge E t ty v rp s)) = kept s"
  "kept (snd (create_state E p path link s)) = kept s"
  by (simp_all add: kept_simps login_request_active_or_expire_def reread_login_request_def
      device_approval_active_or_expire_def reread_device_approval_def verify_code_or_backup_code_def
      create_challenge_def consume_challenge_def create_state_def Let_def split: option.split sum.split bool.split)

lemma kept_same: "sessions s' = sessions s \<Longrightarrow> map u_id (users s') = map u_id (users s) \<Longrightarrow> kept s' = kept s"
  by (simp add: kept_def user_ids_def)

lemma kept_approve_request: "kept (snd (approve_login_request E t u s)) = kept s"
proof -
  have "kept (snd (reread_login_request t (mark_ndyapps_connected E u (s1\<lparr>login_requests := x\<rparr>)))) = kept s1" for s1 x
    by (simp add: kept_parts) (simp add: mark_ndyapps_connected_def kept_simps)
  then show ?thesis
    unfolding approve_login_request_def by (intro kept_and_then) (simp_all add: kept_parts)
qed

lemma kept_deny_request: "kept (snd (deny_login_request E t s)) = kept s"
  unfolding deny_login_request_def by (intro kept_and_then) (simp_all add: kept_parts, simp add: kept_simps)

lemma kept_device_answers:
  "kept (snd (approve_device E i u c s)) = kept s" "kept (snd (deny_device E i u s)) = kept s"
  unfolding approve_device_def deny_device_def
  by (intro kept_and_then; simp add: kept_parts; simp add: kept_simps)+

lemma kept_user_ops:
  "kept (snd (update_own_profile u f s)) = kept s"
  "kept (snd (update_profile_photo u url s)) = kept s"
  "kept (snd (change_password E u c n s)) = kept s"
  "kept (snd (request_email_verification E u s)) = kept s"
  "kept (snd (begin_totp_setup E u s)) = kept s"
  "kept (snd (confirm_totp_setup E u c s)) = kept s"
  "kept (snd (begin_sms_setup E u p s)) = kept s"
  "kept (snd (disable_sms E u p s)) = kept s"
  by (simp_all add: kept_simps update_own_profile_def update_profile_def update_profile_photo_def change_password_def
      request_email_verification_def issue_and_send_verification_email_def send_verification_email_def
      begin_totp_setup_def confirm_totp_setup_def begin_sms_setup_def disable_sms_def
      Let_def split: sum.split option.split)

lemma kept_confirm_sms: "kept (snd (confirm_sms_setup E u p c s)) = kept s"
proof -
  have "sessions (snd (recompute_trust E u s1)) = sessions s1" for s1
    by (simp add: recompute_trust_def Let_def split: sum.split option.split)
  then show ?thesis
    by (simp add: kept_simps confirm_sms_setup_def split: sum.split)
qed

lemma kept_disable_totp: "kept (snd (disable_totp E u p c s)) = kept s"
proof -
  have "kept (snd (and_then (verify_code_or_backup_code E u x c) (\<lambda>m s1.
            if m = None then (throw (Unauthorized ''Incorrect code.''), s1)
            else (ok (),
                  record_event E u TOTP_DISABLED no_meta
                    ((update_user u (\<lambda>u. u\<lparr>u_totp_secret := None, u_totp_enabled_at := None\<rparr>) s1)
                     \<lparr>backup_codes := delete_rows (\<lambda>c. bc_user c = u) (backup_codes s1)\<rparr>))) s)) = kept s" for x
    by (intro kept_and_then) (simp_all add: kept_parts, simp add: kept_simps)
  then show ?thesis by (simp add: disable_totp_def split: sum.split)
qed

lemma kept_ways_in:
  "kept (snd (remove_passkey E u i s)) = kept s"
  "kept (snd (unlink_account u i s)) = kept s"
  by (simp_all add: kept_simps remove_passkey_def unlink_account_def Let_def split: option.split sum.split)

lemma kept_begin_registration: "kept (snd (begin_registration E u k s)) = kept s"
  by (simp add: begin_registration_def Let_def kept_parts split: sum.split)

lemma kept_begin_link: "kept (snd (begin_link E cl u p to s)) = kept s"
  by (auto simp: begin_link_def leave_for_provider_def and_then_def split: sum.split prod.split
      dest: arg_cong [where f = "\<lambda>x. kept (snd x)"] simp: kept_parts)

lemma kept_verify_registration: "kept (snd (verify_registration E u d k s)) = kept s"
proof (cases "resolve_relying_party E k")
  case (Inr rp)
  show ?thesis
    unfolding verify_registration_def Inr sum.case
    by (intro kept_and_then) (simp_all add: kept_parts Let_def split: option.split, simp add: kept_simps)
qed (simp add: verify_registration_def)

lemma member_route_keeps: "kept (snd (member_route E cf u c s)) = kept s"
  by (cases c) (simp_all add: route_body_def route_reads_def kept_approve_request kept_deny_request
      kept_device_answers kept_user_ops kept_confirm_sms kept_disable_totp kept_ways_in kept_begin_registration
      kept_begin_link kept_verify_registration upload_photo_def post_oauth_connect_def split: option.split sum.split)

section \<open>The browser\<close>

text \<open>A cookie and the time it expires.\<close>

type_synonym cookie_jar = "session_cookie \<Rightarrow> (string \<times> time) option"

definition cookie_sent :: "env \<Rightarrow> cookie_jar \<Rightarrow> session_cookie \<Rightarrow> string option" where
  "cookie_sent E jar k =
     (case jar k of None \<Rightarrow> None | Some (v, until) \<Rightarrow> if until \<le> now E then None else Some v)"

fun store_cookie :: "env \<Rightarrow> cookie_change \<Rightarrow> cookie_jar \<Rightarrow> cookie_jar" where
  "store_cookie E (SetCookie k v opts) jar = jar(k \<mapsto> (v, now E + co_max_age opts))"
| "store_cookie E (ClearCookie k) jar = jar(k := None)"

definition store_cookies :: "env \<Rightarrow> cookie_change list \<Rightarrow> cookie_jar \<Rightarrow> cookie_jar" where
  "store_cookies E = fold (store_cookie E)"

text \<open>
  \<^verbatim>\<open>getOrCreateDeviceId\<close>: what is stored, or a fresh UUID that is stored then; nothing when the
  storage is disabled. The second component is the storage afterwards.
\<close>

definition get_or_create_device_id ::
  "bool \<Rightarrow> string \<Rightarrow> string option \<Rightarrow> string option \<times> string option" where
  "get_or_create_device_id enabled generated stored =
     (if \<not> enabled then (None, stored)
      else if truthy stored then (stored, stored) else (Some generated, Some generated))"

record visitor =
  vs_ip :: "string option"
  vs_agent :: "string option"
  vs_device :: "string option"

definition page_request :: "visitor \<Rightarrow> string option \<Rightarrow> string option \<Rightarrow> http_request" where
  "page_request v access refresh_token =
     \<lparr>hq_access = access, hq_refresh = refresh_token, hq_authorization = None, hq_ip = vs_ip v,
      hq_agent = vs_agent v, hq_device = vs_device v\<rparr>"

section \<open>One request\<close>

datatype api_error = ApiError (api_message: string) (api_status: nat)

text \<open>The error bodies NestJS sends: the message of an HTTP exception, a fixed one for any other.\<close>

fun api_error_of :: "route_error \<Rightarrow> api_error" where
  "api_error_of (Thrown (BadRequest m)) = ApiError m 400"
| "api_error_of (Thrown (Unauthorized m)) = ApiError m 401"
| "api_error_of (Thrown (Forbidden m)) = ApiError m 403"
| "api_error_of (Thrown (NotFound m)) = ApiError m 404"
| "api_error_of (Thrown (Conflict m)) = ApiError m 409"
| "api_error_of (Thrown (ServerError _)) = ApiError ''Internal server error'' 500"
| "api_error_of (UnsupportedMediaType m) = ApiError m 415"
| "api_error_of FileTooLarge = ApiError ''File too large'' 413"

type_synonym api_result = "api_error + auth_body"

definition api_result_of :: "route_error + auth_body \<Rightarrow> api_result" where
  "api_result_of = map_sum api_error_of id"

definition unauthorized :: "api_result \<Rightarrow> bool" where
  "unauthorized r = (case r of Inl e \<Rightarrow> api_status e = 401 | Inr _ \<Rightarrow> False)"

definition api_fetch ::
  "env \<Rightarrow> server_config \<Rightarrow> visitor \<Rightarrow> auth_call \<Rightarrow> cookie_jar \<Rightarrow> db \<Rightarrow> api_result \<times> cookie_jar \<times> db" where
  "api_fetch E cf v c jar s =
     (case auth_route E cf (page_request v (cookie_sent E jar AccessCookie) (cookie_sent E jar RefreshCookie)) c s of
        ((r, cookies), s') \<Rightarrow> (api_result_of r, store_cookies E cookies jar, s'))"

definition refresh_call :: auth_call where
  "refresh_call = PublicCall (PostRefresh None)"

text \<open>\<^verbatim>\<open>authedFetch\<close> on its own; the three requests may be made at different times.\<close>

definition authed_fetch ::
  "env \<Rightarrow> env \<Rightarrow> env \<Rightarrow> server_config \<Rightarrow> visitor \<Rightarrow> auth_call \<Rightarrow> cookie_jar \<Rightarrow> db \<Rightarrow>
     api_result \<times> cookie_jar \<times> db" where
  "authed_fetch E1 E2 E3 cf v c jar s =
     (case api_fetch E1 cf v c jar s of
        (r, jar1, s1) \<Rightarrow>
          if unauthorized r
          then (case api_fetch E2 cf v refresh_call jar1 s1 of
                  (Inl e, rest) \<Rightarrow> (Inl e, rest)
                | (Inr _, jar2, s2) \<Rightarrow> api_fetch E3 cf v c jar2 s2)
          else (r, jar1, s1))"

text \<open>\<^verbatim>\<open>resolveAuth\<close> of the authentication context.\<close>

datatype auth_state = Loading | Unauthenticated | Authenticated string bool

definition resolve_auth :: "api_result \<Rightarrow> auth_state" where
  "resolve_auth r =
     (case r of Inr (MeBody m) \<Rightarrow> Authenticated (mv_ndy_id m) (mv_complete m) | _ \<Rightarrow> Unauthenticated)"

section \<open>A page with many calls\<close>

text \<open>
  A call of \<^verbatim>\<open>authedFetch\<close>: not sent, sent (with the access cookie it carried), waiting for the refresh
  of the page, sent again, answered, or failed with the error of the refresh. A request carries the
  cookies of the moment it is sent; the API answers it later, and the answer to the refresh stays on
  its way for a while.
\<close>

datatype fetch_state =
    Ready
  | Sent "string option"
  | Waiting
  | Again
  | SentAgain "string option"
  | Answered api_result
  | RefreshFailed api_error

text \<open>\<^verbatim>\<open>refreshInFlight\<close>\<close>

datatype refresh_state = Idle | RefreshSent "string option" | RefreshReply "route_error + auth_body" "cookie_change list"

record page =
  pg_calls :: "(member_call \<times> fetch_state) list"
  pg_refresh :: refresh_state
  pg_jar :: cookie_jar
  pg_db :: db

definition set_call :: "nat \<Rightarrow> fetch_state \<Rightarrow> page \<Rightarrow> page" where
  "set_call i st p = p\<lparr>pg_calls := (pg_calls p)[i := (fst (pg_calls p ! i), st)]\<rparr>"

definition call_is :: "nat \<Rightarrow> fetch_state \<Rightarrow> page \<Rightarrow> bool" where
  "call_is i st p = (i < length (pg_calls p) \<and> snd (pg_calls p ! i) = st)"

definition member_answer ::
  "env \<Rightarrow> server_config \<Rightarrow> visitor \<Rightarrow> string option \<Rightarrow> nat \<Rightarrow> page \<Rightarrow> api_result \<times> db" where
  "member_answer E cf v access i p =
     (case auth_route E cf (page_request v access None) (MemberCall (fst (pg_calls p ! i))) (pg_db p) of
        ((r, _), s') \<Rightarrow> (api_result_of r, s'))"

definition after_refresh :: "fetch_state \<Rightarrow> page \<Rightarrow> page" where
  "after_refresh st p =
     p\<lparr>pg_calls := map (\<lambda>(m, x). (m, if x = Waiting then st else x)) (pg_calls p), pg_refresh := Idle\<rparr>"

text \<open>The refresh token the API draws has not been used before.\<close>

definition new_refresh_token :: "env \<Rightarrow> db \<Rightarrow> bool" where
  "new_refresh_token E s =
     (draw E RefreshTokenDraw 0 \<noteq> [] \<and> find_session (hash_token E (draw E RefreshTokenDraw 0)) s = None)"

inductive page_step :: "server_config \<Rightarrow> visitor \<Rightarrow> env \<Rightarrow> page \<Rightarrow> page \<Rightarrow> bool" for cf v E p where
  send: "call_is i Ready p \<Longrightarrow>
    page_step cf v E p (set_call i (Sent (cookie_sent E (pg_jar p) AccessCookie)) p)"
| reply: "call_is i (Sent a) p \<Longrightarrow> member_answer E cf v a i p = (r, s') \<Longrightarrow> \<not> unauthorized r \<Longrightarrow>
    page_step cf v E p (set_call i (Answered r) p\<lparr>pg_db := s'\<rparr>)"
| start_refresh: "call_is i (Sent a) p \<Longrightarrow> member_answer E cf v a i p = (r, s') \<Longrightarrow> unauthorized r \<Longrightarrow>
    pg_refresh p = Idle \<Longrightarrow>
    page_step cf v E p (set_call i Waiting p\<lparr>pg_db := s',
      pg_refresh := RefreshSent (cookie_sent E (pg_jar p) RefreshCookie)\<rparr>)"
| join_refresh: "call_is i (Sent a) p \<Longrightarrow> member_answer E cf v a i p = (r, s') \<Longrightarrow> unauthorized r \<Longrightarrow>
    pg_refresh p \<noteq> Idle \<Longrightarrow> page_step cf v E p (set_call i Waiting p\<lparr>pg_db := s'\<rparr>)"
| refresh_handled: "pg_refresh p = RefreshSent t \<Longrightarrow> new_refresh_token E (pg_db p) \<Longrightarrow>
    auth_route E cf (page_request v None t) refresh_call (pg_db p) = ((r, cookies), s') \<Longrightarrow>
    page_step cf v E p (p\<lparr>pg_db := s', pg_refresh := RefreshReply r cookies\<rparr>)"
| refresh_done: "pg_refresh p = RefreshReply (Inr b) cookies \<Longrightarrow>
    page_step cf v E p (after_refresh Again p\<lparr>pg_jar := store_cookies E cookies (pg_jar p)\<rparr>)"
| refresh_failed: "pg_refresh p = RefreshReply (Inl e) cookies \<Longrightarrow>
    page_step cf v E p (after_refresh (RefreshFailed (api_error_of e)) p
      \<lparr>pg_jar := store_cookies E cookies (pg_jar p)\<rparr>)"
| send_again: "call_is i Again p \<Longrightarrow>
    page_step cf v E p (set_call i (SentAgain (cookie_sent E (pg_jar p) AccessCookie)) p)"
| reply_again: "call_is i (SentAgain a) p \<Longrightarrow> member_answer E cf v a i p = (r, s') \<Longrightarrow>
    page_step cf v E p (set_call i (Answered r) p\<lparr>pg_db := s'\<rparr>)"

text \<open>A run of \<open>n\<close> steps, each at a time and with draws the world \<open>W\<close> allows.\<close>

inductive page_run :: "server_config \<Rightarrow> visitor \<Rightarrow> (env \<Rightarrow> bool) \<Rightarrow> page \<Rightarrow> nat \<Rightarrow> page \<Rightarrow> bool" for cf v W p where
  start: "page_run cf v W p 0 p"
| step: "page_run cf v W p n q \<Longrightarrow> W E \<Longrightarrow> page_step cf v E q r \<Longrightarrow> page_run cf v W p (Suc n) r"

definition opened_page :: "member_call list \<Rightarrow> cookie_jar \<Rightarrow> db \<Rightarrow> page" where
  "opened_page ms jar s = \<lparr>pg_calls = map (\<lambda>m. (m, Ready)) ms, pg_refresh = Idle, pg_jar = jar, pg_db = s\<rparr>"

section \<open>The page keeps its session\<close>

text \<open>The visit ends before \<open>T\<close> and takes less than the 30 days of a refresh token.\<close>

definition visit :: "(string \<Rightarrow> string) \<Rightarrow> time \<Rightarrow> env \<Rightarrow> bool" where
  "visit h T E = (sha256 E = h \<and> now E < T \<and> T < now E + refresh_token_ttl)"

text \<open>The refresh token opens a session of an account until \<open>T\<close>.\<close>

definition alive :: "(string \<Rightarrow> string) \<Rightarrow> time \<Rightarrow> string \<Rightarrow> db \<Rightarrow> bool" where
  "alive h T t s =
     (t \<noteq> [] \<and> (\<exists>x. find_session (h t) s = Some x \<and> s_revoked_at x = None \<and> T \<le> s_expires x \<and>
        s_user x \<in> set (user_ids s)))"

lemma alive_kept: "kept s' = kept s \<Longrightarrow> alive h T t s' = alive h T t s"
  by (simp add: alive_def kept_def find_session_def)

definition holds_session :: "(string \<Rightarrow> string) \<Rightarrow> time \<Rightarrow> cookie_jar \<Rightarrow> db \<Rightarrow> bool" where
  "holds_session h T jar s = (\<exists>t until. jar RefreshCookie = Some (t, until) \<and> T \<le> until \<and> alive h T t s)"

lemma rotate_alive:
  assumes "visit h T E" and "alive h T t s" and "new_refresh_token E s"
  obtains tok s' where "rotate_session E t m s = (Inr tok, s')" "alive h T (is_refresh tok) s'"
proof -
  from assms(1) have h: "hash_token E = h" and n: "now E < T" "T < now E + refresh_token_ttl"
    by (auto simp: visit_def hash_token_def fun_eq_iff)
  from assms(2) obtain x where x: "find_session (h t) s = Some x" "s_revoked_at x = None" "T \<le> s_expires x"
    "s_user x \<in> set (user_ids s)" by (auto simp: alive_def)
  then obtain u where u: "find_user (s_user x) s = Some u"
    using find_user_ids [of "s_user x" s] by auto
  let ?s = "update_sessions (\<lambda>y. s_id y = s_id x) (\<lambda>y. y\<lparr>s_revoked_at := Some (now E)\<rparr>) s"
  have new: "find_session (h (draw E RefreshTokenDraw 0)) ?s = None"
    using assms(3) by (simp add: new_refresh_token_def h find_session_def find_row_update_keep)
  obtain dev s1 where d: "resolve_device E (s_user x) (sm_device_id m) (sm_user_agent m) ?s = (dev, s1)"
    by fastforce
  let ?x = "new_session E (s_user x) m dev"
  from new d obtain tok s' where i: "issue_session E (s_user x) (u_ndy_id u) m ?s = (Inr tok, s')"
    by (auto simp: issue_session_ok Let_def new_session_def h)
  have r: "rotate_session E t m s = (Inr tok, s')"
    using x u n i by (simp add: rotate_session_def h)
  have users: "user_ids s' = user_ids s"
    using issue_session_users [of E "s_user x" "u_ndy_id u" m ?s] i by (simp add: user_ids_def)
  from i d have tok: "is_refresh tok = draw E RefreshTokenDraw 0" and s': "sessions s' = sessions ?s @ [?x]"
    by (auto simp: issue_session_ok Let_def)
  have "find_session (h (is_refresh tok)) s' = Some ?x"
    using new by (simp add: find_session_def s' tok find_row_append new_session_def h split: option.split)
  then have "alive h T (is_refresh tok) s'"
    using assms(3) x(4) n unfolding alive_def
    by (auto simp: users tok new_refresh_token_def new_session_def)
  with r that show thesis by blast
qed

lemma refresh_route_alive:
  assumes "visit h T E" and "alive h T t s" and "new_refresh_token E s"
    and "auth_route E cf (page_request v None (Some t)) refresh_call s = ((r, cookies), s')"
  obtains tok where "r = Inr (SessionBody tok)" "cookies = issued_cookies cf (SessionBody tok)"
    "alive h T (is_refresh tok) s'"
proof -
  let ?m = "session_meta_of (page_request v None (Some t))"
  from assms(1,2,3) obtain tok s1 where rot: "rotate_session E t ?m s = (Inr tok, s1)" "alive h T (is_refresh tok) s1"
    by (rule rotate_alive)
  moreover have "truthy (Some t)" using assms(2) by (simp add: alive_def truthy_iff)
  ultimately have "refresh E (Some t) None ?m s = (Inr tok, s1)"
    by (simp add: refresh_def presented_refresh_def)
  with assms(4) have "r = Inr (SessionBody tok)" "cookies = issued_cookies cf (SessionBody tok)" "s' = s1"
    by (auto simp: auth_route_def with_cookies_def refresh_call_def route_body_def page_request_def logout_cookies_def)
  with that rot(2) show thesis by blast
qed

lemma refresh_cookie_sent:
  "visit h T E \<Longrightarrow> holds_session h T jar s \<Longrightarrow>
     \<exists>t. cookie_sent E jar RefreshCookie = Some t \<and> alive h T t s"
  by (auto simp: visit_def holds_session_def cookie_sent_def)

lemma stored_session:
  "visit h T E \<Longrightarrow> alive h T (is_refresh tok) s \<Longrightarrow>
     holds_session h T (store_cookies E (issued_cookies cf (SessionBody tok)) jar) s"
  by (auto simp: visit_def holds_session_def store_cookies_def issued_cookies_def session_cookie_options_def
      refresh_token_ttl_def days_def)

lemma member_answer_kept: "member_answer E cf v a i p = (r, s') \<Longrightarrow> kept s' = kept (pg_db p)"
  using member_route_keeps
  by (auto simp: member_answer_def auth_route_def with_cookies_def split: prod.splits sum.splits)

definition refresh_ok :: "(string \<Rightarrow> string) \<Rightarrow> time \<Rightarrow> server_config \<Rightarrow> page \<Rightarrow> bool" where
  "refresh_ok h T cf p =
     (case pg_refresh p of
        Idle \<Rightarrow> holds_session h T (pg_jar p) (pg_db p)
      | RefreshSent t \<Rightarrow> (\<exists>tok. t = Some tok \<and> alive h T tok (pg_db p))
      | RefreshReply r cookies \<Rightarrow>
          (\<exists>tok. r = Inr (SessionBody tok) \<and> cookies = issued_cookies cf (SessionBody tok) \<and>
             alive h T (is_refresh tok) (pg_db p)))"

definition no_failed_refresh :: "page \<Rightarrow> bool" where
  "no_failed_refresh p = list_all (\<lambda>(m, st). \<forall>e. st \<noteq> RefreshFailed e) (pg_calls p)"

lemma no_failed_set_call:
  "no_failed_refresh p \<Longrightarrow> \<forall>e. st \<noteq> RefreshFailed e \<Longrightarrow> no_failed_refresh (set_call i st p)"
  by (auto simp: no_failed_refresh_def set_call_def list_all_iff dest: set_update_subset_insert [THEN subsetD])

lemma no_failed_page [simp]:
  "no_failed_refresh (p\<lparr>pg_db := s\<rparr>) = no_failed_refresh p"
  "no_failed_refresh (p\<lparr>pg_jar := j\<rparr>) = no_failed_refresh p"
  "no_failed_refresh (p\<lparr>pg_refresh := x\<rparr>) = no_failed_refresh p"
  by (simp_all add: no_failed_refresh_def)

lemma no_failed_after_refresh: "no_failed_refresh p \<Longrightarrow> no_failed_refresh (after_refresh Again p)"
  by (auto simp: no_failed_refresh_def after_refresh_def list_all_iff split: if_splits)

lemma refresh_ok_set_call: "refresh_ok h T cf (set_call i st p) = refresh_ok h T cf p"
  by (cases "pg_refresh p") (simp_all add: refresh_ok_def set_call_def)

lemma refresh_ok_answer:
  assumes "member_answer E cf v a i p = (r, s')" and "refresh_ok h T cf p"
  shows "refresh_ok h T cf (set_call i st p\<lparr>pg_db := s'\<rparr>)"
  using assms(2) alive_kept [OF member_answer_kept [OF assms(1)]]
  by (auto simp: refresh_ok_def set_call_def holds_session_def split: refresh_state.splits)

lemma page_step_keeps:
  assumes "page_step cf v E p p'" and "visit h T E" and "refresh_ok h T cf p" and "no_failed_refresh p"
  shows "refresh_ok h T cf p' \<and> no_failed_refresh p'"
  using assms(1)
proof cases
  case (send i)
  with assms(3,4) show ?thesis by (simp add: no_failed_set_call refresh_ok_set_call)
next
  case (reply i a r s')
  with assms(3,4) show ?thesis by (simp add: no_failed_set_call refresh_ok_answer)
next
  case (start_refresh i a r s')
  from start_refresh(5) assms(3) have "holds_session h T (pg_jar p) (pg_db p)" by (simp add: refresh_ok_def)
  then obtain t where "cookie_sent E (pg_jar p) RefreshCookie = Some t" "alive h T t (pg_db p)"
    using refresh_cookie_sent [OF assms(2)] by blast
  with start_refresh(1,3) assms(4) show ?thesis
    by (simp add: no_failed_set_call refresh_ok_def alive_kept [OF member_answer_kept])
next
  case (join_refresh i a r s')
  with assms(3,4) show ?thesis by (simp add: no_failed_set_call refresh_ok_answer)
next
  case (refresh_handled t r cookies s')
  from refresh_handled(2) assms(3) obtain tok where t: "t = Some tok" "alive h T tok (pg_db p)"
    by (auto simp: refresh_ok_def)
  from refresh_route_alive [OF assms(2) t(2) refresh_handled(3) refresh_handled(4) [unfolded t(1)]]
  obtain new where "r = Inr (SessionBody new)" "cookies = issued_cookies cf (SessionBody new)"
    "alive h T (is_refresh new) s'" .
  with refresh_handled(1) assms(4) show ?thesis by (simp add: refresh_ok_def)
next
  case (refresh_done b cookies)
  with assms(2,3,4) stored_session show ?thesis
    by (simp add: no_failed_after_refresh) (auto simp: refresh_ok_def after_refresh_def)
next
  case (refresh_failed e cookies)
  with assms(3) show ?thesis by (simp add: refresh_ok_def)
next
  case (send_again i)
  with assms(3,4) show ?thesis by (simp add: no_failed_set_call refresh_ok_set_call)
next
  case (reply_again i a r s')
  with assms(3,4) show ?thesis by (simp add: no_failed_set_call refresh_ok_answer)
qed

text \<open>
  C34. A page that loads any number of guarded calls at once never logs itself out: as long as the
  visitor's refresh cookie opens a session when the page is opened, no call of the page, whatever the
  order of requests, replies and refreshes, ever fails in its refresh, although every refresh uses up
  the refresh token; and whenever no refresh is under way, the browser holds the refresh token of a
  session that is open.
\<close>

theorem page_keeps_its_session:
  assumes "page_run cf v (visit h T) (opened_page ms jar s) n p" and "holds_session h T jar s"
  shows "(\<forall>(m, st) \<in> set (pg_calls p). \<forall>e. st \<noteq> RefreshFailed e) \<and>
    (pg_refresh p = Idle \<longrightarrow> holds_session h T (pg_jar p) (pg_db p))"
proof -
  from assms(1) have "refresh_ok h T cf p \<and> no_failed_refresh p"
  proof induction
    case start
    then show ?case using assms(2)
      by (auto simp: opened_page_def refresh_ok_def no_failed_refresh_def list_all_iff)
  next
    case (step n q E r)
    then show ?case using page_step_keeps by blast
  qed
  then show ?thesis
    by (auto simp: refresh_ok_def no_failed_refresh_def list_all_iff)
qed

section \<open>The page settles\<close>

fun fetch_work :: "fetch_state \<Rightarrow> nat" where
  "fetch_work Ready = 7"
| "fetch_work (Sent _) = 6"
| "fetch_work Waiting = 3"
| "fetch_work Again = 2"
| "fetch_work (SentAgain _) = 1"
| "fetch_work _ = 0"

fun refresh_work :: "refresh_state \<Rightarrow> nat" where
  "refresh_work Idle = 0"
| "refresh_work (RefreshSent _) = 2"
| "refresh_work (RefreshReply _ _) = 1"

definition page_work :: "page \<Rightarrow> nat" where
  "page_work p = sum_list (map (\<lambda>c. fetch_work (snd c)) (pg_calls p)) + refresh_work (pg_refresh p)"

lemma sum_list_replace:
  fixes f :: "'a \<Rightarrow> nat"
  shows "i < length xs \<Longrightarrow> sum_list (map f (xs[i := x])) + f (xs ! i) = sum_list (map f xs) + f x"
  by (induction xs arbitrary: i) (auto simp: nth_Cons split: nat.split)

lemma work_set_call:
  assumes "call_is i st p"
  shows "page_work (set_call i st' p) + fetch_work st = page_work p + fetch_work st'"
  using sum_list_replace [of i "pg_calls p" "\<lambda>c. fetch_work (snd c)" "(fst (pg_calls p ! i), st')"] assms
  by (simp add: page_work_def set_call_def call_is_def)

lemma work_set_call_less:
  "call_is i st p \<Longrightarrow> fetch_work st' < fetch_work st \<Longrightarrow> page_work (set_call i st' p) < page_work p"
  using work_set_call [of i st p st'] by linarith

lemma work_after_refresh:
  assumes "fetch_work st < 3"
  shows "page_work (after_refresh st p) + refresh_work (pg_refresh p) \<le> page_work p"
proof -
  have "sum_list (map (\<lambda>c. fetch_work (snd c)) (map (\<lambda>(m, x). (m, if x = Waiting then st else x)) cs))
      \<le> sum_list (map (\<lambda>c. fetch_work (snd c)) cs)" for cs :: "(member_call \<times> fetch_state) list"
    using assms by (induction cs) auto
  then show ?thesis by (simp add: page_work_def after_refresh_def)
qed

lemma work_page [simp]:
  "page_work (p\<lparr>pg_db := s\<rparr>) = page_work p" "page_work (p\<lparr>pg_jar := j\<rparr>) = page_work p"
  by (simp_all add: page_work_def)

lemma page_step_works:
  assumes "page_step cf v E p p'"
  shows "page_work p' < page_work p"
  using assms
proof cases
  case (start_refresh i a r s')
  have "page_work p' = page_work (set_call i Waiting p) + 2"
    using start_refresh(1,5) by (simp add: page_work_def set_call_def)
  with work_set_call [OF start_refresh(2), of Waiting] show ?thesis by simp
next
  case (refresh_handled t r cookies s')
  then show ?thesis by (simp add: page_work_def)
next
  case (refresh_done b cookies)
  with work_after_refresh [of Again p] show ?thesis by simp
next
  case (refresh_failed e cookies)
  with work_after_refresh [of "RefreshFailed (api_error_of e)" p] show ?thesis by simp
qed (auto intro: work_set_call_less)

text \<open>Calls wait only for a refresh that is under way.\<close>

definition waits_in_vain :: "page \<Rightarrow> bool" where
  "waits_in_vain p = (pg_refresh p = Idle \<and> (\<exists>c \<in> set (pg_calls p). snd c = Waiting))"

lemma page_step_waits:
  assumes "page_step cf v E p p'" and "\<not> waits_in_vain p"
  shows "\<not> waits_in_vain p'"
  using assms
  by cases (auto simp: waits_in_vain_def set_call_def after_refresh_def split: if_splits
      dest: set_update_subset_insert [THEN subsetD])

definition settled :: "page \<Rightarrow> bool" where
  "settled p = list_all (\<lambda>(m, st). fetch_work st = 0) (pg_calls p)"

lemma page_goes_on:
  assumes "\<not> settled p" and "\<not> waits_in_vain p" and "new_refresh_token E (pg_db p)"
  shows "\<exists>p'. page_step cf v E p p'"
proof -
  from assms(1) obtain i where i: "i < length (pg_calls p)" "fetch_work (snd (pg_calls p ! i)) \<noteq> 0"
    by (auto simp: settled_def list_all_length case_prod_unfold)
  obtain st where st: "call_is i st p" using i(1) by (simp add: call_is_def)
  show ?thesis
  proof (cases st)
    case Ready
    with page_step.send st show ?thesis by blast
  next
    case (Sent a)
    with st have c: "call_is i (Sent a) p" by simp
    obtain r s' where ans: "member_answer E cf v a i p = (r, s')" by fastforce
    show ?thesis
    proof (cases "unauthorized r")
      case True
      show ?thesis
      proof (cases "pg_refresh p = Idle")
        case True
        with page_step.start_refresh [OF c ans \<open>unauthorized r\<close>] show ?thesis by (intro exI)
      next
        case False
        with page_step.join_refresh [OF c ans \<open>unauthorized r\<close>] show ?thesis by (intro exI)
      qed
    next
      case False
      with page_step.reply [OF c ans] show ?thesis by (intro exI)
    qed
  next
    case Waiting
    with st assms(2) have "pg_refresh p \<noteq> Idle"
      by (auto simp: waits_in_vain_def call_is_def)
    then show ?thesis
    proof (cases "pg_refresh p")
      case (RefreshSent t)
      then show ?thesis
        using page_step.refresh_handled [OF RefreshSent assms(3)] by (metis prod.exhaust)
    next
      case (RefreshReply r cookies)
      then show ?thesis using page_step.refresh_done page_step.refresh_failed by (cases r) blast+
    qed simp
  next
    case Again
    with page_step.send_again st show ?thesis by blast
  next
    case (SentAgain a)
    with st page_step.reply_again show ?thesis by (metis prod.exhaust)
  qed (use st i in \<open>auto simp: call_is_def\<close>)
qed

text \<open>
  C35. Loading a page ends. The calls of a page take at most seven steps each, refreshes included,
  whatever the API answers.  Whenever a call waits, a refresh is under way, sent or answered; and until
  every call has an answer or the error of a refresh there is a next step.
\<close>

theorem page_load_settles:
  assumes "page_run cf v W (opened_page ms jar s) n p"
  shows "n \<le> 7 * length ms \<and>
    (\<forall>m. (m, Waiting) \<in> set (pg_calls p) \<longrightarrow> pg_refresh p \<noteq> Idle) \<and>
    (settled p \<or> (\<forall>E. new_refresh_token E (pg_db p) \<longrightarrow> (\<exists>p'. page_step cf v E p p')))"
proof -
  from assms have "n + page_work p \<le> 7 * length ms \<and> \<not> waits_in_vain p"
  proof induction
    case start
    show ?case
      by (auto simp: opened_page_def page_work_def waits_in_vain_def o_def sum_list_triv)
  next
    case (step n q E r)
    then show ?case using page_step_works [of cf v E q r] page_step_waits [of cf v E q r] by simp
  qed
  then show ?thesis using page_goes_on [of p] by (auto simp: waits_in_vain_def)
qed

section \<open>The desktop side of a QR login\<close>

text \<open>\<^verbatim>\<open>useLoginRequest\<close> of \<^verbatim>\<open>lib/use-login-request.ts\<close>.\<close>

datatype qr_login_state =
    QrLoading
  | QrPending string time
  | QrApproved string
  | QrSuccess issued_session
  | QrDenied
  | QrExpired
  | QrError string

definition fetch_and_subscribe ::
  "env \<Rightarrow> server_config \<Rightarrow> visitor \<Rightarrow> cookie_jar \<Rightarrow> db \<Rightarrow> qr_login_state \<times> cookie_jar \<times> db" where
  "fetch_and_subscribe E cf v jar s =
     (case api_fetch E cf v (PublicCall (PostLoginRequest QR None (vs_agent v))) jar s of
        (Inl e, rest) \<Rightarrow> (QrError (api_message e), rest)
      | (Inr (LoginRequestBody r), rest) \<Rightarrow> (QrPending (lr_token r) (lr_expires r), rest)
      | (Inr _, rest) \<Rightarrow> (QrLoading, rest))"

text \<open>
  \<^verbatim>\<open>handleStatus\<close>, called for every status that arrives, from the socket or from a poll that was under
  way; an approval is exchanged at once.
\<close>

definition handle_status ::
  "env \<Rightarrow> server_config \<Rightarrow> visitor \<Rightarrow> string \<Rightarrow> login_request_status \<Rightarrow> qr_login_state \<times> cookie_jar \<times> db \<Rightarrow>
     qr_login_state \<times> cookie_jar \<times> db" where
  "handle_status E cf v t status now_shown =
     (case now_shown of (shown, jar, s) \<Rightarrow>
        (case status of
           LR_DENIED \<Rightarrow> (QrDenied, jar, s)
         | LR_EXPIRED \<Rightarrow> (QrExpired, jar, s)
         | LR_PENDING \<Rightarrow> (shown, jar, s)
         | LR_APPROVED \<Rightarrow>
             (case api_fetch E cf v (PublicCall (PostExchangeRequest t)) jar s of
                (Inr (SessionBody tok), rest) \<Rightarrow> (QrSuccess tok, rest)
              | (Inr _, rest) \<Rightarrow> (QrApproved t, rest)
              | (Inl e, rest) \<Rightarrow> (QrError (api_message e), rest))))"

section \<open>What goes wrong\<close>

definition demo_visitor :: visitor where
  "demo_visitor = \<lparr>vs_ip = None, vs_agent = None, vs_device = None\<rparr>"

definition demo_jar :: cookie_jar where
  "demo_jar = (\<lambda>k. if k = RefreshCookie then Some (''tok'', 2000) else None)"

definition demo_signed_in :: db where
  "demo_signed_in = demo_db\<lparr>sessions := [(demo_session ''s1'' ''m1'' ''tok'' None)\<lparr>s_expires := 2000\<rparr>]\<rparr>"

text \<open>
  The refresh in flight is shared by the calls of one tab only. A second tab that sent its refresh
  with the same cookie is refused, shows the visitor as signed out, and the session is open.
\<close>

lemma two_tabs_race:
  "(case api_fetch (demo_env 5) demo_config demo_visitor refresh_call demo_jar demo_signed_in of
      (r1, jar1, s1) \<Rightarrow>
        (case authed_fetch (demo_env 6) (demo_env 6) (demo_env 6) demo_config demo_visitor (MemberCall GetMe) demo_jar s1 of
           (r2, jar2, s2) \<Rightarrow>
             \<not> unauthorized r1 \<and> unauthorized r2 \<and> resolve_auth r2 = Unauthenticated \<and>
             resolve_auth (fst (api_fetch (demo_env 7) demo_config demo_visitor (MemberCall GetMe) jar1 s2)) =
               Authenticated ''NDY-MBR-AAAAA4'' False \<and>
             map_option s_revoked_at (find_session ''ABCDE0'' s2) = Some None))"
  by code_simp

text \<open>An approval that arrives twice, by socket and poll, turns a completed sign-in into an error.\<close>

definition demo_approved :: db where
  "demo_approved =
     snd (approve_login_request (demo_env 2) ''ABCDE0'' ''m1'' (snd (create_login_request (demo_env 1) QR None None None demo_db)))"

lemma qr_login_shown_as_failed:
  "(let once = handle_status (demo_env 3) demo_config demo_visitor ''ABCDE0'' LR_APPROVED (QrPending ''ABCDE0'' 9, Map.empty, demo_approved);
        twice = handle_status (demo_env 4) demo_config demo_visitor ''ABCDE0'' LR_APPROVED once
    in (case fst once of QrSuccess tok \<Rightarrow> True | _ \<Rightarrow> False) \<and>
       fst twice = QrError ''This login request was already exchanged for a session.'' \<and>
       map_option s_revoked_at (find_session ''ABCDE0'' (snd (snd twice))) = Some None)"
  by code_simp

section \<open>An example\<close>

text \<open>One call without an access cookie: refused, refreshed, sent again, answered.\<close>

definition demo_refreshed :: "route_result \<times> db" where
  "demo_refreshed = auth_route (demo_env 7) demo_config (page_request demo_visitor None (Some ''tok'')) refresh_call demo_signed_in"

definition demo_waiting :: page where
  "demo_waiting = set_call 0 Waiting (set_call 0 (Sent None) (opened_page [GetMe] demo_jar demo_signed_in))
     \<lparr>pg_db := demo_signed_in, pg_refresh := RefreshSent (Some ''tok'')\<rparr>"

lemma demo_page_run:
  "page_run demo_config demo_visitor (visit (\<lambda>x. x) 1000) (opened_page [GetMe] demo_jar demo_signed_in) 3
     (demo_waiting\<lparr>pg_db := snd demo_refreshed,
        pg_refresh := RefreshReply (fst (fst demo_refreshed)) (snd (fst demo_refreshed))\<rparr>)"
proof -
  let ?p = "opened_page [GetMe] demo_jar demo_signed_in"
  have w: "visit (\<lambda>x. x) 1000 (demo_env 5)" "visit (\<lambda>x. x) 1000 (demo_env 6)" "visit (\<lambda>x. x) 1000 (demo_env 7)"
    by (simp_all add: visit_def demo_env_def refresh_token_ttl_def days_def)
  have c: "call_is 0 Ready ?p" "call_is 0 (Sent None) (set_call 0 (Sent None) ?p)"
    by (simp_all add: call_is_def opened_page_def set_call_def)
  have sent: "cookie_sent (demo_env 5) (pg_jar ?p) AccessCookie = None"
    "cookie_sent (demo_env 6) (pg_jar (set_call 0 (Sent None) ?p)) RefreshCookie = Some ''tok''"
    by (simp_all add: cookie_sent_def opened_page_def demo_jar_def set_call_def demo_env_def)
  have m: "member_answer (demo_env 6) demo_config demo_visitor None 0 (set_call 0 (Sent None) ?p) =
      (Inl (ApiError ''Missing bearer token.'' 401), demo_signed_in)"
    by (simp add: member_answer_def opened_page_def set_call_def members_only auth_route_def with_cookies_def
        jwt_auth_guard_def page_request_def extract_bearer_token_def truthy_iff api_result_of_def)
  have new: "new_refresh_token (demo_env 7) (pg_db demo_waiting)"
    by code_simp
  have s1: "page_step demo_config demo_visitor (demo_env 5) ?p (set_call 0 (Sent None) ?p)"
    using page_step.send [OF c(1), of demo_config demo_visitor "demo_env 5"] sent(1) by simp
  have s2: "page_step demo_config demo_visitor (demo_env 6) (set_call 0 (Sent None) ?p) demo_waiting"
    using page_step.start_refresh [OF c(2) m] sent(2)
    by (simp add: unauthorized_def opened_page_def set_call_def demo_waiting_def)
  have s3: "page_step demo_config demo_visitor (demo_env 7) demo_waiting
      (demo_waiting\<lparr>pg_db := snd demo_refreshed,
        pg_refresh := RefreshReply (fst (fst demo_refreshed)) (snd (fst demo_refreshed))\<rparr>)"
    by (rule page_step.refresh_handled [where t = "Some ''tok''", OF _ new])
      (simp_all add: demo_waiting_def demo_refreshed_def opened_page_def set_call_def)
  note step = page_run.step [where W = "visit (\<lambda>x. x) 1000"]
  show ?thesis
    using step [OF step [OF step [OF page_run.start w(1) s1] w(2) s2] w(3) s3]
    by (simp only: numeral_3_eq_3)
qed

theorem page_keeps_its_session_witness:
  "no_failed_refresh demo_waiting"
proof -
  have "alive (\<lambda>x. x) 1000 ''tok'' demo_signed_in"
    by (simp add: alive_def demo_signed_in_def find_session_def demo_session_def user_ids_def demo_db_def demo_user_def)
  then have "holds_session (\<lambda>x. x) 1000 demo_jar demo_signed_in"
    by (simp add: holds_session_def demo_jar_def)
  with page_keeps_its_session [OF demo_page_run] show ?thesis
    by (auto simp: no_failed_refresh_def list_all_iff)
qed

text \<open>In the run above the one call waits, its refresh has been answered, and the page goes on.\<close>

definition demo_handled :: page where
  "demo_handled = demo_waiting\<lparr>pg_db := snd demo_refreshed,
     pg_refresh := RefreshReply (fst (fst demo_refreshed)) (snd (fst demo_refreshed))\<rparr>"

theorem page_load_settles_witness:
  "(GetMe, Waiting) \<in> set (pg_calls demo_handled) \<and> pg_refresh demo_handled \<noteq> Idle \<and> \<not> settled demo_handled \<and>
   (\<exists>p'. page_step demo_config demo_visitor ((demo_env 8)\<lparr>draw := \<lambda>_ _. ''new''\<rparr>) demo_handled p')"
proof -
  have call: "(GetMe, Waiting) \<in> set (pg_calls demo_handled)" and open_: "\<not> settled demo_handled"
    by (simp_all add: demo_handled_def demo_waiting_def opened_page_def set_call_def settled_def)
  have "new_refresh_token ((demo_env 8)\<lparr>draw := \<lambda>_ _. ''new''\<rparr>) (pg_db demo_handled)"
    by code_simp
  with page_load_settles [OF demo_page_run [folded demo_handled_def]] call open_ show ?thesis by blast
qed

end
