(* ===== verification/Bridge.thy ===== *)
theory Bridge
  imports Economy Sessions
begin

text \<open>
  The bridge engine, \<^verbatim>\<open>ndy-economy/bridge-eligibility.service.ts\<close> and
  \<^verbatim>\<open>ndy-economy/bridge-request.service.ts\<close>: requests to convert one currency into another, which stop
  at the decision whether they are eligible. Amounts, rates and reserves are integers in the last
  decimal place of their columns (eight decimals).
\<close>

section \<open>Eligibility\<close>

text \<open>
  \<^verbatim>\<open>Decimal.toString\<close> of an amount of eight decimals: plain notation, but an exponent below
  one millionth.
\<close>

definition trim_zeros :: "string \<Rightarrow> string" where
  "trim_zeros t = rev (dropWhile (\<lambda>c. c = CHR ''0'') (rev t))"

function digits_of :: "int \<Rightarrow> string" where
  "digits_of a = (if a < 10 then [digit_char (nat a)] else digits_of (a div 10) @ [digit_char (nat (a mod 10))])"
  by pat_completeness auto

termination by (relation "measure nat") auto

declare digits_of.simps [simp del]

definition decimal_digits :: "int \<Rightarrow> string" where
  "decimal_digits a =
     (if a = 0 then ''0''
      else if a < 10 then digits_of a @ ''e-8''
      else if a < 100 then digits_of (a div 10) @ (if a mod 10 = 0 then [] else ''.'' @ digits_of (a mod 10)) @ ''e-7''
      else
        let frac = trim_zeros (pad_start 8 CHR ''0'' (digits_of (a mod 100000000)))
        in digits_of (a div 100000000) @ (if frac = [] then [] else ''.'' @ frac))"

definition decimal_string :: "int \<Rightarrow> string" where
  "decimal_string a = (if a < 0 then ''-'' @ decimal_digits (- a) else decimal_digits a)"

record eligibility =
  el_eligible :: bool
  el_reason :: "string option"
  el_cooling :: "time option"

definition ineligible :: "string \<Rightarrow> eligibility" where
  "ineligible why = \<lparr>el_eligible = False, el_reason = Some why, el_cooling = None\<rparr>"

definition find_policy :: "string \<Rightarrow> db \<Rightarrow> conversion_policy option" where
  "find_policy d s = find_row (\<lambda>p. pol_direction p = d) (policies s)"

definition bridge_window :: time where
  "bridge_window = 24 * 60 * 60 * 1000"

definition counted_statuses :: "bridge_status list" where
  "counted_statuses = [BR_ELIGIBLE, BR_APPROVED, BR_EXECUTED]"

definition used_today :: "env \<Rightarrow> id \<Rightarrow> string \<Rightarrow> db \<Rightarrow> int" where
  "used_today E uid d s =
     sum_list (map br_amount (filter (\<lambda>r. br_user r = uid \<and> br_direction r = d \<and>
       now E - bridge_window \<le> br_created_at r \<and> br_status r \<in> set counted_statuses) (bridge_requests s)))"

text \<open>
  \<^verbatim>\<open>reserve < amount / rate\<close> without rounding. Division by a rate of zero gives an infinity with the
  sign of the amount, or NaN, which is above no reserve.
\<close>

definition reserve_short :: "int \<Rightarrow> int \<Rightarrow> int \<Rightarrow> bool" where
  "reserve_short reserve rate amount =
     (if rate = 0 then 0 < amount
      else if 0 < rate then reserve * rate < amount * 100000000
      else amount * 100000000 < reserve * rate)"

definition check_eligibility :: "env \<Rightarrow> id \<Rightarrow> string \<Rightarrow> int \<Rightarrow> db \<Rightarrow> eligibility" where
  "check_eligibility E uid d amount s =
     (case find_policy d s of
        None \<Rightarrow> ineligible (''No conversion policy exists for \"'' @ d @ ''\".'')
      | Some p \<Rightarrow>
          if \<not> pol_enabled p
          then ineligible ''This bridge is not currently active - architecture is ready, pending legal/compliance review before activation.''
          else if pol_min p \<noteq> None \<and> amount < the (pol_min p)
          then ineligible (''Minimum bridge amount is '' @ decimal_string (the (pol_min p)) @ ''.'')
          else if pol_cap p \<noteq> None \<and> the (pol_cap p) < used_today E uid d s + amount
          then ineligible (''This request would exceed your daily bridge limit of '' @
                 decimal_string (the (pol_cap p)) @ ''.'')
          else if reserve_short (pol_reserve p) (pol_rate p) amount
          then ineligible ''Bridge reserve is currently insufficient for this conversion.''
          else \<lparr>el_eligible = True, el_reason = None, el_cooling = None\<rparr>)"

section \<open>Requests\<close>

definition find_bridge_ref :: "string \<Rightarrow> db \<Rightarrow> bridge_request option" where
  "find_bridge_ref t s = find_row (\<lambda>r. br_ref r = t) (bridge_requests s)"

definition generate_bridge_ref :: "env \<Rightarrow> nat \<Rightarrow> string" where
  "generate_bridge_ref E n =
     ''NBR-'' @ digits_of (fst (utc_year_month (now E))) @ ''-'' @ draw E ReferenceDraw n"

definition bridge_ref_retries :: nat where
  "bridge_ref_retries = 5"

text \<open>The last reference drawn is taken unchecked.\<close>

fun draw_bridge_ref :: "env \<Rightarrow> nat \<Rightarrow> nat \<Rightarrow> db \<Rightarrow> string" where
  "draw_bridge_ref E n 0 s = generate_bridge_ref E n"
| "draw_bridge_ref E n (Suc k) s =
     (if find_bridge_ref (generate_bridge_ref E n) s = None then generate_bridge_ref E n
      else draw_bridge_ref E (Suc n) k s)"

definition new_bridge_request :: "env \<Rightarrow> id \<Rightarrow> string \<Rightarrow> int \<Rightarrow> db \<Rightarrow> bridge_request" where
  "new_bridge_request E uid d amount s =
     (let el = check_eligibility E uid d amount s
      in \<lparr>br_id = new_id E T_BridgeRequest 0, br_user = uid, br_direction = d, br_amount = amount,
          br_rate = (case find_policy d s of None \<Rightarrow> 0 | Some p \<Rightarrow> pol_rate p),
          br_status = (if el_eligible el then BR_ELIGIBLE else BR_INELIGIBLE), br_note = el_reason el,
          br_cooling = el_cooling el, br_ref = draw_bridge_ref E 0 bridge_ref_retries s,
          br_created_at = now E, br_resolved_at = Some (now E)\<rparr>)"

definition create_bridge_request :: "env \<Rightarrow> id \<Rightarrow> string \<Rightarrow> int \<Rightarrow> (db, bridge_request) handler" where
  "create_bridge_request E uid d amount s =
     (let r = new_bridge_request E uid d amount s
      in if exists_row (\<lambda>x. br_id x = br_id r \<or> br_ref x = br_ref r) (bridge_requests s)
         then (throw unique_violation, s)
         else if find_user uid s = None then (throw foreign_key_error, s)
         else (ok r, s\<lparr>bridge_requests := bridge_requests s @ [r]\<rparr>))"

definition get_bridge_request :: "id \<Rightarrow> id \<Rightarrow> db \<Rightarrow> bridge_request reply" where
  "get_bridge_request uid i s =
     (case find_row (\<lambda>r. br_id r = i) (bridge_requests s) of
        None \<Rightarrow> throw (NotFound ''No bridge request with that id.'')
      | Some r \<Rightarrow>
          if br_user r \<noteq> uid then throw (NotFound ''No bridge request with that id.'') else ok r)"

definition list_bridge_requests :: "id \<Rightarrow> db \<Rightarrow> bridge_request list" where
  "list_bridge_requests uid s =
     take 50 (rev (sort_key br_created_at (filter (\<lambda>r. br_user r = uid) (bridge_requests s))))"

datatype bridge_op = CreateBridge id string int | CheckBridge id string int

fun bridge_step :: "env \<times> bridge_op \<Rightarrow> db \<Rightarrow> bool \<times> db" where
  "bridge_step (E, CreateBridge u d a) s = answered (create_bridge_request E u d a s)"
| "bridge_step (E, CheckBridge u d a) s = (el_eligible (check_eligibility E u d a s), s)"

section \<open>The daily cap\<close>

definition bridged_in :: "time \<Rightarrow> time \<Rightarrow> id \<Rightarrow> string \<Rightarrow> db \<Rightarrow> int" where
  "bridged_in a b u d s =
     sum_list (map br_amount (filter (\<lambda>r. br_user r = u \<and> br_direction r = d \<and> a \<le> br_created_at r \<and>
       br_created_at r \<le> b \<and> br_status r = BR_ELIGIBLE) (bridge_requests s)))"

fun amount_not_negative :: "env \<times> bridge_op \<Rightarrow> bool" where
  "amount_not_negative (_, CreateBridge _ _ a) = (0 \<le> a)"
| "amount_not_negative _ = True"

text \<open>Requests so far: decided, of no negative amount, and none later than \<open>t\<close>.\<close>

definition bridge_ok :: "time \<Rightarrow> db \<Rightarrow> bool" where
  "bridge_ok t s = (\<forall>r \<in> set (bridge_requests s). br_created_at r \<le> t \<and> 0 \<le> br_amount r \<and>
     (br_status r = BR_ELIGIBLE \<or> br_status r = BR_INELIGIBLE))"

lemma sum_filter_mono:
  fixes f :: "'r \<Rightarrow> int"
  assumes "\<And>r. r \<in> set rows \<Longrightarrow> 0 \<le> f r" and "\<And>r. r \<in> set rows \<Longrightarrow> P r \<Longrightarrow> Q r"
  shows "sum_list (map f (filter P rows)) \<le> sum_list (map f (filter Q rows))"
  using assms by (induction rows) (auto simp: add_increasing)

lemma bridge_step_cases:
  obtains (same) "snd (bridge_step (E, a) s) = s"
  | (created) u d n where "a = CreateBridge u d n"
      "bridge_requests (snd (bridge_step (E, a) s)) = bridge_requests s @ [new_bridge_request E u d n s]"
      "policies (snd (bridge_step (E, a) s)) = policies s"
proof (cases a)
  case (CreateBridge u d n)
  have "snd (create_bridge_request E u d n s) = s \<or>
    snd (create_bridge_request E u d n s) =
      s\<lparr>bridge_requests := bridge_requests s @ [new_bridge_request E u d n s]\<rparr>"
    by (simp add: create_bridge_request_def Let_def)
  then show thesis
  proof
    assume "snd (create_bridge_request E u d n s) = s"
    with CreateBridge show thesis by (intro that(1)) simp
  next
    assume "snd (create_bridge_request E u d n s) =
      s\<lparr>bridge_requests := bridge_requests s @ [new_bridge_request E u d n s]\<rparr>"
    with CreateBridge show thesis by (intro that(2)) simp_all
  qed
next
  case (CheckBridge u d n)
  then show thesis by (intro that(1)) simp
qed

lemma new_bridge_fields [simp]:
  "br_user (new_bridge_request E u d n s) = u" "br_direction (new_bridge_request E u d n s) = d"
  "br_amount (new_bridge_request E u d n s) = n" "br_created_at (new_bridge_request E u d n s) = now E"
  "br_status (new_bridge_request E u d n s) =
     (if el_eligible (check_eligibility E u d n s) then BR_ELIGIBLE else BR_INELIGIBLE)"
  by (simp_all add: new_bridge_request_def Let_def)

lemma eligible_below_cap:
  assumes "el_eligible (check_eligibility E u d n s)" and "find_policy d s = Some p" and "pol_cap p = Some cap"
  shows "pol_enabled p" and "used_today E u d s + n \<le> cap"
  using assms by (auto simp: check_eligibility_def ineligible_def split: if_splits)

lemma new_request_keeps_cap:
  assumes "bridge_ok (now E) s" and "0 \<le> n" and "find_policy d s = Some p" and "pol_cap p = Some cap"
    and "bridged_in (t - bridge_window) t u d s \<le> cap"
  shows "bridged_in (t - bridge_window) t u d
      (s'\<lparr>bridge_requests := bridge_requests s @ [new_bridge_request E v e n s]\<rparr>) \<le> cap"
proof (cases "v = u \<and> e = d \<and> t - bridge_window \<le> now E \<and> now E \<le> t \<and> el_eligible (check_eligibility E v e n s)")
  case True
  then have "used_today E u d s + n \<le> cap"
    using eligible_below_cap(2) [OF _ assms(3,4)] by blast
  moreover have "bridged_in (t - bridge_window) t u d s \<le> used_today E u d s"
    unfolding bridged_in_def used_today_def
    by (rule sum_filter_mono) (use assms(1) True in \<open>auto simp: bridge_ok_def counted_statuses_def\<close>)
  ultimately show ?thesis using True by (auto simp: bridged_in_def)
next
  case False
  then show ?thesis using assms(5) by (auto simp: bridged_in_def)
qed

lemma bridge_ok_later: "bridge_ok t s \<Longrightarrow> t \<le> t' \<Longrightarrow> bridge_ok t' s"
  by (fastforce simp: bridge_ok_def)

lemma bridge_run_ok:
  assumes "bridge_ok t0 s" and "find_policy d s = Some p" and "pol_cap p = Some cap"
    and "\<forall>t. bridged_in (t - bridge_window) t u d s \<le> cap"
    and "sorted (t0 # map (now \<circ> fst) ops)" and "list_all amount_not_negative ops"
  defines "s' \<equiv> run_ops bridge_step ops s"
  shows "(\<exists>t1. bridge_ok t1 s') \<and> (\<forall>t. bridged_in (t - bridge_window) t u d s' \<le> cap)"
  using assms(1-6) unfolding s'_def
proof (induction ops arbitrary: s t0)
  case (Cons a ops)
  obtain E b where a: "a = (E, b)" by (cases a)
  have ok: "bridge_ok (now E) s" using Cons.prems(1,5) a by (auto intro: bridge_ok_later)
  have "bridge_ok (now E) (snd (bridge_step a s)) \<and> find_policy d (snd (bridge_step a s)) = Some p \<and>
    (\<forall>t. bridged_in (t - bridge_window) t u d (snd (bridge_step a s)) \<le> cap)"
  proof (cases rule: bridge_step_cases [of E b s])
    case same
    with ok Cons.prems(2,4) a show ?thesis by simp
  next
    case (created v e n)
    have n: "0 \<le> n" using Cons.prems(6) a created(1) by simp
    have "bridged_in (t - bridge_window) t u d (snd (bridge_step a s)) \<le> cap" for t
      using new_request_keeps_cap [OF ok n Cons.prems(2,3), where t = t and u = u and s' = "snd (bridge_step a s)" and v = v and e = e] Cons.prems(4)
        created(2) by (simp add: a bridged_in_def)
    moreover have "bridge_ok (now E) (snd (bridge_step a s))"
      using ok n created(2) by (auto simp: a bridge_ok_def)
    ultimately show ?thesis
      using created(3) Cons.prems(2) by (simp add: a find_policy_def)
  qed
  then show ?case
    using Cons.IH [of "now E" "snd (bridge_step a s)"] Cons.prems(3,5,6) a by simp
qed auto

text \<open>
  C36. The daily cap of a bridge holds in every 24 hours, and nothing is ever executed. Whatever
  accounts ask for, in any order, if amounts are not negative and the clock does not run backwards,
  the eligible requests of an account in any window of 24 hours add up to at most the cap of the
  policy, and every request ends as eligible or ineligible.
\<close>

theorem bridge_cap_holds:
  assumes "bridge_requests s = []" and "find_policy d s = Some p" and "pol_cap p = Some cap" and "0 \<le> cap"
    and "sorted (map (now \<circ> fst) ops)" and "list_all amount_not_negative ops"
  shows "bridged_in (t - bridge_window) t u d (run_ops bridge_step ops s) \<le> cap \<and>
    list_all (\<lambda>r. br_status r = BR_ELIGIBLE \<or> br_status r = BR_INELIGIBLE)
      (bridge_requests (run_ops bridge_step ops s))"
proof -
  obtain t0 where t0: "sorted (t0 # map (now \<circ> fst) ops)"
    using assms(5) by (cases ops) (auto intro: that)
  have "bridge_ok t0 s" "\<forall>t. bridged_in (t - bridge_window) t u d s \<le> cap"
    using assms(1,4) by (simp_all add: bridge_ok_def bridged_in_def)
  from bridge_run_ok [OF this(1) assms(2,3) this(2) t0 assms(6)] show ?thesis
    by (auto simp: bridge_ok_def list_all_iff)
qed

section \<open>What goes wrong\<close>

definition bridge_policy :: conversion_policy where
  "bridge_policy = \<lparr>pol_direction = ''NDYBITS_TO_CRYNDY'', pol_rate = 1000000000, pol_min = None, pol_cap = Some 300,
     pol_reserve = 20, pol_enabled = True\<rparr>"

definition bridge_demo :: db where
  "bridge_demo = demo_db\<lparr>policies := [bridge_policy]\<rparr>"

definition bridge_env :: "int \<Rightarrow> env" where
  "bridge_env t = (demo_env t)\<lparr>new_id := \<lambda>_ _. ''b'' @ string_of_nat (nat t), draw := \<lambda>_ _. ''R'' @ string_of_nat (nat t)\<rparr>"

definition bridge_asks :: "int list \<Rightarrow> (env \<times> bridge_op) list" where
  "bridge_asks xs = map (\<lambda>(t, a). (bridge_env (int t), CreateBridge ''m1'' ''NDYBITS_TO_CRYNDY'' a)) (enumerate 1 xs)"

definition bridge_verdicts :: "int list \<Rightarrow> bool list" where
  "bridge_verdicts xs = map (\<lambda>r. br_status r = BR_ELIGIBLE) (bridge_requests (run_ops bridge_step (bridge_asks xs) bridge_demo))"

text \<open>\<^verbatim>\<open>IsNumberString\<close> lets negative amounts through: one of them makes room under the cap.\<close>

lemma negative_amount_widens_cap:
  "bridge_verdicts [150, 160] = [True, False] \<and> bridge_verdicts [-200, 150, 160] = [True, True, True]"
  by code_simp

text \<open>The reserve covers each request on its own; together they promise more than there is.\<close>

lemma reserve_promised_twice:
  "bridge_verdicts [150, 150] = [True, True] \<and> reserve_short (pol_reserve bridge_policy) (pol_rate bridge_policy) (150 + 150)"
  by code_simp

theorem bridge_cap_holds_witness:
  "bridged_in (4 - bridge_window) 4 ''m1'' ''NDYBITS_TO_CRYNDY'' (run_ops bridge_step (bridge_asks [150, 160, 140]) bridge_demo) \<le> 300"
proof -
  have "bridge_requests bridge_demo = []" "find_policy ''NDYBITS_TO_CRYNDY'' bridge_demo = Some bridge_policy"
    "pol_cap bridge_policy = Some 300" "sorted (map (now \<circ> fst) (bridge_asks [150, 160, 140]))"
    "list_all amount_not_negative (bridge_asks [150, 160, 140])"
    by code_simp+
  from bridge_cap_holds [OF this(1,2,3) _ this(4,5)] show ?thesis by simp
qed

end
