(* ===== verification/Care.thy ===== *)
theory Care
  imports Isolation AuthRoutes AppTokens
begin

text \<open>
  What an account keeps with the hub and how it leaves: personal memory (\<^verbatim>\<open>memory/memory.service.ts\<close>),
  support tickets (\<^verbatim>\<open>support/support.service.ts\<close>), the data export and the deletion of the account
  (\<^verbatim>\<open>gdpr/gdpr.service.ts\<close>).
\<close>

section \<open>Memory\<close>

definition memory_table :: "user_memory owned" where
  "memory_table = \<lparr>ow_key = me_id, ow_owner = me_user, ow_get = memories, ow_set = memories_update,
     ow_missing = ''No memory with that id.''\<rparr>"

definition create_memory :: "env \<Rightarrow> id \<Rightarrow> memory_type \<Rightarrow> string \<Rightarrow> string option \<Rightarrow> (db, user_memory) handler" where
  "create_memory E uid t content source =
     insert_owned memory_table
       \<lparr>me_id = new_id E T_Memory 0, me_user = uid, me_type = t, me_content = content, me_source = source,
        me_enabled = True, me_created_at = now E\<rparr>"

definition list_memories :: "id \<Rightarrow> db \<Rightarrow> user_memory list" where
  "list_memories uid s = rev (sort_key me_created_at (mine memory_table uid s))"

definition active_memories :: "id \<Rightarrow> db \<Rightarrow> user_memory list" where
  "active_memories uid s = rev (sort_key me_created_at (filter me_enabled (mine memory_table uid s)))"

definition update_memory :: "id \<Rightarrow> id \<Rightarrow> string \<Rightarrow> (db, user_memory) handler" where
  "update_memory uid i content = update_owned memory_table uid i (\<lambda>x. x\<lparr>me_content := content\<rparr>)"

definition set_memory_enabled :: "id \<Rightarrow> id \<Rightarrow> bool \<Rightarrow> (db, user_memory) handler" where
  "set_memory_enabled uid i b = update_owned memory_table uid i (\<lambda>x. x\<lparr>me_enabled := b\<rparr>)"

datatype memory_op =
    CreateMemory memory_type string "string option" | UpdateMemory id string | RemoveMemory id
  | EnableMemory id | DisableMemory id

fun memory_step :: "env \<times> id \<times> memory_op \<Rightarrow> db \<Rightarrow> bool \<times> db" where
  "memory_step (E, uid, CreateMemory t c src) s = answered (create_memory E uid t c src s)"
| "memory_step (E, uid, UpdateMemory i c) s = answered (update_memory uid i c s)"
| "memory_step (E, uid, RemoveMemory i) s = answered (remove_owned memory_table uid i s)"
| "memory_step (E, uid, EnableMemory i) s = answered (set_memory_enabled uid i True s)"
| "memory_step (E, uid, DisableMemory i) s = answered (set_memory_enabled uid i False s)"

interpretation memory_rows: owned_table memory_table
  by unfold_locales (simp_all add: memory_table_def)

lemma memory_columns:
  "ow_key memory_table = me_id" "ow_owner memory_table = me_user"
  "ow_get memory_table = memories" "ow_set memory_table = memories_update"
  by (simp_all add: memory_table_def)

lemma memory_key_kept:
  "ow_key memory_table (x\<lparr>me_content := c\<rparr>) = ow_key memory_table x"
  "ow_key memory_table (x\<lparr>me_enabled := b\<rparr>) = ow_key memory_table x"
  "ow_owner memory_table (x\<lparr>me_content := c\<rparr>) = ow_owner memory_table x"
  "ow_owner memory_table (x\<lparr>me_enabled := b\<rparr>) = ow_owner memory_table x"
  by (simp_all add: memory_columns)

lemma memory_step_private:
  assumes "memory_rows.keys s" and "v \<noteq> uid"
  shows "memory_rows.keys (snd (memory_step (E, uid, a) s)) \<and>
    mine memory_table v (snd (memory_step (E, uid, a) s)) = mine memory_table v s"
  by (cases a)
    (use assms in \<open>simp_all add: create_memory_def update_memory_def set_memory_enabled_def memory_rows.keys_insert
      memory_rows.keys_update memory_rows.keys_remove memory_rows.others_insert memory_rows.others_update
      memory_rows.others_remove memory_key_kept memory_columns(2)\<close>)

text \<open>Nobody else's requests change what an account or a consumer reading for it sees.\<close>

lemma memory_is_private:
  assumes "memory_rows.keys s" and "list_all (\<lambda>a. fst (snd a) \<noteq> v) ops"
  shows "list_memories v (run_ops memory_step ops s) = list_memories v s"
    and "active_memories v (run_ops memory_step ops s) = active_memories v s"
proof -
  have "memory_rows.keys (run_ops memory_step ops s) \<and>
      mine memory_table v (run_ops memory_step ops s) = mine memory_table v s"
    using assms
  proof (induction ops arbitrary: s)
    case (Cons a ops)
    obtain E u b where "a = (E, u, b)" by (cases a)
    with Cons memory_step_private [of s v u E b] show ?case by auto
  qed simp
  then show "list_memories v (run_ops memory_step ops s) = list_memories v s"
    and "active_memories v (run_ops memory_step ops s) = active_memories v s"
    by (simp_all add: list_memories_def active_memories_def)
qed

section \<open>Support tickets\<close>

definition create_ticket :: "env \<Rightarrow> id \<Rightarrow> string \<Rightarrow> string \<Rightarrow> (db, support_ticket) handler" where
  "create_ticket E uid subject message s =
     (let t = \<lparr>tk_id = new_id E T_Ticket 0, tk_user = uid, tk_subject = subject, tk_message = message,
               tk_status = ST_OPEN, tk_reply = None, tk_replied_at = None, tk_created_at = now E\<rparr>
      in if exists_row (\<lambda>x. tk_id x = tk_id t) (tickets s) then (throw unique_violation, s)
         else if find_user uid s = None then (throw foreign_key_error, s)
         else (ok t, s\<lparr>tickets := tickets s @ [t]\<rparr>))"

definition list_my_tickets :: "id \<Rightarrow> db \<Rightarrow> support_ticket list" where
  "list_my_tickets uid s = rev (sort_key tk_created_at (filter (\<lambda>t. tk_user t = uid) (tickets s)))"

text \<open>Open tickets first, newest first among them.\<close>

definition admin_list_tickets :: "db \<Rightarrow> (support_ticket \<times> (string \<times> string) option) list" where
  "admin_list_tickets s =
     map (\<lambda>t. (t, map_option (\<lambda>u. (u_ndy_id u, u_email u)) (find_user (tk_user t) s)))
       (let newest = rev (sort_key tk_created_at (tickets s))
        in filter (\<lambda>t. tk_status t = ST_OPEN) newest @ filter (\<lambda>t. tk_status t = ST_RESOLVED) newest)"

definition reply_action :: string where
  "reply_action = ''support.ticket.reply''"

definition reply_to_ticket :: "env \<Rightarrow> admin_actor \<Rightarrow> id \<Rightarrow> string \<Rightarrow> (db, support_ticket) handler" where
  "reply_to_ticket E actor i reply s =
     (case find_row (\<lambda>t. tk_id t = i) (tickets s) of
        None \<Rightarrow> (throw (NotFound ''No support ticket with that id.''), s)
      | Some t \<Rightarrow>
          let answer = (\<lambda>t. t\<lparr>tk_reply := Some reply, tk_status := ST_RESOLVED, tk_replied_at := Some (now E)\<rparr>)
          in (ok (answer t),
              s\<lparr>tickets := update_rows (\<lambda>t. tk_id t = i) answer (tickets s),
                audit_log := audit_log s @
                  [\<lparr>al_admin_user = actor_id actor, al_admin_ndy_id = actor_ndy_id actor, al_action = reply_action,
                    al_target_user = Some (tk_user t), al_target_ndy_id = None, al_previous = None,
                    al_new = Some (JObj [(''ticketId'', JStr i), (''subject'', JStr (tk_subject t))]),
                    al_reason = None, al_ip = actor_ip actor, al_created_at = now E\<rparr>]\<rparr>))"

datatype support_op = CreateTicket id string string | ReplyTicket admin_actor id string

fun support_step :: "env \<times> support_op \<Rightarrow> db \<Rightarrow> bool \<times> db" where
  "support_step (E, CreateTicket u subject message) s = answered (create_ticket E u subject message s)"
| "support_step (E, ReplyTicket actor i reply) s = answered (reply_to_ticket E actor i reply s)"

section \<open>Data export\<close>

record exported_session =
  xs_agent :: "string option"
  xs_ip :: "string option"
  xs_created_at :: time
  xs_expires :: time
  xs_revoked_at :: "time option"

record data_export =
  xp_at :: time
  xp_ndy_id :: string
  xp_email :: string
  xp_name :: "string option"
  xp_photo :: "string option"
  xp_level :: verification_level
  xp_ndyapps :: bool
  xp_created_at :: time
  xp_sessions :: "exported_session list"
  xp_memberships :: "membership list"
  xp_purchases :: "cryndy_purchase list"
  xp_ledger :: "ledger_entry list"
  xp_websites :: "(string \<times> string \<times> string \<times> time) list"

definition newest_of :: "('r \<Rightarrow> time) \<Rightarrow> ('r \<Rightarrow> bool) \<Rightarrow> 'r list \<Rightarrow> 'r list" where
  "newest_of created P rows = rev (sort_key created (filter P rows))"

definition export_session :: "session \<Rightarrow> exported_session" where
  "export_session x = \<lparr>xs_agent = s_user_agent x, xs_ip = s_ip x, xs_created_at = s_created_at x,
     xs_expires = s_expires x, xs_revoked_at = s_revoked_at x\<rparr>"

definition connected_website :: "db \<Rightarrow> oauth_grant \<Rightarrow> (string \<times> string \<times> string \<times> time) option" where
  "connected_website s g =
     map_option (\<lambda>c. (oc_name c, oc_client_id c, og_scope g, og_created_at g))
       (find_row (\<lambda>c. oc_id c = og_client g) (oauth_clients s))"

definition export_user_data :: "env \<Rightarrow> id \<Rightarrow> db \<Rightarrow> data_export reply" where
  "export_user_data E uid s =
     (case find_user uid s of
        None \<Rightarrow> throw (NotFound ''User not found.'')
      | Some u \<Rightarrow>
          ok \<lparr>xp_at = now E, xp_ndy_id = u_ndy_id u, xp_email = u_email u, xp_name = full_name (u_passport u),
              xp_photo = photo_url (u_passport u), xp_level = u_level u, xp_ndyapps = u_ndyapps_connected u,
              xp_created_at = u_created_at u,
              xp_sessions = map export_session (newest_of s_created_at (\<lambda>x. s_user x = uid) (sessions s)),
              xp_memberships = newest_of ms_started_at (\<lambda>x. ms_user x = uid) (memberships s),
              xp_purchases = newest_of cp_created_at (\<lambda>x. cp_user x = uid) (purchases s),
              xp_ledger = newest_of le_created_at (\<lambda>x. le_user x = uid) (ledger s),
              xp_websites = List.map_filter (connected_website s)
                (newest_of og_created_at (\<lambda>g. og_user g = uid \<and> og_revoked_at g = None) (oauth_grants s))\<rparr>)"

section \<open>Deletion\<close>

definition deleted_email :: "env \<Rightarrow> string" where
  "deleted_email E = ''deleted-'' @ draw E DeletedEmailDraw 0 @ ''@ndyhub.invalid''"

text \<open>The update of the profile, inside a transaction: a taken address rolls everything back.\<close>

definition anonymize :: "env \<Rightarrow> user \<Rightarrow> user" where
  "anonymize E u =
     u\<lparr>u_email := deleted_email E, u_passport := (u_passport u)\<lparr>full_name := None, photo_url := None\<rparr>,
       u_password_hash := None, u_suspended := True, u_deleted_at := Some (now E)\<rparr>"

definition erase_account :: "env \<Rightarrow> id \<Rightarrow> db \<Rightarrow> db" where
  "erase_account E uid s =
     revoke_user_sessions E uid (s\<lparr>
       users := update_rows (\<lambda>u. u_id u = uid) (anonymize E) (users s),
       oauth_grants := update_rows (\<lambda>g. og_user g = uid \<and> og_revoked_at g = None)
         (\<lambda>g. g\<lparr>og_revoked_at := Some (now E)\<rparr>) (oauth_grants s),
       oauth_tokens := update_rows (\<lambda>t. ot_user t = uid \<and> ot_revoked_at t = None)
         (\<lambda>t. t\<lparr>ot_revoked_at := Some (now E)\<rparr>) (oauth_tokens s)\<rparr>)"

definition delete_account :: "env \<Rightarrow> id \<Rightarrow> string \<Rightarrow> (db, unit) handler" where
  "delete_account E uid pw s =
     (case find_user uid s of
        None \<Rightarrow> (throw (NotFound ''User not found.''), s)
      | Some u \<Rightarrow>
          if \<not> truthy (u_password_hash u)
          then (throw (BadRequest ''This account has no password set - it was created through NDYAPPS/Google/Apple. Contact support to delete it.''), s)
          else if \<not> bcrypt_compare E pw (the (u_password_hash u))
          then (throw (Unauthorized ''Current password is incorrect.''), s)
          else if exists_row (\<lambda>v. u_email v = deleted_email E \<and> u_id v \<noteq> uid) (users s)
          then (throw unique_violation, s)
          else (ok (), erase_account E uid s))"

section \<open>Replies are on record\<close>

fun replies :: "(env \<times> support_op) \<times> bool \<Rightarrow> bool" where
  "replies ((_, ReplyTicket _ _ _), done_ok) = done_ok"
| "replies _ = False"

definition replied :: "support_ticket \<Rightarrow> bool" where
  "replied t = (tk_status t = ST_RESOLVED \<longleftrightarrow> tk_reply t \<noteq> None)"

definition reply_count :: "db \<Rightarrow> nat" where
  "reply_count s = count_rows (\<lambda>e. al_action e = reply_action) (audit_log s)"

lemma create_ticket_audit:
  "reply_count (snd (create_ticket E u subject message s)) = reply_count s"
  "list_all replied (tickets s) \<Longrightarrow> list_all replied (tickets (snd (create_ticket E u subject message s)))"
  by (simp_all add: create_ticket_def Let_def reply_count_def replied_def)

lemma reply_to_ticket_audit:
  "reply_count (snd (reply_to_ticket E actor i reply s)) =
     reply_count s + (if accepted_reply (fst (reply_to_ticket E actor i reply s)) then 1 else 0)"
  "list_all replied (tickets s) \<Longrightarrow> list_all replied (tickets (snd (reply_to_ticket E actor i reply s)))"
  by (cases "find_row (\<lambda>t. tk_id t = i) (tickets s)";
      simp add: reply_to_ticket_def Let_def reply_count_def replied_def list_all_iff)+

lemma support_step_audit:
  "reply_count (snd (support_step a s)) = reply_count s + (if replies (a, fst (support_step a s)) then 1 else 0)"
  "list_all replied (tickets s) \<Longrightarrow> list_all replied (tickets (snd (support_step a s)))"
  by (cases a; cases "snd a"; simp add: create_ticket_audit reply_to_ticket_audit)+

text \<open>
  No support reply is off the record: over any run of tickets and replies the audit log gains
  exactly one entry per reply that was accepted, and a ticket is resolved if and only if it has a
  reply.
\<close>

theorem support_replies_audited:
  assumes "list_all replied (tickets s)"
  shows "reply_count (run_ops support_step ops s) = reply_count s + count_rows replies (run_log support_step ops s) \<and>
    list_all replied (tickets (run_ops support_step ops s))"
  using assms
  by (induction ops arbitrary: s) (simp_all add: support_step_audit)

definition demo_support :: "(env \<times> support_op) list" where
  "demo_support = [(demo_env 1, CreateTicket ''m1'' ''Help'' ''Please''),
     (demo_env 2, ReplyTicket \<lparr>actor_id = ''a1'', actor_ndy_id = ''x'', actor_ip = None\<rparr> ''id0'' ''Done''),
     (demo_env 3, ReplyTicket \<lparr>actor_id = ''a1'', actor_ndy_id = ''x'', actor_ip = None\<rparr> ''id7'' ''Done'')]"

theorem support_replies_audited_witness:
  "reply_count (run_ops support_step demo_support demo_db) = 1 \<and>
   list_all replied (tickets (run_ops support_step demo_support demo_db))"
proof -
  have "list_all replied (tickets demo_db)" by (simp add: demo_db_def empty_db_def)
  moreover have "reply_count demo_db = 0" "count_rows replies (run_log support_step demo_support demo_db) = 1"
    by code_simp+
  ultimately show ?thesis using support_replies_audited [of demo_db demo_support] by simp
qed

section \<open>A deleted account\<close>

lemma find_user_erased:
  assumes "find_user uid s = Some u"
  shows "find_user uid (erase_account E uid s) = Some (anonymize E u)"
proof -
  have "u_id u = uid" using assms find_row_Some_D unfolding find_user_def by fastforce
  then show ?thesis
    using assms by (simp add: find_user_def erase_account_def revoke_user_sessions_def find_row_update_keep anonymize_def)
qed

lemma erased_tables:
  "sessions (erase_account E uid s) =
     update_rows (\<lambda>x. s_user x = uid \<and> s_revoked_at x = None) (\<lambda>x. x\<lparr>s_revoked_at := Some (now E)\<rparr>) (sessions s)"
  "users (erase_account E uid s) = update_rows (\<lambda>u. u_id u = uid) (anonymize E) (users s)"
  "oauth_grants (erase_account E uid s) = update_rows (\<lambda>g. og_user g = uid \<and> og_revoked_at g = None)
     (\<lambda>g. g\<lparr>og_revoked_at := Some (now E)\<rparr>) (oauth_grants s)"
  "oauth_tokens (erase_account E uid s) = update_rows (\<lambda>t. ot_user t = uid \<and> ot_revoked_at t = None)
     (\<lambda>t. t\<lparr>ot_revoked_at := Some (now E)\<rparr>) (oauth_tokens s)"
  by (simp_all add: erase_account_def revoke_user_sessions_def)

lemma erased_sessions: "\<forall>x \<in> set (sessions (erase_account E uid s)). s_user x = uid \<longrightarrow> s_revoked_at x \<noteq> None"
  by (simp add: erased_tables)

lemma erased_grants: "\<forall>g \<in> set (oauth_grants (erase_account E uid s)). og_user g = uid \<longrightarrow> og_revoked_at g \<noteq> None"
  by (simp add: erased_tables)

lemma erased_tokens: "\<forall>k \<in> set (oauth_tokens (erase_account E uid s)). ot_user k = uid \<longrightarrow> ot_revoked_at k \<noteq> None"
  by (simp add: erased_tables)

lemma erased_users:
  "\<forall>v \<in> set (users (erase_account E uid s)). u_id v = uid \<longrightarrow> u_password_hash v = None \<and> u_suspended v"
  by (simp add: erased_tables anonymize_def)

text \<open>
  C37. Deleting an account closes it. The deletion needs the password; after it the profile has no
  name, photo, e-mail address or password, no password opens the account, every connection of an app
  and every app token there is is revoked, and no refresh token of a session the account has at that
  moment is ever exchanged again, whatever the session operations that follow.  (A session it is given
  later, as in \<open>deleted_account_gets_a_session\<close> below, is not covered.)
\<close>

theorem deleted_account_is_closed:
  assumes "delete_account E uid pw s = (Inr (), s')"
  shows "(\<exists>u v. find_user uid s = Some u \<and> password_matches E u pw \<and> find_user uid s' = Some v \<and>
      u_deleted_at v = Some (now E) \<and> u_suspended v \<and> u_password_hash v = None \<and> u_email v = deleted_email E \<and>
      full_name (u_passport v) = None \<and> photo_url (u_passport v) = None) \<and>
    (\<forall>v \<in> set (users s'). u_id v = uid \<longrightarrow>
      find_by_email (u_email v) s' = Some v \<longrightarrow> \<not> succeeds (login E2 (u_email v) pw2 m s')) \<and>
    (\<forall>g \<in> set (oauth_grants s'). og_user g = uid \<longrightarrow> og_revoked_at g \<noteq> None) \<and>
    (\<forall>k \<in> set (oauth_tokens s'). ot_user k = uid \<longrightarrow> ot_revoked_at k \<noteq> None) \<and>
    (\<forall>x. find_session (hash_token E' t) s' = Some x \<and> s_user x = uid \<longrightarrow>
      \<not> succeeds (rotate_session E' t m (run_ops session_step ops s')))"
proof -
  from assms obtain u where u: "find_user uid s = Some u" "truthy (u_password_hash u)"
      "bcrypt_compare E pw (the (u_password_hash u))" and s': "s' = erase_account E uid s"
    by (auto simp: delete_account_def split: option.splits if_splits)
  have "\<not> succeeds (rotate_session E' t m (run_ops session_step ops s'))"
    if x: "find_session (hash_token E' t) s' = Some x" "s_user x = uid" for x
  proof -
    have "x \<in> set (sessions s')"
      using x(1) unfolding find_session_def by (blast dest: find_row_Some_D)
    with x erased_sessions [of E uid s] have "token_spent (hash_token E' t) s'"
      by (auto simp: token_spent_def s')
    then have "token_spent (hash_token E' t) (run_ops session_step ops s')"
      by (rule refresh_rotation.spent_run [OF TrueI])
    then show ?thesis by (auto simp: token_spent_def rotate_session_def)
  qed
  moreover have "\<not> succeeds (login E2 (u_email v) pw2 m s')"
    if "v \<in> set (users s')" "u_id v = uid" "find_by_email (u_email v) s' = Some v" for v
    using erased_users [of E uid s] that
    by (auto simp: s' login_def check_password_def truthy_iff split: prod.splits)
  ultimately show ?thesis
    using u find_user_erased [OF u(1), of E] erased_grants [of E uid s] erased_tokens [of E uid s]
    by (auto simp: s' password_matches_def anonymize_def)
qed

definition leaving_db :: db where
  "leaving_db = (update_user ''m1'' (\<lambda>u. u\<lparr>u_sms_enabled_at := Some 1, u_sms_phone := Some ''+44'',
       u_challenge := Some ''t'', u_challenge_expires := Some 9,
       u_passport := (u_passport u)\<lparr>full_name := Some ''Ann'', bio := Some ''about'', bio_public := True\<rparr>\<rparr>) demo_db)
     \<lparr>login_requests := [\<lparr>lr_id = ''r1'', lr_token = ''q'', lr_method = QR, lr_status = LR_PENDING,
        lr_ip = None, lr_device = None, lr_browser = None, lr_location = None, lr_user = None, lr_expires = 99,
        lr_approved_at = None, lr_denied_at = None, lr_session_issued_at = None, lr_created_at = 0\<rparr>]\<rparr>"

theorem deleted_account_is_closed_witness:
  "\<exists>u v. find_user ''m1'' leaving_db = Some u \<and> password_matches (demo_env 5) u ''pw'' \<and>
     find_user ''m1'' (snd (delete_account (demo_env 5) ''m1'' ''pw'' leaving_db)) = Some v \<and> u_deleted_at v = Some 5"
proof -
  have "fst (delete_account (demo_env 5) ''m1'' ''pw'' leaving_db) = Inr ()" "now (demo_env 5) = 5" by code_simp+
  then have "delete_account (demo_env 5) ''m1'' ''pw'' leaving_db =
      (Inr (), snd (delete_account (demo_env 5) ''m1'' ''pw'' leaving_db))"
    by (metis prod.collapse)
  from deleted_account_is_closed [OF this, of "demo_env 6" "''x''" no_meta "demo_env 7" "''t''" "[]"]
  show ?thesis using \<open>now (demo_env 5) = 5\<close> by auto
qed

text \<open>
  What the deletion leaves open.  The rest of the profile stays, the public passport among it; a
  login challenge issued before the deletion, and a login request approved with an access token that
  has not expired, both end in a new session of the deleted account.
\<close>

lemma deletion_keeps_the_profile:
  "(case find_user ''m1'' (snd (delete_account (demo_env 5) ''m1'' ''pw'' leaving_db)) of
      None \<Rightarrow> False
    | Some u \<Rightarrow> pp_bio (public_view u (snd (delete_account (demo_env 5) ''m1'' ''pw'' leaving_db))) = Some ''about'' \<and>
        u_sms_phone u = Some ''+44'' \<and> u_suspended_at u = None)"
  by code_simp

lemma deleted_account_gets_a_session:
  "let s = snd (delete_account (demo_env 5) ''m1'' ''pw'' leaving_db)
   in succeeds (verify_challenge (demo_env 6) ''t'' ''+44'' no_meta s) \<and>
      succeeds (exchange_login_request (demo_env 7) ''q'' no_meta
        (snd (approve_login_request (demo_env 6) ''q'' ''m1'' s)))"
  by code_simp

end
