(* ===== verification/Http.thy ===== *)
theory Http
  imports AuthRoutes Economy Rewards Workspaces
begin

text \<open>
  What happens to a request before a handler sees it: the routing of Nest and Express by method
  and path, the guards of the controller and of the route, and the global \<^verbatim>\<open>ValidationPipe\<close> of
  \<^verbatim>\<open>main.ts\<close>. The checks of class-validator are a parameter of the pipe.
\<close>

section \<open>The validation pipe\<close>

datatype pattern = HEX_COLOR | SHA256_HEX | REDIRECT_URI_PATTERN | E164 | SIX_DIGITS

datatype rule =
    IsString | IsBoolean | IsNumber | IsPositive | MinValue int | IsObject | IsArray | ArrayNotEmpty
  | ArrayMinSize nat | IsEmail | IsUrl bool | IsUUID | IsDateString | IsHexColor | IsNumberString
  | IsNotEmpty | MinLength nat | MaxLength nat | Length nat nat | Matches pattern | IsEnum string
  | IsIn "string list" | Equals string | ValidateNested "string list" | Each rule

record dto_field =
  df_name :: string
  df_optional :: bool
  df_rules :: "rule list"

type_synonym dto = "dto_field list"

definition req :: "string \<Rightarrow> rule list \<Rightarrow> dto_field" where
  "req n rs = \<lparr>df_name = n, df_optional = False, df_rules = rs\<rparr>"

definition opt :: "string \<Rightarrow> rule list \<Rightarrow> dto_field" where
  "opt n rs = \<lparr>df_name = n, df_optional = True, df_rules = rs\<rparr>"

type_synonym object = "(string \<times> json) list"

text \<open>\<^verbatim>\<open>IsOptional\<close> skips the other rules of a field that is undefined or null.\<close>

definition field_accepts :: "(rule \<Rightarrow> json option \<Rightarrow> bool) \<Rightarrow> dto_field \<Rightarrow> json option \<Rightarrow> bool" where
  "field_accepts chk f v = (df_optional f \<and> (v = None \<or> v = Some JNull) \<or> list_all (\<lambda>r. chk r v) (df_rules f))"

text \<open>
  \<^verbatim>\<open>ValidateNested\<close> carries the properties of its class: the whitelist reaches into nested objects and
  leaves only those.
\<close>

fun strip :: "rule \<Rightarrow> json \<Rightarrow> json" where
  "strip (ValidateNested ks) (JObj kvs) = JObj (filter (\<lambda>kv. fst kv \<in> set ks) kvs)"
| "strip (Each r) (JList xs) = JList (map (strip r) xs)"
| "strip _ x = x"

definition strip_field :: "string \<times> json \<Rightarrow> dto_field \<Rightarrow> string \<times> json" where
  "strip_field kv f = (if df_name f = fst kv then (fst kv, fold strip (df_rules f) (snd kv)) else kv)"

text \<open>
  The names of the fields that fail, or the body without the properties, of its own and of nested
  objects, no rule is declared for.
\<close>

definition validation_pipe :: "(rule \<Rightarrow> json option \<Rightarrow> bool) \<Rightarrow> dto \<Rightarrow> object \<Rightarrow> string list + object" where
  "validation_pipe chk d b =
     (let bad = filter (\<lambda>f. \<not> field_accepts chk f (map_of b (df_name f))) d
      in if bad = []
         then Inr (map (\<lambda>kv. foldl strip_field kv d) (filter (\<lambda>kv. fst kv \<in> set (map df_name d)) b))
         else Inl (map df_name bad))"

section \<open>Routes\<close>

datatype verb = GET | POST | PATCH | DELETE

datatype guard =
    JwtAuth | PermissionCheck | WorkspaceCheck | EconomyClient | EcosystemEventClient | NdyQrClient
  | OAuthAccessToken | InternalSecret | CryndySignature

record route =
  rt_verb :: verb
  rt_path :: "string list"
  rt_handler :: string
  rt_guards :: "guard list"
  rt_permission :: "permission option"
  rt_roles :: "workspace_role list option"
  rt_scope :: "string option"
  rt_body :: "dto option"
  rt_query :: "string list"

record controller =
  ct_name :: string
  ct_prefix :: "string list"
  ct_guards :: "guard list"
  ct_permission :: "permission option"
  ct_routes :: "route list"

definition on_route :: "verb \<Rightarrow> string list \<Rightarrow> string \<Rightarrow> route" where
  "on_route v p h = \<lparr>rt_verb = v, rt_path = p, rt_handler = h, rt_guards = [], rt_permission = None,
     rt_roles = None, rt_scope = None, rt_body = None, rt_query = []\<rparr>"

definition controller_of ::
  "string \<Rightarrow> string list \<Rightarrow> guard list \<Rightarrow> permission option \<Rightarrow> route list \<Rightarrow> controller" where
  "controller_of n p g perm rs =
     \<lparr>ct_name = n, ct_prefix = p, ct_guards = g, ct_permission = perm, ct_routes = rs\<rparr>"

text \<open>
  The path of a route is the prefix of its controller and its own, given segment by segment; \<^verbatim>\<open>:name\<close> matches one segment.
  Express compares paths without regard to case (all literals of the program are lower case) and
  accepts one trailing slash. It percent-decodes parameters, which is left out here: a path is taken to
  be of characters that stand for themselves.
\<close>

definition is_param :: "string \<Rightarrow> bool" where
  "is_param p = (case p of [] \<Rightarrow> False | c # _ \<Rightarrow> c = CHR '':'')"

definition full_path :: "controller \<Rightarrow> route \<Rightarrow> string list" where
  "full_path c r = ct_prefix c @ rt_path r"

definition request_segments :: "string \<Rightarrow> string list" where
  "request_segments p =
     (let ws = tl (split_on CHR ''/'' p) in if ws \<noteq> [] \<and> last ws = [] then butlast ws else ws)"

fun segments_match :: "string list \<Rightarrow> string list \<Rightarrow> bool" where
  "segments_match [] [] = True"
| "segments_match (p # ps) (x # xs) =
     (x \<noteq> [] \<and> (is_param p \<or> p = to_lower x) \<and> segments_match ps xs)"
| "segments_match _ _ = False"

definition handles :: "verb \<Rightarrow> string list \<Rightarrow> controller \<times> route \<Rightarrow> bool" where
  "handles v xs cr = (rt_verb (snd cr) = v \<and> segments_match (full_path (fst cr) (snd cr)) xs)"

definition api_routes :: "controller list \<Rightarrow> (controller \<times> route) list" where
  "api_routes cs = concat (map (\<lambda>c. map (Pair c) (ct_routes c)) cs)"

text \<open>The first route that matches, in the order in which the controllers are registered.\<close>

definition dispatch :: "controller list \<Rightarrow> verb \<Rightarrow> string \<Rightarrow> (controller \<times> route) option" where
  "dispatch cs v p = find (handles v (request_segments p)) (api_routes cs)"

fun bind_params :: "string list \<Rightarrow> string list \<Rightarrow> (string \<times> string) list" where
  "bind_params (p # ps) (x # xs) = (if is_param p then [(tl p, x)] else []) @ bind_params ps xs"
| "bind_params _ _ = []"

section \<open>Guards\<close>

record incoming = http_request +
  in_secret :: "string option"
  in_signature :: "string option"
  in_raw_body :: "string option"

definition internal_secret_guard :: "string option \<Rightarrow> string option \<Rightarrow> unit reply" where
  "internal_secret_guard expected provided =
     (if \<not> truthy expected then throw (Forbidden ''Internal alerting is not configured.'')
      else if provided \<noteq> expected then throw (Unauthorized ''Invalid internal secret.'')
      else ok ())"

definition required_permission :: "controller \<Rightarrow> route \<Rightarrow> permission option" where
  "required_permission c r = (case rt_permission r of Some p \<Rightarrow> Some p | None \<Rightarrow> ct_permission c)"

text \<open>A guard reads who the guards before it have established (\<^verbatim>\<open>req.user\<close>).\<close>

definition pass :: "id option \<Rightarrow> 'a reply \<Rightarrow> id option reply" where
  "pass who r = map_sum id (\<lambda>_. who) r"

fun run_guard ::
  "env \<Rightarrow> string option \<Rightarrow> incoming \<Rightarrow> (string \<times> string) list \<Rightarrow> controller \<Rightarrow> route \<Rightarrow> guard \<Rightarrow> id option \<Rightarrow> db
    \<Rightarrow> id option reply" where
  "run_guard E secret q ps c r JwtAuth who s =
     map_sum id (\<lambda>x. Some (claims_sub x)) (jwt_auth_guard E (hq_access q) (hq_authorization q))"
| "run_guard E secret q ps c r PermissionCheck who s = pass who (permission_guard (required_permission c r) who s)"
| "run_guard E secret q ps c r WorkspaceCheck who s =
     pass who (workspace_guard (rt_roles r) who (map_of ps ''workspaceId'') s)"
| "run_guard E secret q ps c r EconomyClient who s =
     pass who (economy_client_guard E (rt_scope r) (hq_authorization q) s)"
| "run_guard E secret q ps c r EcosystemEventClient who s =
     pass who (ecosystem_event_client_guard E (rt_scope r) (hq_authorization q) s)"
| "run_guard E secret q ps c r NdyQrClient who s =
     pass who (ndyqr_client_guard E (rt_scope r) (hq_authorization q) s)"
| "run_guard E secret q ps c r OAuthAccessToken who s =
     pass who (oauth_access_token_guard E (hq_authorization q))"
| "run_guard E secret q ps c r InternalSecret who s = pass who (internal_secret_guard secret (in_secret q))"
| "run_guard E secret q ps c r CryndySignature who s =
     pass who (cryndy_signature_guard E (in_signature q) (in_raw_body q))"

primrec run_guards ::
  "env \<Rightarrow> string option \<Rightarrow> incoming \<Rightarrow> (string \<times> string) list \<Rightarrow> controller \<Rightarrow> route \<Rightarrow> guard list \<Rightarrow> id option \<Rightarrow> db
    \<Rightarrow> id option reply" where
  "run_guards E secret q ps c r [] who s = ok who"
| "run_guards E secret q ps c r (g # gs) who s =
     (case run_guard E secret q ps c r g who s of
        Inl e \<Rightarrow> throw e
      | Inr w \<Rightarrow> run_guards E secret q ps c r gs w s)"

definition route_guards :: "controller \<Rightarrow> route \<Rightarrow> guard list" where
  "route_guards c r = ct_guards c @ rt_guards r"

section \<open>A request\<close>

text \<open>
  Guards run before pipes; a handler gets the caller, the parameters and the validated body. What runs
  before the guards of the route, the parser of the body (its 400 for malformed JSON) and the global
  throttler (its 429), has let the request through; parameters are not percent-decoded.
\<close>

datatype rejection = NoRoute | Refused http_error | Invalid "string list"

definition receive ::
  "env \<Rightarrow> string option \<Rightarrow> (rule \<Rightarrow> json option \<Rightarrow> bool) \<Rightarrow> controller list \<Rightarrow> incoming \<Rightarrow> verb \<Rightarrow> string \<Rightarrow> object \<Rightarrow> db
    \<Rightarrow> rejection + (controller \<times> route) \<times> id option \<times> (string \<times> string) list \<times> object" where
  "receive E secret chk cs q v p b s =
     (case dispatch cs v p of
        None \<Rightarrow> Inl NoRoute
      | Some (c, r) \<Rightarrow>
          let ps = bind_params (full_path c r) (request_segments p)
          in case run_guards E secret q ps c r (route_guards c r) None s of
               Inl e \<Rightarrow> Inl (Refused e)
             | Inr who \<Rightarrow>
                 (case validation_pipe chk (case rt_body r of None \<Rightarrow> [] | Some d \<Rightarrow> d) b of
                    Inl fs \<Rightarrow> Inl (Invalid fs)
                  | Inr b' \<Rightarrow> Inr ((c, r), who, ps, b')))"

end
