(* ===== verification/Dtos.thy ===== *)
theory Dtos
  imports Http
begin

text \<open>
  The bodies the API accepts: one list of field rules per class of the \<^verbatim>\<open>dto\<close> directories, in the
  order of the fields.
\<close>

definition resolve_approval_rules :: dto where
  "resolve_approval_rules =
    [req ''approve'' [IsBoolean]]"

definition action_origin_rules :: dto where
  "action_origin_rules =
    [req ''type'' [IsIn [''user_direct'', ''ai_command'', ''agent'', ''trigger'', ''external_api'']],
     opt ''detail'' [IsString]]"

definition submit_action_rules :: dto where
  "submit_action_rules =
    [req ''actionKey'' [IsString, MinLength 1],
     req ''workspaceId'' [IsString, MinLength 1],
     req ''origin'' [IsObject],
     req ''params'' [IsObject],
     req ''idempotencyKey'' [IsString, MinLength 1],
     opt ''intentToken'' [IsString]]"

definition create_role_change_request_rules :: dto where
  "create_role_change_request_rules =
    [req ''targetUserId'' [IsUUID],
     req ''role'' [IsEnum ''Role''],
     opt ''reason'' [IsString]]"

definition review_role_change_request_rules :: dto where
  "review_role_change_request_rules =
    [opt ''reason'' [IsString]]"

definition suspend_user_rules :: dto where
  "suspend_user_rules =
    [opt ''reason'' [IsString]]"

definition apple_callback_rules :: dto where
  "apple_callback_rules =
    [opt ''code'' [IsString],
     opt ''state'' [IsString],
     opt ''error'' [IsString],
     opt ''user'' [IsString]]"

definition approve_device_request_rules :: dto where
  "approve_device_request_rules =
    [req ''matchCode'' [IsString, Length 3 3]]"

definition change_password_rules :: dto where
  "change_password_rules =
    [req ''currentPassword'' [IsString],
     req ''newPassword'' [IsString, MinLength 8]]"

definition confirm_email_rules :: dto where
  "confirm_email_rules =
    [req ''email'' [IsEmail],
     req ''code'' [IsString, Length 6 6, Matches SIX_DIGITS]]"

definition confirm_sms2fa_rules :: dto where
  "confirm_sms2fa_rules =
    [req ''phoneE164'' [IsString, Matches E164],
     req ''code'' [IsString]]"

definition confirm_totp_rules :: dto where
  "confirm_totp_rules =
    [req ''code'' [IsString]]"

definition create_login_request_rules :: dto where
  "create_login_request_rules =
    [req ''method'' [IsEnum ''LoginRequestMethod''],
     opt ''device'' [IsString],
     opt ''browser'' [IsString]]"

definition disable_sms2fa_rules :: dto where
  "disable_sms2fa_rules =
    [req ''currentPassword'' [IsString]]"

definition disable_totp_rules :: dto where
  "disable_totp_rules =
    [req ''currentPassword'' [IsString],
     req ''code'' [IsString]]"

definition forgot_password_rules :: dto where
  "forgot_password_rules =
    [req ''email'' [IsEmail]]"

definition login_rules :: dto where
  "login_rules =
    [req ''email'' [IsEmail],
     req ''password'' [IsString]]"

definition oauth_exchange_rules :: dto where
  "oauth_exchange_rules =
    [req ''code'' [IsString]]"

definition passkey_login_verify_rules :: dto where
  "passkey_login_verify_rules =
    [req ''challengeId'' [IsString],
     req ''response'' [IsObject]]"

definition passkey_register_verify_rules :: dto where
  "passkey_register_verify_rules =
    [req ''challengeId'' [IsString],
     req ''response'' [IsObject],
     opt ''deviceLabel'' [IsString, MaxLength 60]]"

definition refresh_rules :: dto where
  "refresh_rules =
    [opt ''refreshToken'' [IsString]]"

definition register_rules :: dto where
  "register_rules =
    [req ''email'' [IsEmail],
     req ''password'' [IsString, MinLength 8],
     opt ''fullName'' [IsString, MaxLength 100],
     opt ''bio'' [IsString, MaxLength 280],
     opt ''country'' [IsString, MaxLength 56],
     opt ''website'' [IsUrl True],
     opt ''linkedinUrl'' [IsUrl True],
     opt ''instagramUrl'' [IsUrl True],
     opt ''xUrl'' [IsUrl True],
     opt ''businessName'' [IsString, MaxLength 100],
     opt ''businessRole'' [IsString, MaxLength 100],
     opt ''phone'' [IsString, MaxLength 32],
     opt ''bioIsPublic'' [IsBoolean],
     opt ''countryIsPublic'' [IsBoolean],
     opt ''websiteIsPublic'' [IsBoolean],
     opt ''socialsIsPublic'' [IsBoolean],
     opt ''businessIsPublic'' [IsBoolean],
     opt ''phoneIsPublic'' [IsBoolean]]"

definition resend_verification_rules :: dto where
  "resend_verification_rules =
    [req ''email'' [IsEmail]]"

definition reset_password_rules :: dto where
  "reset_password_rules =
    [req ''email'' [IsEmail],
     req ''code'' [IsString, Length 6 6, Matches SIX_DIGITS],
     req ''newPassword'' [IsString, MinLength 8]]"

definition send_sms_challenge_rules :: dto where
  "send_sms_challenge_rules =
    [req ''challengeToken'' [IsString]]"

definition sms2fa_setup_rules :: dto where
  "sms2fa_setup_rules =
    [req ''phoneE164'' [IsString, Matches E164]]"

definition update_profile_rules :: dto where
  "update_profile_rules =
    [opt ''fullName'' [IsString, MaxLength 100],
     opt ''profilePhotoUrl'' [IsUrl True],
     opt ''bio'' [IsString, MaxLength 280],
     opt ''country'' [IsString, MaxLength 56],
     opt ''website'' [IsUrl True],
     opt ''linkedinUrl'' [IsUrl True],
     opt ''instagramUrl'' [IsUrl True],
     opt ''xUrl'' [IsUrl True],
     opt ''businessName'' [IsString, MaxLength 100],
     opt ''businessRole'' [IsString, MaxLength 100],
     opt ''phone'' [IsString, MaxLength 32],
     opt ''bioIsPublic'' [IsBoolean],
     opt ''countryIsPublic'' [IsBoolean],
     opt ''websiteIsPublic'' [IsBoolean],
     opt ''socialsIsPublic'' [IsBoolean],
     opt ''businessIsPublic'' [IsBoolean],
     opt ''phoneIsPublic'' [IsBoolean]]"

definition verify2fa_rules :: dto where
  "verify2fa_rules =
    [req ''challengeToken'' [IsString],
     req ''code'' [IsString]]"

definition grant_ai_agent_consent_rules :: dto where
  "grant_ai_agent_consent_rules =
    [req ''oauthClientId'' [IsString, MinLength 1],
     req ''scopes'' [IsArray, ArrayNotEmpty, Each (IsEnum ''AiAgentConsentScope'')]]"

definition cryndy_purchase_webhook_rules :: dto where
  "cryndy_purchase_webhook_rules =
    [req ''providerTransactionId'' [IsString],
     req ''ndyId'' [IsString],
     req ''status'' [IsEnum ''CryndyPurchaseStatus''],
     req ''amountPaid'' [IsNumber, IsPositive],
     req ''currency'' [IsString],
     req ''cryndyAmount'' [IsNumber, IsPositive],
     opt ''bonusAmount'' [IsNumber, MinValue 0],
     opt ''packageName'' [IsString],
     req ''paymentMethod'' [IsString]]"

definition report_ecosystem_event_rules :: dto where
  "report_ecosystem_event_rules =
    [req ''eventType'' [IsString, MinLength 1],
     req ''userId'' [IsString, MinLength 1],
     req ''sourceEventId'' [IsString, MinLength 1],
     opt ''payload'' [IsObject]]"

definition delete_account_rules :: dto where
  "delete_account_rules =
    [req ''currentPassword'' [IsString],
     req ''confirm'' [Equals ''DELETE'']]"

definition create_identity_verification_request_rules :: dto where
  "create_identity_verification_request_rules =
    [opt ''evidenceNote'' [IsString, MaxLength 1000]]"

definition review_identity_verification_request_rules :: dto where
  "review_identity_verification_request_rules =
    [opt ''reason'' [IsString, MaxLength 1000]]"

definition create_user_rules :: dto where
  "create_user_rules =
    [req ''email'' [IsEmail],
     req ''password'' [IsString, MinLength 8],
     opt ''fullName'' [IsString]]"

definition backup_alert_rules :: dto where
  "backup_alert_rules =
    [req ''reason'' [IsString, IsNotEmpty],
     req ''stamp'' [IsString, IsNotEmpty]]"

definition internal_notify_rules :: dto where
  "internal_notify_rules =
    [req ''ndyId'' [IsString, IsNotEmpty],
     req ''category'' [IsEnum ''NotificationCategory''],
     req ''channel'' [IsIn [''IN_APP'', ''EMAIL'']],
     req ''title'' [IsString, IsNotEmpty],
     req ''body'' [IsString, IsNotEmpty],
     opt ''linkUrl'' [IsString],
     opt ''sourceEventId'' [IsString]]"

definition subscribe_rules :: dto where
  "subscribe_rules =
    [req ''tier'' [IsEnum ''MembershipTier''],
     req ''billingCycle'' [IsEnum ''BillingCycle'']]"

definition create_memory_rules :: dto where
  "create_memory_rules =
    [req ''type'' [IsEnum ''UserMemoryType''],
     req ''content'' [IsString, MinLength 1, MaxLength 500],
     opt ''source'' [IsString, MaxLength 64]]"

definition update_memory_rules :: dto where
  "update_memory_rules =
    [req ''content'' [IsString, MinLength 1, MaxLength 500]]"

definition check_eligibility_rules :: dto where
  "check_eligibility_rules =
    [req ''direction'' [IsIn [''NDYBITS_TO_CRYNDY'', ''CRYNDY_TO_NDYX'']],
     req ''sourceAmount'' [IsNumberString]]"

definition create_bridge_request_rules :: dto where
  "create_bridge_request_rules =
    [req ''direction'' [IsIn [''NDYBITS_TO_CRYNDY'', ''CRYNDY_TO_NDYX'']],
     req ''sourceAmount'' [IsNumberString]]"

definition report_event_rules :: dto where
  "report_event_rules =
    [req ''eventKey'' [IsString, MinLength 1],
     req ''userId'' [IsString, MinLength 1],
     req ''sourceEventId'' [IsString, MinLength 1]]"

definition create_ndyqr_rules :: dto where
  "create_ndyqr_rules =
    [req ''label'' [IsString, MinLength 1, MaxLength 120],
     req ''destination'' [IsUrl False, MaxLength 2048],
     opt ''type'' [IsEnum ''NdyQrType''],
     opt ''campaign'' [IsString, MaxLength 120],
     opt ''expiresAt'' [IsDateString],
     opt ''brandStyle'' [IsString, MaxLength 40],
     opt ''colorFrom'' [Matches HEX_COLOR],
     opt ''colorTo'' [Matches HEX_COLOR],
     opt ''logoUrl'' [IsUrl False]]"

definition update_ndyqr_rules :: dto where
  "update_ndyqr_rules =
    [opt ''label'' [IsString, MinLength 1, MaxLength 120],
     opt ''destination'' [IsUrl False, MaxLength 2048],
     opt ''type'' [IsEnum ''NdyQrType''],
     opt ''campaign'' [IsString, MaxLength 120],
     opt ''isActive'' [IsBoolean],
     opt ''expiresAt'' [IsDateString],
     opt ''brandStyle'' [IsString, MaxLength 40],
     opt ''colorFrom'' [Matches HEX_COLOR],
     opt ''colorTo'' [Matches HEX_COLOR],
     opt ''logoUrl'' [IsUrl False]]"

definition create_bookmark_rules :: dto where
  "create_bookmark_rules =
    [req ''title'' [IsString, MinLength 1, MaxLength 200],
     req ''url'' [IsUrl False, MaxLength 2000]]"

definition create_calendar_event_rules :: dto where
  "create_calendar_event_rules =
    [req ''title'' [IsString, MinLength 1, MaxLength 200],
     opt ''description'' [IsString, MaxLength 5000],
     req ''startAt'' [IsDateString],
     req ''endAt'' [IsDateString],
     opt ''color'' [IsHexColor],
     opt ''attendeeEmails'' [IsArray, Each IsString]]"

definition update_calendar_event_rules :: dto where
  "update_calendar_event_rules =
    [opt ''title'' [IsString, MinLength 1, MaxLength 200],
     opt ''description'' [IsString, MaxLength 5000],
     opt ''startAt'' [IsDateString],
     opt ''endAt'' [IsDateString],
     opt ''color'' [IsHexColor],
     opt ''attendeeEmails'' [IsArray, Each IsString]]"

definition create_contact_rules :: dto where
  "create_contact_rules =
    [req ''fullName'' [IsString, MinLength 1, MaxLength 200],
     opt ''email'' [IsEmail],
     opt ''phone'' [IsString, MaxLength 50],
     opt ''company'' [IsString, MaxLength 200],
     opt ''notes'' [IsString, MaxLength 5000],
     opt ''ndyId'' [IsString, MaxLength 100]]"

definition update_contact_rules :: dto where
  "update_contact_rules =
    [opt ''fullName'' [IsString, MinLength 1, MaxLength 200],
     opt ''email'' [IsEmail],
     opt ''phone'' [IsString, MaxLength 50],
     opt ''company'' [IsString, MaxLength 200],
     opt ''notes'' [IsString, MaxLength 5000],
     opt ''ndyId'' [IsString, MaxLength 100]]"

definition create_drive_folder_rules :: dto where
  "create_drive_folder_rules =
    [req ''name'' [IsString, MinLength 1, MaxLength 200]]"

definition move_drive_file_rules :: dto where
  "move_drive_file_rules =
    [opt ''folderId'' [IsString]]"

definition send_email_rules :: dto where
  "send_email_rules =
    [req ''recipientNdyIds'' [IsArray, Each IsString],
     opt ''ccNdyIds'' [IsArray, Each IsString],
     req ''subject'' [IsString, MinLength 1, MaxLength 300],
     req ''body'' [IsString, MinLength 1, MaxLength 20000],
     opt ''attachmentDriveFileIds'' [IsArray, Each IsString]]"

definition save_draft_rules :: dto where
  "save_draft_rules =
    [opt ''recipientNdyIds'' [IsArray, Each IsString],
     opt ''ccNdyIds'' [IsArray, Each IsString],
     opt ''subject'' [IsString, MaxLength 300],
     opt ''body'' [IsString, MaxLength 20000],
     opt ''attachmentDriveFileIds'' [IsArray, Each IsString],
     opt ''draftId'' [IsString]]"

definition send_draft_rules :: dto where
  "send_draft_rules =
    [opt ''recipientNdyIds'' [IsArray, Each IsString],
     opt ''ccNdyIds'' [IsArray, Each IsString],
     opt ''subject'' [IsString, MaxLength 300],
     opt ''body'' [IsString, MaxLength 20000],
     opt ''attachmentDriveFileIds'' [IsArray, Each IsString]]"

definition update_email_recipient_rules :: dto where
  "update_email_recipient_rules =
    [opt ''folder'' [IsIn [''INBOX'', ''SENT'', ''DRAFTS'', ''TRASH'']],
     opt ''isRead'' [IsBoolean],
     opt ''isStarred'' [IsBoolean]]"

definition create_note_rules :: dto where
  "create_note_rules =
    [req ''title'' [IsString, MinLength 1, MaxLength 200],
     opt ''body'' [IsString, MaxLength 50000]]"

definition update_note_rules :: dto where
  "update_note_rules =
    [opt ''title'' [IsString, MinLength 1, MaxLength 200],
     opt ''body'' [IsString, MaxLength 50000]]"

definition create_task_rules :: dto where
  "create_task_rules =
    [req ''title'' [IsString, MinLength 1, MaxLength 200],
     opt ''description'' [IsString, MaxLength 5000],
     opt ''priority'' [IsIn [''LOW'', ''MEDIUM'', ''HIGH'']],
     opt ''dueAt'' [IsDateString]]"

definition update_task_rules :: dto where
  "update_task_rules =
    [opt ''title'' [IsString, MinLength 1, MaxLength 200],
     opt ''description'' [IsString, MaxLength 5000],
     opt ''priority'' [IsIn [''LOW'', ''MEDIUM'', ''HIGH'']],
     opt ''status'' [IsIn [''OPEN'', ''COMPLETED'']],
     opt ''dueAt'' [IsDateString]]"

definition consent_rules :: dto where
  "consent_rules =
    [req ''clientId'' [IsString],
     req ''redirectUri'' [IsString],
     req ''scope'' [IsString],
     opt ''state'' [IsString],
     req ''approve'' [IsBoolean],
     opt ''codeChallenge'' [IsString],
     opt ''codeChallengeMethod'' [IsIn [''S256'']]]"

definition create_client_rules :: dto where
  "create_client_rules =
    [req ''name'' [IsString, MaxLength 100],
     req ''redirectUris'' [IsArray, ArrayMinSize 1, Each (Matches REDIRECT_URI_PATTERN)],
     req ''allowedScopes'' [IsArray, Each IsString],
     opt ''clientType'' [IsEnum ''OAuthClientType'']]"

definition begin_cross_product_passkey_registration_rules :: dto where
  "begin_cross_product_passkey_registration_rules =
    [req ''client_id'' [IsString],
     req ''client_secret'' [IsString],
     req ''username'' [IsString],
     req ''password'' [IsString]]"

definition verify_cross_product_passkey_registration_rules :: dto where
  "verify_cross_product_passkey_registration_rules =
    [req ''client_id'' [IsString],
     req ''client_secret'' [IsString],
     req ''challengeId'' [IsString],
     req ''response'' [IsObject],
     opt ''deviceLabel'' [IsString, MaxLength 60]]"

definition begin_cross_product_passkey_login_rules :: dto where
  "begin_cross_product_passkey_login_rules =
    [req ''client_id'' [IsString],
     req ''client_secret'' [IsString]]"

definition verify_cross_product_passkey_login_rules :: dto where
  "verify_cross_product_passkey_login_rules =
    [req ''client_id'' [IsString],
     req ''client_secret'' [IsString],
     req ''challengeId'' [IsString],
     req ''response'' [IsObject]]"

definition token_rules :: dto where
  "token_rules =
    [req ''grant_type'' [IsIn [''authorization_code'', ''refresh_token'', ''password'']],
     req ''client_id'' [IsString],
     opt ''client_secret'' [IsString],
     opt ''code'' [IsString],
     opt ''redirect_uri'' [IsString],
     opt ''refresh_token'' [IsString],
     opt ''code_verifier'' [IsString],
     opt ''username'' [IsString],
     opt ''password'' [IsString],
     opt ''scope'' [IsString]]"

definition update_client_rules :: dto where
  "update_client_rules =
    [opt ''name'' [IsString, MaxLength 100],
     opt ''redirectUris'' [IsArray, ArrayMinSize 1, Each (Matches REDIRECT_URI_PATTERN)],
     opt ''allowedScopes'' [IsArray, Each IsString]]"

definition signature_signer_rules :: dto where
  "signature_signer_rules =
    [opt ''userId'' [IsString, MaxLength 64],
     opt ''email'' [IsEmail]]"

definition create_signature_request_rules :: dto where
  "create_signature_request_rules =
    [req ''title'' [IsString, MinLength 1, MaxLength 200],
     req ''contentHash'' [IsString, Matches SHA256_HEX],
     opt ''contentRef'' [IsString, MaxLength 2048],
     opt ''expiresAt'' [IsDateString],
     req ''signers'' [IsArray, ArrayNotEmpty, Each (ValidateNested (map df_name signature_signer_rules))]]"

definition sign_document_rules :: dto where
  "sign_document_rules =
    [opt ''consent'' [IsBoolean]]"

definition create_support_ticket_rules :: dto where
  "create_support_ticket_rules =
    [req ''subject'' [IsString, MinLength 1, MaxLength 200],
     req ''message'' [IsString, MinLength 1, MaxLength 5000]]"

definition reply_support_ticket_rules :: dto where
  "reply_support_ticket_rules =
    [req ''reply'' [IsString, MinLength 1, MaxLength 5000]]"

definition accept_workspace_invite_rules :: dto where
  "accept_workspace_invite_rules =
    [req ''token'' [IsString, IsNotEmpty]]"

definition create_business_workspace_request_rules :: dto where
  "create_business_workspace_request_rules =
    [req ''businessName'' [IsString, IsNotEmpty, MaxLength 200],
     opt ''reason'' [IsString, MaxLength 1000]]"

definition create_workspace_invite_rules :: dto where
  "create_workspace_invite_rules =
    [req ''invitedEmail'' [IsEmail],
     req ''invitedRole'' [IsEnum ''WorkspaceRole''],
     opt ''invitedDepartment'' [IsString, MaxLength 100]]"

definition review_business_workspace_request_rules :: dto where
  "review_business_workspace_request_rules =
    [opt ''reason'' [IsString, MaxLength 1000]]"

end
