(* ===== verification/Routes.thy ===== *)
theory Routes
  imports Dtos
begin

text \<open>
  The routes of the API: one definition per controller class, with the path, the guards, the
  metadata the guards read, the body and the query parameters of each handler, in the order of
  declaration (which decides between overlapping paths).
\<close>

definition action_engine_controller :: controller where
  "action_engine_controller = controller_of ''ActionEngineController'' [''action-engine''] [JwtAuth] None
    [(on_route POST [''actions''] ''submit'')\<lparr>rt_body := Some submit_action_rules\<rparr>,
     (on_route GET [''approvals''] ''listPendingApprovals'')\<lparr>rt_query := [''workspaceId'']\<rparr>,
     (on_route POST [''approvals'', '':id'',
       ''resolve''] ''resolveApproval'')\<lparr>rt_body := Some resolve_approval_rules\<rparr>]"

definition activity_controller :: controller where
  "activity_controller = controller_of ''ActivityController'' [''activity''] [] None
    [(on_route GET [''me''] ''getMyActivity'')\<lparr>rt_guards := [JwtAuth]\<rparr>]"

definition admin_controller :: controller where
  "admin_controller = controller_of ''AdminController'' [''admin''] [JwtAuth, PermissionCheck] None
    [(on_route GET [''users''] ''searchUsers'')\<lparr>rt_permission := Some MANAGE_USERS, rt_query := [''q'',
       ''take'', ''skip'']\<rparr>,
     (on_route GET [''users'', '':id''] ''getUser'')\<lparr>rt_permission := Some MANAGE_USERS\<rparr>,
     (on_route POST [''users'', '':id'', ''suspend''] ''suspend'')\<lparr>rt_permission := Some MANAGE_USERS,
       rt_body := Some suspend_user_rules\<rparr>,
     (on_route POST [''users'', '':id'',
       ''unsuspend''] ''unsuspend'')\<lparr>rt_permission := Some MANAGE_USERS,
       rt_body := Some suspend_user_rules\<rparr>,
     (on_route GET [''audit-log''] ''getAuditLog'')\<lparr>rt_permission := Some VIEW_AUDIT_LOG,
       rt_query := [''take'', ''skip'']\<rparr>]"

definition role_change_request_controller :: controller where
  "role_change_request_controller = controller_of ''RoleChangeRequestController'' [''admin'',
       ''role-requests''] [JwtAuth, PermissionCheck] (Some MANAGE_ROLES)
    [(on_route POST [] ''create'')\<lparr>rt_body := Some create_role_change_request_rules\<rparr>,
     (on_route GET [] ''list'')\<lparr>rt_query := [''status'']\<rparr>,
     (on_route POST ['':id'', ''approve''] ''approve'')\<lparr>rt_body := Some review_role_change_request_rules\<rparr>,
     (on_route POST ['':id'', ''reject''] ''reject'')\<lparr>rt_body := Some review_role_change_request_rules\<rparr>]"

definition app_controller :: controller where
  "app_controller = controller_of ''AppController'' [] [] None
    [on_route GET [] ''getHealth'']"

definition auth_session_routes :: "route list" where
  "auth_session_routes =
    [(on_route POST [''register''] ''register'')\<lparr>rt_body := Some register_rules\<rparr>,
     (on_route POST [''login''] ''login'')\<lparr>rt_body := Some login_rules\<rparr>,
     (on_route POST [''refresh''] ''refresh'')\<lparr>rt_body := Some refresh_rules\<rparr>,
     (on_route POST [''logout''] ''logout'')\<lparr>rt_body := Some refresh_rules\<rparr>,
     (on_route POST [''login-request''] ''createLoginRequest'')\<lparr>rt_body := Some create_login_request_rules\<rparr>,
     on_route GET [''login-request'', '':token''] ''getLoginRequestStatus'',
     (on_route POST [''login-request'', '':token'',
       ''approve''] ''approveLoginRequest'')\<lparr>rt_guards := [JwtAuth]\<rparr>,
     (on_route POST [''login-request'', '':token'',
       ''deny''] ''denyLoginRequest'')\<lparr>rt_guards := [JwtAuth]\<rparr>,
     on_route POST [''login-request'', '':token'', ''exchange''] ''exchangeLoginRequest'']"

definition auth_account_routes :: "route list" where
  "auth_account_routes =
    [on_route GET [''device-approval'', '':id''] ''getDeviceApprovalStatus'',
     (on_route POST [''device-approval'', '':id'',
       ''approve''] ''approveDeviceRequest'')\<lparr>rt_guards := [JwtAuth],
       rt_body := Some approve_device_request_rules\<rparr>,
     (on_route POST [''device-approval'', '':id'',
       ''deny''] ''denyDeviceRequest'')\<lparr>rt_guards := [JwtAuth]\<rparr>,
     (on_route GET [''me''] ''getMe'')\<lparr>rt_guards := [JwtAuth]\<rparr>,
     (on_route PATCH [''me''] ''updateMe'')\<lparr>rt_guards := [JwtAuth],
       rt_body := Some update_profile_rules\<rparr>,
     (on_route POST [''me'', ''photo''] ''uploadPhoto'')\<lparr>rt_guards := [JwtAuth]\<rparr>,
     (on_route POST [''change-password''] ''changePassword'')\<lparr>rt_guards := [JwtAuth],
       rt_body := Some change_password_rules\<rparr>]"

definition auth_recovery_routes :: "route list" where
  "auth_recovery_routes =
    [(on_route POST [''verify-email'',
       ''confirm''] ''confirmEmailVerification'')\<lparr>rt_body := Some confirm_email_rules\<rparr>,
     (on_route POST [''verify-email'',
       ''resend''] ''resendEmailVerification'')\<lparr>rt_guards := [JwtAuth]\<rparr>,
     (on_route POST [''verify-email'',
       ''resend-by-email''] ''resendEmailVerificationByEmail'')\<lparr>rt_body := Some resend_verification_rules\<rparr>,
     (on_route POST [''forgot-password''] ''forgotPassword'')\<lparr>rt_body := Some forgot_password_rules\<rparr>,
     (on_route POST [''reset-password''] ''resetPassword'')\<lparr>rt_body := Some reset_password_rules\<rparr>,
     (on_route POST [''reset-password'',
       ''resend''] ''resendPasswordResetCode'')\<lparr>rt_body := Some forgot_password_rules\<rparr>]"

definition auth_factor_routes :: "route list" where
  "auth_factor_routes =
    [(on_route POST [''2fa'', ''setup''] ''begin2faSetup'')\<lparr>rt_guards := [JwtAuth]\<rparr>,
     (on_route POST [''2fa'', ''enable''] ''confirm2faSetup'')\<lparr>rt_guards := [JwtAuth],
       rt_body := Some confirm_totp_rules\<rparr>,
     (on_route POST [''2fa'', ''disable''] ''disable2fa'')\<lparr>rt_guards := [JwtAuth],
       rt_body := Some disable_totp_rules\<rparr>,
     (on_route POST [''2fa'', ''verify''] ''verify2fa'')\<lparr>rt_body := Some verify2fa_rules\<rparr>,
     (on_route POST [''sms-2fa'', ''setup''] ''beginSms2faSetup'')\<lparr>rt_guards := [JwtAuth],
       rt_body := Some sms2fa_setup_rules\<rparr>,
     (on_route POST [''sms-2fa'', ''enable''] ''confirmSms2faSetup'')\<lparr>rt_guards := [JwtAuth],
       rt_body := Some confirm_sms2fa_rules\<rparr>,
     (on_route POST [''sms-2fa'', ''disable''] ''disableSms2fa'')\<lparr>rt_guards := [JwtAuth],
       rt_body := Some disable_sms2fa_rules\<rparr>,
     (on_route POST [''2fa'', ''send-sms''] ''sendSms2faChallenge'')\<lparr>rt_body := Some send_sms_challenge_rules\<rparr>]"

definition auth_passkey_routes :: "route list" where
  "auth_passkey_routes =
    [(on_route GET [''passkeys''] ''listPasskeys'')\<lparr>rt_guards := [JwtAuth]\<rparr>,
     (on_route DELETE [''passkeys'', '':id''] ''removePasskey'')\<lparr>rt_guards := [JwtAuth]\<rparr>,
     (on_route POST [''passkeys'', ''register'',
       ''options''] ''beginPasskeyRegistration'')\<lparr>rt_guards := [JwtAuth]\<rparr>,
     (on_route POST [''passkeys'', ''register'',
       ''verify''] ''verifyPasskeyRegistration'')\<lparr>rt_guards := [JwtAuth],
       rt_body := Some passkey_register_verify_rules\<rparr>,
     on_route POST [''passkeys'', ''login'', ''options''] ''beginPasskeyLogin'',
     (on_route POST [''passkeys'', ''login'',
       ''verify''] ''verifyPasskeyLogin'')\<lparr>rt_body := Some passkey_login_verify_rules\<rparr>]"

definition auth_social_routes :: "route list" where
  "auth_social_routes =
    [on_route GET [''oauth'', ''providers''] ''getOAuthProviders'',
     (on_route GET [''oauth'', '':provider'', ''start''] ''beginOAuth'')\<lparr>rt_query := [''next'']\<rparr>,
     (on_route GET [''oauth'', ''google'', ''callback''] ''googleCallback'')\<lparr>rt_query := [''code'',
       ''state'', ''error'']\<rparr>,
     (on_route POST [''oauth'', ''apple'',
       ''callback''] ''appleCallback'')\<lparr>rt_body := Some apple_callback_rules\<rparr>,
     (on_route POST [''oauth'',
       ''exchange''] ''exchangeOAuthLogin'')\<lparr>rt_body := Some oauth_exchange_rules\<rparr>,
     (on_route POST [''oauth'', '':provider'',
       ''connect''] ''connectOAuthProvider'')\<lparr>rt_guards := [JwtAuth], rt_query := [''next'']\<rparr>,
     (on_route GET [''connected-accounts''] ''listConnectedAccounts'')\<lparr>rt_guards := [JwtAuth]\<rparr>,
     (on_route DELETE [''connected-accounts'',
       '':id''] ''unlinkConnectedAccount'')\<lparr>rt_guards := [JwtAuth]\<rparr>]"

definition auth_controller :: controller where
  "auth_controller = controller_of ''AuthController'' [''auth''] [] None
    (auth_session_routes @ auth_account_routes @ auth_recovery_routes @
     auth_factor_routes @ auth_passkey_routes @ auth_social_routes)"

definition context_broker_controller :: controller where
  "context_broker_controller = controller_of ''ContextBrokerController'' [''context-broker''] [JwtAuth] None
    [on_route GET [''scopes''] ''scopes'',
     on_route GET [''grants''] ''listGrants'',
     (on_route POST [''grants''] ''grant'')\<lparr>rt_body := Some grant_ai_agent_consent_rules\<rparr>,
     on_route DELETE [''grants'', '':oauthClientId''] ''revoke'']"

definition cryndy_webhook_controller :: controller where
  "cryndy_webhook_controller = controller_of ''CryndyWebhookController'' [''webhooks'', ''cryndy''] [] None
    [(on_route POST [''purchase''] ''handlePurchaseWebhook'')\<lparr>rt_guards := [CryndySignature],
       rt_body := Some cryndy_purchase_webhook_rules\<rparr>]"

definition cryndy_controller :: controller where
  "cryndy_controller = controller_of ''CryndyController'' [''cryndy''] [] None
    [(on_route GET [''me''] ''getMySummary'')\<lparr>rt_guards := [JwtAuth]\<rparr>]"

definition documents_controller :: controller where
  "documents_controller = controller_of ''DocumentsController'' [''documents''] [JwtAuth] None
    [on_route GET [''me''] ''list'',
     on_route GET ['':id'', ''download''] ''download'']"

definition ecosystem_events_controller :: controller where
  "ecosystem_events_controller = controller_of ''EcosystemEventsController'' [''ecosystem'',
       ''events''] [EcosystemEventClient] None
    [(on_route POST [''report''] ''report'')\<lparr>rt_scope := Some ''ecosystem:report-event'',
       rt_body := Some report_ecosystem_event_rules\<rparr>,
     (on_route GET [] ''list'')\<lparr>rt_scope := Some ''ecosystem:read-events'', rt_query := [''cursor'',
       ''take'', ''eventType'']\<rparr>]"

definition ecosystem_events_me_controller :: controller where
  "ecosystem_events_me_controller = controller_of ''EcosystemEventsMeController'' [''ecosystem'',
       ''events''] [JwtAuth] None
    [on_route GET [''mine''] ''listMine'']"

definition ecosystem_controller :: controller where
  "ecosystem_controller = controller_of ''EcosystemController'' [''ecosystem''] [] None
    [on_route GET [''overview''] ''getOverview'']"

definition founder_controller :: controller where
  "founder_controller = controller_of ''FounderController'' [''founder''] [JwtAuth,
       PermissionCheck] (Some VIEW_FOUNDER_OVERVIEW)
    [on_route GET [''overview''] ''getOverview'',
     (on_route GET [''financials''] ''getFinancials'')\<lparr>rt_permission := Some VIEW_FINANCIALS\<rparr>,
     (on_route GET [''economy-overview''] ''getEconomyOverview'')\<lparr>rt_permission := Some VIEW_FINANCIALS\<rparr>]"

definition gdpr_controller :: controller where
  "gdpr_controller = controller_of ''GdprController'' [''gdpr''] [JwtAuth] None
    [on_route GET [''export''] ''export'',
     (on_route POST [''delete-account''] ''deleteAccount'')\<lparr>rt_body := Some delete_account_rules\<rparr>]"

definition identity_verification_controller :: controller where
  "identity_verification_controller = controller_of ''IdentityVerificationController'' [''identity-verification''] [JwtAuth] None
    [(on_route POST [''requests''] ''createRequest'')\<lparr>rt_body := Some create_identity_verification_request_rules\<rparr>,
     on_route GET [''requests'', ''mine''] ''listMine'',
     (on_route GET [''requests''] ''list'')\<lparr>rt_guards := [PermissionCheck],
       rt_permission := Some REVIEW_IDENTITY_VERIFICATION, rt_query := [''status'']\<rparr>,
     (on_route POST [''requests'', '':id'', ''approve''] ''approve'')\<lparr>rt_guards := [PermissionCheck],
       rt_permission := Some REVIEW_IDENTITY_VERIFICATION,
       rt_body := Some review_identity_verification_request_rules\<rparr>,
     (on_route POST [''requests'', '':id'', ''reject''] ''reject'')\<lparr>rt_guards := [PermissionCheck],
       rt_permission := Some REVIEW_IDENTITY_VERIFICATION,
       rt_body := Some review_identity_verification_request_rules\<rparr>]"

definition identity_controller :: controller where
  "identity_controller = controller_of ''IdentityController'' [''passport''] [] None
    [on_route GET ['':ndyId''] ''getPublicPassport'']"

definition backup_alert_controller :: controller where
  "backup_alert_controller = controller_of ''BackupAlertController'' [''internal''] [InternalSecret] None
    [(on_route POST [''backup-alert''] ''backupAlert'')\<lparr>rt_body := Some backup_alert_rules\<rparr>]"

definition notify_controller :: controller where
  "notify_controller = controller_of ''NotifyController'' [''internal''] [InternalSecret] None
    [(on_route POST [''notify''] ''notify'')\<lparr>rt_body := Some internal_notify_rules\<rparr>]"

definition membership_controller :: controller where
  "membership_controller = controller_of ''MembershipController'' [''memberships''] [] None
    [on_route GET [''tiers''] ''getTiers'',
     (on_route GET [''me''] ''getMine'')\<lparr>rt_guards := [JwtAuth]\<rparr>,
     (on_route POST [''subscribe''] ''subscribe'')\<lparr>rt_guards := [JwtAuth],
       rt_body := Some subscribe_rules\<rparr>,
     (on_route POST ['':id'', ''cancel''] ''cancel'')\<lparr>rt_guards := [JwtAuth]\<rparr>]"

definition stripe_webhook_controller :: controller where
  "stripe_webhook_controller = controller_of ''StripeWebhookController'' [''webhooks'', ''stripe''] [] None
    [on_route POST [] ''handle'']"

definition memory_controller :: controller where
  "memory_controller = controller_of ''MemoryController'' [''memory''] [JwtAuth] None
    [(on_route POST [] ''create'')\<lparr>rt_body := Some create_memory_rules\<rparr>,
     on_route GET [] ''list'',
     (on_route PATCH ['':id''] ''update'')\<lparr>rt_body := Some update_memory_rules\<rparr>,
     on_route DELETE ['':id''] ''remove'',
     on_route PATCH ['':id'', ''disable''] ''disable'',
     on_route PATCH ['':id'', ''enable''] ''enable'']"

definition ndy_economy_events_controller :: controller where
  "ndy_economy_events_controller = controller_of ''NdyEconomyEventsController'' [''ndy-economy'',
       ''events''] [EconomyClient] None
    [(on_route POST [''report''] ''report'')\<lparr>rt_scope := Some ''ndybits:report-event'',
       rt_body := Some report_event_rules\<rparr>]"

definition ndy_economy_controller :: controller where
  "ndy_economy_controller = controller_of ''NdyEconomyController'' [''ndy-economy''] [JwtAuth] None
    [(on_route POST [''bridge'',
       ''check-eligibility''] ''checkEligibility'')\<lparr>rt_body := Some check_eligibility_rules\<rparr>,
     (on_route POST [''bridge'',
       ''requests''] ''createBridgeRequest'')\<lparr>rt_body := Some create_bridge_request_rules\<rparr>,
     on_route GET [''bridge'', ''requests''] ''listBridgeRequests'',
     on_route GET [''bridge'', ''requests'', '':id''] ''getBridgeRequest'']"

definition ndybits_controller :: controller where
  "ndybits_controller = controller_of ''NdybitsController'' [''ndybits''] [] None
    [(on_route GET [''me''] ''getMySummary'')\<lparr>rt_guards := [JwtAuth]\<rparr>]"

definition ndyqr_redirect_controller :: controller where
  "ndyqr_redirect_controller = controller_of ''NdyQrRedirectController'' [''q''] [] None
    [on_route GET ['':slug''] ''resolve'',
     on_route GET ['':slug'', ''image.svg''] ''imageSvg'',
     on_route GET ['':slug'', ''image.png''] ''imagePng'']"

definition ndyqr_service_controller :: controller where
  "ndyqr_service_controller = controller_of ''NdyQrServiceController'' [''ndyqr'',
       ''service''] [NdyQrClient] None
    [(on_route POST [] ''create'')\<lparr>rt_scope := Some ''ndyqr:create'',
       rt_body := Some create_ndyqr_rules\<rparr>]"

definition ndyqr_controller :: controller where
  "ndyqr_controller = controller_of ''NdyqrController'' [''ndyqr''] [JwtAuth] None
    [(on_route POST [] ''create'')\<lparr>rt_body := Some create_ndyqr_rules\<rparr>,
     on_route GET [] ''list'',
     on_route GET [''brand''] ''brand'',
     (on_route GET [''admin'', ''all''] ''listAll'')\<lparr>rt_guards := [PermissionCheck],
       rt_permission := Some MANAGE_QR_CODES\<rparr>,
     on_route GET ['':id''] ''get'',
     on_route GET ['':id'', ''analytics''] ''analytics'',
     (on_route PATCH ['':id''] ''update'')\<lparr>rt_body := Some update_ndyqr_rules\<rparr>,
     on_route DELETE ['':id''] ''remove'']"

definition ndyspace_bookmarks_controller :: controller where
  "ndyspace_bookmarks_controller = controller_of ''NdyspaceBookmarksController'' [''ndyspace'',
       ''bookmarks''] [JwtAuth] None
    [(on_route POST [] ''create'')\<lparr>rt_body := Some create_bookmark_rules\<rparr>,
     on_route GET [] ''list'',
     on_route DELETE ['':id''] ''remove'']"

definition ndyspace_calendar_controller :: controller where
  "ndyspace_calendar_controller = controller_of ''NdyspaceCalendarController'' [''ndyspace'',
       ''calendar''] [JwtAuth] None
    [(on_route POST [''events''] ''create'')\<lparr>rt_body := Some create_calendar_event_rules\<rparr>,
     (on_route GET [''events''] ''list'')\<lparr>rt_query := [''from'', ''to'']\<rparr>,
     (on_route GET [''events'', ''upcoming''] ''upcoming'')\<lparr>rt_query := [''take'']\<rparr>,
     on_route GET [''events'', '':id''] ''getOne'',
     (on_route PATCH [''events'',
       '':id''] ''update'')\<lparr>rt_body := Some update_calendar_event_rules\<rparr>,
     on_route DELETE [''events'', '':id''] ''remove'']"

definition ndyspace_contacts_controller :: controller where
  "ndyspace_contacts_controller = controller_of ''NdyspaceContactsController'' [''ndyspace'',
       ''contacts''] [JwtAuth] None
    [(on_route POST [] ''create'')\<lparr>rt_body := Some create_contact_rules\<rparr>,
     on_route GET [] ''list'',
     (on_route GET [''search''] ''search'')\<lparr>rt_query := [''q'']\<rparr>,
     on_route GET ['':id''] ''getOne'',
     (on_route PATCH ['':id''] ''update'')\<lparr>rt_body := Some update_contact_rules\<rparr>,
     on_route DELETE ['':id''] ''remove'']"

definition ndyspace_drive_controller :: controller where
  "ndyspace_drive_controller = controller_of ''NdyspaceDriveController'' [''ndyspace'',
       ''drive''] [JwtAuth] None
    [(on_route POST [''folders''] ''createFolder'')\<lparr>rt_body := Some create_drive_folder_rules\<rparr>,
     on_route GET [''folders''] ''listFolders'',
     on_route DELETE [''folders'', '':id''] ''deleteFolder'',
     (on_route POST [''files''] ''uploadFile'')\<lparr>rt_query := [''folderId'']\<rparr>,
     (on_route GET [''files''] ''listFiles'')\<lparr>rt_query := [''folderId'']\<rparr>,
     on_route GET [''files'', ''recent''] ''listRecent'',
     on_route GET [''files'', '':id''] ''getFile'',
     (on_route PATCH [''files'', '':id'',
       ''move''] ''moveFile'')\<lparr>rt_body := Some move_drive_file_rules\<rparr>,
     on_route DELETE [''files'', '':id''] ''deleteFile'',
     on_route GET [''storage''] ''getStorage'']"

definition ndyspace_mail_controller :: controller where
  "ndyspace_mail_controller = controller_of ''NdyspaceMailController'' [''ndyspace'', ''mail''] [JwtAuth] None
    [(on_route POST [] ''send'')\<lparr>rt_body := Some send_email_rules\<rparr>,
     (on_route POST [''drafts''] ''saveDraft'')\<lparr>rt_body := Some save_draft_rules\<rparr>,
     (on_route POST [''drafts'', '':id'',
       ''send''] ''sendDraft'')\<lparr>rt_body := Some send_draft_rules\<rparr>,
     (on_route GET [] ''list'')\<lparr>rt_query := [''folder'']\<rparr>,
     on_route GET [''unread-count''] ''unreadCount'',
     on_route POST [''trash'', ''empty''] ''emptyTrash'',
     on_route GET ['':id''] ''getOne'',
     (on_route PATCH ['':id''] ''update'')\<lparr>rt_body := Some update_email_recipient_rules\<rparr>,
     on_route DELETE ['':id''] ''remove'']"

definition ndyspace_notes_controller :: controller where
  "ndyspace_notes_controller = controller_of ''NdyspaceNotesController'' [''ndyspace'',
       ''notes''] [JwtAuth] None
    [(on_route POST [] ''create'')\<lparr>rt_body := Some create_note_rules\<rparr>,
     on_route GET [] ''list'',
     on_route GET ['':id''] ''getOne'',
     (on_route PATCH ['':id''] ''update'')\<lparr>rt_body := Some update_note_rules\<rparr>,
     on_route DELETE ['':id''] ''remove'']"

definition ndyspace_notifications_controller :: controller where
  "ndyspace_notifications_controller = controller_of ''NdyspaceNotificationsController'' [''ndyspace'',
       ''notifications''] [JwtAuth] None
    [on_route GET [] ''list'',
     on_route GET [''unread-count''] ''unreadCount'',
     on_route PATCH ['':id'', ''read''] ''markRead'',
     on_route POST [''read-all''] ''markAllRead'']"

definition ndyspace_overview_controller :: controller where
  "ndyspace_overview_controller = controller_of ''NdyspaceOverviewController'' [''ndyspace'',
       ''overview''] [JwtAuth] None
    [on_route GET [] ''get'',
     (on_route GET [''mini-calendar''] ''getMiniCalendar'')\<lparr>rt_query := [''year'', ''month'']\<rparr>]"

definition ndyspace_tasks_controller :: controller where
  "ndyspace_tasks_controller = controller_of ''NdyspaceTasksController'' [''ndyspace'',
       ''tasks''] [JwtAuth] None
    [(on_route POST [] ''create'')\<lparr>rt_body := Some create_task_rules\<rparr>,
     (on_route GET [] ''list'')\<lparr>rt_query := [''status'']\<rparr>,
     on_route GET ['':id''] ''getOne'',
     (on_route PATCH ['':id''] ''update'')\<lparr>rt_body := Some update_task_rules\<rparr>,
     on_route PATCH ['':id'', ''complete''] ''complete'',
     on_route PATCH ['':id'', ''reopen''] ''reopen'',
     on_route DELETE ['':id''] ''remove'']"

definition notification_controller :: controller where
  "notification_controller = controller_of ''NotificationController'' [''notifications''] [JwtAuth] None
    [on_route GET [] ''list'',
     on_route GET [''unread-count''] ''unreadCount'',
     on_route PATCH ['':id'', ''read''] ''markRead'',
     on_route POST [''read-all''] ''markAllRead'']"

definition authorize_controller :: controller where
  "authorize_controller = controller_of ''AuthorizeController'' [''oauth''] [] None
    [(on_route GET [''authorize''] ''authorize'')\<lparr>rt_query := [''client_id'', ''redirect_uri'',
       ''response_type'', ''scope'', ''state'', ''code_challenge'', ''code_challenge_method'']\<rparr>,
     (on_route GET [''authorize'', ''status''] ''status'')\<lparr>rt_guards := [JwtAuth],
       rt_query := [''client_id'', ''scope'']\<rparr>,
     (on_route POST [''authorize'', ''consent''] ''consent'')\<lparr>rt_guards := [JwtAuth],
       rt_body := Some consent_rules\<rparr>]"

definition cross_product_passkey_controller :: controller where
  "cross_product_passkey_controller = controller_of ''CrossProductPasskeyController'' [''oauth'',
       ''passkeys''] [] None
    [(on_route POST [''register'',
       ''options''] ''beginRegistration'')\<lparr>rt_body := Some begin_cross_product_passkey_registration_rules\<rparr>,
     (on_route POST [''register'',
       ''verify''] ''verifyRegistration'')\<lparr>rt_body := Some verify_cross_product_passkey_registration_rules\<rparr>,
     (on_route POST [''login'',
       ''options''] ''beginLogin'')\<lparr>rt_body := Some begin_cross_product_passkey_login_rules\<rparr>,
     (on_route POST [''login'',
       ''verify''] ''verifyLogin'')\<lparr>rt_body := Some verify_cross_product_passkey_login_rules\<rparr>]"

definition discovery_controller :: controller where
  "discovery_controller = controller_of ''DiscoveryController'' [''.well-known''] [] None
    [on_route GET [''openid-configuration''] ''discover'',
     on_route GET [''jwks.json''] ''jwks'']"

definition grants_controller :: controller where
  "grants_controller = controller_of ''GrantsController'' [''oauth'', ''grants''] [JwtAuth] None
    [on_route GET [] ''list'',
     on_route DELETE ['':id''] ''revoke'']"

definition oauth_client_admin_controller :: controller where
  "oauth_client_admin_controller = controller_of ''OAuthClientAdminController'' [''admin'',
       ''oauth-clients''] [JwtAuth, PermissionCheck] (Some MANAGE_OAUTH_CLIENTS)
    [on_route GET [''scopes''] ''listScopes'',
     on_route GET [] ''list'',
     (on_route POST [] ''create'')\<lparr>rt_body := Some create_client_rules\<rparr>,
     (on_route PATCH ['':id''] ''update'')\<lparr>rt_body := Some update_client_rules\<rparr>,
     on_route PATCH ['':id'', ''activate''] ''activate'',
     on_route PATCH ['':id'', ''deactivate''] ''deactivate'']"

definition token_controller :: controller where
  "token_controller = controller_of ''TokenController'' [''oauth''] [] None
    [(on_route POST [''token''] ''token'')\<lparr>rt_body := Some token_rules\<rparr>]"

definition user_info_controller :: controller where
  "user_info_controller = controller_of ''UserInfoController'' [''oauth''] [OAuthAccessToken] None
    [on_route GET [''userinfo''] ''userinfo'']"

definition security_events_controller :: controller where
  "security_events_controller = controller_of ''SecurityEventsController'' [''security'',
       ''events''] [JwtAuth] None
    [on_route GET [] ''list'']"

definition security_controller :: controller where
  "security_controller = controller_of ''SecurityController'' [''security'', ''sessions''] [JwtAuth] None
    [on_route GET [] ''list'',
     on_route DELETE ['':id''] ''revoke'',
     on_route POST [''revoke-all''] ''revokeAll'']"

definition security_devices_controller :: controller where
  "security_devices_controller = controller_of ''SecurityDevicesController'' [''security'',
       ''devices''] [JwtAuth] None
    [on_route GET [] ''list'',
     on_route DELETE ['':id''] ''revoke'']"

definition signature_controller :: controller where
  "signature_controller = controller_of ''SignatureController'' [''signature''] [] None
    [(on_route POST [] ''create'')\<lparr>rt_guards := [JwtAuth],
       rt_body := Some create_signature_request_rules\<rparr>,
     (on_route GET [''mine''] ''list'')\<lparr>rt_guards := [JwtAuth]\<rparr>,
     (on_route GET ['':token'', ''preview''] ''preview'')\<lparr>rt_guards := [JwtAuth]\<rparr>,
     on_route GET [''verify'', '':signatureId''] ''verify'',
     (on_route POST ['':token'', ''sign''] ''sign'')\<lparr>rt_guards := [JwtAuth],
       rt_body := Some sign_document_rules\<rparr>,
     (on_route POST ['':token'', ''decline''] ''decline'')\<lparr>rt_guards := [JwtAuth]\<rparr>,
     (on_route POST ['':id'', ''revoke''] ''revoke'')\<lparr>rt_guards := [JwtAuth]\<rparr>]"

definition support_admin_controller :: controller where
  "support_admin_controller = controller_of ''SupportAdminController'' [''admin'',
       ''support-tickets''] [JwtAuth, PermissionCheck] (Some MANAGE_SUPPORT_TICKETS)
    [on_route GET [] ''list'',
     (on_route POST ['':id'', ''reply''] ''reply'')\<lparr>rt_body := Some reply_support_ticket_rules\<rparr>]"

definition support_controller :: controller where
  "support_controller = controller_of ''SupportController'' [''support''] [JwtAuth] None
    [(on_route POST [''tickets''] ''create'')\<lparr>rt_body := Some create_support_ticket_rules\<rparr>,
     on_route GET [''tickets''] ''list'']"

definition transactions_controller :: controller where
  "transactions_controller = controller_of ''TransactionsController'' [''transactions''] [JwtAuth] None
    [on_route GET [''me''] ''getMine'']"

definition trust_controller :: controller where
  "trust_controller = controller_of ''TrustController'' [''trust''] [JwtAuth] None
    [on_route GET [''me''] ''getMine'']"

definition business_workspace_controller :: controller where
  "business_workspace_controller = controller_of ''BusinessWorkspaceController'' [''business-workspaces'',
       ''requests''] [] None
    [(on_route POST [] ''create'')\<lparr>rt_guards := [JwtAuth],
       rt_body := Some create_business_workspace_request_rules\<rparr>,
     (on_route GET [] ''list'')\<lparr>rt_guards := [JwtAuth, PermissionCheck],
       rt_permission := Some MANAGE_ROLES, rt_query := [''status'']\<rparr>,
     (on_route POST ['':id'', ''approve''] ''approve'')\<lparr>rt_guards := [JwtAuth, PermissionCheck],
       rt_permission := Some MANAGE_ROLES, rt_body := Some review_business_workspace_request_rules\<rparr>,
     (on_route POST ['':id'', ''reject''] ''reject'')\<lparr>rt_guards := [JwtAuth, PermissionCheck],
       rt_permission := Some MANAGE_ROLES, rt_body := Some review_business_workspace_request_rules\<rparr>]"

definition workspace_team_controller :: controller where
  "workspace_team_controller = controller_of ''WorkspaceTeamController'' [''business-workspaces'',
       '':workspaceId''] [JwtAuth] None
    [(on_route GET [''members''] ''listMembers'')\<lparr>rt_guards := [WorkspaceCheck],
       rt_roles := Some [OWNER, ADMIN, MEMBER]\<rparr>,
     (on_route GET [''invites''] ''listInvites'')\<lparr>rt_guards := [WorkspaceCheck],
       rt_roles := Some [OWNER, ADMIN]\<rparr>,
     (on_route POST [''invites''] ''createInvite'')\<lparr>rt_guards := [WorkspaceCheck],
       rt_roles := Some [OWNER, ADMIN], rt_body := Some create_workspace_invite_rules\<rparr>,
     (on_route DELETE [''invites'', '':inviteId''] ''revokeInvite'')\<lparr>rt_guards := [WorkspaceCheck],
       rt_roles := Some [OWNER, ADMIN]\<rparr>]"

definition workspace_invite_accept_controller :: controller where
  "workspace_invite_accept_controller = controller_of ''WorkspaceInviteAcceptController'' [''workspace-invites''] [JwtAuth] None
    [(on_route POST [''accept''] ''accept'')\<lparr>rt_body := Some accept_workspace_invite_rules\<rparr>,
     on_route GET ['':token''] ''preview'']"

definition controllers :: "controller list" where
  "controllers =
    [action_engine_controller, activity_controller, admin_controller, role_change_request_controller,
     app_controller, auth_controller, context_broker_controller, cryndy_webhook_controller,
     cryndy_controller, documents_controller, ecosystem_events_controller, ecosystem_events_me_controller,
     ecosystem_controller, founder_controller, gdpr_controller, identity_verification_controller,
     identity_controller, backup_alert_controller, notify_controller, membership_controller,
     stripe_webhook_controller, memory_controller, ndy_economy_events_controller, ndy_economy_controller,
     ndybits_controller, ndyqr_redirect_controller, ndyqr_service_controller, ndyqr_controller,
     ndyspace_bookmarks_controller, ndyspace_calendar_controller, ndyspace_contacts_controller, ndyspace_drive_controller,
     ndyspace_mail_controller, ndyspace_notes_controller, ndyspace_notifications_controller, ndyspace_overview_controller,
     ndyspace_tasks_controller, notification_controller, authorize_controller, cross_product_passkey_controller,
     discovery_controller, grants_controller, oauth_client_admin_controller, token_controller,
     user_info_controller, security_events_controller, security_controller, security_devices_controller,
     signature_controller, support_admin_controller, support_controller, transactions_controller,
     trust_controller, business_workspace_controller, workspace_team_controller, workspace_invite_accept_controller]"

end
