(* ===== verification/ApiClient.thy ===== *)
theory ApiClient
  imports Routes
begin

text \<open>
  The API bindings of the web application, \<^verbatim>\<open>apps/web/src/lib/api.ts\<close> and
  \<^verbatim>\<open>apps/web/src/lib/ndyspace-api.ts\<close>: one definition per function, with the name it has there.
  A call is the request it sends: \<^verbatim>\<open>apiFetch\<close> sends it once, \<^verbatim>\<open>authedFetch\<close> refreshes the session and
  sends it again after a 401 (theory WebClient), uploads and downloads use \<^verbatim>\<open>fetch\<close> directly, and a
  few functions only build a link. A \<^verbatim>\<open>$\<close> in the path stands for the next argument; ids and tokens
  are of characters \<^verbatim>\<open>encodeURIComponent\<close> leaves alone.
\<close>

section \<open>Calls\<close>

datatype channel = Direct | Retrying | Upload | Download | BearerCall | Navigation

record client_call =
  cc_channel :: channel
  cc_verb :: verb
  cc_url :: "string list"
  cc_args :: "string list"
  cc_query :: "(string \<times> string option) list"
  cc_body :: object
  cc_extra :: "(string \<times> json option) list"

definition request :: "channel \<Rightarrow> verb \<Rightarrow> string list \<Rightarrow> string list \<Rightarrow> client_call" where
  "request ch v u xs = \<lparr>cc_channel = ch, cc_verb = v, cc_url = u, cc_args = xs, cc_query = [], cc_body = [],
     cc_extra = []\<rparr>"

definition api_fetch_call :: "verb \<Rightarrow> string list \<Rightarrow> string list \<Rightarrow> client_call" where
  "api_fetch_call = request Direct"

definition authed_fetch_call :: "verb \<Rightarrow> string list \<Rightarrow> string list \<Rightarrow> client_call" where
  "authed_fetch_call = request Retrying"

definition with_query :: "(string \<times> string option) list \<Rightarrow> client_call \<Rightarrow> client_call" where
  "with_query ps q = q\<lparr>cc_query := ps\<rparr>"

text \<open>The properties that are always there, and those that may be undefined.\<close>

definition with_json :: "object \<Rightarrow> (string \<times> json option) list \<Rightarrow> client_call \<Rightarrow> client_call" where
  "with_json b p q = q\<lparr>cc_body := b, cc_extra := p\<rparr>"

definition given :: "string list \<Rightarrow> (string \<Rightarrow> 'v) \<Rightarrow> (string \<times> 'v) list" where
  "given ks f = map (\<lambda>k. (k, f k)) ks"

fun fill :: "string list \<Rightarrow> string list \<Rightarrow> string list" where
  "fill [] xs = []"
| "fill (w # ws) xs =
     (if w = ''$'' then (case xs of [] \<Rightarrow> w # fill ws [] | x # xs' \<Rightarrow> x # fill ws xs') else w # fill ws xs)"

text \<open>
  The path of a call, its arguments unencoded: some functions apply \<^verbatim>\<open>encodeURIComponent\<close> and some
  interpolate raw, so this is the path sent for arguments of unreserved characters, and claims about
  calls are made for those.
\<close>

definition call_path :: "client_call \<Rightarrow> string" where
  "call_path q = CHR ''/'' # join_with CHR ''/'' (fill (cc_url q) (cc_args q))"

text \<open>\<^verbatim>\<open>JSON.stringify\<close> leaves out the properties that are undefined.\<close>

definition sent_body :: "client_call \<Rightarrow> object" where
  "sent_body q = cc_body q @ List.map_filter (\<lambda>kv. map_option (Pair (fst kv)) (snd kv)) (cc_extra q)"

section \<open>Input types\<close>

text \<open>The properties of an interface that are required, and those that are optional.\<close>

definition UpdateProfileInput :: "string list \<times> string list" where
  "UpdateProfileInput = ([],
     [''fullName'', ''profilePhotoUrl'', ''bio'', ''country'', ''website'', ''linkedinUrl'', ''instagramUrl'',
       ''xUrl'', ''businessName'', ''businessRole'', ''phone'', ''bioIsPublic'', ''countryIsPublic'',
       ''websiteIsPublic'', ''socialsIsPublic'', ''businessIsPublic'', ''phoneIsPublic''])"

definition RegisterPassportFields :: "string list \<times> string list" where
  "RegisterPassportFields = ([],
     [''bio'', ''country'', ''website'', ''linkedinUrl'', ''instagramUrl'', ''xUrl'', ''businessName'',
       ''businessRole'', ''phone'', ''bioIsPublic'', ''countryIsPublic'', ''websiteIsPublic'',
       ''socialsIsPublic'', ''businessIsPublic'', ''phoneIsPublic''])"

definition CreateNdyQrInput :: "string list \<times> string list" where
  "CreateNdyQrInput = ([''label'', ''destination''],
     [''type'', ''campaign'', ''expiresAt'', ''brandStyle'', ''colorFrom'', ''colorTo'', ''logoUrl''])"

definition UpdateNdyQrInput :: "string list \<times> string list" where
  "UpdateNdyQrInput = ([],
     [''label'', ''destination'', ''type'', ''campaign'', ''isActive'', ''expiresAt'', ''brandStyle'',
       ''colorFrom'', ''colorTo'', ''logoUrl''])"

definition CreateSignatureInput :: "string list \<times> string list" where
  "CreateSignatureInput = ([''title'', ''contentHash'', ''signers''],
     [''contentRef'', ''expiresAt''])"

definition CreateMemoryInput :: "string list \<times> string list" where
  "CreateMemoryInput = ([''type'', ''content''],
     [''source''])"

definition SendMailParams :: "string list \<times> string list" where
  "SendMailParams = ([''recipientNdyIds'', ''subject'', ''body''],
     [''ccNdyIds'', ''attachmentDriveFileIds''])"

definition SaveDraftParams :: "string list \<times> string list" where
  "SaveDraftParams = ([],
     [''draftId'', ''recipientNdyIds'', ''ccNdyIds'', ''subject'', ''body'', ''attachmentDriveFileIds''])"

section \<open>Sign-in, registration, password reset and the profile\<close>

definition createLoginRequest :: "string option \<Rightarrow> client_call" where
  "createLoginRequest agent =
    with_json [(''method'', JStr ''QR'')] [(''browser'', map_option JStr agent)]
      (api_fetch_call POST [''auth'', ''login-request''] [])"

definition getLoginRequestStatus :: "string \<Rightarrow> client_call" where
  "getLoginRequestStatus token = api_fetch_call GET [''auth'', ''login-request'', ''$''] [token]"

definition exchangeLoginRequest :: "string \<Rightarrow> client_call" where
  "exchangeLoginRequest token =
    api_fetch_call POST [''auth'', ''login-request'', ''$'', ''exchange''] [token]"

definition refreshSession :: "client_call" where
  "refreshSession = api_fetch_call POST [''auth'', ''refresh''] []"

definition logoutSession :: "client_call" where
  "logoutSession = api_fetch_call POST [''auth'', ''logout''] []"

definition loginWithPassword :: "string \<Rightarrow> string \<Rightarrow> client_call" where
  "loginWithPassword email password =
    with_json [(''email'', JStr email), (''password'', JStr password)] []
      (api_fetch_call POST [''auth'', ''login''] [])"

definition registerWithPassword :: "string \<Rightarrow> string \<Rightarrow> string \<Rightarrow> (string \<Rightarrow> json option) \<Rightarrow> client_call" where
  "registerWithPassword email password fullName p =
    with_json [(''email'', JStr email), (''password'', JStr password), (''fullName'', JStr fullName)]
       (given (snd RegisterPassportFields) p)
      (api_fetch_call POST [''auth'', ''register''] [])"

definition forgotPassword :: "string \<Rightarrow> client_call" where
  "forgotPassword email =
    with_json [(''email'', JStr email)] [] (api_fetch_call POST [''auth'', ''forgot-password''] [])"

definition resendPasswordResetCode :: "string \<Rightarrow> client_call" where
  "resendPasswordResetCode email =
    with_json [(''email'', JStr email)] [] (api_fetch_call POST [''auth'', ''reset-password'', ''resend''] [])"

definition resetPassword :: "string \<Rightarrow> string \<Rightarrow> string \<Rightarrow> client_call" where
  "resetPassword email code newPassword =
    with_json [(''email'', JStr email), (''code'', JStr code), (''newPassword'', JStr newPassword)] []
      (api_fetch_call POST [''auth'', ''reset-password''] [])"

definition approveLoginRequestAs :: "string \<Rightarrow> client_call" where
  "approveLoginRequestAs token =
    request BearerCall POST [''auth'', ''login-request'', ''$'', ''approve''] [token]"

definition getMe :: "client_call" where
  "getMe = authed_fetch_call GET [''auth'', ''me''] []"

definition updateProfile :: "(string \<Rightarrow> json option) \<Rightarrow> client_call" where
  "updateProfile p =
    with_json [] (given (snd UpdateProfileInput) p) (authed_fetch_call PATCH [''auth'', ''me''] [])"

definition uploadProfilePhoto :: "client_call" where
  "uploadProfilePhoto = request Upload POST [''auth'', ''me'', ''photo''] []"

definition changePassword :: "string \<Rightarrow> string \<Rightarrow> client_call" where
  "changePassword currentPassword newPassword =
    with_json [(''currentPassword'', JStr currentPassword), (''newPassword'', JStr newPassword)] []
      (authed_fetch_call POST [''auth'', ''change-password''] [])"

definition verify2fa :: "string \<Rightarrow> string \<Rightarrow> client_call" where
  "verify2fa challengeToken code =
    with_json [(''challengeToken'', JStr challengeToken), (''code'', JStr code)] []
      (api_fetch_call POST [''auth'', ''2fa'', ''verify''] [])"

definition begin2faSetup :: "client_call" where
  "begin2faSetup = authed_fetch_call POST [''auth'', ''2fa'', ''setup''] []"

definition confirm2faSetup :: "string \<Rightarrow> client_call" where
  "confirm2faSetup code =
    with_json [(''code'', JStr code)] [] (authed_fetch_call POST [''auth'', ''2fa'', ''enable''] [])"

inductive session_call :: "client_call \<Rightarrow> bool" where
  "session_call (createLoginRequest x0)"
| "session_call (getLoginRequestStatus x0)"
| "session_call (exchangeLoginRequest x0)"
| "session_call refreshSession"
| "session_call logoutSession"
| "session_call (loginWithPassword x0 x1)"
| "session_call (registerWithPassword x0 x1 x2 x3)"
| "session_call (forgotPassword x0)"
| "session_call (resendPasswordResetCode x0)"
| "session_call (resetPassword x0 x1 x2)"
| "session_call (approveLoginRequestAs x0)"
| "session_call getMe"
| "session_call (updateProfile x0)"
| "session_call uploadProfilePhoto"
| "session_call (changePassword x0 x1)"
| "session_call (verify2fa x0 x1)"
| "session_call begin2faSetup"
| "session_call (confirm2faSetup x0)"

section \<open>Second factors and passkeys\<close>

definition disable2fa :: "string \<Rightarrow> string \<Rightarrow> client_call" where
  "disable2fa currentPassword code =
    with_json [(''currentPassword'', JStr currentPassword), (''code'', JStr code)] []
      (authed_fetch_call POST [''auth'', ''2fa'', ''disable''] [])"

definition beginSmsSetup :: "string \<Rightarrow> client_call" where
  "beginSmsSetup phoneE164 =
    with_json [(''phoneE164'', JStr phoneE164)] [] (authed_fetch_call POST [''auth'', ''sms-2fa'', ''setup''] [])"

definition confirmSmsSetup :: "string \<Rightarrow> string \<Rightarrow> client_call" where
  "confirmSmsSetup phoneE164 code =
    with_json [(''phoneE164'', JStr phoneE164), (''code'', JStr code)] []
      (authed_fetch_call POST [''auth'', ''sms-2fa'', ''enable''] [])"

definition disableSms2fa :: "string \<Rightarrow> client_call" where
  "disableSms2fa currentPassword =
    with_json [(''currentPassword'', JStr currentPassword)] []
      (authed_fetch_call POST [''auth'', ''sms-2fa'', ''disable''] [])"

definition sendSmsChallenge :: "string \<Rightarrow> client_call" where
  "sendSmsChallenge challengeToken =
    with_json [(''challengeToken'', JStr challengeToken)] []
      (api_fetch_call POST [''auth'', ''2fa'', ''send-sms''] [])"

definition getMyPasskeys :: "client_call" where
  "getMyPasskeys = authed_fetch_call GET [''auth'', ''passkeys''] []"

definition removeMyPasskey :: "string \<Rightarrow> client_call" where
  "removeMyPasskey i = authed_fetch_call DELETE [''auth'', ''passkeys'', ''$''] [i]"

definition beginPasskeyRegistration :: "client_call" where
  "beginPasskeyRegistration =
    authed_fetch_call POST [''auth'', ''passkeys'', ''register'', ''options''] []"

definition verifyPasskeyRegistration :: "string \<Rightarrow> json \<Rightarrow> string option \<Rightarrow> client_call" where
  "verifyPasskeyRegistration challengeId response deviceLabel =
    with_json [(''challengeId'', JStr challengeId), (''response'', response)] [(''deviceLabel'',
       map_option JStr deviceLabel)]
      (authed_fetch_call POST [''auth'', ''passkeys'', ''register'', ''verify''] [])"

definition beginPasskeyLogin :: "client_call" where
  "beginPasskeyLogin = api_fetch_call POST [''auth'', ''passkeys'', ''login'', ''options''] []"

definition verifyPasskeyLogin :: "string \<Rightarrow> json \<Rightarrow> client_call" where
  "verifyPasskeyLogin challengeId response =
    with_json [(''challengeId'', JStr challengeId), (''response'', response)] []
      (api_fetch_call POST [''auth'', ''passkeys'', ''login'', ''verify''] [])"

definition getOAuthProviders :: "client_call" where
  "getOAuthProviders = api_fetch_call GET [''auth'', ''oauth'', ''providers''] []"

definition buildOAuthStartUrl :: "string \<Rightarrow> string \<Rightarrow> client_call" where
  "buildOAuthStartUrl provider nxt =
    with_query [(''next'', Some nxt)]
      (request Navigation GET [''auth'', ''oauth'', ''$'', ''start''] [provider])"

definition exchangeOAuthCode :: "string \<Rightarrow> client_call" where
  "exchangeOAuthCode code =
    with_json [(''code'', JStr code)] [] (api_fetch_call POST [''auth'', ''oauth'', ''exchange''] [])"

inductive factor_call :: "client_call \<Rightarrow> bool" where
  "factor_call (disable2fa x0 x1)"
| "factor_call (beginSmsSetup x0)"
| "factor_call (confirmSmsSetup x0 x1)"
| "factor_call (disableSms2fa x0)"
| "factor_call (sendSmsChallenge x0)"
| "factor_call getMyPasskeys"
| "factor_call (removeMyPasskey x0)"
| "factor_call beginPasskeyRegistration"
| "factor_call (verifyPasskeyRegistration x0 x1 x2)"
| "factor_call beginPasskeyLogin"
| "factor_call (verifyPasskeyLogin x0 x1)"
| "factor_call getOAuthProviders"
| "factor_call (buildOAuthStartUrl x0 x1)"
| "factor_call (exchangeOAuthCode x0)"

section \<open>Social sign-in, connected accounts and e-mail verification\<close>

definition getConnectedAccounts :: "client_call" where
  "getConnectedAccounts = authed_fetch_call GET [''auth'', ''connected-accounts''] []"

definition unlinkConnectedAccount :: "string \<Rightarrow> client_call" where
  "unlinkConnectedAccount i = authed_fetch_call DELETE [''auth'', ''connected-accounts'', ''$''] [i]"

definition beginConnectOAuthProvider :: "string \<Rightarrow> client_call" where
  "beginConnectOAuthProvider provider =
    with_query [(''next'', Some ''/settings'')]
      (authed_fetch_call POST [''auth'', ''oauth'', ''$'', ''connect''] [provider])"

definition confirmEmailVerification :: "string \<Rightarrow> string \<Rightarrow> client_call" where
  "confirmEmailVerification email code =
    with_json [(''email'', JStr email), (''code'', JStr code)] []
      (api_fetch_call POST [''auth'', ''verify-email'', ''confirm''] [])"

definition resendEmailVerification :: "client_call" where
  "resendEmailVerification = authed_fetch_call POST [''auth'', ''verify-email'', ''resend''] []"

definition resendEmailVerificationByEmail :: "string \<Rightarrow> client_call" where
  "resendEmailVerificationByEmail email =
    with_json [(''email'', JStr email)] []
      (api_fetch_call POST [''auth'', ''verify-email'', ''resend-by-email''] [])"

definition buildLoginDeepLink :: "string \<Rightarrow> client_call" where
  "buildLoginDeepLink token = request Navigation GET [''auth'', ''login-request'', ''$''] [token]"

inductive identity_call :: "client_call \<Rightarrow> bool" where
  "identity_call getConnectedAccounts"
| "identity_call (unlinkConnectedAccount x0)"
| "identity_call (beginConnectOAuthProvider x0)"
| "identity_call (confirmEmailVerification x0 x1)"
| "identity_call resendEmailVerification"
| "identity_call (resendEmailVerificationByEmail x0)"
| "identity_call (buildLoginDeepLink x0)"

section \<open>Passport, memberships, balances, sessions and devices\<close>

definition getPublicPassport :: "string \<Rightarrow> client_call" where
  "getPublicPassport ndyId = api_fetch_call GET [''passport'', ''$''] [ndyId]"

definition getMembershipTiers :: "client_call" where
  "getMembershipTiers = api_fetch_call GET [''memberships'', ''tiers''] []"

definition getMyMembership :: "client_call" where
  "getMyMembership = authed_fetch_call GET [''memberships'', ''me''] []"

definition subscribeToTier :: "string \<Rightarrow> string \<Rightarrow> client_call" where
  "subscribeToTier tier billingCycle =
    with_json [(''tier'', JStr tier), (''billingCycle'', JStr billingCycle)] []
      (authed_fetch_call POST [''memberships'', ''subscribe''] [])"

definition cancelMembership :: "string \<Rightarrow> client_call" where
  "cancelMembership membershipId =
    authed_fetch_call POST [''memberships'', ''$'', ''cancel''] [membershipId]"

definition getMyCryndy :: "client_call" where
  "getMyCryndy = authed_fetch_call GET [''cryndy'', ''me''] []"

definition getMyNdybits :: "client_call" where
  "getMyNdybits = authed_fetch_call GET [''ndybits'', ''me''] []"

definition getMySessions :: "client_call" where
  "getMySessions = authed_fetch_call GET [''security'', ''sessions''] []"

definition revokeSessionById :: "string \<Rightarrow> client_call" where
  "revokeSessionById sessionId = authed_fetch_call DELETE [''security'', ''sessions'', ''$''] [sessionId]"

definition revokeAllSessions :: "client_call" where
  "revokeAllSessions = authed_fetch_call POST [''security'', ''sessions'', ''revoke-all''] []"

definition getMyDevices :: "client_call" where
  "getMyDevices = authed_fetch_call GET [''security'', ''devices''] []"

definition revokeDeviceById :: "string \<Rightarrow> client_call" where
  "revokeDeviceById deviceId = authed_fetch_call DELETE [''security'', ''devices'', ''$''] [deviceId]"

definition getMySecurityEvents :: "client_call" where
  "getMySecurityEvents = authed_fetch_call GET [''security'', ''events''] []"

inductive account_call :: "client_call \<Rightarrow> bool" where
  "account_call (getPublicPassport x0)"
| "account_call getMembershipTiers"
| "account_call getMyMembership"
| "account_call (subscribeToTier x0 x1)"
| "account_call (cancelMembership x0)"
| "account_call getMyCryndy"
| "account_call getMyNdybits"
| "account_call getMySessions"
| "account_call (revokeSessionById x0)"
| "account_call revokeAllSessions"
| "account_call getMyDevices"
| "account_call (revokeDeviceById x0)"
| "account_call getMySecurityEvents"

section \<open>Data export, transactions, documents and support\<close>

definition downloadDataExport :: "client_call" where
  "downloadDataExport = request Download GET [''gdpr'', ''export''] []"

definition deleteAccount :: "string \<Rightarrow> client_call" where
  "deleteAccount currentPassword =
    with_json [(''currentPassword'', JStr currentPassword), (''confirm'', JStr ''DELETE'')] []
      (authed_fetch_call POST [''gdpr'', ''delete-account''] [])"

definition getMyTransactions :: "client_call" where
  "getMyTransactions = authed_fetch_call GET [''transactions'', ''me''] []"

definition getMyDocuments :: "client_call" where
  "getMyDocuments = authed_fetch_call GET [''documents'', ''me''] []"

definition downloadDocument :: "string \<Rightarrow> client_call" where
  "downloadDocument i = request Download GET [''documents'', ''$'', ''download''] [i]"

definition getMySupportTickets :: "client_call" where
  "getMySupportTickets = authed_fetch_call GET [''support'', ''tickets''] []"

definition createSupportTicket :: "string \<Rightarrow> string \<Rightarrow> client_call" where
  "createSupportTicket subject message =
    with_json [(''subject'', JStr subject), (''message'', JStr message)] []
      (authed_fetch_call POST [''support'', ''tickets''] [])"

inductive record_call :: "client_call \<Rightarrow> bool" where
  "record_call downloadDataExport"
| "record_call (deleteAccount x0)"
| "record_call getMyTransactions"
| "record_call getMyDocuments"
| "record_call (downloadDocument x0)"
| "record_call getMySupportTickets"
| "record_call (createSupportTicket x0 x1)"

section \<open>Administration\<close>

definition adminListSupportTickets :: "client_call" where
  "adminListSupportTickets = authed_fetch_call GET [''admin'', ''support-tickets''] []"

definition adminReplySupportTicket :: "string \<Rightarrow> string \<Rightarrow> client_call" where
  "adminReplySupportTicket ticketId reply =
    with_json [(''reply'', JStr reply)] []
      (authed_fetch_call POST [''admin'', ''support-tickets'', ''$'', ''reply''] [ticketId])"

definition searchAdminUsers :: "string option \<Rightarrow> client_call" where
  "searchAdminUsers q =
    with_query [(''q'', if truthy q then q else None)] (authed_fetch_call GET [''admin'', ''users''] [])"

definition getAdminUserDetail :: "string \<Rightarrow> client_call" where
  "getAdminUserDetail userId = authed_fetch_call GET [''admin'', ''users'', ''$''] [userId]"

definition createRoleChangeRequest :: "string \<Rightarrow> string \<Rightarrow> string option \<Rightarrow> client_call" where
  "createRoleChangeRequest targetUserId new_role reason =
    with_json [(''targetUserId'', JStr targetUserId), (''role'', JStr new_role)] [(''reason'',
       map_option JStr reason)]
      (authed_fetch_call POST [''admin'', ''role-requests''] [])"

definition listRoleChangeRequests :: "string option \<Rightarrow> client_call" where
  "listRoleChangeRequests st =
    with_query [(''status'', if truthy st then st else None)]
      (authed_fetch_call GET [''admin'', ''role-requests''] [])"

definition approveRoleChangeRequest :: "string \<Rightarrow> string option \<Rightarrow> client_call" where
  "approveRoleChangeRequest requestId reason =
    with_json [] [(''reason'', map_option JStr reason)]
      (authed_fetch_call POST [''admin'', ''role-requests'', ''$'', ''approve''] [requestId])"

definition rejectRoleChangeRequest :: "string \<Rightarrow> string option \<Rightarrow> client_call" where
  "rejectRoleChangeRequest requestId reason =
    with_json [] [(''reason'', map_option JStr reason)]
      (authed_fetch_call POST [''admin'', ''role-requests'', ''$'', ''reject''] [requestId])"

definition adminSetSuspended :: "string \<Rightarrow> bool \<Rightarrow> string option \<Rightarrow> client_call" where
  "adminSetSuspended userId suspended reason =
    with_json [] [(''reason'', map_option JStr reason)]
      (authed_fetch_call POST [''admin'', ''users'', ''$'', if suspended then ''suspend'' else ''unsuspend''] [userId])"

definition getAdminAuditLog :: "client_call" where
  "getAdminAuditLog =
    with_query [(''take'', Some ''25'')] (authed_fetch_call GET [''admin'', ''audit-log''] [])"

definition getOAuthScopeCatalog :: "client_call" where
  "getOAuthScopeCatalog = authed_fetch_call GET [''admin'', ''oauth-clients'', ''scopes''] []"

definition listAdminOAuthClients :: "client_call" where
  "listAdminOAuthClients = authed_fetch_call GET [''admin'', ''oauth-clients''] []"

definition createAdminOAuthClient :: "(string \<Rightarrow> json) \<Rightarrow> (string \<Rightarrow> json option) \<Rightarrow> client_call" where
  "createAdminOAuthClient r p =
    with_json (given [''name'', ''redirectUris'', ''allowedScopes''] r) (given [''clientType''] p)
      (authed_fetch_call POST [''admin'', ''oauth-clients''] [])"

definition setAdminOAuthClientActive :: "string \<Rightarrow> bool \<Rightarrow> client_call" where
  "setAdminOAuthClientActive i active =
    authed_fetch_call PATCH [''admin'', ''oauth-clients'', ''$'',
       if active then ''activate'' else ''deactivate''] [i]"

definition updateAdminOAuthClient :: "string \<Rightarrow> (string \<Rightarrow> json option) \<Rightarrow> client_call" where
  "updateAdminOAuthClient i p =
    with_json [] (given [''name'', ''redirectUris'', ''allowedScopes''] p)
      (authed_fetch_call PATCH [''admin'', ''oauth-clients'', ''$''] [i])"

inductive admin_call :: "client_call \<Rightarrow> bool" where
  "admin_call adminListSupportTickets"
| "admin_call (adminReplySupportTicket x0 x1)"
| "admin_call (searchAdminUsers x0)"
| "admin_call (getAdminUserDetail x0)"
| "admin_call (createRoleChangeRequest x0 x1 x2)"
| "admin_call (listRoleChangeRequests x0)"
| "admin_call (approveRoleChangeRequest x0 x1)"
| "admin_call (rejectRoleChangeRequest x0 x1)"
| "admin_call (adminSetSuspended x0 True x2)"
| "admin_call (adminSetSuspended x0 False x2)"
| "admin_call getAdminAuditLog"
| "admin_call getOAuthScopeCatalog"
| "admin_call listAdminOAuthClients"
| "admin_call (createAdminOAuthClient x0 x1)"
| "admin_call (setAdminOAuthClientActive x0 True)"
| "admin_call (setAdminOAuthClientActive x0 False)"
| "admin_call (updateAdminOAuthClient x0 x1)"

section \<open>Consent, overviews and activity\<close>

definition getOAuthAuthorizeStatus :: "string \<Rightarrow> string \<Rightarrow> client_call" where
  "getOAuthAuthorizeStatus clientId scope =
    with_query [(''client_id'', Some clientId), (''scope'', Some scope)]
      (authed_fetch_call GET [''oauth'', ''authorize'', ''status''] [])"

definition submitOAuthConsent :: "(string \<Rightarrow> json) \<Rightarrow> (string \<Rightarrow> json option) \<Rightarrow> client_call" where
  "submitOAuthConsent r p =
    with_json (given [''clientId'', ''redirectUri'', ''scope'', ''approve''] r) (given [''state'',
       ''codeChallenge'', ''codeChallengeMethod''] p)
      (authed_fetch_call POST [''oauth'', ''authorize'', ''consent''] [])"

definition getConnectedSites :: "client_call" where
  "getConnectedSites = authed_fetch_call GET [''oauth'', ''grants''] []"

definition revokeConnectedSite :: "string \<Rightarrow> client_call" where
  "revokeConnectedSite grantId = authed_fetch_call DELETE [''oauth'', ''grants'', ''$''] [grantId]"

definition getFounderEcosystemOverview :: "client_call" where
  "getFounderEcosystemOverview = authed_fetch_call GET [''founder'', ''overview''] []"

definition getFinancialSummary :: "client_call" where
  "getFinancialSummary = authed_fetch_call GET [''founder'', ''financials''] []"

definition getEcosystemOverview :: "client_call" where
  "getEcosystemOverview = api_fetch_call GET [''ecosystem'', ''overview''] []"

definition getMyActivity :: "client_call" where
  "getMyActivity = authed_fetch_call GET [''activity'', ''me''] []"

inductive consent_call :: "client_call \<Rightarrow> bool" where
  "consent_call (getOAuthAuthorizeStatus x0 x1)"
| "consent_call (submitOAuthConsent x0 x1)"
| "consent_call getConnectedSites"
| "consent_call (revokeConnectedSite x0)"
| "consent_call getFounderEcosystemOverview"
| "consent_call getFinancialSummary"
| "consent_call getEcosystemOverview"
| "consent_call getMyActivity"

section \<open>Business workspaces and identity verification\<close>

definition requestBusinessWorkspace :: "string \<Rightarrow> string option \<Rightarrow> client_call" where
  "requestBusinessWorkspace businessName reason =
    with_json [(''businessName'', JStr businessName)] [(''reason'', map_option JStr reason)]
      (authed_fetch_call POST [''business-workspaces'', ''requests''] [])"

definition getMyBusinessWorkspaceRequests :: "client_call" where
  "getMyBusinessWorkspaceRequests = authed_fetch_call GET [''business-workspaces'', ''requests''] []"

definition listBusinessWorkspaceMembers :: "string \<Rightarrow> client_call" where
  "listBusinessWorkspaceMembers workspaceId =
    authed_fetch_call GET [''business-workspaces'', ''$'', ''members''] [workspaceId]"

definition listWorkspaceInvites :: "string \<Rightarrow> client_call" where
  "listWorkspaceInvites workspaceId =
    authed_fetch_call GET [''business-workspaces'', ''$'', ''invites''] [workspaceId]"

definition inviteToWorkspace :: "string \<Rightarrow> string \<Rightarrow> string \<Rightarrow> string option \<Rightarrow> client_call" where
  "inviteToWorkspace workspaceId invitedEmail invitedRole invitedDepartment =
    with_json [(''invitedEmail'', JStr invitedEmail), (''invitedRole'',
       JStr invitedRole)] [(''invitedDepartment'', map_option JStr invitedDepartment)]
      (authed_fetch_call POST [''business-workspaces'', ''$'', ''invites''] [workspaceId])"

definition revokeWorkspaceInvite :: "string \<Rightarrow> string \<Rightarrow> client_call" where
  "revokeWorkspaceInvite workspaceId inviteId =
    authed_fetch_call DELETE [''business-workspaces'', ''$'', ''invites'', ''$''] [workspaceId, inviteId]"

definition acceptWorkspaceInvite :: "string \<Rightarrow> client_call" where
  "acceptWorkspaceInvite token =
    with_json [(''token'', JStr token)] [] (authed_fetch_call POST [''workspace-invites'', ''accept''] [])"

definition getWorkspaceInvitePreview :: "string \<Rightarrow> client_call" where
  "getWorkspaceInvitePreview token = authed_fetch_call GET [''workspace-invites'', ''$''] [token]"

definition requestIdentityVerification :: "string option \<Rightarrow> client_call" where
  "requestIdentityVerification evidenceNote =
    with_json [] [(''evidenceNote'', map_option JStr evidenceNote)]
      (authed_fetch_call POST [''identity-verification'', ''requests''] [])"

definition getMyIdentityVerificationRequests :: "client_call" where
  "getMyIdentityVerificationRequests =
    authed_fetch_call GET [''identity-verification'', ''requests'', ''mine''] []"

definition listIdentityVerificationRequests :: "string option \<Rightarrow> client_call" where
  "listIdentityVerificationRequests st =
    with_query [(''status'', if truthy st then st else None)]
      (authed_fetch_call GET [''identity-verification'', ''requests''] [])"

definition approveIdentityVerificationRequest :: "string \<Rightarrow> string option \<Rightarrow> client_call" where
  "approveIdentityVerificationRequest i reason =
    with_json [] [(''reason'', map_option JStr reason)]
      (authed_fetch_call POST [''identity-verification'', ''requests'', ''$'', ''approve''] [i])"

definition rejectIdentityVerificationRequest :: "string \<Rightarrow> string option \<Rightarrow> client_call" where
  "rejectIdentityVerificationRequest i reason =
    with_json [] [(''reason'', map_option JStr reason)]
      (authed_fetch_call POST [''identity-verification'', ''requests'', ''$'', ''reject''] [i])"

inductive business_call :: "client_call \<Rightarrow> bool" where
  "business_call (requestBusinessWorkspace x0 x1)"
| "business_call getMyBusinessWorkspaceRequests"
| "business_call (listBusinessWorkspaceMembers x0)"
| "business_call (listWorkspaceInvites x0)"
| "business_call (inviteToWorkspace x0 x1 x2 x3)"
| "business_call (revokeWorkspaceInvite x0 x1)"
| "business_call (acceptWorkspaceInvite x0)"
| "business_call (getWorkspaceInvitePreview x0)"
| "business_call (requestIdentityVerification x0)"
| "business_call getMyIdentityVerificationRequests"
| "business_call (listIdentityVerificationRequests x0)"
| "business_call (approveIdentityVerificationRequest x0 x1)"
| "business_call (rejectIdentityVerificationRequest x0 x1)"

section \<open>Notifications and NDYQR\<close>

definition listNotifications :: "client_call" where
  "listNotifications = authed_fetch_call GET [''notifications''] []"

definition getNotificationUnreadCount :: "client_call" where
  "getNotificationUnreadCount = authed_fetch_call GET [''notifications'', ''unread-count''] []"

definition markNotificationRead :: "string \<Rightarrow> client_call" where
  "markNotificationRead i = authed_fetch_call PATCH [''notifications'', ''$'', ''read''] [i]"

definition markAllNotificationsRead :: "client_call" where
  "markAllNotificationsRead = authed_fetch_call POST [''notifications'', ''read-all''] []"

definition publicQrUrl :: "string \<Rightarrow> client_call" where
  "publicQrUrl slug = request Navigation GET [''q'', ''$''] [slug]"

definition listQrCodes :: "client_call" where
  "listQrCodes = authed_fetch_call GET [''ndyqr''] []"

definition createQrCode :: "(string \<Rightarrow> json) \<Rightarrow> (string \<Rightarrow> json option) \<Rightarrow> client_call" where
  "createQrCode r p =
    with_json (given (fst CreateNdyQrInput) r) (given (snd CreateNdyQrInput) p)
      (authed_fetch_call POST [''ndyqr''] [])"

definition updateQrCode :: "string \<Rightarrow> (string \<Rightarrow> json option) \<Rightarrow> client_call" where
  "updateQrCode i p =
    with_json [] (given (snd UpdateNdyQrInput) p) (authed_fetch_call PATCH [''ndyqr'', ''$''] [i])"

definition deleteQrCode :: "string \<Rightarrow> client_call" where
  "deleteQrCode i = authed_fetch_call DELETE [''ndyqr'', ''$''] [i]"

definition getQrAnalytics :: "string \<Rightarrow> client_call" where
  "getQrAnalytics i = authed_fetch_call GET [''ndyqr'', ''$'', ''analytics''] [i]"

definition listAllQrCodes :: "client_call" where
  "listAllQrCodes = authed_fetch_call GET [''ndyqr'', ''admin'', ''all''] []"

inductive qr_call :: "client_call \<Rightarrow> bool" where
  "qr_call listNotifications"
| "qr_call getNotificationUnreadCount"
| "qr_call (markNotificationRead x0)"
| "qr_call markAllNotificationsRead"
| "qr_call (publicQrUrl x0)"
| "qr_call listQrCodes"
| "qr_call (createQrCode x0 x1)"
| "qr_call (updateQrCode x0 x1)"
| "qr_call (deleteQrCode x0)"
| "qr_call (getQrAnalytics x0)"
| "qr_call listAllQrCodes"

section \<open>Signatures, AI agents and memory\<close>

definition listMySignatures :: "client_call" where
  "listMySignatures = authed_fetch_call GET [''signature'', ''mine''] []"

definition createSignatureRequest :: "(string \<Rightarrow> json) \<Rightarrow> (string \<Rightarrow> json option) \<Rightarrow> client_call" where
  "createSignatureRequest r p =
    with_json (given (fst CreateSignatureInput) r) (given (snd CreateSignatureInput) p)
      (authed_fetch_call POST [''signature''] [])"

definition getSignaturePreview :: "string \<Rightarrow> client_call" where
  "getSignaturePreview token = authed_fetch_call GET [''signature'', ''$'', ''preview''] [token]"

definition signDocument :: "string \<Rightarrow> client_call" where
  "signDocument token =
    with_json [(''consent'', JBool True)] [] (authed_fetch_call POST [''signature'', ''$'', ''sign''] [token])"

definition declineSignature :: "string \<Rightarrow> client_call" where
  "declineSignature token = authed_fetch_call POST [''signature'', ''$'', ''decline''] [token]"

definition revokeSignatureRequest :: "string \<Rightarrow> client_call" where
  "revokeSignatureRequest i = authed_fetch_call POST [''signature'', ''$'', ''revoke''] [i]"

definition verifySignature :: "string \<Rightarrow> client_call" where
  "verifySignature signatureId = api_fetch_call GET [''signature'', ''verify'', ''$''] [signatureId]"

definition listAgentScopes :: "client_call" where
  "listAgentScopes = authed_fetch_call GET [''context-broker'', ''scopes''] []"

definition listAgentGrants :: "client_call" where
  "listAgentGrants = authed_fetch_call GET [''context-broker'', ''grants''] []"

definition grantAgentConsent :: "string \<Rightarrow> json \<Rightarrow> client_call" where
  "grantAgentConsent oauthClientId scopes =
    with_json [(''oauthClientId'', JStr oauthClientId), (''scopes'', scopes)] []
      (authed_fetch_call POST [''context-broker'', ''grants''] [])"

definition revokeAgentConsent :: "string \<Rightarrow> client_call" where
  "revokeAgentConsent oauthClientId =
    authed_fetch_call DELETE [''context-broker'', ''grants'', ''$''] [oauthClientId]"

definition listMemories :: "client_call" where
  "listMemories = authed_fetch_call GET [''memory''] []"

definition createMemory :: "(string \<Rightarrow> json) \<Rightarrow> (string \<Rightarrow> json option) \<Rightarrow> client_call" where
  "createMemory r p =
    with_json (given (fst CreateMemoryInput) r) (given (snd CreateMemoryInput) p)
      (authed_fetch_call POST [''memory''] [])"

definition updateMemory :: "string \<Rightarrow> string \<Rightarrow> client_call" where
  "updateMemory i content =
    with_json [(''content'', JStr content)] [] (authed_fetch_call PATCH [''memory'', ''$''] [i])"

definition deleteMemory :: "string \<Rightarrow> client_call" where
  "deleteMemory i = authed_fetch_call DELETE [''memory'', ''$''] [i]"

definition setMemoryEnabled :: "string \<Rightarrow> bool \<Rightarrow> client_call" where
  "setMemoryEnabled i enabled =
    authed_fetch_call PATCH [''memory'', ''$'', if enabled then ''enable'' else ''disable''] [i]"

inductive signature_call :: "client_call \<Rightarrow> bool" where
  "signature_call listMySignatures"
| "signature_call (createSignatureRequest x0 x1)"
| "signature_call (getSignaturePreview x0)"
| "signature_call (signDocument x0)"
| "signature_call (declineSignature x0)"
| "signature_call (revokeSignatureRequest x0)"
| "signature_call (verifySignature x0)"
| "signature_call listAgentScopes"
| "signature_call listAgentGrants"
| "signature_call (grantAgentConsent x0 x1)"
| "signature_call (revokeAgentConsent x0)"
| "signature_call listMemories"
| "signature_call (createMemory x0 x1)"
| "signature_call (updateMemory x0 x1)"
| "signature_call (deleteMemory x0)"
| "signature_call (setMemoryEnabled x0 True)"
| "signature_call (setMemoryEnabled x0 False)"

section \<open>NDYSPACE: overview and mail\<close>

definition getNdyspaceOverview :: "client_call" where
  "getNdyspaceOverview = authed_fetch_call GET [''ndyspace'', ''overview''] []"

definition getMiniCalendarDates :: "nat \<Rightarrow> nat \<Rightarrow> client_call" where
  "getMiniCalendarDates year month =
    with_query [(''year'', Some (string_of_nat year)), (''month'', Some (string_of_nat month))]
      (authed_fetch_call GET [''ndyspace'', ''overview'', ''mini-calendar''] [])"

definition listMail :: "string \<Rightarrow> client_call" where
  "listMail box = with_query [(''folder'', Some box)] (authed_fetch_call GET [''ndyspace'', ''mail''] [])"

definition getMailUnreadCount :: "client_call" where
  "getMailUnreadCount = authed_fetch_call GET [''ndyspace'', ''mail'', ''unread-count''] []"

definition getMailItem :: "string \<Rightarrow> client_call" where
  "getMailItem i = authed_fetch_call GET [''ndyspace'', ''mail'', ''$''] [i]"

definition sendMail :: "(string \<Rightarrow> json) \<Rightarrow> (string \<Rightarrow> json option) \<Rightarrow> client_call" where
  "sendMail r p =
    with_json (given (fst SendMailParams) r) (given (snd SendMailParams) p)
      (authed_fetch_call POST [''ndyspace'', ''mail''] [])"

definition saveMailDraft :: "(string \<Rightarrow> json option) \<Rightarrow> client_call" where
  "saveMailDraft p =
    with_json [] (given (snd SaveDraftParams) p) (authed_fetch_call POST [''ndyspace'', ''mail'', ''drafts''] [])"

definition sendMailDraft :: "string \<Rightarrow> (string \<Rightarrow> json option) \<Rightarrow> client_call" where
  "sendMailDraft draftId p =
    with_json [] (given [''recipientNdyIds'', ''ccNdyIds'', ''subject'', ''body'',
       ''attachmentDriveFileIds''] p)
      (authed_fetch_call POST [''ndyspace'', ''mail'', ''drafts'', ''$'', ''send''] [draftId])"

definition updateMailItem :: "string \<Rightarrow> (string \<Rightarrow> json option) \<Rightarrow> client_call" where
  "updateMailItem i p =
    with_json [] (given [''folder'', ''isRead'', ''isStarred''] p)
      (authed_fetch_call PATCH [''ndyspace'', ''mail'', ''$''] [i])"

definition deleteMailItem :: "string \<Rightarrow> client_call" where
  "deleteMailItem i = authed_fetch_call DELETE [''ndyspace'', ''mail'', ''$''] [i]"

definition emptyMailTrash :: "client_call" where
  "emptyMailTrash = authed_fetch_call POST [''ndyspace'', ''mail'', ''trash'', ''empty''] []"

inductive mail_call :: "client_call \<Rightarrow> bool" where
  "mail_call getNdyspaceOverview"
| "mail_call (getMiniCalendarDates x0 x1)"
| "mail_call (listMail x0)"
| "mail_call getMailUnreadCount"
| "mail_call (getMailItem x0)"
| "mail_call (sendMail x0 x1)"
| "mail_call (saveMailDraft x0)"
| "mail_call (sendMailDraft x0 x1)"
| "mail_call (updateMailItem x0 x1)"
| "mail_call (deleteMailItem x0)"
| "mail_call emptyMailTrash"

section \<open>NDYSPACE: calendar and drive\<close>

definition listCalendarEvents :: "string \<Rightarrow> string \<Rightarrow> client_call" where
  "listCalendarEvents start until =
    with_query [(''from'', Some start), (''to'', Some until)]
      (authed_fetch_call GET [''ndyspace'', ''calendar'', ''events''] [])"

definition listUpcomingEvents :: "nat \<Rightarrow> client_call" where
  "listUpcomingEvents n =
    with_query [(''take'', Some (string_of_nat n))]
      (authed_fetch_call GET [''ndyspace'', ''calendar'', ''events'', ''upcoming''] [])"

definition createCalendarEvent :: "(string \<Rightarrow> json) \<Rightarrow> (string \<Rightarrow> json option) \<Rightarrow> client_call" where
  "createCalendarEvent r p =
    with_json (given [''title'', ''startAt'', ''endAt''] r) (given [''description'', ''color'',
       ''attendeeEmails''] p)
      (authed_fetch_call POST [''ndyspace'', ''calendar'', ''events''] [])"

definition updateCalendarEvent :: "string \<Rightarrow> (string \<Rightarrow> json option) \<Rightarrow> client_call" where
  "updateCalendarEvent i p =
    with_json [] (given [''title'', ''description'', ''startAt'', ''endAt'', ''color'', ''attendeeEmails''] p)
      (authed_fetch_call PATCH [''ndyspace'', ''calendar'', ''events'', ''$''] [i])"

definition deleteCalendarEvent :: "string \<Rightarrow> client_call" where
  "deleteCalendarEvent i = authed_fetch_call DELETE [''ndyspace'', ''calendar'', ''events'', ''$''] [i]"

definition listDriveFolders :: "client_call" where
  "listDriveFolders = authed_fetch_call GET [''ndyspace'', ''drive'', ''folders''] []"

definition createDriveFolder :: "string \<Rightarrow> client_call" where
  "createDriveFolder name =
    with_json [(''name'', JStr name)] [] (authed_fetch_call POST [''ndyspace'', ''drive'', ''folders''] [])"

definition deleteDriveFolder :: "string \<Rightarrow> client_call" where
  "deleteDriveFolder i = authed_fetch_call DELETE [''ndyspace'', ''drive'', ''folders'', ''$''] [i]"

definition listDriveFiles :: "string option \<Rightarrow> client_call" where
  "listDriveFiles folderId =
    with_query [(''folderId'', if truthy folderId then folderId else None)]
      (authed_fetch_call GET [''ndyspace'', ''drive'', ''files''] [])"

definition listRecentDriveFiles :: "client_call" where
  "listRecentDriveFiles = authed_fetch_call GET [''ndyspace'', ''drive'', ''files'', ''recent''] []"

definition uploadDriveFile :: "string option \<Rightarrow> client_call" where
  "uploadDriveFile folderId =
    with_query [(''folderId'', if truthy folderId then folderId else None)]
      (request Upload POST [''ndyspace'', ''drive'', ''files''] [])"

definition deleteDriveFile :: "string \<Rightarrow> client_call" where
  "deleteDriveFile i = authed_fetch_call DELETE [''ndyspace'', ''drive'', ''files'', ''$''] [i]"

definition moveDriveFile :: "string \<Rightarrow> string option \<Rightarrow> client_call" where
  "moveDriveFile i folderId =
    with_json [(''folderId'', case folderId of None \<Rightarrow> JNull | Some x \<Rightarrow> JStr x)] []
      (authed_fetch_call PATCH [''ndyspace'', ''drive'', ''files'', ''$'', ''move''] [i])"

definition getDriveStorageUsage :: "client_call" where
  "getDriveStorageUsage = authed_fetch_call GET [''ndyspace'', ''drive'', ''storage''] []"

inductive drive_call :: "client_call \<Rightarrow> bool" where
  "drive_call (listCalendarEvents x0 x1)"
| "drive_call (listUpcomingEvents x0)"
| "drive_call (createCalendarEvent x0 x1)"
| "drive_call (updateCalendarEvent x0 x1)"
| "drive_call (deleteCalendarEvent x0)"
| "drive_call listDriveFolders"
| "drive_call (createDriveFolder x0)"
| "drive_call (deleteDriveFolder x0)"
| "drive_call (listDriveFiles x0)"
| "drive_call listRecentDriveFiles"
| "drive_call (uploadDriveFile x0)"
| "drive_call (deleteDriveFile x0)"
| "drive_call (moveDriveFile x0 x1)"
| "drive_call getDriveStorageUsage"

section \<open>NDYSPACE: contacts and tasks\<close>

definition listContacts :: "client_call" where
  "listContacts = authed_fetch_call GET [''ndyspace'', ''contacts''] []"

definition searchContacts :: "string \<Rightarrow> client_call" where
  "searchContacts text =
    with_query [(''q'', Some text)] (authed_fetch_call GET [''ndyspace'', ''contacts'', ''search''] [])"

definition createContact :: "(string \<Rightarrow> json) \<Rightarrow> (string \<Rightarrow> json option) \<Rightarrow> client_call" where
  "createContact r p =
    with_json (given [''fullName''] r) (given [''email'', ''phone'', ''company'', ''notes'', ''ndyId''] p)
      (authed_fetch_call POST [''ndyspace'', ''contacts''] [])"

definition updateContact :: "string \<Rightarrow> (string \<Rightarrow> json option) \<Rightarrow> client_call" where
  "updateContact i p =
    with_json [] (given [''fullName'', ''email'', ''phone'', ''company'', ''notes'', ''ndyId''] p)
      (authed_fetch_call PATCH [''ndyspace'', ''contacts'', ''$''] [i])"

definition deleteContact :: "string \<Rightarrow> client_call" where
  "deleteContact i = authed_fetch_call DELETE [''ndyspace'', ''contacts'', ''$''] [i]"

definition listTasks :: "string option \<Rightarrow> client_call" where
  "listTasks st =
    with_query [(''status'', if truthy st then st else None)] (authed_fetch_call GET [''ndyspace'', ''tasks''] [])"

definition createTask :: "(string \<Rightarrow> json) \<Rightarrow> (string \<Rightarrow> json option) \<Rightarrow> client_call" where
  "createTask r p =
    with_json (given [''title''] r) (given [''description'', ''priority'', ''dueAt''] p)
      (authed_fetch_call POST [''ndyspace'', ''tasks''] [])"

definition updateTask :: "string \<Rightarrow> (string \<Rightarrow> json option) \<Rightarrow> client_call" where
  "updateTask i p =
    with_json [] (given [''title'', ''description'', ''priority'', ''status'', ''dueAt''] p)
      (authed_fetch_call PATCH [''ndyspace'', ''tasks'', ''$''] [i])"

definition setTaskComplete :: "string \<Rightarrow> bool \<Rightarrow> client_call" where
  "setTaskComplete i complete =
    authed_fetch_call PATCH [''ndyspace'', ''tasks'', ''$'', if complete then ''complete'' else ''reopen''] [i]"

definition deleteTask :: "string \<Rightarrow> client_call" where
  "deleteTask i = authed_fetch_call DELETE [''ndyspace'', ''tasks'', ''$''] [i]"

inductive contact_call :: "client_call \<Rightarrow> bool" where
  "contact_call listContacts"
| "contact_call (searchContacts x0)"
| "contact_call (createContact x0 x1)"
| "contact_call (updateContact x0 x1)"
| "contact_call (deleteContact x0)"
| "contact_call (listTasks x0)"
| "contact_call (createTask x0 x1)"
| "contact_call (updateTask x0 x1)"
| "contact_call (setTaskComplete x0 True)"
| "contact_call (setTaskComplete x0 False)"
| "contact_call (deleteTask x0)"

section \<open>NDYSPACE: notes, bookmarks and notifications\<close>

definition listNotes :: "client_call" where
  "listNotes = authed_fetch_call GET [''ndyspace'', ''notes''] []"

definition createNote :: "(string \<Rightarrow> json) \<Rightarrow> (string \<Rightarrow> json option) \<Rightarrow> client_call" where
  "createNote r p =
    with_json (given [''title''] r) (given [''body''] p) (authed_fetch_call POST [''ndyspace'', ''notes''] [])"

definition updateNote :: "string \<Rightarrow> (string \<Rightarrow> json option) \<Rightarrow> client_call" where
  "updateNote i p =
    with_json [] (given [''title'', ''body''] p) (authed_fetch_call PATCH [''ndyspace'', ''notes'', ''$''] [i])"

definition deleteNote :: "string \<Rightarrow> client_call" where
  "deleteNote i = authed_fetch_call DELETE [''ndyspace'', ''notes'', ''$''] [i]"

definition listBookmarks :: "client_call" where
  "listBookmarks = authed_fetch_call GET [''ndyspace'', ''bookmarks''] []"

definition createBookmark :: "(string \<Rightarrow> json) \<Rightarrow> client_call" where
  "createBookmark r =
    with_json (given [''title'', ''url''] r) [] (authed_fetch_call POST [''ndyspace'', ''bookmarks''] [])"

definition deleteBookmark :: "string \<Rightarrow> client_call" where
  "deleteBookmark i = authed_fetch_call DELETE [''ndyspace'', ''bookmarks'', ''$''] [i]"

definition listNdyspaceNotifications :: "client_call" where
  "listNdyspaceNotifications = authed_fetch_call GET [''ndyspace'', ''notifications''] []"

definition getNdyspaceUnreadNotificationCount :: "client_call" where
  "getNdyspaceUnreadNotificationCount =
    authed_fetch_call GET [''ndyspace'', ''notifications'', ''unread-count''] []"

definition markNdyspaceNotificationRead :: "string \<Rightarrow> client_call" where
  "markNdyspaceNotificationRead i =
    authed_fetch_call PATCH [''ndyspace'', ''notifications'', ''$'', ''read''] [i]"

definition markAllNdyspaceNotificationsRead :: "client_call" where
  "markAllNdyspaceNotificationsRead =
    authed_fetch_call POST [''ndyspace'', ''notifications'', ''read-all''] []"

inductive note_call :: "client_call \<Rightarrow> bool" where
  "note_call listNotes"
| "note_call (createNote x0 x1)"
| "note_call (updateNote x0 x1)"
| "note_call (deleteNote x0)"
| "note_call listBookmarks"
| "note_call (createBookmark x0)"
| "note_call (deleteBookmark x0)"
| "note_call listNdyspaceNotifications"
| "note_call getNdyspaceUnreadNotificationCount"
| "note_call (markNdyspaceNotificationRead x0)"
| "note_call markAllNdyspaceNotificationsRead"

section \<open>All calls\<close>

definition web_call :: "client_call \<Rightarrow> bool" where
  "web_call q \<longleftrightarrow>
     session_call q \<or> factor_call q \<or> identity_call q \<or> account_call q \<or>
     record_call q \<or> admin_call q \<or> consent_call q \<or> business_call q \<or>
     qr_call q \<or> signature_call q \<or> mail_call q \<or> drive_call q \<or>
     contact_call q \<or> note_call q"

end
