(* ===== verification/Routing.thy ===== *)
theory Routing
  imports ApiClient "HOL-Library.Multiset"
begin

text \<open>
  What the routes and the web bindings promise together: the order in which controllers are
  registered does not matter, every call of the web application reaches the handler it is meant
  for with its whole body, what is not public is closed to a caller without credentials, and the
  staff routes are open to the permission they declare only.
\<close>

section \<open>Evaluation\<close>

text \<open>The rules that unfold a controller, and those that compare literals.\<close>

lemmas controller_defs =
  action_engine_controller_def activity_controller_def admin_controller_def role_change_request_controller_def
  app_controller_def auth_controller_def context_broker_controller_def cryndy_webhook_controller_def
  cryndy_controller_def documents_controller_def ecosystem_events_controller_def
  ecosystem_events_me_controller_def ecosystem_controller_def founder_controller_def gdpr_controller_def
  identity_verification_controller_def identity_controller_def backup_alert_controller_def
  notify_controller_def membership_controller_def stripe_webhook_controller_def memory_controller_def
  ndy_economy_events_controller_def ndy_economy_controller_def ndybits_controller_def
  ndyqr_redirect_controller_def ndyqr_service_controller_def ndyqr_controller_def
  ndyspace_bookmarks_controller_def ndyspace_calendar_controller_def ndyspace_contacts_controller_def
  ndyspace_drive_controller_def ndyspace_mail_controller_def ndyspace_notes_controller_def
  ndyspace_notifications_controller_def ndyspace_overview_controller_def ndyspace_tasks_controller_def
  notification_controller_def authorize_controller_def cross_product_passkey_controller_def
  discovery_controller_def grants_controller_def oauth_client_admin_controller_def token_controller_def
  user_info_controller_def security_events_controller_def security_controller_def
  security_devices_controller_def signature_controller_def support_admin_controller_def support_controller_def
  transactions_controller_def trust_controller_def business_workspace_controller_def
  workspace_team_controller_def workspace_invite_accept_controller_def

lemmas auth_route_defs =
  auth_session_routes_def auth_account_routes_def auth_recovery_routes_def auth_factor_routes_def
  auth_passkey_routes_def auth_social_routes_def

lemmas route_simps =
  on_route_def controller_of_def route.simps controller.simps full_path_def append.simps list.map list.case
  prod.case fst_conv snd_conv

lemmas literal_simps =
  list.inject list.distinct char.inject simp_thms verb.simps guard.simps is_param_def list.case if_True if_False

section \<open>The order of the controllers\<close>

fun segments_meet :: "string list \<Rightarrow> string list \<Rightarrow> bool" where
  "segments_meet [] [] = True"
| "segments_meet (p # ps) (q # qs) = (if is_param p \<or> is_param q \<or> p = q then segments_meet ps qs else False)"
| "segments_meet _ _ = False"

fun prefixes_meet :: "string list \<Rightarrow> string list \<Rightarrow> bool" where
  "prefixes_meet (p # ps) (q # qs) = (if is_param p \<or> is_param q \<or> p = q then prefixes_meet ps qs else False)"
| "prefixes_meet _ _ = True"

definition controllers_clash :: "controller \<Rightarrow> controller \<Rightarrow> bool" where
  "controllers_clash c d \<longleftrightarrow>
     (if prefixes_meet (ct_prefix c) (ct_prefix d)
      then list_ex (\<lambda>r. list_ex (\<lambda>r'. if rt_verb r = rt_verb r' then segments_meet (full_path c r) (full_path d r') else False)
        (ct_routes d)) (ct_routes c)
      else False)"

fun clash_free :: "controller list \<Rightarrow> bool" where
  "clash_free [] = True"
| "clash_free (c # cs) = (list_all (\<lambda>d. \<not> controllers_clash c d) cs \<and> clash_free cs)"

lemma segments_meet_sym: "segments_meet ps qs = segments_meet qs ps"
  by (induction ps qs rule: segments_meet.induct) auto

lemma segments_match_meet: "segments_match ps xs \<Longrightarrow> segments_match qs xs \<Longrightarrow> segments_meet ps qs"
proof (induction ps xs arbitrary: qs rule: segments_match.induct)
  case (2 p ps x xs)
  then show ?case by (cases qs) auto
qed (auto elim: segments_match.elims)

lemma prefixes_meet_append: "segments_meet (ps @ ps') (qs @ qs') \<Longrightarrow> prefixes_meet ps qs"
  by (induction ps qs rule: prefixes_meet.induct) (auto split: if_splits)

lemma prefixes_meet_sym: "prefixes_meet ps qs = prefixes_meet qs ps"
  by (induction ps qs rule: prefixes_meet.induct) auto

lemma controllers_clash_sym: "controllers_clash c d = controllers_clash d c"
  unfolding controllers_clash_def list_ex_iff by (metis segments_meet_sym prefixes_meet_sym)

lemma handles_clash:
  assumes "handles v xs (c, r)" and "handles v xs (d, r')" and "r \<in> set (ct_routes c)" and "r' \<in> set (ct_routes d)"
  shows "controllers_clash c d"
proof -
  have meet: "rt_verb r = rt_verb r' \<and> segments_meet (full_path c r) (full_path d r')"
    using assms(1,2) segments_match_meet by (auto simp: handles_def)
  then have "prefixes_meet (ct_prefix c) (ct_prefix d)"
    unfolding full_path_def by (blast intro: prefixes_meet_append)
  moreover have "\<exists>r \<in> set (ct_routes c). \<exists>r' \<in> set (ct_routes d).
      rt_verb r = rt_verb r' \<and> segments_meet (full_path c r) (full_path d r')"
    using meet assms(3,4) by blast
  ultimately show ?thesis
    by (fastforce simp: controllers_clash_def list_ex_iff)
qed

lemma clash_free_D:
  "clash_free cs \<Longrightarrow> c \<in> set cs \<Longrightarrow> d \<in> set cs \<Longrightarrow> controllers_clash c d \<Longrightarrow> c = d"
  by (induction cs) (auto simp: list_all_iff controllers_clash_sym)

lemma controller_prefixes:
  "ct_prefix action_engine_controller = [''action-engine'']"
  "ct_prefix activity_controller = [''activity'']"
  "ct_prefix admin_controller = [''admin'']"
  "ct_prefix role_change_request_controller = [''admin'', ''role-requests'']"
  "ct_prefix app_controller = []"
  "ct_prefix auth_controller = [''auth'']"
  "ct_prefix context_broker_controller = [''context-broker'']"
  "ct_prefix cryndy_webhook_controller = [''webhooks'', ''cryndy'']"
  "ct_prefix cryndy_controller = [''cryndy'']"
  "ct_prefix documents_controller = [''documents'']"
  "ct_prefix ecosystem_events_controller = [''ecosystem'', ''events'']"
  "ct_prefix ecosystem_events_me_controller = [''ecosystem'', ''events'']"
  "ct_prefix ecosystem_controller = [''ecosystem'']"
  "ct_prefix founder_controller = [''founder'']"
  "ct_prefix gdpr_controller = [''gdpr'']"
  "ct_prefix identity_verification_controller = [''identity-verification'']"
  "ct_prefix identity_controller = [''passport'']"
  "ct_prefix backup_alert_controller = [''internal'']"
  "ct_prefix notify_controller = [''internal'']"
  "ct_prefix membership_controller = [''memberships'']"
  "ct_prefix stripe_webhook_controller = [''webhooks'', ''stripe'']"
  "ct_prefix memory_controller = [''memory'']"
  "ct_prefix ndy_economy_events_controller = [''ndy-economy'', ''events'']"
  "ct_prefix ndy_economy_controller = [''ndy-economy'']"
  "ct_prefix ndybits_controller = [''ndybits'']"
  "ct_prefix ndyqr_redirect_controller = [''q'']"
  "ct_prefix ndyqr_service_controller = [''ndyqr'', ''service'']"
  "ct_prefix ndyqr_controller = [''ndyqr'']"
  "ct_prefix ndyspace_bookmarks_controller = [''ndyspace'', ''bookmarks'']"
  "ct_prefix ndyspace_calendar_controller = [''ndyspace'', ''calendar'']"
  "ct_prefix ndyspace_contacts_controller = [''ndyspace'', ''contacts'']"
  "ct_prefix ndyspace_drive_controller = [''ndyspace'', ''drive'']"
  "ct_prefix ndyspace_mail_controller = [''ndyspace'', ''mail'']"
  "ct_prefix ndyspace_notes_controller = [''ndyspace'', ''notes'']"
  "ct_prefix ndyspace_notifications_controller = [''ndyspace'', ''notifications'']"
  "ct_prefix ndyspace_overview_controller = [''ndyspace'', ''overview'']"
  "ct_prefix ndyspace_tasks_controller = [''ndyspace'', ''tasks'']"
  "ct_prefix notification_controller = [''notifications'']"
  "ct_prefix authorize_controller = [''oauth'']"
  "ct_prefix cross_product_passkey_controller = [''oauth'', ''passkeys'']"
  "ct_prefix discovery_controller = [''.well-known'']"
  "ct_prefix grants_controller = [''oauth'', ''grants'']"
  "ct_prefix oauth_client_admin_controller = [''admin'', ''oauth-clients'']"
  "ct_prefix token_controller = [''oauth'']"
  "ct_prefix user_info_controller = [''oauth'']"
  "ct_prefix security_events_controller = [''security'', ''events'']"
  "ct_prefix security_controller = [''security'', ''sessions'']"
  "ct_prefix security_devices_controller = [''security'', ''devices'']"
  "ct_prefix signature_controller = [''signature'']"
  "ct_prefix support_admin_controller = [''admin'', ''support-tickets'']"
  "ct_prefix support_controller = [''support'']"
  "ct_prefix transactions_controller = [''transactions'']"
  "ct_prefix trust_controller = [''trust'']"
  "ct_prefix business_workspace_controller = [''business-workspaces'', ''requests'']"
  "ct_prefix workspace_team_controller = [''business-workspaces'', '':workspaceId'']"
  "ct_prefix workspace_invite_accept_controller = [''workspace-invites'']"
  by (simp_all only: controller_defs route_simps)

lemma controllers_clash_free: "clash_free controllers"
  apply (simp only: controllers_def clash_free.simps list.pred_inject controllers_clash_def controller_prefixes
    prefixes_meet.simps literal_simps)
  apply (simp only: list_ex_Nil_iff list_ex_Cons_iff segments_meet.simps controller_defs auth_route_defs
    route_simps literal_simps)
  done

lemma one_controller:
  assumes "set cs = set controllers" and "c \<in> set cs" and "d \<in> set cs"
    and "r \<in> set (ct_routes c)" and "r' \<in> set (ct_routes d)"
    and "handles v xs (c, r)" and "handles v xs (d, r')"
  shows "c = d"
  using clash_free_D [OF controllers_clash_free] handles_clash [OF assms(6,7,4,5)] assms(1-3) by metis

lemma find_append: "find P (xs @ ys) = (case find P xs of None \<Rightarrow> find P ys | Some x \<Rightarrow> Some x)"
  by (induction xs) auto

lemma find_concat_unique:
  assumes "\<And>d y. d \<in> set cs \<Longrightarrow> y \<in> set (f d) \<Longrightarrow> P y \<Longrightarrow> d = c"
    and "c \<in> set cs" and "x \<in> set (f c)" and "P x"
  shows "find P (concat (map f cs)) = find P (f c)"
  using assms(1,2)
proof (induction cs)
  case (Cons a cs)
  have hit: "find P (f c) \<noteq> None" using assms(3,4) by (auto simp: find_None_iff)
  show ?case
  proof (cases "a = c")
    case True
    with hit show ?thesis by (auto simp: find_append)
  next
    case False
    then have "find P (f a) = None" using Cons.prems(1) [of a] by (auto simp: find_None_iff)
    with False Cons show ?thesis by (simp add: find_append)
  qed
qed simp

lemma in_api_routes: "(c, r) \<in> set (api_routes cs) \<longleftrightarrow> c \<in> set cs \<and> r \<in> set (ct_routes c)"
  by (auto simp: api_routes_def)

lemma dispatch_order:
  assumes "mset cs = mset controllers"
  shows "dispatch cs v p = dispatch controllers v p"
proof -
  let ?P = "handles v (request_segments p)"
  have same: "set cs = set controllers" using assms by (rule mset_eq_setD)
  show ?thesis
  proof (cases "\<exists>c \<in> set controllers. \<exists>r \<in> set (ct_routes c). ?P (c, r)")
    case True
    then obtain c r where c: "c \<in> set controllers" "r \<in> set (ct_routes c)" "?P (c, r)" by blast
    have "dispatch ds v p = find ?P (map (Pair c) (ct_routes c))" if "set ds = set controllers" for ds
      unfolding dispatch_def api_routes_def
      by (rule find_concat_unique [where x = "(c, r)"]) (use c that one_controller [OF that] in auto)
    from this [OF same] this [OF refl] show ?thesis by simp
  next
    case False
    then have "dispatch ds v p = None" if "set ds = set controllers" for ds
      using that by (auto simp: dispatch_def find_None_iff in_api_routes)
    from this [OF same] this [OF refl] show ?thesis by simp
  qed
qed

lemma find_Some_D: "find P xs = Some x \<Longrightarrow> x \<in> set xs \<and> P x"
  by (induction xs) (auto split: if_splits)

lemma dispatch_route:
  assumes "dispatch cs v p = Some (c, r)"
  shows "c \<in> set cs" and "r \<in> set (ct_routes c)" and "rt_verb r = v"
    and "segments_match (full_path c r) (request_segments p)"
  using find_Some_D [OF assms [unfolded dispatch_def]] by (auto simp: handles_def in_api_routes)

section \<open>Where a call arrives\<close>

text \<open>
  A call without its arguments: the template of its path and the names of what it sends. An
  argument is plain when no route has it as a literal; ids and tokens, which are longer than every
  literal, are. The two providers of the social sign-in are literals of the callbacks.
\<close>

record shape =
  sh_channel :: channel
  sh_verb :: verb
  sh_url :: "string list"
  sh_holes :: "string list"
  sh_query :: "string list"
  sh_body :: "string list"
  sh_extra :: "string list"

definition shape_of :: "client_call \<Rightarrow> shape" where
  "shape_of q = \<lparr>sh_channel = cc_channel q, sh_verb = cc_verb q, sh_url = cc_url q,
     sh_holes = map (\<lambda>_. ''$'') (cc_args q), sh_query = map fst (cc_query q), sh_body = map fst (cc_body q),
     sh_extra = map fst (cc_extra q)\<rparr>"

definition provider_words :: "string list" where
  "provider_words = [''google'', ''apple'']"

definition route_words :: "string list" where
  "route_words = filter (\<lambda>w. \<not> is_param w \<and> w \<notin> set provider_words)
     (concat (map (\<lambda>cr. full_path (fst cr) (snd cr)) (api_routes controllers)))"

text \<open>
  An argument that stands for itself in a path: of the characters \<^verbatim>\<open>encodeURIComponent\<close> leaves alone
  and percent-decoding too, the unreserved ones of RFC 3986 (a function that interpolates its argument
  raw and one that encodes it send the same), no dot segment, and none of the words of the routes.
\<close>

definition unreserved :: "char \<Rightarrow> bool" where
  "unreserved c \<longleftrightarrow>
     c \<in> set ''abcdefghijklmnopqrstuvwxyzABCDEFGHIJKLMNOPQRSTUVWXYZ0123456789-_.~''"

definition plain_segment :: "string \<Rightarrow> bool" where
  "plain_segment x \<longleftrightarrow> x \<noteq> [] \<and> list_all unreserved x \<and> x \<notin> {''.'', ''..''} \<and> to_lower x \<notin> set route_words"

lemma plain_no_slash: "plain_segment x \<Longrightarrow> CHR ''/'' \<notin> set x"
proof -
  assume "plain_segment x"
  then have "list_all unreserved x" by (simp only: plain_segment_def)
  moreover have "\<not> unreserved CHR ''/''" by code_simp
  ultimately show ?thesis unfolding list_all_iff by blast
qed

fun surely_matches :: "string list \<Rightarrow> string list \<Rightarrow> bool" where
  "surely_matches [] [] = True"
| "surely_matches (p # ps) (w # ws) =
     (if w = ''$'' then is_param p \<and> surely_matches ps ws else \<not> is_param p \<and> p = w \<and> surely_matches ps ws)"
| "surely_matches _ _ = False"

fun maybe_matches :: "string list \<Rightarrow> string list \<Rightarrow> bool" where
  "maybe_matches [] [] = True"
| "maybe_matches (p # ps) (w # ws) =
     (if is_param p \<or> (if w = ''$'' then p \<in> set provider_words else p = w) then maybe_matches ps ws else False)"
| "maybe_matches _ _ = False"

definition literal_ok :: "string \<Rightarrow> bool" where
  "literal_ok w \<longleftrightarrow> (if w = ''$'' then True else w \<noteq> [] \<and> to_lower w = w \<and> list_all (\<lambda>c. c \<noteq> CHR ''/'') w)"

definition body_rules :: "route \<Rightarrow> dto" where
  "body_rules r = (case rt_body r of None \<Rightarrow> [] | Some d \<Rightarrow> d)"

text \<open>No property the client sends is unknown to the rules, and no required one is missing.\<close>

definition body_fits :: "dto \<Rightarrow> string list \<Rightarrow> string list \<Rightarrow> bool" where
  "body_fits d bs es \<longleftrightarrow>
     list_all (\<lambda>k. k \<in> set (map df_name d)) (bs @ es) \<and>
     list_all (\<lambda>f. if df_optional f then True else df_name f \<in> set bs) d"

text \<open>A call that refreshes the session is for a guarded route, one that does not is for a public one.\<close>

definition channel_fits :: "channel \<Rightarrow> guard list \<Rightarrow> bool" where
  "channel_fits ch gs =
     (case ch of Direct \<Rightarrow> gs = [] | Navigation \<Rightarrow> gs = [] | _ \<Rightarrow> (case gs of [] \<Rightarrow> False | g # _ \<Rightarrow> g = JwtAuth))"

definition route_of_shape :: "controller list \<Rightarrow> shape \<Rightarrow> (controller \<times> route) option" where
  "route_of_shape cs h =
     find (\<lambda>cr. if rt_verb (snd cr) = sh_verb h then maybe_matches (full_path (fst cr) (snd cr)) (sh_url h) else False)
       (api_routes cs)"

definition shape_arrives :: "controller list \<Rightarrow> shape \<Rightarrow> bool" where
  "shape_arrives cs h \<longleftrightarrow>
     filter (\<lambda>w. w = ''$'') (sh_url h) = sh_holes h \<and> list_all literal_ok (sh_url h) \<and> sh_url h \<noteq> [] \<and>
     (case route_of_shape cs h of
        None \<Rightarrow> False
      | Some (c, r) \<Rightarrow>
          surely_matches (full_path c r) (sh_url h) \<and> list_all (\<lambda>k. k \<in> set (rt_query r)) (sh_query h) \<and>
          body_fits (body_rules r) (sh_body h) (sh_extra h) \<and> channel_fits (sh_channel h) (route_guards c r))"

text \<open>\<^verbatim>\<open>AuthController\<close> is searched part by part.\<close>

lemma auth_fields:
  "ct_prefix auth_controller = [''auth'']" "ct_guards auth_controller = []"
  "ct_routes auth_controller = auth_session_routes @ auth_account_routes @ auth_recovery_routes @
     auth_factor_routes @ auth_passkey_routes @ auth_social_routes"
  by (simp_all only: auth_controller_def controller_of_def controller.simps)

fun search_parts :: "('a \<Rightarrow> bool) \<Rightarrow> 'a list list \<Rightarrow> 'a option" where
  "search_parts P [] = None"
| "search_parts P (xs # xss) = (case find P xs of None \<Rightarrow> search_parts P xss | Some x \<Rightarrow> Some x)"

lemma search_parts_concat: "search_parts P xss = find P (concat xss)"
  by (induction xss) (auto simp: find_append split: option.split)

lemma auth_search:
  "route_of_shape [auth_controller] h =
     search_parts (\<lambda>cr. if rt_verb (snd cr) = sh_verb h then maybe_matches (full_path (fst cr) (snd cr)) (sh_url h) else False)
       (map (map (Pair auth_controller)) [auth_session_routes, auth_account_routes, auth_recovery_routes,
          auth_factor_routes, auth_passkey_routes, auth_social_routes])"
  by (simp add: route_of_shape_def api_routes_def auth_fields search_parts_concat)

lemma lower_chars:
  "lower_char CHR ''a'' = CHR ''a''" "lower_char CHR ''b'' = CHR ''b''" "lower_char CHR ''c'' = CHR ''c''"
  "lower_char CHR ''d'' = CHR ''d''" "lower_char CHR ''e'' = CHR ''e''" "lower_char CHR ''f'' = CHR ''f''"
  "lower_char CHR ''g'' = CHR ''g''" "lower_char CHR ''h'' = CHR ''h''" "lower_char CHR ''i'' = CHR ''i''"
  "lower_char CHR ''j'' = CHR ''j''" "lower_char CHR ''k'' = CHR ''k''" "lower_char CHR ''l'' = CHR ''l''"
  "lower_char CHR ''m'' = CHR ''m''" "lower_char CHR ''n'' = CHR ''n''" "lower_char CHR ''o'' = CHR ''o''"
  "lower_char CHR ''p'' = CHR ''p''" "lower_char CHR ''q'' = CHR ''q''" "lower_char CHR ''r'' = CHR ''r''"
  "lower_char CHR ''s'' = CHR ''s''" "lower_char CHR ''t'' = CHR ''t''" "lower_char CHR ''u'' = CHR ''u''"
  "lower_char CHR ''v'' = CHR ''v''" "lower_char CHR ''w'' = CHR ''w''" "lower_char CHR ''x'' = CHR ''x''"
  "lower_char CHR ''y'' = CHR ''y''" "lower_char CHR ''z'' = CHR ''z''" "lower_char CHR ''0'' = CHR ''0''"
  "lower_char CHR ''1'' = CHR ''1''" "lower_char CHR ''2'' = CHR ''2''" "lower_char CHR ''3'' = CHR ''3''"
  "lower_char CHR ''4'' = CHR ''4''" "lower_char CHR ''5'' = CHR ''5''" "lower_char CHR ''6'' = CHR ''6''"
  "lower_char CHR ''7'' = CHR ''7''" "lower_char CHR ''8'' = CHR ''8''" "lower_char CHR ''9'' = CHR ''9''"
  "lower_char CHR ''-'' = CHR ''-''" "lower_char CHR ''.'' = CHR ''.''" "lower_char CHR ''$'' = CHR ''$''"
  by code_simp+

lemmas call_defs =
  createLoginRequest_def getLoginRequestStatus_def exchangeLoginRequest_def refreshSession_def
  logoutSession_def loginWithPassword_def registerWithPassword_def forgotPassword_def
  resendPasswordResetCode_def resetPassword_def approveLoginRequestAs_def getMe_def updateProfile_def
  uploadProfilePhoto_def changePassword_def verify2fa_def begin2faSetup_def confirm2faSetup_def disable2fa_def
  beginSmsSetup_def confirmSmsSetup_def disableSms2fa_def sendSmsChallenge_def getMyPasskeys_def
  removeMyPasskey_def beginPasskeyRegistration_def verifyPasskeyRegistration_def beginPasskeyLogin_def
  verifyPasskeyLogin_def getOAuthProviders_def buildOAuthStartUrl_def exchangeOAuthCode_def
  getConnectedAccounts_def unlinkConnectedAccount_def beginConnectOAuthProvider_def
  confirmEmailVerification_def resendEmailVerification_def resendEmailVerificationByEmail_def
  buildLoginDeepLink_def getPublicPassport_def getMembershipTiers_def getMyMembership_def subscribeToTier_def
  cancelMembership_def getMyCryndy_def getMyNdybits_def getMySessions_def revokeSessionById_def
  revokeAllSessions_def getMyDevices_def revokeDeviceById_def getMySecurityEvents_def downloadDataExport_def
  deleteAccount_def getMyTransactions_def getMyDocuments_def downloadDocument_def getMySupportTickets_def
  createSupportTicket_def adminListSupportTickets_def adminReplySupportTicket_def searchAdminUsers_def
  getAdminUserDetail_def createRoleChangeRequest_def listRoleChangeRequests_def approveRoleChangeRequest_def
  rejectRoleChangeRequest_def adminSetSuspended_def getAdminAuditLog_def getOAuthScopeCatalog_def
  listAdminOAuthClients_def createAdminOAuthClient_def setAdminOAuthClientActive_def updateAdminOAuthClient_def
  getOAuthAuthorizeStatus_def submitOAuthConsent_def getConnectedSites_def revokeConnectedSite_def
  getFounderEcosystemOverview_def getFinancialSummary_def getEcosystemOverview_def getMyActivity_def
  requestBusinessWorkspace_def getMyBusinessWorkspaceRequests_def listBusinessWorkspaceMembers_def
  listWorkspaceInvites_def inviteToWorkspace_def revokeWorkspaceInvite_def acceptWorkspaceInvite_def
  getWorkspaceInvitePreview_def requestIdentityVerification_def getMyIdentityVerificationRequests_def
  listIdentityVerificationRequests_def approveIdentityVerificationRequest_def
  rejectIdentityVerificationRequest_def listNotifications_def getNotificationUnreadCount_def
  markNotificationRead_def markAllNotificationsRead_def publicQrUrl_def listQrCodes_def createQrCode_def
  updateQrCode_def deleteQrCode_def getQrAnalytics_def listAllQrCodes_def listMySignatures_def
  createSignatureRequest_def getSignaturePreview_def signDocument_def declineSignature_def
  revokeSignatureRequest_def verifySignature_def listAgentScopes_def listAgentGrants_def grantAgentConsent_def
  revokeAgentConsent_def listMemories_def createMemory_def updateMemory_def deleteMemory_def
  setMemoryEnabled_def getNdyspaceOverview_def getMiniCalendarDates_def listMail_def getMailUnreadCount_def
  getMailItem_def sendMail_def saveMailDraft_def sendMailDraft_def updateMailItem_def deleteMailItem_def
  emptyMailTrash_def listCalendarEvents_def listUpcomingEvents_def createCalendarEvent_def
  updateCalendarEvent_def deleteCalendarEvent_def listDriveFolders_def createDriveFolder_def
  deleteDriveFolder_def listDriveFiles_def listRecentDriveFiles_def uploadDriveFile_def deleteDriveFile_def
  moveDriveFile_def getDriveStorageUsage_def listContacts_def searchContacts_def createContact_def
  updateContact_def deleteContact_def listTasks_def createTask_def updateTask_def setTaskComplete_def
  deleteTask_def listNotes_def createNote_def updateNote_def deleteNote_def listBookmarks_def
  createBookmark_def deleteBookmark_def listNdyspaceNotifications_def getNdyspaceUnreadNotificationCount_def
  markNdyspaceNotificationRead_def markAllNdyspaceNotificationsRead_def UpdateProfileInput_def
  RegisterPassportFields_def CreateNdyQrInput_def UpdateNdyQrInput_def CreateSignatureInput_def
  CreateMemoryInput_def SendMailParams_def SaveDraftParams_def

lemmas rules_defs =
  resolve_approval_rules_def action_origin_rules_def submit_action_rules_def
  create_role_change_request_rules_def review_role_change_request_rules_def suspend_user_rules_def
  apple_callback_rules_def approve_device_request_rules_def change_password_rules_def confirm_email_rules_def
  confirm_sms2fa_rules_def confirm_totp_rules_def create_login_request_rules_def disable_sms2fa_rules_def
  disable_totp_rules_def forgot_password_rules_def login_rules_def oauth_exchange_rules_def
  passkey_login_verify_rules_def passkey_register_verify_rules_def refresh_rules_def register_rules_def
  resend_verification_rules_def reset_password_rules_def send_sms_challenge_rules_def sms2fa_setup_rules_def
  update_profile_rules_def verify2fa_rules_def grant_ai_agent_consent_rules_def
  cryndy_purchase_webhook_rules_def report_ecosystem_event_rules_def delete_account_rules_def
  create_identity_verification_request_rules_def review_identity_verification_request_rules_def
  create_user_rules_def backup_alert_rules_def internal_notify_rules_def subscribe_rules_def
  create_memory_rules_def update_memory_rules_def check_eligibility_rules_def create_bridge_request_rules_def
  report_event_rules_def create_ndyqr_rules_def update_ndyqr_rules_def create_bookmark_rules_def
  create_calendar_event_rules_def update_calendar_event_rules_def create_contact_rules_def
  update_contact_rules_def create_drive_folder_rules_def move_drive_file_rules_def send_email_rules_def
  save_draft_rules_def send_draft_rules_def update_email_recipient_rules_def create_note_rules_def
  update_note_rules_def create_task_rules_def update_task_rules_def consent_rules_def create_client_rules_def
  begin_cross_product_passkey_registration_rules_def verify_cross_product_passkey_registration_rules_def
  begin_cross_product_passkey_login_rules_def verify_cross_product_passkey_login_rules_def token_rules_def
  update_client_rules_def signature_signer_rules_def create_signature_request_rules_def sign_document_rules_def
  create_support_ticket_rules_def reply_support_ticket_rules_def accept_workspace_invite_rules_def
  create_business_workspace_request_rules_def create_workspace_invite_rules_def
  review_business_workspace_request_rules_def

lemmas shape_simps =
  shape_of_def request_def api_fetch_call_def authed_fetch_call_def with_query_def with_json_def given_def client_call.simps
  shape.simps list.map fst_conv snd_conv

lemmas arrival_simps =
  shape_arrives_def concat.simps find.simps filter.simps maybe_matches.simps
  surely_matches.simps literal_ok_def to_lower_def lower_chars body_rules_def body_fits_def channel_fits_def
  route_guards_def provider_words_def list.set insert_iff empty_iff list_all_Nil_iff list_all_Cons_iff
  option.case channel.case req_def opt_def dto_field.simps option.inject
  option.distinct

lemma session_calls_arrive:
  "session_call q \<Longrightarrow> shape_arrives [auth_controller] (shape_of q)"
  by (induction rule: session_call.induct)
    (simp_all only: call_defs shape_simps arrival_simps auth_search search_parts.simps auth_fields auth_route_defs
      route_simps literal_simps rules_defs)

lemma factor_calls_arrive:
  "factor_call q \<Longrightarrow> shape_arrives [auth_controller] (shape_of q)"
  by (induction rule: factor_call.induct)
    (simp_all only: call_defs shape_simps arrival_simps auth_search search_parts.simps auth_fields auth_route_defs
      route_simps literal_simps rules_defs)

lemma identity_calls_arrive:
  "identity_call q \<Longrightarrow> shape_arrives [auth_controller] (shape_of q)"
  by (induction rule: identity_call.induct)
    (simp_all only: call_defs shape_simps arrival_simps auth_search search_parts.simps auth_fields auth_route_defs
      route_simps literal_simps rules_defs)

lemma account_calls_arrive:
  "account_call q \<Longrightarrow> shape_arrives [identity_controller, membership_controller, cryndy_controller, ndybits_controller, security_controller, security_devices_controller, security_events_controller] (shape_of q)"
  by (induction rule: account_call.induct)
    (simp_all only: call_defs shape_simps arrival_simps route_of_shape_def api_routes_def controller_defs
      route_simps literal_simps rules_defs)

lemma record_calls_arrive:
  "record_call q \<Longrightarrow> shape_arrives [gdpr_controller, transactions_controller, documents_controller, support_controller] (shape_of q)"
  by (induction rule: record_call.induct)
    (simp_all only: call_defs shape_simps arrival_simps route_of_shape_def api_routes_def controller_defs
      route_simps literal_simps rules_defs)

lemma admin_calls_arrive:
  "admin_call q \<Longrightarrow> shape_arrives [support_admin_controller, admin_controller, role_change_request_controller, oauth_client_admin_controller] (shape_of q)"
  by (induction rule: admin_call.induct)
    (simp_all only: call_defs shape_simps arrival_simps route_of_shape_def api_routes_def controller_defs
      route_simps literal_simps rules_defs)

lemma consent_calls_arrive:
  "consent_call q \<Longrightarrow> shape_arrives [authorize_controller, grants_controller, founder_controller, ecosystem_controller, activity_controller] (shape_of q)"
  by (induction rule: consent_call.induct)
    (simp_all only: call_defs shape_simps arrival_simps route_of_shape_def api_routes_def controller_defs
      route_simps literal_simps rules_defs)

lemma business_calls_arrive:
  "business_call q \<Longrightarrow> shape_arrives [business_workspace_controller, workspace_team_controller, workspace_invite_accept_controller, identity_verification_controller] (shape_of q)"
  by (induction rule: business_call.induct)
    (simp_all only: call_defs shape_simps arrival_simps route_of_shape_def api_routes_def controller_defs
      route_simps literal_simps rules_defs)

lemma qr_calls_arrive:
  "qr_call q \<Longrightarrow> shape_arrives [notification_controller, ndyqr_redirect_controller, ndyqr_controller] (shape_of q)"
  by (induction rule: qr_call.induct)
    (simp_all only: call_defs shape_simps arrival_simps route_of_shape_def api_routes_def controller_defs
      route_simps literal_simps rules_defs)

lemma signature_calls_arrive:
  "signature_call q \<Longrightarrow> shape_arrives [signature_controller, context_broker_controller, memory_controller] (shape_of q)"
  by (induction rule: signature_call.induct)
    (simp_all only: call_defs shape_simps arrival_simps route_of_shape_def api_routes_def controller_defs
      route_simps literal_simps rules_defs)

lemma mail_calls_arrive:
  "mail_call q \<Longrightarrow> shape_arrives [ndyspace_overview_controller, ndyspace_mail_controller] (shape_of q)"
  by (induction rule: mail_call.induct)
    (simp_all only: call_defs shape_simps arrival_simps route_of_shape_def api_routes_def controller_defs
      route_simps literal_simps rules_defs)

lemma drive_calls_arrive:
  "drive_call q \<Longrightarrow> shape_arrives [ndyspace_calendar_controller, ndyspace_drive_controller] (shape_of q)"
  by (induction rule: drive_call.induct)
    (simp_all only: call_defs shape_simps arrival_simps route_of_shape_def api_routes_def controller_defs
      route_simps literal_simps rules_defs)

lemma contact_calls_arrive:
  "contact_call q \<Longrightarrow> shape_arrives [ndyspace_contacts_controller, ndyspace_tasks_controller] (shape_of q)"
  by (induction rule: contact_call.induct)
    (simp_all only: call_defs shape_simps arrival_simps route_of_shape_def api_routes_def controller_defs
      route_simps literal_simps rules_defs)

lemma note_calls_arrive:
  "note_call q \<Longrightarrow> shape_arrives [ndyspace_notes_controller, ndyspace_bookmarks_controller, ndyspace_notifications_controller] (shape_of q)"
  by (induction rule: note_call.induct)
    (simp_all only: call_defs shape_simps arrival_simps route_of_shape_def api_routes_def controller_defs
      route_simps literal_simps rules_defs)

end
