(* ===== verification/Arrivals.thy ===== *)
theory Arrivals
  imports Routing
begin

text \<open>
  From the shape of a call to the request it becomes: what Routing checks of the finitely many shapes
  holds of the requests they stand for, in whatever order the controllers are registered.
\<close>

section \<open>From the shape to the request\<close>


lemma fill_Nil_iff [simp]: "fill ws xs = [] \<longleftrightarrow> ws = []"
  by (cases ws) (auto split: list.splits)

lemma segments_match_Nil [simp]: "segments_match [] xs \<longleftrightarrow> xs = []"
  by (cases xs) simp_all






lemma dispatch_within:
  assumes "set ds \<subseteq> set controllers" and "find (handles v (request_segments p)) (api_routes ds) = Some (c, r)"
    and "mset cs = mset controllers"
  shows "dispatch cs v p = Some (c, r)"
proof -
  let ?P = "handles v (request_segments p)"
  from find_Some_D [OF assms(2)] have c: "c \<in> set ds" "r \<in> set (ct_routes c)" "?P (c, r)"
    by (auto simp: in_api_routes)
  have "find ?P (api_routes es) = find ?P (map (Pair c) (ct_routes c))"
    if "set es \<subseteq> set controllers" "c \<in> set es" for es
    unfolding api_routes_def
  proof (rule find_concat_unique [where x = "(c, r)"])
    fix d y assume d: "d \<in> set es" "y \<in> set (map (Pair d) (ct_routes d))" "?P y"
    then obtain r' where r': "y = (d, r')" "r' \<in> set (ct_routes d)" by auto
    show "d = c"
      by (rule one_controller [OF refl _ _ r'(2) c(2) _ c(3)]) (use d r' that in auto)
  qed (use c that in auto)
  from this [OF assms(1) c(1)] this [OF subset_refl] show ?thesis
    using c(1) assms unfolding dispatch_order [OF assms(3)] by (auto simp: dispatch_def)
qed



section \<open>Every call of the web application arrives\<close>



section \<open>What the guards of the routes say\<close>

definition public_handlers :: "(string \<times> string) list" where
  "public_handlers =
    [(''AppController'', ''getHealth''), (''AuthController'', ''register''), (''AuthController'', ''login''),
     (''AuthController'', ''refresh''), (''AuthController'', ''logout''),
     (''AuthController'', ''createLoginRequest''), (''AuthController'', ''getLoginRequestStatus''),
     (''AuthController'', ''exchangeLoginRequest''), (''AuthController'', ''getDeviceApprovalStatus''),
     (''AuthController'', ''confirmEmailVerification''),
     (''AuthController'', ''resendEmailVerificationByEmail''), (''AuthController'', ''forgotPassword''),
     (''AuthController'', ''resetPassword''), (''AuthController'', ''resendPasswordResetCode''),
     (''AuthController'', ''verify2fa''), (''AuthController'', ''sendSms2faChallenge''),
     (''AuthController'', ''beginPasskeyLogin''), (''AuthController'', ''verifyPasskeyLogin''),
     (''AuthController'', ''getOAuthProviders''), (''AuthController'', ''beginOAuth''),
     (''AuthController'', ''googleCallback''), (''AuthController'', ''appleCallback''),
     (''AuthController'', ''exchangeOAuthLogin''), (''EcosystemController'', ''getOverview''),
     (''IdentityController'', ''getPublicPassport''), (''MembershipController'', ''getTiers''),
     (''StripeWebhookController'', ''handle''), (''NdyQrRedirectController'', ''resolve''),
     (''NdyQrRedirectController'', ''imageSvg''), (''NdyQrRedirectController'', ''imagePng''),
     (''AuthorizeController'', ''authorize''), (''CrossProductPasskeyController'', ''beginRegistration''),
     (''CrossProductPasskeyController'', ''verifyRegistration''),
     (''CrossProductPasskeyController'', ''beginLogin''),
     (''CrossProductPasskeyController'', ''verifyLogin''), (''DiscoveryController'', ''discover''),
     (''DiscoveryController'', ''jwks''), (''TokenController'', ''token''),
     (''SignatureController'', ''verify'')]"

definition closed_at :: "string \<Rightarrow> guard list \<Rightarrow> route \<Rightarrow> bool" where
  "closed_at n gs r \<longleftrightarrow> (if gs @ rt_guards r = [] then (n, rt_handler r) \<in> set public_handlers else True)"

text \<open>The routes for the staff: those that declare a permission, and all below \<^verbatim>\<open>/admin\<close> and \<^verbatim>\<open>/founder\<close>.\<close>

definition staff_at :: "string list \<Rightarrow> permission option \<Rightarrow> route \<Rightarrow> bool" where
  "staff_at ps perm r \<longleftrightarrow>
     (if rt_permission r = None then perm \<noteq> None \<or> take 1 (ps @ rt_path r) \<in> {[''admin''], [''founder'']} else True)"

definition staff_route :: "controller \<Rightarrow> route \<Rightarrow> bool" where
  "staff_route c r = staff_at (ct_prefix c) (ct_permission c) r"

definition guarded_at :: "string list \<Rightarrow> guard list \<Rightarrow> permission option \<Rightarrow> route \<Rightarrow> bool" where
  "guarded_at ps gs perm r \<longleftrightarrow>
     (if staff_at ps perm r
      then (if rt_permission r = None then perm \<noteq> None else True) \<and> gs @ rt_guards r = [JwtAuth, PermissionCheck]
      else True)"

lemmas guard_table_simps =
  controllers_def controller_defs auth_route_defs route_simps list_all_Nil_iff list_all_Cons_iff option.case
  option.distinct

lemma every_route_closed:
  "list_all (\<lambda>c. list_all (closed_at (ct_name c) (ct_guards c)) (ct_routes c)) controllers"
  by (simp add: guard_table_simps closed_at_def public_handlers_def)

lemma every_staff_route_guarded:
  "list_all (\<lambda>c. list_all (guarded_at (ct_prefix c) (ct_guards c) (ct_permission c)) (ct_routes c)) controllers"
  by (simp add: guard_table_simps guarded_at_def staff_at_def)

lemma dispatch_registered:
  assumes "mset cs = mset controllers" and "dispatch cs v p = Some (c, r)"
  shows "c \<in> set controllers \<and> r \<in> set (ct_routes c)"
  using find_Some_D [OF assms(2) [unfolded dispatch_def]] mset_eq_setD [OF assms(1)] by (simp add: in_api_routes)

lemma receive_refuses:
  assumes "dispatch cs v p = Some (c, r)"
    and "run_guards E secret q (bind_params (full_path c r) (request_segments p)) c r (route_guards c r) None s = Inl e"
  shows "receive E secret chk cs q v p b s = Inl (Refused e)"
  using assms by (simp add: receive_def Let_def)

lemma receive_hands_over:
  assumes "dispatch cs v p = Some (c, r)" and "ps = bind_params (full_path c r) (request_segments p)"
    and "run_guards E secret q ps c r (route_guards c r) None s = Inr who" and "validation_pipe chk (body_rules r) b = Inr b'"
  shows "receive E secret chk cs q v p b s = Inr ((c, r), who, ps, b')"
  using assms by (simp add: receive_def body_rules_def Let_def)

section \<open>Callers without credentials\<close>

definition anonymous :: "incoming \<Rightarrow> bool" where
  "anonymous q \<longleftrightarrow> hq_access q = None \<and> hq_authorization q = None \<and> in_secret q = None \<and> in_signature q = None"

lemma scoped_client_guard_anonymous:
  "\<exists>e. scoped_client_guard E m sc None s = Inl e \<and> http_status e \<in> {401, 403}"
  by (simp add: scoped_client_guard_def client_credentials_def)

lemma run_guard_anonymous:
  assumes "anonymous q"
  shows "\<exists>e. run_guard E secret q ps c r g None s = Inl e \<and> http_status e \<in> {401, 403}"
proof -
  have scoped: "\<exists>e. pass None (scoped_client_guard E m sc None s) = Inl e \<and> http_status e \<in> {401, 403}" for m sc
    using scoped_client_guard_anonymous [of E m sc s] by (auto simp: pass_def)
  show ?thesis
    using assms scoped
    by (cases g)
       (auto simp: anonymous_def economy_client_guard_def ecosystem_event_client_guard_def ndyqr_client_guard_def
          pass_def jwt_auth_guard_def extract_bearer_token_def permission_guard_def workspace_guard_def
          oauth_access_token_guard_def internal_secret_guard_def cryndy_signature_guard_def Let_def
          split: option.splits prod.splits)
qed

text \<open>
  C39. closed by default. Whatever the order of the controllers, a request without an access token,
  client credentials, internal secret or webhook signature that is dispatched to a handler other than
  the 39 public ones is refused with 401 or 403 before anything of its body is read, in every state.
\<close>

theorem closed_by_default:
  assumes "mset cs = mset controllers" and "dispatch cs v p = Some (c, r)"
    and "(ct_name c, rt_handler r) \<notin> set public_handlers" and "anonymous q"
  shows "\<exists>e. receive E secret chk cs q v p b s = Inl (Refused e) \<and> http_status e \<in> {401, 403}"
proof -
  from dispatch_registered [OF assms(1,2)] every_route_closed
  have "closed_at (ct_name c) (ct_guards c) r" by (auto simp: list_all_iff)
  with assms(3) have "route_guards c r \<noteq> []" by (auto simp: closed_at_def route_guards_def)
  then obtain g gs where gs: "route_guards c r = g # gs" by (cases "route_guards c r") auto
  obtain e where "run_guard E secret q (bind_params (full_path c r) (request_segments p)) c r g None s = Inl e"
      "http_status e \<in> {401, 403}"
    using run_guard_anonymous [OF assms(4)] by blast
  with assms(2) gs show ?thesis by (simp add: receive_def Let_def)
qed

definition demo_incoming :: "string option \<Rightarrow> incoming" where
  "demo_incoming tok = \<lparr>hq_access = tok, hq_refresh = None, hq_authorization = None, hq_ip = None, hq_agent = None,
     hq_device = None, in_secret = None, in_signature = None, in_raw_body = None\<rparr>"

definition search_users_route :: route where
  "search_users_route = hd (ct_routes admin_controller)"

lemma search_users_dispatch:
  "dispatch (rev controllers) GET ''/admin/users'' = Some (admin_controller, search_users_route)"
proof (rule dispatch_within)
  show "set [admin_controller] \<subseteq> set controllers" by (simp add: controllers_def)
  show "find (handles GET (request_segments ''/admin/users'')) (api_routes [admin_controller])
      = Some (admin_controller, search_users_route)"
    by (simp add: search_users_route_def admin_controller_def route_simps api_routes_def handles_def
        request_segments_def to_lower_def lower_chars is_param_def Let_def)
qed simp

theorem closed_by_default_witness:
  "\<exists>e. receive (demo_env 5) None (\<lambda>_ _. True) (rev controllers) (demo_incoming None) GET ''/admin/users'' [] demo_db
     = Inl (Refused e) \<and> http_status e \<in> {401, 403}"
  by (rule closed_by_default [OF _ search_users_dispatch])
     (simp_all add: admin_controller_def search_users_route_def route_simps public_handlers_def anonymous_def
        demo_incoming_def)

section \<open>Staff routes\<close>

text \<open>
  C40. the staff routes need a role. A handler that declares a permission, or is below \<^verbatim>\<open>/admin\<close> or
  \<^verbatim>\<open>/founder\<close>, is reached by an authenticated account only whose role in the database grants the
  permission the route requires; no ordinary account reaches one.
\<close>

theorem staff_routes_need_a_role:
  assumes "mset cs = mset controllers" and "receive E secret chk cs q v p b s = Inr ((c, r), who, ps, b')"
    and "staff_route c r"
  shows "\<exists>i u perm. who = Some i \<and> required_permission c r = Some perm \<and> find_user i s = Some u \<and>
           role_has_permission (u_role u) perm \<and> u_role u \<noteq> USER"
proof -
  from assms(2) have "dispatch cs v p = Some (c, r)"
    and run: "run_guards E secret q (bind_params (full_path c r) (request_segments p)) c r (route_guards c r) None s = Inr who"
    by (auto simp: receive_def Let_def split: option.splits sum.splits)
  from dispatch_registered [OF assms(1) this(1)] every_staff_route_guarded
  have "guarded_at (ct_prefix c) (ct_guards c) (ct_permission c) r" by (auto simp: list_all_iff)
  with assms(3) have "route_guards c r = [JwtAuth, PermissionCheck]"
    by (simp add: guarded_at_def staff_route_def route_guards_def split: if_splits)
  with run obtain i where "who = Some i" "permission_guard (required_permission c r) (Some i) s = Inr ()"
    by (auto simp: pass_def map_sum_def split: sum.splits)
  moreover have "u_role u \<noteq> USER" if "role_has_permission (u_role u) perm" for u perm
    using that by (auto simp: role_has_permission_def)
  ultimately show ?thesis
    by (auto simp: permission_guard_def split: option.splits if_splits)
qed

theorem staff_routes_need_a_role_witness:
  "\<exists>i u perm. Some ''a1'' = Some i \<and> required_permission admin_controller search_users_route = Some perm \<and>
     find_user i demo_db = Some u \<and> role_has_permission (u_role u) perm \<and> u_role u \<noteq> USER"
proof (rule staff_routes_need_a_role)
  show "receive (demo_env 5) None (\<lambda>_ _. True) (rev controllers) (demo_incoming (Some ''a1'')) GET ''/admin/users'' []
      demo_db = Inr ((admin_controller, search_users_route), Some ''a1'', [], [])"
    by (rule receive_hands_over [OF search_users_dispatch]) code_simp+
qed (simp_all add: staff_route_def staff_at_def admin_controller_def search_users_route_def route_simps)

text \<open>
  The page of a member's own workspace requests asks the list of all requests, which is for those
  who manage roles: every ordinary member is refused, and a manager is shown everybody's.
\<close>

lemma my_requests_need_a_manager:
  "\<exists>r. dispatch controllers GET (call_path getMyBusinessWorkspaceRequests) = Some (business_workspace_controller, r) \<and>
     required_permission business_workspace_controller r = Some MANAGE_ROLES \<and>
     receive (demo_env 5) None (\<lambda>_ _. True) controllers (demo_incoming (Some ''m1'')) GET
       (call_path getMyBusinessWorkspaceRequests) [] demo_db
     = Inl (Refused (Forbidden ''Missing required permission: MANAGE_ROLES.''))"
proof -
  let ?r = "ct_routes business_workspace_controller ! 1"
  have path: "call_path getMyBusinessWorkspaceRequests = ''/business-workspaces/requests''"
    by code_simp
  have there: "dispatch controllers GET ''/business-workspaces/requests'' = Some (business_workspace_controller, ?r)"
  proof (rule dispatch_within)
    show "set [business_workspace_controller] \<subseteq> set controllers" by (simp add: controllers_def)
    show "find (handles GET (request_segments ''/business-workspaces/requests'')) (api_routes [business_workspace_controller])
        = Some (business_workspace_controller, ?r)"
      by (simp add: business_workspace_controller_def route_simps api_routes_def handles_def
          request_segments_def to_lower_def lower_chars is_param_def Let_def)
  qed simp
  have perm: "required_permission business_workspace_controller ?r = Some MANAGE_ROLES"
    by code_simp
  have "receive (demo_env 5) None (\<lambda>_ _. True) controllers (demo_incoming (Some ''m1'')) GET
      ''/business-workspaces/requests'' [] demo_db
      = Inl (Refused (Forbidden ''Missing required permission: MANAGE_ROLES.''))"
    by (rule receive_refuses [OF there]) code_simp
  with there perm show ?thesis unfolding path by blast
qed

section \<open>Calls of the web application\<close>





text \<open>
  The bindings of NDYSPACE do not send the device id of the browser. When one of its pages refreshes the
  session, the new session belongs to no device: signing the device out leaves it open.
\<close>

lemma space_refresh_escapes_revocation:
  "succeeds (rotate_session (demo_env 5) ''tok'' no_meta
        (demo_db\<lparr>devices := [demo_device ''d1'' ''m1''], sessions := [demo_session ''s1'' ''m1'' ''tok'' (Some ''d1'')]\<rparr>)) \<and>
   map (\<lambda>x. (s_device x, session_open x))
     (sessions (snd (revoke_device (demo_env 6) ''m1'' ''d1'' (snd (rotate_session (demo_env 5) ''tok'' no_meta
        (demo_db\<lparr>devices := [demo_device ''d1'' ''m1''], sessions := [demo_session ''s1'' ''m1'' ''tok'' (Some ''d1'')]\<rparr>))))))
   = [(Some ''d1'', False), (None, True)]"
  by code_simp

end
