(* ===== verification/Spec2Isabelle.thy ===== *)
theory Spec2Isabelle
  imports LoginRequests AppTokens Codecs WaysIn EventFeed Payments Signing Privacy Approvals QrCodes WebClient Bridge Care Arrivals
begin

text \<open>
  NDY HUB: one account ("NDY Passport") for a family of products.  The program is a NestJS API over
  a PostgreSQL database (\<^verbatim>\<open>apps/api\<close>) and a Next.js front end (\<^verbatim>\<open>apps/web\<close>).  All state that
  matters lives in the database; every request is handled by a service method that reads and
  writes rows through Prisma.  This development models the services and their tables.  Source
  paths below are relative to \<^verbatim>\<open>apps/api/src\<close>.

  \<^bold>\<open>How a service becomes a definition.\<close>  Theory Schema has one record per model and one datatype
  per enum of \<^verbatim>\<open>prisma/schema.prisma\<close>, and the record \<^verbatim>\<open>db\<close> of all tables; a table is the list
  of its rows in the order of insertion.  A handler is a function \<^verbatim>\<open>env => arguments => db =>
  (http_error + 'a) * db\<close>: the left summand is the Nest exception (theory Prelude has the
  exceptions and the sequencing combinator \<^verbatim>\<open>and_then\<close>), the state is the database after the
  call, kept also when the call fails, because the services do not roll back what they wrote before
  throwing except inside \<^verbatim>\<open>$transaction\<close>.  Theory Tables has the queries the services use
  (\<^verbatim>\<open>findFirst\<close>, \<^verbatim>\<open>count\<close>, \<^verbatim>\<open>updateMany\<close>, \<^verbatim>\<open>deleteMany\<close>), unique columns and the locale
  \<^verbatim>\<open>row_history\<close> of tables whose rows only move forward.  Theory Env is the world outside: the
  clock, freshly drawn ids and secrets, hashes, bcrypt, JWT signing, AES-GCM, WebAuthn, the social
  providers, Stripe, Twilio; each is a field of the record \<^verbatim>\<open>env\<close>, so every theorem holds for
  any of them, and \<^verbatim>\<open>demo_env\<close> is a concrete one for the witnesses.  One handler runs at a time
  (interleavings inside a handler are not modelled); a theorem about the system quantifies over
  all sequences of operations, each with its own environment.

  \<^bold>\<open>Contracts.\<close>  Theory Contracts states as locales the promises that several services make:
  invariants over runs (\<^verbatim>\<open>invariant_system\<close>), credentials that work once (\<^verbatim>\<open>single_use\<close>) or once
  per issue (\<^verbatim>\<open>issued_credentials\<close>), reports that may be delivered twice
  (\<^verbatim>\<open>idempotent_intake\<close>), requests decided by a second person (\<^verbatim>\<open>review_once\<close>).  Every component
  interprets the ones it promises on its own operations.

  \<^bold>\<open>The parts.\<close>

  \<^item> NdyId: \<^verbatim>\<open>common/ndy-id.util.ts\<close>,
    \<^verbatim>\<open>common/ndy-core-id.util.ts\<close>: the permanent core id and the
    displayed NDY ID derived from it and the role.
  \<^item> Rbac: \<^verbatim>\<open>common/permissions.ts\<close>, the permission guard,
    \<^verbatim>\<open>admin/\<close>: roles, the two-person role change, suspension, audit log.
    No role changes without two people; nobody becomes an administrator without a founder; API
    and web agree on permissions.
  \<^item> Notifications: \<^verbatim>\<open>notifications/notification.service.ts\<close>:
    notify once per source id, read state, HTML escaping.
  \<^item> DeviceApproval: \<^verbatim>\<open>auth/device-approval.service.ts\<close>.
  \<^item> Sessions: \<^verbatim>\<open>auth/session.service.ts\<close>,
    \<^verbatim>\<open>auth/device.service.ts\<close>,
    \<^verbatim>\<open>auth/security-event.service.ts\<close>: refresh-token rotation,
    revocation, trusted devices, login history.
  \<^item> Workspaces: \<^verbatim>\<open>workspace/\<close>: personal and business workspaces,
    membership, invites, ownership.
  \<^item> Trust: \<^verbatim>\<open>trust/\<close> and
    \<^verbatim>\<open>identity-verification/\<close>: the trust score and the review of
    identity documents.
  \<^item> Identity: \<^verbatim>\<open>identity/\<close>: accounts, the resolution of NDY IDs,
    the public passport.
  \<^item> Codecs: \<^verbatim>\<open>common/otplib-node-plugins.ts\<close> (base32 over 8-bit
    words) and the envelopes of encrypted secrets.
  \<^item> TwoFactor, Auth: \<^verbatim>\<open>auth/totp.service.ts\<close>,
    \<^verbatim>\<open>auth/sms-2fa.service.ts\<close>,
    \<^verbatim>\<open>auth/auth.service.ts\<close>: registration, login with a second factor,
    password reset, e-mail verification.
  \<^item> LoginRequests: the QR and deep-link login of
    \<^verbatim>\<open>auth/auth.service.ts\<close>.
  \<^item> OAuth, AppTokens: \<^verbatim>\<open>oauth/\<close>: client registry, authorize,
    consent, the token endpoint with its grants, refresh families, connected apps.
  \<^item> Passkeys, Social, SignIn, WaysIn: \<^verbatim>\<open>auth/passkey.service.ts\<close>,
    \<^verbatim>\<open>oauth/cross-product-passkey.controller.ts\<close>,
    \<^verbatim>\<open>auth/social-auth.service.ts\<close>: ceremonies and callbacks, their
    tickets, where every passkey and provider identity comes from.
  \<^item> Rewards, EventFeed: \<^verbatim>\<open>ndybits/\<close>,
    \<^verbatim>\<open>ecosystem-event/\<close> and the client guards: the ledger implements the
    rules, the daily limit, the event feed.
  \<^item> Economy, Payments: \<^verbatim>\<open>cryndy/\<close>,
    \<^verbatim>\<open>membership/\<close>: purchases and their lifecycle, memberships, the
    Stripe webhook.
  \<^item> Signature, Signing: \<^verbatim>\<open>signature/\<close>: requests with one slot per
    signer, signing links, the attestation of a signature; a link is used once, a request leaves
    PENDING once, every signature is backed by its slot.
  \<^item> Space, Isolation: \<^verbatim>\<open>ndyspace/\<close> except mail: calendar,
    contacts, tasks, notes, bookmarks, feed and drive.  The locale
    \<^verbatim>\<open>owned_table\<close> is the contract of a table of rows with an owner; the
    drive keeps its quota.
  \<^item> Actions, Approvals: \<^verbatim>\<open>context-broker/\<close> and
    \<^verbatim>\<open>action-engine/\<close>: consent of AI agents, the registry, the pipeline
    of a request, approvals and the action log; what is executed is authorised, the log is
    complete, refusals change nothing.
  \<^item> QrCodes: \<^verbatim>\<open>ndyqr/\<close>: codes with a permanent short link, the
    public redirect, scans and statistics; a printed code stays valid until its owner removes
    it, and scans are counted exactly.
  \<^item> AuthRoutes, WebClient: \<^verbatim>\<open>auth/auth.controller.ts\<close>,
    \<^verbatim>\<open>auth/session-cookie.interceptor.ts\<close>, and in
    \<^verbatim>\<open>apps/web/src/lib\<close> \<^verbatim>\<open>api.ts\<close>,
    \<^verbatim>\<open>auth-context.tsx\<close>,
    \<^verbatim>\<open>use-login-request.ts\<close>: the account routes over the services, the
    session cookies, and the browser with its cookies.  Each cookie a route sets opens a
    session; a page with any number of calls under way keeps its session, and its calls end.
  \<^item> Bridge: \<^verbatim>\<open>ndy-economy/bridge-eligibility.service.ts\<close>,
    \<^verbatim>\<open>ndy-economy/bridge-request.service.ts\<close>: conversion requests,
    decided and never executed; the daily cap holds.
  \<^item> Care: \<^verbatim>\<open>memory/\<close>, \<^verbatim>\<open>support/\<close>,
    \<^verbatim>\<open>gdpr/\<close>: personal memory, support tickets, data export and the
    deletion of an account; replies are on record, a deleted account is closed.
  \<^item> Http, Dtos, Routes: \<^verbatim>\<open>main.ts\<close>,
    \<^verbatim>\<open>app.module.ts\<close>, every controller and every DTO: the table of the
    routes with their guards, permissions and body rules, and what happens to a request before
    its handler: matching, guards, validation.
  \<^item> ApiClient, Routing, Arrivals: \<^verbatim>\<open>apps/web/src/lib/api.ts\<close> and
    \<^verbatim>\<open>ndyspace-api.ts\<close>: one definition per binding, the request it
    sends.  The order of the controllers does not matter, every call arrives at a handler that
    takes all of it, what is not listed as public is closed to a caller without credentials,
    staff routes need a role.
  \<^item> Mail, Mailbox, Privacy: \<^verbatim>\<open>ndyspace/ndyspace-mail.service.ts\<close>:
    delivery to every addressee.  Privacy puts mail and the other modules together: what others
    can change of what an account sees, and what is final about delivered mail.

  \<^bold>\<open>Bounds and fuel.\<close>  Retry loops (invite codes, core ids, purchase references) recurse on the
  number of attempts left, with the constants of the code.  The consumer of the event feed takes
  one unit of fuel per page; \<^verbatim>\<open>feed_is_complete\<close> shows that one page more than the number of
  events is enough.  Times are integers (milliseconds); amounts are integers in the unit of the
  last decimal place of their column; strings are character lists, and the non-ASCII characters of
  messages are written in ASCII.

  \<^bold>\<open>Not modelled.\<close>

  \<^item> the pages and components of the web application: they render what the API answers;
    modelled of it are the permission table, the session client and the API bindings;
  \<^item> the read-only reports (activity, transactions, documents, founder and ecosystem
    overviews, user search): aggregations over tables whose writers are modelled;
  \<^item> percent-encoding of paths, the body parser and the counting of the throttler:
    requests are taken as they reach the guards;
  \<^item> rendering (PDF passports, QR images, mail templates), file storage, geo-IP lookup,
    the price feeds: input/output without state of the program;
  \<^item> modules and boot code of NestJS, generated Prisma code, migrations and seed scripts;
  \<^item> interleavings inside one handler: two requests that race between a read and a write
    of the same row are not modelled, and the findings say where the code relies on a guard for
    them.

  What modelling showed to be wrong in the code is proved beside the component concerned, as a
  lemma on a concrete or general run.
\<close>

end
